(* ===== verification/Prelude.thy ===== *)
theory Prelude
  imports Main "HOL-Library.Word"
begin

text \<open>
  Shared vocabulary of the development: Go's fixed-width integers as words, byte slices as
  lists of bytes, the big-endian conversions of \<^verbatim>\<open>math/big\<close>, the 32-byte hashes and 20-byte
  addresses of \<^verbatim>\<open>src/go-ethereum/common/types.go\<close>, the slice helpers of
  \<^verbatim>\<open>src/go-ethereum/common/bytes.go\<close>, and the sequencing of calls that return an error.

  A Go array type \<^verbatim>\<open>[32]byte\<close> or \<^verbatim>\<open>[20]byte\<close> is the word of the same width, read big-endian: the
  type fixes the length, equality is equality of arrays, and \<^verbatim>\<open>bytes.Compare\<close> on arrays of one
  length is the numeric order.
\<close>

section \<open>Types\<close>

type_synonym byte = "8 word"
type_synonym bytes = "byte list"
type_synonym u64 = "64 word"
type_synonym u256 = "256 word"
type_synonym Hash = "256 word"
type_synonym Address = "160 word"

named_theorems go_simps \<open>unfolding rules of the Go primitives\<close>
named_theorems be_simps \<open>big-endian conversions\<close>

section \<open>Calls that may fail\<close>

text \<open>\<open>Inl\<close> carries the error, \<open>Inr\<close> the value: \<open>if err != nil { return err }\<close> is \<open>ebind\<close>.\<close>

definition ebind :: "'e + 'a \<Rightarrow> ('a \<Rightarrow> 'e + 'b) \<Rightarrow> 'e + 'b" where
  "ebind r f = (case r of Inl e \<Rightarrow> Inl e | Inr x \<Rightarrow> f x)"

definition wrap_err :: "('e \<Rightarrow> 'f) \<Rightarrow> 'e + 'a \<Rightarrow> 'f + 'a" where
  "wrap_err w r = (case r of Inl e \<Rightarrow> Inl (w e) | Inr x \<Rightarrow> Inr x)"

fun mapE :: "('a \<Rightarrow> 'e + 'b) \<Rightarrow> 'a list \<Rightarrow> 'e + 'b list" where
  "mapE f [] = Inr []"
| "mapE f (x # xs) = ebind (f x) (\<lambda>y. ebind (mapE f xs) (\<lambda>ys. Inr (y # ys)))"

lemma ebind_simps [simp]: "ebind (Inl e) f = Inl e" "ebind (Inr x) f = f x"
  by (simp_all add: ebind_def)

lemma wrap_err_simps [simp]: "wrap_err w (Inl e) = Inl (w e)" "wrap_err w (Inr x) = Inr x"
  by (simp_all add: wrap_err_def)

lemma ebind_eq_Inr_iff: "ebind r f = Inr y \<longleftrightarrow> (\<exists>x. r = Inr x \<and> f x = Inr y)"
  by (cases r) auto

lemma ebind_eq_Inl_iff: "ebind r f = Inl e \<longleftrightarrow> r = Inl e \<or> (\<exists>x. r = Inr x \<and> f x = Inl e)"
  by (cases r) auto

lemma wrap_err_eq_Inr_iff [simp]: "wrap_err w r = Inr y \<longleftrightarrow> r = Inr y"
  by (cases r) auto

lemma mapE_eq_map: "(\<And>x. x \<in> set xs \<Longrightarrow> f x = Inr (g x)) \<Longrightarrow> mapE f xs = Inr (map g xs)"
  by (induction xs) auto

lemma mapE_length: "mapE f xs = Inr ys \<Longrightarrow> length ys = length xs"
  by (induction xs arbitrary: ys) (auto simp: ebind_eq_Inr_iff)

section \<open>Slices\<close>

text \<open>\<open>slice s i j\<close> is Go's \<open>s[i:j]\<close> where \<open>i \<le> j \<le> len(s)\<close>; the callers establish the bounds.\<close>

definition slice :: "'a list \<Rightarrow> nat \<Rightarrow> nat \<Rightarrow> 'a list" where
  "slice xs i j = take (j - i) (drop i xs)"

lemma length_slice [simp]: "length (slice xs i j) = min (j - i) (length xs - i)"
  by (simp add: slice_def)

lemma slice_append_left: "j \<le> length xs \<Longrightarrow> slice (xs @ ys) i j = slice xs i j"
  by (cases "i \<le> length xs") (auto simp: slice_def)

lemma slice_append_right:
  "length xs \<le> i \<Longrightarrow> slice (xs @ ys) i j = slice ys (i - length xs) (j - length xs)"
  by (auto simp: slice_def)

lemma slice_all: "i = 0 \<Longrightarrow> j = length xs \<Longrightarrow> slice xs i j = xs"
  by (simp add: slice_def)

text \<open>\<open>copy(dst[off:], src)\<close>: as many bytes as fit.\<close>

definition copy_at :: "'a list \<Rightarrow> nat \<Rightarrow> 'a list \<Rightarrow> 'a list" where
  "copy_at dst off src = take off dst @ take (length dst - off) src @ drop (off + length src) dst"

lemma length_copy_at [simp]: "off \<le> length dst \<Longrightarrow> length (copy_at dst off src) = length dst"
  by (auto simp: copy_at_def)

definition RightPadBytes :: "bytes \<Rightarrow> nat \<Rightarrow> bytes" where
  "RightPadBytes s l = (if l \<le> length s then s else copy_at (replicate l 0) 0 s)"

definition LeftPadBytes :: "bytes \<Rightarrow> nat \<Rightarrow> bytes" where
  "LeftPadBytes s l = (if l \<le> length s then s else copy_at (replicate l 0) (l - length s) s)"

lemma RightPadBytes_eq: "RightPadBytes s l = s @ replicate (l - length s) 0"
  by (simp add: RightPadBytes_def copy_at_def)

lemma LeftPadBytes_eq: "LeftPadBytes s l = replicate (l - length s) 0 @ s"
  by (simp add: LeftPadBytes_def copy_at_def)

section \<open>Big-endian integers\<close>

text \<open>\<open>new(big.Int).SetBytes\<close>.\<close>

definition be_nat :: "bytes \<Rightarrow> nat" where
  "be_nat bs = foldl (\<lambda>a b. a * 256 + unat b) 0 bs"

text \<open>The fixed-width big-endian bytes of a number, as \<open>FillBytes\<close> and \<open>Bytes32\<close> give them.\<close>

primrec be_bytes :: "nat \<Rightarrow> nat \<Rightarrow> bytes" where
  "be_bytes 0 x = []"
| "be_bytes (Suc n) x = be_bytes n (x div 256) @ [of_nat (x mod 256)]"

text \<open>\<open>(*big.Int).Bytes\<close>: big-endian with no leading zero byte.\<close>

fun big_bytes :: "nat \<Rightarrow> bytes" where
  "big_bytes x = (if x = 0 then [] else big_bytes (x div 256) @ [of_nat (x mod 256)])"

declare big_bytes.simps [simp del]

lemma be_nat_Nil [simp]: "be_nat [] = 0"
  by (simp add: be_nat_def)

lemma be_nat_snoc [be_simps]: "be_nat (bs @ [b]) = be_nat bs * 256 + unat b"
  by (simp add: be_nat_def)

lemma be_nat_append: "be_nat (xs @ ys) = be_nat xs * 256 ^ length ys + be_nat ys"
proof (induction ys rule: rev_induct)
  case Nil
  then show ?case by simp
next
  case (snoc y ys)
  have "be_nat (xs @ ys @ [y]) = be_nat (xs @ ys) * 256 + unat y"
    using be_nat_snoc [of "xs @ ys" y] by simp
  with snoc show ?case by (simp add: be_nat_snoc algebra_simps)
qed

lemma be_nat_zeros [simp]: "be_nat (replicate n 0) = 0"
proof (induction n)
  case 0
  then show ?case by simp
next
  case (Suc n)
  then show ?case by (simp only: replicate_Suc replicate_append_same [symmetric] be_nat_snoc) simp
qed

lemma unat_byte_lt [simp]: "unat (b :: byte) < 256"
  using unsigned_less [of b] by simp

lemma be_nat_lt: "be_nat bs < 256 ^ length bs"
proof (induction bs rule: rev_induct)
  case Nil
  then show ?case by simp
next
  case (snoc b bs)
  have "be_nat bs * 256 + unat b < (be_nat bs + 1) * 256"
    using unat_byte_lt [of b] by simp
  also have "\<dots> \<le> 256 ^ length bs * 256"
    using snoc by (intro mult_right_mono) auto
  finally show ?case by (simp add: be_nat_snoc)
qed

lemma length_be_bytes [simp]: "length (be_bytes n x) = n"
  by (induction n arbitrary: x) auto

lemma unat_of_nat_byte [simp]: "unat (of_nat (x mod 256) :: byte) = x mod 256"
  by (simp add: unat_of_nat)

lemma be_nat_be_bytes [be_simps]: "be_nat (be_bytes n x) = x mod 256 ^ n"
proof (induction n arbitrary: x)
  case 0
  then show ?case by simp
next
  case (Suc n)
  have "x mod 256 ^ Suc n = 256 * (x div 256 mod 256 ^ n) + x mod 256"
    by (simp add: mod_mult2_eq)
  with Suc show ?case by (simp add: be_nat_snoc)
qed

lemma be_bytes_be_nat [be_simps]: "be_bytes (length bs) (be_nat bs) = bs"
proof (induction bs rule: rev_induct)
  case Nil
  then show ?case by simp
next
  case (snoc b bs)
  have "(be_nat bs * 256 + unat b) div 256 = be_nat bs"
    using unat_byte_lt [of b] by simp
  moreover have "(be_nat bs * 256 + unat b) mod 256 = unat b"
    using unat_byte_lt [of b] by simp
  ultimately show ?case using snoc by (simp add: be_nat_snoc)
qed

lemma be_bytes_inject:
  "x < 256 ^ n \<Longrightarrow> y < 256 ^ n \<Longrightarrow> be_bytes n x = be_bytes n y \<longleftrightarrow> x = y"
  by (metis be_nat_be_bytes mod_less)

lemma be_nat_inject: "length xs = length ys \<Longrightarrow> be_nat xs = be_nat ys \<longleftrightarrow> xs = ys"
  by (metis be_bytes_be_nat)

lemma be_bytes_zero [simp]: "be_bytes n 0 = replicate n 0"
  by (induction n) (auto simp: replicate_append_same)

lemma be_nat_big_bytes [be_simps]: "be_nat (big_bytes x) = x"
proof (induction x rule: big_bytes.induct)
  case (1 x)
  then show ?case
    by (cases "x = 0") (auto simp: big_bytes.simps [of x] big_bytes.simps [of 0] be_nat_snoc)
qed

lemma big_bytes_length: "x < 256 ^ n \<Longrightarrow> length (big_bytes x) \<le> n"
proof (induction n arbitrary: x)
  case 0
  then show ?case by (simp add: big_bytes.simps)
next
  case (Suc n)
  then have "x div 256 < 256 ^ n" by (simp add: less_mult_imp_div_less mult.commute)
  with Suc.IH [of "x div 256"] show ?case by (subst big_bytes.simps) simp
qed

lemma big_bytes_eq_Nil_iff [simp]: "big_bytes x = [] \<longleftrightarrow> x = 0"
  by (subst big_bytes.simps) simp

lemma hd_big_bytes: "x \<noteq> 0 \<Longrightarrow> hd (big_bytes x) \<noteq> 0"
proof (induction x rule: big_bytes.induct)
  case (1 x)
  show ?case
  proof (cases "x div 256 = 0")
    case True
    with "1.prems" have "x mod 256 \<noteq> 0" by (metis div_less mod_less div_mod_decomp add.right_neutral mult_0)
    then have "unat (of_nat (x mod 256) :: byte) \<noteq> 0" by simp
    with True "1.prems" show ?thesis
      by (subst big_bytes.simps) (auto simp: big_bytes.simps [of 0])
  next
    case False
    with 1 have "hd (big_bytes (x div 256)) \<noteq> 0" by simp
    moreover have "big_bytes (x div 256) \<noteq> []" using False by simp
    ultimately show ?thesis using "1.prems" by (subst big_bytes.simps) simp
  qed
qed

text \<open>\<open>copy(buf[n - len(b) : n], b)\<close> into a zeroed buffer is the fixed-width encoding.\<close>

lemma zeros_big_bytes: "x < 256 ^ n \<Longrightarrow> replicate (n - length (big_bytes x)) 0 @ big_bytes x = be_bytes n x"
proof -
  assume x: "x < 256 ^ n"
  let ?bs = "replicate (n - length (big_bytes x)) (0::byte) @ big_bytes x"
  have len: "length ?bs = n" using big_bytes_length [OF x] by simp
  have "be_nat ?bs = x" by (simp add: be_nat_append be_nat_big_bytes)
  then show ?thesis using be_bytes_be_nat [of ?bs] len by simp
qed

section \<open>Hashes and addresses\<close>

definition hash_bytes :: "Hash \<Rightarrow> bytes" where
  "hash_bytes h = be_bytes 32 (unat h)"

definition addr_bytes :: "Address \<Rightarrow> bytes" where
  "addr_bytes a = be_bytes 20 (unat a)"

text \<open>\<open>SetBytes\<close> crops from the left, then copies right-aligned into a zeroed array.\<close>

definition BytesToHash :: "bytes \<Rightarrow> Hash" where
  "BytesToHash b =
     (let b' = (if length b > 32 then drop (length b - 32) b else b)
      in of_nat (be_nat (copy_at (replicate 32 0) (32 - length b') b')))"

definition BytesToAddress :: "bytes \<Rightarrow> Address" where
  "BytesToAddress b =
     (let b' = (if length b > 20 then drop (length b - 20) b else b)
      in of_nat (be_nat (copy_at (replicate 20 0) (20 - length b') b')))"

definition BigToHash :: "nat \<Rightarrow> Hash" where
  "BigToHash b = BytesToHash (big_bytes b)"

lemma length_hash_bytes [simp]: "length (hash_bytes h) = 32"
  by (simp add: hash_bytes_def)

lemma length_addr_bytes [simp]: "length (addr_bytes a) = 20"
  by (simp add: addr_bytes_def)

lemma unat_hash_lt: "unat (h :: Hash) < 256 ^ 32"
  using unsigned_less [of h] by simp

lemma unat_addr_lt: "unat (a :: Address) < 256 ^ 20"
  using unsigned_less [of a] by simp

lemma be_nat_hash_bytes [be_simps]: "be_nat (hash_bytes h) = unat h"
  unfolding hash_bytes_def be_nat_be_bytes by (rule mod_less) (rule unat_hash_lt)

lemma be_nat_addr_bytes [be_simps]: "be_nat (addr_bytes a) = unat a"
  unfolding addr_bytes_def be_nat_be_bytes by (rule mod_less) (rule unat_addr_lt)

lemma hash_bytes_inject [simp]: "hash_bytes x = hash_bytes y \<longleftrightarrow> x = y"
  by (metis be_nat_hash_bytes word_unat_eq_iff)

lemma addr_bytes_inject [simp]: "addr_bytes x = addr_bytes y \<longleftrightarrow> x = y"
  by (metis be_nat_addr_bytes word_unat_eq_iff)

lemma BytesToHash_short: "length b \<le> 32 \<Longrightarrow> BytesToHash b = of_nat (be_nat b)"
  by (simp add: BytesToHash_def copy_at_def be_nat_append)

lemma BytesToHash_hash_bytes [simp]: "BytesToHash (hash_bytes h) = h"
  by (simp add: BytesToHash_short be_nat_hash_bytes)

lemma BytesToAddress_short: "length b \<le> 20 \<Longrightarrow> BytesToAddress b = of_nat (be_nat b)"
  by (simp add: BytesToAddress_def copy_at_def be_nat_append)

lemma BytesToAddress_addr_bytes [simp]: "BytesToAddress (addr_bytes a) = a"
  by (simp add: BytesToAddress_short be_nat_addr_bytes)

lemma BigToHash_eq: "b < 256 ^ 32 \<Longrightarrow> BigToHash b = of_nat b"
  by (simp add: BigToHash_def BytesToHash_short big_bytes_length be_nat_big_bytes)

lemma hash_bytes_BigToHash: "b < 256 ^ 32 \<Longrightarrow> hash_bytes (BigToHash b) = be_bytes 32 b"
  by (simp add: BigToHash_eq hash_bytes_def unat_of_nat)

end
