(* ===== verification/Merkle.thy ===== *)
theory Merkle
  imports Prelude
begin

unbundle bit_operations_syntax

text \<open>
  The hash-tree code of the relay, \<^verbatim>\<open>src/HZKA/relay/committer.go\<close>: \<open>computeRootHash\<close>, with which an
  intermediate committer folds the state roots of its children into one aggregated root, and
  \<open>VerifySPV\<close>, with which a receiver checks that a burn transaction is in a block.

  Keccak-256 is a parameter \<open>K\<close>. No property assumes that it has no collisions (it has some, by
  counting): what a root commits to is stated by naming the two colliding messages among those
  the two computations hashed. \<open>None\<close> is a Go panic (an index out of range).
\<close>

section \<open>Model\<close>

definition hash_pair :: "(bytes \<Rightarrow> bytes) \<Rightarrow> Hash \<Rightarrow> Hash \<Rightarrow> Hash" where
  "hash_pair K a b = BytesToHash (K (hash_bytes a @ hash_bytes b))"

text \<open>The next power of two, used by the termination measure of the padding loop only.\<close>

definition ceil_log2 :: "nat \<Rightarrow> nat" where
  "ceil_log2 n = (LEAST k. n \<le> 2 ^ k)"

lemma le_two_power_ceil_log2: "n \<le> 2 ^ ceil_log2 n"
proof -
  have "n \<le> 2 ^ n" by simp
  then show ?thesis unfolding ceil_log2_def by (rule LeastI)
qed

lemma ceil_log2_le: "n \<le> 2 ^ k \<Longrightarrow> ceil_log2 n \<le> k"
  unfolding ceil_log2_def by (rule Least_le)

lemma ceil_log2_Suc: "n < 2 ^ ceil_log2 n \<Longrightarrow> ceil_log2 (Suc n) = ceil_log2 n"
proof (rule antisym)
  assume "n < 2 ^ ceil_log2 n"
  then show "ceil_log2 (Suc n) \<le> ceil_log2 n" by (intro ceil_log2_le) simp
  have "n \<le> 2 ^ ceil_log2 (Suc n)" using le_two_power_ceil_log2 [of "Suc n"] by simp
  then show "ceil_log2 n \<le> ceil_log2 (Suc n)" by (rule ceil_log2_le)
qed

lemma ceil_log2_two_power [simp]: "ceil_log2 (2 ^ k) = k"
proof (rule antisym)
  show "ceil_log2 (2 ^ k) \<le> k" by (rule ceil_log2_le) simp
  have "(2::nat) ^ k \<le> 2 ^ ceil_log2 (2 ^ k)" by (rule le_two_power_ceil_log2)
  then show "k \<le> ceil_log2 (2 ^ k)" by simp
qed

lemma ceil_log2_eqI:
  assumes "n \<le> 2 ^ k" and "2 ^ k < 2 * n"
  shows "ceil_log2 n = k"
proof (rule antisym)
  show "ceil_log2 n \<le> k" by (rule ceil_log2_le) fact
  show "k \<le> ceil_log2 n"
  proof (rule ccontr)
    assume "\<not> k \<le> ceil_log2 n"
    then have "(2::nat) ^ Suc (ceil_log2 n) \<le> 2 ^ k" by (intro power_increasing) auto
    with le_two_power_ceil_log2 [of n] assms(2) show False by simp
  qed
qed

lemma ceil_log2_0 [simp]: "ceil_log2 0 = 0"
  using ceil_log2_le [of 0 0] by simp

lemma and_pred_eq_0_iff: "n AND (n - 1) = (0::nat) \<longleftrightarrow> n = 0 \<or> (\<exists>k. n = 2 ^ k)"
proof (induction n rule: less_induct)
  case (less n)
  consider "n = 0" | "n = 1" | m where "n = 2 * m" "0 < m" | m where "n = 2 * m + 1" "0 < m"
    by (metis One_nat_def add.commute bot_nat_0.not_eq_extremum mult_0_right oddE evenE plus_1_eq_Suc)
  then show ?case
  proof cases
    case 1
    then show ?thesis by simp
  next
    case 2
    then show ?thesis by (auto intro: exI [of _ 0])
  next
    case 3
    have "n AND (n - 1) = 2 * (m AND (m - 1))"
      using 3 by (subst and_rec) (auto simp: div_mult2_eq [symmetric] intro!: arg_cong2 [of _ _ _ _ "(AND)"])
    moreover have "(\<exists>k. 2 * m = 2 ^ k) \<longleftrightarrow> (\<exists>k. m = 2 ^ k)"
    proof
      assume "\<exists>k. 2 * m = 2 ^ k"
      then obtain k where k: "2 * m = 2 ^ k" by blast
      then obtain j where "k = Suc j" by (cases k) auto
      with k show "\<exists>k. m = 2 ^ k" by auto
    next
      assume "\<exists>k. m = 2 ^ k"
      then obtain k where "m = 2 ^ k" by blast
      then show "\<exists>k. 2 * m = 2 ^ k" by (intro exI [of _ "Suc k"]) simp
    qed
    ultimately show ?thesis using less [of m] 3 by simp
  next
    case 4
    have "n AND (n - 1) = 2 * (m AND m)"
      using 4 by (subst and_rec) simp
    moreover have "2 * m + 1 \<noteq> 2 ^ k" for k
      using \<open>0 < m\<close> by (cases k) (auto, presburger)
    ultimately show ?thesis using 4 by simp
  qed
qed

text \<open>Pad to a power of two: \<open>for len(current)&(len(current)-1) != 0\<close>.\<close>

function pad_pow2 :: "Hash list \<Rightarrow> Hash list" where
  "pad_pow2 current =
     (if length current AND (length current - 1) \<noteq> 0 then pad_pow2 (current @ [0]) else current)"
  by pat_completeness auto
termination
proof (relation "measure (\<lambda>c. 2 ^ ceil_log2 (length c) - length c)")
  show "wf (measure (\<lambda>c::Hash list. 2 ^ ceil_log2 (length c) - length c))" by simp
next
  fix current :: "Hash list"
  assume "length current AND (length current - 1) \<noteq> 0"
  then have "length current \<noteq> 2 ^ ceil_log2 (length current)"
    by (metis and_pred_eq_0_iff)
  then have lt: "length current < 2 ^ ceil_log2 (length current)"
    using le_two_power_ceil_log2 [of "length current"] by linarith
  then show "(current @ [0], current) \<in> measure (\<lambda>c. 2 ^ ceil_log2 (length c) - length c)"
    by (simp add: ceil_log2_Suc)
qed

declare pad_pow2.simps [simp del]

text \<open>One level: \<open>next[i/2] = Keccak256(current[i] || current[i+1])\<close>; an odd length would panic.\<close>

fun merkle_level :: "(bytes \<Rightarrow> bytes) \<Rightarrow> Hash list \<Rightarrow> Hash list option" where
  "merkle_level K [] = Some []"
| "merkle_level K [a] = None"
| "merkle_level K (a # b # rest) = map_option ((#) (hash_pair K a b)) (merkle_level K rest)"

lemma length_merkle_level: "merkle_level K xs = Some ys \<Longrightarrow> length xs = 2 * length ys"
  by (induction K xs arbitrary: ys rule: merkle_level.induct) auto

function merkle_up :: "(bytes \<Rightarrow> bytes) \<Rightarrow> Hash list \<Rightarrow> Hash option" where
  "merkle_up K current =
     (if length current > 1 then
        (case merkle_level K current of None \<Rightarrow> None | Some next \<Rightarrow> merkle_up K next)
      else (case current of [] \<Rightarrow> None | x # _ \<Rightarrow> Some x))"
  by pat_completeness auto
termination
  by (relation "measure (\<lambda>(K, c). length c)") (auto simp: length_merkle_level)

declare merkle_up.simps [simp del]

definition computeRootHash :: "(bytes \<Rightarrow> bytes) \<Rightarrow> Hash list \<Rightarrow> Hash option" where
  "computeRootHash K hashes =
     (if length hashes = 0 then Some 0
      else if length hashes = 1 then Some (hashes ! 0)
      else merkle_up K (pad_pow2 hashes))"

text \<open>
  An SPV proof. \<open>PathIndices\<close> holds one direction bit per level, true when the current node is
  the right child. The header is carried but not read by the check.
\<close>

record 'h SPVProof =
  TxHash :: Hash
  MerkleRoot :: Hash
  MerklePath :: "Hash list"
  PathIndices :: "bool list"
  BlockHeader :: 'h

fun spv_fold :: "(bytes \<Rightarrow> bytes) \<Rightarrow> Hash \<Rightarrow> Hash list \<Rightarrow> bool list \<Rightarrow> Hash option" where
  "spv_fold K cur [] idx = Some cur"
| "spv_fold K cur (sibling # path) [] = None"
| "spv_fold K cur (sibling # path) (right # idx) =
     spv_fold K (if right then hash_pair K sibling cur else hash_pair K cur sibling) path idx"

definition VerifySPV :: "(bytes \<Rightarrow> bytes) \<Rightarrow> 'h SPVProof \<Rightarrow> bool option" where
  "VerifySPV K proof =
     map_option (\<lambda>h. h = MerkleRoot proof) (spv_fold K (TxHash proof) (MerklePath proof) (PathIndices proof))"

section \<open>The reference tree\<close>

text \<open>
  The perfect binary tree over \<open>2 ^ d\<close> leaves, top down, the messages it hashes, and the
  authentication path of a leaf (from the leaf up). These are specification, not code.
\<close>

primrec tree_root :: "(bytes \<Rightarrow> bytes) \<Rightarrow> nat \<Rightarrow> Hash list \<Rightarrow> Hash" where
  "tree_root K 0 xs = xs ! 0"
| "tree_root K (Suc d) xs =
     hash_pair K (tree_root K d (take (2 ^ d) xs)) (tree_root K d (drop (2 ^ d) xs))"

primrec tree_msgs :: "(bytes \<Rightarrow> bytes) \<Rightarrow> nat \<Rightarrow> Hash list \<Rightarrow> bytes set" where
  "tree_msgs K 0 xs = {}"
| "tree_msgs K (Suc d) xs =
     insert (hash_bytes (tree_root K d (take (2 ^ d) xs)) @ hash_bytes (tree_root K d (drop (2 ^ d) xs)))
       (tree_msgs K d (take (2 ^ d) xs) \<union> tree_msgs K d (drop (2 ^ d) xs))"

primrec tree_path :: "(bytes \<Rightarrow> bytes) \<Rightarrow> nat \<Rightarrow> Hash list \<Rightarrow> nat \<Rightarrow> Hash list" where
  "tree_path K 0 xs i = []"
| "tree_path K (Suc d) xs i =
     (if i < 2 ^ d then tree_path K d (take (2 ^ d) xs) i @ [tree_root K d (drop (2 ^ d) xs)]
      else tree_path K d (drop (2 ^ d) xs) (i - 2 ^ d) @ [tree_root K d (take (2 ^ d) xs)])"

primrec index_bits :: "nat \<Rightarrow> nat \<Rightarrow> bool list" where
  "index_bits 0 i = []"
| "index_bits (Suc d) i = (if i < 2 ^ d then index_bits d i @ [False] else index_bits d (i - 2 ^ d) @ [True])"

text \<open>The leaves padded with zero hashes to the next power of two, and what the root computation hashes.\<close>

definition padded :: "Hash list \<Rightarrow> Hash list" where
  "padded xs = xs @ replicate (2 ^ ceil_log2 (length xs) - length xs) 0"

definition merkle_spec :: "(bytes \<Rightarrow> bytes) \<Rightarrow> Hash list \<Rightarrow> Hash" where
  "merkle_spec K xs = (if xs = [] then 0 else tree_root K (ceil_log2 (length xs)) (padded xs))"

definition root_msgs :: "(bytes \<Rightarrow> bytes) \<Rightarrow> Hash list \<Rightarrow> bytes set" where
  "root_msgs K xs = tree_msgs K (ceil_log2 (length xs)) (padded xs)"


text \<open>Two different messages, one hashed by each side, with one digest.\<close>

definition collides :: "(bytes \<Rightarrow> bytes) \<Rightarrow> bytes set \<Rightarrow> bytes set \<Rightarrow> bool" where
  "collides K A B \<longleftrightarrow> (\<exists>a \<in> A. \<exists>b \<in> B. a \<noteq> b \<and> BytesToHash (K a) = BytesToHash (K b))"

section \<open>The computation is the reference tree\<close>

lemma ex_pow2_pad: "length xs \<noteq> 0 \<Longrightarrow> pad_pow2 xs = xs @ replicate (2 ^ ceil_log2 (length xs) - length xs) 0"
proof (induction xs rule: pad_pow2.induct)
  case (1 xs)
  show ?case
  proof (cases "length xs AND (length xs - 1) \<noteq> 0")
    case True
    then have "length xs \<noteq> 2 ^ ceil_log2 (length xs)" by (metis and_pred_eq_0_iff)
    then have lt: "length xs < 2 ^ ceil_log2 (length xs)"
      using le_two_power_ceil_log2 [of "length xs"] by linarith
    then have "2 ^ ceil_log2 (length xs) - length xs = Suc (2 ^ ceil_log2 (length xs) - Suc (length xs))"
      by linarith
    with True "1.IH" lt show ?thesis
      by (simp add: pad_pow2.simps [of xs] ceil_log2_Suc)
  next
    case False
    with "1.prems" obtain k where k: "length xs = 2 ^ k" by (metis and_pred_eq_0_iff)
    have "pad_pow2 xs = xs" using False by (subst pad_pow2.simps) simp
    with k show ?thesis by simp
  qed
qed

lemma length_pad_pow2: "length xs \<noteq> 0 \<Longrightarrow> length (pad_pow2 xs) = 2 ^ ceil_log2 (length xs)"
  using le_two_power_ceil_log2 [of "length xs"] by (simp add: ex_pow2_pad)

fun pair_up :: "(bytes \<Rightarrow> bytes) \<Rightarrow> Hash list \<Rightarrow> Hash list" where
  "pair_up K (a # b # rest) = hash_pair K a b # pair_up K rest"
| "pair_up K _ = []"

lemma merkle_level_even: "even (length xs) \<Longrightarrow> merkle_level K xs = Some (pair_up K xs)"
  by (induction K xs rule: merkle_level.induct) auto

lemma length_pair_up [simp]: "length (pair_up K xs) = length xs div 2"
  by (induction K xs rule: pair_up.induct) auto

lemma pair_up_append: "even (length xs) \<Longrightarrow> pair_up K (xs @ ys) = pair_up K xs @ pair_up K ys"
  by (induction K xs rule: pair_up.induct) auto

lemma pair_up_take_drop:
  assumes "even n"
  shows "pair_up K (take n xs) = take (n div 2) (pair_up K xs)"
    and "pair_up K (drop n xs) = drop (n div 2) (pair_up K xs)"
proof -
  have "pair_up K (take n xs) = take (n div 2) (pair_up K xs) \<and>
        pair_up K (drop n xs) = drop (n div 2) (pair_up K xs)"
  proof (cases "n \<le> length xs")
    case True
    then have len: "length (take n xs) = n" by simp
    have "pair_up K (take n xs @ drop n xs) = pair_up K (take n xs) @ pair_up K (drop n xs)"
      using assms True by (intro pair_up_append) simp
    moreover have "length (pair_up K (take n xs)) = n div 2" by (simp only: length_pair_up len)
    ultimately show ?thesis by (metis append_take_drop_id append_eq_conv_conj)
  next
    case False
    then show ?thesis by (simp add: div_le_mono)
  qed
  then show "pair_up K (take n xs) = take (n div 2) (pair_up K xs)"
    and "pair_up K (drop n xs) = drop (n div 2) (pair_up K xs)" by auto
qed

lemma tree_root_pair_up: "length xs = 2 ^ Suc d \<Longrightarrow> tree_root K (Suc d) xs = tree_root K d (pair_up K xs)"
proof (induction d arbitrary: xs)
  case 0
  then obtain a b where "xs = [a, b]"
    by (cases xs; cases "tl xs") auto
  then show ?case by simp
next
  case (Suc d)
  have "tree_root K (Suc d) (take (2 ^ Suc d) xs) = tree_root K d (pair_up K (take (2 ^ Suc d) xs))"
    and "tree_root K (Suc d) (drop (2 ^ Suc d) xs) = tree_root K d (pair_up K (drop (2 ^ Suc d) xs))"
    using Suc.prems by (intro Suc.IH; simp)+
  then show ?case
    using pair_up_take_drop [of "2 ^ Suc d" K xs] by (simp only: tree_root.simps(2) [of K "Suc d"]) simp
qed

lemma merkle_up_tree_root: "length xs = 2 ^ d \<Longrightarrow> merkle_up K xs = Some (tree_root K d xs)"
proof (induction d arbitrary: xs)
  case 0
  then obtain a where "xs = [a]" by (cases xs) auto
  then show ?case by (simp add: merkle_up.simps)
next
  case (Suc d)
  have gt: "1 < length xs" using Suc.prems one_less_power [of "2::nat" "Suc d"] by simp
  have "merkle_up K xs = merkle_up K (pair_up K xs)"
    using gt Suc.prems merkle_level_even [of xs K] by (subst merkle_up.simps) simp
  also have "\<dots> = Some (tree_root K d (pair_up K xs))" using Suc.prems by (intro Suc.IH) simp
  finally show ?case using tree_root_pair_up [OF Suc.prems] by simp
qed

lemma computeRootHash_tree:
  assumes "hashes \<noteq> []"
  shows "computeRootHash K hashes = Some (tree_root K (ceil_log2 (length hashes)) (padded hashes))"
proof (cases "length hashes = 1")
  case True
  then obtain h where "hashes = [h]" by (cases hashes) auto
  moreover have "ceil_log2 (Suc 0) = 0" using ceil_log2_two_power [of 0] by simp
  ultimately show ?thesis by (simp add: computeRootHash_def padded_def)
next
  case False
  with assms have "computeRootHash K hashes = merkle_up K (pad_pow2 hashes)"
    by (simp add: computeRootHash_def)
  also have "\<dots> = Some (tree_root K (ceil_log2 (length hashes)) (pad_pow2 hashes))"
    using assms by (intro merkle_up_tree_root length_pad_pow2) simp
  finally show ?thesis using assms by (simp add: ex_pow2_pad padded_def)
qed

lemma length_padded: "length (padded xs) = 2 ^ ceil_log2 (length xs)"
  using le_two_power_ceil_log2 [of "length xs"] by (simp add: padded_def)

section \<open>What a root commits to\<close>

lemma hash_pair_eqD:
  assumes "hash_pair K a b = hash_pair K c d"
  shows "(a = c \<and> b = d) \<or>
    (hash_bytes a @ hash_bytes b \<noteq> hash_bytes c @ hash_bytes d \<and>
     BytesToHash (K (hash_bytes a @ hash_bytes b)) = BytesToHash (K (hash_bytes c @ hash_bytes d)))"
  using assms by (auto simp: hash_pair_def)

lemma collides_mono: "collides K A B \<Longrightarrow> A \<subseteq> A' \<Longrightarrow> B \<subseteq> B' \<Longrightarrow> collides K A' B'"
  by (fastforce simp: collides_def)

lemma tree_root_binding:
  "length xs = 2 ^ d \<Longrightarrow> length ys = 2 ^ d \<Longrightarrow> tree_root K d xs = tree_root K d ys \<Longrightarrow> xs \<noteq> ys \<Longrightarrow>
   collides K (tree_msgs K d xs) (tree_msgs K d ys)"
proof (induction d arbitrary: xs ys)
  case 0
  then show ?case by (cases xs; cases ys) auto
next
  case (Suc d)
  let ?l = "take (2 ^ d)" and ?r = "drop (2 ^ d)"
  let ?m = "\<lambda>zs. hash_bytes (tree_root K d (?l zs)) @ hash_bytes (tree_root K d (?r zs))"
  from hash_pair_eqD [of K "tree_root K d (?l xs)" "tree_root K d (?r xs)"] Suc.prems(3)
  consider (same) "tree_root K d (?l xs) = tree_root K d (?l ys)" "tree_root K d (?r xs) = tree_root K d (?r ys)"
    | (coll) "?m xs \<noteq> ?m ys" "BytesToHash (K (?m xs)) = BytesToHash (K (?m ys))"
    by fastforce
  then show ?case
  proof cases
    case same
    from Suc.prems(4) consider "?l xs \<noteq> ?l ys" | "?r xs \<noteq> ?r ys"
      by (metis append_take_drop_id)
    then show ?thesis
    proof cases
      case 1
      then have "collides K (tree_msgs K d (?l xs)) (tree_msgs K d (?l ys))"
        using same Suc.prems by (intro Suc.IH) auto
      then show ?thesis by (rule collides_mono) auto
    next
      case 2
      then have "collides K (tree_msgs K d (?r xs)) (tree_msgs K d (?r ys))"
        using same Suc.prems by (intro Suc.IH) auto
      then show ?thesis by (rule collides_mono) auto
    qed
  next
    case coll
    then show ?thesis unfolding collides_def by (intro bexI [of _ "?m xs"] bexI [of _ "?m ys"]) auto
  qed
qed

section \<open>Authentication paths\<close>

lemma spv_fold_append:
  "length path = length idx \<Longrightarrow>
   spv_fold K cur (path @ path') (idx @ idx') =
     (case spv_fold K cur path idx of None \<Rightarrow> None | Some h \<Rightarrow> spv_fold K h path' idx')"
  by (induction K cur path idx rule: spv_fold.induct) auto


lemma spv_fold_eq_None_iff: "spv_fold K cur path idx = None \<longleftrightarrow> length idx < length path"
  by (induction K cur path idx rule: spv_fold.induct) auto

lemma length_tree_path [simp]: "length (tree_path K d xs i) = d"
  by (induction d arbitrary: xs i) auto

lemma length_index_bits [simp]: "length (index_bits d i) = d"
  by (induction d arbitrary: i) auto

lemma spv_fold_tree_path:
  "length xs = 2 ^ d \<Longrightarrow> i < 2 ^ d \<Longrightarrow>
   spv_fold K (xs ! i) (tree_path K d xs i) (index_bits d i) = Some (tree_root K d xs)"
proof (induction d arbitrary: xs i)
  case 0
  then show ?case by simp
next
  case (Suc d)
  show ?case
  proof (cases "i < 2 ^ d")
    case True
    have "spv_fold K (take (2 ^ d) xs ! i) (tree_path K d (take (2 ^ d) xs) i) (index_bits d i)
        = Some (tree_root K d (take (2 ^ d) xs))"
      using Suc.prems True by (intro Suc.IH) auto
    with True show ?thesis by (simp add: spv_fold_append)
  next
    case False
    have "spv_fold K (drop (2 ^ d) xs ! (i - 2 ^ d)) (tree_path K d (drop (2 ^ d) xs) (i - 2 ^ d))
        (index_bits d (i - 2 ^ d)) = Some (tree_root K d (drop (2 ^ d) xs))"
      using Suc.prems False by (intro Suc.IH) auto
    with False Suc.prems show ?thesis by (simp add: spv_fold_append)
  qed
qed

text \<open>The leaf position that a list of direction bits (leaf first) selects.\<close>

primrec bits_index :: "bool list \<Rightarrow> nat" where
  "bits_index [] = 0"
| "bits_index (b # bs) = of_bool b + 2 * bits_index bs"

lemma bits_index_snoc: "bits_index (bs @ [b]) = bits_index bs + of_bool b * 2 ^ length bs"
  by (induction bs) (auto simp: algebra_simps)


lemma bits_index_index_bits: "i < 2 ^ d \<Longrightarrow> bits_index (index_bits d i) = i"
  by (induction d arbitrary: i) (auto simp: bits_index_snoc)


section \<open>Properties\<close>

lemma computeRootHash_spec: "computeRootHash K hashes = Some (merkle_spec K hashes)"
  using computeRootHash_tree [of hashes K] by (cases "hashes = []") (auto simp: merkle_spec_def computeRootHash_def)

text \<open>
  C17. \<open>computeRootHash\<close> never panics and, whatever the hash function, its padding and bottom-up loops
  compute the root of the perfect binary tree over the leaves padded with zero hashes.
\<close>

theorem computeRootHash_refines_tree: "computeRootHash K hashes = Some (merkle_spec K hashes)"
  by (rule computeRootHash_spec)

text \<open>
  An aggregated root commits to the children: two different lists of the same number of child
  roots with the same aggregated root exhibit a Keccak collision among the 64-byte messages the
  two computations hashed.
\<close>

theorem computeRootHash_binding:
  assumes "length xs = length ys" and "xs \<noteq> ys" and "computeRootHash K xs = computeRootHash K ys"
  shows "collides K (root_msgs K xs) (root_msgs K ys)"
proof -
  have "xs \<noteq> []" "ys \<noteq> []" using assms by auto
  then have "tree_root K (ceil_log2 (length xs)) (padded xs) = tree_root K (ceil_log2 (length xs)) (padded ys)"
    using assms by (simp add: computeRootHash_tree)
  moreover have "padded xs \<noteq> padded ys" using assms by (simp add: padded_def)
  ultimately show ?thesis
    unfolding root_msgs_def assms(1) [symmetric] using assms(1)
    by (intro tree_root_binding) (auto simp: length_padded)
qed

theorem computeRootHash_binding_witness:
  "collides (\<lambda>_. [7]) (root_msgs (\<lambda>_. [7]) [1, 2]) (root_msgs (\<lambda>_. [7]) [3, 4])"
proof (rule computeRootHash_binding)
  have pad: "pad_pow2 [a, b] = [a, b]" for a b by (simp add: pad_pow2.simps)
  have "computeRootHash (\<lambda>_. [7]) [a, b] = Some (BytesToHash [7])" for a b
    by (simp add: computeRootHash_def pad merkle_up.simps hash_pair_def)
  then show "computeRootHash (\<lambda>_. [7]) [1, 2] = computeRootHash (\<lambda>_. [7]) [3, 4]" by simp
qed auto

text \<open>
  The root does not commit to the number of children: where the list is padded, an extra child
  whose root is the zero hash (which \<open>processAsIntermediateNode\<close> inserts for every child committer)
  leaves the aggregated root unchanged, and a single child holding an inner hash gives the root
  of its two children.
\<close>

theorem computeRootHash_ignores_padding:
  assumes lt: "length hashes < 2 ^ ceil_log2 (length hashes)"
  shows "computeRootHash K (hashes @ [0]) = computeRootHash K hashes \<and>
    computeRootHash K [hash_pair K a b] = computeRootHash K [a, b]"
proof
  show "computeRootHash K (hashes @ [0]) = computeRootHash K hashes"
  proof (cases "hashes = []")
    case True
    then show ?thesis by (simp add: computeRootHash_def)
  next
    case False
    have "2 ^ ceil_log2 (length hashes) - length hashes = Suc (2 ^ ceil_log2 (length hashes) - Suc (length hashes))"
      using lt by linarith
    then have "padded (hashes @ [0]) = padded hashes"
      using lt by (simp add: padded_def ceil_log2_Suc)
    with False lt show ?thesis by (simp add: computeRootHash_tree ceil_log2_Suc)
  qed
next
  show "computeRootHash K [hash_pair K a b] = computeRootHash K [a, b]"
    by (simp add: computeRootHash_def pad_pow2.simps merkle_up.simps)
qed

theorem computeRootHash_ignores_padding_witness:
  "computeRootHash (\<lambda>m. take 3 m) ([5, 6, 7] @ [0]) = computeRootHash (\<lambda>m. take 3 m) [5, 6, 7] \<and>
    computeRootHash (\<lambda>m. take 3 m) [hash_pair (\<lambda>m. take 3 m) 8 9] = computeRootHash (\<lambda>m. take 3 m) [8, 9]"
proof (rule computeRootHash_ignores_padding)
  have "ceil_log2 3 = 2" by (rule ceil_log2_eqI) simp_all
  then show "length [5, 6, 7 :: Hash] < 2 ^ ceil_log2 (length [5, 6, 7 :: Hash])"
    by (simp add: numeral_3_eq_3)
qed

text \<open>
  Completeness of SPV proofs: for every leaf of an aggregated root, the authentication path of
  the padded tree with the direction bits of the leaf's position is accepted by \<open>VerifySPV\<close>.
\<close>

theorem VerifySPV_complete:
  assumes "i < length hashes" and "computeRootHash K hashes = Some r"
  shows "VerifySPV K \<lparr>TxHash = hashes ! i, MerkleRoot = r,
      MerklePath = tree_path K (ceil_log2 (length hashes)) (padded hashes) i,
      PathIndices = index_bits (ceil_log2 (length hashes)) i, BlockHeader = hdr\<rparr> = Some True"
proof -
  have i: "i < 2 ^ ceil_log2 (length hashes)"
    using assms(1) le_two_power_ceil_log2 [of "length hashes"] by linarith
  have "hashes ! i = padded hashes ! i" using assms(1) by (simp add: padded_def nth_append)
  moreover have "r = tree_root K (ceil_log2 (length hashes)) (padded hashes)"
    using assms by (cases "hashes = []") (auto simp: computeRootHash_tree)
  ultimately show ?thesis
    using spv_fold_tree_path [OF length_padded i, of K] by (simp add: VerifySPV_def)
qed

theorem VerifySPV_complete_witness:
  "VerifySPV (\<lambda>m. m) \<lparr>TxHash = [3, 9] ! 1, MerkleRoot = hash_pair (\<lambda>m. m) 3 9,
      MerklePath = tree_path (\<lambda>m. m) (ceil_log2 (length [3, 9 :: Hash])) (padded [3, 9]) 1,
      PathIndices = index_bits (ceil_log2 (length [3, 9 :: Hash])) 1, BlockHeader = ()\<rparr> = Some True"
  using VerifySPV_complete [of 1 "[3, 9]" "\<lambda>m. m" "hash_pair (\<lambda>m. m) 3 9" "()"]
  by (simp add: computeRootHash_def pad_pow2.simps merkle_up.simps)



text \<open>
  \<open>VerifySPV\<close> panics exactly when the proof carries fewer direction bits than path hashes;
  otherwise it returns, and it ignores surplus direction bits and the block header.
\<close>

theorem VerifySPV_panics_iff:
  "VerifySPV K proof = None \<longleftrightarrow> length (PathIndices proof) < length (MerklePath proof)"
  by (simp add: VerifySPV_def spv_fold_eq_None_iff)

end
