(* ===== verification/Chain_Types.thy ===== *)
theory Chain_Types
  imports Prelude
begin

text \<open>
  The data that crosses component boundaries: block headers (\<^verbatim>\<open>core/types/block.go\<close>), legacy
  transactions (\<^verbatim>\<open>core/types/tx_legacy.go\<close>), hexadecimal addresses (\<^verbatim>\<open>common/bytes.go\<close>), and the
  shape of an operation of the relay that calls out: it threads the state \<open>'w\<close> of everything
  outside the process, returns an error or a value, and is \<open>None\<close> when it panics or never returns.

  A \<^verbatim>\<open>*big.Int\<close> that may be nil is a \<open>nat option\<close>; the numbers carried here are not negative.
\<close>

section \<open>Headers and transactions\<close>

record Header =
  h_ParentHash :: Hash
  h_UncleHash :: Hash
  h_Coinbase :: Address
  h_Root :: Hash
  h_TxHash :: Hash
  h_ReceiptHash :: Hash
  h_Bloom :: "2048 word"
  h_Difficulty :: "nat option"
  h_Number :: "nat option"
  h_GasLimit :: u64
  h_GasUsed :: u64
  h_Time :: u64
  h_Extra :: bytes
  h_MixDigest :: Hash
  h_Nonce :: u64
  h_BaseFee :: "nat option"
  h_WithdrawalsHash :: "Hash option"
  h_BlobGasUsed :: "u64 option"
  h_ExcessBlobGas :: "u64 option"
  h_ParentBeaconRoot :: "Hash option"
  h_RequestsHash :: "Hash option"
  h_SlotNumber :: "u64 option"

record LegacyTx =
  tx_Nonce :: u64
  tx_GasPrice :: nat
  tx_Gas :: u64
  tx_To :: "Address option"
  tx_Value :: nat
  tx_Data :: bytes
  tx_V :: nat
  tx_R :: nat
  tx_S :: nat

definition NewTransaction :: "u64 \<Rightarrow> Address \<Rightarrow> nat \<Rightarrow> u64 \<Rightarrow> nat \<Rightarrow> bytes \<Rightarrow> LegacyTx" where
  "NewTransaction nonce to amount gasLimit gasPrice data =
     \<lparr>tx_Nonce = nonce, tx_GasPrice = gasPrice, tx_Gas = gasLimit, tx_To = Some to, tx_Value = amount,
      tx_Data = data, tx_V = 0, tx_R = 0, tx_S = 0\<rparr>"

record Block =
  b_Number :: u64
  b_Root :: Hash
  b_Transactions :: "LegacyTx list"

section \<open>Hexadecimal addresses\<close>

definition hex_digit :: "char \<Rightarrow> byte option" where
  "hex_digit c =
     (let n = (of_char c :: nat)
      in if 48 \<le> n \<and> n \<le> 57 then Some (of_nat (n - 48))
         else if 97 \<le> n \<and> n \<le> 102 then Some (of_nat (n - 87))
         else if 65 \<le> n \<and> n \<le> 70 then Some (of_nat (n - 55))
         else None)"

text \<open>\<open>hex.DecodeString\<close> returns the bytes decoded before the first bad digit; \<open>Hex2Bytes\<close> keeps them.\<close>

fun Hex2Bytes :: "string \<Rightarrow> bytes" where
  "Hex2Bytes (a # b # s) =
     (case (hex_digit a, hex_digit b) of
        (Some x, Some y) \<Rightarrow> (x * 16 + y) # Hex2Bytes s
      | _ \<Rightarrow> [])"
| "Hex2Bytes _ = []"

definition has0xPrefix :: "string \<Rightarrow> bool" where
  "has0xPrefix s \<longleftrightarrow> length s \<ge> 2 \<and> s ! 0 = CHR ''0'' \<and> (s ! 1 = CHR ''x'' \<or> s ! 1 = CHR ''X'')"

definition FromHex :: "string \<Rightarrow> bytes" where
  "FromHex s0 =
     (let s = (if has0xPrefix s0 then drop 2 s0 else s0);
          s' = (if length s mod 2 = 1 then CHR ''0'' # s else s)
      in Hex2Bytes s')"

definition HexToAddress :: "string \<Rightarrow> Address" where
  "HexToAddress s = BytesToAddress (FromHex s)"

section \<open>Operations that call out\<close>

type_synonym ('w, 'e, 'a) io = "'w \<Rightarrow> (('e + 'a) \<times> 'w) option"

definition io_ret :: "'a \<Rightarrow> ('w, 'e, 'a) io" where
  "io_ret x w = Some (Inr x, w)"

definition io_fail :: "'e \<Rightarrow> ('w, 'e, 'a) io" where
  "io_fail e w = Some (Inl e, w)"

definition io_panic :: "('w, 'e, 'a) io" where
  "io_panic w = None"

definition io_bind :: "('w, 'e, 'a) io \<Rightarrow> ('a \<Rightarrow> ('w, 'e, 'b) io) \<Rightarrow> ('w, 'e, 'b) io" where
  "io_bind m f w =
     (case m w of None \<Rightarrow> None | Some (Inl e, w') \<Rightarrow> Some (Inl e, w') | Some (Inr x, w') \<Rightarrow> f x w')"

text \<open>A remote call, its error wrapped as \<open>fmt.Errorf("...: %w", err)\<close> wraps it, and a local call.\<close>

definition io_call :: "(string \<Rightarrow> 'e) \<Rightarrow> ('w \<Rightarrow> (string + 'a) \<times> 'w) \<Rightarrow> ('w, 'e, 'a) io" where
  "io_call wrap rpc w = (case rpc w of (r, w') \<Rightarrow> Some (wrap_err wrap r, w'))"

definition io_lift :: "('d \<Rightarrow> 'e) \<Rightarrow> 'd + 'a \<Rightarrow> ('w, 'e, 'a) io" where
  "io_lift wrap r w = Some (wrap_err wrap r, w)"

definition io_wrap :: "('d \<Rightarrow> 'e) \<Rightarrow> ('w, 'd, 'a) io \<Rightarrow> ('w, 'e, 'a) io" where
  "io_wrap wrap m w = (case m w of None \<Rightarrow> None | Some (r, w') \<Rightarrow> Some (wrap_err wrap r, w'))"

lemma io_ret_simp [simp]: "io_ret x w = Some (Inr x, w)"
  by (simp add: io_ret_def)

lemma io_fail_simp [simp]: "io_fail e w = Some (Inl e, w)"
  by (simp add: io_fail_def)

lemma io_panic_simp [simp]: "io_panic w = None"
  by (simp add: io_panic_def)

lemma io_bind_ret [simp]: "io_bind (io_ret x) f = f x"
  by (rule ext) (simp add: io_bind_def)

lemma io_bind_okI: "m w = Some (Inr x, w') \<Longrightarrow> io_bind m f w = f x w'"
  by (simp add: io_bind_def)

lemma io_bind_Some_iff:
  "io_bind m f w = Some (Inr y, w'') \<longleftrightarrow>
   (\<exists>x w'. m w = Some (Inr x, w') \<and> f x w' = Some (Inr y, w''))"
  by (auto simp: io_bind_def split: option.splits sum.splits)

lemma io_bind_None_iff:
  "io_bind m f w = None \<longleftrightarrow> m w = None \<or> (\<exists>x w'. m w = Some (Inr x, w') \<and> f x w' = None)"
  by (auto simp: io_bind_def split: option.splits sum.splits)

lemma io_call_None [simp]: "io_call wrap rpc w \<noteq> None"
  by (simp add: io_call_def split: prod.splits)

lemma io_call_Inr_iff [simp]: "io_call wrap rpc w = Some (Inr x, w') \<longleftrightarrow> rpc w = (Inr x, w')"
  by (auto simp: io_call_def split: prod.splits)

lemma io_lift_None [simp]: "io_lift wrap r w \<noteq> None"
  by (simp add: io_lift_def)

lemma io_lift_Inr_iff [simp]: "io_lift wrap r w = Some (Inr x, w') \<longleftrightarrow> r = Inr x \<and> w' = w"
  by (auto simp: io_lift_def)

lemma io_wrap_None [simp]: "io_wrap wrap m w = None \<longleftrightarrow> m w = None"
  by (simp add: io_wrap_def split: option.splits)

lemma io_wrap_Inr_iff [simp]: "io_wrap wrap m w = Some (Inr x, w') \<longleftrightarrow> m w = Some (Inr x, w')"
  by (auto simp: io_wrap_def split: option.splits)

lemmas io_iffs = io_bind_Some_iff io_bind_None_iff

text \<open>The io operations form a monad, so a sequence of calls may be regrouped.\<close>

lemma io_bind_assoc: "io_bind (io_bind m f) g = io_bind m (\<lambda>x. io_bind (f x) g)"
  by (rule ext) (auto simp: io_bind_def split: option.splits sum.splits)

text \<open>Operations that return in every outside state.\<close>

definition io_total :: "('w, 'e, 'a) io \<Rightarrow> bool" where
  "io_total m \<longleftrightarrow> (\<forall>w. m w \<noteq> None)"

named_theorems io_total_intros

lemma io_total_ret [io_total_intros]: "io_total (io_ret x)"
  by (simp add: io_total_def)

lemma io_total_fail [io_total_intros]: "io_total (io_fail e)"
  by (simp add: io_total_def)

lemma io_total_call [io_total_intros]: "io_total (io_call wrap rpc)"
  unfolding io_total_def by (intro allI io_call_None)

lemma io_total_lift [io_total_intros]: "io_total (io_lift wrap r)"
  unfolding io_total_def by (intro allI io_lift_None)

lemma io_total_wrap [io_total_intros]: "io_total m \<Longrightarrow> io_total (io_wrap wrap m)"
  by (simp add: io_total_def)

lemma io_total_bind [io_total_intros]: "io_total m \<Longrightarrow> (\<And>x. io_total (f x)) \<Longrightarrow> io_total (io_bind m f)"
  by (simp add: io_total_def io_bind_None_iff)

lemma io_total_if [io_total_intros]: "io_total m \<Longrightarrow> io_total n \<Longrightarrow> io_total (if b then m else n)"
  by simp

end
