(* ===== verification/Committer.thy ===== *)
theory Committer
  imports Merkle Chain_Types
begin

text \<open>
  The relay service, \<^verbatim>\<open>src/HZKA/relay/committer.go\<close>: the committer polls the ordinary chains,
  turns every block with transactions into one \<open>submitCommit\<close> transaction on the audit chain, and,
  as an intermediate node of the tree, submits one aggregated root.

  Everything outside the file is a parameter. An \<open>ethclient\<close> holds the remote procedures of
  \<^verbatim>\<open>ethclient.Client\<close> (and \<^verbatim>\<open>bind.WaitMined\<close>) as functions of the outside state \<open>'w\<close>, so two calls may
  answer differently; \<open>libs\<close> holds the local library calls (file access, JSON, keys, Keccak-256,
  sender recovery and signing). \<open>None\<close> is a nil dereference or a call that never returns. Log
  output is left out.
\<close>

section \<open>Configuration and data\<close>

record ChainConfig =
  cc_ChainID :: u64
  cc_RPC :: string
  cc_Name :: string
  cc_ChainType :: string
  cc_GatewayURL :: string

record ChildCommitterConfig =
  child_NodeID :: u64
  child_RPC :: string
  child_Name :: string
  child_ChainIDs :: "u64 list"

record CommitterConfig =
  PrivateKey :: string
  OrdinaryChains :: "ChainConfig list"
  AuditChain :: ChainConfig
  AuditContractAddr :: string
  PollInterval :: int
  CircuitDir :: string
  Blacklist :: "string list"
  TreeNodeID :: u64
  ChildCommitters :: "ChildCommitterConfig list"

record TransactionData =
  td_From :: Address
  td_To :: Address
  td_Amount :: nat
  td_Signature :: bytes
  td_Nonce :: u64

record BlockData =
  bd_ChainID :: u64
  bd_BlockNumber :: u64
  bd_StateRootOld :: Hash
  bd_StateRootNew :: Hash
  bd_Transactions :: "TransactionData list"

text \<open>A proof as the code builds it; a \<open>None\<close> coordinate is a nil \<^verbatim>\<open>*big.Int\<close>.\<close>

record ProofData =
  p_A :: "nat option \<times> nat option"
  p_B :: "(nat option \<times> nat option) \<times> (nat option \<times> nat option)"
  p_C :: "nat option \<times> nat option"
  p_PublicInputs :: "nat list"

record AggregatedCommit =
  ag_NodeID :: u64
  ag_ChildRoots :: "Hash list"
  ag_AggregatedRoot :: Hash
  ag_Proof :: "ProofData option"

record Receipt =
  rc_Status :: u64

datatype committer_error =
    ErrReadConfig string
  | ErrParseConfig string
  | ErrPrivateKey string
  | ErrDialAudit string
  | ErrDialChain string string
  | ErrFetchBlock string
  | ErrAggregate committer_error
  | ErrParentBlock string
  | ErrGenProof committer_error
  | ErrSubmit committer_error
  | ErrNonce string
  | ErrGasPrice string
  | ErrChainID string
  | ErrSign string
  | ErrSend string
  | ErrReceipt string
  | ErrReverted
  | ErrRPC string
  | ErrNotImplemented string

record 'w ethclient =
  BlockNumber :: "'w \<Rightarrow> (string + u64) \<times> 'w"
  BlockByNumber :: "u64 option \<Rightarrow> 'w \<Rightarrow> (string + Block) \<times> 'w"
  HeaderByNumber :: "u64 \<Rightarrow> 'w \<Rightarrow> (string + Header) \<times> 'w"
  PendingNonceAt :: "Address \<Rightarrow> 'w \<Rightarrow> (string + u64) \<times> 'w"
  SuggestGasPrice :: "'w \<Rightarrow> (string + nat) \<times> 'w"
  ChainIDAt :: "'w \<Rightarrow> (string + nat) \<times> 'w"
  SendTransaction :: "LegacyTx \<Rightarrow> 'w \<Rightarrow> (string + unit) \<times> 'w"
  WaitMined :: "LegacyTx \<Rightarrow> 'w \<Rightarrow> (string + Receipt) \<times> 'w"

record ('w, 'k) libs =
  ReadFile :: "string \<Rightarrow> 'w \<Rightarrow> (string + bytes) \<times> 'w"
  Unmarshal :: "bytes \<Rightarrow> string + CommitterConfig"
  HexToECDSA :: "string \<Rightarrow> string + 'k"
  PubkeyToAddress :: "'k \<Rightarrow> Address"
  Keccak256 :: "bytes \<Rightarrow> bytes"
  Dial :: "string \<Rightarrow> 'w \<Rightarrow> (string + 'w ethclient) \<times> 'w"
  Sender :: "u64 \<Rightarrow> LegacyTx \<Rightarrow> string + Address"
  SignTx :: "LegacyTx \<Rightarrow> nat \<Rightarrow> 'k \<Rightarrow> string + LegacyTx"

section \<open>Data sources\<close>

datatype 'w ChainDataSource =
    GethDataSource "'w ethclient" u64
  | GatewayDataSource string u64

definition NewGethDataSource :: "'w ethclient \<Rightarrow> u64 \<Rightarrow> 'w ChainDataSource" where
  "NewGethDataSource client chainID = GethDataSource client chainID"

definition NewGatewayDataSource :: "string \<Rightarrow> u64 \<Rightarrow> 'w ChainDataSource" where
  "NewGatewayDataSource url chainID = GatewayDataSource url chainID"

text \<open>
  The transaction loop shared by \<open>GetBlockData\<close> and \<open>aggregateBlockData\<close>: transactions whose sender
  cannot be recovered are skipped, a missing recipient is the zero address, and the signature is
  \<open>append(append(r.Bytes(), s.Bytes()...), byte(v.Uint64()))\<close>.
\<close>

definition sig_bytes :: "nat \<Rightarrow> nat \<Rightarrow> nat \<Rightarrow> bytes" where
  "sig_bytes v r s = big_bytes r @ big_bytes s @ [ucast (of_nat v :: u64)]"

definition tx_data :: "('w, 'k) libs \<Rightarrow> u64 \<Rightarrow> LegacyTx \<Rightarrow> TransactionData option" where
  "tx_data L chainID tx =
     (case Sender L chainID tx of
        Inl _ \<Rightarrow> None
      | Inr from \<Rightarrow> Some \<lparr>td_From = from, td_To = (case tx_To tx of None \<Rightarrow> 0 | Some a \<Rightarrow> a),
          td_Amount = tx_Value tx, td_Signature = sig_bytes (tx_V tx) (tx_R tx) (tx_S tx),
          td_Nonce = tx_Nonce tx\<rparr>)"

fun collect_txs :: "('w, 'k) libs \<Rightarrow> u64 \<Rightarrow> LegacyTx list \<Rightarrow> TransactionData list" where
  "collect_txs L chainID [] = []"
| "collect_txs L chainID (tx # txs) =
     (case tx_data L chainID tx of
        None \<Rightarrow> collect_txs L chainID txs
      | Some d \<Rightarrow> d # collect_txs L chainID txs)"

fun GetLatestBlockNumber :: "'w ChainDataSource \<Rightarrow> ('w, committer_error, u64) io" where
  "GetLatestBlockNumber (GethDataSource client chainID) = io_call ErrRPC (BlockNumber client)"
| "GetLatestBlockNumber (GatewayDataSource url chainID) = io_fail (ErrNotImplemented ''latest'')"

fun GetBlockData :: "('w, 'k) libs \<Rightarrow> 'w ChainDataSource \<Rightarrow> u64 \<Rightarrow> ('w, committer_error, BlockData) io" where
  "GetBlockData L (GethDataSource client chainID) blockNum =
     io_bind (io_call ErrRPC (BlockByNumber client (Some blockNum))) (\<lambda>block.
     io_ret \<lparr>bd_ChainID = chainID, bd_BlockNumber = b_Number block, bd_StateRootOld = 0,
       bd_StateRootNew = b_Root block, bd_Transactions = collect_txs L chainID (b_Transactions block)\<rparr>)"
| "GetBlockData L (GatewayDataSource url chainID) blockNum = io_fail (ErrNotImplemented ''block data'')"

fun GetBlockHeader :: "'w ChainDataSource \<Rightarrow> u64 \<Rightarrow> ('w, committer_error, Header) io" where
  "GetBlockHeader (GethDataSource client chainID) blockNum = io_call ErrRPC (HeaderByNumber client blockNum)"
| "GetBlockHeader (GatewayDataSource url chainID) blockNum = io_fail (ErrNotImplemented ''header'')"

fun GetSPVProof :: "'w ChainDataSource \<Rightarrow> Hash \<Rightarrow> ('w, committer_error, Header SPVProof) io" where
  "GetSPVProof (GethDataSource client chainID) txHash = io_fail (ErrNotImplemented ''spv'')"
| "GetSPVProof (GatewayDataSource url chainID) txHash = io_fail (ErrNotImplemented ''spv'')"

fun ChainType :: "'w ChainDataSource \<Rightarrow> string" where
  "ChainType (GethDataSource client chainID) = ''permissionless''"
| "ChainType (GatewayDataSource url chainID) = ''permissioned''"

section \<open>The committer\<close>

record ('w, 'k) Committer =
  config :: CommitterConfig
  privateKey :: 'k
  auditClient :: "'w ethclient option"
  chainClients :: "u64 \<rightharpoonup> 'w ethclient"
  chainSources :: "u64 \<rightharpoonup> 'w ChainDataSource"
  lastProcessed :: "u64 \<rightharpoonup> u64"

text \<open>Reading a missing key of a Go map gives the zero value.\<close>

definition lastProcessedOf :: "('w, 'k) Committer \<Rightarrow> u64 \<Rightarrow> u64" where
  "lastProcessedOf c chainID = (case lastProcessed c chainID of None \<Rightarrow> 0 | Some n \<Rightarrow> n)"

definition NewCommitter ::
  "('w, 'k) libs \<Rightarrow> string \<Rightarrow> ('w, committer_error, ('w, 'k) Committer) io" where
  "NewCommitter L configPath =
     io_bind (io_call ErrReadConfig (ReadFile L configPath)) (\<lambda>data.
     io_bind (io_lift ErrParseConfig (Unmarshal L data)) (\<lambda>cfg.
     io_bind (io_lift ErrPrivateKey (HexToECDSA L (PrivateKey cfg))) (\<lambda>key.
     io_ret \<lparr>config = cfg, privateKey = key, auditClient = None, chainClients = Map.empty,
       chainSources = Map.empty, lastProcessed = Map.empty\<rparr>)))"

fun connect_chains ::
  "('w, 'k) libs \<Rightarrow> ChainConfig list \<Rightarrow> ('w, 'k) Committer \<Rightarrow> ('w, committer_error, ('w, 'k) Committer) io" where
  "connect_chains L [] c = io_ret c"
| "connect_chains L (chain # rest) c =
     (let chainType = (if cc_ChainType chain = '''' then ''permissionless'' else cc_ChainType chain)
      in if chainType = ''permissioned'' \<and> cc_GatewayURL chain \<noteq> '''' then
           connect_chains L rest
             (c\<lparr>chainSources := (chainSources c)
                  (cc_ChainID chain \<mapsto> NewGatewayDataSource (cc_GatewayURL chain) (cc_ChainID chain))\<rparr>)
         else
           io_bind (io_call (ErrDialChain (cc_Name chain)) (Dial L (cc_RPC chain))) (\<lambda>client.
           connect_chains L rest
             (c\<lparr>chainClients := (chainClients c)(cc_ChainID chain \<mapsto> client),
                chainSources := (chainSources c)
                  (cc_ChainID chain \<mapsto> NewGethDataSource client (cc_ChainID chain))\<rparr>)))"

text \<open>\<open>Start\<close> up to its polling loop.\<close>

definition connect :: "('w, 'k) libs \<Rightarrow> ('w, 'k) Committer \<Rightarrow> ('w, committer_error, ('w, 'k) Committer) io" where
  "connect L c =
     io_bind (io_call ErrDialAudit (Dial L (cc_RPC (AuditChain (config c))))) (\<lambda>client.
     connect_chains L (OrdinaryChains (config c)) (c\<lparr>auditClient := Some client\<rparr>))"

section \<open>Committing a block\<close>

definition aggregateBlockData ::
  "('w, 'k) libs \<Rightarrow> ('w, 'k) Committer \<Rightarrow> u64 \<Rightarrow> Block \<Rightarrow> ('w, committer_error, BlockData) io" where
  "aggregateBlockData L c chainID block =
     (let blockData = \<lparr>bd_ChainID = chainID, bd_BlockNumber = b_Number block, bd_StateRootOld = 0,
            bd_StateRootNew = b_Root block, bd_Transactions = []\<rparr>
      in io_bind
           (if b_Number block > 0 then
              (case chainClients c chainID of
                 None \<Rightarrow> io_panic
               | Some client \<Rightarrow>
                   io_bind (io_call ErrParentBlock (BlockByNumber client (Some (b_Number block - 1)))) (\<lambda>parentBlock.
                   io_ret (blockData\<lparr>bd_StateRootOld := b_Root parentBlock\<rparr>)))
            else io_ret blockData)
           (\<lambda>bd. io_ret (bd\<lparr>bd_Transactions := collect_txs L chainID (b_Transactions block)\<rparr>)))"

definition generateAuditProof :: "BlockData \<Rightarrow> committer_error + ProofData" where
  "generateAuditProof blockData =
     Inr \<lparr>p_A = (None, None), p_B = ((None, None), (None, None)), p_C = (None, None),
       p_PublicInputs = [be_nat (hash_bytes (bd_StateRootOld blockData)),
                         be_nat (hash_bytes (bd_StateRootNew blockData))]\<rparr>"

definition str_bytes :: "string \<Rightarrow> bytes" where
  "str_bytes s = map of_char s"

definition submitCommit_sig :: string where
  "submitCommit_sig = ''submitCommit(uint256,bytes32,bytes32,uint256[2],uint256[2][2],uint256[2])''"

definition encodeSubmitCommit :: "('w, 'k) libs \<Rightarrow> u64 \<Rightarrow> Hash \<Rightarrow> Hash \<Rightarrow> ProofData \<Rightarrow> bytes" where
  "encodeSubmitCommit L chainID oldRoot newRoot proof =
     (let data = [];
          selector = slice (Keccak256 L (str_bytes submitCommit_sig)) 0 4;
          data = data @ selector;
          data = data @ hash_bytes (BigToHash (unat chainID));
          data = data @ hash_bytes oldRoot;
          data = data @ hash_bytes newRoot
      in data)"

text \<open>The calls both submissions make: nonce, gas price, chain id, signature, send.\<close>

definition sendTx ::
  "('w, 'k) libs \<Rightarrow> ('w, 'k) Committer \<Rightarrow> 'w ethclient \<Rightarrow> u64 \<Rightarrow> bytes \<Rightarrow> ('w, committer_error, LegacyTx) io" where
  "sendTx L c client gasLimit callData =
     io_bind (io_call ErrNonce (PendingNonceAt client (PubkeyToAddress L (privateKey c)))) (\<lambda>nonce.
     io_bind (io_call ErrGasPrice (SuggestGasPrice client)) (\<lambda>gasPrice.
     io_bind (io_call ErrChainID (ChainIDAt client)) (\<lambda>auditChainID.
     io_bind (io_lift ErrSign
       (SignTx L (NewTransaction nonce (HexToAddress (AuditContractAddr (config c))) 0 gasLimit gasPrice callData)
         auditChainID (privateKey c))) (\<lambda>signedTx.
     io_bind (io_call ErrSend (SendTransaction client signedTx)) (\<lambda>_.
     io_ret signedTx)))))"

definition submitCommit ::
  "('w, 'k) libs \<Rightarrow> ('w, 'k) Committer \<Rightarrow> u64 \<Rightarrow> BlockData \<Rightarrow> ProofData \<Rightarrow> ('w, committer_error, unit) io" where
  "submitCommit L c chainID blockData proof =
     (case auditClient c of
        None \<Rightarrow> io_panic
      | Some client \<Rightarrow>
          io_bind (sendTx L c client 500000
            (encodeSubmitCommit L chainID (bd_StateRootOld blockData) (bd_StateRootNew blockData) proof)) (\<lambda>signedTx.
          io_bind (io_call ErrReceipt (WaitMined client signedTx)) (\<lambda>receipt.
          if rc_Status receipt = 0 then io_fail ErrReverted else io_ret ())))"

definition processBlock ::
  "('w, 'k) libs \<Rightarrow> ('w, 'k) Committer \<Rightarrow> u64 \<Rightarrow> u64 \<Rightarrow> ('w, committer_error, unit) io" where
  "processBlock L c chainID blockNum =
     (case chainClients c chainID of
        None \<Rightarrow> io_panic
      | Some client \<Rightarrow>
          io_bind (io_call ErrFetchBlock (BlockByNumber client (Some blockNum))) (\<lambda>block.
          io_bind (io_wrap ErrAggregate (aggregateBlockData L c chainID block)) (\<lambda>blockData.
          if length (bd_Transactions blockData) = 0 then io_ret ()
          else
            io_bind (io_lift ErrGenProof (generateAuditProof blockData)) (\<lambda>proof.
            io_wrap ErrSubmit (submitCommit L c chainID blockData proof)))))"

text \<open>
  The inner loop of \<open>processNewBlocks\<close>, \<open>for blockNum := lastProcessed + 1; blockNum <= latestBlock;
  blockNum++\<close>, on 64-bit block numbers: at \<open>latestBlock = MaxUint64\<close> the counter wraps and the
  guard never fails, so the loop may not return.
\<close>

partial_function (option) process_range ::
  "('w, 'k) libs \<Rightarrow> u64 \<Rightarrow> u64 \<Rightarrow> u64 \<Rightarrow> ('w, 'k) Committer \<Rightarrow> 'w \<Rightarrow> (('w, 'k) Committer \<times> 'w) option" where
  "process_range L chainID latestBlock blockNum c w =
     (if blockNum \<le> latestBlock then
        (case processBlock L c chainID blockNum w of
           None \<Rightarrow> None
         | Some (Inl e, w') \<Rightarrow> Some (c, w')
         | Some (Inr _, w') \<Rightarrow>
             process_range L chainID latestBlock (blockNum + 1)
               (c\<lparr>lastProcessed := (lastProcessed c)(chainID \<mapsto> blockNum)\<rparr>) w')
      else Some (c, w))"

fun process_chains ::
  "('w, 'k) libs \<Rightarrow> ChainConfig list \<Rightarrow> ('w, 'k) Committer \<Rightarrow> 'w \<Rightarrow> (('w, 'k) Committer \<times> 'w) option" where
  "process_chains L [] c w = Some (c, w)"
| "process_chains L (chain # rest) c w =
     (case chainClients c (cc_ChainID chain) of
        None \<Rightarrow> process_chains L rest c w
      | Some client \<Rightarrow>
          (case BlockNumber client w of
             (Inl e, w') \<Rightarrow> process_chains L rest c w'
           | (Inr latestBlock, w') \<Rightarrow>
               (let last = lastProcessedOf c (cc_ChainID chain)
                in if latestBlock \<le> last then process_chains L rest c w'
                   else
                     (case process_range L (cc_ChainID chain) latestBlock (last + 1) c w' of
                        None \<Rightarrow> None
                      | Some (c', w'') \<Rightarrow> process_chains L rest c' w''))))"

definition processNewBlocks ::
  "('w, 'k) libs \<Rightarrow> ('w, 'k) Committer \<Rightarrow> 'w \<Rightarrow> (('w, 'k) Committer \<times> 'w) option" where
  "processNewBlocks L c w = process_chains L (OrdinaryChains (config c)) c w"

section \<open>Tree aggregation\<close>

fun collect_roots ::
  "('w, 'k) Committer \<Rightarrow> ChainConfig list \<Rightarrow> 'w \<Rightarrow> Hash list \<times> 'w" where
  "collect_roots c [] w = ([], w)"
| "collect_roots c (chain # rest) w =
     (case chainClients c (cc_ChainID chain) of
        None \<Rightarrow> collect_roots c rest w
      | Some client \<Rightarrow>
          (case BlockByNumber client None w of
             (Inl e, w') \<Rightarrow> collect_roots c rest w'
           | (Inr latestBlock, w') \<Rightarrow>
               (case collect_roots c rest w' of (roots, w'') \<Rightarrow> (b_Root latestBlock # roots, w''))))"

definition generateAggregatedProof :: "AggregatedCommit \<Rightarrow> committer_error + ProofData" where
  "generateAggregatedProof agg =
     Inr \<lparr>p_A = (None, None), p_B = ((None, None), (None, None)), p_C = (None, None),
       p_PublicInputs = [be_nat (hash_bytes 0), be_nat (hash_bytes (ag_AggregatedRoot agg))]\<rparr>"

definition submitAggregatedCommit_sig :: string where
  "submitAggregatedCommit_sig =
     ''submitAggregatedCommit(uint256,bytes32[],bytes32,uint256[2],uint256[2][2],uint256[2])''"

definition encodeAggregatedCommit :: "('w, 'k) libs \<Rightarrow> AggregatedCommit \<Rightarrow> bytes" where
  "encodeAggregatedCommit L agg =
     slice (Keccak256 L (str_bytes submitAggregatedCommit_sig)) 0 4
     @ hash_bytes (BigToHash (unat (ag_NodeID agg))) @ hash_bytes (ag_AggregatedRoot agg)"

definition submitAggregatedCommitTx ::
  "('w, 'k) libs \<Rightarrow> ('w, 'k) Committer \<Rightarrow> AggregatedCommit \<Rightarrow> ('w, committer_error, unit) io" where
  "submitAggregatedCommitTx L c agg =
     (case auditClient c of
        None \<Rightarrow> io_panic
      | Some client \<Rightarrow>
          io_bind (sendTx L c client 600000 (encodeAggregatedCommit L agg)) (\<lambda>_. io_ret ()))"

definition processAsIntermediateNode ::
  "('w, 'k) libs \<Rightarrow> ('w, 'k) Committer \<Rightarrow> ('w, committer_error, unit) io" where
  "processAsIntermediateNode L c w =
     (if TreeNodeID (config c) = 0 then io_ret () w
      else
        (case collect_roots c (OrdinaryChains (config c)) w of
           (chainRoots, w') \<Rightarrow>
             (let childRoots = chainRoots @ map (\<lambda>_. 0) (ChildCommitters (config c))
              in if length childRoots = 0 then io_ret () w'
                 else
                   (case computeRootHash (Keccak256 L) childRoots of
                      None \<Rightarrow> io_panic w'
                    | Some aggregatedRoot \<Rightarrow>
                        (let aggCommit = \<lparr>ag_NodeID = TreeNodeID (config c), ag_ChildRoots = childRoots,
                               ag_AggregatedRoot = aggregatedRoot, ag_Proof = None\<rparr>
                         in io_bind (io_lift ErrGenProof (generateAggregatedProof aggCommit)) (\<lambda>proof.
                            submitAggregatedCommitTx L c (aggCommit\<lparr>ag_Proof := Some proof\<rparr>)) w')))))"

section \<open>The service\<close>

text \<open>What the \<open>select\<close> of \<open>Start\<close> may receive; the order is up to the scheduler.\<close>

datatype event = Tick | Done

definition tick :: "('w, 'k) libs \<Rightarrow> ('w, 'k) Committer \<Rightarrow> 'w \<Rightarrow> (('w, 'k) Committer \<times> 'w) option" where
  "tick L c w =
     (case processNewBlocks L c w of
        None \<Rightarrow> None
      | Some (c', w') \<Rightarrow>
          if TreeNodeID (config c') > 0 then
            (case processAsIntermediateNode L c' w' of
               None \<Rightarrow> None
             | Some (_, w'') \<Rightarrow> Some (c', w''))
          else Some (c', w'))"

fun poll_loop ::
  "('w, 'k) libs \<Rightarrow> event list \<Rightarrow> ('w, 'k) Committer \<Rightarrow> 'w \<Rightarrow> (('w, 'k) Committer \<times> 'w) option" where
  "poll_loop L [] c w = Some (c, w)"
| "poll_loop L (Done # events) c w = Some (c, w)"
| "poll_loop L (Tick # events) c w =
     (case tick L c w of None \<Rightarrow> None | Some (c', w') \<Rightarrow> poll_loop L events c' w')"

text \<open>\<open>time.Duration(PollInterval) * time.Second\<close>; \<open>NewTicker\<close> panics unless it is positive.\<close>

definition ticker_interval :: "int \<Rightarrow> int" where
  "ticker_interval n = sint ((word_of_int n :: u64) * 1000000000)"

definition Start ::
  "('w, 'k) libs \<Rightarrow> event list \<Rightarrow> ('w, 'k) Committer \<Rightarrow> ('w, committer_error, ('w, 'k) Committer) io" where
  "Start L events c =
     io_bind (connect L c) (\<lambda>c' w'.
       if ticker_interval (PollInterval (config c')) \<le> 0 then None
       else case poll_loop L events c' w' of None \<Rightarrow> None | Some (c'', w'') \<Rightarrow> Some (Inr c'', w''))"

end
