(* ===== verification/Committer_Correct.thy ===== *)
theory Committer_Correct
  imports Committer
begin

text \<open>
  Correctness of the relay: the polling loops return, every chain is committed block by block
  without gaps, what a successful commit has put on the audit chain, the layout of the call data,
  the agreement of the two readers of block data, and which chains are never audited.
\<close>

section \<open>Frame facts\<close>

lemma sendTx_total [io_total_intros]: "io_total (sendTx L c client gas data)"
  unfolding sendTx_def by (intro io_total_intros)

lemma submitCommit_total:
  "auditClient c = Some ac \<Longrightarrow> io_total (submitCommit L c ch bd proof)"
  by (simp add: submitCommit_def) (intro io_total_intros)

lemma aggregateBlockData_total:
  "chainClients c ch = Some client \<Longrightarrow> io_total (aggregateBlockData L c ch block)"
  unfolding aggregateBlockData_def Let_def by (simp only: option.case) (intro io_total_intros)

lemma processBlock_total:
  "chainClients c ch = Some client \<Longrightarrow> auditClient c = Some ac \<Longrightarrow> io_total (processBlock L c ch n)"
  by (simp add: processBlock_def)
    (intro io_total_intros aggregateBlockData_total submitCommit_total)

lemma processBlock_returns:
  assumes "chainClients c ch = Some client" and "auditClient c = Some ac"
  obtains r w' where "processBlock L c ch n w = Some (r, w')"
  using processBlock_total [OF assms, of L n] by (fastforce simp: io_total_def)

text \<open>The committer's own steps: only \<open>lastProcessed\<close> changes, one block at a time.\<close>

inductive relay_step ::
  "('w, 'k) libs \<Rightarrow> ('w, 'k) Committer \<times> 'w \<Rightarrow> ('w, 'k) Committer \<times> 'w \<Rightarrow> bool" for L where
  commit: "processBlock L c ch (lastProcessedOf c ch + 1) w = Some (Inr (), w') \<Longrightarrow>
     lastProcessedOf c ch < lastProcessedOf c ch + 1 \<Longrightarrow> chainClients c ch \<noteq> None \<Longrightarrow>
     relay_step L (c, w) (c\<lparr>lastProcessed := (lastProcessed c)(ch \<mapsto> lastProcessedOf c ch + 1)\<rparr>, w')"
| outside: "relay_step L (c, w) (c, w')"

inductive_cases relay_stepE: "relay_step L (c, w) (c', w')"

definition same_service :: "('w, 'k) Committer \<Rightarrow> ('w, 'k) Committer \<Rightarrow> bool" where
  "same_service c c' \<longleftrightarrow> config c' = config c \<and> privateKey c' = privateKey c \<and>
     auditClient c' = auditClient c \<and> chainClients c' = chainClients c \<and> chainSources c' = chainSources c"

lemma same_service_refl [simp]: "same_service c c"
  by (simp add: same_service_def)

lemma same_service_trans: "same_service a b \<Longrightarrow> same_service b c \<Longrightarrow> same_service a c"
  by (simp add: same_service_def)

lemma same_service_lastProcessed [simp]: "same_service c (c\<lparr>lastProcessed := m\<rparr>)"
  by (simp add: same_service_def)

lemma relay_step_service: "relay_step L (c, w) (c', w') \<Longrightarrow> same_service c c'"
  by (erule relay_stepE) simp_all


lemma relay_steps_service: "(relay_step L)\<^sup>*\<^sup>* (c, w) (c', w') \<Longrightarrow> same_service c c'"
  by (induction "(c', w')" arbitrary: c' w' rule: rtranclp_induct)
    (auto dest: relay_step_service intro: same_service_trans)


lemma relay_steps_no_client:
  "(relay_step L)\<^sup>*\<^sup>* (c, w) (c', w') \<Longrightarrow> chainClients c ch = None \<Longrightarrow>
   lastProcessed c' ch = lastProcessed c ch \<and> chainClients c' ch = None"
  by (induction "(c', w')" arbitrary: c' w' rule: rtranclp_induct) (auto elim!: relay_stepE)

section \<open>The block loop\<close>

text \<open>The loop started at \<open>b\<close> commits \<open>b, b + 1, \<dots>\<close> and stops after \<open>latest\<close> or at the first failure.\<close>

lemma word_Suc_lt: "b \<le> latest \<Longrightarrow> latest \<noteq> - 1 \<Longrightarrow> unat (b + 1) = Suc (unat b)" for b latest :: u64
proof -
  assume "b \<le> latest" "latest \<noteq> - 1"
  then have "b \<noteq> - 1" by (metis word_n1_ge word_le_def antisym)
  then have "b + 1 \<noteq> 0" by (metis add.commute add_eq_0_iff)
  then show ?thesis by (simp add: unatSuc add.commute)
qed

lemma process_range_returns:
  assumes "latest \<noteq> - 1"
  shows "chainClients c ch = Some client \<Longrightarrow> auditClient c = Some ac \<Longrightarrow>
    \<exists>c' w'. process_range L ch latest b c w = Some (c', w')"
proof (induction "Suc (unat latest) - unat b" arbitrary: b c w)
  case 0
  then have "\<not> b \<le> latest" by (simp add: word_le_nat_alt)
  then show ?case by (simp add: process_range.simps)
next
  case (Suc k)
  show ?case
  proof (cases "b \<le> latest")
    case False
    then show ?thesis by (simp add: process_range.simps)
  next
    case True
    then have nb: "unat (b + 1) = Suc (unat b)" using assms by (rule word_Suc_lt)
    obtain r w1 where r: "processBlock L c ch b w = Some (r, w1)"
      using processBlock_returns [OF Suc.prems] by blast
    show ?thesis
    proof (cases r)
      case (Inl e)
      with True r show ?thesis by (simp add: process_range.simps)
    next
      case (Inr u)
      let ?c = "c\<lparr>lastProcessed := (lastProcessed c)(ch \<mapsto> b)\<rparr>"
      have "\<exists>c' w'. process_range L ch latest (b + 1) ?c w1 = Some (c', w')"
        using Suc.hyps(2) nb Suc.prems by (intro Suc.hyps(1)) auto
      with True r Inr show ?thesis by (subst process_range.simps) simp
    qed
  qed
qed


lemma process_range_steps:
  assumes "latest \<noteq> - 1"
  shows "process_range L ch latest b c w = Some (c', w') \<Longrightarrow> chainClients c ch \<noteq> None \<Longrightarrow>
    b = lastProcessedOf c ch + 1 \<Longrightarrow> lastProcessedOf c ch \<le> latest \<Longrightarrow>
    (\<exists>w1. (relay_step L)\<^sup>*\<^sup>* (c, w) (c', w1) \<and>
      (lastProcessedOf c' ch = latest \<and> w' = w1 \<or>
       lastProcessedOf c' ch < latest \<and>
         (\<exists>e. processBlock L c' ch (lastProcessedOf c' ch + 1) w1 = Some (Inl e, w'))))"
proof (induction "Suc (unat latest) - unat b" arbitrary: b c w)
  case 0
  then have "\<not> b \<le> latest" by (simp add: word_le_nat_alt)
  moreover have "unat (lastProcessedOf c ch + 1) = Suc (unat (lastProcessedOf c ch))"
    using 0 assms by (intro word_Suc_lt) auto
  ultimately have "lastProcessedOf c ch = latest"
    using 0 by (simp add: word_le_nat_alt word_unat_eq_iff)
  with 0 \<open>\<not> b \<le> latest\<close> show ?case by (auto simp: process_range.simps)
next
  case (Suc k)
  have lp: "unat b = Suc (unat (lastProcessedOf c ch))"
    using Suc.prems assms by (simp add: word_Suc_lt)
  have le: "b \<le> latest" using Suc.hyps(2) by (simp add: word_le_nat_alt)
  then have nb: "unat (b + 1) = Suc (unat b)" using assms by (rule word_Suc_lt)
  have lt: "lastProcessedOf c ch < b" using lp by (simp add: word_less_nat_alt)
  from Suc.prems(1) le obtain r w1 where r: "processBlock L c ch b w = Some (r, w1)"
    by (subst (asm) process_range.simps) (auto split: option.splits)
  show ?case
  proof (cases r)
    case (Inl e)
    with Suc.prems(1) le r have "c' = c" "w' = w1"
      by (subst (asm) process_range.simps, simp)+
    moreover have "lastProcessedOf c ch < latest" using lt le by simp
    ultimately show ?thesis using r Inl Suc.prems(3) by auto
  next
    case (Inr u)
    let ?c = "c\<lparr>lastProcessed := (lastProcessed c)(ch \<mapsto> b)\<rparr>"
    have b: "lastProcessedOf ?c ch = b" by (simp add: lastProcessedOf_def)
    have run: "process_range L ch latest (b + 1) ?c w1 = Some (c', w')"
      using Suc.prems(1) le r Inr by (subst (asm) process_range.simps) simp
    have step: "relay_step L (c, w) (?c, w1)"
      using relay_step.commit [of L c ch w w1] r Inr Suc.prems lt by simp
    have "\<exists>w2. (relay_step L)\<^sup>*\<^sup>* (?c, w1) (c', w2) \<and>
      (lastProcessedOf c' ch = latest \<and> w' = w2 \<or>
       lastProcessedOf c' ch < latest \<and>
         (\<exists>e. processBlock L c' ch (lastProcessedOf c' ch + 1) w2 = Some (Inl e, w')))"
      using Suc.hyps(2) nb run Suc.prems b le by (intro Suc.hyps(1)) auto
    then show ?thesis using converse_rtranclp_into_rtranclp [of "relay_step L", OF step] by fast
  qed
qed

section \<open>Polling\<close>

text \<open>No client ever reports the height \<open>2 ^ 64 - 1\<close>.\<close>

definition heights_below_max :: "('w, 'k) Committer \<Rightarrow> bool" where
  "heights_below_max c \<longleftrightarrow>
     (\<forall>ch client w n w'. chainClients c ch = Some client \<longrightarrow> BlockNumber client w = (Inr n, w') \<longrightarrow> n \<noteq> - 1)"

lemma same_serviceD:
  assumes "same_service c c'"
  shows "auditClient c' = auditClient c" and "heights_below_max c \<Longrightarrow> heights_below_max c'"
  using assms by (simp_all add: heights_below_max_def same_service_def)

lemma relay_outside: "(relay_step L)\<^sup>*\<^sup>* (c, w) (c, w')"
  by (rule r_into_rtranclp) (rule relay_step.outside)

lemma process_range_relay:
  assumes "process_range L ch latest (lastProcessedOf c ch + 1) c w = Some (c', w')"
    and "latest \<noteq> - 1" and "chainClients c ch \<noteq> None" and "lastProcessedOf c ch < latest"
  shows "(relay_step L)\<^sup>*\<^sup>* (c, w) (c', w')"
proof -
  from process_range_steps [OF assms(2) assms(1) assms(3) refl] assms(4)
  obtain w1 where "(relay_step L)\<^sup>*\<^sup>* (c, w) (c', w1)" by (auto simp: less_imp_le)
  then show ?thesis by (rule rtranclp_trans) (rule relay_outside)
qed

lemma process_chains_relay:
  "heights_below_max c \<Longrightarrow> auditClient c = Some ac \<Longrightarrow>
   \<exists>c' w'. process_chains L chs c w = Some (c', w') \<and> (relay_step L)\<^sup>*\<^sup>* (c, w) (c', w')"
proof (induction chs arbitrary: c w)
  case Nil
  then show ?case by simp
next
  case (Cons chain chs)
  let ?ch = "cc_ChainID chain"
  have skip: ?case if "process_chains L (chain # chs) c w = process_chains L chs c w'" for w'
  proof -
    obtain c2 w2 where "process_chains L chs c w' = Some (c2, w2)" "(relay_step L)\<^sup>*\<^sup>* (c, w') (c2, w2)"
      using Cons.IH [OF Cons.prems] by blast
    with that show ?thesis using rtranclp_trans [OF relay_outside [of L c w w']] by auto
  qed
  show ?case
  proof (cases "chainClients c ?ch")
    case None
    then show ?thesis by (intro skip [of w]) simp
  next
    case (Some client)
    obtain r w1 where bn: "BlockNumber client w = (r, w1)" by (cases "BlockNumber client w")
    show ?thesis
    proof (cases "\<exists>latest. r = Inr latest \<and> lastProcessedOf c ?ch < latest")
      case False
      then show ?thesis using Some bn by (intro skip [of w1]) (cases r; auto simp: Let_def not_less)
    next
      case True
      then obtain latest where r: "r = Inr latest" "lastProcessedOf c ?ch < latest" by blast
      have max: "latest \<noteq> - 1"
        using Cons.prems(1) Some bn r(1) unfolding heights_below_max_def by blast
      obtain c1 w2 where run: "process_range L ?ch latest (lastProcessedOf c ?ch + 1) c w1 = Some (c1, w2)"
        using process_range_returns [OF max Some Cons.prems(2)] by blast
      have steps: "(relay_step L)\<^sup>*\<^sup>* (c, w1) (c1, w2)"
        using process_range_relay [OF run max _ r(2)] Some by simp
      have same: "same_service c c1" using steps by (rule relay_steps_service)
      have "heights_below_max c1" "auditClient c1 = Some ac"
        using Cons.prems same_serviceD [OF same] by auto
      from Cons.IH [OF this, of w2] obtain c' w' where
        rest: "process_chains L chs c1 w2 = Some (c', w')" "(relay_step L)\<^sup>*\<^sup>* (c1, w2) (c', w')" by blast
      have "process_chains L (chain # chs) c w = Some (c', w')"
        using Some bn r run rest(1) by (simp add: Let_def not_le [symmetric])
      moreover have "(relay_step L)\<^sup>*\<^sup>* (c, w) (c', w')"
        by (rule rtranclp_trans [OF rtranclp_trans [OF relay_outside [of L c w w1] steps] rest(2)])
      ultimately show ?thesis by blast
    qed
  qed
qed

lemma submitAggregatedCommitTx_total:
  "auditClient c = Some ac \<Longrightarrow> io_total (submitAggregatedCommitTx L c agg)"
  unfolding submitAggregatedCommitTx_def by (simp only: option.case) (intro io_total_intros)

lemma processAsIntermediateNode_returns:
  assumes "auditClient c = Some ac"
  obtains r w' where "processAsIntermediateNode L c w = Some (r, w')"
proof -
  have total: "io_bind (io_lift ErrGenProof r) (\<lambda>proof. submitAggregatedCommitTx L c (f proof)) w' \<noteq> None"
    for r f w'
  proof -
    have "io_total (io_bind (io_lift ErrGenProof r) (\<lambda>proof. submitAggregatedCommitTx L c (f proof)))"
      by (intro io_total_intros submitAggregatedCommitTx_total [OF assms])
    then show ?thesis by (simp add: io_total_def)
  qed
  have "processAsIntermediateNode L c w \<noteq> None"
    unfolding processAsIntermediateNode_def
    by (simp add: computeRootHash_spec Let_def del: not_None_eq split: prod.splits) (intro allI impI total)
  then show ?thesis using that by fastforce
qed

lemma tick_relay:
  assumes "heights_below_max c" and "auditClient c = Some ac"
  shows "\<exists>c' w'. tick L c w = Some (c', w') \<and> (relay_step L)\<^sup>*\<^sup>* (c, w) (c', w')"
proof -
  obtain c1 w1 where run: "processNewBlocks L c w = Some (c1, w1)" and steps: "(relay_step L)\<^sup>*\<^sup>* (c, w) (c1, w1)"
    using process_chains_relay [OF assms] unfolding processNewBlocks_def by blast
  then have "auditClient c1 = Some ac" using relay_steps_service [OF steps] assms(2) by (simp add: same_service_def)
  then obtain r w2 where agg: "processAsIntermediateNode L c1 w1 = Some (r, w2)"
    by (rule processAsIntermediateNode_returns)
  have steps2: "(relay_step L)\<^sup>*\<^sup>* (c, w) (c1, w2)"
    using steps relay_outside [of L c1 w1 w2] by (rule rtranclp_trans)
  show ?thesis
  proof (cases "TreeNodeID (config c1) > 0")
    case True
    with run agg steps2 show ?thesis by (intro exI [of _ c1] exI [of _ w2]) (simp add: tick_def)
  next
    case False
    with run steps show ?thesis by (intro exI [of _ c1] exI [of _ w1]) (simp add: tick_def)
  qed
qed

lemma poll_loop_relay:
  "heights_below_max c \<Longrightarrow> auditClient c = Some ac \<Longrightarrow>
   \<exists>c' w'. poll_loop L events c w = Some (c', w') \<and> (relay_step L)\<^sup>*\<^sup>* (c, w) (c', w')"
proof (induction L events c w rule: poll_loop.induct)
  case (3 L events c w)
  obtain c1 w1 where t: "tick L c w = Some (c1, w1)" and s: "(relay_step L)\<^sup>*\<^sup>* (c, w) (c1, w1)"
    using tick_relay [OF "3.prems"] by blast
  have "heights_below_max c1" "auditClient c1 = Some ac"
    using "3.prems" same_serviceD [OF relay_steps_service [OF s]] by auto
  from "3.IH" [OF t refl this] obtain c2 w2
    where r: "poll_loop L events c1 w1 = Some (c2, w2)" "(relay_step L)\<^sup>*\<^sup>* (c1, w1) (c2, w2)" by blast
  have "(relay_step L)\<^sup>*\<^sup>* (c, w) (c2, w2)" using s r(2) by (rule rtranclp_trans)
  with t r(1) show ?case by simp
qed auto

section \<open>What a commit puts on the audit chain\<close>

lemma sendTx_sends:
  assumes "sendTx L c client gas data w = Some (Inr stx, w')"
  shows "\<exists>nonce gasPrice cid w1.
    SignTx L (NewTransaction nonce (HexToAddress (AuditContractAddr (config c))) 0 gas gasPrice data) cid (privateKey c)
      = Inr stx \<and> SendTransaction client stx w1 = (Inr (), w')"
  using assms unfolding sendTx_def by (auto simp: io_bind_Some_iff)

lemma aggregateBlockData_data:
  assumes "aggregateBlockData L c ch block w = Some (Inr bd, w')"
  shows "bd = \<lparr>bd_ChainID = ch, bd_BlockNumber = b_Number block, bd_StateRootOld = bd_StateRootOld bd,
      bd_StateRootNew = b_Root block, bd_Transactions = collect_txs L ch (b_Transactions block)\<rparr>"
    and "b_Number block > 0 \<Longrightarrow> chainClients c ch = Some client \<Longrightarrow>
      \<exists>parent. BlockByNumber client (Some (b_Number block - 1)) w = (Inr parent, w') \<and>
        bd_StateRootOld bd = b_Root parent"
  using assms unfolding aggregateBlockData_def
  by (auto simp: Let_def io_bind_Some_iff split: if_splits option.splits)

lemma aggregateBlockData_genesis:
  "aggregateBlockData L c ch block w = Some (Inr bd, w') \<Longrightarrow> b_Number block = 0 \<Longrightarrow>
   bd_StateRootOld bd = 0 \<and> w' = w"
  unfolding aggregateBlockData_def by (auto simp: Let_def io_bind_Some_iff)

section \<open>Which chains have a client\<close>

definition gateway_entry :: "ChainConfig \<Rightarrow> bool" where
  "gateway_entry chain \<longleftrightarrow> cc_ChainType chain = ''permissioned'' \<and> cc_GatewayURL chain \<noteq> ''''"

lemma connect_chains_clients:
  "connect_chains L chs c w = Some (Inr c', w') \<Longrightarrow>
   \<forall>chain \<in> set chs. cc_ChainID chain = ch \<longrightarrow> gateway_entry chain \<Longrightarrow>
   chainClients c' ch = chainClients c ch \<and> lastProcessed c' = lastProcessed c \<and> auditClient c' = auditClient c"
proof (induction chs arbitrary: c w)
  case Nil
  then show ?case by simp
next
  case (Cons chain chs)
  show ?case
  proof (cases "gateway_entry chain")
    case True
    let ?c1 = "c\<lparr>chainSources := (chainSources c)
      (cc_ChainID chain \<mapsto> NewGatewayDataSource (cc_GatewayURL chain) (cc_ChainID chain))\<rparr>"
    have "connect_chains L chs ?c1 w = Some (Inr c', w')"
      using Cons.prems(1) True by (simp add: gateway_entry_def Let_def)
    from Cons.IH [OF this] Cons.prems(2) show ?thesis by simp
  next
    case False
    then obtain client w1 where "connect_chains L chs (c\<lparr>chainClients := (chainClients c)(cc_ChainID chain \<mapsto> client),
          chainSources := (chainSources c)(cc_ChainID chain \<mapsto> NewGethDataSource client (cc_ChainID chain))\<rparr>) w1
        = Some (Inr c', w')"
      using Cons.prems(1) by (auto simp: gateway_entry_def Let_def io_bind_Some_iff split: if_splits)
    from Cons.IH [OF this] Cons.prems(2) False show ?thesis by auto
  qed
qed

section \<open>The two readers of block data\<close>

text \<open>What every implementation of the Go interface \<^verbatim>\<open>ChainDataSource\<close> owes its callers.\<close>

locale chain_data_source =
  fixes block_data :: "'s \<Rightarrow> u64 \<Rightarrow> ('w, committer_error, BlockData) io"
    and kind :: "'s \<Rightarrow> string"
    and source_id :: "'s \<Rightarrow> u64"
  assumes kinds: "kind s = ''permissionless'' \<or> kind s = ''permissioned''"
    and own_chain: "block_data s n w = Some (Inr d, w') \<Longrightarrow> bd_ChainID d = source_id s"
    and header_only: "kind s = ''permissioned'' \<Longrightarrow> block_data s n w \<noteq> Some (Inr d, w')"
    and returns: "io_total (block_data s n)"
begin

lemma readable_is_permissionless:
  "block_data s n w = Some (Inr d, w') \<Longrightarrow> kind s = ''permissionless'' \<and> bd_ChainID d = source_id s"
  using kinds [of s] own_chain header_only by blast

lemma permissioned_fails:
  assumes "kind s = ''permissioned''"
  obtains e w' where "block_data s n w = Some (Inl e, w')"
proof -
  obtain r w' where r: "block_data s n w = Some (r, w')"
    using returns [of s n] by (fastforce simp: io_total_def)
  then show ?thesis using that header_only [OF assms] by (cases r) auto
qed

end

fun sourceChainID :: "'w ChainDataSource \<Rightarrow> u64" where
  "sourceChainID (GethDataSource client chainID) = chainID"
| "sourceChainID (GatewayDataSource url chainID) = chainID"

interpretation relay_source: chain_data_source "GetBlockData L" ChainType sourceChainID for L
proof
  fix s :: "'a ChainDataSource" and n w w' d
  show "ChainType s = ''permissionless'' \<or> ChainType s = ''permissioned''" by (cases s) simp_all
  show "GetBlockData L s n w = Some (Inr d, w') \<Longrightarrow> bd_ChainID d = sourceChainID s"
    by (cases s) (auto simp: io_bind_Some_iff)
  show "ChainType s = ''permissioned'' \<Longrightarrow> GetBlockData L s n w \<noteq> Some (Inr d, w')"
    by (cases s) simp_all
  show "io_total (GetBlockData L s n)"
    by (cases s) (simp_all only: GetBlockData.simps io_total_bind io_total_call io_total_ret io_total_fail)
qed

section \<open>Signatures and start-up\<close>

lemma big_bytes_length_less: "256 ^ n \<le> x \<Longrightarrow> n < length (big_bytes x)"
proof -
  assume "256 ^ n \<le> x"
  also have "x < 256 ^ length (big_bytes x)" using be_nat_lt [of "big_bytes x"] by (simp add: be_nat_big_bytes)
  finally show ?thesis by simp
qed

lemma big_bytes_full: "x < 256 ^ Suc n \<Longrightarrow> length (big_bytes x) = Suc n \<longleftrightarrow> 256 ^ n \<le> x"
  using big_bytes_length [of x "Suc n"] big_bytes_length [of x n] big_bytes_length_less [of n x]
  by (cases "x < 256 ^ n") auto

lemma byte_of_v: "ucast (of_nat v :: u64) = (of_nat v :: byte)"
  by (rule word_unat_eq_iff [THEN iffD2]) (simp add: unat_of_nat unsigned_ucast_eq take_bit_eq_mod mod_mod_cancel)

lemma connect_chains_audit:
  "connect_chains L chs c w = Some (Inr c', w') \<Longrightarrow> auditClient c' = auditClient c"
  by (induction chs arbitrary: c w)
    (fastforce simp: Let_def io_bind_Some_iff split: if_splits)+

lemma connect_chains_config:
  "connect_chains L chs c w = Some (Inr c', w') \<Longrightarrow> config c' = config c"
  by (induction chs arbitrary: c w)
    (fastforce simp: Let_def io_bind_Some_iff split: if_splits)+

lemma connect_config:
  assumes "connect L c w = Some (Inr c', w')"
  shows "config c' = config c" and "\<exists>ac. auditClient c' = Some ac"
proof -
  obtain client w0 where run: "connect_chains L (OrdinaryChains (config c)) (c\<lparr>auditClient := Some client\<rparr>) w0 = Some (Inr c', w')"
    using assms by (auto simp: connect_def io_bind_Some_iff)
  then show "config c' = config c" using connect_chains_config [OF run] by simp
  show "\<exists>ac. auditClient c' = Some ac" using connect_chains_audit [OF run] by simp
qed

lemma ticker_interval_pos: "0 < n \<Longrightarrow> n \<le> 9223372036 \<Longrightarrow> ticker_interval n = n * 1000000000"
  unfolding ticker_interval_def
  by (subst word_of_int_numeral [symmetric], subst wi_hom_mult, subst sint_sbintrunc', subst signed_take_bit_int_eq_self)
    auto

section \<open>A concrete service\<close>

text \<open>
  One ordinary chain of height 2 whose blocks hold one transaction, an audit chain that mines what it
  is sent, and an identity hash: the instance on which the hypotheses below are shown to be
  satisfiable. The outside state is the list of transactions sent to the audit chain.
\<close>

definition ex_tx :: LegacyTx where
  "ex_tx = \<lparr>tx_Nonce = 7, tx_GasPrice = 1, tx_Gas = 21000, tx_To = None, tx_Value = 5, tx_Data = [],
     tx_V = 27, tx_R = 1, tx_S = 2\<rparr>"

definition ex_block :: "u64 \<Rightarrow> Block" where
  "ex_block n = \<lparr>b_Number = n, b_Root = ucast n + 100, b_Transactions = [ex_tx]\<rparr>"

definition ex_client :: "LegacyTx list ethclient" where
  "ex_client = \<lparr>BlockNumber = (\<lambda>w. (Inr 2, w)),
     BlockByNumber = (\<lambda>n w. (Inr (ex_block (case n of None \<Rightarrow> 2 | Some k \<Rightarrow> k)), w)),
     HeaderByNumber = (\<lambda>n w. (Inl ''no header'', w)), PendingNonceAt = (\<lambda>a w. (Inr (of_nat (length w)), w)),
     SuggestGasPrice = (\<lambda>w. (Inr 9, w)), ChainIDAt = (\<lambda>w. (Inr 1337, w)),
     SendTransaction = (\<lambda>tx w. (Inr (), w @ [tx])), WaitMined = (\<lambda>tx w. (Inr \<lparr>rc_Status = 1\<rparr>, w))\<rparr>"

definition ex_config :: CommitterConfig where
  "ex_config = \<lparr>PrivateKey = ''01'', OrdinaryChains =
       [\<lparr>cc_ChainID = 5, cc_RPC = ''rpc'', cc_Name = ''A'', cc_ChainType = '''', cc_GatewayURL = ''''\<rparr>,
        \<lparr>cc_ChainID = 6, cc_RPC = '''', cc_Name = ''B'', cc_ChainType = ''permissioned'', cc_GatewayURL = ''gw''\<rparr>],
     AuditChain = \<lparr>cc_ChainID = 1, cc_RPC = ''audit'', cc_Name = ''audit'', cc_ChainType = '''', cc_GatewayURL = ''''\<rparr>,
     AuditContractAddr = ''0x12'', PollInterval = 5, CircuitDir = '''', Blacklist = [], TreeNodeID = 3,
     ChildCommitters = []\<rparr>"

definition ex_libs :: "(LegacyTx list, unit) libs" where
  "ex_libs = \<lparr>ReadFile = (\<lambda>p w. (Inr [], w)), Unmarshal = (\<lambda>d. Inr ex_config), HexToECDSA = (\<lambda>s. Inr ()),
     PubkeyToAddress = (\<lambda>k. 17), Keccak256 = (\<lambda>m. be_bytes 32 (be_nat m)), Dial = (\<lambda>u w. (Inr ex_client, w)),
     Sender = (\<lambda>ch tx. Inr 23), SignTx = (\<lambda>tx ch k. Inr (tx\<lparr>tx_V := 37, tx_R := 1, tx_S := 1\<rparr>))\<rparr>"

definition ex_committer :: "(LegacyTx list, unit) Committer" where
  "ex_committer = \<lparr>config = ex_config, privateKey = (), auditClient = Some ex_client,
     chainClients = [5 \<mapsto> ex_client],
     chainSources = [5 \<mapsto> GethDataSource ex_client 5, 6 \<mapsto> GatewayDataSource ''gw'' 6], lastProcessed = Map.empty\<rparr>"

lemma ex_heights: "heights_below_max ex_committer"
  by (auto simp: heights_below_max_def ex_committer_def ex_client_def split: if_splits)

lemma ex_audit: "auditClient ex_committer = Some ex_client"
  by (simp add: ex_committer_def)

lemma ex_ordinary: "chainClients ex_committer 5 = Some ex_client"
  by (simp add: ex_committer_def)

lemma ex_keccak_length: "length (Keccak256 ex_libs m) = 32"
  by (simp add: ex_libs_def)

lemmas ex_defs = ex_committer_def ex_client_def ex_libs_def ex_config_def ex_block_def ex_tx_def

lemma ex_processes: "\<exists>w'. processBlock ex_libs ex_committer 5 1 [] = Some (Inr (), w')"
  by (simp add: ex_defs processBlock_def aggregateBlockData_def Let_def io_bind_def io_call_def io_wrap_def
      io_lift_def generateAuditProof_def submitCommit_def sendTx_def tx_data_def)

lemma ex_aggregates: "\<exists>w'. processAsIntermediateNode ex_libs ex_committer [] = Some (Inr (), w')"
  by (simp add: ex_defs processAsIntermediateNode_def Let_def computeRootHash_spec io_bind_def io_call_def
      io_lift_def generateAggregatedProof_def submitAggregatedCommitTx_def sendTx_def)

lemma ex_connects:
  "\<exists>c1. connect ex_libs (ex_committer\<lparr>chainClients := Map.empty\<rparr>) [] = Some (Inr c1, []) \<and>
     chainClients c1 = [5 \<mapsto> ex_client] \<and> auditClient c1 = Some ex_client"
  by (simp add: ex_committer_def ex_libs_def ex_config_def connect_def io_bind_def io_call_def Let_def)

section \<open>Properties of the relay\<close>





text \<open>
  C12. What a processed block means: the block was fetched, and either it has no transaction with a
  recoverable sender, or a transaction to the audit contract with gas limit 500000 whose call data
  encodes the chain, the parent block's state root (zero for block 0) and the block's own state
  root was signed with the committer's key, accepted by the audit chain and mined without revert.
\<close>

theorem processBlock_commits:
  assumes "processBlock L c ch n w = Some (Inr (), w')"
    and "chainClients c ch = Some client" and "auditClient c = Some ac"
  shows "\<exists>block w1. BlockByNumber client (Some n) w = (Inr block, w1) \<and>
    (collect_txs L ch (b_Transactions block) = [] \<or>
     (\<exists>oldRoot w2 w3 w4 proof nonce gasPrice cid stx receipt.
        (if b_Number block > 0
         then \<exists>parent. BlockByNumber client (Some (b_Number block - 1)) w1 = (Inr parent, w2) \<and> oldRoot = b_Root parent
         else oldRoot = 0 \<and> w2 = w1) \<and>
        SignTx L (NewTransaction nonce (HexToAddress (AuditContractAddr (config c))) 0 500000 gasPrice
          (encodeSubmitCommit L ch oldRoot (b_Root block) proof)) cid (privateKey c) = Inr stx \<and>
        SendTransaction ac stx w3 = (Inr (), w4) \<and> WaitMined ac stx w4 = (Inr receipt, w') \<and> rc_Status receipt \<noteq> 0))"
proof -
  from assms(1,2) obtain block w1 bd w2 where
    fetched: "BlockByNumber client (Some n) w = (Inr block, w1)" and
    agg: "aggregateBlockData L c ch block w1 = Some (Inr bd, w2)" and
    rest: "(if length (bd_Transactions bd) = 0 then io_ret ()
      else io_bind (io_lift ErrGenProof (generateAuditProof bd))
        (\<lambda>proof. io_wrap ErrSubmit (submitCommit L c ch bd proof))) w2 = Some (Inr (), w')"
    unfolding processBlock_def by (auto simp: io_bind_Some_iff simp del: length_0_conv)
  note data = aggregateBlockData_data(1) [OF agg]
  have old: "if b_Number block > 0
      then \<exists>parent. BlockByNumber client (Some (b_Number block - 1)) w1 = (Inr parent, w2) \<and> bd_StateRootOld bd = b_Root parent
      else bd_StateRootOld bd = 0 \<and> w2 = w1"
    using aggregateBlockData_data(2) [OF agg _ assms(2)] aggregateBlockData_genesis [OF agg] by (simp add: word_neq_0_conv [symmetric])
  show ?thesis
  proof (cases "bd_Transactions bd = []")
    case True
    with data fetched show ?thesis by (metis BlockData.select_convs(5))
  next
    case False
    then obtain pf where "submitCommit L c ch bd pf w2 = Some (Inr (), w')"
      using rest by (auto simp: io_bind_Some_iff)
    then obtain stx w4 receipt where
      sent: "sendTx L c ac 500000 (encodeSubmitCommit L ch (bd_StateRootOld bd) (bd_StateRootNew bd) pf) w2
        = Some (Inr stx, w4)" and
      mined: "WaitMined ac stx w4 = (Inr receipt, w')" "rc_Status receipt \<noteq> 0"
      using assms(3) by (auto simp: submitCommit_def io_bind_Some_iff split: if_splits)
    moreover have "bd_StateRootNew bd = b_Root block" using data by (metis BlockData.select_convs(4))
    ultimately have "\<exists>nonce gasPrice cid w3. SignTx L (NewTransaction nonce (HexToAddress (AuditContractAddr (config c)))
        0 500000 gasPrice (encodeSubmitCommit L ch (bd_StateRootOld bd) (b_Root block) pf)) cid (privateKey c) = Inr stx \<and>
        SendTransaction ac stx w3 = (Inr (), w4)"
      using sendTx_sends [OF sent] by simp
    with fetched old mined show ?thesis by blast
  qed
qed

theorem processBlock_commits_witness:
  "\<exists>block w1. BlockByNumber ex_client (Some 1) [] = (Inr block, w1) \<and>
    (collect_txs ex_libs 5 (b_Transactions block) = [] \<or>
     (\<exists>oldRoot w2 w3 w4 proof nonce gasPrice cid stx receipt.
        (if b_Number block > 0
         then \<exists>parent. BlockByNumber ex_client (Some (b_Number block - 1)) w1 = (Inr parent, w2) \<and> oldRoot = b_Root parent
         else oldRoot = 0 \<and> w2 = w1) \<and>
        SignTx ex_libs (NewTransaction nonce (HexToAddress (AuditContractAddr (config ex_committer))) 0 500000 gasPrice
          (encodeSubmitCommit ex_libs 5 oldRoot (b_Root block) proof)) cid (privateKey ex_committer) = Inr stx \<and>
        SendTransaction ex_client stx w3 = (Inr (), w4) \<and>
        (\<exists>w'. WaitMined ex_client stx w4 = (Inr receipt, w')) \<and> rc_Status receipt \<noteq> 0))"
proof -
  obtain w' where "processBlock ex_libs ex_committer 5 1 [] = Some (Inr (), w')"
    using ex_processes by blast
  from processBlock_commits [OF this ex_ordinary ex_audit] show ?thesis by blast
qed

text \<open>
  C30. The call data of \<open>submitCommit\<close> is four selector bytes and three 32-byte words from which the
  chain id and both state roots are read back exactly, and nothing else: it does not depend on the
  proof, and its 100 bytes fall short of the 356 bytes of the eleven ABI words the selector names.
\<close>

theorem encodeSubmitCommit_layout:
  assumes "4 \<le> length (Keccak256 L (str_bytes submitCommit_sig))"
  shows "length (encodeSubmitCommit L chainID oldRoot newRoot proof) = 100 \<and> (100::nat) < 4 + 32 * (3 + 2 + 4 + 2) \<and>
    slice (encodeSubmitCommit L chainID oldRoot newRoot proof) 0 4 = slice (Keccak256 L (str_bytes submitCommit_sig)) 0 4 \<and>
    be_nat (slice (encodeSubmitCommit L chainID oldRoot newRoot proof) 4 36) = unat chainID \<and>
    BytesToHash (slice (encodeSubmitCommit L chainID oldRoot newRoot proof) 36 68) = oldRoot \<and>
    BytesToHash (slice (encodeSubmitCommit L chainID oldRoot newRoot proof) 68 100) = newRoot \<and>
    encodeSubmitCommit L chainID oldRoot newRoot proof = encodeSubmitCommit L chainID oldRoot newRoot proof'"
proof -
  let ?sel = "slice (Keccak256 L (str_bytes submitCommit_sig)) 0 4"
  have sel: "length ?sel = 4" using assms by simp
  have id: "unat chainID < 256 ^ 32"
    using unsigned_less [of chainID] by (rule less_le_trans) simp
  have enc: "encodeSubmitCommit L chainID oldRoot newRoot proof =
      ?sel @ be_bytes 32 (unat chainID) @ hash_bytes oldRoot @ hash_bytes newRoot"
    by (simp add: encodeSubmitCommit_def hash_bytes_BigToHash [OF id])
  have indep: "encodeSubmitCommit L chainID oldRoot newRoot proof = encodeSubmitCommit L chainID oldRoot newRoot proof'"
    by (simp add: encodeSubmitCommit_def)
  have read: "be_nat (be_bytes 32 (unat chainID)) = unat chainID"
    unfolding be_nat_be_bytes using id by (rule mod_less)
  have parts: "length (?sel @ be_bytes 32 (unat chainID) @ hash_bytes oldRoot @ hash_bytes newRoot) = 100"
    "slice (?sel @ rest) 0 4 = ?sel"
    "slice (?sel @ be_bytes 32 (unat chainID) @ rest) 4 36 = be_bytes 32 (unat chainID)"
    "slice (?sel @ be_bytes 32 (unat chainID) @ hash_bytes oldRoot @ rest) 36 68 = hash_bytes oldRoot"
    "slice (?sel @ be_bytes 32 (unat chainID) @ hash_bytes oldRoot @ hash_bytes newRoot) 68 100 = hash_bytes newRoot" for rest
    using sel by (simp_all add: slice_append_left slice_append_right slice_all del: length_slice)
  show ?thesis
    using indep unfolding enc parts read by simp
qed

theorem encodeSubmitCommit_layout_witness:
  "\<forall>pr pr'. length (encodeSubmitCommit ex_libs 5 1 2 pr) = 100 \<and> (100::nat) < 4 + 32 * (3 + 2 + 4 + 2) \<and>
    slice (encodeSubmitCommit ex_libs 5 1 2 pr) 0 4 = slice (Keccak256 ex_libs (str_bytes submitCommit_sig)) 0 4 \<and>
    be_nat (slice (encodeSubmitCommit ex_libs 5 1 2 pr) 4 36) = unat (5::u64) \<and>
    BytesToHash (slice (encodeSubmitCommit ex_libs 5 1 2 pr) 36 68) = 1 \<and>
    BytesToHash (slice (encodeSubmitCommit ex_libs 5 1 2 pr) 68 100) = 2 \<and>
    encodeSubmitCommit ex_libs 5 1 2 pr = encodeSubmitCommit ex_libs 5 1 2 pr'"
  by (intro allI encodeSubmitCommit_layout) (simp add: ex_keccak_length)

text \<open>
  Permissioned chains are configured but never audited: when every entry for a chain id names a
  gateway, the running service has no client for it, its data source can read no block, and no
  sequence of timer events ever commits one of its blocks.
\<close>

theorem gateway_chain_never_audited:
  assumes "connect L c w = Some (Inr c1, w1)" and "chainClients c ch = None"
    and "\<forall>chain \<in> set (OrdinaryChains (config c)). cc_ChainID chain = ch \<longrightarrow> gateway_entry chain"
    and "poll_loop L events c1 w1 = Some (c2, w2)" and "heights_below_max c1"
  shows "chainClients c1 ch = None \<and> lastProcessed c2 ch = lastProcessed c ch \<and>
    GetBlockData L (NewGatewayDataSource url ch) n w2 = Some (Inl (ErrNotImplemented ''block data''), w2)"
proof -
  obtain client w0 where "connect_chains L (OrdinaryChains (config c)) (c\<lparr>auditClient := Some client\<rparr>) w0 = Some (Inr c1, w1)"
    using assms(1) by (auto simp: connect_def io_bind_Some_iff)
  from connect_chains_clients [OF this assms(3)] assms(2)
  have c1: "chainClients c1 ch = None" "lastProcessed c1 = lastProcessed c" "auditClient c1 = Some client" by auto
  obtain c' w' where "poll_loop L events c1 w1 = Some (c', w')" "(relay_step L)\<^sup>*\<^sup>* (c1, w1) (c', w')"
    using poll_loop_relay [OF assms(5) c1(3)] by blast
  then have "(relay_step L)\<^sup>*\<^sup>* (c1, w1) (c2, w2)" using assms(4) by simp
  from relay_steps_no_client [OF this c1(1)] c1 show ?thesis by (simp add: NewGatewayDataSource_def)
qed

theorem gateway_chain_never_audited_witness:
  "\<exists>c1 w1 c2 w2. connect ex_libs (ex_committer\<lparr>chainClients := Map.empty\<rparr>) [] = Some (Inr c1, w1) \<and>
    poll_loop ex_libs [Tick, Done] c1 w1 = Some (c2, w2) \<and>
    chainClients c1 6 = None \<and> lastProcessed c2 6 = lastProcessed (ex_committer\<lparr>chainClients := Map.empty\<rparr>) 6 \<and>
    GetBlockData ex_libs (NewGatewayDataSource ''gw'' 6) 1 w2 = Some (Inl (ErrNotImplemented ''block data''), w2)"
proof -
  let ?c = "ex_committer\<lparr>chainClients := Map.empty\<rparr>"
  obtain c1 where up: "connect ex_libs ?c [] = Some (Inr c1, [])"
    and cl: "chainClients c1 = [5 \<mapsto> ex_client]" and au: "auditClient c1 = Some ex_client"
    using ex_connects by blast
  have h: "heights_below_max c1"
    using ex_heights cl by (simp add: heights_below_max_def ex_committer_def)
  obtain c2 w2 where run: "poll_loop ex_libs [Tick, Done] c1 [] = Some (c2, w2)"
    using poll_loop_relay [OF h au] by blast
  show ?thesis
    using gateway_chain_never_audited [OF up _ _ run h, of 6 "''gw''" 1] up run
    by (fastforce simp: ex_committer_def ex_config_def gateway_entry_def)
qed

text \<open>
  The committer's reader of a block agrees with the data source of a permissionless chain on every
  field but one: \<open>GetBlockData\<close> leaves the old state root zero, \<open>aggregateBlockData\<close> reads it from the
  parent block. Whatever a data source can read at all belongs to a permissionless chain and
  carries the source's own chain id.
\<close>

theorem aggregate_agrees_with_source:
  assumes "GetBlockData L (NewGethDataSource client ch) n w = Some (Inr d, w')"
    and "chainClients c ch = Some client"
  shows "\<exists>block. BlockByNumber client (Some n) w = (Inr block, w') \<and> bd_StateRootOld d = 0 \<and>
    bd_ChainID d = ch \<and> ChainType (NewGethDataSource client ch) = ''permissionless'' \<and>
    (\<forall>d2 w2. aggregateBlockData L c ch block w' = Some (Inr d2, w2) \<longrightarrow>
       d2 = d\<lparr>bd_StateRootOld := bd_StateRootOld d2\<rparr> \<and>
       (b_Number block > 0 \<longrightarrow> (\<exists>parent. BlockByNumber client (Some (b_Number block - 1)) w' = (Inr parent, w2) \<and>
          bd_StateRootOld d2 = b_Root parent)))"
proof -
  obtain block where b: "BlockByNumber client (Some n) w = (Inr block, w')"
    and d: "d = \<lparr>bd_ChainID = ch, bd_BlockNumber = b_Number block, bd_StateRootOld = 0,
       bd_StateRootNew = b_Root block, bd_Transactions = collect_txs L ch (b_Transactions block)\<rparr>"
    using assms(1) by (auto simp: NewGethDataSource_def io_bind_Some_iff)
  have "d2 = d\<lparr>bd_StateRootOld := bd_StateRootOld d2\<rparr>"
    if "aggregateBlockData L c ch block w' = Some (Inr d2, w2)" for d2 w2
    using aggregateBlockData_data(1) [OF that] by (simp add: d)
  then show ?thesis
    using b relay_source.readable_is_permissionless [OF assms(1)] aggregateBlockData_data(2) [OF _ _ assms(2)]
    by (intro exI [of _ block]) (auto simp: d NewGethDataSource_def)
qed

theorem aggregate_agrees_with_source_witness:
  "\<exists>d block. GetBlockData ex_libs (NewGethDataSource ex_client 5) 1 [] = Some (Inr d, []) \<and>
    BlockByNumber ex_client (Some 1) [] = (Inr block, []) \<and> bd_StateRootOld d = 0 \<and>
    bd_ChainID d = 5 \<and> ChainType (NewGethDataSource ex_client 5) = ''permissionless'' \<and>
    (\<forall>d2 w2. aggregateBlockData ex_libs ex_committer 5 block [] = Some (Inr d2, w2) \<longrightarrow>
       d2 = d\<lparr>bd_StateRootOld := bd_StateRootOld d2\<rparr> \<and>
       (b_Number block > 0 \<longrightarrow> (\<exists>parent. BlockByNumber ex_client (Some (b_Number block - 1)) [] = (Inr parent, w2) \<and>
          bd_StateRootOld d2 = b_Root parent)))"
proof -
  obtain d where d: "GetBlockData ex_libs (NewGethDataSource ex_client 5) 1 [] = Some (Inr d, [])"
    by (simp add: NewGethDataSource_def ex_client_def io_bind_def io_call_def)
  from aggregate_agrees_with_source [OF d ex_ordinary] d show ?thesis by blast
qed

text \<open>
  C31. The aggregation round of a tree node with a child: every success has sent, with gas limit 600000,
  the selector, the node id and the Merkle root over the latest state roots of the chains with a
  client followed by one zero hash per child committer, and nothing more: the child roots
  themselves and the proof are not part of the call data.
\<close>

theorem processAsIntermediateNode_submits:
  assumes "processAsIntermediateNode L c w = Some (Inr (), w')" and "auditClient c = Some ac"
    and "TreeNodeID (config c) \<noteq> 0" and "collect_roots c (OrdinaryChains (config c)) w = (roots, w1)"
    and "roots \<noteq> [] \<or> ChildCommitters (config c) \<noteq> []"
  shows "\<exists>nonce gasPrice cid stx w2.
    SignTx L (NewTransaction nonce (HexToAddress (AuditContractAddr (config c))) 0 600000 gasPrice
      (slice (Keccak256 L (str_bytes submitAggregatedCommit_sig)) 0 4
       @ be_bytes 32 (unat (TreeNodeID (config c)))
       @ hash_bytes (merkle_spec (Keccak256 L) (roots @ replicate (length (ChildCommitters (config c))) 0))))
      cid (privateKey c) = Inr stx \<and> SendTransaction ac stx w2 = (Inr (), w')"
proof -
  let ?children = "roots @ map (\<lambda>_. 0) (ChildCommitters (config c))"
  let ?agg = "\<lparr>ag_NodeID = TreeNodeID (config c), ag_ChildRoots = ?children,
    ag_AggregatedRoot = merkle_spec (Keccak256 L) ?children, ag_Proof = None\<rparr>"
  have "?children \<noteq> []" using assms(5) by auto
  then have "io_bind (io_lift ErrGenProof (generateAggregatedProof ?agg))
      (\<lambda>pf. submitAggregatedCommitTx L c (?agg\<lparr>ag_Proof := Some pf\<rparr>)) w1 = Some (Inr (), w')"
    using assms(1,3,4) unfolding processAsIntermediateNode_def computeRootHash_spec Let_def
    by (auto split: if_splits)
  then obtain pf where "submitAggregatedCommitTx L c (?agg\<lparr>ag_Proof := Some pf\<rparr>) w1 = Some (Inr (), w')"
    unfolding io_bind_Some_iff io_lift_Inr_iff by blast
  then obtain stx where
    sent: "sendTx L c ac 600000 (encodeAggregatedCommit L (?agg\<lparr>ag_Proof := Some pf\<rparr>)) w1 = Some (Inr stx, w')"
    unfolding submitAggregatedCommitTx_def assms(2) option.case io_bind_Some_iff by auto
  have "unat (TreeNodeID (config c)) < 256 ^ 32"
    using unsigned_less [of "TreeNodeID (config c)"] by (rule less_le_trans) simp
  with sendTx_sends [OF sent] show ?thesis
    by (simp add: encodeAggregatedCommit_def hash_bytes_BigToHash map_replicate_const) blast
qed

theorem processAsIntermediateNode_submits_witness:
  "\<exists>w' nonce gasPrice cid stx w2. processAsIntermediateNode ex_libs ex_committer [] = Some (Inr (), w') \<and>
    SignTx ex_libs (NewTransaction nonce (HexToAddress (AuditContractAddr (config ex_committer))) 0 600000 gasPrice
      (slice (Keccak256 ex_libs (str_bytes submitAggregatedCommit_sig)) 0 4
       @ be_bytes 32 (unat (TreeNodeID (config ex_committer)))
       @ hash_bytes (merkle_spec (Keccak256 ex_libs) ([102] @ replicate (length (ChildCommitters (config ex_committer))) 0))))
      cid (privateKey ex_committer) = Inr stx \<and> SendTransaction ex_client stx w2 = (Inr (), w')"
proof -
  obtain w' where run: "processAsIntermediateNode ex_libs ex_committer [] = Some (Inr (), w')"
    using ex_aggregates by blast
  have roots: "collect_roots ex_committer (OrdinaryChains (config ex_committer)) [] = ([102], [])"
    by (simp add: ex_defs)
  from processAsIntermediateNode_submits [OF run ex_audit _ roots] run show ?thesis
    by (fastforce simp: ex_committer_def ex_config_def)
qed

text \<open>
  \<open>Start\<close> needs a polling interval: connected and with an interval of 1 to 9223372036 seconds it
  serves every finite sequence of events and keeps its configuration, but with the interval 0, the
  value of a configuration file that does not mention it, it panics as soon as it is connected.
\<close>

theorem Start_serves_iff_interval:
  assumes "connect L c w = Some (Inr c1, w1)" and "heights_below_max c1"
  shows "(0 < PollInterval (config c) \<and> PollInterval (config c) \<le> 9223372036 \<longrightarrow>
      (\<exists>c2 w2. Start L events c w = Some (Inr c2, w2) \<and> config c2 = config c)) \<and>
    (PollInterval (config c) = 0 \<longrightarrow> Start L events c w = None)"
proof -
  obtain ac where cfg: "config c1 = config c" and ac: "auditClient c1 = Some ac"
    using connect_config [OF assms(1)] by blast
  obtain c2 w2 where run: "poll_loop L events c1 w1 = Some (c2, w2)" and steps: "(relay_step L)\<^sup>*\<^sup>* (c1, w1) (c2, w2)"
    using poll_loop_relay [OF assms(2) ac] by blast
  have "config c2 = config c" using relay_steps_service [OF steps] cfg by (simp add: same_service_def)
  then show ?thesis
    using run cfg by (auto simp: Start_def io_bind_def assms(1) ticker_interval_pos ticker_interval_def [of 0])
qed

theorem Start_serves_iff_interval_witness:
  "\<exists>c2 w2. Start ex_libs [Tick, Tick, Done] (ex_committer\<lparr>chainClients := Map.empty\<rparr>) [] = Some (Inr c2, w2) \<and>
    config c2 = config (ex_committer\<lparr>chainClients := Map.empty\<rparr>)"
proof -
  let ?c = "ex_committer\<lparr>chainClients := Map.empty\<rparr>"
  obtain c1 where up: "connect ex_libs ?c [] = Some (Inr c1, [])" and cl: "chainClients c1 = [5 \<mapsto> ex_client]"
    using ex_connects by blast
  have h: "heights_below_max c1"
    using ex_heights cl by (simp add: heights_below_max_def ex_committer_def)
  show ?thesis
    using Start_serves_iff_interval [OF up h, of "[Tick, Tick, Done]"] by (simp add: ex_committer_def ex_config_def)
qed

text \<open>
  The signature bytes the relay records are not the 65-byte form: for 256-bit \<open>r\<close> and \<open>s\<close> they are
  65 bytes long exactly when neither number has a leading zero byte, and the recovery value is kept
  only modulo 256.
\<close>

theorem sig_bytes_length:
  assumes "r < 256 ^ 32" and "s < 256 ^ 32"
  shows "length (sig_bytes v r s) \<le> 65 \<and>
    (length (sig_bytes v r s) = 65 \<longleftrightarrow> 256 ^ 31 \<le> r \<and> 256 ^ 31 \<le> s) \<and>
    last (sig_bytes v r s) = of_nat v \<and> sig_bytes (v + 256) r s = sig_bytes v r s"
proof -
  have len: "length (big_bytes r) \<le> 32" "length (big_bytes s) \<le> 32"
    using assms by (auto intro: big_bytes_length)
  have full: "length (big_bytes r) = 32 \<longleftrightarrow> 256 ^ 31 \<le> r" "length (big_bytes s) = 32 \<longleftrightarrow> 256 ^ 31 \<le> s"
    using big_bytes_full [of r 31] big_bytes_full [of s 31] assms by simp_all
  have "length (sig_bytes v r s) = 65 \<longleftrightarrow> length (big_bytes r) = 32 \<and> length (big_bytes s) = 32"
    using len by (auto simp: sig_bytes_def)
  moreover have "last (sig_bytes v r s) = of_nat v" "sig_bytes (v + 256) r s = sig_bytes v r s"
    unfolding sig_bytes_def byte_of_v by simp_all
  ultimately show ?thesis using len unfolding full by (simp add: sig_bytes_def)
qed

theorem sig_bytes_length_witness:
  "length (sig_bytes 27 1 (256 ^ 31)) \<le> 65 \<and>
    (length (sig_bytes 27 1 (256 ^ 31)) = 65 \<longleftrightarrow> 256 ^ 31 \<le> (1::nat) \<and> 256 ^ 31 \<le> (256 ^ 31 :: nat)) \<and>
    last (sig_bytes 27 1 (256 ^ 31)) = of_nat 27 \<and> sig_bytes (27 + 256) 1 (256 ^ 31) = sig_bytes 27 1 (256 ^ 31)"
  by (rule sig_bytes_length) simp_all

end
