(* ===== verification/Vm_Common.thy ===== *)
theory Vm_Common
  imports Prelude
begin

text \<open>
  The helpers of \<^verbatim>\<open>src/go-ethereum/core/vm/common.go\<close> on 64- and 256-bit words, the carry-out
  multiplication and addition of \<^verbatim>\<open>math/bits\<close> they and the gas functions use, and the byte test of
  \<^verbatim>\<open>src/go-ethereum/common/bitutil\<close>. Slicing with bounds out of order panics in Go and is \<open>None\<close> here.
  Lengths of slices are natural numbers; Go's are below \<open>2 ^ 63\<close>, which the lemmas assume.
\<close>

section \<open>Carry arithmetic\<close>

text \<open>\<open>bits.Mul64\<close> returns the high and low word, \<open>bits.Add64\<close> the sum and the carry.\<close>

definition Mul64 :: "u64 \<Rightarrow> u64 \<Rightarrow> u64 \<times> u64" where
  "Mul64 x y = (of_nat (unat x * unat y div 2 ^ 64), x * y)"

definition Add64 :: "u64 \<Rightarrow> u64 \<Rightarrow> u64 \<times> u64" where
  "Add64 x y = (x + y, if unat x + unat y < 2 ^ 64 then 0 else 1)"

definition MaxUint64 :: u64 where
  "MaxUint64 = - 1"

lemma unat_MaxUint64: "unat MaxUint64 = 2 ^ 64 - 1"
  by (simp add: MaxUint64_def unsigned_minus_1_eq_mask mask_eq_exp_minus_1)

lemma u64_lt: "unat (x :: u64) < 2 ^ 64"
  using unsigned_less [of x] by simp

lemma Mul64_hi: "fst (Mul64 x y) = 0 \<longleftrightarrow> unat x * unat y < 2 ^ 64"
proof -
  have "unat x * unat y < 2 ^ 64 * 2 ^ 64" using u64_lt [of x] u64_lt [of y] by (intro mult_strict_mono) auto
  then have "unat x * unat y div 2 ^ 64 < 2 ^ 64" by (simp add: less_mult_imp_div_less)
  then have "fst (Mul64 x y) = 0 \<longleftrightarrow> unat x * unat y div 2 ^ 64 = 0"
    by (simp add: Mul64_def word_unat_eq_iff unat_of_nat)
  then show ?thesis by (simp add: div_eq_0_iff)
qed

lemma Mul64_lo: "snd (Mul64 x y) = x * y"
  by (simp add: Mul64_def)

lemma unat_mult_u64: "unat x * unat y < 2 ^ 64 \<Longrightarrow> unat (x * y) = unat x * unat y" for x y :: u64
  by (simp add: unat_word_ariths)

lemma unat_add_u64: "unat x + unat y < 2 ^ 64 \<Longrightarrow> unat (x + y) = unat x + unat y" for x y :: u64
  by (simp add: unat_word_ariths)

lemma add_wraps_u64: "x + y < x \<longleftrightarrow> 2 ^ 64 \<le> unat x + unat y" for x y :: u64
proof (cases "unat x + unat y < 2 ^ 64")
  case True
  then show ?thesis by (simp add: word_less_nat_alt unat_add_u64)
next
  case False
  then have "unat (x + y) = unat x + unat y - 2 ^ 64"
    using u64_lt [of x] u64_lt [of y] by (subst unat_word_ariths, subst mod_if) auto
  with False show ?thesis using u64_lt [of y] by (simp add: word_less_nat_alt)
qed

lemma Add64_carry: "snd (Add64 x y) = 0 \<longleftrightarrow> unat x + unat y < 2 ^ 64"
  by (simp add: Add64_def)

section \<open>Byte slices\<close>

text \<open>\<open>bitutil.TestBytes\<close>: is any bit set.\<close>

fun TestBytes :: "bytes \<Rightarrow> bool" where
  "TestBytes [] = False"
| "TestBytes (b # p) = (if b \<noteq> 0 then True else TestBytes p)"

lemma TestBytes_ex: "TestBytes p \<longleftrightarrow> (\<exists>b\<in>set p. b \<noteq> 0)"
  by (induction p) auto

lemma TestBytes_iff: "TestBytes p \<longleftrightarrow> p \<noteq> replicate (length p) 0"
  unfolding TestBytes_ex by (metis in_set_replicate replicate_eqI)

text \<open>
  \<open>getData\<close>: the addition may wrap, and a length of \<open>2 ^ 63\<close> or more is a negative \<open>int\<close>, for which
  \<open>RightPadBytes\<close> pads nothing.
\<close>

definition getData :: "bytes \<Rightarrow> u64 \<Rightarrow> u64 \<Rightarrow> bytes option" where
  "getData data start sz =
     (let len = (of_nat (length data) :: u64);
          start = (if start > len then len else start);
          end0 = start + sz;
          end' = (if end0 > len then len else end0)
      in if end' < start then None
         else Some (RightPadBytes (slice data (unat start) (unat end'))
                (if sint sz < 0 then 0 else unat sz)))"

definition getDataAndAdjustedBounds :: "bytes \<Rightarrow> u64 \<Rightarrow> u64 \<Rightarrow> (bytes \<times> u64 \<times> u64) option" where
  "getDataAndAdjustedBounds data start sz =
     (let len = (of_nat (length data) :: u64);
          start = (if start > len then len else start);
          end0 = start + sz;
          end' = (if end0 > len then len else end0)
      in if end' < start then None
         else Some (RightPadBytes (slice data (unat start) (unat end'))
                (if sint sz < 0 then 0 else unat sz), start, end' - start))"

section \<open>Memory sizes\<close>

definition calcMemSize64WithUint :: "u256 \<Rightarrow> u64 \<Rightarrow> u64 \<times> bool" where
  "calcMemSize64WithUint off length64 =
     (if length64 = 0 then (0, False)
      else
        (let (offset64, overflow) = (ucast off :: u64, unat off \<ge> 2 ^ 64)
         in if overflow then (0, True)
            else (let val = offset64 + length64 in (val, val < offset64))))"

definition calcMemSize64 :: "u256 \<Rightarrow> u256 \<Rightarrow> u64 \<times> bool" where
  "calcMemSize64 off l =
     (if unat l \<ge> 2 ^ 64 then (0, True) else calcMemSize64WithUint off (ucast l))"

definition toWordSize :: "u64 \<Rightarrow> u64" where
  "toWordSize sz =
     (if sz > MaxUint64 - 31 then MaxUint64 div 32 + 1 else (sz + 31) div 32)"

section \<open>Facts\<close>

text \<open>What \<open>getData\<close> is for: the zero-extended window of the data.\<close>

definition window :: "bytes \<Rightarrow> nat \<Rightarrow> nat \<Rightarrow> bytes" where
  "window data start sz = map (\<lambda>i. if start + i < length data then data ! (start + i) else 0) [0..<sz]"

lemma length_window [simp]: "length (window data start sz) = sz"
  by (simp add: window_def)

lemma window_slice:
  "s = min start (length data) \<Longrightarrow> e = min (s + sz) (length data) \<Longrightarrow>
   RightPadBytes (slice data s e) sz = window data start sz"
  by (rule nth_equalityI) (auto simp: RightPadBytes_eq slice_def window_def nth_append)

lemma sint_neg_u64: "sint (x :: u64) < 0 \<longleftrightarrow> 2 ^ 63 \<le> unat x"
proof -
  have "sint x < 0 \<longleftrightarrow> bit (unat x) 63" by (simp add: sint_uint signed_take_bit_negative_iff bit_unsigned_iff)
  also have "\<dots> \<longleftrightarrow> odd (unat x div 2 ^ 63)" by (rule bit_iff_odd)
  also have "\<dots> \<longleftrightarrow> 2 ^ 63 \<le> unat x"
  proof -
    have "unat x div 2 ^ 63 < 2" using u64_lt [of x] by (intro less_mult_imp_div_less) simp
    then have "unat x div 2 ^ 63 = 0 \<or> unat x div 2 ^ 63 = 1" by linarith
    then show ?thesis by (auto simp: div_eq_0_iff)
  qed
  finally show ?thesis .
qed

lemma sint_small_u64: "unat x < 2 ^ 63 \<Longrightarrow> sint x = int (unat x)" for x :: u64
proof -
  assume "unat x < 2 ^ 63"
  then have "int (unat x) < int (2 ^ 63)" by (rule of_nat_less_iff [THEN iffD2])
  then have "signed_take_bit 63 (uint x) = uint x"
    by (intro signed_take_bit_int_eq_self) (auto intro: order_trans [OF _ unsigned_greater_eq])
  then show ?thesis by (simp add: sint_uint)
qed

lemma unat_len: "length data < 2 ^ 63 \<Longrightarrow> unat (of_nat (length data) :: u64) = length data"
  by (simp add: unat_of_nat)

lemma getData_start:
  assumes "length data < 2 ^ 63"
  defines "len \<equiv> of_nat (length data) :: u64"
  shows "unat (if start > len then len else start) = min (unat start) (length data)"
  using assms by (auto simp: unat_len word_less_nat_alt)

lemma getData_window:
  assumes "length data < 2 ^ 63" and "unat sz < 2 ^ 63"
  shows "getData data start sz = Some (window data (unat start) (unat sz))"
proof -
  let ?len = "of_nat (length data) :: u64"
  let ?s = "if start > ?len then ?len else start"
  have s: "unat ?s = min (unat start) (length data)" using assms(1) by (rule getData_start)
  have e0: "unat (?s + sz) = unat ?s + unat sz"
  proof (rule unat_add_u64)
    have "unat ?s < 2 ^ 63" using s assms(1) by linarith
    then show "unat ?s + unat sz < 2 ^ 64" using assms(2) by simp
  qed
  have e: "unat (if ?s + sz > ?len then ?len else ?s + sz) = min (unat ?s + unat sz) (length data)"
    using getData_start [OF assms(1), of "?s + sz"] by (simp only: e0)
  have ord: "\<not> (if ?s + sz > ?len then ?len else ?s + sz) < ?s"
    using s e by (subst word_less_nat_alt) linarith
  have "\<not> sint sz < 0" using assms(2) by (simp add: sint_neg_u64)
  with ord show ?thesis
    unfolding getData_def Let_def using window_slice [OF s e] by (simp only: if_False)
qed

lemma getData_wraps:
  assumes "length data < 2 ^ 63"
  shows "getData data start sz = None \<longleftrightarrow> 2 ^ 64 \<le> min (unat start) (length data) + unat sz"
proof -
  let ?len = "of_nat (length data) :: u64"
  let ?s = "if start > ?len then ?len else start"
  have s: "unat ?s = min (unat start) (length data)" using assms by (rule getData_start)
  have none: "getData data start sz = None \<longleftrightarrow> (if ?s + sz > ?len then ?len else ?s + sz) < ?s"
    by (simp add: getData_def Let_def)
  have len: "unat ?len = length data" using assms by (rule unat_len)
  show ?thesis
  proof (cases "unat ?s + unat sz < 2 ^ 64")
    case True
    then have "unat (?s + sz) = unat ?s + unat sz" by (rule unat_add_u64)
    then have "\<not> (if ?s + sz > ?len then ?len else ?s + sz) < ?s"
      using s len by (auto simp: word_less_nat_alt)
    with True show ?thesis using none s by simp
  next
    case False
    then have "unat (?s + sz) = unat ?s + unat sz - 2 ^ 64"
      using u64_lt [of ?s] u64_lt [of sz] by (subst unat_word_ariths, subst mod_if) auto
    then have "unat (?s + sz) < unat ?s" using u64_lt [of sz] False by linarith
    then have "(if ?s + sz > ?len then ?len else ?s + sz) < ?s"
      using s len by (auto simp: word_less_nat_alt)
    with False show ?thesis using none s by simp
  qed
qed

lemma toWordSize_eq: "unat (toWordSize sz) = (unat sz + 31) div 32"
proof (cases "sz > MaxUint64 - 31")
  case True
  have "unat (MaxUint64 - 31) = 2 ^ 64 - 32"
    by (simp add: MaxUint64_def)
  with True have "2 ^ 64 - 32 < unat sz" by (simp add: word_less_nat_alt)
  then have "(unat sz + 31) div 32 = 2 ^ 59" using u64_lt [of sz] by simp
  with True show ?thesis by (simp add: toWordSize_def MaxUint64_def)
next
  case False
  have "unat (MaxUint64 - 31) = 2 ^ 64 - 32"
    by (simp add: MaxUint64_def)
  with False have "unat sz \<le> 2 ^ 64 - 32" by (simp add: word_less_nat_alt)
  then have "unat (sz + 31) = unat sz + 31" by (subst unat_add_u64) auto
  with False show ?thesis by (simp add: toWordSize_def unat_div)
qed

lemma calcMemSize64_eq:
  "snd (calcMemSize64 off l) \<longleftrightarrow> l \<noteq> 0 \<and> 2 ^ 64 \<le> unat off + unat l" (is ?A)
  "\<not> snd (calcMemSize64 off l) \<Longrightarrow> unat (fst (calcMemSize64 off l)) = (if l = 0 then 0 else unat off + unat l)"
proof -
  have low: "unat (ucast x :: u64) = unat x" if "unat x < 2 ^ 64" for x :: u256
    using that by (simp add: unsigned_ucast_eq take_bit_nat_eq_self)
  have zero: "(ucast x :: u64) = 0 \<longleftrightarrow> x = 0" if "unat x < 2 ^ 64" for x :: u256
    using low [OF that] by (simp add: word_unat_eq_iff)
  show ?A
    by (auto simp: calcMemSize64_def calcMemSize64WithUint_def Let_def low zero not_le add_wraps_u64)
  then show "\<not> snd (calcMemSize64 off l) \<Longrightarrow>
      unat (fst (calcMemSize64 off l)) = (if l = 0 then 0 else unat off + unat l)"
    by (auto simp: calcMemSize64_def calcMemSize64WithUint_def Let_def low zero not_le unat_add_u64)
qed

end
