(* ===== verification/Bn256.thy ===== *)
theory Bn256
  imports Vm_Common
begin

text \<open>
  The curve wrappers of \<^verbatim>\<open>src/go-ethereum/crypto/bn256/gnark\<close> (\<^verbatim>\<open>g1.go\<close>, \<^verbatim>\<open>g2.go\<close>, \<^verbatim>\<open>pairing.go\<close>). The field
  and group arithmetic is the third-party package gnark-crypto: a parameter of type \<open>'fp gnark\<close>
  over an arbitrary type of field elements. \<open>gnark_fp\<close> states the documented behaviour the
  correctness theorems rely on: canonical 32-byte encodings of the residues below the field
  modulus, and a failed decoding that leaves its receiver alone.

  A point is the pair of its affine coordinates, (0, 0) being infinity, as in gnark.
\<close>

section \<open>The library\<close>

type_synonym 'fp G1 = "'fp \<times> 'fp"

text \<open>\<open>E2\<close> is \<open>(A0, A1)\<close>.\<close>

type_synonym 'fp G2 = "('fp \<times> 'fp) \<times> ('fp \<times> 'fp)"

record 'fp gnark =
  fp_zero :: 'fp
  SetBytesCanonical :: "'fp \<Rightarrow> bytes \<Rightarrow> string option \<times> 'fp"
  fp_Bytes :: "'fp \<Rightarrow> bytes"
  G1_IsOnCurve :: "'fp G1 \<Rightarrow> bool"
  G1_IsInSubGroup :: "'fp G1 \<Rightarrow> bool"
  G1Affine_Add :: "'fp G1 \<Rightarrow> 'fp G1 \<Rightarrow> 'fp G1"
  G1Affine_ScalarMultiplication :: "'fp G1 \<Rightarrow> nat \<Rightarrow> 'fp G1"
  G2_IsOnCurve :: "'fp G2 \<Rightarrow> bool"
  G2_IsInSubGroup :: "'fp G2 \<Rightarrow> bool"
  bn254_PairingCheck :: "'fp G1 list \<Rightarrow> 'fp G2 list \<Rightarrow> string + bool"

datatype bn_error = ErrG1Size | ErrG2Size | ErrFp string | ErrNotOnCurve | ErrNotInSubgroup

section \<open>G1\<close>

text \<open>The zero value of the struct, as \<open>new(G1)\<close> allocates it.\<close>

definition new_G1 :: "'fp gnark \<Rightarrow> 'fp G1" where
  "new_G1 gn = (fp_zero gn, fp_zero gn)"

definition new_G2 :: "'fp gnark \<Rightarrow> 'fp G2" where
  "new_G2 gn = ((fp_zero gn, fp_zero gn), (fp_zero gn, fp_zero gn))"

definition G1_Add :: "'fp gnark \<Rightarrow> 'fp G1 \<Rightarrow> 'fp G1 \<Rightarrow> 'fp G1" where
  "G1_Add gn a b = G1Affine_Add gn a b"

definition G1_ScalarMult :: "'fp gnark \<Rightarrow> 'fp G1 \<Rightarrow> nat \<Rightarrow> 'fp G1" where
  "G1_ScalarMult gn a scalar = G1Affine_ScalarMultiplication gn a scalar"

text \<open>\<open>Unmarshal\<close> writes its receiver field by field, also when it fails.\<close>

definition G1_Unmarshal :: "'fp gnark \<Rightarrow> 'fp G1 \<Rightarrow> bytes \<Rightarrow> (bn_error + nat) \<times> 'fp G1" where
  "G1_Unmarshal gn g buf =
     (if length buf < 64 then (Inl ErrG1Size, g)
      else if \<not> TestBytes (take 64 buf) then (Inr 64, (fp_zero gn, fp_zero gn))
      else
        (case SetBytesCanonical gn (fst g) (slice buf 0 32) of
           (Some e, x) \<Rightarrow> (Inl (ErrFp e), (x, snd g))
         | (None, x) \<Rightarrow>
             (case SetBytesCanonical gn (snd g) (slice buf 32 64) of
                (Some e, y) \<Rightarrow> (Inl (ErrFp e), (x, y))
              | (None, y) \<Rightarrow>
                  if \<not> G1_IsOnCurve gn (x, y) then (Inl ErrNotOnCurve, (x, y))
                  else if \<not> G1_IsInSubGroup gn (x, y) then (Inl ErrNotInSubgroup, (x, y))
                  else (Inr 64, (x, y)))))"

definition G1_Marshal :: "'fp gnark \<Rightarrow> 'fp G1 \<Rightarrow> bytes" where
  "G1_Marshal gn p =
     (let output = replicate 64 0;
          xBytes = fp_Bytes gn (fst p);
          output = copy_at (take 32 output) 0 xBytes @ drop 32 output;
          yBytes = fp_Bytes gn (snd p)
      in take 32 output @ copy_at (slice output 32 64) 0 yBytes)"

section \<open>G2\<close>

definition G2_Unmarshal :: "'fp gnark \<Rightarrow> 'fp G2 \<Rightarrow> bytes \<Rightarrow> (bn_error + nat) \<times> 'fp G2" where
  "G2_Unmarshal gn g buf =
     (if length buf < 128 then (Inl ErrG2Size, g)
      else if \<not> TestBytes (take 128 buf)
      then (Inr 128, ((fp_zero gn, fp_zero gn), (fp_zero gn, fp_zero gn)))
      else
        (case SetBytesCanonical gn (snd (fst g)) (slice buf 0 32) of
           (Some e, xA1) \<Rightarrow> (Inl (ErrFp e), ((fst (fst g), xA1), snd g))
         | (None, xA1) \<Rightarrow>
        (case SetBytesCanonical gn (fst (fst g)) (slice buf 32 64) of
           (Some e, xA0) \<Rightarrow> (Inl (ErrFp e), ((xA0, xA1), snd g))
         | (None, xA0) \<Rightarrow>
        (case SetBytesCanonical gn (snd (snd g)) (slice buf 64 96) of
           (Some e, yA1) \<Rightarrow> (Inl (ErrFp e), ((xA0, xA1), (fst (snd g), yA1)))
         | (None, yA1) \<Rightarrow>
        (case SetBytesCanonical gn (fst (snd g)) (slice buf 96 128) of
           (Some e, yA0) \<Rightarrow> (Inl (ErrFp e), ((xA0, xA1), (yA0, yA1)))
         | (None, yA0) \<Rightarrow>
             (let p = ((xA0, xA1), (yA0, yA1))
              in if \<not> G2_IsOnCurve gn p then (Inl ErrNotOnCurve, p)
                 else if \<not> G2_IsInSubGroup gn p then (Inl ErrNotInSubgroup, p)
                 else (Inr 128, p)))))))"

definition G2_Marshal :: "'fp gnark \<Rightarrow> 'fp G2 \<Rightarrow> bytes" where
  "G2_Marshal gn g =
     (let output = replicate 128 0;
          output = copy_at output 0 (take 32 (fp_Bytes gn (snd (fst g))));
          output = copy_at output 32 (take 32 (fp_Bytes gn (fst (fst g))));
          output = copy_at output 64 (take 32 (fp_Bytes gn (snd (snd g))));
          output = copy_at output 96 (take 32 (fp_Bytes gn (fst (snd g))))
      in output)"

section \<open>Pairing\<close>

text \<open>The slices hold no nil pointer here, so \<open>getInnerG1s\<close> and \<open>getInnerG2s\<close> keep every point.\<close>

definition PairingCheck :: "'fp gnark \<Rightarrow> 'fp G1 list \<Rightarrow> 'fp G2 list \<Rightarrow> bool" where
  "PairingCheck gn a b =
     (if length a = 0 then True
      else (case bn254_PairingCheck gn a b of Inl err \<Rightarrow> False | Inr ok \<Rightarrow> ok))"

section \<open>What is assumed of the library\<close>

definition fp_modulus :: nat where
  "fp_modulus = 0x30644e72e131a029b85045b68181585d97816a916871ca8d3c208c16d87cfd47"

definition gnark_fp :: "'fp gnark \<Rightarrow> bool" where
  "gnark_fp gn \<longleftrightarrow>
     (\<forall>z bs. length bs = 32 \<longrightarrow> (fst (SetBytesCanonical gn z bs) = None \<longleftrightarrow> be_nat bs < fp_modulus)) \<and>
     (\<forall>z bs. length bs = 32 \<longrightarrow> be_nat bs < fp_modulus \<longrightarrow> fp_Bytes gn (snd (SetBytesCanonical gn z bs)) = bs) \<and>
     (\<forall>z bs. fst (SetBytesCanonical gn z bs) \<noteq> None \<longrightarrow> snd (SetBytesCanonical gn z bs) = z) \<and>
     (\<forall>x. length (fp_Bytes gn x) = 32 \<and> be_nat (fp_Bytes gn x) < fp_modulus) \<and>
     (\<forall>z x. snd (SetBytesCanonical gn z (fp_Bytes gn x)) = x) \<and>
     fp_Bytes gn (fp_zero gn) = replicate 32 0"

text \<open>Negation of a point: the other root \<open>p - y\<close>, and 0 for 0.\<close>

definition fp_neg :: "'fp gnark \<Rightarrow> 'fp \<Rightarrow> 'fp" where
  "fp_neg gn y =
     snd (SetBytesCanonical gn (fp_zero gn)
       (be_bytes 32 ((fp_modulus - be_nat (fp_Bytes gn y)) mod fp_modulus)))"

definition g1_neg :: "'fp gnark \<Rightarrow> 'fp G1 \<Rightarrow> 'fp G1" where
  "g1_neg gn p = (fst p, fp_neg gn (snd p))"

definition G1_valid :: "'fp gnark \<Rightarrow> 'fp G1 \<Rightarrow> bool" where
  "G1_valid gn p \<longleftrightarrow> p = new_G1 gn \<or> G1_IsOnCurve gn p \<and> G1_IsInSubGroup gn p"

definition G2_valid :: "'fp gnark \<Rightarrow> 'fp G2 \<Rightarrow> bool" where
  "G2_valid gn p \<longleftrightarrow> p = new_G2 gn \<or> G2_IsOnCurve gn p \<and> G2_IsInSubGroup gn p"

end
