(* ===== verification/Groth16.thy ===== *)
theory Groth16
  imports Bn256
begin

text \<open>
  The Groth16 precompile: \<^verbatim>\<open>src/go-ethereum/core/vm/groth16_verify.go\<close> as installed (\<open>groth16_Run\<close>), the
  version shipped as a patch in \<^verbatim>\<open>src/HZKA/geth-patch/groth16_precompile.go\<close> (\<open>groth16_patch_Run\<close>),
  and the point parsers of \<^verbatim>\<open>core/vm/contracts.go\<close> both call.
\<close>

section \<open>Points and results\<close>

definition newCurvePoint :: "'fp gnark \<Rightarrow> bytes \<Rightarrow> bn_error + 'fp G1" where
  "newCurvePoint gn blob =
     (case G1_Unmarshal gn (new_G1 gn) blob of (Inl err, p) \<Rightarrow> Inl err | (Inr n, p) \<Rightarrow> Inr p)"

definition newTwistPoint :: "'fp gnark \<Rightarrow> bytes \<Rightarrow> bn_error + 'fp G2" where
  "newTwistPoint gn blob =
     (case G2_Unmarshal gn (new_G2 gn) blob of (Inl err, p) \<Rightarrow> Inl err | (Inr n, p) \<Rightarrow> Inr p)"

definition true32Byte :: bytes where
  "true32Byte = replicate 31 0 @ [1]"

definition false32Byte :: bytes where
  "false32Byte = replicate 32 0"

datatype precompile_error =
    ErrCurve bn_error
  | ErrBadGroth16Input
  | ErrBadPairingInput
  | ErrModExpLength
  | ErrBlake2FInvalidInputLength
  | ErrBlake2FInvalidFinalFlag
  | ErrBlobVerifyInvalidInputLength
  | ErrBlobVerifyMismatchedVersion
  | ErrBlobVerifyKZGProof string
  | ErrBLS12381InvalidInputLength
  | ErrBLS12381InvalidFieldElementTopBytes
  | ErrBLS12381G1PointSubgroup
  | ErrBLS12381G2PointSubgroup
  | ErrBLS12381Point string
  | ErrOutOfGas

definition curve_point :: "'fp gnark \<Rightarrow> bytes \<Rightarrow> precompile_error + 'fp G1" where
  "curve_point gn blob = wrap_err ErrCurve (newCurvePoint gn blob)"

definition twist_point :: "'fp gnark \<Rightarrow> bytes \<Rightarrow> precompile_error + 'fp G2" where
  "twist_point gn blob = wrap_err ErrCurve (newTwistPoint gn blob)"

section \<open>The precompile\<close>

definition Groth16VerifyGas :: u64 where
  "Groth16VerifyGas = 440000"

definition groth16_RequiredGas :: "bytes \<Rightarrow> u64" where
  "groth16_RequiredGas input = Groth16VerifyGas"

text \<open>\<open>for i := 0; i <= numInputsInt; i++\<close> over the IC points, and the loop over the scalars.\<close>

primrec parse_ic :: "'fp gnark \<Rightarrow> bytes \<Rightarrow> nat \<Rightarrow> nat \<Rightarrow> precompile_error + 'fp G1 list" where
  "parse_ic gn input 0 offset = Inr []"
| "parse_ic gn input (Suc k) offset =
     ebind (curve_point gn (slice input offset (offset + 64))) (\<lambda>p.
     ebind (parse_ic gn input k (offset + 64)) (\<lambda>ps. Inr (p # ps)))"

primrec parse_inputs :: "bytes \<Rightarrow> nat \<Rightarrow> nat \<Rightarrow> nat list" where
  "parse_inputs input 0 offset = []"
| "parse_inputs input (Suc k) offset =
     be_nat (slice input offset (offset + 32)) # parse_inputs input k (offset + 32)"

fun vk_x_loop :: "'fp gnark \<Rightarrow> 'fp G1 \<Rightarrow> 'fp G1 list \<Rightarrow> nat list \<Rightarrow> 'fp G1" where
  "vk_x_loop gn vkX (p # ps) (x # xs) = vk_x_loop gn (G1_Add gn vkX (G1_ScalarMult gn p x)) ps xs"
| "vk_x_loop gn vkX _ _ = vkX"

text \<open>\<open>int(numInputs.Int64())\<close>: the low 64 bits, as a signed number.\<close>

definition num_inputs :: "bytes \<Rightarrow> int" where
  "num_inputs bs = sint (of_nat (be_nat bs) :: u64)"

text \<open>The negated first proof element, through its marshalled form; the error is dropped.\<close>

definition negate_A :: "'fp gnark \<Rightarrow> 'fp G1 \<Rightarrow> 'fp G1" where
  "negate_A gn proofA =
     (let marshaledA = G1_Marshal gn proofA;
          negY = int fp_modulus - int (be_nat (slice marshaledA 32 64));
          negABuf = replicate 64 0;
          negABuf = copy_at negABuf 0 (slice marshaledA 0 32);
          negYBytes = big_bytes (nat \<bar>negY\<bar>);
          negABuf = copy_at negABuf (64 - length negYBytes) negYBytes
      in snd (G1_Unmarshal gn (new_G1 gn) negABuf))"

definition groth16_Run :: "'fp gnark \<Rightarrow> bytes \<Rightarrow> precompile_error + bytes" where
  "groth16_Run gn input =
     (if length input < 800 then Inl ErrBadGroth16Input
      else
        ebind (curve_point gn (slice input 0 64)) (\<lambda>proofA.
        ebind (twist_point gn (slice input 64 192)) (\<lambda>proofB.
        ebind (curve_point gn (slice input 192 256)) (\<lambda>proofC.
        ebind (curve_point gn (slice input 256 320)) (\<lambda>vkAlpha.
        ebind (twist_point gn (slice input 320 448)) (\<lambda>vkBeta.
        ebind (twist_point gn (slice input 448 576)) (\<lambda>vkGamma.
        ebind (twist_point gn (slice input 576 704)) (\<lambda>vkDelta.
        if 704 + 32 > length input then Inl ErrBadGroth16Input
        else
          (let numInputsInt = num_inputs (slice input 704 736)
           in if numInputsInt < 0 \<or> numInputsInt > 100 then Inl ErrBadGroth16Input
              else if 736 + ((numInputsInt + 1) * 64 + numInputsInt * 32) \<noteq> int (length input)
              then Inl ErrBadGroth16Input
              else
                (let n = nat numInputsInt
                 in ebind (parse_ic gn input (n + 1) 736) (\<lambda>ic.
                    let publicInputs = parse_inputs input n (736 + 64 * (n + 1));
                        vkX = snd (G1_Unmarshal gn (new_G1 gn) (G1_Marshal gn (ic ! 0)));
                        vkX = vk_x_loop gn vkX (tl ic) publicInputs;
                        negA = negate_A gn proofA;
                        g1Points = [negA, vkAlpha, vkX, proofC];
                        g2Points = [proofB, vkBeta, vkGamma, vkDelta]
                    in if PairingCheck gn g1Points g2Points then Inr true32Byte
                       else Inr false32Byte)))))))))))"

text \<open>
  The shipped patch: the same parsing, but it calls \<open>Set\<close> and \<open>Neg\<close> of the point type, which the
  gnark wrapper does not have; they are parameters.
\<close>

definition groth16_patch_Run ::
  "('fp G1 \<Rightarrow> 'fp G1) \<Rightarrow> ('fp G1 \<Rightarrow> 'fp G1) \<Rightarrow> 'fp gnark \<Rightarrow> bytes \<Rightarrow> precompile_error + bytes" where
  "groth16_patch_Run SetG1 NegG1 gn input =
     (if length input < 800 then Inl ErrBadGroth16Input
      else
        ebind (curve_point gn (slice input 0 64)) (\<lambda>proofA.
        ebind (twist_point gn (slice input 64 192)) (\<lambda>proofB.
        ebind (curve_point gn (slice input 192 256)) (\<lambda>proofC.
        ebind (curve_point gn (slice input 256 320)) (\<lambda>vkAlpha.
        ebind (twist_point gn (slice input 320 448)) (\<lambda>vkBeta.
        ebind (twist_point gn (slice input 448 576)) (\<lambda>vkGamma.
        ebind (twist_point gn (slice input 576 704)) (\<lambda>vkDelta.
        if 704 + 32 > length input then Inl ErrBadGroth16Input
        else
          (let numInputsInt = num_inputs (slice input 704 736)
           in if numInputsInt < 0 \<or> numInputsInt > 100 then Inl ErrBadGroth16Input
              else if 736 + ((numInputsInt + 1) * 64 + numInputsInt * 32) \<noteq> int (length input)
              then Inl ErrBadGroth16Input
              else
                (let n = nat numInputsInt
                 in ebind (parse_ic gn input (n + 1) 736) (\<lambda>ic.
                    let publicInputs = parse_inputs input n (736 + 64 * (n + 1));
                        vkX = vk_x_loop gn (SetG1 (ic ! 0)) (tl ic) publicInputs;
                        g1Points = [NegG1 proofA, vkAlpha, vkX, proofC];
                        g2Points = [proofB, vkBeta, vkGamma, vkDelta]
                    in if PairingCheck gn g1Points g2Points then Inr true32Byte
                       else Inr false32Byte)))))))))))"

end
