(* ===== verification/Groth16_Correct.thy ===== *)
theory Groth16_Correct
  imports Groth16
begin

text \<open>
  Correctness of the Groth16 precompile relative to the field and pairing library: point encodings
  round-trip, the negation through marshalled bytes is the negation of the group, the precompile
  decides exactly the pairing equation of the instance its input encodes, which inputs it accepts,
  and the agreement of the installed version with the shipped patch.
\<close>

section \<open>Field elements\<close>

lemma fp_modulus_bounds: "0 < fp_modulus" "fp_modulus < 256 ^ 32"
  by (simp_all add: fp_modulus_def)

lemma fp_Bytes_length [simp]: "gnark_fp gn \<Longrightarrow> length (fp_Bytes gn x) = 32"
  by (simp add: gnark_fp_def)

lemma fp_Bytes_lt: "gnark_fp gn \<Longrightarrow> be_nat (fp_Bytes gn x) < fp_modulus"
  by (simp add: gnark_fp_def)

lemma fp_Bytes_zero [simp]: "gnark_fp gn \<Longrightarrow> fp_Bytes gn (fp_zero gn) = replicate 32 0"
  unfolding gnark_fp_def by blast

lemma SetBytesCanonical_ok:
  assumes "gnark_fp gn" and "length bs = 32" and "be_nat bs < fp_modulus"
  obtains x where "SetBytesCanonical gn z bs = (None, x)" and "fp_Bytes gn x = bs"
proof -
  have "fst (SetBytesCanonical gn z bs) = None" "fp_Bytes gn (snd (SetBytesCanonical gn z bs)) = bs"
    using assms unfolding gnark_fp_def by blast+
  then show ?thesis using that by (metis prod.collapse)
qed

lemma SetBytesCanonical_fails:
  assumes "gnark_fp gn" and "length bs = 32" and "\<not> be_nat bs < fp_modulus"
  obtains e where "SetBytesCanonical gn z bs = (Some e, z)"
proof -
  have "fst (SetBytesCanonical gn z bs) \<noteq> None" "snd (SetBytesCanonical gn z bs) = z"
    using assms unfolding gnark_fp_def by blast+
  then show ?thesis using that by (metis prod.collapse option.exhaust)
qed

lemma SetBytesCanonical_Bytes [simp]:
  assumes "gnark_fp gn"
  shows "SetBytesCanonical gn z (fp_Bytes gn x) = (None, x)"
proof -
  have "fst (SetBytesCanonical gn z (fp_Bytes gn x)) = None" "snd (SetBytesCanonical gn z (fp_Bytes gn x)) = x"
    using assms fp_Bytes_lt [OF assms] unfolding gnark_fp_def by blast+
  then show ?thesis by (simp add: prod_eq_iff)
qed

lemma fp_Bytes_inject [simp]: "gnark_fp gn \<Longrightarrow> fp_Bytes gn x = fp_Bytes gn y \<longleftrightarrow> x = y"
  using SetBytesCanonical_Bytes [of gn "fp_zero gn"] by (metis prod.inject)

lemma fp_Bytes_eq_zeros [simp]: "gnark_fp gn \<Longrightarrow> fp_Bytes gn x = replicate 32 0 \<longleftrightarrow> x = fp_zero gn"
  by (metis fp_Bytes_inject fp_Bytes_zero)

lemma SetBytesCanonical_None_iff:
  assumes "gnark_fp gn" and "length bs = 32"
  shows "SetBytesCanonical gn z bs = (None, x) \<longleftrightarrow> fp_Bytes gn x = bs"
proof (cases "be_nat bs < fp_modulus")
  case True
  then obtain y where "SetBytesCanonical gn z bs = (None, y)" "fp_Bytes gn y = bs"
    using assms by (elim SetBytesCanonical_ok)
  then show ?thesis using assms(1) by auto
next
  case False
  then obtain e where "SetBytesCanonical gn z bs = (Some e, z)"
    using assms by (elim SetBytesCanonical_fails)
  moreover have "fp_Bytes gn x \<noteq> bs" using False fp_Bytes_lt [OF assms(1)] by blast
  ultimately show ?thesis by simp
qed

section \<open>Points\<close>

lemma G1_Marshal_eq: "gnark_fp gn \<Longrightarrow> G1_Marshal gn p = fp_Bytes gn (fst p) @ fp_Bytes gn (snd p)"
  by (simp add: G1_Marshal_def copy_at_def slice_def Let_def)

lemma G2_Marshal_eq:
  "gnark_fp gn \<Longrightarrow> G2_Marshal gn p =
     fp_Bytes gn (snd (fst p)) @ fp_Bytes gn (fst (fst p)) @ fp_Bytes gn (snd (snd p)) @ fp_Bytes gn (fst (snd p))"
  by (simp add: G2_Marshal_def copy_at_def Let_def)

lemma length_Marshal [simp]:
  "gnark_fp gn \<Longrightarrow> length (G1_Marshal gn p) = 64" "gnark_fp gn \<Longrightarrow> length (G2_Marshal gn q) = 128"
  by (simp_all add: G1_Marshal_eq G2_Marshal_eq)

lemma zeros_split: "replicate (m + n) (0::byte) = xs @ ys \<Longrightarrow> length xs = m \<Longrightarrow> xs = replicate m 0 \<and> ys = replicate n 0"
  by (metis append_eq_append_conv length_replicate replicate_add)

lemma G1_Marshal_zeros: "gnark_fp gn \<Longrightarrow> G1_Marshal gn p = replicate 64 0 \<longleftrightarrow> p = new_G1 gn"
proof
  assume gn: "gnark_fp gn" and "G1_Marshal gn p = replicate 64 0"
  then have "replicate (32 + 32) 0 = fp_Bytes gn (fst p) @ fp_Bytes gn (snd p)"
    by (simp add: G1_Marshal_eq)
  from zeros_split [OF this] gn show "p = new_G1 gn" by (simp add: new_G1_def prod_eq_iff)
next
  assume "gnark_fp gn" "p = new_G1 gn"
  then show "G1_Marshal gn p = replicate 64 0"
    by (simp add: G1_Marshal_eq new_G1_def replicate_add [symmetric])
qed

lemma Unmarshal_Marshal: "gnark_fp gn \<Longrightarrow> snd (G1_Unmarshal gn g (G1_Marshal gn p)) = p"
  by (auto simp: G1_Unmarshal_def TestBytes_iff G1_Marshal_zeros [unfolded new_G1_def])
    (auto simp: G1_Marshal_eq slice_append_left slice_append_right slice_all)

lemma newCurvePoint_iff:
  assumes "gnark_fp gn" and "length blob = 64"
  shows "newCurvePoint gn blob = Inr p \<longleftrightarrow> blob = G1_Marshal gn p \<and> G1_valid gn p"
proof (cases "TestBytes blob")
  case False
  then have zeros: "blob = replicate 64 0" using assms(2) by (simp add: TestBytes_iff)
  have "newCurvePoint gn blob = Inr (new_G1 gn)"
    using False assms(2) by (simp add: newCurvePoint_def G1_Unmarshal_def new_G1_def)
  moreover have "blob = G1_Marshal gn p \<longleftrightarrow> p = new_G1 gn"
    using G1_Marshal_zeros [OF assms(1), of p] zeros by metis
  ultimately show ?thesis by (auto simp: G1_valid_def)
next
  case True
  let ?bx = "slice blob 0 32" and ?by = "slice blob 32 64"
  have len: "length ?bx = 32" "length ?by = 32" using assms(2) by simp_all
  have blob: "blob = ?bx @ ?by" using assms(2) by (simp add: slice_def)
  have marsh: "blob = G1_Marshal gn (x, y) \<longleftrightarrow> fp_Bytes gn x = ?bx \<and> fp_Bytes gn y = ?by" for x y
    using assms(1) len by (subst blob) (auto simp: G1_Marshal_eq append_eq_append_conv)
  have ninf: "p \<noteq> new_G1 gn" if "blob = G1_Marshal gn p" for p
    using True that G1_Marshal_zeros [OF assms(1), of p] assms(2) by (auto simp: TestBytes_iff)
  obtain x y where p: "p = (x, y)" by (cases p)
  have "newCurvePoint gn blob = Inr (x, y) \<longleftrightarrow>
      fp_Bytes gn x = ?bx \<and> fp_Bytes gn y = ?by \<and> G1_IsOnCurve gn (x, y) \<and> G1_IsInSubGroup gn (x, y)"
    unfolding SetBytesCanonical_None_iff [OF assms(1) len(1), of "fp_zero gn", symmetric]
      SetBytesCanonical_None_iff [OF assms(1) len(2), of "fp_zero gn", symmetric]
    using True assms(2)
    by (auto simp: newCurvePoint_def G1_Unmarshal_def new_G1_def split: prod.splits option.splits if_splits sum.splits)
  then show ?thesis using ninf [of p] unfolding p marsh by (auto simp: G1_valid_def marsh)
qed

lemma G2_Marshal_zeros: "gnark_fp gn \<Longrightarrow> G2_Marshal gn p = replicate 128 0 \<longleftrightarrow> p = new_G2 gn"
proof
  assume gn: "gnark_fp gn" and "G2_Marshal gn p = replicate 128 0"
  then have "replicate (32 + 96) 0 = fp_Bytes gn (snd (fst p)) @
      (fp_Bytes gn (fst (fst p)) @ fp_Bytes gn (snd (snd p)) @ fp_Bytes gn (fst (snd p)))"
    by (simp add: G2_Marshal_eq)
  from zeros_split [OF this] gn have a: "snd (fst p) = fp_zero gn"
    and "replicate (32 + 64) 0 = fp_Bytes gn (fst (fst p)) @ (fp_Bytes gn (snd (snd p)) @ fp_Bytes gn (fst (snd p)))"
    by simp_all
  from zeros_split [OF this(2)] gn have b: "fst (fst p) = fp_zero gn"
    and "replicate (32 + 32) 0 = fp_Bytes gn (snd (snd p)) @ fp_Bytes gn (fst (snd p))" by simp_all
  from zeros_split [OF this(2)] gn a b show "p = new_G2 gn" by (simp add: new_G2_def prod_eq_iff)
next
  assume "gnark_fp gn" "p = new_G2 gn"
  then show "G2_Marshal gn p = replicate 128 0"
    by (simp add: G2_Marshal_eq new_G2_def replicate_add [symmetric])
qed

lemma newTwistPoint_iff:
  assumes "gnark_fp gn" and "length blob = 128"
  shows "newTwistPoint gn blob = Inr p \<longleftrightarrow> blob = G2_Marshal gn p \<and> G2_valid gn p"
proof (cases "TestBytes blob")
  case False
  then have zeros: "blob = replicate 128 0" using assms(2) by (simp add: TestBytes_iff)
  have "newTwistPoint gn blob = Inr (new_G2 gn)"
    using False assms(2) by (simp add: newTwistPoint_def G2_Unmarshal_def new_G2_def)
  moreover have "blob = G2_Marshal gn p \<longleftrightarrow> p = new_G2 gn"
    using G2_Marshal_zeros [OF assms(1), of p] zeros by metis
  ultimately show ?thesis by (auto simp: G2_valid_def)
next
  case True
  let ?b = "\<lambda>i. slice blob (32 * i) (32 * i + 32)"
  have len: "length (?b 0) = 32" "length (?b 1) = 32" "length (?b 2) = 32" "length (?b 3) = 32"
    using assms(2) by simp_all
  have "blob = take 32 blob @ take 32 (drop 32 blob) @ take 32 (drop 64 blob) @ take 32 (drop 96 blob)"
    using assms(2) append_take_drop_id [of 32 blob] append_take_drop_id [of 32 "drop 32 blob"]
      append_take_drop_id [of 32 "drop 64 blob"] by simp
  then have blob: "blob = ?b 0 @ ?b 1 @ ?b 2 @ ?b 3" by (simp add: slice_def)
  obtain x0 x1 y0 y1 where p: "p = ((x0, x1), (y0, y1))" by (cases p) auto
  have marsh: "blob = G2_Marshal gn p \<longleftrightarrow>
      fp_Bytes gn x1 = ?b 0 \<and> fp_Bytes gn x0 = ?b 1 \<and> fp_Bytes gn y1 = ?b 2 \<and> fp_Bytes gn y0 = ?b 3"
    using assms(1) len unfolding p by (subst blob) (auto simp: G2_Marshal_eq append_eq_append_conv)
  have ninf: "p \<noteq> new_G2 gn" if "blob = G2_Marshal gn p"
    using True that G2_Marshal_zeros [OF assms(1), of p] assms(2) by (auto simp: TestBytes_iff)
  have "newTwistPoint gn blob = Inr p \<longleftrightarrow>
      fp_Bytes gn x1 = ?b 0 \<and> fp_Bytes gn x0 = ?b 1 \<and> fp_Bytes gn y1 = ?b 2 \<and> fp_Bytes gn y0 = ?b 3 \<and>
      G2_IsOnCurve gn p \<and> G2_IsInSubGroup gn p"
    unfolding SetBytesCanonical_None_iff [OF assms(1) len(1), of "fp_zero gn", symmetric]
      SetBytesCanonical_None_iff [OF assms(1) len(2), of "fp_zero gn", symmetric]
      SetBytesCanonical_None_iff [OF assms(1) len(3), of "fp_zero gn", symmetric]
      SetBytesCanonical_None_iff [OF assms(1) len(4), of "fp_zero gn", symmetric] p
    using True assms(2)
    by (auto simp: newTwistPoint_def G2_Unmarshal_def new_G2_def Let_def
        split: prod.splits option.splits if_splits sum.splits)
  then show ?thesis using ninf unfolding G2_valid_def marsh by auto
qed

text \<open>\<open>-A\<close> computed on the marshalled bytes, with the error of \<open>Unmarshal\<close> dropped, is \<open>-A\<close>.\<close>

lemma negate_A_eq:
  assumes gn: "gnark_fp gn"
  shows "negate_A gn A = g1_neg gn A"
proof -
  let ?y = "be_nat (fp_Bytes gn (snd A))"
  have y: "?y < fp_modulus" using gn by (rule fp_Bytes_lt)
  have slices: "slice (G1_Marshal gn A) 0 32 = fp_Bytes gn (fst A)" "slice (G1_Marshal gn A) 32 64 = fp_Bytes gn (snd A)"
    using gn by (simp_all add: G1_Marshal_eq slice_append_left slice_append_right slice_all)
  have neg: "nat \<bar>int fp_modulus - int ?y\<bar> = fp_modulus - ?y" using y by simp
  have bound: "fp_modulus - ?y < 256 ^ 32" using fp_modulus_bounds by linarith
  have blen: "length (big_bytes (fp_modulus - ?y)) \<le> 32" using bound by (rule big_bytes_length)
  have buf: "copy_at (copy_at (replicate 64 0) 0 (fp_Bytes gn (fst A))) (64 - length (big_bytes (fp_modulus - ?y)))
      (big_bytes (fp_modulus - ?y)) = fp_Bytes gn (fst A) @ be_bytes 32 (fp_modulus - ?y)"
    using gn blen zeros_big_bytes [OF bound] by (simp add: copy_at_def)
  have test: "TestBytes (fp_Bytes gn (fst A) @ be_bytes 32 (fp_modulus - ?y))"
  proof -
    have "be_nat (be_bytes 32 (fp_modulus - ?y)) \<noteq> 0"
      using y bound by (simp only: be_nat_be_bytes mod_less)
    then have "\<exists>b\<in>set (be_bytes 32 (fp_modulus - ?y)). b \<noteq> 0"
      by (metis be_nat_zeros length_be_bytes replicate_eqI)
    then show ?thesis by (auto simp: TestBytes_ex)
  qed
  have "negate_A gn A = snd (G1_Unmarshal gn (new_G1 gn) (fp_Bytes gn (fst A) @ be_bytes 32 (fp_modulus - ?y)))"
    unfolding negate_A_def Let_def slices neg buf ..
  also have "\<dots> = (fst A, snd (SetBytesCanonical gn (fp_zero gn) (be_bytes 32 (fp_modulus - ?y))))"
    using gn test
    by (simp add: G1_Unmarshal_def new_G1_def slice_append_left slice_append_right slice_all
        split: prod.splits option.splits)
  also have "\<dots> = g1_neg gn A"
  proof (cases "?y = 0")
    case True
    have "\<not> be_nat (be_bytes 32 fp_modulus) < fp_modulus"
      using fp_modulus_bounds by (simp only: be_nat_be_bytes mod_less)
    then obtain e where "SetBytesCanonical gn (fp_zero gn) (be_bytes 32 fp_modulus) = (Some e, fp_zero gn)"
      using SetBytesCanonical_fails [OF gn length_be_bytes] by blast
    moreover have "SetBytesCanonical gn (fp_zero gn) (replicate 32 0) = (None, fp_zero gn)"
      using SetBytesCanonical_Bytes [OF gn, of "fp_zero gn" "fp_zero gn"] gn by simp
    ultimately show ?thesis using True by (simp add: g1_neg_def fp_neg_def)
  next
    case False
    then show ?thesis using y by (simp add: g1_neg_def fp_neg_def)
  qed
  finally show ?thesis .
qed

section \<open>Instances\<close>

text \<open>A Groth16 statement with its proof and verification key, and the input that encodes it.\<close>

record 'fp groth16_instance =
  g_A :: "'fp G1"
  g_B :: "'fp G2"
  g_C :: "'fp G1"
  g_alpha :: "'fp G1"
  g_beta :: "'fp G2"
  g_gamma :: "'fp G2"
  g_delta :: "'fp G2"
  g_ic :: "'fp G1 list"
  g_inputs :: "nat list"

definition instance_ok :: "'fp gnark \<Rightarrow> 'fp groth16_instance \<Rightarrow> bool" where
  "instance_ok gn t \<longleftrightarrow>
     G1_valid gn (g_A t) \<and> G2_valid gn (g_B t) \<and> G1_valid gn (g_C t) \<and> G1_valid gn (g_alpha t) \<and>
     G2_valid gn (g_beta t) \<and> G2_valid gn (g_gamma t) \<and> G2_valid gn (g_delta t) \<and>
     (\<forall>p\<in>set (g_ic t). G1_valid gn p) \<and> (\<forall>x\<in>set (g_inputs t). x < 256 ^ 32) \<and>
     length (g_ic t) = Suc (length (g_inputs t)) \<and> length (g_inputs t) \<le> 100"

definition instance_head :: "'fp gnark \<Rightarrow> 'fp groth16_instance \<Rightarrow> bytes" where
  "instance_head gn t =
     G1_Marshal gn (g_A t) @ G2_Marshal gn (g_B t) @ G1_Marshal gn (g_C t) @ G1_Marshal gn (g_alpha t) @
     G2_Marshal gn (g_beta t) @ G2_Marshal gn (g_gamma t) @ G2_Marshal gn (g_delta t)"

definition encode_instance :: "'fp gnark \<Rightarrow> bytes \<Rightarrow> 'fp groth16_instance \<Rightarrow> bytes" where
  "encode_instance gn count t =
     instance_head gn t @ count @ concat (map (G1_Marshal gn) (g_ic t)) @ concat (map (be_bytes 32) (g_inputs t))"

text \<open>\<open>e(-A, B) e(alpha, beta) e(vk_x, gamma) e(C, delta) = 1\<close> with \<open>vk_x = IC[0] + IC[i+1] * input[i]\<close> summed.\<close>

definition vk_x :: "'fp gnark \<Rightarrow> 'fp groth16_instance \<Rightarrow> 'fp G1" where
  "vk_x gn t = foldl (G1_Add gn) (hd (g_ic t)) (map2 (G1_ScalarMult gn) (tl (g_ic t)) (g_inputs t))"

definition instance_holds :: "'fp gnark \<Rightarrow> 'fp groth16_instance \<Rightarrow> bool" where
  "instance_holds gn t \<longleftrightarrow>
     PairingCheck gn [g1_neg gn (g_A t), g_alpha t, vk_x gn t, g_C t] [g_B t, g_beta t, g_gamma t, g_delta t]"

lemma vk_x_loop_eq:
  "vk_x_loop gn v ps xs = foldl (G1_Add gn) v (map2 (G1_ScalarMult gn) ps xs)"
  by (induction gn v ps xs rule: vk_x_loop.induct) auto

lemma slice_split: "i \<le> j \<Longrightarrow> j \<le> k \<Longrightarrow> slice xs i k = slice xs i j @ slice xs j k"
proof -
  assume "i \<le> j" "j \<le> k"
  then have "take (k - i) (drop i xs) = take (j - i) (drop i xs) @ take (k - j) (drop (j - i) (drop i xs))"
    using take_add [of "j - i" "k - j" "drop i xs"] by simp
  with \<open>i \<le> j\<close> show ?thesis by (simp add: slice_def)
qed

lemma parse_ic_iff:
  assumes gn: "gnark_fp gn"
  shows "off + 64 * k \<le> length input \<Longrightarrow>
    parse_ic gn input k off = Inr ps \<longleftrightarrow>
      length ps = k \<and> (\<forall>p\<in>set ps. G1_valid gn p) \<and> slice input off (off + 64 * k) = concat (map (G1_Marshal gn) ps)"
proof (induction k arbitrary: off ps)
  case 0
  then show ?case by (auto simp: slice_def)
next
  case (Suc k)
  have len: "length (slice input off (off + 64)) = 64" using Suc.prems by simp
  have split: "slice input off (off + 64 * Suc k) = slice input off (off + 64) @ slice input (off + 64) (off + 64 + 64 * k)"
    using slice_split [of off "off + 64" "off + 64 * Suc k" input] by (simp add: algebra_simps)
  have "off + 64 + 64 * k \<le> length input" using Suc.prems by simp
  note IH = Suc.IH [OF this]
  show ?case
  proof (cases ps)
    case Nil
    then show ?thesis by (auto simp: ebind_eq_Inr_iff)
  next
    case (Cons p qs)
    then show ?thesis
      unfolding split using len gn
      by (auto simp: ebind_eq_Inr_iff curve_point_def newCurvePoint_iff IH append_eq_append_conv simp del: split_paired_Ex)
  qed
qed

lemma parse_inputs_iff:
  "off + 32 * k \<le> length input \<Longrightarrow>
   parse_inputs input k off = xs \<longleftrightarrow>
     length xs = k \<and> (\<forall>x\<in>set xs. x < 256 ^ 32) \<and> slice input off (off + 32 * k) = concat (map (be_bytes 32) xs)"
proof (induction k arbitrary: off xs)
  case 0
  then show ?case by (auto simp: slice_def)
next
  case (Suc k)
  let ?w = "slice input off (off + 32)"
  have len: "length ?w = 32" using Suc.prems by simp
  have split: "slice input off (off + 32 * Suc k) = ?w @ slice input (off + 32) (off + 32 + 32 * k)"
    using slice_split [of off "off + 32" "off + 32 * Suc k" input] by (simp add: algebra_simps)
  have word: "be_nat ?w = x \<longleftrightarrow> x < 256 ^ 32 \<and> ?w = be_bytes 32 x" for x
    using be_nat_lt [of ?w] be_bytes_be_nat [of ?w] unfolding len by (auto simp: be_nat_be_bytes simp del: length_slice)
  have "off + 32 + 32 * k \<le> length input" using Suc.prems by simp
  note IH = Suc.IH [OF this]
  show ?case
  proof (cases xs)
    case Nil
    then show ?thesis by auto
  next
    case (Cons x ys)
    have "parse_inputs input (Suc k) off = x # ys \<longleftrightarrow> be_nat ?w = x \<and> parse_inputs input k (off + 32) = ys" by simp
    then show ?thesis
      unfolding split Cons word IH using len by (auto simp: append_eq_append_conv simp del: length_slice)
  qed
qed

lemma num_inputs_eq:
  assumes "length bs = 32" and "n \<le> 100"
  shows "num_inputs bs = int n \<longleftrightarrow> be_nat bs mod 2 ^ 64 = n"
proof -
  let ?w = "of_nat (be_nat bs) :: u64"
  have w: "unat ?w = be_nat bs mod 2 ^ 64" by (simp add: unat_of_nat)
  show ?thesis
  proof (cases "unat ?w < 2 ^ 63")
    case True
    then have "sint ?w = int (unat ?w)" by (rule sint_small_u64)
    then show ?thesis using w by (simp add: num_inputs_def)
  next
    case False
    then have "num_inputs bs < 0" by (simp add: num_inputs_def sint_neg_u64)
    then show ?thesis using False assms(2) w by auto
  qed
qed

section \<open>The precompile decides its instance\<close>

lemma length_concat_Marshal:
  "gnark_fp gn \<Longrightarrow> length (concat (map (G1_Marshal gn) ps)) = 64 * length ps"
  by (induction ps) auto

lemma length_concat_words: "length (concat (map (be_bytes 32) xs)) = 32 * length xs"
  by (induction xs) auto

lemma length_instance_head: "gnark_fp gn \<Longrightarrow> length (instance_head gn t) = 704"
  by (simp add: instance_head_def)

lemma head_slices:
  assumes "gnark_fp gn"
  shows "slice (instance_head gn t @ r) 0 64 = G1_Marshal gn (g_A t)"
    and "slice (instance_head gn t @ r) 64 192 = G2_Marshal gn (g_B t)"
    and "slice (instance_head gn t @ r) 192 256 = G1_Marshal gn (g_C t)"
    and "slice (instance_head gn t @ r) 256 320 = G1_Marshal gn (g_alpha t)"
    and "slice (instance_head gn t @ r) 320 448 = G2_Marshal gn (g_beta t)"
    and "slice (instance_head gn t @ r) 448 576 = G2_Marshal gn (g_gamma t)"
    and "slice (instance_head gn t @ r) 576 704 = G2_Marshal gn (g_delta t)"
  using assms by (simp_all add: instance_head_def slice_append_left slice_append_right slice_all)

lemma tail_slices:
  fixes t :: "'fp groth16_instance"
  assumes gn: "gnark_fp gn" and "length count = 32"
  defines "inp \<equiv> encode_instance gn count t" and "m \<equiv> 736 + 64 * length (g_ic t)"
  shows "slice inp 704 736 = count"
    and "slice inp 736 m = concat (map (G1_Marshal gn) (g_ic t))"
    and "slice inp m (m + 32 * length (g_inputs t)) = concat (map (be_bytes 32) (g_inputs t))"
    and "length inp = m + 32 * length (g_inputs t)"
  using assms
  by (simp_all add: encode_instance_def length_instance_head length_concat_Marshal length_concat_words
      slice_append_left slice_append_right slice_all)


lemma groth16_Run_complete:
  assumes gn: "gnark_fp gn" and ok: "instance_ok gn t" and len: "length count = 32"
    and cnt: "be_nat count mod 2 ^ 64 = length (g_inputs t)"
  shows "groth16_Run gn (encode_instance gn count t) =
    Inr (if instance_holds gn t then true32Byte else false32Byte)"
proof -
  let ?inp = "encode_instance gn count t" and ?n = "length (g_inputs t)"
  have n: "?n \<le> 100" and ic: "length (g_ic t) = Suc ?n" using ok by (simp_all add: instance_ok_def)
  note tails = tail_slices [OF gn len, of t]
  have heads: "slice ?inp 0 64 = G1_Marshal gn (g_A t)" "slice ?inp 64 192 = G2_Marshal gn (g_B t)"
      "slice ?inp 192 256 = G1_Marshal gn (g_C t)" "slice ?inp 256 320 = G1_Marshal gn (g_alpha t)"
      "slice ?inp 320 448 = G2_Marshal gn (g_beta t)" "slice ?inp 448 576 = G2_Marshal gn (g_gamma t)"
      "slice ?inp 576 704 = G2_Marshal gn (g_delta t)"
    unfolding encode_instance_def by (rule head_slices [OF gn])+
  have g1: "curve_point gn (G1_Marshal gn p) = Inr p" if "G1_valid gn p" for p
    using that gn by (simp add: curve_point_def newCurvePoint_iff)
  have g2: "twist_point gn (G2_Marshal gn p) = Inr p" if "G2_valid gn p" for p
    using that gn by (simp add: twist_point_def newTwistPoint_iff)
  have pic: "parse_ic gn ?inp (?n + 1) 736 = Inr (g_ic t)"
    using ok tails ic by (subst parse_ic_iff [OF gn]) (auto simp: instance_ok_def)
  have pin: "parse_inputs ?inp ?n (736 + 64 * (?n + 1)) = g_inputs t"
    using ok tails ic by (subst parse_inputs_iff) (auto simp: instance_ok_def)
  have num: "num_inputs count = int ?n" using num_inputs_eq [OF len n] cnt by simp
  have size: "int (length ?inp) = 736 + ((int ?n + 1) * 64 + int ?n * 32)" "\<not> length ?inp < 800"
    using tails(4) ic by simp_all
  have "hd (g_ic t) = g_ic t ! 0" using ic by (metis Zero_not_Suc hd_conv_nth list.size(3))
  then have vk: "vk_x_loop gn (snd (G1_Unmarshal gn (new_G1 gn) (G1_Marshal gn (g_ic t ! 0)))) (tl (g_ic t)) (g_inputs t) = vk_x gn t"
    using gn by (simp add: Unmarshal_Marshal vk_x_loop_eq vk_x_def)
  have valid: "G1_valid gn (g_A t)" "G2_valid gn (g_B t)" "G1_valid gn (g_C t)" "G1_valid gn (g_alpha t)"
      "G2_valid gn (g_beta t)" "G2_valid gn (g_gamma t)" "G2_valid gn (g_delta t)"
    using ok by (simp_all add: instance_ok_def)
  show ?thesis
    unfolding groth16_Run_def Let_def heads tails(1) g1 [OF valid(1)] g1 [OF valid(3)] g1 [OF valid(4)]
      g2 [OF valid(2)] g2 [OF valid(5)] g2 [OF valid(6)] g2 [OF valid(7)] ebind_simps num nat_int
      pic pin vk negate_A_eq [OF gn]
    using size n by (simp add: instance_holds_def)
qed


section \<open>A field that satisfies the assumptions\<close>

text \<open>
  The residues below the modulus with their canonical encodings; every point is on the curve and the
  pairing product is one when the lists are equally long. Only the assumptions on encodings are
  shown of it.
\<close>

typedef fp_elem = "{x :: nat. x < fp_modulus}"
  using fp_modulus_bounds(1) by blast

definition ex_gnark :: "fp_elem gnark" where
  "ex_gnark = \<lparr>fp_zero = Abs_fp_elem 0,
     SetBytesCanonical = (\<lambda>z bs. if length bs = 32 \<and> be_nat bs < fp_modulus then (None, Abs_fp_elem (be_nat bs))
       else (Some ''invalid'', z)),
     fp_Bytes = (\<lambda>x. be_bytes 32 (Rep_fp_elem x)),
     G1_IsOnCurve = (\<lambda>p. True), G1_IsInSubGroup = (\<lambda>p. True), G1Affine_Add = (\<lambda>p q. p),
     G1Affine_ScalarMultiplication = (\<lambda>p k. p), G2_IsOnCurve = (\<lambda>p. True), G2_IsInSubGroup = (\<lambda>p. True),
     bn254_PairingCheck = (\<lambda>ps qs. Inr (length ps = length qs))\<rparr>"

lemma ex_gnark_fp: "gnark_fp ex_gnark"
proof -
  have rep: "Rep_fp_elem x < fp_modulus" for x using Rep_fp_elem [of x] by simp
  have read: "be_nat (be_bytes 32 n) = n" if "n < fp_modulus" for n
    using that fp_modulus_bounds(2) by (simp only: be_nat_be_bytes mod_less less_trans)
  have enc: "be_bytes 32 (be_nat bs) = bs" if "length bs = 32" for bs
    using be_bytes_be_nat [of bs] that by simp
  show ?thesis
    unfolding gnark_fp_def using fp_modulus_bounds(1)
    by (simp add: ex_gnark_def Abs_fp_elem_inverse Rep_fp_elem_inverse rep read enc)
qed

definition ex_point :: "fp_elem G1" where
  "ex_point = (Abs_fp_elem 1, Abs_fp_elem 2)"

definition ex_instance :: "fp_elem groth16_instance" where
  "ex_instance = \<lparr>g_A = ex_point, g_B = new_G2 ex_gnark, g_C = ex_point, g_alpha = new_G1 ex_gnark, g_beta = new_G2 ex_gnark,
     g_gamma = new_G2 ex_gnark, g_delta = new_G2 ex_gnark, g_ic = [ex_point, new_G1 ex_gnark], g_inputs = [5]\<rparr>"

lemma ex_instance_ok: "instance_ok ex_gnark ex_instance"
  by (simp add: instance_ok_def ex_instance_def G1_valid_def G2_valid_def ex_gnark_def)

lemma ex_instance_count: "be_nat (be_bytes 32 1) mod 2 ^ 64 = length (g_inputs ex_instance)"
  by (simp add: be_nat_be_bytes ex_instance_def)

section \<open>Properties of the precompile\<close>

text \<open>
  C2. The precompile decides Groth16: on the input that encodes a proof, a verification key with valid
  points, at most 100 public inputs and their number, it returns the 32-byte 1 when the product of
  pairings \<open>e(-A, B) e(alpha, beta) e(vk_x, gamma) e(C, delta)\<close> is one, and the 32-byte 0 otherwise.
\<close>

theorem groth16_decides_instance:
  assumes "gnark_fp gn" and "instance_ok gn t" and "length count = 32"
    and "be_nat count mod 2 ^ 64 = length (g_inputs t)"
  shows "groth16_Run gn (encode_instance gn count t) =
    Inr (if instance_holds gn t then true32Byte else false32Byte)"
  using assms by (rule groth16_Run_complete)

theorem groth16_decides_instance_witness:
  "groth16_Run ex_gnark (encode_instance ex_gnark (be_bytes 32 1) ex_instance) =
    Inr (if instance_holds ex_gnark ex_instance then true32Byte else false32Byte)"
  by (rule groth16_decides_instance [OF ex_gnark_fp ex_instance_ok length_be_bytes ex_instance_count])



text \<open>
  The number of public inputs is read modulo \<open>2 ^ 64\<close>: adding any multiple of \<open>2 ^ 64\<close> to the count of
  an encoded instance changes the input but not the answer, although such a count is far above the
  documented maximum of 100, so an accepted input is not unique.
\<close>

theorem groth16_count_truncated:
  assumes "gnark_fp gn" and "instance_ok gn t" and "length (g_inputs t) + k * 2 ^ 64 < 256 ^ 32" and "0 < k"
  shows "groth16_Run gn (encode_instance gn (be_bytes 32 (length (g_inputs t) + k * 2 ^ 64)) t) =
      groth16_Run gn (encode_instance gn (be_bytes 32 (length (g_inputs t))) t) \<and>
    encode_instance gn (be_bytes 32 (length (g_inputs t) + k * 2 ^ 64)) t \<noteq>
      encode_instance gn (be_bytes 32 (length (g_inputs t))) t"
proof
  let ?n = "length (g_inputs t)"
  have n: "?n < 2 ^ 64" using assms(2) by (simp add: instance_ok_def)
  have "?n < 256 ^ 32" using assms(3) by linarith
  then have counts: "be_nat (be_bytes 32 (?n + k * 2 ^ 64)) mod 2 ^ 64 = ?n" "be_nat (be_bytes 32 ?n) mod 2 ^ 64 = ?n"
    unfolding be_nat_be_bytes using assms(3) n by (simp_all only: mod_less mod_mult_self1)
  show "groth16_Run gn (encode_instance gn (be_bytes 32 (?n + k * 2 ^ 64)) t) =
      groth16_Run gn (encode_instance gn (be_bytes 32 ?n) t)"
    using groth16_Run_complete [OF assms(1,2) length_be_bytes] counts by simp
  show "encode_instance gn (be_bytes 32 (?n + k * 2 ^ 64)) t \<noteq> encode_instance gn (be_bytes 32 ?n) t"
    using assms(3,4) \<open>?n < 256 ^ 32\<close> by (simp add: encode_instance_def be_bytes_inject)
qed

theorem groth16_count_truncated_witness:
  "groth16_Run ex_gnark (encode_instance ex_gnark (be_bytes 32 (length (g_inputs ex_instance) + 3 * 2 ^ 64)) ex_instance) =
      groth16_Run ex_gnark (encode_instance ex_gnark (be_bytes 32 (length (g_inputs ex_instance))) ex_instance) \<and>
    encode_instance ex_gnark (be_bytes 32 (length (g_inputs ex_instance) + 3 * 2 ^ 64)) ex_instance \<noteq>
      encode_instance ex_gnark (be_bytes 32 (length (g_inputs ex_instance))) ex_instance"
  by (rule groth16_count_truncated [OF ex_gnark_fp ex_instance_ok]) (simp_all add: ex_instance_def)

text \<open>
  The installed precompile and the version shipped as a patch compute the same function, when the
  point library behind the patch has a copying \<open>Set\<close> and the group negation as \<open>Neg\<close>: the byte-level
  negation with its dropped error, infinity included, is the negation of the group.
\<close>

theorem groth16_patch_equivalent:
  assumes "gnark_fp gn"
  shows "groth16_patch_Run (\<lambda>p. p) (g1_neg gn) gn input = groth16_Run gn input"
  unfolding groth16_patch_Run_def groth16_Run_def negate_A_eq [OF assms] Unmarshal_Marshal [OF assms] Let_def ..

theorem groth16_patch_equivalent_witness:
  "groth16_patch_Run (\<lambda>p. p) (g1_neg ex_gnark) ex_gnark [] = groth16_Run ex_gnark []"
  by (rule groth16_patch_equivalent [OF ex_gnark_fp])

end
