(* ===== verification/Bls12381.thy ===== *)
theory Bls12381
  imports Groth16
begin

text \<open>
  The BLS12-381 precompiles of \<^verbatim>\<open>src/go-ethereum/core/vm/contracts.go\<close> (EIP-2537): point decoding and
  encoding, addition, multi-exponentiation, pairing and the maps to the groups, with their gas.
  Field and group arithmetic is the third-party gnark-crypto, a parameter.
\<close>

section \<open>The library\<close>

record ('bfp, 'fr) bls12381 =
  bls_Element :: "bytes \<Rightarrow> string + 'bfp"
  bls_PutElement :: "'bfp \<Rightarrow> bytes"
  bls_fr_SetBytes :: "bytes \<Rightarrow> 'fr"
  bls_G1_IsOnCurve :: "'bfp G1 \<Rightarrow> bool"
  bls_G1_IsInSubGroup :: "'bfp G1 \<Rightarrow> bool"
  bls_G1_Add :: "'bfp G1 \<Rightarrow> 'bfp G1 \<Rightarrow> 'bfp G1"
  bls_G1_MultiExp :: "'bfp G1 list \<Rightarrow> 'fr list \<Rightarrow> 'bfp G1"
  bls_G2_IsOnCurve :: "'bfp G2 \<Rightarrow> bool"
  bls_G2_IsInSubGroup :: "'bfp G2 \<Rightarrow> bool"
  bls_G2_Add :: "'bfp G2 \<Rightarrow> 'bfp G2 \<Rightarrow> 'bfp G2"
  bls_G2_MultiExp :: "'bfp G2 list \<Rightarrow> 'fr list \<Rightarrow> 'bfp G2"
  bls_PairingCheck :: "'bfp G1 list \<Rightarrow> 'bfp G2 list \<Rightarrow> string + bool"
  bls_MapToG1 :: "'bfp \<Rightarrow> 'bfp G1"
  bls_MapToG2 :: "'bfp \<times> 'bfp \<Rightarrow> 'bfp G2"

section \<open>Encodings\<close>

definition decodeBLS12381FieldElement :: "('bfp, 'fr) bls12381 \<Rightarrow> bytes \<Rightarrow> precompile_error + 'bfp" where
  "decodeBLS12381FieldElement B inp =
     (if length inp \<noteq> 64 then Inl (ErrBLS12381Point ''invalid field element length'')
      else if \<exists>b \<in> set (take 16 inp). b \<noteq> 0 then Inl ErrBLS12381InvalidFieldElementTopBytes
      else wrap_err ErrBLS12381Point (bls_Element B (drop 16 inp)))"

definition decodePointG1 :: "('bfp, 'fr) bls12381 \<Rightarrow> bytes \<Rightarrow> precompile_error + 'bfp G1" where
  "decodePointG1 B inp =
     (if length inp \<noteq> 128 then Inl (ErrBLS12381Point ''invalid g1 point length'')
      else
        ebind (decodeBLS12381FieldElement B (take 64 inp)) (\<lambda>x.
        ebind (decodeBLS12381FieldElement B (drop 64 inp)) (\<lambda>y.
        if \<not> bls_G1_IsOnCurve B (x, y) then Inl (ErrBLS12381Point ''invalid point: not on curve'')
        else Inr (x, y))))"

definition decodePointG2 :: "('bfp, 'fr) bls12381 \<Rightarrow> bytes \<Rightarrow> precompile_error + 'bfp G2" where
  "decodePointG2 B inp =
     (if length inp \<noteq> 256 then Inl (ErrBLS12381Point ''invalid g2 point length'')
      else
        ebind (decodeBLS12381FieldElement B (slice inp 0 64)) (\<lambda>x0.
        ebind (decodeBLS12381FieldElement B (slice inp 64 128)) (\<lambda>x1.
        ebind (decodeBLS12381FieldElement B (slice inp 128 192)) (\<lambda>y0.
        ebind (decodeBLS12381FieldElement B (drop 192 inp)) (\<lambda>y1.
        if \<not> bls_G2_IsOnCurve B ((x0, x1), (y0, y1)) then Inl (ErrBLS12381Point ''invalid point: not on curve'')
        else Inr ((x0, x1), (y0, y1)))))))"

definition encodePointG1 :: "('bfp, 'fr) bls12381 \<Rightarrow> 'bfp G1 \<Rightarrow> bytes" where
  "encodePointG1 B p =
     (let out = replicate 128 0;
          out = copy_at out 16 (bls_PutElement B (fst p));
          out = copy_at out (64 + 16) (bls_PutElement B (snd p))
      in out)"

definition encodePointG2 :: "('bfp, 'fr) bls12381 \<Rightarrow> 'bfp G2 \<Rightarrow> bytes" where
  "encodePointG2 B p =
     (let out = replicate 256 0;
          out = copy_at out 16 (bls_PutElement B (fst (fst p)));
          out = copy_at out 80 (bls_PutElement B (snd (fst p)));
          out = copy_at out 144 (bls_PutElement B (fst (snd p)));
          out = copy_at out 208 (bls_PutElement B (snd (snd p)))
      in out)"

section \<open>Gas\<close>

definition Bls12381G1MultiExpDiscountTable :: "u64 list" where
  "Bls12381G1MultiExpDiscountTable = [
     1000, 949, 848, 797, 764, 750, 738, 728, 719, 712, 705, 698, 692, 687, 682, 677, 673, 669,
     665, 661, 658, 654, 651, 648, 645, 642, 640, 637, 635, 632, 630, 627, 625, 623, 621, 619,
     617, 615, 613, 611, 609, 608, 606, 604, 603, 601, 599, 598, 596, 595, 593, 592, 591, 589,
     588, 586, 585, 584, 582, 581, 580, 579, 577, 576, 575, 574, 573, 572, 570, 569, 568, 567,
     566, 565, 564, 563, 562, 561, 560, 559, 558, 557, 556, 555, 554, 553, 552, 551, 550, 549,
     548, 547, 547, 546, 545, 544, 543, 542, 541, 540, 540, 539, 538, 537, 536, 536, 535, 534,
     533, 532, 532, 531, 530, 529, 528, 528, 527, 526, 525, 525, 524, 523, 522, 522, 521, 520,
     520, 519]"

definition Bls12381G2MultiExpDiscountTable :: "u64 list" where
  "Bls12381G2MultiExpDiscountTable = [
     1000, 1000, 923, 884, 855, 832, 812, 796, 782, 770, 759, 749, 740, 732, 724, 717, 711,
     704, 699, 693, 688, 683, 679, 674, 670, 666, 663, 659, 655, 652, 649, 646, 643, 640, 637,
     634, 632, 629, 627, 624, 622, 620, 618, 615, 613, 611, 609, 607, 606, 604, 602, 600, 598,
     597, 595, 593, 592, 590, 589, 587, 586, 584, 583, 582, 580, 579, 578, 576, 575, 574, 573,
     571, 570, 569, 568, 567, 566, 565, 563, 562, 561, 560, 559, 558, 557, 556, 555, 554, 553,
     552, 552, 551, 550, 549, 548, 547, 546, 545, 545, 544, 543, 542, 541, 541, 540, 539, 538,
     537, 537, 536, 535, 535, 534, 533, 532, 532, 531, 530, 530, 529, 528, 528, 527, 526, 526,
     525, 524, 524]"

definition bls12381G1MultiExp_RequiredGas :: "bytes \<Rightarrow> u64" where
  "bls12381G1MultiExp_RequiredGas input =
     (let k = length input div 160
      in if k = 0 then 0
         else
           (let dLen = length Bls12381G1MultiExpDiscountTable;
                discount = (if k < dLen then Bls12381G1MultiExpDiscountTable ! (k - 1)
                            else Bls12381G1MultiExpDiscountTable ! (dLen - 1))
            in of_nat k * 12000 * discount div 1000))"

definition bls12381G2MultiExp_RequiredGas :: "bytes \<Rightarrow> u64" where
  "bls12381G2MultiExp_RequiredGas input =
     (let k = length input div 288
      in if k = 0 then 0
         else
           (let dLen = length Bls12381G2MultiExpDiscountTable;
                discount = (if k < dLen then Bls12381G2MultiExpDiscountTable ! (k - 1)
                            else Bls12381G2MultiExpDiscountTable ! (dLen - 1))
            in of_nat k * 22500 * discount div 1000))"

definition bls12381Pairing_RequiredGas :: "bytes \<Rightarrow> u64" where
  "bls12381Pairing_RequiredGas input = 37700 + of_nat (length input div 384) * 32600"

section \<open>Execution\<close>

definition bls12381G1Add_Run :: "('bfp, 'fr) bls12381 \<Rightarrow> bytes \<Rightarrow> precompile_error + bytes" where
  "bls12381G1Add_Run B input =
     (if length input \<noteq> 256 then Inl ErrBLS12381InvalidInputLength
      else
        ebind (decodePointG1 B (take 128 input)) (\<lambda>p0.
        ebind (decodePointG1 B (drop 128 input)) (\<lambda>p1.
        Inr (encodePointG1 B (bls_G1_Add B p0 p1)))))"

text \<open>The decoding loops: \<open>k\<close> rounds left, at offset \<open>off\<close>.\<close>

primrec decode_msm_G1 ::
  "('bfp, 'fr) bls12381 \<Rightarrow> bytes \<Rightarrow> nat \<Rightarrow> nat \<Rightarrow> precompile_error + ('bfp G1 \<times> 'fr) list" where
  "decode_msm_G1 B input 0 off = Inr []"
| "decode_msm_G1 B input (Suc k) off =
     ebind (decodePointG1 B (slice input off (off + 128))) (\<lambda>p.
     if \<not> bls_G1_IsInSubGroup B p then Inl ErrBLS12381G1PointSubgroup
     else
       ebind (decode_msm_G1 B input k (off + 160)) (\<lambda>rest.
       Inr ((p, bls_fr_SetBytes B (slice input (off + 128) (off + 160))) # rest)))"

definition bls12381G1MultiExp_Run :: "('bfp, 'fr) bls12381 \<Rightarrow> bytes \<Rightarrow> precompile_error + bytes" where
  "bls12381G1MultiExp_Run B input =
     (let k = length input div 160
      in if length input = 0 \<or> length input mod 160 \<noteq> 0 then Inl ErrBLS12381InvalidInputLength
         else
           ebind (decode_msm_G1 B input k 0) (\<lambda>ps.
           Inr (encodePointG1 B (bls_G1_MultiExp B (map fst ps) (map snd ps)))))"

definition bls12381G2Add_Run :: "('bfp, 'fr) bls12381 \<Rightarrow> bytes \<Rightarrow> precompile_error + bytes" where
  "bls12381G2Add_Run B input =
     (if length input \<noteq> 512 then Inl ErrBLS12381InvalidInputLength
      else
        ebind (decodePointG2 B (take 256 input)) (\<lambda>p0.
        ebind (decodePointG2 B (drop 256 input)) (\<lambda>p1.
        Inr (encodePointG2 B (bls_G2_Add B p0 p1)))))"

primrec decode_msm_G2 ::
  "('bfp, 'fr) bls12381 \<Rightarrow> bytes \<Rightarrow> nat \<Rightarrow> nat \<Rightarrow> precompile_error + ('bfp G2 \<times> 'fr) list" where
  "decode_msm_G2 B input 0 off = Inr []"
| "decode_msm_G2 B input (Suc k) off =
     ebind (decodePointG2 B (slice input off (off + 256))) (\<lambda>p.
     if \<not> bls_G2_IsInSubGroup B p then Inl ErrBLS12381G2PointSubgroup
     else
       ebind (decode_msm_G2 B input k (off + 288)) (\<lambda>rest.
       Inr ((p, bls_fr_SetBytes B (slice input (off + 256) (off + 288))) # rest)))"

definition bls12381G2MultiExp_Run :: "('bfp, 'fr) bls12381 \<Rightarrow> bytes \<Rightarrow> precompile_error + bytes" where
  "bls12381G2MultiExp_Run B input =
     (let k = length input div 288
      in if length input = 0 \<or> length input mod 288 \<noteq> 0 then Inl ErrBLS12381InvalidInputLength
         else
           ebind (decode_msm_G2 B input k 0) (\<lambda>ps.
           Inr (encodePointG2 B (bls_G2_MultiExp B (map fst ps) (map snd ps)))))"

primrec decode_bls_pairs ::
  "('bfp, 'fr) bls12381 \<Rightarrow> bytes \<Rightarrow> nat \<Rightarrow> nat \<Rightarrow> precompile_error + ('bfp G1 \<times> 'bfp G2) list" where
  "decode_bls_pairs B input 0 off = Inr []"
| "decode_bls_pairs B input (Suc k) off =
     ebind (decodePointG1 B (slice input off (off + 128))) (\<lambda>p1.
     ebind (decodePointG2 B (slice input (off + 128) (off + 384))) (\<lambda>p2.
     if \<not> bls_G1_IsInSubGroup B p1 then Inl ErrBLS12381G1PointSubgroup
     else if \<not> bls_G2_IsInSubGroup B p2 then Inl ErrBLS12381G2PointSubgroup
     else ebind (decode_bls_pairs B input k (off + 384)) (\<lambda>rest. Inr ((p1, p2) # rest))))"

definition bls12381Pairing_Run :: "('bfp, 'fr) bls12381 \<Rightarrow> bytes \<Rightarrow> precompile_error + bytes" where
  "bls12381Pairing_Run B input =
     (let k = length input div 384
      in if length input = 0 \<or> length input mod 384 \<noteq> 0 then Inl ErrBLS12381InvalidInputLength
         else
           ebind (decode_bls_pairs B input k 0) (\<lambda>ps.
           let out = replicate 32 0
           in Inr (if bls_PairingCheck B (map fst ps) (map snd ps) = Inr True then out[31 := 1] else out)))"

definition bls12381MapG1_Run :: "('bfp, 'fr) bls12381 \<Rightarrow> bytes \<Rightarrow> precompile_error + bytes" where
  "bls12381MapG1_Run B input =
     (if length input \<noteq> 64 then Inl ErrBLS12381InvalidInputLength
      else
        ebind (decodeBLS12381FieldElement B input) (\<lambda>fe.
        Inr (encodePointG1 B (bls_MapToG1 B fe))))"

definition bls12381MapG2_Run :: "('bfp, 'fr) bls12381 \<Rightarrow> bytes \<Rightarrow> precompile_error + bytes" where
  "bls12381MapG2_Run B input =
     (if length input \<noteq> 128 then Inl ErrBLS12381InvalidInputLength
      else
        ebind (decodeBLS12381FieldElement B (take 64 input)) (\<lambda>c0.
        ebind (decodeBLS12381FieldElement B (drop 64 input)) (\<lambda>c1.
        Inr (encodePointG2 B (bls_MapToG2 B (c0, c1))))))"

end
