(* ===== verification/Chain_Config.thy ===== *)
theory Chain_Config
  imports Chain_Types
begin

text \<open>
  The chain configuration and the fork rules it gives for a block (\<^verbatim>\<open>src/go-ethereum/params/config.go\<close>,
  \<^verbatim>\<open>params/forks/forks.go\<close>). Fields that may be nil are options; block numbers are natural numbers.
\<close>

section \<open>Data\<close>

record BlobConfig =
  bc_Target :: int
  bc_Max :: int
  bc_UpdateFraction :: u64

record BlobScheduleConfig =
  bs_Cancun :: "BlobConfig option"
  bs_Prague :: "BlobConfig option"
  bs_Osaka :: "BlobConfig option"
  bs_Verkle :: "BlobConfig option"
  bs_BPO1 :: "BlobConfig option"
  bs_BPO2 :: "BlobConfig option"
  bs_BPO3 :: "BlobConfig option"
  bs_BPO4 :: "BlobConfig option"
  bs_BPO5 :: "BlobConfig option"
  bs_Amsterdam :: "BlobConfig option"

record ChainConfig =
  cc_ChainID :: "nat option"
  HomesteadBlock :: "nat option"
  DAOForkBlock :: "nat option"
  DAOForkSupport :: bool
  EIP150Block :: "nat option"
  EIP155Block :: "nat option"
  EIP158Block :: "nat option"
  ByzantiumBlock :: "nat option"
  ConstantinopleBlock :: "nat option"
  PetersburgBlock :: "nat option"
  IstanbulBlock :: "nat option"
  MuirGlacierBlock :: "nat option"
  BerlinBlock :: "nat option"
  LondonBlock :: "nat option"
  ArrowGlacierBlock :: "nat option"
  GrayGlacierBlock :: "nat option"
  MergeNetsplitBlock :: "nat option"
  ShanghaiTime :: "u64 option"
  CancunTime :: "u64 option"
  PragueTime :: "u64 option"
  OsakaTime :: "u64 option"
  BPO1Time :: "u64 option"
  BPO2Time :: "u64 option"
  BPO3Time :: "u64 option"
  BPO4Time :: "u64 option"
  BPO5Time :: "u64 option"
  AmsterdamTime :: "u64 option"
  VerkleTime :: "u64 option"
  TerminalTotalDifficulty :: "nat option"
  EnableVerkleAtGenesis :: bool
  cc_BlobScheduleConfig :: "BlobScheduleConfig option"

record Rules =
  IsHomestead :: bool
  IsEIP150 :: bool
  IsEIP155 :: bool
  IsEIP158 :: bool
  IsEIP2929 :: bool
  IsEIP4762 :: bool
  IsByzantium :: bool
  IsConstantinople :: bool
  IsPetersburg :: bool
  IsIstanbul :: bool
  IsBerlin :: bool
  IsLondon :: bool
  IsMerge :: bool
  IsShanghai :: bool
  IsCancun :: bool
  IsPrague :: bool
  IsOsaka :: bool
  IsAmsterdam :: bool
  IsVerkle :: bool

text \<open>A configuration with no fork.\<close>

definition no_forks :: ChainConfig where
  "no_forks =
     \<lparr>cc_ChainID = Some 1, HomesteadBlock = None, DAOForkBlock = None, DAOForkSupport = False, EIP150Block = None, EIP155Block = None,
      EIP158Block = None, ByzantiumBlock = None, ConstantinopleBlock = None, PetersburgBlock = None, IstanbulBlock = None,
      MuirGlacierBlock = None, BerlinBlock = None, LondonBlock = None, ArrowGlacierBlock = None, GrayGlacierBlock = None,
      MergeNetsplitBlock = None, ShanghaiTime = None, CancunTime = None, PragueTime = None, OsakaTime = None, BPO1Time = None,
      BPO2Time = None, BPO3Time = None, BPO4Time = None, BPO5Time = None, AmsterdamTime = None, VerkleTime = None,
      TerminalTotalDifficulty = None, EnableVerkleAtGenesis = False, cc_BlobScheduleConfig = None\<rparr>"

lemma no_forks_sels [simp]:
  "LondonBlock no_forks = None" "ShanghaiTime no_forks = None" "CancunTime no_forks = None" "EIP158Block no_forks = None"
  by (simp_all add: no_forks_def)

section \<open>Active forks\<close>

definition isBlockForked :: "nat option \<Rightarrow> nat option \<Rightarrow> bool" where
  "isBlockForked s head = (case (s, head) of (Some a, Some b) \<Rightarrow> a \<le> b | _ \<Rightarrow> False)"

definition isTimestampForked :: "u64 option \<Rightarrow> u64 \<Rightarrow> bool" where
  "isTimestampForked s head = (case s of None \<Rightarrow> False | Some t \<Rightarrow> t \<le> head)"

definition cfg_IsHomestead :: "ChainConfig \<Rightarrow> nat option \<Rightarrow> bool" where
  "cfg_IsHomestead c num = isBlockForked (HomesteadBlock c) num"

definition cfg_IsDAOFork :: "ChainConfig \<Rightarrow> nat option \<Rightarrow> bool" where
  "cfg_IsDAOFork c num = isBlockForked (DAOForkBlock c) num"

definition cfg_IsEIP150 :: "ChainConfig \<Rightarrow> nat option \<Rightarrow> bool" where
  "cfg_IsEIP150 c num = isBlockForked (EIP150Block c) num"

definition cfg_IsEIP155 :: "ChainConfig \<Rightarrow> nat option \<Rightarrow> bool" where
  "cfg_IsEIP155 c num = isBlockForked (EIP155Block c) num"

definition cfg_IsEIP158 :: "ChainConfig \<Rightarrow> nat option \<Rightarrow> bool" where
  "cfg_IsEIP158 c num = isBlockForked (EIP158Block c) num"

definition cfg_IsByzantium :: "ChainConfig \<Rightarrow> nat option \<Rightarrow> bool" where
  "cfg_IsByzantium c num = isBlockForked (ByzantiumBlock c) num"

definition cfg_IsConstantinople :: "ChainConfig \<Rightarrow> nat option \<Rightarrow> bool" where
  "cfg_IsConstantinople c num = isBlockForked (ConstantinopleBlock c) num"

definition cfg_IsMuirGlacier :: "ChainConfig \<Rightarrow> nat option \<Rightarrow> bool" where
  "cfg_IsMuirGlacier c num = isBlockForked (MuirGlacierBlock c) num"

definition cfg_IsPetersburg :: "ChainConfig \<Rightarrow> nat option \<Rightarrow> bool" where
  "cfg_IsPetersburg c num \<longleftrightarrow>
     isBlockForked (PetersburgBlock c) num \<or> PetersburgBlock c = None \<and> isBlockForked (ConstantinopleBlock c) num"

definition cfg_IsIstanbul :: "ChainConfig \<Rightarrow> nat option \<Rightarrow> bool" where
  "cfg_IsIstanbul c num = isBlockForked (IstanbulBlock c) num"

definition cfg_IsBerlin :: "ChainConfig \<Rightarrow> nat option \<Rightarrow> bool" where
  "cfg_IsBerlin c num = isBlockForked (BerlinBlock c) num"

definition cfg_IsLondon :: "ChainConfig \<Rightarrow> nat option \<Rightarrow> bool" where
  "cfg_IsLondon c num = isBlockForked (LondonBlock c) num"

definition cfg_IsArrowGlacier :: "ChainConfig \<Rightarrow> nat option \<Rightarrow> bool" where
  "cfg_IsArrowGlacier c num = isBlockForked (ArrowGlacierBlock c) num"

definition cfg_IsGrayGlacier :: "ChainConfig \<Rightarrow> nat option \<Rightarrow> bool" where
  "cfg_IsGrayGlacier c num = isBlockForked (GrayGlacierBlock c) num"

definition cfg_IsTerminalPoWBlock :: "ChainConfig \<Rightarrow> nat \<Rightarrow> nat \<Rightarrow> bool" where
  "cfg_IsTerminalPoWBlock c parentTotalDiff totalDiff =
     (case TerminalTotalDifficulty c of None \<Rightarrow> False | Some ttd \<Rightarrow> parentTotalDiff < ttd \<and> ttd \<le> totalDiff)"

definition cfg_IsPostMerge :: "ChainConfig \<Rightarrow> u64 \<Rightarrow> u64 \<Rightarrow> bool" where
  "cfg_IsPostMerge c blockNum timestamp \<longleftrightarrow>
     TerminalTotalDifficulty c = Some 0 \<or>
     (case MergeNetsplitBlock c of None \<Rightarrow> False | Some b \<Rightarrow> of_nat b \<le> blockNum) \<or>
     (case ShanghaiTime c of None \<Rightarrow> False | Some t \<Rightarrow> t \<le> timestamp)"

text \<open>The forks that are scheduled by time; each of them also needs London.\<close>

definition time_fork :: "(ChainConfig \<Rightarrow> u64 option) \<Rightarrow> ChainConfig \<Rightarrow> nat option \<Rightarrow> u64 \<Rightarrow> bool" where
  "time_fork fld c num time \<longleftrightarrow> cfg_IsLondon c num \<and> isTimestampForked (fld c) time"

definition cfg_IsShanghai :: "ChainConfig \<Rightarrow> nat option \<Rightarrow> u64 \<Rightarrow> bool" where
  "cfg_IsShanghai = time_fork ShanghaiTime"

definition cfg_IsCancun :: "ChainConfig \<Rightarrow> nat option \<Rightarrow> u64 \<Rightarrow> bool" where
  "cfg_IsCancun = time_fork CancunTime"

definition cfg_IsPrague :: "ChainConfig \<Rightarrow> nat option \<Rightarrow> u64 \<Rightarrow> bool" where
  "cfg_IsPrague = time_fork PragueTime"

definition cfg_IsOsaka :: "ChainConfig \<Rightarrow> nat option \<Rightarrow> u64 \<Rightarrow> bool" where
  "cfg_IsOsaka = time_fork OsakaTime"

definition cfg_IsBPO1 :: "ChainConfig \<Rightarrow> nat option \<Rightarrow> u64 \<Rightarrow> bool" where
  "cfg_IsBPO1 = time_fork BPO1Time"

definition cfg_IsBPO2 :: "ChainConfig \<Rightarrow> nat option \<Rightarrow> u64 \<Rightarrow> bool" where
  "cfg_IsBPO2 = time_fork BPO2Time"

definition cfg_IsBPO3 :: "ChainConfig \<Rightarrow> nat option \<Rightarrow> u64 \<Rightarrow> bool" where
  "cfg_IsBPO3 = time_fork BPO3Time"

definition cfg_IsBPO4 :: "ChainConfig \<Rightarrow> nat option \<Rightarrow> u64 \<Rightarrow> bool" where
  "cfg_IsBPO4 = time_fork BPO4Time"

definition cfg_IsBPO5 :: "ChainConfig \<Rightarrow> nat option \<Rightarrow> u64 \<Rightarrow> bool" where
  "cfg_IsBPO5 = time_fork BPO5Time"

definition cfg_IsAmsterdam :: "ChainConfig \<Rightarrow> nat option \<Rightarrow> u64 \<Rightarrow> bool" where
  "cfg_IsAmsterdam = time_fork AmsterdamTime"

definition cfg_IsVerkle :: "ChainConfig \<Rightarrow> nat option \<Rightarrow> u64 \<Rightarrow> bool" where
  "cfg_IsVerkle = time_fork VerkleTime"

definition cfg_IsEIP4762 :: "ChainConfig \<Rightarrow> nat option \<Rightarrow> u64 \<Rightarrow> bool" where
  "cfg_IsEIP4762 c num time = cfg_IsVerkle c num time"

definition cfg_Rules :: "ChainConfig \<Rightarrow> nat option \<Rightarrow> bool \<Rightarrow> u64 \<Rightarrow> Rules" where
  "cfg_Rules c num isMerge timestamp =
     (let isMerge = (isMerge \<and> cfg_IsLondon c num);
          isVerkle = (isMerge \<and> cfg_IsVerkle c num timestamp)
      in \<lparr>IsHomestead = cfg_IsHomestead c num,
          IsEIP150 = cfg_IsEIP150 c num,
          IsEIP155 = cfg_IsEIP155 c num,
          IsEIP158 = cfg_IsEIP158 c num,
          IsEIP2929 = (cfg_IsBerlin c num \<and> \<not> isVerkle),
          IsEIP4762 = isVerkle,
          IsByzantium = cfg_IsByzantium c num,
          IsConstantinople = cfg_IsConstantinople c num,
          IsPetersburg = cfg_IsPetersburg c num,
          IsIstanbul = cfg_IsIstanbul c num,
          IsBerlin = cfg_IsBerlin c num,
          IsLondon = cfg_IsLondon c num,
          IsMerge = isMerge,
          IsShanghai = (isMerge \<and> cfg_IsShanghai c num timestamp),
          IsCancun = (isMerge \<and> cfg_IsCancun c num timestamp),
          IsPrague = (isMerge \<and> cfg_IsPrague c num timestamp),
          IsOsaka = (isMerge \<and> cfg_IsOsaka c num timestamp),
          IsAmsterdam = (isMerge \<and> cfg_IsAmsterdam c num timestamp),
          IsVerkle = isVerkle\<rparr>)"

lemmas block_fork_defs = cfg_IsHomestead_def cfg_IsDAOFork_def cfg_IsEIP150_def cfg_IsEIP155_def cfg_IsEIP158_def cfg_IsByzantium_def
  cfg_IsConstantinople_def cfg_IsMuirGlacier_def cfg_IsPetersburg_def cfg_IsIstanbul_def cfg_IsBerlin_def cfg_IsLondon_def
  cfg_IsArrowGlacier_def cfg_IsGrayGlacier_def

lemmas time_fork_defs = cfg_IsShanghai_def cfg_IsCancun_def cfg_IsPrague_def cfg_IsOsaka_def cfg_IsBPO1_def cfg_IsBPO2_def
  cfg_IsBPO3_def cfg_IsBPO4_def cfg_IsBPO5_def cfg_IsAmsterdam_def cfg_IsVerkle_def time_fork_def

section \<open>The latest fork\<close>

datatype Fork =
  Frontier | FrontierThawing | Homestead | DAO | TangerineWhistle | SpuriousDragon | Byzantium | Constantinople | Petersburg
  | Istanbul | MuirGlacier | Berlin | London | ArrowGlacier | GrayGlacier | Paris | Shanghai | Cancun | Prague | Osaka
  | BPO1 | BPO2 | BPO3 | BPO4 | BPO5 | Amsterdam

definition LatestFork :: "ChainConfig \<Rightarrow> u64 \<Rightarrow> Fork" where
  "LatestFork c time =
     (let london = LondonBlock c
      in if cfg_IsAmsterdam c london time then Amsterdam
         else if cfg_IsBPO5 c london time then BPO5
         else if cfg_IsBPO4 c london time then BPO4
         else if cfg_IsBPO3 c london time then BPO3
         else if cfg_IsBPO2 c london time then BPO2
         else if cfg_IsBPO1 c london time then BPO1
         else if cfg_IsOsaka c london time then Osaka
         else if cfg_IsPrague c london time then Prague
         else if cfg_IsCancun c london time then Cancun
         else if cfg_IsShanghai c london time then Shanghai
         else Paris)"

text \<open>A nil schedule is dereferenced for every fork that has an entry: \<open>None\<close> is the panic.\<close>

definition cfg_BlobConfig :: "ChainConfig \<Rightarrow> Fork \<Rightarrow> BlobConfig option option" where
  "cfg_BlobConfig c f =
     (let entry = (\<lambda>fld. map_option fld (cc_BlobScheduleConfig c))
      in case f of
           BPO5 \<Rightarrow> entry bs_BPO5
         | BPO4 \<Rightarrow> entry bs_BPO4
         | BPO3 \<Rightarrow> entry bs_BPO3
         | BPO2 \<Rightarrow> entry bs_BPO2
         | BPO1 \<Rightarrow> entry bs_BPO1
         | Osaka \<Rightarrow> entry bs_Osaka
         | Prague \<Rightarrow> entry bs_Prague
         | Cancun \<Rightarrow> entry bs_Cancun
         | _ \<Rightarrow> Some None)"

definition cfg_Timestamp :: "ChainConfig \<Rightarrow> Fork \<Rightarrow> u64 option" where
  "cfg_Timestamp c f =
     (case f of
        BPO5 \<Rightarrow> BPO5Time c
      | BPO4 \<Rightarrow> BPO4Time c
      | BPO3 \<Rightarrow> BPO3Time c
      | BPO2 \<Rightarrow> BPO2Time c
      | BPO1 \<Rightarrow> BPO1Time c
      | Osaka \<Rightarrow> OsakaTime c
      | Prague \<Rightarrow> PragueTime c
      | Cancun \<Rightarrow> CancunTime c
      | Shanghai \<Rightarrow> ShanghaiTime c
      | _ \<Rightarrow> None)"

end
