(* ===== verification/Precompiles.thy ===== *)
theory Precompiles
  imports Bls12381 Chain_Config
begin

text \<open>
  The precompiled contracts of \<^verbatim>\<open>src/go-ethereum/core/vm/contracts.go\<close>: gas and
  execution of each, the tables of every fork with the Groth16 contract at address 0x20, and the
  dispatcher \<open>RunPrecompiledContract\<close>. Hash functions, curve recovery, BLAKE2b rounds, KZG and
  secp256r1 verification are parameters (\<open>crypto_libs\<close>), beside the two curve libraries. A run returns \<open>None\<close> when the Go code panics on slice bounds.
\<close>

record ('fp, 'bfp, 'fr) crypto_libs =
  bn254 :: "'fp gnark"
  bls :: "('bfp, 'fr) bls12381"
  Sum256 :: "bytes \<Rightarrow> bytes"
  ripemd160_Sum :: "bytes \<Rightarrow> bytes"
  vmKeccak256 :: "bytes \<Rightarrow> bytes"
  Ecrecover :: "bytes \<Rightarrow> bytes \<Rightarrow> string + bytes"
  blake2b_F :: "u64 list \<Rightarrow> u64 list \<Rightarrow> u64 list \<Rightarrow> bool \<Rightarrow> 32 word \<Rightarrow> u64 list"
  kzg_VerifyProof :: "bytes \<Rightarrow> bytes \<Rightarrow> bytes \<Rightarrow> bytes \<Rightarrow> string option"
  secp256r1_Verify :: "bytes \<Rightarrow> nat \<Rightarrow> nat \<Rightarrow> nat \<Rightarrow> nat \<Rightarrow> bool"

type_synonym run_result = "(precompile_error + bytes) option"

section \<open>Hashes, recovery and copying\<close>

definition EcrecoverGas :: u64 where
  "EcrecoverGas = 3000"

text \<open>\<open>secp256k1N\<close>, the order of the curve group, and \<open>ValidateSignatureValues\<close>.\<close>

definition secp256k1N :: nat where
  "secp256k1N = 0xfffffffffffffffffffffffffffffffebaaedce6af48a03bbfd25e8cd0364141"

definition ValidateSignatureValues :: "byte \<Rightarrow> nat \<Rightarrow> nat \<Rightarrow> bool \<Rightarrow> bool" where
  "ValidateSignatureValues v r s homestead =
     (if r < 1 \<or> s < 1 then False
      else if homestead \<and> s > secp256k1N div 2 then False
      else r < secp256k1N \<and> s < secp256k1N \<and> (v = 0 \<or> v = 1))"

text \<open>\<open>nil, nil\<close> is the empty output.\<close>

definition ecrecover_Run :: "('fp, 'bfp, 'fr) crypto_libs \<Rightarrow> bytes \<Rightarrow> run_result" where
  "ecrecover_Run C input0 =
     (let input = RightPadBytes input0 128;
          r = be_nat (slice input 64 96);
          s = be_nat (slice input 96 128);
          v = input ! 63 - 27
      in if TestBytes (slice input 32 63) \<or> \<not> ValidateSignatureValues v r s False then Some (Inr [])
         else
           (case Ecrecover C (slice input 0 32) (slice input 64 128 @ [v]) of
              Inl err \<Rightarrow> Some (Inr [])
            | Inr pubKey \<Rightarrow> Some (Inr (LeftPadBytes (drop 12 (vmKeccak256 C (drop 1 pubKey))) 32))))"

definition sha256hash_RequiredGas :: "bytes \<Rightarrow> u64" where
  "sha256hash_RequiredGas input = of_nat (length input + 31) div 32 * 12 + 60"

definition sha256hash_Run :: "('fp, 'bfp, 'fr) crypto_libs \<Rightarrow> bytes \<Rightarrow> run_result" where
  "sha256hash_Run C input = Some (Inr (Sum256 C input))"

definition ripemd160hash_RequiredGas :: "bytes \<Rightarrow> u64" where
  "ripemd160hash_RequiredGas input = of_nat (length input + 31) div 32 * 120 + 600"

definition ripemd160hash_Run :: "('fp, 'bfp, 'fr) crypto_libs \<Rightarrow> bytes \<Rightarrow> run_result" where
  "ripemd160hash_Run C input = Some (Inr (LeftPadBytes (ripemd160_Sum C input) 32))"

definition dataCopy_RequiredGas :: "bytes \<Rightarrow> u64" where
  "dataCopy_RequiredGas input = of_nat (length input + 31) div 32 * 3 + 15"

definition dataCopy_Run :: "bytes \<Rightarrow> run_result" where
  "dataCopy_Run input = Some (Inr (copy_at (replicate (length input) 0) 0 input))"

section \<open>Modular exponentiation\<close>

definition byzantiumMultComplexity :: "u64 \<Rightarrow> u64" where
  "byzantiumMultComplexity x =
     (if x \<le> 64 then x * x
      else if x \<le> 1024 then x * x div 4 + 96 * x - 3072
      else
        (case Mul64 x x of
           (carry, xSqr) \<Rightarrow>
             if carry \<noteq> 0 then MaxUint64
             else
               (let xSqr = xSqr div 16;
                    x480 = x * 480;
                    x480 = x480 - 199680
                in (case Add64 xSqr x480 of
                      (tot, carry) \<Rightarrow> if carry \<noteq> 0 then MaxUint64 else tot))))"

definition berlinMultComplexity :: "u64 \<Rightarrow> u64" where
  "berlinMultComplexity x =
     (case Add64 x 7 of
        (x, carry) \<Rightarrow>
          if carry \<noteq> 0 then MaxUint64
          else
            (let x = x div 8
             in (case Mul64 x x of (carry, x) \<Rightarrow> if carry \<noteq> 0 then MaxUint64 else x)))"

definition osakaMultComplexity :: "u64 \<Rightarrow> u64" where
  "osakaMultComplexity x =
     (if x \<le> 32 then 16
      else
        (let result = berlinMultComplexity x
         in (case Mul64 result 2 of (carry, result) \<Rightarrow> if carry \<noteq> 0 then MaxUint64 else result)))"

text \<open>\<open>BitLen\<close> of a non-negative number.\<close>

fun BitLen :: "nat \<Rightarrow> nat" where
  "BitLen x = (if x = 0 then 0 else Suc (BitLen (x div 2)))"

declare BitLen.simps [simp del]

definition modexpIterationCount :: "u64 \<Rightarrow> nat \<Rightarrow> u64 \<Rightarrow> u64" where
  "modexpIterationCount expLen expHead multiplier =
     (let r = (if expLen > 32
               then (case Mul64 (expLen - 32) multiplier of
                       (carry, count) \<Rightarrow> if carry > 0 then None else Some count)
               else Some 0)
      in case r of
           None \<Rightarrow> MaxUint64
         | Some iterationCount \<Rightarrow>
             (let bitLen = BitLen expHead
              in if bitLen > 0
                 then (case Add64 iterationCount (of_nat (bitLen - 1)) of
                         (count, carry) \<Rightarrow> if carry > 0 then MaxUint64 else max count 1)
                 else max iterationCount 1))"

definition byzantiumModexpGas :: "u64 \<Rightarrow> u64 \<Rightarrow> u64 \<Rightarrow> nat \<Rightarrow> u64" where
  "byzantiumModexpGas baseLen expLen modLen expHead =
     (let maxLen = max baseLen modLen;
          multComplexity = byzantiumMultComplexity maxLen
      in if multComplexity = MaxUint64 then MaxUint64
         else
           (let iterationCount = modexpIterationCount expLen expHead 8
            in (case Mul64 iterationCount multComplexity of
                  (carry, gas) \<Rightarrow> if carry \<noteq> 0 then MaxUint64 else gas div 20)))"

definition berlinModexpGas :: "u64 \<Rightarrow> u64 \<Rightarrow> u64 \<Rightarrow> nat \<Rightarrow> u64" where
  "berlinModexpGas baseLen expLen modLen expHead =
     (let maxLen = max baseLen modLen;
          multComplexity = berlinMultComplexity maxLen
      in if multComplexity = MaxUint64 then MaxUint64
         else
           (let iterationCount = modexpIterationCount expLen expHead 8
            in (case Mul64 iterationCount multComplexity of
                  (carry, gas) \<Rightarrow> if carry \<noteq> 0 then MaxUint64 else max (gas div 3) 200)))"

definition osakaModexpGas :: "u64 \<Rightarrow> u64 \<Rightarrow> u64 \<Rightarrow> nat \<Rightarrow> u64" where
  "osakaModexpGas baseLen expLen modLen expHead =
     (let maxLen = max baseLen modLen;
          multComplexity = osakaMultComplexity maxLen
      in if multComplexity = MaxUint64 then MaxUint64
         else
           (let iterationCount = modexpIterationCount expLen expHead 16
            in (case Mul64 iterationCount multComplexity of
                  (carry, gas) \<Rightarrow> if carry \<noteq> 0 then MaxUint64 else max gas 500)))"

text \<open>The three lengths of the header; the header reads never wrap, so \<open>the\<close> is harmless here.\<close>

definition modexp_len :: "bytes \<Rightarrow> u64 \<Rightarrow> nat" where
  "modexp_len input start = be_nat (the (getData input start 32))"

definition cap64 :: "nat \<Rightarrow> u64" where
  "cap64 n = (if n < 2 ^ 64 then of_nat n else MaxUint64)"

definition modexp_body :: "bytes \<Rightarrow> bytes" where
  "modexp_body input = (if length input > 96 then drop 96 input else [])"

record bigModExp =
  eip2565 :: bool
  eip7823 :: bool
  eip7883 :: bool

definition bigModExp_RequiredGas :: "bigModExp \<Rightarrow> bytes \<Rightarrow> u64 option" where
  "bigModExp_RequiredGas c input0 =
     (let baseLen = cap64 (modexp_len input0 0);
          expLen = cap64 (modexp_len input0 32);
          modLen = cap64 (modexp_len input0 64);
          input = modexp_body input0;
          expHead = (if of_nat (length input) > baseLen
                     then map_option be_nat (getData input baseLen (if expLen > 32 then 32 else expLen))
                     else Some 0)
      in map_option (\<lambda>expHead.
           if eip7883 c then osakaModexpGas baseLen expLen modLen expHead
           else if eip2565 c then berlinModexpGas baseLen expLen modLen expHead
           else byzantiumModexpGas baseLen expLen modLen expHead) expHead)"

text \<open>
  \<open>Run\<close> takes the low 64 bits of each length. \<open>base.Exp\<close> is modular exponentiation, and a \<open>modLen\<close> of
  \<open>2 ^ 63\<close> or more converts to a negative \<open>int\<close>, which pads nothing.
\<close>

definition pad_int :: "bytes \<Rightarrow> u64 \<Rightarrow> bytes" where
  "pad_int v l = LeftPadBytes v (if sint l < 0 then 0 else unat l)"

definition bigModExp_Run :: "bigModExp \<Rightarrow> bytes \<Rightarrow> run_result" where
  "bigModExp_Run c input0 =
     (let baseLenBig = modexp_len input0 0;
          expLenBig = modexp_len input0 32;
          modLenBig = modexp_len input0 64;
          baseLen = (of_nat baseLenBig :: u64);
          expLen = (of_nat expLenBig :: u64);
          modLen = (of_nat modLenBig :: u64);
          inputLenOverflow = max (BitLen baseLenBig) (max (BitLen expLenBig) (BitLen modLenBig)) > 64;
          input = modexp_body input0
      in if eip7823 c \<and> (inputLenOverflow \<or> max baseLen (max expLen modLen) > 1024) then Some (Inl ErrModExpLength)
         else if baseLen = 0 \<and> modLen = 0 then Some (Inr [])
         else
           (case (getData input 0 baseLen, getData input baseLen expLen, getData input (baseLen + expLen) modLen) of
              (Some b, Some e, Some m) \<Rightarrow>
                (let base = be_nat b; exp = be_nat e; md = be_nat m
                 in if BitLen md = 0 then Some (Inr (pad_int [] modLen))
                    else if BitLen base = 1 then Some (Inr (pad_int (big_bytes (base mod md)) modLen))
                    else Some (Inr (pad_int (big_bytes (base ^ exp mod md)) modLen)))
            | _ \<Rightarrow> None))"

section \<open>bn256 operations\<close>

definition runBn256Add :: "('fp, 'bfp, 'fr) crypto_libs \<Rightarrow> bytes \<Rightarrow> run_result" where
  "runBn256Add C input =
     (case (getData input 0 64, getData input 64 64) of
        (Some bx, Some by) \<Rightarrow>
          Some (ebind (curve_point (bn254 C) bx) (\<lambda>x.
                ebind (curve_point (bn254 C) by) (\<lambda>y.
                Inr (G1_Marshal (bn254 C) (G1_Add (bn254 C) x y)))))
      | _ \<Rightarrow> None)"

definition runBn256ScalarMul :: "('fp, 'bfp, 'fr) crypto_libs \<Rightarrow> bytes \<Rightarrow> run_result" where
  "runBn256ScalarMul C input =
     (case (getData input 0 64, getData input 64 32) of
        (Some bp, Some bk) \<Rightarrow>
          Some (ebind (curve_point (bn254 C) bp) (\<lambda>p.
                Inr (G1_Marshal (bn254 C) (G1_ScalarMult (bn254 C) p (be_nat bk)))))
      | _ \<Rightarrow> None)"

text \<open>The loop over the 192-byte pairs; the length is a multiple of 192 here.\<close>

function parse_pairs :: "'fp gnark \<Rightarrow> bytes \<Rightarrow> nat \<Rightarrow> precompile_error + ('fp G1 \<times> 'fp G2) list" where
  "parse_pairs gn input i =
     (if i < length input then
        ebind (curve_point gn (slice input i (i + 64))) (\<lambda>c.
        ebind (twist_point gn (slice input (i + 64) (i + 192))) (\<lambda>t.
        ebind (parse_pairs gn input (i + 192)) (\<lambda>rest. Inr ((c, t) # rest))))
      else Inr [])"
  by pat_completeness auto
termination
  by (relation "measure (\<lambda>(gn, input, i). length input - i)") auto

declare parse_pairs.simps [simp del]

definition runBn256Pairing :: "('fp, 'bfp, 'fr) crypto_libs \<Rightarrow> bytes \<Rightarrow> run_result" where
  "runBn256Pairing C input =
     (if length input mod 192 > 0 then Some (Inl ErrBadPairingInput)
      else
        Some (ebind (parse_pairs (bn254 C) input 0) (\<lambda>pairs.
          if PairingCheck (bn254 C) (map fst pairs) (map snd pairs) then Inr true32Byte else Inr false32Byte)))"

definition bn256Pairing_RequiredGas :: "u64 \<Rightarrow> u64 \<Rightarrow> bytes \<Rightarrow> u64" where
  "bn256Pairing_RequiredGas base perPoint input = base + of_nat (length input div 192) * perPoint"

section \<open>BLAKE2b, KZG and secp256r1\<close>

definition le_u64 :: "bytes \<Rightarrow> u64" where
  "le_u64 bs = of_nat (be_nat (rev bs))"

definition put_le_u64 :: "u64 \<Rightarrow> bytes" where
  "put_le_u64 x = rev (be_bytes 8 (unat x))"

definition blake2F_RequiredGas :: "bytes \<Rightarrow> u64" where
  "blake2F_RequiredGas input =
     (if length input \<noteq> 213 then 0 else of_nat (be_nat (slice input 0 4)))"

definition blake2F_Run :: "('fp, 'bfp, 'fr) crypto_libs \<Rightarrow> bytes \<Rightarrow> run_result" where
  "blake2F_Run C input =
     (if length input \<noteq> 213 then Some (Inl ErrBlake2FInvalidInputLength)
      else if input ! 212 \<noteq> 0 \<and> input ! 212 \<noteq> 1 then Some (Inl ErrBlake2FInvalidFinalFlag)
      else
        (let rounds = (of_nat (be_nat (slice input 0 4)) :: 32 word);
             final = (input ! 212 = 1);
             h = map (\<lambda>i. le_u64 (slice input (4 + i * 8) (4 + i * 8 + 8))) [0..<8];
             m = map (\<lambda>i. le_u64 (slice input (68 + i * 8) (68 + i * 8 + 8))) [0..<16];
             t = [le_u64 (slice input 196 204), le_u64 (slice input 204 212)];
             h = blake2b_F C h m t final rounds
         in Some (Inr (concat (map put_le_u64 h)))))"

definition kZGToVersionedHash :: "('fp, 'bfp, 'fr) crypto_libs \<Rightarrow> bytes \<Rightarrow> bytes" where
  "kZGToVersionedHash C kzg = (Sum256 C kzg)[0 := 1]"

definition blobPrecompileReturnValue :: bytes where
  "blobPrecompileReturnValue = be_bytes 32 4096
     @ be_bytes 32 0x73eda753299d7d483339d80809a1d80553bda402fffe5bfeffffffff00000001"

definition kzgPointEvaluation_Run :: "('fp, 'bfp, 'fr) crypto_libs \<Rightarrow> bytes \<Rightarrow> run_result" where
  "kzgPointEvaluation_Run C input =
     (if length input \<noteq> 192 then Some (Inl ErrBlobVerifyInvalidInputLength)
      else
        (let versionedHash = slice input 0 32;
             point = slice input 32 64;
             claim = slice input 64 96;
             commitment = slice input 96 144
         in if kZGToVersionedHash C commitment \<noteq> versionedHash then Some (Inl ErrBlobVerifyMismatchedVersion)
            else
              (let proof = slice input 144 192
               in (case kzg_VerifyProof C commitment point claim proof of
                     Some err \<Rightarrow> Some (Inl (ErrBlobVerifyKZGProof err))
                   | None \<Rightarrow> Some (Inr blobPrecompileReturnValue)))))"

definition p256Verify_Run :: "('fp, 'bfp, 'fr) crypto_libs \<Rightarrow> bytes \<Rightarrow> run_result" where
  "p256Verify_Run C input =
     (if length input \<noteq> 160 then Some (Inr [])
      else if secp256r1_Verify C (slice input 0 32) (be_nat (slice input 32 64)) (be_nat (slice input 64 96))
                (be_nat (slice input 96 128)) (be_nat (slice input 128 160))
           then Some (Inr true32Byte)
           else Some (Inr []))"

section \<open>Contracts and forks\<close>

text \<open>The Go interface \<open>PrecompiledContract\<close>; \<open>None\<close> as gas is a panic in \<open>RequiredGas\<close>.\<close>

record PrecompiledContract =
  RequiredGas :: "bytes \<Rightarrow> u64 option"
  Run :: "bytes \<Rightarrow> run_result"
  Name :: string

datatype contract =
    ecrecover | sha256hash | ripemd160hash | dataCopy | modExp bigModExp
  | bn256AddByzantium | bn256AddIstanbul | bn256ScalarMulByzantium | bn256ScalarMulIstanbul
  | bn256PairingByzantium | bn256PairingIstanbul | blake2F | kzgPointEvaluation
  | bls12381G1Add | bls12381G1MultiExp | bls12381G2Add | bls12381G2MultiExp
  | bls12381Pairing | bls12381MapG1 | bls12381MapG2 | p256Verify | groth16Verify

text \<open>The interface value of each contract.\<close>

fun contract_of :: "('fp, 'bfp, 'fr) crypto_libs \<Rightarrow> contract \<Rightarrow> PrecompiledContract" where
  "contract_of C ecrecover = \<lparr>RequiredGas = (\<lambda>_. Some EcrecoverGas), Run = ecrecover_Run C, Name = ''ECREC''\<rparr>"
| "contract_of C sha256hash = \<lparr>RequiredGas = Some \<circ> sha256hash_RequiredGas, Run = sha256hash_Run C, Name = ''SHA256''\<rparr>"
| "contract_of C ripemd160hash = \<lparr>RequiredGas = Some \<circ> ripemd160hash_RequiredGas, Run = ripemd160hash_Run C, Name = ''RIPEMD160''\<rparr>"
| "contract_of C dataCopy = \<lparr>RequiredGas = Some \<circ> dataCopy_RequiredGas, Run = dataCopy_Run, Name = ''ID''\<rparr>"
| "contract_of C (modExp c) = \<lparr>RequiredGas = bigModExp_RequiredGas c, Run = bigModExp_Run c, Name = ''MODEXP''\<rparr>"
| "contract_of C bn256AddByzantium = \<lparr>RequiredGas = (\<lambda>_. Some 500), Run = runBn256Add C, Name = ''BN254_ADD''\<rparr>"
| "contract_of C bn256AddIstanbul = \<lparr>RequiredGas = (\<lambda>_. Some 150), Run = runBn256Add C, Name = ''BN254_ADD''\<rparr>"
| "contract_of C bn256ScalarMulByzantium = \<lparr>RequiredGas = (\<lambda>_. Some 40000), Run = runBn256ScalarMul C, Name = ''BN254_MUL''\<rparr>"
| "contract_of C bn256ScalarMulIstanbul = \<lparr>RequiredGas = (\<lambda>_. Some 6000), Run = runBn256ScalarMul C, Name = ''BN254_MUL''\<rparr>"
| "contract_of C bn256PairingByzantium = \<lparr>RequiredGas = Some \<circ> bn256Pairing_RequiredGas 100000 80000, Run = runBn256Pairing C, Name = ''BN254_PAIRING''\<rparr>"
| "contract_of C bn256PairingIstanbul = \<lparr>RequiredGas = Some \<circ> bn256Pairing_RequiredGas 45000 34000, Run = runBn256Pairing C, Name = ''BN254_PAIRING''\<rparr>"
| "contract_of C blake2F = \<lparr>RequiredGas = Some \<circ> blake2F_RequiredGas, Run = blake2F_Run C, Name = ''BLAKE2F''\<rparr>"
| "contract_of C kzgPointEvaluation = \<lparr>RequiredGas = (\<lambda>_. Some 50000), Run = kzgPointEvaluation_Run C, Name = ''KZG_POINT_EVALUATION''\<rparr>"
| "contract_of C p256Verify = \<lparr>RequiredGas = (\<lambda>_. Some 6900), Run = p256Verify_Run C, Name = ''P256VERIFY''\<rparr>"
| "contract_of C groth16Verify = \<lparr>RequiredGas = Some \<circ> groth16_RequiredGas, Run = Some \<circ> groth16_Run (bn254 C), Name = ''GROTH16_VERIFY''\<rparr>"
| "contract_of C bls12381G1Add = \<lparr>RequiredGas = (\<lambda>_. Some 375), Run = Some \<circ> bls12381G1Add_Run (bls C), Name = ''BLS12_G1ADD''\<rparr>"
| "contract_of C bls12381G1MultiExp = \<lparr>RequiredGas = Some \<circ> bls12381G1MultiExp_RequiredGas, Run = Some \<circ> bls12381G1MultiExp_Run (bls C), Name = ''BLS12_G1MSM''\<rparr>"
| "contract_of C bls12381G2Add = \<lparr>RequiredGas = (\<lambda>_. Some 600), Run = Some \<circ> bls12381G2Add_Run (bls C), Name = ''BLS12_G2ADD''\<rparr>"
| "contract_of C bls12381G2MultiExp = \<lparr>RequiredGas = Some \<circ> bls12381G2MultiExp_RequiredGas, Run = Some \<circ> bls12381G2MultiExp_Run (bls C), Name = ''BLS12_G2MSM''\<rparr>"
| "contract_of C bls12381Pairing = \<lparr>RequiredGas = Some \<circ> bls12381Pairing_RequiredGas, Run = Some \<circ> bls12381Pairing_Run (bls C), Name = ''BLS12_PAIRING_CHECK''\<rparr>"
| "contract_of C bls12381MapG1 = \<lparr>RequiredGas = (\<lambda>_. Some 5500), Run = Some \<circ> bls12381MapG1_Run (bls C), Name = ''BLS12_MAP_FP_TO_G1''\<rparr>"
| "contract_of C bls12381MapG2 = \<lparr>RequiredGas = (\<lambda>_. Some 23800), Run = Some \<circ> bls12381MapG2_Run (bls C), Name = ''BLS12_MAP_FP2_TO_G2''\<rparr>"

type_synonym contract_table = "(Address \<times> contract) list"

definition modExp_old :: contract where
  "modExp_old = modExp \<lparr>eip2565 = False, eip7823 = False, eip7883 = False\<rparr>"

definition modExp_berlin :: contract where
  "modExp_berlin = modExp \<lparr>eip2565 = True, eip7823 = False, eip7883 = False\<rparr>"

definition modExp_osaka :: contract where
  "modExp_osaka = modExp \<lparr>eip2565 = True, eip7823 = True, eip7883 = True\<rparr>"

definition PrecompiledContractsHomestead :: contract_table where
  "PrecompiledContractsHomestead = [(1, ecrecover), (2, sha256hash), (3, ripemd160hash), (4, dataCopy)]"

definition PrecompiledContractsByzantium :: contract_table where
  "PrecompiledContractsByzantium = [(1, ecrecover), (2, sha256hash), (3, ripemd160hash), (4, dataCopy),
     (5, modExp_old), (6, bn256AddByzantium), (7, bn256ScalarMulByzantium), (8, bn256PairingByzantium)]"

definition PrecompiledContractsIstanbul :: contract_table where
  "PrecompiledContractsIstanbul = [(1, ecrecover), (2, sha256hash), (3, ripemd160hash), (4, dataCopy),
     (5, modExp_old), (6, bn256AddIstanbul), (7, bn256ScalarMulIstanbul), (8, bn256PairingIstanbul), (9, blake2F)]"

definition PrecompiledContractsBerlin :: contract_table where
  "PrecompiledContractsBerlin = [(1, ecrecover), (2, sha256hash), (3, ripemd160hash), (4, dataCopy),
     (5, modExp_berlin), (6, bn256AddIstanbul), (7, bn256ScalarMulIstanbul), (8, bn256PairingIstanbul), (9, blake2F),
     (0x20, groth16Verify)]"

definition PrecompiledContractsCancun :: contract_table where
  "PrecompiledContractsCancun = [(1, ecrecover), (2, sha256hash), (3, ripemd160hash), (4, dataCopy),
     (5, modExp_berlin), (6, bn256AddIstanbul), (7, bn256ScalarMulIstanbul), (8, bn256PairingIstanbul), (9, blake2F),
     (0xa, kzgPointEvaluation), (0x20, groth16Verify)]"

definition PrecompiledContractsPrague :: contract_table where
  "PrecompiledContractsPrague = [(1, ecrecover), (2, sha256hash), (3, ripemd160hash), (4, dataCopy),
     (5, modExp_berlin), (6, bn256AddIstanbul), (7, bn256ScalarMulIstanbul), (8, bn256PairingIstanbul), (9, blake2F),
     (0xa, kzgPointEvaluation), (0xb, bls12381G1Add), (0xc, bls12381G1MultiExp), (0xd, bls12381G2Add),
     (0xe, bls12381G2MultiExp), (0xf, bls12381Pairing), (0x10, bls12381MapG1), (0x11, bls12381MapG2),
     (0x20, groth16Verify)]"

definition PrecompiledContractsVerkle :: contract_table where
  "PrecompiledContractsVerkle = PrecompiledContractsBerlin"

definition PrecompiledContractsOsaka :: contract_table where
  "PrecompiledContractsOsaka = [(1, ecrecover), (2, sha256hash), (3, ripemd160hash), (4, dataCopy),
     (5, modExp_osaka), (6, bn256AddIstanbul), (7, bn256ScalarMulIstanbul), (8, bn256PairingIstanbul), (9, blake2F),
     (0xa, kzgPointEvaluation), (0xb, bls12381G1Add), (0xc, bls12381G1MultiExp), (0xd, bls12381G2Add),
     (0xe, bls12381G2MultiExp), (0xf, bls12381Pairing), (0x10, bls12381MapG1), (0x11, bls12381MapG2),
     (0x100, p256Verify), (0x20, groth16Verify)]"

text \<open>
  \<open>init\<close> collects the keys of each table, in an order the language does not fix; only the set of
  addresses is used below.
\<close>

definition PrecompiledAddresses :: "contract_table \<Rightarrow> Address list" where
  "PrecompiledAddresses t = map fst t"

definition activePrecompiledContracts :: "Rules \<Rightarrow> contract_table" where
  "activePrecompiledContracts rules =
     (if IsVerkle rules then PrecompiledContractsVerkle
      else if IsOsaka rules then PrecompiledContractsOsaka
      else if IsPrague rules then PrecompiledContractsPrague
      else if IsCancun rules then PrecompiledContractsCancun
      else if IsBerlin rules then PrecompiledContractsBerlin
      else if IsIstanbul rules then PrecompiledContractsIstanbul
      else if IsByzantium rules then PrecompiledContractsByzantium
      else PrecompiledContractsHomestead)"

definition ActivePrecompiles :: "Rules \<Rightarrow> Address list" where
  "ActivePrecompiles rules =
     (if IsOsaka rules then PrecompiledAddresses PrecompiledContractsOsaka
      else if IsPrague rules then PrecompiledAddresses PrecompiledContractsPrague
      else if IsCancun rules then PrecompiledAddresses PrecompiledContractsCancun
      else if IsBerlin rules then PrecompiledAddresses PrecompiledContractsBerlin
      else if IsIstanbul rules then PrecompiledAddresses PrecompiledContractsIstanbul
      else if IsByzantium rules then PrecompiledAddresses PrecompiledContractsByzantium
      else PrecompiledAddresses PrecompiledContractsHomestead)"

text \<open>
  \<open>RunPrecompiledContract\<close>: the result is the output or error and the remaining gas. The state touch
  and the tracing hook return nothing and are left out.
\<close>

definition RunPrecompiledContract ::
  "PrecompiledContract \<Rightarrow> bytes \<Rightarrow> u64 \<Rightarrow> ((precompile_error + bytes) \<times> u64) option" where
  "RunPrecompiledContract p input suppliedGas =
     (case RequiredGas p input of
        None \<Rightarrow> None
      | Some gasCost \<Rightarrow>
          if suppliedGas < gasCost then Some (Inl ErrOutOfGas, 0)
          else
            (let suppliedGas = suppliedGas - gasCost
             in (case Run p input of None \<Rightarrow> None | Some r \<Rightarrow> Some (r, suppliedGas))))"

end
