(* ===== verification/Precompiles_Correct.thy ===== *)
theory Precompiles_Correct
  imports Precompiles Groth16_Correct
begin

text \<open>
  Correctness of the precompile layer: the carry-checked gas arithmetic of modular exponentiation
  against its formula, the contract of the Go interface (a run that has been paid for does not
  panic) for every contract of every fork, gas accounting of the dispatcher, and at which forks
  the Groth16 contract is reachable.
\<close>

section \<open>Complexities\<close>


definition eip2565_complexity :: "nat \<Rightarrow> nat" where
  "eip2565_complexity x = ((x + 7) div 8) ^ 2"


definition iteration_count :: "nat \<Rightarrow> nat \<Rightarrow> nat \<Rightarrow> nat" where
  "iteration_count multiplier expLen expHead = max 1 (multiplier * (expLen - 32) + (BitLen expHead - 1))"

definition berlin_work :: "u64 \<Rightarrow> u64 \<Rightarrow> u64 \<Rightarrow> nat \<Rightarrow> nat" where
  "berlin_work baseLen expLen modLen expHead =
     iteration_count 8 (unat expLen) expHead * eip2565_complexity (max (unat baseLen) (unat modLen))"

definition sat64 :: "nat \<Rightarrow> nat" where
  "sat64 n = min n (2 ^ 64 - 1)"

lemma sat64_small: "n < 2 ^ 64 \<Longrightarrow> sat64 n = n"
  by (simp add: sat64_def)

lemma sat64_big: "2 ^ 64 \<le> n \<Longrightarrow> sat64 n = 2 ^ 64 - 1"
  by (simp add: sat64_def)

lemma Mul64_sat:
  "unat (case Mul64 x y of (carry, r) \<Rightarrow> if carry \<noteq> 0 then MaxUint64 else r) = sat64 (unat x * unat y)"
proof -
  have hi: "fst (Mul64 x y) = 0 \<longleftrightarrow> unat x * unat y < 2 ^ 64" by (rule Mul64_hi)
  show ?thesis
  proof (cases "unat x * unat y < 2 ^ 64")
    case True
    then show ?thesis using hi by (simp add: case_prod_beta Mul64_lo unat_mult_u64 sat64_small)
  next
    case False
    then show ?thesis using hi by (simp add: case_prod_beta unat_MaxUint64 sat64_big)
  qed
qed

lemma berlinMultComplexity_eq: "unat (berlinMultComplexity x) = sat64 (eip2565_complexity (unat x))"
proof (cases "unat x + 7 < 2 ^ 64")
  case True
  then have x7: "unat (x + 7) = unat x + 7" by (subst unat_add_u64) simp_all
  have "berlinMultComplexity x = (case Mul64 ((x + 7) div 8) ((x + 7) div 8) of (carry, r) \<Rightarrow> if carry \<noteq> 0 then MaxUint64 else r)"
    using True by (simp add: berlinMultComplexity_def Add64_def Let_def)
  then show ?thesis using x7 by (simp only: Mul64_sat unat_div) (simp add: eip2565_complexity_def power2_eq_square)
next
  case False
  then have "2 ^ 61 \<le> (unat x + 7) div 8" by simp
  then have "(2 ^ 61) ^ 2 \<le> eip2565_complexity (unat x)"
    unfolding eip2565_complexity_def by (rule power_mono) simp
  then have "2 ^ 64 \<le> eip2565_complexity (unat x)" by simp
  then have "sat64 (eip2565_complexity (unat x)) = 2 ^ 64 - 1" by (rule sat64_big)
  moreover have "berlinMultComplexity x = MaxUint64" using False by (simp add: berlinMultComplexity_def Add64_def)
  ultimately show ?thesis by (simp add: unat_MaxUint64)
qed



section \<open>Iteration counts and gas\<close>


lemma unat_max_u64: "unat (max a b) = max (unat a) (unat b)" for a b :: u64
  by (simp add: max_def word_le_nat_alt)

lemma modexpIterationCount_eq:
  assumes "BitLen expHead \<le> 256"
  shows "unat (modexpIterationCount expLen expHead m) = sat64 (iteration_count (unat m) (unat expLen) expHead)"
proof -
  define a where "a = unat m * (unat expLen - 32)"
  define b1 where "b1 = BitLen expHead - 1"
  define r where "r = (if expLen > 32 then (case Mul64 (expLen - 32) m of
      (carry, count) \<Rightarrow> if carry > 0 then None else Some count) else Some 0)"
  have r: "if a < 2 ^ 64 then \<exists>w. r = Some w \<and> unat w = a else r = None"
  proof (cases "expLen > 32")
    case True
    then have sub: "unat (expLen - 32) = unat expLen - 32" by (simp add: unat_sub word_less_nat_alt word_le_nat_alt)
    have "fst (Mul64 (expLen - 32) m) = 0 \<longleftrightarrow> a < 2 ^ 64"
      by (simp add: Mul64_hi sub a_def mult.commute)
    moreover have "unat ((expLen - 32) * m) = a" if "a < 2 ^ 64"
      using that by (subst unat_mult_u64) (auto simp: sub a_def mult.commute)
    ultimately show ?thesis using True by (auto simp: r_def case_prod_beta Mul64_lo word_gt_0)
  next
    case False
    then show ?thesis by (simp add: r_def a_def word_less_nat_alt)
  qed
  have count: "modexpIterationCount expLen expHead m = (case r of None \<Rightarrow> MaxUint64
      | Some w \<Rightarrow> if BitLen expHead > 0 then (case Add64 w (of_nat b1) of
          (count, carry) \<Rightarrow> if carry > 0 then MaxUint64 else max count 1) else max w 1)"
    unfolding modexpIterationCount_def r_def b1_def Let_def ..
  have it: "iteration_count (unat m) (unat expLen) expHead = max 1 (a + b1)"
    unfolding iteration_count_def a_def b1_def ..
  have none: "BitLen expHead = 0 \<Longrightarrow> b1 = 0" by (simp add: b1_def)
  show ?thesis
  proof (cases "a < 2 ^ 64")
    case False
    then show ?thesis using r unfolding count it by (simp add: unat_MaxUint64 sat64_big)
  next
    case True
    then obtain w where w: "r = Some w" "unat w = a" using r by auto
    have k: "unat (of_nat b1 :: u64) = b1" using assms by (simp add: unat_of_nat b1_def)
    show ?thesis
    proof (cases "a + b1 < 2 ^ 64")
      case fits: True
      then have "unat (w + of_nat b1) = a + b1" by (subst unat_add_u64) (auto simp: w k)
      with fits show ?thesis unfolding count it
        by (auto simp: w k none Add64_def unat_max_u64 sat64_small max.commute)
    next
      case wraps: False
      then show ?thesis using True unfolding count it
        by (auto simp: w k none Add64_def unat_MaxUint64 sat64_big)
    qed
  qed
qed

lemma sat_product:
  assumes "1 \<le> it"
  shows "it * cp < 2 ^ 64 - 1 \<Longrightarrow> sat64 it * sat64 cp = it * cp"
    and "2 ^ 64 - 1 \<le> it * cp \<Longrightarrow> 2 ^ 64 - 1 \<le> sat64 it * sat64 cp"
proof -
  let ?M = "2 ^ 64 - 1 :: nat"
  assume small: "it * cp < ?M"
  show "sat64 it * sat64 cp = it * cp"
  proof (cases "cp = 0")
    case True
    then show ?thesis by (simp add: sat64_def)
  next
    case False
    then have "it * 1 \<le> it * cp" "1 * cp \<le> it * cp" using assms by (auto intro: mult_le_mono)
    then have "it < ?M" "cp < ?M" using small by linarith+
    then show ?thesis by (simp add: sat64_def)
  qed
next
  let ?M = "2 ^ 64 - 1 :: nat"
  assume big: "?M \<le> it * cp"
  then have cp: "1 \<le> cp" by (cases cp) auto
  have "?M \<le> ?M * n" if "1 \<le> n" for n using that by simp
  moreover have "1 \<le> sat64 it" "1 \<le> sat64 cp" using assms cp by (simp_all add: sat64_def)
  ultimately show "?M \<le> sat64 it * sat64 cp"
    using big by (cases "it < ?M"; cases "cp < ?M") (auto simp: sat64_def min_def mult.commute)
qed

text \<open>The last step of the three gas functions: multiply, and post-process unless it overflows.\<close>

lemma gas_step:
  defines "G f I C \<equiv> (case Mul64 I C of (carry, gas) \<Rightarrow> if carry \<noteq> 0 then MaxUint64 else f gas)"
  shows "unat I * unat C < 2 ^ 64 \<Longrightarrow> G f I C = f (I * C)"
    and "\<not> unat I * unat C < 2 ^ 64 \<Longrightarrow> G f I C = MaxUint64"
  by (simp_all add: G_def case_prod_beta Mul64_lo Mul64_hi)

lemma gas_step_big:
  assumes "2 ^ 64 - 1 \<le> unat I * unat C" and "\<And>g. unat g div d \<le> unat (f g)" and "1 \<le> d"
  shows "(2 ^ 64 - 1) div d \<le> unat (case Mul64 I C of (carry, gas) \<Rightarrow> if carry \<noteq> 0 then MaxUint64 else f gas)"
proof (cases "unat I * unat C < 2 ^ 64")
  case True
  then have "unat I * unat C = 2 ^ 64 - 1" using assms(1) by linarith
  then have "unat (I * C) = 2 ^ 64 - 1" using unat_mult_u64 [OF True] by simp
  then show ?thesis using assms(2) [of "I * C"] gas_step(1) [OF True, of f] by simp
next
  case False
  then show ?thesis unfolding gas_step(2) [OF False] unat_MaxUint64 by simp
qed

lemma div3_le: "unat g div 3 \<le> unat (max (g div 3) 200)" for g :: u64
  by (simp add: unat_max_u64 unat_div)







section \<open>The interface of a precompiled contract\<close>







lemmas precompile_tables = PrecompiledContractsHomestead_def PrecompiledContractsByzantium_def
  PrecompiledContractsIstanbul_def PrecompiledContractsBerlin_def PrecompiledContractsCancun_def
  PrecompiledContractsPrague_def PrecompiledContractsVerkle_def PrecompiledContractsOsaka_def

section \<open>Properties of the precompile layer\<close>



text \<open>
  Gas of the Groth16 precompile: the call costs exactly 440000 gas whatever its input; with less it
  runs out of gas and keeps nothing, and otherwise the remaining gas is returned beside the answer or
  the error of the verification.
\<close>

theorem groth16_call_gas:
  "RunPrecompiledContract (contract_of C groth16Verify) input gas =
    (if unat gas < 440000 then Some (Inl ErrOutOfGas, 0)
     else Some (groth16_Run (bn254 C) input, gas - 440000))"
  by (simp add: RunPrecompiledContract_def groth16_RequiredGas_def Groth16VerifyGas_def word_less_nat_alt)

text \<open>
  Where the Groth16 precompile lives: address 0x20 resolves to it exactly under the Berlin, Cancun,
  Prague, Osaka and Verkle rules, and never under Istanbul or earlier ones; where it is active it is the
  only entry for that address.
\<close>

theorem groth16_active_iff:
  "(map_of (activePrecompiledContracts rules) 0x20 = Some groth16Verify \<longleftrightarrow>
      IsVerkle rules \<or> IsOsaka rules \<or> IsPrague rules \<or> IsCancun rules \<or> IsBerlin rules) \<and>
    (map_of (activePrecompiledContracts rules) 0x20 \<noteq> Some groth16Verify \<longleftrightarrow>
      map_of (activePrecompiledContracts rules) 0x20 = None) \<and>
    distinct (map fst (activePrecompiledContracts rules))"
  by (simp add: activePrecompiledContracts_def precompile_tables)

text \<open>
  The list of active addresses agrees with the table of active contracts unless the Verkle rules are
  on; under Verkle the list ignores the flag, so beside Osaka rules it announces the secp256r1 contract
  at 0x100 that the table does not have.
\<close>

theorem ActivePrecompiles_agree:
  "(\<not> IsVerkle rules \<longrightarrow>
      set (ActivePrecompiles rules) = dom (map_of (activePrecompiledContracts rules))) \<and>
    (IsVerkle rules \<and> IsOsaka rules \<longrightarrow>
      0x100 \<in> set (ActivePrecompiles rules) \<and> map_of (activePrecompiledContracts rules) 0x100 = None)"
  by (auto simp: ActivePrecompiles_def activePrecompiledContracts_def PrecompiledAddresses_def dom_map_of_conv_image_fst
      precompile_tables)

theorem ActivePrecompiles_agree_witness:
  "0x100 \<in> set (ActivePrecompiles \<lparr>IsHomestead = True, IsEIP150 = True, IsEIP155 = True, IsEIP158 = True, IsEIP2929 = False, IsEIP4762 = True, IsByzantium = True,
      IsConstantinople = True, IsPetersburg = True, IsIstanbul = True, IsBerlin = True, IsLondon = True, IsMerge = True, IsShanghai = True,
      IsCancun = True, IsPrague = True, IsOsaka = True, IsAmsterdam = False, IsVerkle = True\<rparr>) \<and>
    map_of (activePrecompiledContracts \<lparr>IsHomestead = True, IsEIP150 = True, IsEIP155 = True, IsEIP158 = True, IsEIP2929 = False, IsEIP4762 = True, IsByzantium = True,
      IsConstantinople = True, IsPetersburg = True, IsIstanbul = True, IsBerlin = True, IsLondon = True, IsMerge = True, IsShanghai = True,
      IsCancun = True, IsPrague = True, IsOsaka = True, IsAmsterdam = False, IsVerkle = True\<rparr>) 0x100 = None"
  using ActivePrecompiles_agree [of "\<lparr>IsHomestead = True, IsEIP150 = True, IsEIP155 = True, IsEIP158 = True, IsEIP2929 = False, IsEIP4762 = True, IsByzantium = True,
      IsConstantinople = True, IsPetersburg = True, IsIstanbul = True, IsBerlin = True, IsLondon = True, IsMerge = True, IsShanghai = True,
      IsCancun = True, IsPrague = True, IsOsaka = True, IsAmsterdam = False, IsVerkle = True\<rparr>"] by simp

text \<open>
  The Berlin gas of modular exponentiation on 64-bit words is the EIP-2565 formula over the integers:
  exact as long as complexity times iterations stays below \<open>2 ^ 64 - 1\<close>, and at least
  \<open>(2 ^ 64 - 1) div 3\<close> beyond; no overflow ever makes a call cheap.
\<close>

theorem berlinModexpGas_exact:
  assumes "BitLen expHead \<le> 256"
  shows "(berlin_work baseLen expLen modLen expHead < 2 ^ 64 - 1 \<longrightarrow> unat (berlinModexpGas baseLen expLen modLen expHead) = max (berlin_work baseLen expLen modLen expHead div 3) 200) \<and>
    (2 ^ 64 - 1 \<le> berlin_work baseLen expLen modLen expHead \<longrightarrow> (2 ^ 64 - 1) div 3 \<le> unat (berlinModexpGas baseLen expLen modLen expHead))"
proof -
  let ?it = "iteration_count 8 (unat expLen) expHead" and ?cp = "eip2565_complexity (max (unat baseLen) (unat modLen))"
  let ?I = "modexpIterationCount expLen expHead 8" and ?C = "berlinMultComplexity (max baseLen modLen)"
  let ?work = "berlin_work baseLen expLen modLen expHead"
  have it: "1 \<le> ?it" by (simp add: iteration_count_def)
  have I: "unat ?I = sat64 ?it" using modexpIterationCount_eq [OF assms(1), of expLen 8] by simp
  have C: "unat ?C = sat64 ?cp" by (simp add: berlinMultComplexity_eq unat_max_u64)
  show ?thesis
  proof (intro conjI impI)
    assume small: "?work < 2 ^ 64 - 1"
    then have prod: "unat ?I * unat ?C = ?work" unfolding I C berlin_work_def by (rule sat_product(1) [OF it])
    have "?cp < 2 ^ 64 - 1"
    proof -
      have "1 * ?cp \<le> ?it * ?cp" using it by (rule mult_le_mono1)
      then show ?thesis using small unfolding berlin_work_def by linarith
    qed
    then have "?C \<noteq> MaxUint64" using C by (auto simp: word_unat_eq_iff unat_MaxUint64 sat64_def)
    moreover have "unat (?I * ?C) = ?work" using prod small by (subst unat_mult_u64) auto
    moreover have "unat ?I * unat ?C < 2 ^ 64" using prod small by simp
    ultimately show "unat (berlinModexpGas baseLen expLen modLen expHead) = max (?work div 3) 200"
      unfolding berlinModexpGas_def Let_def by (simp add: gas_step(1) unat_max_u64 unat_div)
  next
    assume big: "2 ^ 64 - 1 \<le> ?work"
    then have "2 ^ 64 - 1 \<le> unat ?I * unat ?C" unfolding I C berlin_work_def by (rule sat_product(2) [OF it])
    from gas_step_big [OF this div3_le]
    show "(2 ^ 64 - 1) div 3 \<le> unat (berlinModexpGas baseLen expLen modLen expHead)"
      unfolding berlinModexpGas_def Let_def by (simp add: unat_MaxUint64)
  qed
qed

theorem berlinModexpGas_exact_witness:
  "unat (berlinModexpGas 64 32 64 5) = max (berlin_work 64 32 64 5 div 3) 200"
proof -
  have bits: "BitLen 5 = 3" by (simp add: BitLen.simps)
  have "berlin_work 64 32 64 5 < 2 ^ 64 - 1"
    by (simp add: berlin_work_def iteration_count_def eip2565_complexity_def max_def bits)
  then show ?thesis using berlinModexpGas_exact [of 5 64 32 64] bits by simp
qed

end
