(* ===== verification/Lru.thy ===== *)
theory Lru
  imports Prelude "HOL-Library.AList"
begin

text \<open>
  The least-recently-used cache, \<^verbatim>\<open>src/go-ethereum/common/lru/basiclru.go\<close>, as the engine uses it for
  signatures and snapshots. The doubly linked list of keys is a list, most recent first; the map
  of items an association list. \<open>None\<close> is a nil dereference. The locale \<open>lru_cache\<close> is the interface
  clients rely on: what is found was added, and a full cache may forget.
\<close>

section \<open>The cache\<close>

record ('k, 'v) BasicLRU =
  lru_list :: "'k list"
  lru_items :: "('k \<times> 'v) list"
  lru_cap :: nat

definition NewBasicLRU :: "int \<Rightarrow> ('k, 'v) BasicLRU" where
  "NewBasicLRU capacity =
     \<lparr>lru_list = [], lru_items = [], lru_cap = nat (if capacity \<le> 0 then 1 else capacity)\<rparr>"

definition moveToFront :: "'k \<Rightarrow> 'k list \<Rightarrow> 'k list" where
  "moveToFront k ks = k # remove1 k ks"

definition lru_Len :: "('k, 'v) BasicLRU \<Rightarrow> nat" where
  "lru_Len c = length (lru_items c)"

definition lru_Add3 :: "('k, 'v) BasicLRU \<Rightarrow> 'k \<Rightarrow> 'v \<Rightarrow> (('k \<times> 'v) option \<times> ('k, 'v) BasicLRU) option" where
  "lru_Add3 c key v =
     (if map_of (lru_items c) key \<noteq> None then
        Some (None, c\<lparr>lru_items := AList.update key v (lru_items c), lru_list := moveToFront key (lru_list c)\<rparr>)
      else if lru_Len c \<ge> lru_cap c then
        (if lru_list c = [] then None
         else
           (let ek = last (lru_list c)
            in case map_of (lru_items c) ek of
                 None \<Rightarrow> None
               | Some ev \<Rightarrow>
                   Some (Some (ek, ev),
                     c\<lparr>lru_items := AList.update key v (AList.delete ek (lru_items c)),
                       lru_list := key # butlast (lru_list c)\<rparr>)))
      else
        Some (None, c\<lparr>lru_items := AList.update key v (lru_items c), lru_list := key # lru_list c\<rparr>))"

definition lru_Add :: "('k, 'v) BasicLRU \<Rightarrow> 'k \<Rightarrow> 'v \<Rightarrow> (bool \<times> ('k, 'v) BasicLRU) option" where
  "lru_Add c key v = map_option (\<lambda>(ev, c'). (ev \<noteq> None, c')) (lru_Add3 c key v)"

definition lru_Contains :: "('k, 'v) BasicLRU \<Rightarrow> 'k \<Rightarrow> bool" where
  "lru_Contains c key \<longleftrightarrow> map_of (lru_items c) key \<noteq> None"

definition lru_Get :: "('k, 'v) BasicLRU \<Rightarrow> 'k \<Rightarrow> 'v option \<times> ('k, 'v) BasicLRU" where
  "lru_Get c key =
     (case map_of (lru_items c) key of
        None \<Rightarrow> (None, c)
      | Some v \<Rightarrow> (Some v, c\<lparr>lru_list := moveToFront key (lru_list c)\<rparr>))"

definition lru_GetOldest :: "('k, 'v) BasicLRU \<Rightarrow> ('k \<times> 'v option) option" where
  "lru_GetOldest c =
     (if lru_list c = [] then None
      else (let key = last (lru_list c) in Some (key, map_of (lru_items c) key)))"

definition lru_Peek :: "('k, 'v) BasicLRU \<Rightarrow> 'k \<Rightarrow> 'v option" where
  "lru_Peek c key = map_of (lru_items c) key"

definition lru_Purge :: "('k, 'v) BasicLRU \<Rightarrow> ('k, 'v) BasicLRU" where
  "lru_Purge c = c\<lparr>lru_list := [], lru_items := []\<rparr>"

definition lru_Remove :: "('k, 'v) BasicLRU \<Rightarrow> 'k \<Rightarrow> bool \<times> ('k, 'v) BasicLRU" where
  "lru_Remove c key =
     (if map_of (lru_items c) key \<noteq> None
      then (True, c\<lparr>lru_items := AList.delete key (lru_items c), lru_list := remove1 key (lru_list c)\<rparr>)
      else (False, c))"

definition lru_RemoveOldest :: "('k, 'v) BasicLRU \<Rightarrow> ('k \<times> 'v option) option \<times> ('k, 'v) BasicLRU" where
  "lru_RemoveOldest c =
     (if lru_list c = [] then (None, c)
      else
        (let key = last (lru_list c)
         in (Some (key, map_of (lru_items c) key),
             c\<lparr>lru_items := AList.delete key (lru_items c), lru_list := butlast (lru_list c)\<rparr>)))"

definition lru_Keys :: "('k, 'v) BasicLRU \<Rightarrow> 'k list" where
  "lru_Keys c = rev (lru_list c)"

section \<open>The invariant\<close>

definition lru_inv :: "('k, 'v) BasicLRU \<Rightarrow> bool" where
  "lru_inv c \<longleftrightarrow> distinct (lru_list c) \<and> distinct (map fst (lru_items c)) \<and>
     fst ` set (lru_items c) = set (lru_list c) \<and> 1 \<le> lru_cap c \<and> length (lru_items c) \<le> lru_cap c"

lemma lru_new_inv: "lru_inv (NewBasicLRU capacity)"
  by (auto simp: lru_inv_def NewBasicLRU_def)

lemma lru_length: "lru_inv c \<Longrightarrow> length (lru_items c) = length (lru_list c)"
  unfolding lru_inv_def by (metis distinct_card length_map set_map)

lemma lru_known: "lru_inv c \<Longrightarrow> map_of (lru_items c) k \<noteq> None \<longleftrightarrow> k \<in> set (lru_list c)"
  unfolding lru_inv_def by (metis map_of_eq_None_iff)

lemma lru_Get_inv: "lru_inv c \<Longrightarrow> lru_inv (snd (lru_Get c k))"
  using lru_known [of c k]
  by (auto simp: lru_Get_def moveToFront_def lru_inv_def split: option.splits)

lemma length_update: "length (AList.update k v al) = (if k \<in> fst ` set al then length al else Suc (length al))"
  by (induction al) auto

lemma length_delete: "distinct (map fst al) \<Longrightarrow> k \<in> fst ` set al \<Longrightarrow> Suc (length (AList.delete k al)) = length al"
proof (induction al)
  case (Cons p al)
  show ?case
  proof (cases "fst p = k")
    case True
    then have "AList.delete k al = al" using Cons.prems(1) by (auto simp: AList.delete_id)
    then show ?thesis using True by (simp add: AList.delete_eq case_prod_beta)
  next
    case False
    then show ?thesis using Cons by (auto simp: AList.delete_eq case_prod_beta)
  qed
qed simp

lemma lru_Add3_shape:
  assumes inv: "lru_inv c"
  shows "k \<in> set (lru_list c) \<Longrightarrow> lru_Add3 c k v = Some (None, c\<lparr>lru_items := AList.update k v (lru_items c), lru_list := moveToFront k (lru_list c)\<rparr>)"
    and "k \<notin> set (lru_list c) \<Longrightarrow> length (lru_list c) < lru_cap c \<Longrightarrow>
      lru_Add3 c k v = Some (None, c\<lparr>lru_items := AList.update k v (lru_items c), lru_list := k # lru_list c\<rparr>)"
    and "k \<notin> set (lru_list c) \<Longrightarrow> \<not> length (lru_list c) < lru_cap c \<Longrightarrow>
      \<exists>ev. lru_list c \<noteq> [] \<and> map_of (lru_items c) (last (lru_list c)) = Some ev \<and>
        lru_Add3 c k v = Some (Some (last (lru_list c), ev),
          c\<lparr>lru_items := AList.update k v (AList.delete (last (lru_list c)) (lru_items c)), lru_list := k # butlast (lru_list c)\<rparr>)"
proof -
  note known = lru_known [OF inv] and len = lru_length [OF inv]
  show "k \<in> set (lru_list c) \<Longrightarrow> lru_Add3 c k v = Some (None, c\<lparr>lru_items := AList.update k v (lru_items c), lru_list := moveToFront k (lru_list c)\<rparr>)"
    using known [of k] by (simp add: lru_Add3_def)
  show "k \<notin> set (lru_list c) \<Longrightarrow> length (lru_list c) < lru_cap c \<Longrightarrow>
      lru_Add3 c k v = Some (None, c\<lparr>lru_items := AList.update k v (lru_items c), lru_list := k # lru_list c\<rparr>)"
    using known [of k] len by (simp add: lru_Add3_def lru_Len_def)
  assume k: "k \<notin> set (lru_list c)" and full: "\<not> length (lru_list c) < lru_cap c"
  then have ne: "lru_list c \<noteq> []" using inv by (auto simp: lru_inv_def)
  then obtain ev where "map_of (lru_items c) (last (lru_list c)) = Some ev" using known [of "last (lru_list c)"] by auto
  with k full ne show "\<exists>ev. lru_list c \<noteq> [] \<and> map_of (lru_items c) (last (lru_list c)) = Some ev \<and>
        lru_Add3 c k v = Some (Some (last (lru_list c), ev),
          c\<lparr>lru_items := AList.update k v (AList.delete (last (lru_list c)) (lru_items c)), lru_list := k # butlast (lru_list c)\<rparr>)"
    using known [of k] len by (simp add: lru_Add3_def lru_Len_def Let_def)
qed

lemma lru_Add3_inv:
  assumes inv: "lru_inv c" and add: "lru_Add3 c k v = Some (ev, c')"
  shows "lru_inv c'"
proof -
  note shape = lru_Add3_shape [OF inv, of k] and len = lru_length [OF inv]
  have base: "distinct (lru_list c)" "distinct (map fst (lru_items c))" "fst ` set (lru_items c) = set (lru_list c)"
    "1 \<le> lru_cap c" "length (lru_items c) \<le> lru_cap c" using inv by (simp_all add: lru_inv_def)
  consider "k \<in> set (lru_list c)" | "k \<notin> set (lru_list c)" "length (lru_list c) < lru_cap c"
    | "k \<notin> set (lru_list c)" "\<not> length (lru_list c) < lru_cap c" by blast
  then show ?thesis
  proof cases
    case 1
    with shape(1) [of v] add base show ?thesis
      by (auto simp: lru_inv_def moveToFront_def distinct_update dom_update length_update)
  next
    case 2
    with shape(2) [of v] add base len show ?thesis
      by (auto simp: lru_inv_def distinct_update dom_update length_update)
  next
    case 3
    let ?l = "last (lru_list c)" and ?items = "AList.delete (last (lru_list c)) (lru_items c)"
    have ne: "lru_list c \<noteq> []" and c': "c' = c\<lparr>lru_items := AList.update k v ?items, lru_list := k # butlast (lru_list c)\<rparr>"
      using shape(3) [OF 3, of v] add by auto
    have split: "lru_list c = butlast (lru_list c) @ [?l]" using ne by simp
    have l: "?l \<in> fst ` set (lru_items c)" using base(3) ne by simp
    have del: "Suc (length ?items) = length (lru_items c)" using length_delete [OF base(2) l] .
    have "set (lru_list c) - {?l} = set (butlast (lru_list c))"
    proof -
      have "?l \<notin> set (butlast (lru_list c))" using base(1) split by (metis distinct_append disjoint_iff list.set_intros(1))
      moreover have "set (lru_list c) = insert ?l (set (butlast (lru_list c)))" by (subst split) simp
      ultimately show ?thesis by auto
    qed
    then have keys: "fst ` set ?items = set (butlast (lru_list c))"
      using base(3) by (simp add: AList.delete_keys flip: set_map)
    have "distinct (map fst ?items)" using base(2) by (simp add: distinct_delete)
    moreover have "k \<notin> set (butlast (lru_list c))" using 3(1) by (auto dest: in_set_butlastD)
    ultimately show ?thesis
      using base del keys unfolding c' by (simp add: lru_inv_def distinct_update dom_update length_update distinct_butlast)
  qed
qed

section \<open>The interface\<close>

locale lru_cache =
  fixes get :: "'c \<Rightarrow> 'k \<Rightarrow> 'v option \<times> 'c"
    and add :: "'c \<Rightarrow> 'k \<Rightarrow> 'v \<Rightarrow> (bool \<times> 'c) option"
    and entries :: "'c \<Rightarrow> 'k \<rightharpoonup> 'v"
    and ok :: "'c \<Rightarrow> bool"
  assumes get_entry: "fst (get c k) = entries c k"
    and get_keeps: "ok c \<Longrightarrow> ok (snd (get c k)) \<and> entries (snd (get c k)) = entries c"
    and add_works: "ok c \<Longrightarrow> \<exists>ev c'. add c k v = Some (ev, c') \<and> ok c' \<and> entries c' k = Some v"
    and add_forgets: "ok c \<Longrightarrow> add c k v = Some (ev, c') \<Longrightarrow> entries c' \<subseteq>\<^sub>m (entries c)(k \<mapsto> v)"
begin

text \<open>A cache whose entries all satisfy \<open>P\<close> keeps doing so.\<close>

definition holds :: "('k \<Rightarrow> 'v \<Rightarrow> bool) \<Rightarrow> 'c \<Rightarrow> bool" where
  "holds P c \<longleftrightarrow> ok c \<and> (\<forall>k v. entries c k = Some v \<longrightarrow> P k v)"

lemma holds_get: "holds P c \<Longrightarrow> get c k = (r, c') \<Longrightarrow> holds P c' \<and> (\<forall>v. r = Some v \<longrightarrow> P k v)"
  using get_keeps [of c k] get_entry [of c k] by (auto simp: holds_def)

lemma holds_add: "holds P c \<Longrightarrow> P k v \<Longrightarrow> \<exists>ev c'. add c k v = Some (ev, c') \<and> holds P c'"
proof -
  assume c: "holds P c" and p: "P k v"
  then obtain ev c' where a: "add c k v = Some (ev, c')" "ok c'" using add_works [of c k v] by (auto simp: holds_def)
  have "P x y" if "entries c' x = Some y" for x y
  proof -
    have "((entries c)(k \<mapsto> v)) x = Some y" using add_forgets [OF _ a(1)] c that by (metis holds_def map_le_def domI)
    then show ?thesis using c p by (auto simp: holds_def split: if_splits)
  qed
  with a show ?thesis by (auto simp: holds_def)
qed

end

lemma map_of_update_other: "map_of (AList.update k v al) = (map_of al)(k \<mapsto> v)"
  by (rule update_conv')

interpretation basic_lru: lru_cache lru_Get lru_Add lru_Peek lru_inv
proof
  fix c :: "('k, 'v) BasicLRU" and k v ev c'
  show "fst (lru_Get c k) = lru_Peek c k" by (simp add: lru_Get_def lru_Peek_def split: option.splits)
  show "lru_inv c \<Longrightarrow> lru_inv (snd (lru_Get c k)) \<and> lru_Peek (snd (lru_Get c k)) = lru_Peek c"
    using lru_Get_inv [of c k] by (auto simp: lru_Get_def lru_Peek_def fun_eq_iff split: option.splits)
  assume inv: "lru_inv c"
  note shape = lru_Add3_shape [OF inv, of k v]
  have "\<exists>e d. lru_Add3 c k v = Some (e, d)"
    using shape by (cases "k \<in> set (lru_list c)"; cases "length (lru_list c) < lru_cap c") auto
  then obtain e d where d: "lru_Add3 c k v = Some (e, d)" by blast
  have items: "lru_Peek d = (lru_Peek c)(k \<mapsto> v) \<or> (\<exists>l. lru_Peek d = ((lru_Peek c)(l := None))(k \<mapsto> v))"
    using shape d
    by (cases "k \<in> set (lru_list c)"; cases "length (lru_list c) < lru_cap c")
      (auto simp: lru_Peek_def map_of_update_other delete_conv' fun_eq_iff)
  show "\<exists>ev c'. lru_Add c k v = Some (ev, c') \<and> lru_inv c' \<and> lru_Peek c' k = Some v"
    using d lru_Add3_inv [OF inv d] items by (auto simp: lru_Add_def)
  show "lru_Add c k v = Some (ev, c') \<Longrightarrow> lru_Peek c' \<subseteq>\<^sub>m (lru_Peek c)(k \<mapsto> v)"
    using d items by (auto simp: lru_Add_def map_le_def split: if_splits)
qed

section \<open>Least recently used\<close>


text \<open>
  C40. Adding a key keeps exactly the most recently used entries: the keys, most recent first, become the
  new key followed by the others, cut off at the capacity, and the entries are the old ones of the
  keys that remain, with the new value. So a full cache evicts the least recently used key, and
  reports it, and no other.
\<close>

theorem lru_Add3_keeps_recent:
  assumes "lru_inv c"
  shows "\<exists>ev c'. lru_Add3 c k v = Some (ev, c') \<and> lru_inv c' \<and> lru_cap c' = lru_cap c \<and>
    lru_list c' = take (lru_cap c) (k # removeAll k (lru_list c)) \<and>
    lru_Peek c' = (lru_Peek c |` set (lru_list c'))(k \<mapsto> v) \<and>
    (ev = None \<longleftrightarrow> k \<in> set (lru_list c) \<or> length (lru_list c) < lru_cap c) \<and>
    (\<forall>ek e. ev = Some (ek, e) \<longrightarrow> ek = last (lru_list c) \<and> lru_Peek c ek = Some e)"
proof -
  note shape = lru_Add3_shape [OF assms, of k v] and len = lru_length [OF assms]
  have base: "distinct (lru_list c)" "length (lru_list c) \<le> lru_cap c" "1 \<le> lru_cap c"
    using assms len by (simp_all add: lru_inv_def)
  have out: "lru_Peek c x = None" if "x \<notin> set (lru_list c)" for x
    using lru_known [OF assms, of x] that by (auto simp: lru_Peek_def)
  have rm: "remove1 k (lru_list c) = removeAll k (lru_list c)" using base(1) by (rule distinct_remove1_removeAll)
  consider "k \<in> set (lru_list c)" | "k \<notin> set (lru_list c)" "length (lru_list c) < lru_cap c"
    | "k \<notin> set (lru_list c)" "\<not> length (lru_list c) < lru_cap c" by blast
  then show ?thesis
  proof cases
    case 1
    have "Suc (length (removeAll k (lru_list c))) \<le> lru_cap c"
      using 1 base rm by (metis One_nat_def Suc_pred length_pos_if_in_set length_remove1)
    then have t: "take (lru_cap c) (k # removeAll k (lru_list c)) = k # removeAll k (lru_list c)" by simp
    show ?thesis using shape(1) [OF 1] lru_Add3_inv [OF assms shape(1) [OF 1]] 1 out
      by (auto simp: t moveToFront_def rm lru_Peek_def update_conv' restrict_map_def fun_eq_iff)
  next
    case 2
    have r: "removeAll k (lru_list c) = lru_list c" using 2(1) by simp
    show ?thesis using shape(2) [OF 2] lru_Add3_inv [OF assms shape(2) [OF 2]] 2 out
      by (auto simp: r lru_Peek_def update_conv' restrict_map_def fun_eq_iff)
  next
    case 3
    obtain ev where ne: "lru_list c \<noteq> []" and l: "map_of (lru_items c) (last (lru_list c)) = Some ev"
      and a: "lru_Add3 c k v = Some (Some (last (lru_list c), ev),
          c\<lparr>lru_items := AList.update k v (AList.delete (last (lru_list c)) (lru_items c)), lru_list := k # butlast (lru_list c)\<rparr>)"
      using shape(3) [OF 3] by blast
    have r: "removeAll k (lru_list c) = lru_list c" using 3(1) by simp
    have cap: "lru_cap c = length (lru_list c)" using 3(2) base(2) by simp
    have t: "take (lru_cap c) (k # lru_list c) = k # butlast (lru_list c)"
      using ne by (cases "lru_list c" rule: rev_cases) (simp_all add: cap)
    have split: "lru_list c = butlast (lru_list c) @ [last (lru_list c)]" using ne by simp
    then have mem: "x \<in> set (lru_list c) \<longleftrightarrow> x \<in> set (butlast (lru_list c)) \<or> x = last (lru_list c)" for x
      by (metis Un_iff empty_iff insert_iff list.set(1) list.set(2) set_append)
    have last: "last (lru_list c) \<notin> set (butlast (lru_list c))"
      using base(1) split by (metis disjoint_iff distinct_append list.set_intros(1))
    show ?thesis using a lru_Add3_inv [OF assms a] 3 out l last mem
      by (auto simp: r t lru_Peek_def update_conv' delete_conv' restrict_map_def fun_eq_iff)
  qed
qed

theorem lru_Add3_keeps_recent_witness:
  "\<exists>ev c'. lru_Add3 \<lparr>lru_list = [2, 1 :: nat], lru_items = [(1, ''a''), (2, ''b'')], lru_cap = 2\<rparr> 3 ''c'' = Some (ev, c') \<and>
     lru_list c' = [3, 2] \<and> ev = Some (1, ''a'')"
proof -
  let ?c = "\<lparr>lru_list = [2, 1 :: nat], lru_items = [(1, ''a''), (2, ''b'')], lru_cap = 2\<rparr>"
  have "lru_inv ?c" by (auto simp: lru_inv_def)
  from lru_Add3_keeps_recent [OF this, of 3 "''c''"] show ?thesis
    by (auto simp: lru_Peek_def)
qed

end
