(* ===== verification/Clique_Snapshot.thy ===== *)
theory Clique_Snapshot
  imports Chain_Types "HOL-Library.AList"
begin

text \<open>
  The voting state of the proof-of-authority engine, \<^verbatim>\<open>src/go-ethereum/consensus/clique/snapshot.go\<close>. The
  set of signers is a set, the recent signers an association list with one entry per block number
  (the code iterates over it), the tally a map with the code's insertions and deletions. Signer
  recovery is a parameter here (\<open>recover\<close>); \<^verbatim>\<open>ecrecover\<close> and its cache are modelled with the engine.
  \<open>None\<close> is a run-time panic: a nil block number, or a division by zero.
\<close>

section \<open>State\<close>

record CliqueConfig =
  Period :: u64
  Epoch :: u64

record Vote =
  v_Signer :: Address
  v_Block :: u64
  v_Address :: Address
  v_Authorize :: bool

record Tally =
  t_Authorize :: bool
  t_Votes :: nat

record Snapshot =
  sn_Number :: u64
  sn_Hash :: Hash
  sn_Signers :: "Address set"
  sn_Recents :: "(u64 \<times> Address) list"
  sn_Votes :: "Vote list"
  sn_Tally :: "Address \<rightharpoonup> Tally"

datatype clique_error =
    errUnknownBlock | errInvalidCheckpointBeneficiary | errInvalidVote | errInvalidCheckpointVote
  | errMissingVanity | errMissingSignature | errExtraSigners | errInvalidCheckpointSigners
  | errMismatchingCheckpointSigners | errInvalidMixDigest | errInvalidUncleHash | errInvalidDifficulty
  | errWrongDifficulty | errInvalidTimestamp | errInvalidVotingChain | errUnauthorizedSigner
  | errRecentlySigned | ErrFutureBlock | ErrUnknownAncestor | ErrGasLimit | ErrGasUsed | ErrShanghai
  | ErrWithdrawalsHash | ErrCancun | ErrBlobField | ErrBaseFeeBeforeFork | ErrMissingBaseFee
  | ErrParentMissingBaseFee | ErrWrongBaseFee | ErrUncles | ErrWithdrawals | ErrRecover string | ErrDatabase string

section \<open>Construction\<close>

definition newSnapshot :: "u64 \<Rightarrow> Hash \<Rightarrow> Address list \<Rightarrow> Snapshot" where
  "newSnapshot number hash signers =
     \<lparr>sn_Number = number, sn_Hash = hash, sn_Signers = set signers, sn_Recents = [], sn_Votes = [],
      sn_Tally = Map.empty\<rparr>"

definition copy_snapshot :: "Snapshot \<Rightarrow> Snapshot" where
  "copy_snapshot s =
     \<lparr>sn_Number = sn_Number s, sn_Hash = sn_Hash s, sn_Signers = sn_Signers s, sn_Recents = sn_Recents s,
      sn_Votes = sn_Votes s, sn_Tally = sn_Tally s\<rparr>"

section \<open>Votes\<close>

definition validVote :: "Snapshot \<Rightarrow> Address \<Rightarrow> bool \<Rightarrow> bool" where
  "validVote s address authorize =
     (let signer = address \<in> sn_Signers s in signer \<and> \<not> authorize \<or> \<not> signer \<and> authorize)"

definition cast :: "Address \<Rightarrow> bool \<Rightarrow> Snapshot \<Rightarrow> bool \<times> Snapshot" where
  "cast address authorize s =
     (if \<not> validVote s address authorize then (False, s)
      else
        (True,
         (case sn_Tally s address of
            Some old \<Rightarrow> s\<lparr>sn_Tally := (sn_Tally s)(address \<mapsto> old\<lparr>t_Votes := t_Votes old + 1\<rparr>)\<rparr>
          | None \<Rightarrow> s\<lparr>sn_Tally := (sn_Tally s)(address \<mapsto> \<lparr>t_Authorize = authorize, t_Votes = 1\<rparr>)\<rparr>)))"

definition uncast :: "Address \<Rightarrow> bool \<Rightarrow> Snapshot \<Rightarrow> bool \<times> Snapshot" where
  "uncast address authorize s =
     (case sn_Tally s address of
        None \<Rightarrow> (False, s)
      | Some tally \<Rightarrow>
          if t_Authorize tally \<noteq> authorize then (False, s)
          else if t_Votes tally > 1
          then (True, s\<lparr>sn_Tally := (sn_Tally s)(address \<mapsto> tally\<lparr>t_Votes := t_Votes tally - 1\<rparr>)\<rparr>)
          else (True, s\<lparr>sn_Tally := (sn_Tally s)(address := None)\<rparr>))"

section \<open>Applying headers\<close>

definition header_number :: "Header \<Rightarrow> u64 option" where
  "header_number h = map_option of_nat (h_Number h)"

definition sign_limit :: "Snapshot \<Rightarrow> u64" where
  "sign_limit s = of_nat (card (sn_Signers s) div 2 + 1)"

definition nonceAuthVote :: u64 where
  "nonceAuthVote = 0xffffffffffffffff"

definition nonceDropVote :: u64 where
  "nonceDropVote = 0"

text \<open>\<open>if limit := ...; number >= limit { delete(snap.Recents, number-limit) }\<close>\<close>

definition delete_oldest :: "u64 \<Rightarrow> Snapshot \<Rightarrow> Snapshot" where
  "delete_oldest number s =
     (let limit = sign_limit s
      in if number \<ge> limit then s\<lparr>sn_Recents := AList.delete (number - limit) (sn_Recents s)\<rparr> else s)"

text \<open>\<open>discard any previous votes from the signer\<close>: the first match, then \<open>break\<close>.\<close>

fun take_vote :: "Address \<Rightarrow> Address \<Rightarrow> Vote list \<Rightarrow> Vote option \<times> Vote list" where
  "take_vote signer address [] = (None, [])"
| "take_vote signer address (v # vs) =
     (if v_Signer v = signer \<and> v_Address v = address then (Some v, vs)
      else (case take_vote signer address vs of (r, rest) \<Rightarrow> (r, v # rest)))"

definition discard_vote :: "Address \<Rightarrow> Address \<Rightarrow> Snapshot \<Rightarrow> Snapshot" where
  "discard_vote signer address s =
     (case take_vote signer address (sn_Votes s) of
        (None, _) \<Rightarrow> s
      | (Some v, rest) \<Rightarrow> (snd (uncast (v_Address v) (v_Authorize v) s))\<lparr>sn_Votes := rest\<rparr>)"

definition vote_nonce :: "u64 \<Rightarrow> clique_error + bool" where
  "vote_nonce n =
     (if n = nonceAuthVote then Inr True else if n = nonceDropVote then Inr False else Inl errInvalidVote)"

definition tally_vote :: "Address \<Rightarrow> u64 \<Rightarrow> Address \<Rightarrow> bool \<Rightarrow> Snapshot \<Rightarrow> Snapshot" where
  "tally_vote signer number address authorize s =
     (case cast address authorize s of
        (False, s') \<Rightarrow> s'
      | (True, s') \<Rightarrow>
          s'\<lparr>sn_Votes := sn_Votes s' @
             [\<lparr>v_Signer = signer, v_Block = number, v_Address = address, v_Authorize = authorize\<rparr>]\<rparr>)"

text \<open>The loop that uncasts every vote of a signer that was just removed.\<close>

fun uncast_votes :: "Address \<Rightarrow> Vote list \<Rightarrow> Snapshot \<Rightarrow> Vote list \<times> Snapshot" where
  "uncast_votes signer [] s = ([], s)"
| "uncast_votes signer (v # vs) s =
     (if v_Signer v = signer then uncast_votes signer vs (snd (uncast (v_Address v) (v_Authorize v) s))
      else (case uncast_votes signer vs s of (kept, s') \<Rightarrow> (v # kept, s')))"

definition drop_signer :: "Address \<Rightarrow> u64 \<Rightarrow> Snapshot \<Rightarrow> Snapshot" where
  "drop_signer address number s =
     (let s = s\<lparr>sn_Signers := sn_Signers s - {address}\<rparr>;
          s = delete_oldest number s
      in (case uncast_votes address (sn_Votes s) s of (kept, s') \<Rightarrow> s'\<lparr>sn_Votes := kept\<rparr>))"

definition enact :: "Address \<Rightarrow> u64 \<Rightarrow> Snapshot \<Rightarrow> Snapshot" where
  "enact address number s =
     (case sn_Tally s address of
        None \<Rightarrow> s
      | Some tally \<Rightarrow>
          if t_Votes tally > card (sn_Signers s) div 2 then
            (let s = (if t_Authorize tally then s\<lparr>sn_Signers := insert address (sn_Signers s)\<rparr>
                      else drop_signer address number s)
             in s\<lparr>sn_Votes := filter (\<lambda>v. v_Address v \<noteq> address) (sn_Votes s),
                  sn_Tally := (sn_Tally s)(address := None)\<rparr>)
          else s)"

text \<open>One round of the loop of \<open>apply\<close>.\<close>

definition apply_header ::
  "CliqueConfig \<Rightarrow> (Header \<Rightarrow> (clique_error + Address) option) \<Rightarrow> Header \<Rightarrow> Snapshot \<Rightarrow> (clique_error + Snapshot) option" where
  "apply_header cfg recover header s0 =
     (case header_number header of
        None \<Rightarrow> None
      | Some number \<Rightarrow>
          if Epoch cfg = 0 then None
          else
            (let s = (if number mod Epoch cfg = 0 then s0\<lparr>sn_Votes := [], sn_Tally := Map.empty\<rparr> else s0);
                 s = delete_oldest number s
             in (case recover header of
                   None \<Rightarrow> None
                 | Some (Inl err) \<Rightarrow> Some (Inl err)
                 | Some (Inr signer) \<Rightarrow>
                     if signer \<notin> sn_Signers s then Some (Inl errUnauthorizedSigner)
                     else if signer \<in> snd ` set (sn_Recents s) then Some (Inl errRecentlySigned)
                     else
                       (let s = s\<lparr>sn_Recents := AList.update number signer (sn_Recents s)\<rparr>;
                            s = discard_vote signer (h_Coinbase header) s
                        in (case vote_nonce (h_Nonce header) of
                              Inl err \<Rightarrow> Some (Inl err)
                            | Inr authorize \<Rightarrow>
                                Some (Inr (enact (h_Coinbase header) number
                                  (tally_vote signer number (h_Coinbase header) authorize s))))))))"

fun apply_headers ::
  "CliqueConfig \<Rightarrow> (Header \<Rightarrow> (clique_error + Address) option) \<Rightarrow> Header list \<Rightarrow> Snapshot \<Rightarrow> (clique_error + Snapshot) option" where
  "apply_headers cfg recover [] s = Some (Inr s)"
| "apply_headers cfg recover (h # hs) s =
     (case apply_header cfg recover h s of
        Some (Inr s') \<Rightarrow> apply_headers cfg recover hs s'
      | r \<Rightarrow> r)"

text \<open>\<open>Some False\<close>: not contiguous; \<open>None\<close>: a nil number.\<close>

fun contiguous :: "Header list \<Rightarrow> bool option" where
  "contiguous (h1 # h2 # hs) =
     (case (header_number h2, header_number h1) of
        (Some n2, Some n1) \<Rightarrow> if n2 \<noteq> n1 + 1 then Some False else contiguous (h2 # hs)
      | _ \<Rightarrow> None)"
| "contiguous _ = Some True"

definition apply_snapshot ::
  "CliqueConfig \<Rightarrow> (Header \<Rightarrow> (clique_error + Address) option) \<Rightarrow> (Header \<Rightarrow> Hash) \<Rightarrow> Header list \<Rightarrow> Snapshot \<Rightarrow> (clique_error + Snapshot) option" where
  "apply_snapshot cfg recover hash_of headers s =
     (if headers = [] then Some (Inr s)
      else
        (case contiguous headers of
           None \<Rightarrow> None
         | Some False \<Rightarrow> Some (Inl errInvalidVotingChain)
         | Some True \<Rightarrow>
             (case header_number (hd headers) of
                None \<Rightarrow> None
              | Some n \<Rightarrow>
                  if n \<noteq> sn_Number s + 1 then Some (Inl errInvalidVotingChain)
                  else
                    (case apply_headers cfg recover headers (copy_snapshot s) of
                       Some (Inr snap) \<Rightarrow>
                         Some (Inr (snap\<lparr>sn_Number := sn_Number snap + of_nat (length headers),
                           sn_Hash := hash_of (last headers)\<rparr>))
                     | r \<Rightarrow> r))))"

section \<open>Turns\<close>

definition signers :: "Snapshot \<Rightarrow> Address list" where
  "signers s = sorted_list_of_set (sn_Signers s)"

fun offset_of :: "Address \<Rightarrow> Address list \<Rightarrow> nat" where
  "offset_of signer [] = 0"
| "offset_of signer (a # as) = (if a \<noteq> signer then Suc (offset_of signer as) else 0)"

definition inturn :: "Snapshot \<Rightarrow> u64 \<Rightarrow> Address \<Rightarrow> bool option" where
  "inturn s number signer =
     (let sigs = signers s; offset = offset_of signer sigs
      in if length sigs = 0 then None
         else Some (number mod of_nat (length sigs) = of_nat offset))"

end
