(* ===== verification/Clique_Votes.thy ===== *)
theory Clique_Votes
  imports Clique_Snapshot
begin

text \<open>
  Voting is sound: the cached tally always equals the count of the recorded votes, every recorded
  vote is the only one of a current signer on its subject and still makes sense, and the set of
  signers changes only by a majority of distinct current signers.
\<close>

section \<open>The voting invariant\<close>

definition votes_on :: "Address \<Rightarrow> Vote list \<Rightarrow> nat" where
  "votes_on a vs = length (filter (\<lambda>v. v_Address v = a) vs)"

text \<open>The tally the recorded votes stand for, when \<open>S\<close> are the signers.\<close>

definition tally_of :: "Address set \<Rightarrow> Vote list \<Rightarrow> Address \<rightharpoonup> Tally" where
  "tally_of S vs a =
     (if votes_on a vs = 0 then None else Some \<lparr>t_Authorize = (a \<notin> S), t_Votes = votes_on a vs\<rparr>)"

definition votes_ok :: "Address set \<Rightarrow> Vote list \<Rightarrow> bool" where
  "votes_ok S vs \<longleftrightarrow> distinct (map (\<lambda>v. (v_Signer v, v_Address v)) vs) \<and>
     (\<forall>v\<in>set vs. v_Signer v \<in> S \<and> (v_Authorize v \<longleftrightarrow> v_Address v \<notin> S))"

definition voting_inv :: "Snapshot \<Rightarrow> bool" where
  "voting_inv s \<longleftrightarrow> finite (sn_Signers s) \<and> votes_ok (sn_Signers s) (sn_Votes s) \<and>
     sn_Tally s = tally_of (sn_Signers s) (sn_Votes s)"

lemma votes_on_simps [simp]:
  "votes_on a [] = 0"
  "votes_on a (v # vs) = (if v_Address v = a then Suc (votes_on a vs) else votes_on a vs)"
  "votes_on a (xs @ ys) = votes_on a xs + votes_on a ys"
  by (simp_all add: votes_on_def)

lemma votes_on_filter [simp]: "votes_on b (filter (\<lambda>v. v_Address v \<noteq> a) vs) = (if b = a then 0 else votes_on b vs)"
  by (induction vs) auto

lemma voting_invI:
  "finite (sn_Signers s) \<Longrightarrow> votes_ok (sn_Signers s) (sn_Votes s) \<Longrightarrow> sn_Tally s = tally_of (sn_Signers s) (sn_Votes s) \<Longrightarrow>
   voting_inv s"
  by (simp add: voting_inv_def)

lemma voting_invD:
  assumes "voting_inv s"
  shows "finite (sn_Signers s)" "votes_ok (sn_Signers s) (sn_Votes s)" "sn_Tally s = tally_of (sn_Signers s) (sn_Votes s)"
  using assms by (simp_all add: voting_inv_def)

section \<open>Removing and adding votes\<close>

lemma uncast_frame [simp]:
  "sn_Number (snd (uncast a b s)) = sn_Number s" "sn_Hash (snd (uncast a b s)) = sn_Hash s"
  "sn_Signers (snd (uncast a b s)) = sn_Signers s" "sn_Recents (snd (uncast a b s)) = sn_Recents s"
  "sn_Votes (snd (uncast a b s)) = sn_Votes s"
  by (simp_all add: uncast_def split: option.splits)

lemma uncast_tally:
  assumes "sn_Tally s = tally_of S (xs @ v # ys)" and "v_Authorize v \<longleftrightarrow> v_Address v \<notin> S"
  shows "sn_Tally (snd (uncast (v_Address v) (v_Authorize v) s)) = tally_of S (xs @ ys)"
proof -
  have "sn_Tally s (v_Address v) = Some \<lparr>t_Authorize = (v_Address v \<notin> S), t_Votes = Suc (votes_on (v_Address v) (xs @ ys))\<rparr>"
    using assms(1) by (simp add: tally_of_def)
  then show ?thesis using assms by (auto simp: uncast_def tally_of_def fun_eq_iff)
qed

lemma votes_ok_remove: "votes_ok S (xs @ v # ys) \<Longrightarrow> votes_ok S (xs @ ys)"
  by (auto simp: votes_ok_def)

lemma take_vote_Some:
  "take_vote sg a vs = (Some v, rest) \<Longrightarrow>
   \<exists>xs ys. vs = xs @ v # ys \<and> rest = xs @ ys \<and> v_Signer v = sg \<and> v_Address v = a"
proof (induction vs arbitrary: rest)
  case (Cons w ws)
  show ?case
  proof (cases "v_Signer w = sg \<and> v_Address w = a")
    case True
    then show ?thesis using Cons.prems by (intro exI [of _ "[]"] exI [of _ ws]) auto
  next
    case False
    then obtain rest' where "take_vote sg a ws = (Some v, rest')" "rest = w # rest'"
      using Cons.prems by (auto split: prod.splits)
    then show ?thesis using Cons.IH by (metis append_Cons)
  qed
qed simp

lemma take_vote_None: "take_vote sg a vs = (None, rest) \<Longrightarrow> (sg, a) \<notin> (\<lambda>v. (v_Signer v, v_Address v)) ` set vs"
  by (induction vs arbitrary: rest) (auto split: if_splits prod.splits)

lemma discard_vote_frame [simp]:
  "sn_Signers (discard_vote sg a s) = sn_Signers s" "sn_Recents (discard_vote sg a s) = sn_Recents s"
  "sn_Number (discard_vote sg a s) = sn_Number s" "sn_Hash (discard_vote sg a s) = sn_Hash s"
  by (auto simp: discard_vote_def split: prod.splits option.splits)

lemma discard_vote_inv:
  assumes "voting_inv s"
  shows "voting_inv (discard_vote sg a s)"
    and "(sg, a) \<notin> (\<lambda>v. (v_Signer v, v_Address v)) ` set (sn_Votes (discard_vote sg a s))"
    and "set (sn_Votes (discard_vote sg a s)) \<subseteq> set (sn_Votes s)"
proof -
  note inv = voting_invD [OF assms]
  show "voting_inv (discard_vote sg a s)"
    and "(sg, a) \<notin> (\<lambda>v. (v_Signer v, v_Address v)) ` set (sn_Votes (discard_vote sg a s))"
    and "set (sn_Votes (discard_vote sg a s)) \<subseteq> set (sn_Votes s)"
  proof (atomize (full), cases "take_vote sg a (sn_Votes s)")
    case (Pair r rest)
    show "voting_inv (discard_vote sg a s) \<and>
        (sg, a) \<notin> (\<lambda>v. (v_Signer v, v_Address v)) ` set (sn_Votes (discard_vote sg a s)) \<and>
        set (sn_Votes (discard_vote sg a s)) \<subseteq> set (sn_Votes s)"
    proof (cases r)
      case None
      then show ?thesis using Pair assms take_vote_None [of sg a "sn_Votes s" rest] by (simp add: discard_vote_def)
    next
      case (Some v)
      then obtain xs ys where vs: "sn_Votes s = xs @ v # ys" "rest = xs @ ys" "v_Signer v = sg" "v_Address v = a"
        using Pair take_vote_Some by blast
      have "v_Authorize v \<longleftrightarrow> v_Address v \<notin> sn_Signers s" using inv(2) vs(1) by (simp add: votes_ok_def)
      then have "sn_Tally (snd (uncast (v_Address v) (v_Authorize v) s)) = tally_of (sn_Signers s) rest"
        using uncast_tally [of s "sn_Signers s" xs v ys] inv(3) vs(1,2) by simp
      moreover have "votes_ok (sn_Signers s) rest" using votes_ok_remove inv(2) vs(1,2) by metis
      moreover have "(sg, a) \<notin> (\<lambda>v. (v_Signer v, v_Address v)) ` set rest"
        using inv(2) vs by (auto simp: votes_ok_def)
      ultimately show ?thesis using Pair Some inv(1) vs(1,2) by (auto simp: discard_vote_def voting_inv_def)
    qed
  qed
qed

lemma cast_frame [simp]:
  "sn_Signers (snd (cast a b s)) = sn_Signers s" "sn_Recents (snd (cast a b s)) = sn_Recents s"
  "sn_Votes (snd (cast a b s)) = sn_Votes s"
  by (simp_all add: cast_def split: option.splits)

lemma tally_vote_frame [simp]:
  "sn_Signers (tally_vote sg n a b s) = sn_Signers s" "sn_Recents (tally_vote sg n a b s) = sn_Recents s"
  by (simp_all add: tally_vote_def cast_def split: option.splits)

lemma tally_vote_inv:
  assumes "voting_inv s" and "sg \<in> sn_Signers s"
    and "(sg, a) \<notin> (\<lambda>v. (v_Signer v, v_Address v)) ` set (sn_Votes s)"
  shows "voting_inv (tally_vote sg n a b s)"
    and "\<forall>v \<in> set (sn_Votes (tally_vote sg n a b s)). v \<in> set (sn_Votes s) \<or> v_Signer v = sg \<and> v_Address v = a \<and> v_Authorize v = b"
proof -
  note inv = voting_invD [OF assms(1)]
  let ?v = "\<lparr>v_Signer = sg, v_Block = n, v_Address = a, v_Authorize = b\<rparr>"
  show "voting_inv (tally_vote sg n a b s)"
    and "\<forall>v \<in> set (sn_Votes (tally_vote sg n a b s)). v \<in> set (sn_Votes s) \<or> v_Signer v = sg \<and> v_Address v = a \<and> v_Authorize v = b"
  proof (atomize (full), cases "validVote s a b")
    case False
    then show "voting_inv (tally_vote sg n a b s) \<and>
        (\<forall>v \<in> set (sn_Votes (tally_vote sg n a b s)). v \<in> set (sn_Votes s) \<or> v_Signer v = sg \<and> v_Address v = a \<and> v_Authorize v = b)"
      using assms(1) by (simp add: tally_vote_def cast_def)
  next
    case True
    then have b: "b \<longleftrightarrow> a \<notin> sn_Signers s" by (auto simp: validVote_def Let_def)
    have votes: "sn_Votes (tally_vote sg n a b s) = sn_Votes s @ [?v]"
      using True by (simp add: tally_vote_def cast_def split: option.splits)
    have "sn_Tally (tally_vote sg n a b s) = tally_of (sn_Signers s) (sn_Votes s @ [?v])"
      using True inv(3) b
      by (auto simp: tally_vote_def cast_def tally_of_def fun_eq_iff split: option.splits)
    moreover have "votes_ok (sn_Signers s) (sn_Votes s @ [?v])"
      using inv(2) assms(2,3) b by (auto simp: votes_ok_def)
    ultimately show "voting_inv (tally_vote sg n a b s) \<and>
        (\<forall>v \<in> set (sn_Votes (tally_vote sg n a b s)). v \<in> set (sn_Votes s) \<or> v_Signer v = sg \<and> v_Address v = a \<and> v_Authorize v = b)"
      using inv(1) votes by (auto simp: voting_inv_def)
  qed
qed

section \<open>Enacting a vote\<close>

lemma uncast_votes_result:
  "sn_Tally s = tally_of S (pre @ vs) \<Longrightarrow> \<forall>v\<in>set vs. v_Authorize v \<longleftrightarrow> v_Address v \<notin> S \<Longrightarrow>
   uncast_votes a vs s = (kept, s') \<Longrightarrow>
   kept = filter (\<lambda>v. v_Signer v \<noteq> a) vs \<and> sn_Tally s' = tally_of S (pre @ kept) \<and>
   sn_Signers s' = sn_Signers s \<and> sn_Recents s' = sn_Recents s"
proof (induction vs arbitrary: pre s kept s')
  case Nil
  then show ?case by simp
next
  case (Cons v vs)
  show ?case
  proof (cases "v_Signer v = a")
    case True
    have "sn_Tally (snd (uncast (v_Address v) (v_Authorize v) s)) = tally_of S (pre @ vs)"
      using Cons.prems(1,2) by (intro uncast_tally) auto
    from Cons.IH [OF this, of kept s'] Cons.prems True show ?thesis by simp
  next
    case False
    then obtain kept' where k: "uncast_votes a vs s = (kept', s')" "kept = v # kept'"
      using Cons.prems(3) by (auto split: prod.splits)
    have "sn_Tally s = tally_of S ((pre @ [v]) @ vs)" using Cons.prems(1) by simp
    from Cons.IH [OF this _ k(1)] Cons.prems(2) False k(2) show ?thesis by simp
  qed
qed

lemma delete_oldest_frame [simp]:
  "sn_Signers (delete_oldest n s) = sn_Signers s" "sn_Votes (delete_oldest n s) = sn_Votes s"
  "sn_Tally (delete_oldest n s) = sn_Tally s" "sn_Number (delete_oldest n s) = sn_Number s"
  by (simp_all add: delete_oldest_def Let_def)

lemma drop_signer_result:
  assumes "voting_inv s"
  shows "sn_Signers (drop_signer a n s) = sn_Signers s - {a}"
    and "sn_Votes (drop_signer a n s) = filter (\<lambda>v. v_Signer v \<noteq> a) (sn_Votes s)"
    and "sn_Tally (drop_signer a n s) = tally_of (sn_Signers s) (filter (\<lambda>v. v_Signer v \<noteq> a) (sn_Votes s))"
    and "sn_Recents (drop_signer a n s) = sn_Recents (delete_oldest n (s\<lparr>sn_Signers := sn_Signers s - {a}\<rparr>))"
proof -
  note inv = voting_invD [OF assms]
  let ?s = "delete_oldest n (s\<lparr>sn_Signers := sn_Signers s - {a}\<rparr>)"
  obtain kept s' where u: "uncast_votes a (sn_Votes ?s) ?s = (kept, s')" by fastforce
  have "sn_Tally ?s = tally_of (sn_Signers s) ([] @ sn_Votes ?s)" using inv(3) by simp
  from uncast_votes_result [OF this _ u] inv(2)
  have "kept = filter (\<lambda>v. v_Signer v \<noteq> a) (sn_Votes s)" "sn_Tally s' = tally_of (sn_Signers s) kept"
    "sn_Signers s' = sn_Signers s - {a}" "sn_Recents s' = sn_Recents ?s"
    by (auto simp: votes_ok_def)
  with u show "sn_Signers (drop_signer a n s) = sn_Signers s - {a}"
    and "sn_Votes (drop_signer a n s) = filter (\<lambda>v. v_Signer v \<noteq> a) (sn_Votes s)"
    and "sn_Tally (drop_signer a n s) = tally_of (sn_Signers s) (filter (\<lambda>v. v_Signer v \<noteq> a) (sn_Votes s))"
    and "sn_Recents (drop_signer a n s) = sn_Recents ?s"
    by (simp_all add: drop_signer_def Let_def)
qed

lemma tally_of_change:
  "votes_on a vs = 0 \<Longrightarrow> (\<And>b. b \<noteq> a \<Longrightarrow> b \<in> S \<longleftrightarrow> b \<in> S') \<Longrightarrow> tally_of S vs = tally_of S' vs"
proof
  fix x
  assume "votes_on a vs = 0" "\<And>b. b \<noteq> a \<Longrightarrow> b \<in> S \<longleftrightarrow> b \<in> S'"
  then show "tally_of S vs x = tally_of S' vs x" by (cases "x = a") (simp_all add: tally_of_def)
qed

text \<open>The vote on \<open>a\<close> has passed: its signers flip, and what is recorded about \<open>a\<close> goes.\<close>

definition passes :: "Snapshot \<Rightarrow> Address \<Rightarrow> bool" where
  "passes s a \<longleftrightarrow> votes_on a (sn_Votes s) > card (sn_Signers s) div 2"

lemma tally_of_clear: "(tally_of S vs)(a := None) = tally_of S (filter (\<lambda>v. v_Address v \<noteq> a) vs)"
  by (auto simp: tally_of_def fun_eq_iff)

lemma votes_ok_filter: "votes_ok S vs \<Longrightarrow> votes_ok S (filter P vs)"
  unfolding votes_ok_def by (auto simp: distinct_map_filter)

lemma enact_cases:
  assumes "voting_inv s"
  shows "\<not> passes s a \<Longrightarrow> enact a n s = s"
    and "passes s a \<Longrightarrow> a \<notin> sn_Signers s \<Longrightarrow> sn_Signers (enact a n s) = insert a (sn_Signers s) \<and>
      sn_Recents (enact a n s) = sn_Recents s \<and> voting_inv (enact a n s)"
    and "passes s a \<Longrightarrow> a \<in> sn_Signers s \<Longrightarrow> sn_Signers (enact a n s) = sn_Signers s - {a} \<and>
      sn_Recents (enact a n s) = sn_Recents (delete_oldest n (s\<lparr>sn_Signers := sn_Signers s - {a}\<rparr>)) \<and>
      voting_inv (enact a n s)"
proof -
  note inv = voting_invD [OF assms]
  show "enact a n s = s" if "\<not> passes s a"
    using that inv(3) by (auto simp: enact_def passes_def tally_of_def)
  have tally: "sn_Tally s a = Some \<lparr>t_Authorize = (a \<notin> sn_Signers s), t_Votes = votes_on a (sn_Votes s)\<rparr>" if "passes s a"
    using that inv(3) by (auto simp: passes_def tally_of_def)
  show "sn_Signers (enact a n s) = insert a (sn_Signers s) \<and> sn_Recents (enact a n s) = sn_Recents s \<and> voting_inv (enact a n s)"
    if p: "passes s a" and new: "a \<notin> sn_Signers s"
  proof -
    let ?vs = "filter (\<lambda>v. v_Address v \<noteq> a) (sn_Votes s)"
    have e: "enact a n s = s\<lparr>sn_Signers := insert a (sn_Signers s), sn_Votes := ?vs, sn_Tally := (sn_Tally s)(a := None)\<rparr>"
      using tally [OF p] p new by (simp add: enact_def passes_def)
    have "votes_ok (insert a (sn_Signers s)) ?vs"
      using votes_ok_filter [OF inv(2), of "\<lambda>v. v_Address v \<noteq> a"] by (auto simp: votes_ok_def)
    moreover have "(sn_Tally s)(a := None) = tally_of (insert a (sn_Signers s)) ?vs"
      unfolding inv(3) tally_of_clear by (rule tally_of_change [of a]) auto
    ultimately show ?thesis using e inv(1) by (simp add: voting_inv_def)
  qed
  show "sn_Signers (enact a n s) = sn_Signers s - {a} \<and>
      sn_Recents (enact a n s) = sn_Recents (delete_oldest n (s\<lparr>sn_Signers := sn_Signers s - {a}\<rparr>)) \<and> voting_inv (enact a n s)"
    if p: "passes s a" and old: "a \<in> sn_Signers s"
  proof -
    note drop = drop_signer_result [OF assms, of a n]
    let ?vs = "filter (\<lambda>v. v_Address v \<noteq> a) (filter (\<lambda>v. v_Signer v \<noteq> a) (sn_Votes s))"
    let ?d = "drop_signer a n s"
    have e: "enact a n s = ?d\<lparr>sn_Votes := filter (\<lambda>v. v_Address v \<noteq> a) (sn_Votes ?d), sn_Tally := (sn_Tally ?d)(a := None)\<rparr>"
      using tally [OF p] p old by (simp add: enact_def passes_def Let_def)
    have "votes_ok (sn_Signers s - {a}) ?vs"
      using votes_ok_filter [OF votes_ok_filter [OF inv(2), of "\<lambda>v. v_Signer v \<noteq> a"], of "\<lambda>v. v_Address v \<noteq> a"]
      by (auto simp: votes_ok_def)
    moreover have "(tally_of (sn_Signers s) (filter (\<lambda>v. v_Signer v \<noteq> a) (sn_Votes s)))(a := None) = tally_of (sn_Signers s - {a}) ?vs"
      unfolding tally_of_clear by (rule tally_of_change [of a]) (simp_all only: votes_on_filter if_True, auto)
    ultimately show ?thesis using e inv(1) drop by (simp add: voting_inv_def)
  qed
qed

section \<open>One header\<close>

text \<open>The snapshot before the vote of the header is tallied.\<close>

definition admit :: "CliqueConfig \<Rightarrow> u64 \<Rightarrow> Snapshot \<Rightarrow> Snapshot" where
  "admit cfg n s = delete_oldest n (if n mod Epoch cfg = 0 then s\<lparr>sn_Votes := [], sn_Tally := Map.empty\<rparr> else s)"

lemma admit_frame [simp]: "sn_Signers (admit cfg n s) = sn_Signers s"
  by (simp add: admit_def)

lemma admit_inv: "voting_inv s \<Longrightarrow> voting_inv (admit cfg n s)"
  by (auto simp: admit_def voting_inv_def votes_ok_def tally_of_def fun_eq_iff)

lemma admit_votes: "set (sn_Votes (admit cfg n s)) \<subseteq> set (sn_Votes s)"
  by (simp add: admit_def)

text \<open>The snapshot on which the vote of a header is decided.\<close>

definition voted :: "CliqueConfig \<Rightarrow> u64 \<Rightarrow> Address \<Rightarrow> Address \<Rightarrow> bool \<Rightarrow> Snapshot \<Rightarrow> Snapshot" where
  "voted cfg n sg a b s =
     tally_vote sg n a b (discard_vote sg a
       ((admit cfg n s)\<lparr>sn_Recents := AList.update n sg (sn_Recents (admit cfg n s))\<rparr>))"

lemma apply_header_ok:
  assumes "apply_header cfg recover h s = Some (Inr s')"
  obtains n sg b where "header_number h = Some n" and "Epoch cfg \<noteq> 0" and "recover h = Some (Inr sg)"
    and "sg \<in> sn_Signers s" and "sg \<notin> snd ` set (sn_Recents (admit cfg n s))"
    and "vote_nonce (h_Nonce h) = Inr b"
    and "s' = enact (h_Coinbase h) n (voted cfg n sg (h_Coinbase h) b s)"
  using assms unfolding apply_header_def admit_def [symmetric] Let_def voted_def
  by (auto split: option.splits if_splits sum.splits)

text \<open>It keeps the invariant, and its votes are old ones or the header's.\<close>

lemma voted_inv:
  assumes "voting_inv s" and "sg \<in> sn_Signers s"
  shows "voting_inv (voted cfg n sg a b s)" and "sn_Signers (voted cfg n sg a b s) = sn_Signers s"
    and "sn_Recents (voted cfg n sg a b s) = AList.update n sg (sn_Recents (admit cfg n s))"
    and "\<forall>v\<in>set (sn_Votes (voted cfg n sg a b s)). v \<in> set (sn_Votes s) \<and> (v_Signer v, v_Address v) \<noteq> (sg, a) \<or>
      v_Signer v = sg \<and> v_Address v = a \<and> v_Authorize v = b"
proof -
  let ?s1 = "(admit cfg n s)\<lparr>sn_Recents := AList.update n sg (sn_Recents (admit cfg n s))\<rparr>"
  have s1: "voting_inv ?s1" using admit_inv [OF assms(1)] by (simp add: voting_inv_def)
  have sg: "sg \<in> sn_Signers (discard_vote sg a ?s1)" using assms(2) by simp
  note d = discard_vote_inv [OF s1, of sg a]
  note t = tally_vote_inv [OF d(1) sg d(2), of n b]
  show "voting_inv (voted cfg n sg a b s)" unfolding voted_def by (rule t(1))
  show "sn_Signers (voted cfg n sg a b s) = sn_Signers s"
    "sn_Recents (voted cfg n sg a b s) = AList.update n sg (sn_Recents (admit cfg n s))" by (simp_all add: voted_def)
  have "sn_Votes ?s1 = sn_Votes (admit cfg n s)" by simp
  then show "\<forall>v\<in>set (sn_Votes (voted cfg n sg a b s)). v \<in> set (sn_Votes s) \<and> (v_Signer v, v_Address v) \<noteq> (sg, a) \<or>
      v_Signer v = sg \<and> v_Address v = a \<and> v_Authorize v = b"
    using t(2) d(2,3) admit_votes [of cfg n s] unfolding voted_def by fastforce
qed

lemma enact_inv: "voting_inv s \<Longrightarrow> voting_inv (enact a n s)"
  using enact_cases [of s a n] by (cases "passes s a"; cases "a \<in> sn_Signers s") auto

lemma apply_header_inv:
  assumes "voting_inv s" and "apply_header cfg recover h s = Some (Inr s')"
  shows "voting_inv s'"
proof -
  obtain n sg b where "sg \<in> sn_Signers s" "s' = enact (h_Coinbase h) n (voted cfg n sg (h_Coinbase h) b s)"
    using assms(2) by (rule apply_header_ok)
  then show ?thesis using enact_inv [OF voted_inv(1) [OF assms(1)]] by simp
qed

lemma apply_headers_inv:
  "voting_inv s \<Longrightarrow> apply_headers cfg recover hs s = Some (Inr s') \<Longrightarrow> voting_inv s'"
proof (induction hs arbitrary: s)
  case (Cons h hs)
  then obtain s1 where "apply_header cfg recover h s = Some (Inr s1)" "apply_headers cfg recover hs s1 = Some (Inr s')"
    by (auto split: option.splits sum.splits)
  then show ?case using Cons.IH apply_header_inv [OF Cons.prems(1)] by blast
qed simp

lemma apply_snapshot_inv:
  assumes "voting_inv s" and "apply_snapshot cfg recover hash_of hs s = Some (Inr s')"
  shows "voting_inv s'"
proof (cases "hs = []")
  case True
  then show ?thesis using assms by (simp add: apply_snapshot_def)
next
  case False
  then obtain snap where run: "apply_headers cfg recover hs (copy_snapshot s) = Some (Inr snap)"
    and s': "s' = snap\<lparr>sn_Number := sn_Number snap + of_nat (length hs), sn_Hash := hash_of (last hs)\<rparr>"
    using assms(2) by (auto simp: apply_snapshot_def split: option.splits bool.splits if_splits sum.splits)
  have "voting_inv (copy_snapshot s)" using assms(1) by (simp add: voting_inv_def copy_snapshot_def)
  then have "voting_inv snap" using run by (rule apply_headers_inv)
  then show ?thesis by (simp add: s' voting_inv_def)
qed

lemma newSnapshot_inv: "voting_inv (newSnapshot number hash sigs)"
  by (simp add: newSnapshot_def voting_inv_def votes_ok_def tally_of_def fun_eq_iff)


section \<open>Reachable snapshots\<close>

text \<open>What the engine can hold: a fresh snapshot of a trusted checkpoint, and what \<open>apply\<close> makes of it.\<close>

inductive reachable ::
  "CliqueConfig \<Rightarrow> (Header \<Rightarrow> (clique_error + Address) option) \<Rightarrow> (Header \<Rightarrow> Hash) \<Rightarrow> Snapshot \<Rightarrow> bool"
  for cfg recover hash_of where
  fresh: "reachable cfg recover hash_of (newSnapshot number hash sigs)"
| applied: "reachable cfg recover hash_of s \<Longrightarrow> apply_snapshot cfg recover hash_of hs s = Some (Inr s') \<Longrightarrow>
    reachable cfg recover hash_of s'"

lemma reachable_inv: "reachable cfg recover hash_of s \<Longrightarrow> voting_inv s"
  by (induction rule: reachable.induct) (auto intro: newSnapshot_inv apply_snapshot_inv)

lemma enact_signers:
  assumes "voting_inv s"
  shows "sn_Signers (enact a n s) = sn_Signers s \<or>
    passes s a \<and> sn_Signers (enact a n s) = (if a \<in> sn_Signers s then sn_Signers s - {a} else insert a (sn_Signers s))"
  using enact_cases [OF assms, of a n] by (cases "passes s a"; cases "a \<in> sn_Signers s") auto

section \<open>Turns\<close>

lemma offset_of_nth: "distinct xs \<Longrightarrow> i < length xs \<Longrightarrow> offset_of (xs ! i) xs = i"
proof (induction xs arbitrary: i)
  case (Cons x xs)
  then show ?case by (cases i) (auto simp: nth_mem)
qed simp

lemma offset_of_absent: "a \<notin> set xs \<Longrightarrow> offset_of a xs = length xs"
  by (induction xs) auto

lemma offset_of_le: "offset_of a xs \<le> length xs"
  by (induction xs) auto

lemma inturn_eq:
  assumes "finite (sn_Signers s)" and "sn_Signers s \<noteq> {}" and "card (sn_Signers s) < 2 ^ 64"
  shows "inturn s n a = Some (unat n mod card (sn_Signers s) = offset_of a (signers s))"
proof -
  let ?k = "card (sn_Signers s)"
  have len: "length (signers s) = ?k" using assms(1) by (simp add: signers_def)
  have "?k \<noteq> 0" using assms(1,2) by simp
  have le: "offset_of a (signers s) \<le> length (signers s)"
    by (rule offset_of_le)
  have k: "unat (of_nat ?k :: u64) = ?k" using assms(3) by (simp add: unat_of_nat)
  have o: "unat (of_nat (offset_of a (signers s)) :: u64) = offset_of a (signers s)"
    using le len assms(3) by (simp add: unat_of_nat)
  have "signers s \<noteq> []" using len \<open>?k \<noteq> 0\<close> by auto
  then show ?thesis
    using \<open>?k \<noteq> 0\<close> by (simp add: inturn_def Let_def len word_unat_eq_iff unat_mod k o)
qed

section \<open>A concrete committee\<close>

text \<open>Four signers; the header's signer is read off its extra data.\<close>

definition ex_header :: "nat \<Rightarrow> Address \<Rightarrow> u64 \<Rightarrow> byte \<Rightarrow> Header" where
  "ex_header n coinbase nonce signer = \<lparr>h_ParentHash = 0, h_UncleHash = 0, h_Coinbase = coinbase, h_Root = 0,
     h_TxHash = 0, h_ReceiptHash = 0, h_Bloom = 0, h_Difficulty = Some 1, h_Number = Some n, h_GasLimit = 0,
     h_GasUsed = 0, h_Time = 0, h_Extra = [signer], h_MixDigest = 0, h_Nonce = nonce, h_BaseFee = None,
     h_WithdrawalsHash = None, h_BlobGasUsed = None, h_ExcessBlobGas = None, h_ParentBeaconRoot = None,
     h_RequestsHash = None, h_SlotNumber = None\<rparr>"

definition ex_recover :: "Header \<Rightarrow> (clique_error + Address) option" where
  "ex_recover h = Some (Inr (ucast (hd (h_Extra h))))"

definition ex_cfg :: CliqueConfig where
  "ex_cfg = \<lparr>Period = 15, Epoch = 30000\<rparr>"

definition ex_snap :: Snapshot where
  "ex_snap = newSnapshot 0 0 [1, 2, 3]"

definition ex_voted_snap :: Snapshot where
  "ex_voted_snap = (newSnapshot 1 0 [1, 2, 3])\<lparr>sn_Recents := [(1, 1)],
     sn_Votes := [\<lparr>v_Signer = 1, v_Block = 1, v_Address = 9, v_Authorize = True\<rparr>],
     sn_Tally := [9 \<mapsto> \<lparr>t_Authorize = True, t_Votes = 1\<rparr>]\<rparr>"

lemmas ex_clique_defs = ex_snap_def ex_voted_snap_def ex_header_def ex_recover_def ex_cfg_def newSnapshot_def

lemmas clique_eval = apply_header_def header_number_def delete_oldest_def sign_limit_def discard_vote_def vote_nonce_def
  nonceAuthVote_def nonceDropVote_def tally_vote_def cast_def validVote_def uncast_def enact_def drop_signer_def Let_def


lemma ex_last_step:
  "\<exists>s'. apply_header ex_cfg ex_recover (ex_header 1 7 nonceDropVote 7) (newSnapshot 0 0 [7]) = Some (Inr s') \<and>
     sn_Signers s' = {}"
  by (simp add: ex_clique_defs clique_eval)


section \<open>Properties of voting\<close>

text \<open>
  C23. In every snapshot the engine can reach from a trusted checkpoint by applying headers, the cached
  tally is exactly the count of the recorded votes; no signer has two votes on one account; and
  every recorded vote was cast by a current signer and would still change the account's status.
\<close>

theorem reachable_tally_exact:
  assumes "reachable cfg recover hash_of s"
  shows "sn_Tally s = tally_of (sn_Signers s) (sn_Votes s) \<and>
    distinct (map (\<lambda>v. (v_Signer v, v_Address v)) (sn_Votes s)) \<and>
    (\<forall>v\<in>set (sn_Votes s). v_Signer v \<in> sn_Signers s \<and> validVote s (v_Address v) (v_Authorize v))"
  using voting_invD [OF reachable_inv [OF assms]] by (auto simp: votes_ok_def validVote_def Let_def)

theorem reachable_tally_exact_witness:
  "\<exists>s'. apply_snapshot ex_cfg ex_recover h_Root [ex_header 1 9 nonceAuthVote 1] ex_snap = Some (Inr s') \<and>
    votes_on 9 (sn_Votes s') = 1 \<and> sn_Tally s' 9 = Some \<lparr>t_Authorize = True, t_Votes = 1\<rparr>"
proof -
  have "\<exists>s'. apply_snapshot ex_cfg ex_recover h_Root [ex_header 1 9 nonceAuthVote 1] ex_snap = Some (Inr s') \<and>
      votes_on 9 (sn_Votes s') = 1 \<and> sn_Signers s' = {1, 2, 3}"
    by (simp add: apply_snapshot_def copy_snapshot_def ex_clique_defs clique_eval)
  then obtain s' where s': "apply_snapshot ex_cfg ex_recover h_Root [ex_header 1 9 nonceAuthVote 1] ex_snap = Some (Inr s')"
    and v: "votes_on 9 (sn_Votes s') = 1" and sg: "sn_Signers s' = {1, 2, 3}" by blast
  have "reachable ex_cfg ex_recover h_Root ex_snap" unfolding ex_snap_def by (rule reachable.fresh)
  from reachable_tally_exact [OF reachable.applied [OF this s']] v sg
  have "sn_Tally s' 9 = Some \<lparr>t_Authorize = True, t_Votes = 1\<rparr>" by (simp add: tally_of_def)
  with s' v show ?thesis by blast
qed



text \<open>
  The committee can vote itself out of existence in one way only: a header that leaves no signer is
  the last signer's vote to drop itself; afterwards asking whose turn it is divides by zero.
\<close>

theorem signers_emptied_only_by_last:
  assumes "voting_inv s" and "apply_header cfg recover h s = Some (Inr s')" and "sn_Signers s' = {}"
  shows "\<exists>sg. sn_Signers s = {sg} \<and> recover h = Some (Inr sg) \<and> h_Coinbase h = sg \<and> h_Nonce h = nonceDropVote \<and>
    (\<forall>number a. inturn s' number a = None)"
proof -
  let ?a = "h_Coinbase h"
  obtain n sg b where rec: "recover h = Some (Inr sg)" and sg: "sg \<in> sn_Signers s" and nonce: "vote_nonce (h_Nonce h) = Inr b"
    and s': "s' = enact ?a n (voted cfg n sg ?a b s)"
    using assms(2) by (rule apply_header_ok)
  let ?s2 = "voted cfg n sg ?a b s"
  note v = voted_inv [OF assms(1) sg, of cfg n ?a b]
  have "sn_Signers s' \<noteq> sn_Signers s" using assms(3) sg by auto
  then have p: "passes ?s2 ?a" and "sn_Signers s' = (if ?a \<in> sn_Signers s then sn_Signers s - {?a} else insert ?a (sn_Signers s))"
    using enact_signers [OF v(1), of ?a n] s' v(2) by auto
  then have S: "sn_Signers s = {?a}" using assms(3) sg by (auto split: if_splits)
  then have a: "?a = sg" using sg by simp
  have "votes_on ?a (sn_Votes ?s2) \<noteq> 0" using p by (simp add: passes_def)
  then obtain w where w: "w \<in> set (sn_Votes ?s2)" "v_Address w = ?a" by (auto simp: votes_on_def filter_empty_conv)
  have ok: "v_Signer w \<in> {?a}" "v_Authorize w \<longleftrightarrow> v_Address w \<notin> {?a}"
    using voting_invD(2) [OF v(1)] v(2) S w(1) by (auto simp: votes_ok_def)
  then have "v_Authorize w = b" using v(4) w a by auto
  then have "\<not> b" using ok(2) w(2) by simp
  then have "h_Nonce h = nonceDropVote" using nonce by (auto simp: vote_nonce_def split: if_splits)
  moreover have "inturn s' number x = None" for number x using assms(3) by (simp add: inturn_def signers_def)
  ultimately show ?thesis using S a rec by auto
qed

theorem signers_emptied_only_by_last_witness:
  "\<exists>s' sg. apply_header ex_cfg ex_recover (ex_header 1 7 nonceDropVote 7) (newSnapshot 0 0 [7]) = Some (Inr s') \<and>
    sn_Signers (newSnapshot 0 0 [7]) = {sg} \<and> (\<forall>number a. inturn s' number a = None)"
proof -
  obtain s' where step: "apply_header ex_cfg ex_recover (ex_header 1 7 nonceDropVote 7) (newSnapshot 0 0 [7]) = Some (Inr s')"
    and "sn_Signers s' = {}" using ex_last_step by blast
  from signers_emptied_only_by_last [OF newSnapshot_inv this] step show ?thesis by blast
qed

text \<open>
  At every height exactly one signer is in turn, and an account that is not a signer never is.
\<close>

theorem exactly_one_in_turn:
  assumes "voting_inv s" and "sn_Signers s \<noteq> {}" and "card (sn_Signers s) < 2 ^ 64"
  shows "(\<exists>!a. inturn s number a = Some True) \<and> (\<forall>a. inturn s number a = Some True \<longrightarrow> a \<in> sn_Signers s)"
proof -
  let ?xs = "signers s" and ?k = "card (sn_Signers s)"
  have fin: "finite (sn_Signers s)" using voting_invD(1) [OF assms(1)] .
  have xs: "distinct ?xs" "set ?xs = sn_Signers s" "length ?xs = ?k" using fin by (simp_all add: signers_def)
  have turn: "inturn s number a = Some True \<longleftrightarrow> unat number mod ?k = offset_of a ?xs" for a
    using inturn_eq [OF fin assms(2,3)] by simp
  have lt: "unat number mod ?k < length ?xs" using fin assms(2) xs(3) by (simp add: card_gt_0_iff)
  have "offset_of a ?xs = unat number mod ?k \<longleftrightarrow> a = ?xs ! (unat number mod ?k)" for a
  proof (cases "a \<in> set ?xs")
    case True
    then obtain i where "i < length ?xs" "a = ?xs ! i" by (metis in_set_conv_nth)
    then show ?thesis using offset_of_nth [OF xs(1)] nth_eq_iff_index_eq [OF xs(1)] lt by simp
  next
    case False
    then show ?thesis using offset_of_absent [OF False] lt nth_mem [OF lt] by auto
  qed
  then have "inturn s number a = Some True \<longleftrightarrow> a = ?xs ! (unat number mod ?k)" for a using turn by metis
  then show ?thesis using nth_mem [OF lt] xs(2) by auto
qed

theorem exactly_one_in_turn_witness: "\<exists>!a. inturn ex_snap 5 a = Some True"
proof -
  have "voting_inv ex_snap" unfolding ex_snap_def by (rule newSnapshot_inv)
  from exactly_one_in_turn [OF this, of 5] show ?thesis by (simp add: ex_snap_def newSnapshot_def)
qed

end
