(* ===== verification/Clique.thy ===== *)
theory Clique
  imports Clique_Snapshot Lru Chain_Config
begin

text \<open>
  The proof-of-authority engine of the patched client, \<^verbatim>\<open>src/go-ethereum/consensus/clique/clique.go\<close>, with
  the gas-limit and base-fee rules it calls (\<^verbatim>\<open>consensus/misc/gaslimit.go\<close>, \<^verbatim>\<open>misc/eip1559/eip1559.go\<close>)
  over the chain configuration. Parameters (\<open>clique_libs\<close>): header hashing, RLP,
  Keccak-256, public-key recovery, JSON, the key-value store and the empty uncle hash. \<open>None\<close> is a
  panic or a loop that does not end.

  \<open>ecrecover\<close> reads and fills the signature cache the engine and its snapshots share, so the cache
  is threaded through everything that recovers a signer; \<open>recover_signer\<close> is the part of \<open>ecrecover\<close>
  behind the cache.
\<close>

section \<open>Gas limit and base fee\<close>

definition ElasticityMultiplier :: u64 where
  "ElasticityMultiplier = 2"

definition BaseFeeChangeDenominator :: u64 where
  "BaseFeeChangeDenominator = 8"

definition InitialBaseFee :: nat where
  "InitialBaseFee = 1000000000"

text \<open>\<open>int64\<close> subtraction and negation wrap; the comparison is on \<open>uint64\<close> again.\<close>

definition VerifyGaslimit :: "u64 \<Rightarrow> u64 \<Rightarrow> clique_error + unit" where
  "VerifyGaslimit parentGasLimit headerGasLimit =
     (let diff = parentGasLimit - headerGasLimit;
          diff = (if sint diff < 0 then diff * - 1 else diff);
          limit = parentGasLimit div 1024
      in if diff \<ge> limit then Inl ErrGasLimit
         else if headerGasLimit < 5000 then Inl ErrGasLimit
         else Inr ())"

text \<open>\<open>None\<close>: a nil base fee, or a division by a gas target of zero.\<close>

definition CalcBaseFee :: "ChainConfig \<Rightarrow> Header \<Rightarrow> nat option" where
  "CalcBaseFee cfg parent =
     (if \<not> cfg_IsLondon cfg (h_Number parent) then Some InitialBaseFee
      else
        (let parentGasTarget = h_GasLimit parent div ElasticityMultiplier
         in if h_GasUsed parent = parentGasTarget then h_BaseFee parent
            else
              (case h_BaseFee parent of
                 None \<Rightarrow> None
               | Some baseFee \<Rightarrow>
                   if parentGasTarget = 0 then None
                   else if h_GasUsed parent > parentGasTarget then
                     (let num = unat (h_GasUsed parent - parentGasTarget);
                          num = num * baseFee;
                          num = num div unat parentGasTarget;
                          num = num div unat BaseFeeChangeDenominator
                      in if num < 1 then Some (baseFee + 1) else Some (baseFee + num))
                   else
                     (let num = unat (parentGasTarget - h_GasUsed parent);
                          num = num * baseFee;
                          num = num div unat parentGasTarget;
                          num = num div unat BaseFeeChangeDenominator;
                          fee = int baseFee - int num
                      in Some (if fee < 0 then 0 else nat fee)))))"

definition VerifyEIP1559Header :: "ChainConfig \<Rightarrow> Header \<Rightarrow> Header \<Rightarrow> (clique_error + unit) option" where
  "VerifyEIP1559Header cfg parent header =
     (let parentGasLimit = (if \<not> cfg_IsLondon cfg (h_Number parent) then h_GasLimit parent * ElasticityMultiplier
                            else h_GasLimit parent)
      in case VerifyGaslimit parentGasLimit (h_GasLimit header) of
           Inl err \<Rightarrow> Some (Inl err)
         | Inr _ \<Rightarrow>
             (case h_BaseFee header of
                None \<Rightarrow> Some (Inl ErrMissingBaseFee)
              | Some baseFee \<Rightarrow>
                  if cfg_IsLondon cfg (h_Number parent) \<and> h_BaseFee parent = None then Some (Inl ErrParentMissingBaseFee)
                  else
                    (case CalcBaseFee cfg parent of
                       None \<Rightarrow> None
                     | Some expectedBaseFee \<Rightarrow>
                         if baseFee \<noteq> expectedBaseFee then Some (Inl ErrWrongBaseFee) else Some (Inr ()))))"

section \<open>Seals\<close>

datatype rlp_item = RHash Hash | RAddress Address | RBloom "2048 word" | RBig "nat option" | RUint u64 | RBytes bytes | RNonce u64

record 'd clique_libs =
  HashOf :: "Header \<Rightarrow> Hash"
  EncodeRLP :: "rlp_item list \<Rightarrow> bytes"
  sealKeccak256 :: "bytes \<Rightarrow> bytes"
  sealEcrecover :: "bytes \<Rightarrow> bytes \<Rightarrow> string + bytes"
  MarshalSnapshot :: "Snapshot \<Rightarrow> string + bytes"
  UnmarshalSnapshot :: "bytes \<Rightarrow> string + Snapshot"
  DbGet :: "'d \<Rightarrow> bytes \<Rightarrow> string + bytes"
  DbPut :: "'d \<Rightarrow> bytes \<Rightarrow> bytes \<Rightarrow> string + 'd"
  uncleHash :: Hash

definition extraVanity :: nat where
  "extraVanity = 32"

definition extraSeal :: nat where
  "extraSeal = 65"

definition encodeSigHeader :: "'d clique_libs \<Rightarrow> Header \<Rightarrow> bytes option" where
  "encodeSigHeader L header =
     (if length (h_Extra header) < extraSeal then None
      else
        (let enc = [RHash (h_ParentHash header), RHash (h_UncleHash header), RAddress (h_Coinbase header),
               RHash (h_Root header), RHash (h_TxHash header), RHash (h_ReceiptHash header), RBloom (h_Bloom header),
               RBig (h_Difficulty header), RBig (h_Number header), RUint (h_GasLimit header), RUint (h_GasUsed header),
               RUint (h_Time header), RBytes (take (length (h_Extra header) - extraSeal) (h_Extra header)),
               RHash (h_MixDigest header), RNonce (h_Nonce header)];
             enc = (if h_BaseFee header \<noteq> None then enc @ [RBig (h_BaseFee header)] else enc)
         in if h_WithdrawalsHash header \<noteq> None then None
            else if h_ExcessBlobGas header \<noteq> None then None
            else if h_BlobGasUsed header \<noteq> None then None
            else if h_ParentBeaconRoot header \<noteq> None then None
            else if h_SlotNumber header \<noteq> None then None
            else Some (EncodeRLP L enc)))"

definition SealHash :: "'d clique_libs \<Rightarrow> Header \<Rightarrow> Hash option" where
  "SealHash L header = map_option (\<lambda>b. BytesToHash (sealKeccak256 L b)) (encodeSigHeader L header)"

definition recover_signer :: "'d clique_libs \<Rightarrow> Header \<Rightarrow> (clique_error + Address) option" where
  "recover_signer L header =
     (if length (h_Extra header) < extraSeal then Some (Inl errMissingSignature)
      else
        (let signature = drop (length (h_Extra header) - extraSeal) (h_Extra header)
         in case SealHash L header of
              None \<Rightarrow> None
            | Some hash \<Rightarrow>
                (case sealEcrecover L (hash_bytes hash) signature of
                   Inl err \<Rightarrow> Some (Inl (ErrRecover err))
                 | Inr pubkey \<Rightarrow> Some (Inr (BytesToAddress (drop 12 (sealKeccak256 L (drop 1 pubkey))))))))"

type_synonym sigLRU = "(Hash, Address) BasicLRU"

definition ecrecover_header ::
  "'d clique_libs \<Rightarrow> Header \<Rightarrow> sigLRU \<Rightarrow> ((clique_error + Address) \<times> sigLRU) option" where
  "ecrecover_header L header sigcache =
     (let hash = HashOf L header
      in case lru_Get sigcache hash of
           (Some address, sigcache) \<Rightarrow> Some (Inr address, sigcache)
         | (None, sigcache) \<Rightarrow>
             (case recover_signer L header of
                None \<Rightarrow> None
              | Some (Inl err) \<Rightarrow> Some (Inl err, sigcache)
              | Some (Inr signer) \<Rightarrow>
                  (case lru_Add sigcache hash signer of
                     None \<Rightarrow> None
                   | Some (_, sigcache) \<Rightarrow> Some (Inr signer, sigcache))))"

section \<open>Applying headers with the cache\<close>

text \<open>
  The loop of \<open>apply\<close> recovers each signer through the cache. Apart from the cache a round is
  \<open>apply_header\<close>, which neither reads nor writes it.
\<close>

fun apply_headers_cached ::
  "'d clique_libs \<Rightarrow> CliqueConfig \<Rightarrow> Header list \<Rightarrow> Snapshot \<Rightarrow> sigLRU \<Rightarrow> ((clique_error + Snapshot) \<times> sigLRU) option" where
  "apply_headers_cached L cfg [] s sigcache = Some (Inr s, sigcache)"
| "apply_headers_cached L cfg (h # hs) s sigcache =
     (case ecrecover_header L h sigcache of
        None \<Rightarrow> None
      | Some (signer, sigcache) \<Rightarrow>
          (case apply_header cfg (\<lambda>_. Some signer) h s of
             None \<Rightarrow> None
           | Some (Inl err) \<Rightarrow> Some (Inl err, sigcache)
           | Some (Inr s) \<Rightarrow> apply_headers_cached L cfg hs s sigcache))"

definition apply_snapshot_cached ::
  "'d clique_libs \<Rightarrow> CliqueConfig \<Rightarrow> Header list \<Rightarrow> Snapshot \<Rightarrow> sigLRU \<Rightarrow> ((clique_error + Snapshot) \<times> sigLRU) option" where
  "apply_snapshot_cached L cfg headers s sigcache =
     (if headers = [] then Some (Inr s, sigcache)
      else
        (case contiguous headers of
           None \<Rightarrow> None
         | Some False \<Rightarrow> Some (Inl errInvalidVotingChain, sigcache)
         | Some True \<Rightarrow>
             (case header_number (hd headers) of
                None \<Rightarrow> None
              | Some n \<Rightarrow>
                  if n \<noteq> sn_Number s + 1 then Some (Inl errInvalidVotingChain, sigcache)
                  else
                    (case apply_headers_cached L cfg headers (copy_snapshot s) sigcache of
                       Some (Inr snap, sigcache) \<Rightarrow>
                         Some (Inr (snap\<lparr>sn_Number := sn_Number snap + of_nat (length headers),
                           sn_Hash := HashOf L (last headers)\<rparr>), sigcache)
                     | r \<Rightarrow> r))))"

section \<open>The engine\<close>

record 'd Clique =
  c_config :: CliqueConfig
  c_db :: 'd
  c_recents :: "(Hash, Snapshot) BasicLRU"
  c_signatures :: sigLRU
  c_proposals :: "(Address \<times> bool) list"
  c_signer :: Address
  c_fakeDiff :: bool

record chain_reader =
  GetHeader :: "Hash \<Rightarrow> u64 \<Rightarrow> Header option"
  GetHeaderByNumber :: "u64 \<Rightarrow> Header option"
  Config :: ChainConfig

definition epochLength :: u64 where
  "epochLength = 30000"

definition New :: "CliqueConfig \<Rightarrow> 'd \<Rightarrow> 'd Clique" where
  "New config db =
     (let conf = (if Epoch config = 0 then config\<lparr>Epoch := epochLength\<rparr> else config)
      in \<lparr>c_config = conf, c_db = db, c_recents = NewBasicLRU 128, c_signatures = NewBasicLRU 4096,
          c_proposals = [], c_signer = 0, c_fakeDiff = False\<rparr>)"

definition Authorize :: "'d Clique \<Rightarrow> Address \<Rightarrow> 'd Clique" where
  "Authorize c signer = c\<lparr>c_signer := signer\<rparr>"

definition snapshot_key :: "Hash \<Rightarrow> bytes" where
  "snapshot_key hash = map of_char ''clique-'' @ hash_bytes hash"

definition loadSnapshot :: "'d clique_libs \<Rightarrow> 'd \<Rightarrow> Hash \<Rightarrow> clique_error + Snapshot" where
  "loadSnapshot L db hash =
     ebind (wrap_err ErrDatabase (DbGet L db (snapshot_key hash))) (\<lambda>blob.
     ebind (wrap_err ErrDatabase (UnmarshalSnapshot L blob)) Inr)"

definition store :: "'d clique_libs \<Rightarrow> Snapshot \<Rightarrow> 'd \<Rightarrow> clique_error + 'd" where
  "store L s db =
     ebind (wrap_err ErrDatabase (MarshalSnapshot L s)) (\<lambda>blob.
     wrap_err ErrDatabase (DbPut L db (snapshot_key (sn_Hash s)) blob))"

text \<open>
  The signers of a checkpoint header, 20 bytes each after the vanity. The division truncates towards
  zero: only with 20 bytes or more missing is the length of the new slice negative.
\<close>

definition checkpoint_signers :: "bytes \<Rightarrow> Address list option" where
  "checkpoint_signers extra =
     (if length extra + 20 \<le> extraVanity + extraSeal then None
      else
        Some (map (\<lambda>i. BytesToAddress (slice extra (extraVanity + i * 20) (extraVanity + i * 20 + 20)))
               [0..<(length extra - extraVanity - extraSeal) div 20]))"

text \<open>
  The backward search of \<open>snapshot\<close>. It returns the base snapshot and the headers gathered, newest
  first as the code appends them.
\<close>

partial_function (option) find_snapshot ::
  "'d clique_libs \<Rightarrow> chain_reader \<Rightarrow> u64 \<Rightarrow> Hash \<Rightarrow> Header list \<Rightarrow> Header list \<Rightarrow> 'd Clique \<Rightarrow>
     ((clique_error + Snapshot \<times> Header list) \<times> 'd Clique) option" where
  "find_snapshot L chain number hash parents headers c =
     (case lru_Get (c_recents c) hash of
        (Some s, recents) \<Rightarrow> Some (Inr (s, headers), c\<lparr>c_recents := recents\<rparr>)
      | (None, recents) \<Rightarrow>
          (let disk = (if number mod 1024 = 0
                       then (case loadSnapshot L (c_db c) hash of Inl _ \<Rightarrow> None | Inr s \<Rightarrow> Some s) else None)
           in case disk of
                Some s \<Rightarrow> Some (Inr (s, headers), c)
              | None \<Rightarrow>
                  if number \<noteq> 0 \<and> Epoch (c_config c) = 0 then None
                  else
                    (case (if number = 0 \<or> (number mod Epoch (c_config c) = 0 \<and>
                             (length headers > 90000 \<or> GetHeaderByNumber chain (number - 1) = None))
                           then GetHeaderByNumber chain number else None) of
                       Some checkpoint \<Rightarrow>
                         (case checkpoint_signers (h_Extra checkpoint) of
                            None \<Rightarrow> None
                          | Some sigs \<Rightarrow>
                              (let snap = newSnapshot number (HashOf L checkpoint) sigs
                               in case store L snap (c_db c) of
                                    Inl err \<Rightarrow> Some (Inl err, c)
                                  | Inr db \<Rightarrow> Some (Inr (snap, headers), c\<lparr>c_db := db\<rparr>)))
                     | None \<Rightarrow>
                         if parents \<noteq> [] then
                           (let header = last parents
                            in case header_number header of
                                 None \<Rightarrow> None
                               | Some n \<Rightarrow>
                                   if HashOf L header \<noteq> hash \<or> n \<noteq> number then Some (Inl ErrUnknownAncestor, c)
                                   else find_snapshot L chain (number - 1) (h_ParentHash header) (butlast parents)
                                          (headers @ [header]) c)
                         else
                           (case GetHeader chain hash number of
                              None \<Rightarrow> Some (Inl ErrUnknownAncestor, c)
                            | Some header \<Rightarrow>
                                find_snapshot L chain (number - 1) (h_ParentHash header) parents
                                  (headers @ [header]) c))))"

definition snapshot ::
  "'d clique_libs \<Rightarrow> chain_reader \<Rightarrow> u64 \<Rightarrow> Hash \<Rightarrow> Header list \<Rightarrow> 'd Clique \<Rightarrow>
     ((clique_error + Snapshot) \<times> 'd Clique) option" where
  "snapshot L chain number hash parents c =
     (case find_snapshot L chain number hash parents [] c of
        None \<Rightarrow> None
      | Some (Inl err, c) \<Rightarrow> Some (Inl err, c)
      | Some (Inr (base, headers), c) \<Rightarrow>
          (case apply_snapshot_cached L (c_config c) (rev headers) base (c_signatures c) of
             None \<Rightarrow> None
           | Some (Inl err, sigs) \<Rightarrow> Some (Inl err, c\<lparr>c_signatures := sigs\<rparr>)
           | Some (Inr snap, sigs) \<Rightarrow>
               (case lru_Add (c_recents c) (sn_Hash snap) snap of
                  None \<Rightarrow> None
                | Some (_, recents) \<Rightarrow>
                    (let c = c\<lparr>c_signatures := sigs, c_recents := recents\<rparr>
                     in if sn_Number snap mod 1024 = 0 \<and> length headers > 0
                        then (case store L snap (c_db c) of
                                Inl err \<Rightarrow> Some (Inl err, c)
                              | Inr db \<Rightarrow> Some (Inr snap, c\<lparr>c_db := db\<rparr>))
                        else Some (Inr snap, c)))))"

definition diffInTurn :: nat where
  "diffInTurn = 2"

definition diffNoTurn :: nat where
  "diffNoTurn = 1"

definition calcDifficulty :: "Snapshot \<Rightarrow> Address \<Rightarrow> nat option" where
  "calcDifficulty snap signer =
     map_option (\<lambda>turn. if turn then diffInTurn else diffNoTurn) (inturn snap (sn_Number snap + 1) signer)"

definition Author :: "'d clique_libs \<Rightarrow> 'd Clique \<Rightarrow> Header \<Rightarrow> ((clique_error + Address) \<times> 'd Clique) option" where
  "Author L c header =
     map_option (\<lambda>(r, sigs). (r, c\<lparr>c_signatures := sigs\<rparr>)) (ecrecover_header L header (c_signatures c))"

text \<open>The checks of \<open>verifySeal\<close> once the signer is known.\<close>

definition check_signer :: "bool \<Rightarrow> Snapshot \<Rightarrow> Header \<Rightarrow> u64 \<Rightarrow> Address \<Rightarrow> (clique_error + unit) option" where
  "check_signer fake snap header number signer =
     (if signer \<notin> sn_Signers snap then Some (Inl errUnauthorizedSigner)
      else if \<exists>(seen, recent) \<in> set (sn_Recents snap). recent = signer \<and> seen > number - sign_limit snap
      then Some (Inl errRecentlySigned)
      else if \<not> fake then
        (case (inturn snap number signer, h_Difficulty header) of
           (Some turn, Some difficulty) \<Rightarrow>
             if turn \<and> difficulty \<noteq> diffInTurn then Some (Inl errWrongDifficulty)
             else if \<not> turn \<and> difficulty \<noteq> diffNoTurn then Some (Inl errWrongDifficulty)
             else Some (Inr ())
         | _ \<Rightarrow> None)
      else Some (Inr ()))"

definition verifySeal ::
  "'d clique_libs \<Rightarrow> 'd Clique \<Rightarrow> Snapshot \<Rightarrow> Header \<Rightarrow> ((clique_error + unit) \<times> 'd Clique) option" where
  "verifySeal L c snap header =
     (case header_number header of
        None \<Rightarrow> None
      | Some number \<Rightarrow>
          if number = 0 then Some (Inl errUnknownBlock, c)
          else
            (case ecrecover_header L header (c_signatures c) of
               None \<Rightarrow> None
             | Some (Inl err, sigs) \<Rightarrow> Some (Inl err, c\<lparr>c_signatures := sigs\<rparr>)
             | Some (Inr signer, sigs) \<Rightarrow>
                 map_option (\<lambda>r. (r, c\<lparr>c_signatures := sigs\<rparr>)) (check_signer (c_fakeDiff c) snap header number signer)))"

definition signer_bytes :: "Snapshot \<Rightarrow> bytes" where
  "signer_bytes snap = concat (map addr_bytes (signers snap))"

definition verifyCascadingFields ::
  "'d clique_libs \<Rightarrow> chain_reader \<Rightarrow> Header \<Rightarrow> Header list \<Rightarrow> 'd Clique \<Rightarrow> ((clique_error + unit) \<times> 'd Clique) option" where
  "verifyCascadingFields L chain header parents c =
     (case header_number header of
        None \<Rightarrow> None
      | Some number \<Rightarrow>
          if number = 0 then Some (Inr (), c)
          else
            (case (if parents \<noteq> [] then Some (last parents) else GetHeader chain (h_ParentHash header) (number - 1)) of
               None \<Rightarrow> Some (Inl ErrUnknownAncestor, c)
             | Some parent \<Rightarrow>
                 (case header_number parent of
                    None \<Rightarrow> None
                  | Some pn \<Rightarrow>
                      if pn \<noteq> number - 1 \<or> HashOf L parent \<noteq> h_ParentHash header then Some (Inl ErrUnknownAncestor, c)
                      else if h_Time parent + Period (c_config c) > h_Time header then Some (Inl errInvalidTimestamp, c)
                      else if h_GasUsed header > h_GasLimit header then Some (Inl ErrGasUsed, c)
                      else
                        (case (if \<not> cfg_IsLondon (Config chain) (h_Number header)
                               then (if h_BaseFee header \<noteq> None then Some (Inl ErrBaseFeeBeforeFork)
                                     else Some (VerifyGaslimit (h_GasLimit parent) (h_GasLimit header)))
                               else VerifyEIP1559Header (Config chain) parent header) of
                           None \<Rightarrow> None
                         | Some (Inl err) \<Rightarrow> Some (Inl err, c)
                         | Some (Inr _) \<Rightarrow>
                             (case snapshot L chain (number - 1) (h_ParentHash header) parents c of
                                None \<Rightarrow> None
                              | Some (Inl err, c) \<Rightarrow> Some (Inl err, c)
                              | Some (Inr snap, c) \<Rightarrow>
                                  if Epoch (c_config c) = 0 then None
                                  else if number mod Epoch (c_config c) = 0 \<and>
                                     slice (h_Extra header) extraVanity (length (h_Extra header) - extraSeal) \<noteq> signer_bytes snap
                                  then Some (Inl errMismatchingCheckpointSigners, c)
                                  else verifySeal L c snap header)))))"

definition verifyHeader ::
  "'d clique_libs \<Rightarrow> u64 \<Rightarrow> chain_reader \<Rightarrow> Header \<Rightarrow> Header list \<Rightarrow> 'd Clique \<Rightarrow> ((clique_error + unit) \<times> 'd Clique) option" where
  "verifyHeader L now chain header parents c =
     (case header_number header of
        None \<Rightarrow> Some (Inl errUnknownBlock, c)
      | Some number \<Rightarrow>
          if h_Time header > now then Some (Inl ErrFutureBlock, c)
          else if Epoch (c_config c) = 0 then None
          else
            (let checkpoint = (number mod Epoch (c_config c) = 0)
             in if checkpoint \<and> h_Coinbase header \<noteq> 0 then Some (Inl errInvalidCheckpointBeneficiary, c)
                else if h_Nonce header \<noteq> nonceAuthVote \<and> h_Nonce header \<noteq> nonceDropVote then Some (Inl errInvalidVote, c)
                else if checkpoint \<and> h_Nonce header \<noteq> nonceDropVote then Some (Inl errInvalidCheckpointVote, c)
                else if length (h_Extra header) < extraVanity then Some (Inl errMissingVanity, c)
                else if length (h_Extra header) < extraVanity + extraSeal then Some (Inl errMissingSignature, c)
                else
                  (let signersBytes = length (h_Extra header) - extraVanity - extraSeal
                   in if \<not> checkpoint \<and> signersBytes \<noteq> 0 then Some (Inl errExtraSigners, c)
                      else if checkpoint \<and> signersBytes mod 20 \<noteq> 0 then Some (Inl errInvalidCheckpointSigners, c)
                      else if h_MixDigest header \<noteq> 0 then Some (Inl errInvalidMixDigest, c)
                      else if h_UncleHash header \<noteq> uncleHash L then Some (Inl errInvalidUncleHash, c)
                      else if number > 0 \<and> h_Difficulty header \<noteq> Some diffInTurn \<and> h_Difficulty header \<noteq> Some diffNoTurn
                      then Some (Inl errInvalidDifficulty, c)
                      else if h_GasLimit header > 0x7fffffffffffffff then Some (Inl ErrGasLimit, c)
                      else if cfg_IsShanghai (Config chain) (h_Number header) (h_Time header) then Some (Inl ErrShanghai, c)
                      else if h_WithdrawalsHash header \<noteq> None then Some (Inl ErrWithdrawalsHash, c)
                      else if cfg_IsCancun (Config chain) (h_Number header) (h_Time header) then Some (Inl ErrCancun, c)
                      else if h_ExcessBlobGas header \<noteq> None \<or> h_BlobGasUsed header \<noteq> None \<or>
                              h_ParentBeaconRoot header \<noteq> None \<or> h_SlotNumber header \<noteq> None
                      then Some (Inl ErrBlobField, c)
                      else verifyCascadingFields L chain header parents c)))"

definition VerifyHeader :: "'d clique_libs \<Rightarrow> u64 \<Rightarrow> chain_reader \<Rightarrow> Header \<Rightarrow> 'd Clique \<Rightarrow> ((clique_error + unit) \<times> 'd Clique) option" where
  "VerifyHeader L now chain header c = verifyHeader L now chain header [] c"

text \<open>
  The goroutine of \<open>VerifyHeaders\<close>: the results sent, in order, when nobody aborts; an abort cuts the
  list short. \<open>now\<close> gives the clock at each round.
\<close>

fun verify_batch ::
  "'d clique_libs \<Rightarrow> (nat \<Rightarrow> u64) \<Rightarrow> chain_reader \<Rightarrow> Header list \<Rightarrow> Header list \<Rightarrow> 'd Clique \<Rightarrow>
     ((clique_error + unit) list \<times> 'd Clique) option" where
  "verify_batch L now chain seen [] c = Some ([], c)"
| "verify_batch L now chain seen (header # headers) c =
     (case verifyHeader L (now (length seen)) chain header seen c of
        None \<Rightarrow> None
      | Some (err, c) \<Rightarrow>
          map_option (\<lambda>(errs, c). (err # errs, c)) (verify_batch L now chain (seen @ [header]) headers c))"

definition VerifyHeaders ::
  "'d clique_libs \<Rightarrow> (nat \<Rightarrow> u64) \<Rightarrow> chain_reader \<Rightarrow> Header list \<Rightarrow> 'd Clique \<Rightarrow>
     ((clique_error + unit) list \<times> 'd Clique) option" where
  "VerifyHeaders L now chain headers c = verify_batch L now chain [] headers c"

definition VerifyUncles :: "Header list \<Rightarrow> clique_error + unit" where
  "VerifyUncles uncles = (if length uncles > 0 then Inl ErrUncles else Inr ())"

text \<open>
  \<open>Prepare\<close> picks among the useful proposals at random: \<open>pick\<close> is the index drawn. The header
  is returned as the code leaves it, also when it fails; the clock is \<open>now\<close>.
\<close>

definition Prepare ::
  "'d clique_libs \<Rightarrow> u64 \<Rightarrow> (nat \<Rightarrow> nat) \<Rightarrow> chain_reader \<Rightarrow> Header \<Rightarrow> 'd Clique \<Rightarrow> ((clique_error + unit) \<times> Header \<times> 'd Clique) option" where
  "Prepare L now pick chain header0 c =
     (case header_number header0 of
        None \<Rightarrow> None
      | Some number \<Rightarrow>
          (let header = header0\<lparr>h_Coinbase := 0, h_Nonce := 0\<rparr>
           in case snapshot L chain (number - 1) (h_ParentHash header) [] c of
                None \<Rightarrow> None
              | Some (Inl err, c) \<Rightarrow> Some (Inl err, header, c)
              | Some (Inr snap, c) \<Rightarrow>
                  if Epoch (c_config c) = 0 then None
                  else
                    (let addresses = map fst (filter (\<lambda>(a, auth). validVote snap a auth) (c_proposals c));
                         header = (if number mod Epoch (c_config c) \<noteq> 0 \<and> addresses \<noteq> [] then
                                     (let coinbase = addresses ! (pick (length addresses) mod length addresses)
                                      in header\<lparr>h_Coinbase := coinbase,
                                           h_Nonce := (if map_of (c_proposals c) coinbase = Some True then nonceAuthVote
                                                       else nonceDropVote)\<rparr>)
                                   else header)
                     in case calcDifficulty snap (c_signer c) of
                          None \<Rightarrow> None
                        | Some difficulty \<Rightarrow>
                            (let extra = take extraVanity (h_Extra header @ replicate (extraVanity - length (h_Extra header)) 0);
                                 extra = (if number mod Epoch (c_config c) = 0 then extra @ signer_bytes snap else extra);
                                 header = header\<lparr>h_Difficulty := Some difficulty, h_Extra := extra @ replicate extraSeal 0,
                                            h_MixDigest := 0\<rparr>
                             in case GetHeader chain (h_ParentHash header) (number - 1) of
                                  None \<Rightarrow> Some (Inl ErrUnknownAncestor, header, c)
                                | Some parent \<Rightarrow>
                                    (let time = h_Time parent + Period (c_config c)
                                     in Some (Inr (), header\<lparr>h_Time := (if time < now then now else time)\<rparr>, c))))))"

definition CalcDifficulty :: "'d clique_libs \<Rightarrow> chain_reader \<Rightarrow> Header \<Rightarrow> 'd Clique \<Rightarrow> (nat option \<times> 'd Clique) option" where
  "CalcDifficulty L chain parent c =
     (case header_number parent of
        None \<Rightarrow> None
      | Some n \<Rightarrow>
          (case snapshot L chain n (HashOf L parent) [] c of
             None \<Rightarrow> None
           | Some (Inl err, c) \<Rightarrow> Some (None, c)
           | Some (Inr snap, c) \<Rightarrow> map_option (\<lambda>d. (Some d, c)) (calcDifficulty snap (c_signer c))))"

text \<open>
  \<open>FinalizeAndAssemble\<close> over the state's root computation and the block constructor; \<open>Seal\<close> always panics.
\<close>

definition FinalizeAndAssemble ::
  "ChainConfig \<Rightarrow> (bool \<Rightarrow> Hash) \<Rightarrow> (Header \<Rightarrow> 'tx list \<Rightarrow> 'r list \<Rightarrow> 'b) \<Rightarrow> Header \<Rightarrow> 'tx list \<Rightarrow> 'w list \<Rightarrow> 'r list \<Rightarrow>
     (clique_error + 'b) \<times> Header" where
  "FinalizeAndAssemble cfg IntermediateRoot NewBlock header txs withdrawals receipts =
     (if length withdrawals > 0 then (Inl ErrWithdrawals, header)
      else
        (let header = header\<lparr>h_Root := IntermediateRoot (cfg_IsEIP158 cfg (h_Number header))\<rparr>
         in (Inr (NewBlock header txs receipts), header)))"

end
