(* ===== verification/Clique_Recents.thy ===== *)
theory Clique_Recents
  imports Clique_Votes Clique
begin

text \<open>
  Who may sign next. The recent signers a snapshot keeps are those of the last \<open>limit - 1\<close> blocks, each
  once; on such snapshots the check of \<open>verifySeal\<close> and the one of \<open>apply\<close> agree from block \<open>limit\<close> on, and
  differ before it, where \<open>number - limit\<close> wraps.
\<close>

section \<open>The window of recent signers\<close>

definition limit_of :: "Snapshot \<Rightarrow> nat" where
  "limit_of s = card (sn_Signers s) div 2 + 1"

text \<open>The recents of a snapshot at block \<open>n\<close>.\<close>

definition recents_ok :: "u64 \<Rightarrow> Snapshot \<Rightarrow> bool" where
  "recents_ok n s \<longleftrightarrow> (\<forall>(k, a)\<in>set (sn_Recents s). unat k \<le> unat n \<and> unat n < unat k + limit_of s) \<and>
     distinct (map snd (sn_Recents s))"

lemma recents_okI:
  assumes "\<And>k a. (k, a) \<in> set (sn_Recents s) \<Longrightarrow> unat k \<le> unat n \<and> unat n < unat k + limit_of s"
    and "distinct (map snd (sn_Recents s))"
  shows "recents_ok n s"
  using assms by (auto simp: recents_ok_def)

lemma recents_okD: "recents_ok n s \<Longrightarrow> (k, a) \<in> set (sn_Recents s) \<Longrightarrow> unat k \<le> unat n \<and> unat n < unat k + limit_of s"
  by (auto simp: recents_ok_def)

lemma unat_sign_limit: "card (sn_Signers s) < 2 ^ 64 \<Longrightarrow> unat (sign_limit s) = limit_of s"
  unfolding sign_limit_def limit_of_def by (simp only: unat_of_nat) (simp add: take_bit_nat_eq_self)

lemma update_new: "k \<notin> fst ` set al \<Longrightarrow> AList.update k v al = al @ [(k, v)]"
  by (induction al) auto

lemma set_delete: "set (AList.delete k al) = {p \<in> set al. fst p \<noteq> k}"
  by (auto simp: AList.delete_eq case_prod_beta)

lemma distinct_snd_delete: "distinct (map snd al) \<Longrightarrow> distinct (map snd (AList.delete k al))"
  by (auto simp: AList.delete_eq distinct_map inj_on_def)

text \<open>Deleting the oldest entry: what fell out of the window at \<open>n\<close> is gone.\<close>

lemma delete_oldest_set:
  assumes "card (sn_Signers s) < 2 ^ 64"
  shows "set (sn_Recents (delete_oldest n s)) =
    {(k, a) \<in> set (sn_Recents s). limit_of s \<le> unat n \<longrightarrow> unat k \<noteq> unat n - limit_of s}"
proof -
  note lim = unat_sign_limit [OF assms]
  have le: "sign_limit s \<le> n \<longleftrightarrow> limit_of s \<le> unat n" by (simp add: word_le_nat_alt lim)
  have eq: "k \<noteq> n - sign_limit s \<longleftrightarrow> unat k \<noteq> unat n - limit_of s" if "limit_of s \<le> unat n" for k
    using that by (simp add: word_unat_eq_iff unat_sub word_le_nat_alt lim)
  show ?thesis
    unfolding delete_oldest_def Let_def le by (simp add: set_delete eq cong: conj_cong) auto
qed

lemma delete_oldest_distinct: "distinct (map snd (sn_Recents s)) \<Longrightarrow> distinct (map snd (sn_Recents (delete_oldest n s)))"
  by (simp add: delete_oldest_def Let_def distinct_snd_delete)

lemma admit_recents: "sn_Recents (admit cfg n s) = sn_Recents (delete_oldest n s)"
  by (simp add: admit_def delete_oldest_def Let_def sign_limit_def)

text \<open>What the next header finds: exactly the entries that still block a signer.\<close>

lemma admit_recents_set:
  assumes ok: "recents_ok (n - 1) s" and n: "n \<noteq> 0" and card: "card (sn_Signers s) < 2 ^ 64"
  shows "set (sn_Recents (admit cfg n s)) = {(k, a) \<in> set (sn_Recents s). unat n < unat k + limit_of s}"
    and "(k, a) \<in> set (sn_Recents s) \<Longrightarrow> unat k < unat n \<and> unat n \<le> unat k + limit_of s"
proof -
  have n1: "unat (n - 1) = unat n - 1" "0 < unat n" using n by (simp_all add: unat_minus_one unat_gt_0)
  show old: "unat k < unat n \<and> unat n \<le> unat k + limit_of s" if "(k, a) \<in> set (sn_Recents s)" for k a
    using recents_okD [OF ok that] n1 by linarith
  have "(limit_of s \<le> unat n \<longrightarrow> unat k \<noteq> unat n - limit_of s) = (unat n < unat k + limit_of s)"
    if "(k, a) \<in> set (sn_Recents s)" for k a
    using old [OF that] by auto
  then show "set (sn_Recents (admit cfg n s)) = {(k, a) \<in> set (sn_Recents s). unat n < unat k + limit_of s}"
    unfolding admit_recents delete_oldest_set [OF card] by auto
qed

lemma voted_recents:
  assumes inv: "voting_inv s" and ok: "recents_ok (n - 1) s" and n: "n \<noteq> 0" and card: "card (sn_Signers s) < 2 ^ 64"
    and sg: "sg \<in> sn_Signers s" "sg \<notin> snd ` set (sn_Recents (admit cfg n s))"
  shows "recents_ok n (voted cfg n sg a b s)"
proof (rule recents_okI)
  note adm = admit_recents_set [OF ok n card]
  have "n \<notin> fst ` set (sn_Recents (admit cfg n s))" using adm by fastforce
  then have r: "sn_Recents (voted cfg n sg a b s) = sn_Recents (admit cfg n s) @ [(n, sg)]"
    using voted_inv(3) [OF inv sg(1)] update_new by metis
  have l: "limit_of (voted cfg n sg a b s) = limit_of s"
    using voted_inv(2) [OF inv sg(1)] by (simp add: limit_of_def)
  show "unat k \<le> unat n \<and> unat n < unat k + limit_of (voted cfg n sg a b s)"
    if "(k, x) \<in> set (sn_Recents (voted cfg n sg a b s))" for k x
  proof (cases "(k, x) = (n, sg)")
    case True
    then show ?thesis by (simp add: l, simp add: limit_of_def)
  next
    case False
    with that r have "(k, x) \<in> set (sn_Recents (admit cfg n s))" by auto
    then have "(k, x) \<in> set (sn_Recents s)" "unat n < unat k + limit_of s" using adm(1) [of cfg] by auto
    then show ?thesis using adm(2) [of k x] l by auto
  qed
  have "distinct (map snd (sn_Recents (admit cfg n s)))"
    using ok by (simp add: admit_recents delete_oldest_distinct recents_ok_def)
  with sg(2) show "distinct (map snd (sn_Recents (voted cfg n sg a b s)))" by (simp add: r)
qed

lemma enact_recents:
  assumes inv: "voting_inv s" and ok: "recents_ok n s" and card: "card (sn_Signers s) < 2 ^ 64"
  shows "recents_ok n (enact a n s)"
proof -
  note fin = voting_invD(1) [OF inv] and cases = enact_cases [OF inv, of a n]
  consider "\<not> passes s a" | "passes s a" "a \<notin> sn_Signers s" | "passes s a" "a \<in> sn_Signers s" by blast
  then show ?thesis
  proof cases
    case 1
    then show ?thesis using cases(1) ok by simp
  next
    case 2
    then have "limit_of s \<le> limit_of (enact a n s)" using cases(2) fin by (simp add: limit_of_def)
    then show ?thesis using cases(2) [OF 2] ok by (auto simp: recents_ok_def)
  next
    case 3
    let ?s = "s\<lparr>sn_Signers := sn_Signers s - {a}\<rparr>"
    have lim: "limit_of (enact a n s) = limit_of ?s" using cases(3) [OF 3] by (simp add: limit_of_def)
    have le: "limit_of s \<le> limit_of ?s + 1" using 3 fin by (simp add: limit_of_def)
    have "card (sn_Signers ?s) < 2 ^ 64"
      using card card_Diff1_le [of "sn_Signers s" a] by (simp add: order_le_less_trans)
    note set = delete_oldest_set [OF this, of n]
    show ?thesis
    proof (rule recents_okI)
      fix k x assume "(k, x) \<in> set (sn_Recents (enact a n s))"
      then have "(k, x) \<in> set (sn_Recents (delete_oldest n ?s))" using cases(3) [OF 3] by simp
      then have "(k, x) \<in> set (sn_Recents s)" and "limit_of ?s \<le> unat n \<longrightarrow> unat k \<noteq> unat n - limit_of ?s"
        using set by auto
      with recents_okD [OF ok this(1)] le lim show "unat k \<le> unat n \<and> unat n < unat k + limit_of (enact a n s)" by auto
    next
      show "distinct (map snd (sn_Recents (enact a n s)))"
        using cases(3) [OF 3] ok delete_oldest_distinct [of ?s n] by (simp add: recents_ok_def)
    qed
  qed
qed

lemma apply_header_recents:
  assumes inv: "voting_inv s" and ok: "recents_ok (n - 1) s" and n: "header_number h = Some n" "n \<noteq> 0"
    and card: "card (sn_Signers s) < 2 ^ 64" and app: "apply_header cfg recover h s = Some (Inr s')"
  shows "recents_ok n s'" and "card (sn_Signers s') \<le> Suc (card (sn_Signers s))"
proof -
  obtain sg b where sg: "sg \<in> sn_Signers s" "sg \<notin> snd ` set (sn_Recents (admit cfg n s))"
    and s': "s' = enact (h_Coinbase h) n (voted cfg n sg (h_Coinbase h) b s)"
    using apply_header_ok [OF app] n(1) by (metis option.inject)
  note v = voted_inv(1,2) [OF inv sg(1), of cfg n "h_Coinbase h" b]
  show "recents_ok n s'"
    unfolding s' using enact_recents [OF v(1) voted_recents [OF inv ok n(2) card sg]] card v(2) by simp
  show "card (sn_Signers s') \<le> Suc (card (sn_Signers s))"
    using enact_signers [OF v(1), of "h_Coinbase h" n] v(2) voting_invD(1) [OF inv] unfolding s'
    by (auto simp: card_insert_if card_Diff1_le le_SucI)
qed

lemma contiguous_Cons:
  "contiguous (h # hs) = Some True \<Longrightarrow> header_number h = Some n \<Longrightarrow>
   contiguous hs = Some True \<and> (hs \<noteq> [] \<longrightarrow> header_number (hd hs) = Some (n + 1))"
  by (cases hs) (auto split: option.splits if_splits)

lemma apply_headers_recents:
  assumes "apply_headers cfg recover hs s = Some (Inr s')" and "contiguous hs = Some True"
    and "hs \<noteq> [] \<longrightarrow> header_number (hd hs) = Some (n + 1)" and "voting_inv s" and "recents_ok n s"
    and "card (sn_Signers s) + length hs < 2 ^ 64" and "unat n + length hs < 2 ^ 64"
  shows "recents_ok (n + of_nat (length hs)) s' \<and> card (sn_Signers s') \<le> card (sn_Signers s) + length hs"
  using assms
proof (induction hs arbitrary: s n)
  case (Cons h hs)
  from Cons.prems(1) obtain s1 where s1: "apply_header cfg recover h s = Some (Inr s1)"
    and rest: "apply_headers cfg recover hs s1 = Some (Inr s')"
    by (auto split: option.splits sum.splits)
  have hn: "header_number h = Some (n + 1)" using Cons.prems(3) by simp
  have un: "unat (n + 1) = Suc (unat n)"
    using Cons.prems(7) unat_add_lem [of n 1] by simp
  then have nz: "n + 1 \<noteq> 0" by (metis nat.simps(3) unat_0)
  have card: "card (sn_Signers s) < 2 ^ 64" using Cons.prems(6) by simp
  have ok: "recents_ok (n + 1 - 1) s" using Cons.prems(5) by simp
  note step = apply_header_recents [OF Cons.prems(4) ok hn nz card s1]
  have "recents_ok (n + 1 + of_nat (length hs)) s' \<and> card (sn_Signers s') \<le> card (sn_Signers s1) + length hs"
  proof (rule Cons.IH [OF rest])
    show "contiguous hs = Some True" "hs \<noteq> [] \<longrightarrow> header_number (hd hs) = Some (n + 1 + 1)"
      using contiguous_Cons [OF Cons.prems(2) hn] by simp_all
    show "voting_inv s1" using apply_header_inv [OF Cons.prems(4) s1] .
    show "card (sn_Signers s1) + length hs < 2 ^ 64" using step(2) Cons.prems(6) by simp
    show "unat (n + 1) + length hs < 2 ^ 64" using un Cons.prems(7) by simp
  qed (rule step(1))
  then show ?case using step(2) by (simp add: ac_simps)
qed simp

lemma copy_snapshot_id [simp]: "copy_snapshot s = s"
  by (simp add: copy_snapshot_def)

lemma apply_snapshot_ok:
  assumes "apply_snapshot cfg recover hash_of hs s = Some (Inr s')"
  shows "hs = [] \<and> s' = s \<or> hs \<noteq> [] \<and> contiguous hs = Some True \<and> header_number (hd hs) = Some (sn_Number s + 1) \<and>
    (\<exists>s1. apply_headers cfg recover hs s = Some (Inr s1) \<and>
       s' = s1\<lparr>sn_Number := sn_Number s1 + of_nat (length hs), sn_Hash := hash_of (last hs)\<rparr>)"
  using assms
  by (auto simp: apply_snapshot_def split: if_splits option.splits bool.splits sum.splits)

lemma uncast_votes_number: "sn_Number (snd (uncast_votes a vs s)) = sn_Number s"
  by (induction a vs s rule: uncast_votes.induct) (auto split: prod.splits)

lemma enact_number [simp]: "sn_Number (enact a n s) = sn_Number s"
proof -
  have "sn_Number (drop_signer a n s) = sn_Number s"
  proof -
    let ?s = "delete_oldest n (s\<lparr>sn_Signers := sn_Signers s - {a}\<rparr>)"
    obtain kept s' where u: "uncast_votes a (sn_Votes ?s) ?s = (kept, s')" by fastforce
    then have "sn_Number s' = sn_Number s" using uncast_votes_number [of a "sn_Votes ?s" ?s] by simp
    with u show ?thesis by (simp add: drop_signer_def Let_def)
  qed
  then show ?thesis by (simp add: enact_def Let_def split: option.splits)
qed

lemma voted_number [simp]: "sn_Number (voted cfg n sg a b s) = sn_Number s"
proof -
  have "sn_Number (tally_vote sg n a b x) = sn_Number x" for x
    by (auto simp: tally_vote_def cast_def split: option.splits)
  moreover have "sn_Number (discard_vote sg a x) = sn_Number x" for x
    by (simp add: discard_vote_def split: prod.splits option.splits)
  ultimately show ?thesis by (simp add: voted_def admit_def)
qed

lemma apply_headers_number:
  assumes "apply_headers cfg recover hs s = Some (Inr s')" shows "sn_Number s' = sn_Number s"
  using assms
proof (induction hs arbitrary: s)
  case (Cons h hs)
  then obtain s1 where s1: "apply_header cfg recover h s = Some (Inr s1)" and r: "apply_headers cfg recover hs s1 = Some (Inr s')"
    by (auto split: option.splits sum.splits)
  have "sn_Number s1 = sn_Number s" using s1 by (rule apply_header_ok) simp
  then show ?case using Cons.IH [OF r] by simp
qed simp

lemma apply_snapshot_number:
  assumes "apply_snapshot cfg recover hash_of hs s = Some (Inr s')" shows "sn_Number s' = sn_Number s + of_nat (length hs)"
  using apply_snapshot_ok [OF assms] apply_headers_number by auto

text \<open>The recents check of \<open>verifySeal\<close> against the one of \<open>apply\<close>.\<close>

lemma seal_recents:
  assumes ok: "recents_ok (n - 1) s" and n: "n \<noteq> 0" and card: "card (sn_Signers s) < 2 ^ 64" and lim: "sign_limit s \<le> n"
  shows "(\<exists>(seen, recent) \<in> set (sn_Recents s). recent = sg \<and> seen > n - sign_limit s) \<longleftrightarrow>
    sg \<in> snd ` set (sn_Recents (admit cfg n s))"
proof -
  note adm = admit_recents_set [OF ok n card] and l = unat_sign_limit [OF card]
  have "seen > n - sign_limit s \<longleftrightarrow> unat n < unat seen + limit_of s" for seen
    using lim by (auto simp: word_less_nat_alt word_le_nat_alt unat_sub l)
  then show ?thesis unfolding adm(1) by (force simp: image_iff)
qed

lemma seal_recents_wraps:
  assumes ok: "recents_ok (n - 1) s" and n: "n \<noteq> 0" and card: "card (sn_Signers s) < 2 ^ 63" and lim: "n < sign_limit s"
  shows "\<not> (\<exists>(seen, recent) \<in> set (sn_Recents s). recent = sg \<and> seen > n - sign_limit s)"
proof -
  have l: "unat (sign_limit s) = limit_of s" using card by (intro unat_sign_limit) simp
  have lt: "unat n < limit_of s" using lim by (simp add: word_less_nat_alt l)
  have small: "limit_of s < 2 ^ 63" using card by (simp add: limit_of_def)
  have "unat (n - sign_limit s) = 2 ^ 64 + unat n - limit_of s"
    using lt l lim by (simp add: unat_sub_if_size word_size)
  then have "unat n \<le> unat (n - sign_limit s)" using small lt by simp
  moreover have "unat k < unat n" if "(k, a) \<in> set (sn_Recents s)" for k a
    using admit_recents_set(2) [OF ok n _ that] card by simp
  ultimately show ?thesis by (fastforce simp: word_less_nat_alt)
qed

lemma apply_header_outcome:
  assumes "header_number h = Some n" and "Epoch cfg \<noteq> 0" and "recover h = Some (Inr sg)"
  shows "apply_header cfg recover h s =
    (if sg \<notin> sn_Signers s then Some (Inl errUnauthorizedSigner)
     else if sg \<in> snd ` set (sn_Recents (admit cfg n s)) then Some (Inl errRecentlySigned)
     else (case vote_nonce (h_Nonce h) of Inl err \<Rightarrow> Some (Inl err)
           | Inr b \<Rightarrow> Some (Inr (enact (h_Coinbase h) n (voted cfg n sg (h_Coinbase h) b s)))))"
  using assms unfolding apply_header_def admit_def [symmetric] Let_def voted_def by simp

section \<open>Properties of the signing window\<close>

lemmas ex_recents_defs = ex_header_def ex_recover_def ex_cfg_def newSnapshot_def recents_ok_def limit_of_def header_number_def

text \<open>
  C25. The window of recent signers is an invariant. If the recent signers of a snapshot are distinct and
  their blocks lie within the last \<open>limit\<close> blocks (\<open>limit\<close> is half the number of signers plus one), then so
  are those of the snapshot \<open>apply\<close> makes from any headers, votes that shrink the set of signers
  included, as long as block numbers and the number of signers stay below \<open>2 ^ 64\<close>; a fresh snapshot
  satisfies it. So among any \<open>limit\<close> consecutive blocks no signer appears twice.
\<close>

theorem recents_window_invariant:
  assumes "voting_inv s" and "recents_ok (sn_Number s) s" and "apply_snapshot cfg recover hash_of hs s = Some (Inr s')"
    and "card (sn_Signers s) + length hs < 2 ^ 64" and "unat (sn_Number s) + length hs < 2 ^ 64"
  shows "recents_ok (sn_Number s') s' \<and> sn_Number s' = sn_Number s + of_nat (length hs) \<and>
    recents_ok number (newSnapshot number hash sigs)"
proof -
  have num: "sn_Number s' = sn_Number s + of_nat (length hs)" using apply_snapshot_number [OF assms(3)] .
  have "recents_ok (sn_Number s') s'"
    using apply_snapshot_ok [OF assms(3)]
  proof
    assume "hs = [] \<and> s' = s"
    then show ?thesis using assms(2) by simp
  next
    assume a: "hs \<noteq> [] \<and> contiguous hs = Some True \<and> header_number (hd hs) = Some (sn_Number s + 1) \<and>
      (\<exists>s1. apply_headers cfg recover hs s = Some (Inr s1) \<and>
         s' = s1\<lparr>sn_Number := sn_Number s1 + of_nat (length hs), sn_Hash := hash_of (last hs)\<rparr>)"
    then obtain s1 where s1: "apply_headers cfg recover hs s = Some (Inr s1)"
      and s': "s' = s1\<lparr>sn_Number := sn_Number s1 + of_nat (length hs), sn_Hash := hash_of (last hs)\<rparr>" by blast
    have "recents_ok (sn_Number s + of_nat (length hs)) s1"
      using apply_headers_recents [OF s1 _ _ assms(1,2,4,5)] a by simp
    then show ?thesis unfolding num unfolding s' by (simp add: recents_ok_def limit_of_def)
  qed
  then show ?thesis using num by (simp add: recents_ok_def newSnapshot_def)
qed

theorem recents_window_invariant_witness:
  "\<exists>s'. apply_snapshot ex_cfg ex_recover (\<lambda>_. 5) [ex_header 1 9 nonceAuthVote 1, ex_header 2 9 nonceAuthVote 2] (newSnapshot 0 0 [1, 2, 3]) =
     Some (Inr s') \<and> recents_ok (sn_Number s') s' \<and> sn_Signers s' = {1, 2, 3, 9}"
proof -
  let ?hs = "[ex_header 1 9 nonceAuthVote 1, ex_header 2 9 nonceAuthVote 2]" and ?s = "newSnapshot 0 0 [1, 2, 3]"
  have "\<exists>s'. apply_snapshot ex_cfg ex_recover (\<lambda>_. 5) ?hs ?s = Some (Inr s') \<and> sn_Signers s' = {1, 2, 3, 9}"
    by (simp add: apply_snapshot_def ex_clique_defs clique_eval) auto
  then obtain s' where s': "apply_snapshot ex_cfg ex_recover (\<lambda>_. 5) ?hs ?s = Some (Inr s')" "sn_Signers s' = {1, 2, 3, 9}" by blast
  have ok: "recents_ok (sn_Number ?s) ?s" by (simp add: recents_ok_def newSnapshot_def)
  have "card (sn_Signers ?s) + length ?hs < 2 ^ 64" "unat (sn_Number ?s) + length ?hs < 2 ^ 64"
    by (simp_all add: newSnapshot_def)
  note recents_window_invariant [OF newSnapshot_inv ok s'(1) this, of 0 0 "[]"]
  then have "recents_ok (sn_Number s') s'" by (rule conjunct1)
  with s' show ?thesis by blast
qed

text \<open>
  C32. From block \<open>limit\<close> on the two checks of a signer agree. Let a header follow a snapshot whose recents
  are in the window, with a recoverable signer and one of the two vote nonces. Then \<open>apply\<close> accepts the
  header exactly when \<open>verifySeal\<close>, its difficulty check aside, accepts the signer; in particular
  every header whose seal is verified can be applied.
\<close>

theorem verified_header_applies:
  assumes "recents_ok (sn_Number snap) snap" and "card (sn_Signers snap) < 2 ^ 64" and "Epoch cfg \<noteq> 0"
    and "header_number h = Some (sn_Number snap + 1)" and "sign_limit snap \<le> sn_Number snap + 1"
    and "recover h = Some (Inr sg)" and "h_Nonce h = nonceAuthVote \<or> h_Nonce h = nonceDropVote"
  shows "((\<exists>s'. apply_snapshot cfg recover hash_of [h] snap = Some (Inr s')) \<longleftrightarrow>
      check_signer True snap h (sn_Number snap + 1) sg = Some (Inr ())) \<and>
    (check_signer False snap h (sn_Number snap + 1) sg = Some (Inr ()) \<longrightarrow>
      (\<exists>s'. apply_snapshot cfg recover hash_of [h] snap = Some (Inr s')))"
proof -
  let ?n = "sn_Number snap + 1"
  have nz: "?n \<noteq> 0"
  proof
    assume "?n = 0"
    then have "unat (sign_limit snap) = 0" using assms(5) by (simp add: word_le_nat_alt)
    then show False using unat_sign_limit [OF assms(2)] by (simp add: limit_of_def)
  qed
  have ok: "recents_ok (?n - 1) snap" using assms(1) by simp
  obtain b where b: "vote_nonce (h_Nonce h) = Inr b" using assms(7) by (cases "h_Nonce h = nonceAuthVote") (auto simp: vote_nonce_def)
  have ap: "(\<exists>s'. apply_snapshot cfg recover hash_of [h] snap = Some (Inr s')) \<longleftrightarrow>
      (\<exists>s'. apply_header cfg recover h snap = Some (Inr s'))"
    using assms(4) by (auto simp: apply_snapshot_def split: option.splits sum.splits)
  show ?thesis
    unfolding ap apply_header_outcome [of h ?n cfg recover sg, OF assms(4,3,6)] check_signer_def
      seal_recents [OF ok nz assms(2,5), of sg cfg]
    using b by simp
qed

theorem verified_header_applies_witness:
  "check_signer False (newSnapshot 5 0 [1, 2, 3]) ((ex_header 6 9 nonceAuthVote 1)\<lparr>h_Difficulty := Some 2\<rparr>) 6 1 = Some (Inr ()) \<and>
   (\<exists>s'. apply_snapshot ex_cfg ex_recover (\<lambda>_. 5) [(ex_header 6 9 nonceAuthVote 1)\<lparr>h_Difficulty := Some 2\<rparr>] (newSnapshot 5 0 [1, 2, 3]) =
     Some (Inr s'))"
proof -
  let ?h = "(ex_header 6 9 nonceAuthVote 1)\<lparr>h_Difficulty := Some 2\<rparr>" and ?s = "newSnapshot 5 0 [1, 2, 3]"
  have c: "check_signer False ?s ?h 6 1 = Some (Inr ())"
    by (simp add: check_signer_def newSnapshot_def ex_header_def inturn_def signers_def diffInTurn_def)
  have l: "sign_limit ?s = 2" by (simp add: sign_limit_def newSnapshot_def)
  have n: "sn_Number ?s + 1 = 6" by (simp add: newSnapshot_def)
  have "\<exists>s'. apply_snapshot ex_cfg ex_recover (\<lambda>_. 5) [?h] ?s = Some (Inr s')"
  proof -
    have "recents_ok (sn_Number ?s) ?s" "card (sn_Signers ?s) < 2 ^ 64" "Epoch ex_cfg \<noteq> 0"
      "header_number ?h = Some (sn_Number ?s + 1)" "sign_limit ?s \<le> sn_Number ?s + 1" "ex_recover ?h = Some (Inr 1)"
      "h_Nonce ?h = nonceAuthVote \<or> h_Nonce ?h = nonceDropVote"
      by (simp_all only: l n) (simp_all add: ex_recents_defs)
    from verified_header_applies [of ?s ex_cfg ?h ex_recover 1 "\<lambda>_. 5", OF this] c show ?thesis by (simp only: n) blast
  qed
  with c show ?thesis by blast
qed

text \<open>
  Before block \<open>limit\<close> they do not. A signer that already signed one of the first blocks is refused by
  \<open>apply\<close>, but accepted by \<open>verifySeal\<close>: there \<open>number - limit\<close> wraps to a number larger than every
  recorded block.
\<close>

theorem early_double_signing_verified:
  assumes "recents_ok (sn_Number snap) snap" and "card (sn_Signers snap) < 2 ^ 63" and "Epoch cfg \<noteq> 0"
    and "header_number h = Some (sn_Number snap + 1)" and "sn_Number snap + 1 \<noteq> 0" and "sn_Number snap + 1 < sign_limit snap"
    and "recover h = Some (Inr sg)" and "sg \<in> sn_Signers snap" and "sg \<in> snd ` set (sn_Recents snap)"
  shows "apply_header cfg recover h snap = Some (Inl errRecentlySigned) \<and>
    check_signer True snap h (sn_Number snap + 1) sg = Some (Inr ())"
proof
  let ?n = "sn_Number snap + 1"
  have ok: "recents_ok (?n - 1) snap" using assms(1) by simp
  have "sn_Recents (admit cfg ?n snap) = sn_Recents snap"
    using assms(6) by (simp add: admit_recents delete_oldest_def Let_def)
  then show "apply_header cfg recover h snap = Some (Inl errRecentlySigned)"
    using assms(8,9) unfolding apply_header_outcome [of h ?n cfg recover sg, OF assms(4,3,7)] by simp
  show "check_signer True snap h ?n sg = Some (Inr ())"
    using seal_recents_wraps [OF ok assms(5,2,6), of sg] assms(8) by (simp add: check_signer_def)
qed

theorem early_double_signing_verified_witness:
  "apply_header ex_cfg ex_recover (ex_header 2 0 nonceDropVote 1) ((newSnapshot 1 0 [1, 2, 3, 4])\<lparr>sn_Recents := [(1, 1)]\<rparr>) =
     Some (Inl errRecentlySigned) \<and>
   check_signer True ((newSnapshot 1 0 [1, 2, 3, 4])\<lparr>sn_Recents := [(1, 1)]\<rparr>) (ex_header 2 0 nonceDropVote 1) 2 1 = Some (Inr ())"
proof -
  let ?s = "(newSnapshot 1 0 [1, 2, 3, 4])\<lparr>sn_Recents := [(1, 1)]\<rparr>"
  have l: "sign_limit ?s = 3" and n: "sn_Number ?s + 1 = 2" by (simp_all add: sign_limit_def newSnapshot_def)
  show ?thesis
    using early_double_signing_verified [of ?s ex_cfg "ex_header 2 0 nonceDropVote 1" ex_recover 1]
    by (simp only: l n) (simp add: ex_recents_defs)
qed

end
