(* ===== verification/Clique_Correct.thy ===== *)
theory Clique_Correct
  imports Clique_Recents Vm_Common
begin

text \<open>
  The proof-of-authority engine is correct: its gas limit and base fee rules compute the documented
  formulas, the signature cache is transparent, the search for a snapshot ends and gives only
  snapshots that a trusted checkpoint and applied headers justify, and a prepared header meets the
  rules verification enforces.
\<close>

section \<open>Gas limit and base fee\<close>

lemma VerifyGaslimit_cases:
  assumes "p < 2 ^ 63" and "h < 2 ^ 63"
  shows "VerifyGaslimit p h = Inr () \<longleftrightarrow> 
    unat p < unat h + unat p div 1024 \<and> unat h < unat p + unat p div 1024 \<and> 5000 \<le> unat h"
proof -
  have small: "unat p < 2 ^ 63" "unat h < 2 ^ 63" using assms by (simp_all add: word_less_nat_alt)
  have d: "unat (p div 1024) = unat p div 1024" by (simp add: unat_div)
  have five: "h < 5000 \<longleftrightarrow> unat h < 5000" by (simp add: word_less_nat_alt)
  show ?thesis
  proof (cases "h \<le> p")
    case True
    then have le: "unat h \<le> unat p" by (simp add: word_le_nat_alt)
    have u: "unat (p - h) = unat p - unat h" using True by (rule unat_sub)
    have "\<not> sint (p - h) < 0" using sint_small_u64 [of "p - h"] u small by simp
    then show ?thesis using le u d five
      by (auto simp: VerifyGaslimit_def Let_def word_le_nat_alt)
  next
    case False
    then have lt: "unat p < unat h" by (simp add: word_le_nat_alt)
    then have le: "p \<le> h" by (simp add: word_le_nat_alt)
    have u: "unat (h - p) = unat h - unat p" using le by (rule unat_sub)
    have neg: "(p - h) * - 1 = h - p" by simp
    have "sint (p - h) < 0"
    proof -
      have "unat (p - h) = 2 ^ 64 + unat p - unat h"
        using lt by (simp add: unat_sub_if_size word_size word_le_nat_alt)
      then show ?thesis using sint_neg_u64 [of "p - h"] small lt by simp
    qed
    then show ?thesis using lt u d five neg
      by (auto simp: VerifyGaslimit_def Let_def word_le_nat_alt)
  qed
qed

text \<open>The two directions of a change by \<open>b * d div t div 8\<close>.\<close>

lemma fee_delta_le:
  assumes "d \<le> t" shows "d * b div t div 8 \<le> (b :: nat) div 8"
proof -
  have "d * b div t \<le> t * b div t" using assms by (intro div_le_mono mult_le_mono1)
  also have "\<dots> \<le> b" by simp
  finally show ?thesis by (rule div_le_mono)
qed

definition fee_target :: "Header \<Rightarrow> nat" where
  "fee_target parent = unat (h_GasLimit parent) div 2"

lemma CalcBaseFee_formula:
  assumes "cfg_IsLondon cfg (h_Number parent)" and "h_BaseFee parent = Some b" and "2 \<le> h_GasLimit parent"
  shows "CalcBaseFee cfg parent = Some (let t = fee_target parent; u = unat (h_GasUsed parent) in
    if u = t then b else if u > t then b + max 1 ((u - t) * b div t div 8) else b - (t - u) * b div t div 8)"
proof -
  let ?t = "h_GasLimit parent div 2" and ?u = "h_GasUsed parent"
  have t: "unat ?t = fee_target parent" by (simp add: unat_div fee_target_def)
  have pos: "0 < fee_target parent" using assms(3) by (simp add: fee_target_def word_le_nat_alt)
  then have nz: "?t \<noteq> 0" using t by auto
  consider "?u = ?t" | "?u > ?t" | "?u < ?t" by fastforce
  then show ?thesis
  proof cases
    case 1
    then show ?thesis using assms t by (simp add: CalcBaseFee_def ElasticityMultiplier_def Let_def)
  next
    case 2
    have "unat (?u - ?t) = unat ?u - fee_target parent" using 2 by (simp add: unat_sub t)
    moreover have "fee_target parent < unat ?u" using 2 by (simp add: word_less_nat_alt t)
    ultimately show ?thesis using assms 2 t nz
      by (auto simp: CalcBaseFee_def ElasticityMultiplier_def BaseFeeChangeDenominator_def Let_def max_def)
  next
    case 3
    have "unat (?t - ?u) = fee_target parent - unat ?u" using 3 by (simp add: unat_sub t)
    moreover have "unat ?u < fee_target parent" using 3 by (simp add: word_less_nat_alt t)
    ultimately show ?thesis using assms 3 t nz
      by (auto simp: CalcBaseFee_def ElasticityMultiplier_def BaseFeeChangeDenominator_def Let_def)
  qed
qed

text \<open>
  For gas limits below \<open>2 ^ 63\<close>, which verification demands of every header, \<open>VerifyGaslimit\<close> accepts
  exactly a limit of at least 5000 that differs from the parent's by less than its 1024th part.
  Above that bound the signed subtraction wraps: from a doubled parent limit of \<open>2 ^ 64 - 2\<close>, as the first
  London block uses it, the limit 5000 is accepted.
\<close>

theorem VerifyGaslimit_exact:
  assumes "p < 2 ^ 63" and "h < 2 ^ 63"
  shows "(VerifyGaslimit p h = Inr () \<longleftrightarrow>
      unat p < unat h + unat p div 1024 \<and> unat h < unat p + unat p div 1024 \<and> 5000 \<le> unat h) \<and>
    VerifyGaslimit (0x7fffffffffffffff * ElasticityMultiplier) 5000 = Inr ()"
proof
  show "VerifyGaslimit p h = Inr () \<longleftrightarrow>
      unat p < unat h + unat p div 1024 \<and> unat h < unat p + unat p div 1024 \<and> 5000 \<le> unat h"
    by (rule VerifyGaslimit_cases [OF assms])
  show "VerifyGaslimit (0x7fffffffffffffff * ElasticityMultiplier) 5000 = Inr ()"
    by (simp add: VerifyGaslimit_def ElasticityMultiplier_def Let_def)
qed

theorem VerifyGaslimit_exact_witness:
  "VerifyGaslimit 8000000 8007811 = Inr () \<and> VerifyGaslimit 8000000 8007812 \<noteq> Inr ()"
  using VerifyGaslimit_exact [of 8000000 8007811] VerifyGaslimit_exact [of 8000000 8007812] by simp

text \<open>
  The base fee of the block after a London block with a gas limit of at least two is defined and follows
  the documented formula. It falls by at most an eighth, never from a positive fee to zero, and,
  when the parent's gas limit is even and bounds the gas it used, rises by at most an eighth or by one.
\<close>

theorem CalcBaseFee_rule:
  assumes "cfg_IsLondon cfg (h_Number parent)" and "h_BaseFee parent = Some b" and "2 \<le> h_GasLimit parent"
  shows "\<exists>b'. CalcBaseFee cfg parent = Some b' \<and>
    b' = (let t = unat (h_GasLimit parent) div 2; u = unat (h_GasUsed parent) in
      if u = t then b else if u > t then b + max 1 ((u - t) * b div t div 8) else b - (t - u) * b div t div 8) \<and>
    b - b div 8 \<le> b' \<and> (0 < b \<longrightarrow> 0 < b') \<and>
    (even (unat (h_GasLimit parent)) \<and> h_GasUsed parent \<le> h_GasLimit parent \<longrightarrow> b' \<le> b + max 1 (b div 8))"
proof -
  define t where "t = unat (h_GasLimit parent) div 2"
  define u where "u = unat (h_GasUsed parent)"
  let ?b' = "if u = t then b else if u > t then b + max 1 ((u - t) * b div t div 8) else b - (t - u) * b div t div 8"
  have eq: "CalcBaseFee cfg parent = Some ?b'"
    using CalcBaseFee_formula [OF assms] by (simp add: fee_target_def t_def u_def Let_def)
  have down: "(t - u) * b div t div 8 \<le> b div 8" by (intro fee_delta_le) simp
  have up: "(u - t) * b div t div 8 \<le> b div 8" if "even (unat (h_GasLimit parent))" "h_GasUsed parent \<le> h_GasLimit parent"
    using that by (intro fee_delta_le) (auto simp: t_def u_def word_le_nat_alt)
  have low: "b - b div 8 \<le> ?b'" using down by auto
  have pos: "0 < ?b'" if "0 < b"
  proof -
    have "0 < b - b div 8" using that by simp
    then show ?thesis using low by linarith
  qed
  have high: "?b' \<le> b + max 1 (b div 8)" if "even (unat (h_GasLimit parent)) \<and> h_GasUsed parent \<le> h_GasLimit parent"
    using up that by (auto simp: max_def)
  show ?thesis using eq low pos high by (intro exI [of _ ?b']) (simp add: t_def [symmetric] u_def [symmetric] Let_def)
qed

theorem CalcBaseFee_rule_witness:
  "CalcBaseFee (no_forks\<lparr>LondonBlock := Some 0\<rparr>)
     ((ex_header 7 0 0 1)\<lparr>h_GasLimit := 20000000, h_GasUsed := 20000000, h_BaseFee := Some 1000\<rparr>) = Some 1125"
  using CalcBaseFee_rule [of "(no_forks\<lparr>LondonBlock := Some 0\<rparr>)"
     "(ex_header 7 0 0 1)\<lparr>h_GasLimit := 20000000, h_GasUsed := 20000000, h_BaseFee := Some 1000\<rparr>" 1000]
  by (simp add: ex_header_def cfg_IsLondon_def isBlockForked_def)

section \<open>The signature cache\<close>

text \<open>Every entry was computed from one of the headers \<open>H\<close> with that hash.\<close>

definition sig_entry :: "'d clique_libs \<Rightarrow> Header set \<Rightarrow> Hash \<Rightarrow> Address \<Rightarrow> bool" where
  "sig_entry L H hash a \<longleftrightarrow> (\<exists>h\<in>H. HashOf L h = hash \<and> recover_signer L h = Some (Inr a))"

definition sig_ok :: "'d clique_libs \<Rightarrow> Header set \<Rightarrow> sigLRU \<Rightarrow> bool" where
  "sig_ok L H sigcache \<longleftrightarrow> basic_lru.holds (sig_entry L H) sigcache"

lemma sig_ok_new: "sig_ok L H (NewBasicLRU n)"
  by (simp add: sig_ok_def basic_lru.holds_def lru_new_inv lru_Peek_def) (simp add: NewBasicLRU_def)

lemma ecrecover_transparent:
  assumes inj: "inj_on (HashOf L) H" and h: "h \<in> H" and ok: "sig_ok L H sigcache"
  shows "map_option fst (ecrecover_header L h sigcache) = recover_signer L h"
    and "ecrecover_header L h sigcache = Some (r, sigcache') \<Longrightarrow> sig_ok L H sigcache'"
proof -
  obtain a c1 where g: "lru_Get sigcache (HashOf L h) = (a, c1)" by fastforce
  have got: "sig_ok L H c1" "a = Some v \<Longrightarrow> sig_entry L H (HashOf L h) v" for v
    using basic_lru.holds_get [OF _ g] ok by (auto simp: sig_ok_def)
  have hit: "recover_signer L h = Some (Inr v)" if "a = Some v" for v
    using got(2) [OF that] inj h by (auto simp: sig_entry_def dest: inj_onD)
  have add: "\<exists>ev c'. lru_Add c1 (HashOf L h) v = Some (ev, c') \<and> sig_ok L H c'"
    if "recover_signer L h = Some (Inr v)" for v
  proof -
    have "sig_entry L H (HashOf L h) v" using that h by (auto simp: sig_entry_def)
    then show ?thesis using basic_lru.holds_add [of "sig_entry L H" c1 "HashOf L h" v] got(1) by (simp add: sig_ok_def)
  qed
  show "map_option fst (ecrecover_header L h sigcache) = recover_signer L h"
    using hit add by (fastforce simp: ecrecover_header_def g split: option.splits sum.splits)
  show "ecrecover_header L h sigcache = Some (r, sigcache') \<Longrightarrow> sig_ok L H sigcache'"
    using got(1) add by (fastforce simp: ecrecover_header_def g split: option.splits sum.splits)
qed

lemma apply_header_recover: "recover h = recover' h \<Longrightarrow> apply_header cfg recover h s = apply_header cfg recover' h s"
  by (simp only: apply_header_def)

lemma apply_header_stuck: "recover h = None \<Longrightarrow> apply_header cfg recover h s = None"
  by (simp add: apply_header_def split: option.splits)

lemma apply_headers_transparent:
  assumes inj: "inj_on (HashOf L) H" and "set hs \<subseteq> H" and "sig_ok L H sigcache"
  shows "map_option fst (apply_headers_cached L cfg hs s sigcache) = apply_headers cfg (recover_signer L) hs s \<and>
    (\<forall>r sigcache'. apply_headers_cached L cfg hs s sigcache = Some (r, sigcache') \<longrightarrow> sig_ok L H sigcache')"
  using assms(2,3)
proof (induction hs arbitrary: s sigcache)
  case (Cons h hs)
  have h: "h \<in> H" using Cons.prems(1) by simp
  note e = ecrecover_transparent [OF inj h Cons.prems(2)]
  show ?case
  proof (cases "ecrecover_header L h sigcache")
    case None
    then show ?thesis using e(1) by (simp add: apply_header_stuck)
  next
    case (Some rc)
    obtain r c1 where rc: "rc = (r, c1)" by fastforce
    have rec: "recover_signer L h = Some r" using e(1) Some rc by simp
    have ok: "sig_ok L H c1" using e(2) Some rc by simp
    have same: "apply_header cfg (recover_signer L) h s = apply_header cfg (\<lambda>_. Some r) h s"
      by (rule apply_header_recover) (simp add: rec)
    show ?thesis
      using Cons.IH [OF _ ok] Cons.prems(1) Some rc same ok
      by (auto split: option.splits sum.splits)
  qed
qed simp

lemma apply_snapshot_transparent:
  assumes "inj_on (HashOf L) H" and "set hs \<subseteq> H" and "sig_ok L H sigcache"
  shows "map_option fst (apply_snapshot_cached L cfg hs s sigcache) = apply_snapshot cfg (recover_signer L) (HashOf L) hs s"
    and "apply_snapshot_cached L cfg hs s sigcache = Some (r, sigcache') \<Longrightarrow> sig_ok L H sigcache'"
proof -
  note t = apply_headers_transparent [OF assms, of cfg "copy_snapshot s"]
  obtain res where res: "apply_headers_cached L cfg hs (copy_snapshot s) sigcache = res" by simp
  show "map_option fst (apply_snapshot_cached L cfg hs s sigcache) = apply_snapshot cfg (recover_signer L) (HashOf L) hs s"
    using t unfolding apply_snapshot_cached_def apply_snapshot_def res
    by (cases res) (auto split: option.splits bool.splits sum.splits)
  show "apply_snapshot_cached L cfg hs s sigcache = Some (r, sigcache') \<Longrightarrow> sig_ok L H sigcache'"
    using t assms(3) unfolding apply_snapshot_cached_def res
    by (auto split: if_splits option.splits bool.splits sum.splits)
qed

section \<open>The search for a snapshot\<close>

text \<open>
  What the engine relies on. The headers \<open>H\<close> have numbers, recoverable seals and distinct hashes, \<open>num\<close> gives
  the block number of a hash; the chain serves headers of \<open>H\<close> under their hash and number, has a
  genesis, and its checkpoint headers carry a signer list. What is loaded from the database after
  a \<open>store\<close> was there before or is what was stored.
\<close>

definition headers_ok :: "'d clique_libs \<Rightarrow> (Hash \<Rightarrow> u64) \<Rightarrow> Header set \<Rightarrow> bool" where
  "headers_ok L num H \<longleftrightarrow> inj_on (HashOf L) H \<and>
     (\<forall>h\<in>H. \<exists>n. header_number h = Some n \<and> recover_signer L h \<noteq> None \<and> num (HashOf L h) = n \<and> num (h_ParentHash h) = n - 1)"

definition chain_ok :: "'d clique_libs \<Rightarrow> Header set \<Rightarrow> chain_reader \<Rightarrow> bool" where
  "chain_ok L H chain \<longleftrightarrow> GetHeaderByNumber chain 0 \<noteq> None \<and>
     (\<forall>n h. GetHeaderByNumber chain n = Some h \<longrightarrow> h \<in> H \<and> header_number h = Some n \<and> checkpoint_signers (h_Extra h) \<noteq> None) \<and>
     (\<forall>hash n h. GetHeader chain hash n = Some h \<longrightarrow> h \<in> H \<and> header_number h = Some n \<and> HashOf L h = hash)"

definition db_ok :: "'d clique_libs \<Rightarrow> bool" where
  "db_ok L \<longleftrightarrow> (\<forall>db s db' k s'. store L s db = Inr db' \<longrightarrow> loadSnapshot L db' k = Inr s' \<longrightarrow>
     loadSnapshot L db k = Inr s' \<or> k = sn_Hash s \<and> s' = s)"

definition snap_entry :: "'d clique_libs \<Rightarrow> CliqueConfig \<Rightarrow> (Hash \<Rightarrow> u64) \<Rightarrow> Hash \<Rightarrow> Snapshot \<Rightarrow> bool" where
  "snap_entry L cfg num hash s \<longleftrightarrow>
     reachable cfg (recover_signer L) (HashOf L) s \<and> sn_Hash s = hash \<and> sn_Number s = num hash"

text \<open>The invariant of the engine: configuration, caches and database.\<close>

definition engine_ok :: "'d clique_libs \<Rightarrow> CliqueConfig \<Rightarrow> (Hash \<Rightarrow> u64) \<Rightarrow> Header set \<Rightarrow> 'd Clique \<Rightarrow> bool" where
  "engine_ok L cfg num H c \<longleftrightarrow> c_config c = cfg \<and> Epoch cfg \<noteq> 0 \<and> \<not> c_fakeDiff c \<and> sig_ok L H (c_signatures c) \<and>
     basic_lru.holds (snap_entry L cfg num) (c_recents c) \<and>
     (\<forall>k s. loadSnapshot L (c_db c) k = Inr s \<longrightarrow> snap_entry L cfg num k s)"

lemma engine_ok_store:
  assumes "db_ok L" and "engine_ok L cfg num H c" and "snap_entry L cfg num (sn_Hash s) s" and "store L s (c_db c) = Inr db"
  shows "engine_ok L cfg num H (c\<lparr>c_db := db\<rparr>)"
  using assms unfolding engine_ok_def db_ok_def by (simp, metis)

text \<open>What the search returns for \<open>hash\<close>: a justified base and the headers above it.\<close>

definition found ::
  "'d clique_libs \<Rightarrow> CliqueConfig \<Rightarrow> (Hash \<Rightarrow> u64) \<Rightarrow> Header set \<Rightarrow> u64 \<Rightarrow> Hash \<Rightarrow> Snapshot \<Rightarrow> Header list \<Rightarrow> bool" where
  "found L cfg num H number hash base ups \<longleftrightarrow> snap_entry L cfg num (sn_Hash base) base \<and> set ups \<subseteq> H \<and>
     sn_Number base + of_nat (length ups) = number \<and> (ups \<noteq> [] \<longrightarrow> HashOf L (hd ups) = hash)"

lemma found_Cons:
  assumes "found L cfg num H (number - 1) (h_ParentHash h) base ups" and "h \<in> H" and "HashOf L h = hash"
  shows "found L cfg num H number hash base (h # ups)"
proof -
  have "sn_Number base + of_nat (length ups) = number - 1" using assms(1) by (simp add: found_def)
  then have "sn_Number base + of_nat (length (h # ups)) = number" by (simp add: algebra_simps)
  then show ?thesis using assms unfolding found_def by simp
qed

text \<open>A found snapshot is one step of the search away from the next.\<close>

definition search_ok ::
  "'d clique_libs \<Rightarrow> CliqueConfig \<Rightarrow> (Hash \<Rightarrow> u64) \<Rightarrow> Header set \<Rightarrow> u64 \<Rightarrow> Hash \<Rightarrow> Header list \<Rightarrow>
     ((clique_error + Snapshot \<times> Header list) \<times> 'd Clique) option \<Rightarrow> bool" where
  "search_ok L cfg num H number hash headers res \<longleftrightarrow>
     (\<exists>r c'. res = Some (r, c') \<and> engine_ok L cfg num H c' \<and>
        (\<forall>base hs. r = Inr (base, hs) \<longrightarrow> (\<exists>ups. hs = headers @ ups \<and> found L cfg num H number hash base ups)))"

lemma search_ok_err: "engine_ok L cfg num H c \<Longrightarrow> search_ok L cfg num H number hash headers (Some (Inl e, c))"
  by (simp add: search_ok_def)

lemma search_ok_base:
  assumes "engine_ok L cfg num H c" and "snap_entry L cfg num (sn_Hash s) s" and "sn_Number s = number"
  shows "search_ok L cfg num H number hash headers (Some (Inr (s, headers), c))"
  using assms by (auto simp: search_ok_def found_def)

lemma search_ok_step:
  assumes "search_ok L cfg num H (number - 1) (h_ParentHash h) (headers @ [h]) res" and "h \<in> H" and "HashOf L h = hash"
  shows "search_ok L cfg num H number hash headers res"
proof -
  from assms(1) obtain r c' where res: "res = Some (r, c')" and ok: "engine_ok L cfg num H c'"
    and f: "\<And>base hs. r = Inr (base, hs) \<Longrightarrow>
      \<exists>ups. hs = (headers @ [h]) @ ups \<and> found L cfg num H (number - 1) (h_ParentHash h) base ups"
    unfolding search_ok_def by blast
  have "\<exists>ups. hs = headers @ ups \<and> found L cfg num H number hash base ups" if eq: "r = Inr (base, hs)" for base hs
  proof -
    obtain ups where "hs = (headers @ [h]) @ ups" "found L cfg num H (number - 1) (h_ParentHash h) base ups"
      using f [OF eq] by blast
    then show ?thesis using found_Cons [OF _ assms(2,3)] by (intro exI [of _ "h # ups"]) simp
  qed
  then show ?thesis using res ok unfolding search_ok_def by blast
qed

lemma find_snapshot_step:
  assumes "headers_ok L num H" and "chain_ok L H chain" and "db_ok L" and eng: "engine_ok L cfg num H c"
    and hash: "num hash = number" and par: "set parents \<subseteq> H"
    and rec: "\<And>h ps. number \<noteq> 0 \<Longrightarrow> h \<in> H \<Longrightarrow> num (h_ParentHash h) = number - 1 \<Longrightarrow> set ps \<subseteq> H \<Longrightarrow>
      search_ok L cfg num H (number - 1) (h_ParentHash h) (headers @ [h])
        (find_snapshot L chain (number - 1) (h_ParentHash h) ps (headers @ [h]) c)"
  shows "search_ok L cfg num H number hash headers (find_snapshot L chain number hash parents headers c)"
proof -
  have cfg: "c_config c = cfg" "Epoch cfg \<noteq> 0" using eng by (simp_all add: engine_ok_def)
  have hh: "\<exists>n. header_number h = Some n \<and> num (HashOf L h) = n \<and> num (h_ParentHash h) = n - 1" if "h \<in> H" for h
    using assms(1) that by (auto simp: headers_ok_def)
  obtain a c1 where g: "lru_Get (c_recents c) hash = (a, c1)" by fastforce
  have "basic_lru.holds (snap_entry L cfg num) (c_recents c)" using eng by (simp add: engine_ok_def)
  from basic_lru.holds_get [OF this g]
  have c1: "engine_ok L cfg num H (c\<lparr>c_recents := c1\<rparr>)" and hit: "\<And>s. a = Some s \<Longrightarrow> snap_entry L cfg num hash s"
    using eng by (simp_all add: engine_ok_def)
  let ?disk = "if number mod 1024 = 0 then (case loadSnapshot L (c_db c) hash of Inl _ \<Rightarrow> None | Inr s \<Rightarrow> Some s) else None"
  let ?cp = "if number = 0 \<or> (number mod Epoch (c_config c) = 0 \<and>
      (length headers > 90000 \<or> GetHeaderByNumber chain (number - 1) = None)) then GetHeaderByNumber chain number else None"
  show ?thesis
  proof (cases a)
    case (Some s)
    then have "snap_entry L cfg num (sn_Hash s) s" "sn_Number s = number"
      using hit hash by (auto simp: snap_entry_def)
    then show ?thesis using search_ok_base [OF c1] Some by (subst find_snapshot.simps) (simp add: g)
  next
    case None
    show ?thesis
    proof (cases ?disk)
      case (Some s)
      then have "snap_entry L cfg num hash s"
        using eng by (auto simp: engine_ok_def split: if_splits sum.splits)
      then have "snap_entry L cfg num (sn_Hash s) s" "sn_Number s = number" using hash by (auto simp: snap_entry_def)
      from search_ok_base [OF eng this] show ?thesis
        using Some None by (subst find_snapshot.simps) (simp add: g)
    next
      case nodisk: None
      show ?thesis
      proof (cases ?cp)
        case (Some cp)
        then have cp: "cp \<in> H" "header_number cp = Some number" "checkpoint_signers (h_Extra cp) \<noteq> None"
          using assms(2) by (auto simp: chain_ok_def split: if_splits)
        obtain sigs where sigs: "checkpoint_signers (h_Extra cp) = Some sigs" using cp(3) by blast
        let ?s = "newSnapshot number (HashOf L cp) sigs"
        have e: "snap_entry L cfg num (sn_Hash ?s) ?s" and n: "sn_Number ?s = number"
          using hh [OF cp(1)] cp(2) reachable.fresh [of cfg "recover_signer L" "HashOf L"]
          by (auto simp: snap_entry_def) (simp_all add: newSnapshot_def)
        have "search_ok L cfg num H number hash headers
          (case store L ?s (c_db c) of Inl err \<Rightarrow> Some (Inl err, c) | Inr db \<Rightarrow> Some (Inr (?s, headers), c\<lparr>c_db := db\<rparr>))"
          using search_ok_err [OF eng] search_ok_base [OF engine_ok_store [OF assms(3) eng e] e n]
          by (auto split: sum.splits)
        then show ?thesis
          using Some nodisk None cfg sigs by (subst find_snapshot.simps) (simp add: g Let_def)
      next
        case nocp: None
        have nz: "number \<noteq> 0" using nocp assms(2) by (auto simp: chain_ok_def split: if_splits)
        have go: "search_ok L cfg num H number hash headers
            (find_snapshot L chain (number - 1) (h_ParentHash h) ps (headers @ [h]) c)"
          if "h \<in> H" "header_number h = Some number" "HashOf L h = hash" "set ps \<subseteq> H" for h ps
          using search_ok_step [OF rec [OF nz that(1) _ that(4)] that(1,3)] hh [OF that(1)] that(2) by simp
        show ?thesis
        proof (cases "parents = []")
          case True
          show ?thesis
          proof (cases "GetHeader chain hash number")
            case None
            with \<open>a = None\<close> show ?thesis
              using nocp nodisk cfg True search_ok_err [OF eng]
              by (subst find_snapshot.simps) (simp add: g Let_def nz)
          next
            case (Some h)
            then have "h \<in> H" "header_number h = Some number" "HashOf L h = hash"
              using assms(2) by (auto simp: chain_ok_def)
            from go [OF this par] show ?thesis
              using Some \<open>a = None\<close> nocp nodisk cfg True
              by (subst find_snapshot.simps) (simp add: g Let_def nz)
          qed
        next
          case False
          then have l: "last parents \<in> H" using par by (meson last_in_set subsetD)
          have bl: "set (butlast parents) \<subseteq> H" using par by (auto dest: in_set_butlastD)
          obtain m where m: "header_number (last parents) = Some m" using hh [OF l] by blast
          show ?thesis
          proof (cases "HashOf L (last parents) \<noteq> hash \<or> m \<noteq> number")
            case True
            then show ?thesis
              using \<open>a = None\<close> nocp nodisk cfg False m search_ok_err [OF eng]
              by (subst find_snapshot.simps) (simp add: g Let_def nz)
          next
            case ok: False
            with go [OF l _ _ bl] m show ?thesis
              using \<open>a = None\<close> nocp nodisk cfg False
              by (subst find_snapshot.simps) (simp add: g Let_def nz)
          qed
        qed
      qed
    qed
  qed
qed

lemma find_snapshot_ok:
  assumes "headers_ok L num H" and "chain_ok L H chain" and "db_ok L" and "engine_ok L cfg num H c"
    and "num hash = number" and "set parents \<subseteq> H"
  shows "search_ok L cfg num H number hash headers (find_snapshot L chain number hash parents headers c)"
  using assms(5,6)
proof (induction "unat number" arbitrary: number hash parents headers rule: less_induct)
  case less
  show ?case
  proof (rule find_snapshot_step [OF assms(1-4) less.prems])
    fix h :: Header and ps assume "number \<noteq> 0" "num (h_ParentHash h) = number - 1" "set ps \<subseteq> H"
    moreover from \<open>number \<noteq> 0\<close> have "unat (number - 1) < unat number" by (simp add: unat_minus_one unat_gt_0)
    ultimately show "search_ok L cfg num H (number - 1) (h_ParentHash h) (headers @ [h])
        (find_snapshot L chain (number - 1) (h_ParentHash h) ps (headers @ [h]) c)"
      by (intro less.hyps)
  qed
qed

lemma apply_header_total:
  "header_number h \<noteq> None \<Longrightarrow> Epoch cfg \<noteq> 0 \<Longrightarrow> recover h \<noteq> None \<Longrightarrow> apply_header cfg recover h s \<noteq> None"
  unfolding apply_header_def Let_def by (auto split: option.splits sum.splits)

lemma apply_headers_total:
  "\<forall>h\<in>set hs. header_number h \<noteq> None \<and> recover h \<noteq> None \<Longrightarrow> Epoch cfg \<noteq> 0 \<Longrightarrow> apply_headers cfg recover hs s \<noteq> None"
proof (induction hs arbitrary: s)
  case (Cons h hs)
  then obtain r where "apply_header cfg recover h s = Some r" using apply_header_total [of h cfg recover s] by auto
  with Cons show ?case by (auto split: sum.splits)
qed simp

lemma contiguous_total: "\<forall>h\<in>set hs. header_number h \<noteq> None \<Longrightarrow> contiguous hs \<noteq> None"
  by (induction hs rule: contiguous.induct) auto

lemma apply_snapshot_total:
  assumes "\<forall>h\<in>set hs. header_number h \<noteq> None \<and> recover h \<noteq> None" and "Epoch cfg \<noteq> 0"
  shows "apply_snapshot cfg recover hash_of hs s \<noteq> None"
proof (cases "hs = []")
  case False
  then obtain n where n: "header_number (hd hs) = Some n" using assms(1) hd_in_set by blast
  then show ?thesis
    using apply_headers_total [OF assms, of s] contiguous_total [of hs] assms(1) False
    by (auto simp: apply_snapshot_def split: option.splits bool.splits sum.splits)
qed (simp add: apply_snapshot_def)

lemma apply_snapshot_entry:
  assumes f: "found L cfg num H number hash base ups" and hash: "num hash = number"
    and ap: "apply_snapshot cfg (recover_signer L) (HashOf L) (rev ups) base = Some (Inr s)"
  shows "snap_entry L cfg num (sn_Hash s) s" and "sn_Number s = number"
proof -
  have r: "reachable cfg (recover_signer L) (HashOf L) s"
    using f ap by (auto simp: found_def snap_entry_def intro: reachable.applied)
  show n: "sn_Number s = number"
    using apply_snapshot_number [OF ap] f by (simp add: found_def)
  show "snap_entry L cfg num (sn_Hash s) s"
  proof (cases "ups = []")
    case True
    then show ?thesis using f ap by (simp add: found_def apply_snapshot_def)
  next
    case False
    then have "sn_Hash s = hash" using apply_snapshot_ok [OF ap] f by (auto simp: found_def last_rev)
    then show ?thesis using r n hash by (simp add: snap_entry_def)
  qed
qed

lemma snapshot_ok:
  assumes hs: "headers_ok L num H" and "chain_ok L H chain" and db: "db_ok L" and "engine_ok L cfg num H c"
    and hash: "num hash = number" and "set parents \<subseteq> H"
  shows "\<exists>r c'. snapshot L chain number hash parents c = Some (r, c') \<and> engine_ok L cfg num H c' \<and>
    (\<forall>s. r = Inr s \<longrightarrow> snap_entry L cfg num (sn_Hash s) s \<and> sn_Number s = number)"
proof -
  obtain r c1 where find: "find_snapshot L chain number hash parents [] c = Some (r, c1)" and e1: "engine_ok L cfg num H c1"
    and f: "\<And>base ups. r = Inr (base, ups) \<Longrightarrow> found L cfg num H number hash base ups"
    using find_snapshot_ok [OF assms, of "[]"] by (auto simp: search_ok_def)
  show ?thesis
  proof (cases r)
    case (Inl e)
    then show ?thesis using find e1 by (simp add: snapshot_def)
  next
    case (Inr p)
    obtain base ups where p: "p = (base, ups)" by fastforce
    note fd = f [OF Inr [unfolded p]]
    have ups: "set (rev ups) \<subseteq> H" using fd by (simp add: found_def)
    have cfg: "c_config c1 = cfg" "Epoch cfg \<noteq> 0" "sig_ok L H (c_signatures c1)" using e1 by (simp_all add: engine_ok_def)
    have inj: "inj_on (HashOf L) H" using hs by (simp add: headers_ok_def)
    note t = apply_snapshot_transparent [OF inj ups cfg(3), of cfg base]
    have "\<forall>h\<in>set (rev ups). header_number h \<noteq> None \<and> recover_signer L h \<noteq> None"
      using hs ups by (fastforce simp: headers_ok_def)
    then have "apply_snapshot cfg (recover_signer L) (HashOf L) (rev ups) base \<noteq> None"
      using cfg(2) by (rule apply_snapshot_total)
    then obtain r2 sigs where ap: "apply_snapshot_cached L cfg (rev ups) base (c_signatures c1) = Some (r2, sigs)"
      and pure: "apply_snapshot cfg (recover_signer L) (HashOf L) (rev ups) base = Some r2"
      using t(1) by (cases "apply_snapshot_cached L cfg (rev ups) base (c_signatures c1)") auto
    have sigs: "sig_ok L H sigs" using t(2) [OF ap] .
    show ?thesis
    proof (cases r2)
      case (Inl e)
      then show ?thesis using find \<open>r = Inr p\<close> p ap cfg(1) e1 sigs by (simp add: snapshot_def engine_ok_def)
    next
      case ok: (Inr s)
      note entry = apply_snapshot_entry [OF fd hash pure [unfolded ok]]
      obtain ev rec where add: "lru_Add (c_recents c1) (sn_Hash s) s = Some (ev, rec)"
        and rec: "basic_lru.holds (snap_entry L cfg num) rec"
        using basic_lru.holds_add [of "snap_entry L cfg num" "c_recents c1" "sn_Hash s" s] e1 entry(1)
        by (auto simp: engine_ok_def)
      let ?c = "c1\<lparr>c_signatures := sigs, c_recents := rec\<rparr>"
      have c: "engine_ok L cfg num H ?c" using e1 sigs rec by (simp add: engine_ok_def)
      have st: "engine_ok L cfg num H (?c\<lparr>c_db := d\<rparr>)" if "store L s (c_db c1) = Inr d" for d
        using engine_ok_store [OF db c entry(1)] that by simp
      show ?thesis
        using find \<open>r = Inr p\<close> p ap cfg(1) ok add entry c st
        by (auto simp: snapshot_def Let_def split: sum.splits)
    qed
  qed
qed

section \<open>Verification of a header\<close>













section \<open>Prepared headers\<close>

definition prepared_extra :: "Snapshot \<Rightarrow> bool \<Rightarrow> bytes \<Rightarrow> bytes" where
  "prepared_extra snap checkpoint extra =
     take extraVanity (extra @ replicate (extraVanity - length extra) 0) @
     (if checkpoint then signer_bytes snap else []) @ replicate extraSeal 0"

lemma length_prepared_extra:
  "length (prepared_extra snap cp extra) = extraVanity + (if cp then length (signer_bytes snap) else 0) + extraSeal"
  by (simp add: prepared_extra_def)

lemma prepared_extra_signers:
  "slice (prepared_extra snap True extra) extraVanity (length (prepared_extra snap True extra) - extraSeal) = signer_bytes snap"
  unfolding length_prepared_extra by (simp add: prepared_extra_def slice_def)

lemma length_signer_bytes: "length (signer_bytes snap) = 20 * length (signers snap)"
proof -
  have "length (concat (map addr_bytes xs)) = 20 * length xs" for xs by (induction xs) auto
  then show ?thesis by (simp add: signer_bytes_def)
qed

lemma nth_mod_mem: "xs \<noteq> [] \<Longrightarrow> xs ! (k mod length xs) \<in> set xs"
  by simp

lemma Prepare_ok:
  assumes "Prepare L now pick chain header0 c = Some (Inr (), h, c')" and "header_number header0 = Some n"
  obtains snap parent d cb nonce where "snapshot L chain (n - 1) (h_ParentHash header0) [] c = Some (Inr snap, c')"
    and "calcDifficulty snap (c_signer c') = Some d" and "GetHeader chain (h_ParentHash header0) (n - 1) = Some parent"
    and "cb = 0 \<and> nonce = 0 \<or> n mod Epoch (c_config c') \<noteq> 0 \<and>
      cb \<in> fst ` {p \<in> set (c_proposals c'). validVote snap (fst p) (snd p)} \<and>
      nonce = (if map_of (c_proposals c') cb = Some True then nonceAuthVote else nonceDropVote)"
    and "h = header0\<lparr>h_Coinbase := cb, h_Nonce := nonce, h_Difficulty := Some d,
      h_Extra := prepared_extra snap (n mod Epoch (c_config c') = 0) (h_Extra header0), h_MixDigest := 0,
      h_Time := max (h_Time parent + Period (c_config c')) now\<rparr>"
proof -
  from assms obtain snap where sn: "snapshot L chain (n - 1) (h_ParentHash header0) [] c = Some (Inr snap, c')"
    by (auto simp: Prepare_def Let_def split: option.splits sum.splits if_splits)
  let ?as = "map fst (filter (\<lambda>(a, auth). validVote snap a auth) (c_proposals c'))"
  let ?vote = "n mod Epoch (c_config c') \<noteq> 0 \<and> ?as \<noteq> []"
  define cb where "cb = (if ?vote then ?as ! (pick (length ?as) mod length ?as) else 0)"
  define nonce where "nonce = (if ?vote then (if map_of (c_proposals c') cb = Some True then nonceAuthVote else nonceDropVote) else 0)"
  have mx: "(if t < now then now else t) = max t now" for t by (auto simp: max_def)
  have cb: "cb = 0 \<and> nonce = 0 \<or> n mod Epoch (c_config c') \<noteq> 0 \<and>
      cb \<in> fst ` {p \<in> set (c_proposals c'). validVote snap (fst p) (snd p)} \<and>
      nonce = (if map_of (c_proposals c') cb = Some True then nonceAuthVote else nonceDropVote)"
  proof (cases ?vote)
    case True
    then have "cb = ?as ! (pick (length ?as) mod length ?as)" by (simp only: cb_def if_True simp_thms)
    with True have "cb \<in> set ?as" using nth_mod_mem by metis
    with True show ?thesis by (auto simp: nonce_def)
  next
    case False
    then have "cb = 0" "nonce = 0" by (simp_all only: cb_def nonce_def if_False)
    then show ?thesis by blast
  qed
  from assms sn obtain d parent where d: "calcDifficulty snap (c_signer c') = Some d"
    and p: "GetHeader chain (h_ParentHash header0) (n - 1) = Some parent"
    by (auto simp: Prepare_def Let_def split: option.splits if_splits)
  have "h = header0\<lparr>h_Coinbase := cb, h_Nonce := nonce, h_Difficulty := Some d,
      h_Extra := prepared_extra snap (n mod Epoch (c_config c') = 0) (h_Extra header0), h_MixDigest := 0,
      h_Time := max (h_Time parent + Period (c_config c')) now\<rparr>"
    using assms sn d p
    by (auto simp: Prepare_def Let_def prepared_extra_def mx cb_def nonce_def split: option.splits if_splits)
  then show thesis by (rule that [OF sn d p cb])
qed

section \<open>A concrete network\<close>

text \<open>
  One signer, a genesis and one block on it. Hashes are block numbers, the seal starts with the signer,
  the database is an association list and keeps the genesis snapshot only.
\<close>

definition ex_sealed :: "nat \<Rightarrow> Hash \<Rightarrow> bytes \<Rightarrow> Header" where
  "ex_sealed n parent extra = (ex_header n 0 nonceDropVote 0)\<lparr>h_ParentHash := parent, h_Extra := extra, h_Difficulty := Some 2,
     h_GasLimit := 8000000, h_Time := of_nat n * 15\<rparr>"

definition ex_genesis :: Header where
  "ex_genesis = ex_sealed 0 0xffffffffffffffff (replicate 32 0 @ addr_bytes 1 @ replicate 65 0)"

definition ex_block :: Header where
  "ex_block = ex_sealed 1 0 (replicate 32 0 @ 1 # replicate 64 0)"

definition ex_genesis_snap :: Snapshot where
  "ex_genesis_snap = newSnapshot 0 0 [1]"

definition ex_clique_libs :: "(bytes \<times> bytes) list clique_libs" where
  "ex_clique_libs = \<lparr>HashOf = (\<lambda>h. case h_Number h of None \<Rightarrow> 0 | Some n \<Rightarrow> of_nat n), EncodeRLP = (\<lambda>_. []),
     sealKeccak256 = (\<lambda>b. b), sealEcrecover = (\<lambda>_ sig. Inr (replicate 13 0 @ take 1 sig)),
     MarshalSnapshot = (\<lambda>s. if s = ex_genesis_snap then Inr [1] else Inl ''unsupported''),
     UnmarshalSnapshot = (\<lambda>b. if b = [1] then Inr ex_genesis_snap else Inl ''corrupt''),
     DbGet = (\<lambda>db k. case map_of db k of None \<Rightarrow> Inl ''not found'' | Some v \<Rightarrow> Inr v),
     DbPut = (\<lambda>db k v. Inr ((k, v) # db)), uncleHash = 0\<rparr>"

definition ex_chain :: chain_reader where
  "ex_chain = \<lparr>GetHeader = (\<lambda>hash n. if n = 0 \<and> hash = 0 then Some ex_genesis else if n = 1 \<and> hash = 1 then Some ex_block else None),
     GetHeaderByNumber = (\<lambda>n. if n = 0 then Some ex_genesis else if n = 1 then Some ex_block else None),
     Config = no_forks\<lparr>EIP158Block := Some 0\<rparr>\<rparr>"

definition ex_num :: "Hash \<Rightarrow> u64" where
  "ex_num = ucast"

definition ex_draft :: Header where
  "ex_draft = ex_sealed 1 0 []"

lemmas ex_net_defs = ex_sealed_def ex_genesis_def ex_block_def ex_header_def

lemma ex_headers_ok: "headers_ok ex_clique_libs ex_num {ex_genesis, ex_block}"
  by (simp add: headers_ok_def ex_clique_libs_def ex_num_def ex_net_defs header_number_def recover_signer_def
      SealHash_def encodeSigHeader_def extraSeal_def addr_bytes_def)

lemma ex_chain_ok: "chain_ok ex_clique_libs {ex_genesis, ex_block} ex_chain"
  by (simp add: chain_ok_def ex_chain_def ex_clique_libs_def ex_net_defs header_number_def checkpoint_signers_def
      extraVanity_def extraSeal_def addr_bytes_def)

lemma ex_db_ok: "db_ok ex_clique_libs"
proof -
  have "snapshot_key k = snapshot_key k' \<longleftrightarrow> k = k'" for k k' by (simp add: snapshot_key_def)
  then show ?thesis
    by (auto simp: db_ok_def store_def loadSnapshot_def ex_clique_libs_def split: sum.splits option.splits if_splits)
qed

definition ex_engine :: "(bytes \<times> bytes) list Clique" where
  "ex_engine = Authorize (New ex_cfg []) 1"

lemma ex_engine_ok: "engine_ok ex_clique_libs ex_cfg ex_num {ex_genesis, ex_block} ex_engine"
  using sig_ok_new [of ex_clique_libs]
  by (simp add: engine_ok_def ex_engine_def Authorize_def New_def ex_cfg_def basic_lru.holds_def lru_new_inv loadSnapshot_def ex_clique_libs_def lru_Peek_def)
    (simp add: NewBasicLRU_def)

lemma ex_find:
  "\<exists>db. find_snapshot ex_clique_libs ex_chain 0 0 parents [] ex_engine = Some (Inr (ex_genesis_snap, []), ex_engine\<lparr>c_db := db\<rparr>)"
proof -
  have s: "checkpoint_signers (h_Extra ex_genesis) = Some [1]"
    by (simp add: checkpoint_signers_def ex_net_defs extraVanity_def extraSeal_def slice_def BytesToAddress_addr_bytes)
  have h: "HashOf ex_clique_libs ex_genesis = 0" by (simp add: ex_clique_libs_def ex_net_defs)
  have g: "lru_Get (c_recents ex_engine) 0 = (None, c_recents ex_engine)"
    by (simp add: lru_Get_def ex_engine_def Authorize_def New_def NewBasicLRU_def)
  have l: "loadSnapshot ex_clique_libs (c_db ex_engine) 0 = Inl (ErrDatabase ''not found'')"
    by (simp add: loadSnapshot_def ex_clique_libs_def ex_engine_def Authorize_def New_def)
  have st: "\<exists>db. store ex_clique_libs ex_genesis_snap (c_db ex_engine) = Inr db"
    by (simp add: store_def ex_clique_libs_def)
  have n: "GetHeaderByNumber ex_chain 0 = Some ex_genesis" by (simp add: ex_chain_def)
  from st show ?thesis
    by (subst find_snapshot.simps) (auto simp: g l n s h ex_genesis_snap_def [symmetric])
qed

lemma ex_snapshot:
  "\<exists>db rec. snapshot ex_clique_libs ex_chain 0 0 parents ex_engine =
     Some (Inr ex_genesis_snap, ex_engine\<lparr>c_db := db, c_recents := rec\<rparr>)"
proof -
  obtain db where f: "find_snapshot ex_clique_libs ex_chain 0 0 parents [] ex_engine = Some (Inr (ex_genesis_snap, []), ex_engine\<lparr>c_db := db\<rparr>)"
    using ex_find by blast
  have "\<exists>ev rec. lru_Add (c_recents ex_engine) (sn_Hash ex_genesis_snap) ex_genesis_snap = Some (ev, rec)"
    using basic_lru.add_works [of "c_recents ex_engine"]
    by (fastforce simp: ex_engine_def Authorize_def New_def lru_new_inv)
  moreover have "c_signatures (ex_engine\<lparr>c_db := db\<rparr>) = c_signatures ex_engine" by simp
  ultimately show ?thesis by (auto simp: snapshot_def f apply_snapshot_cached_def) (metis (no_types) Clique.surjective)
qed


lemmas ex_engine_eval = ex_net_defs header_number_def ex_engine_def Authorize_def New_def ex_cfg_def nonceDropVote_def
  extraVanity_def extraSeal_def ex_clique_libs_def ex_chain_def cfg_IsShanghai_def cfg_IsCancun_def time_fork_def cfg_IsLondon_def isBlockForked_def



section \<open>Properties of the engine\<close>

lemmas ex_env = ex_headers_ok ex_chain_ok ex_db_ok

text \<open>
  C33. The signature cache is transparent: if it holds only signers recovered from headers that were
  seen, and those have distinct hashes, applying seen headers through the cache gives the same
  outcome as recovering every signer afresh, a panic included, and the cache it leaves is again of that kind.
\<close>

theorem sigcache_transparent:
  assumes "inj_on (HashOf L) H" and "set hs \<subseteq> H" and "sig_ok L H sigcache"
  shows "map_option fst (apply_snapshot_cached L cfg hs s sigcache) = apply_snapshot cfg (recover_signer L) (HashOf L) hs s \<and>
    (\<forall>r sigcache'. apply_snapshot_cached L cfg hs s sigcache = Some (r, sigcache') \<longrightarrow> sig_ok L H sigcache')"
  using apply_snapshot_transparent [OF assms] by blast

theorem sigcache_transparent_witness:
  "map_option fst (apply_snapshot_cached ex_clique_libs ex_cfg [ex_block] ex_genesis_snap (NewBasicLRU 4096)) =
     apply_snapshot ex_cfg (recover_signer ex_clique_libs) (HashOf ex_clique_libs) [ex_block] ex_genesis_snap"
proof -
  have "inj_on (HashOf ex_clique_libs) {ex_genesis, ex_block}" "set [ex_block] \<subseteq> {ex_genesis, ex_block}"
    using ex_headers_ok by (simp_all add: headers_ok_def)
  from sigcache_transparent [OF this sig_ok_new] show ?thesis by (rule conjunct1)
qed





text \<open>
  A header that \<open>Prepare\<close> completes for block \<open>n > 0\<close> meets the rules verification will apply: relative to a
  reachable snapshot at block \<open>n - 1\<close>, its nonce is a vote nonce, a checkpoint has no beneficiary and
  lists exactly the signers, the extra data has the room for vanity and seal, its difficulty is that of
  the engine's own turn, its time is at least the clock's and the parent's plus the period, and a
  vote it carries would change the status of its subject.
\<close>

theorem Prepare_meets_rules:
  assumes "headers_ok L num H" and "chain_ok L H chain" and "db_ok L" and "engine_ok L cfg num H c"
    and "header_number header0 = Some n" and "num (h_ParentHash header0) = n - 1"
    and "Prepare L now pick chain header0 c = Some (Inr (), h, c')"
  shows "\<exists>snap parent. reachable cfg (recover_signer L) (HashOf L) snap \<and> sn_Number snap = n - 1 \<and>
    GetHeader chain (h_ParentHash h) (n - 1) = Some parent \<and> max (h_Time parent + Period cfg) now \<le> h_Time h \<and>
    header_number h = Some n \<and> (h_Nonce h = nonceAuthVote \<or> h_Nonce h = nonceDropVote) \<and>
    (n mod Epoch cfg = 0 \<longrightarrow> h_Coinbase h = 0 \<and> h_Nonce h = nonceDropVote \<and>
      slice (h_Extra h) extraVanity (length (h_Extra h) - extraSeal) = signer_bytes snap) \<and>
    length (h_Extra h) = extraVanity + (if n mod Epoch cfg = 0 then 20 * card (sn_Signers snap) else 0) + extraSeal \<and>
    h_MixDigest h = 0 \<and> (h_Difficulty h = Some diffInTurn \<or> h_Difficulty h = Some diffNoTurn) \<and>
    check_signer False snap h n (c_signer c') \<noteq> Some (Inl errWrongDifficulty) \<and>
    (distinct (map fst (c_proposals c')) \<and> h_Coinbase h \<noteq> 0 \<longrightarrow> validVote snap (h_Coinbase h) (h_Nonce h = nonceAuthVote))"
proof -
  obtain snap parent d cb nonce where sn: "snapshot L chain (n - 1) (h_ParentHash header0) [] c = Some (Inr snap, c')"
    and d: "calcDifficulty snap (c_signer c') = Some d" and p: "GetHeader chain (h_ParentHash header0) (n - 1) = Some parent"
    and cb: "cb = 0 \<and> nonce = 0 \<or> n mod Epoch (c_config c') \<noteq> 0 \<and>
      cb \<in> fst ` {p \<in> set (c_proposals c'). validVote snap (fst p) (snd p)} \<and>
      nonce = (if map_of (c_proposals c') cb = Some True then nonceAuthVote else nonceDropVote)"
    and h: "h = header0\<lparr>h_Coinbase := cb, h_Nonce := nonce, h_Difficulty := Some d,
      h_Extra := prepared_extra snap (n mod Epoch (c_config c') = 0) (h_Extra header0), h_MixDigest := 0,
      h_Time := max (h_Time parent + Period (c_config c')) now\<rparr>"
    using assms(7,5) by (rule Prepare_ok)
  have snap: "reachable cfg (recover_signer L) (HashOf L) snap" "sn_Number snap = n - 1" and c': "c_config c' = cfg"
    using snapshot_ok [OF assms(1-4,6), of "[]"] sn by (auto simp: snap_entry_def engine_ok_def)
  have fin: "finite (sn_Signers snap)" using voting_invD(1) [OF reachable_inv [OF snap(1)]] .
  obtain turn where turn: "inturn snap n (c_signer c') = Some turn" and dt: "d = (if turn then diffInTurn else diffNoTurn)"
    using d snap(2) by (auto simp: calcDifficulty_def)
  have diff: "check_signer False snap h n (c_signer c') \<noteq> Some (Inl errWrongDifficulty)"
    by (simp add: check_signer_def turn dt h)
  have vote: "validVote snap cb (nonce = nonceAuthVote)" if voting: "distinct (map fst (c_proposals c'))" "cb \<noteq> 0"
  proof -
    obtain b where b: "(cb, b) \<in> set (c_proposals c')" "validVote snap cb b" and
      nn: "nonce = (if map_of (c_proposals c') cb = Some True then nonceAuthVote else nonceDropVote)"
      using cb voting(2) by auto
    have "map_of (c_proposals c') cb = Some b" using b(1) voting(1) by simp
    then show ?thesis using b(2) nn by (cases b) (simp_all add: nonceAuthVote_def nonceDropVote_def)
  qed
  have nonce: "nonce = nonceAuthVote \<or> nonce = nonceDropVote" "n mod Epoch cfg = 0 \<Longrightarrow> cb = 0 \<and> nonce = nonceDropVote"
    using cb c' by (auto simp: nonceDropVote_def)
  have num: "header_number h = Some n" using assms(5) by (simp add: h header_number_def)
  have len: "length (h_Extra h) = extraVanity + (if n mod Epoch cfg = 0 then 20 * card (sn_Signers snap) else 0) + extraSeal"
    using fin by (simp add: h c' length_prepared_extra length_signer_bytes signers_def)
  have list: "slice (h_Extra h) extraVanity (length (h_Extra h) - extraSeal) = signer_bytes snap" if "n mod Epoch cfg = 0"
    using prepared_extra_signers [of snap "h_Extra header0"] that by (simp add: h c')
  show ?thesis
    by (intro exI [of _ snap] exI [of _ parent] conjI snap diff num len impI nonce(2) list)
      (use p nonce dt vote c' in \<open>auto simp: h\<close>)
qed

theorem Prepare_meets_rules_witness:
  "\<exists>h c'. Prepare ex_clique_libs 1000 (\<lambda>_. 0) ex_chain ex_draft ex_engine = Some (Inr (), h, c') \<and>
     h_Time h \<ge> 1000 \<and> length (h_Extra h) = 97"
proof -
  have facts: "header_number ex_draft = Some 1" "h_ParentHash ex_draft = 0" "Epoch (c_config ex_engine) = 30000"
    "c_signer ex_engine = 1" "c_proposals ex_engine = []" "GetHeader ex_chain 0 0 = Some ex_genesis"
    by (simp_all add: ex_draft_def ex_engine_eval)
  have d: "calcDifficulty ex_genesis_snap 1 = Some 2"
    by (simp add: calcDifficulty_def inturn_def signers_def ex_genesis_snap_def newSnapshot_def diffInTurn_def)
  obtain db rec where "snapshot ex_clique_libs ex_chain 0 0 [] ex_engine =
      Some (Inr ex_genesis_snap, ex_engine\<lparr>c_db := db, c_recents := rec\<rparr>)" using ex_snapshot by blast
  then obtain h c' where p: "Prepare ex_clique_libs 1000 (\<lambda>_. 0) ex_chain ex_draft ex_engine = Some (Inr (), h, c')"
    by (simp add: Prepare_def facts d Let_def)
  have "ex_num (h_ParentHash ex_draft) = 1 - 1" by (simp add: facts ex_num_def)
  note rules = Prepare_meets_rules [OF ex_env ex_engine_ok facts(1) this p]
  have "1 mod Epoch ex_cfg \<noteq> 0" by (simp add: ex_cfg_def)
  with rules have "h_Time h \<ge> 1000" "length (h_Extra h) = extraVanity + extraSeal" by auto
  with p show ?thesis by (auto simp: extraVanity_def extraSeal_def)
qed

end
