(* ===== verification/Evm_Base.thy ===== *)
theory Evm_Base
  imports Vm_Common Precompiles
begin

text \<open>
  The parts of a call frame of the virtual machine: the error values of \<^verbatim>\<open>src/go-ethereum/core/vm/errors.go\<close>,
  the operand stack (\<^verbatim>\<open>stack.go\<close>, \<^verbatim>\<open>stack_table.go\<close>), the byte memory and the sizes instructions need
  of it (\<^verbatim>\<open>memory.go\<close>, \<^verbatim>\<open>memory_table.go\<close>), and overflow-checked arithmetic (\<^verbatim>\<open>common/math\<close>). Slices and
  pools are values; an index out of range is \<open>None\<close>.

  A \<^verbatim>\<open>uint256.Int\<close> is the 256-bit word of its value; comparisons and conversions are those of the word,
  the arithmetic is a parameter.

  The outcome of code that may run other code is \<open>Panic\<close>, \<open>OutOfFuel\<close> (the bound the model puts on a loop
  was too small, which is shown not to happen) or a value.
\<close>

section \<open>Outcomes and errors\<close>

datatype 'a outcome = Panic | OutOfFuel | Ret 'a

definition obind :: "'a outcome \<Rightarrow> ('a \<Rightarrow> 'b outcome) \<Rightarrow> 'b outcome" where
  "obind x f = (case x of Panic \<Rightarrow> Panic | OutOfFuel \<Rightarrow> OutOfFuel | Ret a \<Rightarrow> f a)"

definition of_option :: "'a option \<Rightarrow> 'a outcome" where
  "of_option x = (case x of None \<Rightarrow> Panic | Some a \<Rightarrow> Ret a)"

lemma obind_simps [simp]:
  "obind Panic f = Panic" "obind OutOfFuel f = OutOfFuel" "obind (Ret a) f = f a"
  by (simp_all add: obind_def)

lemma of_option_simps [simp]: "of_option None = Panic" "of_option (Some a) = Ret a"
  by (simp_all add: of_option_def)

lemma obind_eq_Ret: "obind x f = Ret b \<longleftrightarrow> (\<exists>a. x = Ret a \<and> f a = Ret b)"
  by (cases x) auto

datatype evm_error =
    ErrOutOfGas | ErrCodeStoreOutOfGas | ErrDepth | ErrInsufficientBalance | ErrContractAddressCollision
  | ErrExecutionReverted | ErrMaxCodeSizeExceeded | ErrMaxInitCodeSizeExceeded u64 | ErrInvalidJump
  | ErrWriteProtection | ErrReturnDataOutOfBounds | ErrGasUintOverflow | ErrInvalidCode | ErrNonceUintOverflow
  | errStopToken | ErrStackUnderflow nat nat | ErrStackOverflow nat nat | ErrInvalidOpCode byte
  | ErrReentrancySentry | ErrDynamicGas evm_error | ErrPrecompile precompile_error

section \<open>Overflow-checked arithmetic\<close>

definition SafeAdd :: "u64 \<Rightarrow> u64 \<Rightarrow> u64 \<times> bool" where
  "SafeAdd x y = (let (s, carryOut) = Add64 x y in (s, carryOut \<noteq> 0))"

definition SafeMul :: "u64 \<Rightarrow> u64 \<Rightarrow> u64 \<times> bool" where
  "SafeMul x y = (let (hi, lo) = Mul64 x y in (lo, hi \<noteq> 0))"

text \<open>\<open>Uint64WithOverflow\<close> of a 256-bit number.\<close>

definition Uint64WithOverflow :: "u256 \<Rightarrow> u64 \<times> bool" where
  "Uint64WithOverflow x = (ucast x, unat x \<ge> 2 ^ 64)"

definition IsUint64 :: "u256 \<Rightarrow> bool" where
  "IsUint64 x \<longleftrightarrow> unat x < 2 ^ 64"

abbreviation Uint64 :: "u256 \<Rightarrow> u64" where
  "Uint64 x \<equiv> ucast x"

definition Bytes20 :: "u256 \<Rightarrow> Address" where
  "Bytes20 x = ucast x"

definition SetBytes :: "bytes \<Rightarrow> u256" where
  "SetBytes bs = of_nat (be_nat bs)"

text \<open>\<open>BitLen\<close>: the number of binary digits.\<close>

fun bit_len :: "nat \<Rightarrow> nat" where
  "bit_len n = (if n = 0 then 0 else bit_len (n div 2) + 1)"

declare bit_len.simps [simp del]

text \<open>
  The arithmetic of the package \<^verbatim>\<open>holiman/uint256\<close>, which is outside the repository: the value a call
  stores in its receiver, as a function of the operands in the order of the call.
\<close>

record uint256_lib =
  u_Add :: "u256 \<Rightarrow> u256 \<Rightarrow> u256"
  u_Sub :: "u256 \<Rightarrow> u256 \<Rightarrow> u256"
  u_Mul :: "u256 \<Rightarrow> u256 \<Rightarrow> u256"
  u_Div :: "u256 \<Rightarrow> u256 \<Rightarrow> u256"
  u_SDiv :: "u256 \<Rightarrow> u256 \<Rightarrow> u256"
  u_Mod :: "u256 \<Rightarrow> u256 \<Rightarrow> u256"
  u_SMod :: "u256 \<Rightarrow> u256 \<Rightarrow> u256"
  u_Exp :: "u256 \<Rightarrow> u256 \<Rightarrow> u256"
  u_ExtendSign :: "u256 \<Rightarrow> u256 \<Rightarrow> u256"
  u_Not :: "u256 \<Rightarrow> u256"
  u_And :: "u256 \<Rightarrow> u256 \<Rightarrow> u256"
  u_Or :: "u256 \<Rightarrow> u256 \<Rightarrow> u256"
  u_Xor :: "u256 \<Rightarrow> u256 \<Rightarrow> u256"
  u_Byte :: "u256 \<Rightarrow> u256 \<Rightarrow> u256"
  u_AddMod :: "u256 \<Rightarrow> u256 \<Rightarrow> u256 \<Rightarrow> u256"
  u_MulMod :: "u256 \<Rightarrow> u256 \<Rightarrow> u256 \<Rightarrow> u256"
  u_Lsh :: "u256 \<Rightarrow> nat \<Rightarrow> u256"
  u_Rsh :: "u256 \<Rightarrow> nat \<Rightarrow> u256"
  u_SRsh :: "u256 \<Rightarrow> nat \<Rightarrow> u256"
  u_Slt :: "u256 \<Rightarrow> u256 \<Rightarrow> bool"
  u_Sgt :: "u256 \<Rightarrow> u256 \<Rightarrow> bool"

section \<open>The stack\<close>

text \<open>The stack is listed from the top; the code keeps the top at the end of the slice.\<close>

type_synonym stack = "u256 list"

definition st_push :: "u256 \<Rightarrow> stack \<Rightarrow> stack" where
  "st_push d st = d # st"

definition st_pop :: "stack \<Rightarrow> (u256 \<times> stack) option" where
  "st_pop st = (case st of [] \<Rightarrow> None | x # xs \<Rightarrow> Some (x, xs))"

definition st_len :: "stack \<Rightarrow> nat" where
  "st_len st = length st"

text \<open>\<open>swap1\<close> to \<open>swap16\<close>: exchange the top and the item \<open>n\<close> below it.\<close>

definition st_swap :: "nat \<Rightarrow> stack \<Rightarrow> stack option" where
  "st_swap n st = (if n < length st then Some (st[0 := st ! n, n := st ! 0]) else None)"

definition st_dup :: "nat \<Rightarrow> stack \<Rightarrow> stack option" where
  "st_dup n st = (if 0 < n \<and> n \<le> length st then Some (st_push (st ! (n - 1)) st) else None)"

definition st_peek :: "stack \<Rightarrow> u256 option" where
  "st_peek st = (if st = [] then None else Some (st ! 0))"

definition st_Back :: "stack \<Rightarrow> nat \<Rightarrow> u256 option" where
  "st_Back st n = (if n < length st then Some (st ! n) else None)"

definition StackLimit :: nat where
  "StackLimit = 1024"

definition maxStack :: "nat \<Rightarrow> nat \<Rightarrow> nat" where
  "maxStack pops push = StackLimit + pops - push"

definition minStack :: "nat \<Rightarrow> nat \<Rightarrow> nat" where
  "minStack pops push = pops"

definition minSwapStack :: "nat \<Rightarrow> nat" where
  "minSwapStack n = minStack n n"

definition maxSwapStack :: "nat \<Rightarrow> nat" where
  "maxSwapStack n = maxStack n n"

definition minDupStack :: "nat \<Rightarrow> nat" where
  "minDupStack n = minStack n (n + 1)"

definition maxDupStack :: "nat \<Rightarrow> nat" where
  "maxDupStack n = maxStack n (n + 1)"

section \<open>Memory\<close>

record Memory =
  m_store :: bytes
  lastGasCost :: u64

definition NewMemory :: Memory where
  "NewMemory = \<lparr>m_store = [], lastGasCost = 0\<rparr>"

abbreviation mem_Len :: "Memory \<Rightarrow> u64" where
  "mem_Len m \<equiv> of_nat (length (m_store m))"

text \<open>The slice \<open>store[offset:offset+size]\<close> panics unless \<open>offset \<le> offset + size \<le> len\<close>, the sum wrapping.\<close>

definition mem_slice_ok :: "Memory \<Rightarrow> u64 \<Rightarrow> u64 \<Rightarrow> bool" where
  "mem_slice_ok m offset sz \<longleftrightarrow> offset \<le> offset + sz \<and> unat (offset + sz) \<le> length (m_store m)"

definition mem_Set :: "u64 \<Rightarrow> u64 \<Rightarrow> bytes \<Rightarrow> Memory \<Rightarrow> Memory option" where
  "mem_Set offset sz v m =
     (if sz > 0 then
        (if offset + sz > mem_Len m then None
         else if \<not> mem_slice_ok m offset sz then None
         else Some (m\<lparr>m_store := copy_at (m_store m) (unat offset) (take (unat sz) v)\<rparr>))
      else Some m)"

definition mem_Set32 :: "u64 \<Rightarrow> u256 \<Rightarrow> Memory \<Rightarrow> Memory option" where
  "mem_Set32 offset val m =
     (if offset + 32 > mem_Len m then None
      else if unat offset + 32 > length (m_store m) then None
      else Some (m\<lparr>m_store := copy_at (m_store m) (unat offset) (hash_bytes val)\<rparr>))"

definition mem_Resize :: "u64 \<Rightarrow> Memory \<Rightarrow> Memory" where
  "mem_Resize sz m =
     (if mem_Len m < sz
      then m\<lparr>m_store := m_store m @ replicate (unat sz - length (m_store m)) 0\<rparr> else m)"

definition mem_GetCopy :: "u64 \<Rightarrow> u64 \<Rightarrow> Memory \<Rightarrow> bytes option" where
  "mem_GetCopy offset sz m =
     (if sz = 0 then Some []
      else if mem_slice_ok m offset sz then Some (slice (m_store m) (unat offset) (unat (offset + sz))) else None)"

definition mem_GetPtr :: "u64 \<Rightarrow> u64 \<Rightarrow> Memory \<Rightarrow> bytes option" where
  "mem_GetPtr offset sz m =
     (if sz = 0 then Some []
      else if mem_slice_ok m offset sz then Some (slice (m_store m) (unat offset) (unat (offset + sz))) else None)"

definition mem_Copy :: "u64 \<Rightarrow> u64 \<Rightarrow> u64 \<Rightarrow> Memory \<Rightarrow> Memory option" where
  "mem_Copy dst src len m =
     (if len = 0 then Some m
      else if unat dst \<le> length (m_store m) \<and> mem_slice_ok m src len
      then Some (m\<lparr>m_store := copy_at (m_store m) (unat dst) (slice (m_store m) (unat src) (unat (src + len)))\<rparr>)
      else None)"

text \<open>\<open>store[off] = b\<close> of \<open>opMstore8\<close>.\<close>

definition mem_put :: "u64 \<Rightarrow> byte \<Rightarrow> Memory \<Rightarrow> Memory option" where
  "mem_put off b m = (if unat off < length (m_store m) then Some (m\<lparr>m_store := (m_store m)[unat off := b]\<rparr>) else None)"

section \<open>Memory needed by an instruction\<close>

type_synonym memorySizeFunc = "stack \<Rightarrow> (u64 \<times> bool) option"

text \<open>The offset at position \<open>i\<close>, the length at position \<open>j\<close> of the stack.\<close>

definition region_at :: "nat \<Rightarrow> nat \<Rightarrow> memorySizeFunc" where
  "region_at i j st =
     (case (st_Back st i, st_Back st j) of (Some off, Some l) \<Rightarrow> Some (calcMemSize64 off l) | _ \<Rightarrow> None)"

text \<open>The larger of two regions; overflow of either is overflow.\<close>

definition larger_of :: "memorySizeFunc \<Rightarrow> memorySizeFunc \<Rightarrow> memorySizeFunc" where
  "larger_of fx fy st =
     (case fx st of
        None \<Rightarrow> None
      | Some (x, overflow) \<Rightarrow>
          if overflow then Some (0, True)
          else
            (case fy st of
               None \<Rightarrow> None
             | Some (y, overflow) \<Rightarrow>
                 if overflow then Some (0, True) else if x > y then Some (x, False) else Some (y, False)))"

definition memoryKeccak256 :: memorySizeFunc where
  "memoryKeccak256 = region_at 0 1"

definition memoryCallDataCopy :: memorySizeFunc where
  "memoryCallDataCopy = region_at 0 2"

definition memoryReturnDataCopy :: memorySizeFunc where
  "memoryReturnDataCopy = region_at 0 2"

definition memoryCodeCopy :: memorySizeFunc where
  "memoryCodeCopy = region_at 0 2"

definition memoryExtCodeCopy :: memorySizeFunc where
  "memoryExtCodeCopy = region_at 1 3"

definition memoryMLoad :: memorySizeFunc where
  "memoryMLoad st = map_option (\<lambda>off. calcMemSize64WithUint off 32) (st_Back st 0)"

definition memoryMStore8 :: memorySizeFunc where
  "memoryMStore8 st = map_option (\<lambda>off. calcMemSize64WithUint off 1) (st_Back st 0)"

definition memoryMStore :: memorySizeFunc where
  "memoryMStore st = map_option (\<lambda>off. calcMemSize64WithUint off 32) (st_Back st 0)"

definition memoryMcopy :: memorySizeFunc where
  "memoryMcopy st =
     (case (st_Back st 0, st_Back st 1, st_Back st 2) of
        (Some dst, Some src, Some l) \<Rightarrow>
          (let mStart = (if src > dst then src else dst) in Some (calcMemSize64 mStart l))
      | _ \<Rightarrow> None)"

definition memoryCreate :: memorySizeFunc where
  "memoryCreate = region_at 1 2"

definition memoryCreate2 :: memorySizeFunc where
  "memoryCreate2 = region_at 1 2"

definition memoryCall :: memorySizeFunc where
  "memoryCall = larger_of (region_at 5 6) (region_at 3 4)"

definition memoryDelegateCall :: memorySizeFunc where
  "memoryDelegateCall = larger_of (region_at 4 5) (region_at 2 3)"

definition memoryStaticCall :: memorySizeFunc where
  "memoryStaticCall = larger_of (region_at 4 5) (region_at 2 3)"

definition memoryReturn :: memorySizeFunc where
  "memoryReturn = region_at 0 1"

definition memoryRevert :: memorySizeFunc where
  "memoryRevert = region_at 0 1"

definition memoryLog :: memorySizeFunc where
  "memoryLog = region_at 0 1"

end
