(* ===== verification/Evm_Analysis.thy ===== *)
theory Evm_Analysis
  imports Evm_Base
begin

text \<open>
  Jump-destination analysis (\<^verbatim>\<open>src/go-ethereum/core/vm/analysis_legacy.go\<close>, \<^verbatim>\<open>jumpdests.go\<close>) and the contract
  object that uses it (\<^verbatim>\<open>contract.go\<close>).

  A bit vector is the list of its bytes; a write out of range is \<open>None\<close>. The cache of analyses, which every
  contract of a virtual machine shares by reference, is passed to and returned by the functions that use it.
  The analysis is shown to mark exactly the bytes that are operands of \<open>PUSH\<close> instructions.
\<close>

unbundle bit_operations_syntax

section \<open>Bit vectors\<close>

type_synonym BitVec = bytes

text \<open>\<open>bits[i] |= b\<close> and \<open>bits[i] = b\<close>.\<close>

definition or_at :: "nat \<Rightarrow> byte \<Rightarrow> BitVec \<Rightarrow> BitVec option" where
  "or_at i b bits = (if i < length bits then Some (bits[i := (bits ! i) OR b]) else None)"

definition put_at :: "nat \<Rightarrow> byte \<Rightarrow> BitVec \<Rightarrow> BitVec option" where
  "put_at i b bits = (if i < length bits then Some (bits[i := b]) else None)"

definition set1 :: "nat \<Rightarrow> BitVec \<Rightarrow> BitVec option" where
  "set1 pos bits = or_at (pos div 8) (push_bit (pos mod 8) 1) bits"

definition setN :: "16 word \<Rightarrow> nat \<Rightarrow> BitVec \<Rightarrow> BitVec option" where
  "setN flag pos bits =
     (let a = push_bit (pos mod 8) flag
      in Option.bind (or_at (pos div 8) (ucast a) bits)
           (\<lambda>bits. let b = (ucast (drop_bit 8 a) :: byte)
                   in if b \<noteq> 0 then put_at (pos div 8 + 1) b bits else Some bits))"

definition set8 :: "nat \<Rightarrow> BitVec \<Rightarrow> BitVec option" where
  "set8 pos bits =
     (let a = push_bit (pos mod 8) 0xFF
      in Option.bind (or_at (pos div 8) a bits) (put_at (pos div 8 + 1) (NOT a)))"

definition set16 :: "nat \<Rightarrow> BitVec \<Rightarrow> BitVec option" where
  "set16 pos bits =
     (let a = push_bit (pos mod 8) 0xFF
      in Option.bind (or_at (pos div 8) a bits)
           (\<lambda>bits. Option.bind (put_at (pos div 8 + 1) 0xFF bits) (put_at (pos div 8 + 2) (NOT a))))"

definition codeSegment :: "BitVec \<Rightarrow> nat \<Rightarrow> bool option" where
  "codeSegment bits pos =
     (if pos div 8 < length bits then Some ((drop_bit (pos mod 8) (bits ! (pos div 8))) AND 1 = 0) else None)"

section \<open>The analysis\<close>

abbreviation (input) JUMPDEST :: byte where "JUMPDEST \<equiv> 0x5b"
abbreviation (input) PUSH1 :: byte where "PUSH1 \<equiv> 0x60"
abbreviation (input) STOP :: byte where "STOP \<equiv> 0x00"

text \<open>The two inner loops and the switch over the \<open>numbits\<close> operand bytes of one instruction.\<close>

fun mark16 :: "nat \<Rightarrow> nat \<Rightarrow> BitVec \<Rightarrow> (nat \<times> nat \<times> BitVec) option" where
  "mark16 numbits pc bits =
     (if numbits \<ge> 16 then Option.bind (set16 pc bits) (mark16 (numbits - 16) (pc + 16)) else Some (numbits, pc, bits))"

fun mark8 :: "nat \<Rightarrow> nat \<Rightarrow> BitVec \<Rightarrow> (nat \<times> nat \<times> BitVec) option" where
  "mark8 numbits pc bits =
     (if numbits \<ge> 8 then Option.bind (set8 pc bits) (mark8 (numbits - 8) (pc + 8)) else Some (numbits, pc, bits))"

declare mark16.simps [simp del] mark8.simps [simp del]

definition mark_rest :: "nat \<Rightarrow> nat \<Rightarrow> BitVec \<Rightarrow> BitVec option" where
  "mark_rest numbits pc bits =
     (if numbits = 1 then set1 pc bits
      else if numbits = 2 then setN 0b11 pc bits
      else if numbits = 3 then setN 0b111 pc bits
      else if numbits = 4 then setN 0b1111 pc bits
      else if numbits = 5 then setN 0b11111 pc bits
      else if numbits = 6 then setN 0b111111 pc bits
      else if numbits = 7 then setN 0b1111111 pc bits
      else Some bits)"

definition mark_push :: "nat \<Rightarrow> nat \<Rightarrow> BitVec \<Rightarrow> BitVec option" where
  "mark_push numbits pc bits =
     Option.bind (if numbits \<ge> 8 then Option.bind (mark16 numbits pc bits) (\<lambda>(n, p, b). mark8 n p b)
                  else Some (numbits, pc, bits))
       (\<lambda>(n, p, b). mark_rest n p b)"

text \<open>The number of operand bytes of an instruction; the comparison is of signed bytes, so only \<open>0x60\<close> to \<open>0x7f\<close> pass.\<close>

definition numbits_of :: "byte \<Rightarrow> nat" where
  "numbits_of op = (if sint op < sint PUSH1 then 0 else unat (op - PUSH1 + 1))"

function codeBitmapInternal :: "bytes \<Rightarrow> nat \<Rightarrow> BitVec \<Rightarrow> BitVec option" where
  "codeBitmapInternal code pc bits =
     (if pc < length code then
        (let op = code ! pc; pc = pc + 1
         in if sint op < sint PUSH1 then codeBitmapInternal code pc bits
            else Option.bind (mark_push (numbits_of op) pc bits) (codeBitmapInternal code (pc + numbits_of op)))
      else Some bits)"
  by pat_completeness auto
termination by (relation "measure (\<lambda>(code, pc, bits). length code - pc)") auto

declare codeBitmapInternal.simps [simp del]

definition codeBitmap :: "bytes \<Rightarrow> BitVec option" where
  "codeBitmap code = codeBitmapInternal code 0 (replicate (length code div 8 + 1 + 4) 0)"

section \<open>Contracts\<close>

type_synonym mapJumpDests = "Hash \<rightharpoonup> BitVec"

definition jd_Load :: "mapJumpDests \<Rightarrow> Hash \<Rightarrow> BitVec option" where
  "jd_Load j codeHash = j codeHash"

definition jd_Store :: "mapJumpDests \<Rightarrow> Hash \<Rightarrow> BitVec \<Rightarrow> mapJumpDests" where
  "jd_Store j codeHash vec = j(codeHash \<mapsto> vec)"

record Contract =
  caller :: Address
  address :: Address
  analysis :: "BitVec option"
  Code :: bytes
  CodeHash :: Hash
  Input :: bytes
  IsDeployment :: bool
  IsSystemCall :: bool
  Gas :: u64
  c_value :: u256

definition NewContract :: "Address \<Rightarrow> Address \<Rightarrow> u256 \<Rightarrow> u64 \<Rightarrow> Contract" where
  "NewContract clr addr val gas =
     \<lparr>caller = clr, address = addr, analysis = None, Code = [], CodeHash = 0, Input = [], IsDeployment = False,
      IsSystemCall = False, Gas = gas, c_value = val\<rparr>"

definition SetCallCode :: "Hash \<Rightarrow> bytes \<Rightarrow> Contract \<Rightarrow> Contract" where
  "SetCallCode hash code c = c\<lparr>Code := code, CodeHash := hash\<rparr>"

definition GetOp :: "Contract \<Rightarrow> u64 \<Rightarrow> byte" where
  "GetOp c n = (if n < of_nat (length (Code c)) then Code c ! unat n else STOP)"

definition UseGas :: "u64 \<Rightarrow> Contract \<Rightarrow> bool \<times> Contract" where
  "UseGas gas c = (if Gas c < gas then (False, c) else (True, c\<lparr>Gas := Gas c - gas\<rparr>))"

definition RefundGas :: "u64 \<Rightarrow> Contract \<Rightarrow> Contract" where
  "RefundGas gas c = (if gas = 0 then c else c\<lparr>Gas := Gas c + gas\<rparr>)"

text \<open>\<open>isCode\<close>: the local analysis, else the shared cache, else a fresh analysis.\<close>

definition isCode :: "Contract \<Rightarrow> mapJumpDests \<Rightarrow> u64 \<Rightarrow> (bool \<times> Contract \<times> mapJumpDests) option" where
  "isCode c j udest =
     (case analysis c of
        Some a \<Rightarrow> map_option (\<lambda>b. (b, c, j)) (codeSegment a (unat udest))
      | None \<Rightarrow>
          if CodeHash c \<noteq> 0 then
            Option.bind
              (case jd_Load j (CodeHash c) of
                 Some a \<Rightarrow> Some (a, j)
               | None \<Rightarrow> map_option (\<lambda>a. (a, jd_Store j (CodeHash c) a)) (codeBitmap (Code c)))
              (\<lambda>(a, j). map_option (\<lambda>b. (b, c\<lparr>analysis := Some a\<rparr>, j)) (codeSegment a (unat udest)))
          else
            Option.bind (codeBitmap (Code c))
              (\<lambda>a. map_option (\<lambda>b. (b, c\<lparr>analysis := Some a\<rparr>, j)) (codeSegment a (unat udest))))"

definition validJumpdest :: "Contract \<Rightarrow> mapJumpDests \<Rightarrow> u256 \<Rightarrow> (bool \<times> Contract \<times> mapJumpDests) option" where
  "validJumpdest c j dest =
     (let (udest, overflow) = Uint64WithOverflow dest
      in if overflow \<or> udest \<ge> of_nat (length (Code c)) then Some (False, c, j)
         else if Code c ! unat udest \<noteq> JUMPDEST then Some (False, c, j)
         else isCode c j udest)"

section \<open>What the analysis computes\<close>

text \<open>Decoding instructions from \<open>pc\<close> on, an instruction starts at \<open>i\<close> (or the code ends there).\<close>

inductive starts_from :: "bytes \<Rightarrow> nat \<Rightarrow> nat \<Rightarrow> bool" for code where
  starts_here: "starts_from code pc pc"
| starts_later: "pc < length code \<Longrightarrow> starts_from code (pc + 1 + numbits_of (code ! pc)) i \<Longrightarrow> starts_from code pc i"

definition code_start :: "bytes \<Rightarrow> nat \<Rightarrow> bool" where
  "code_start code i \<longleftrightarrow> starts_from code 0 i"

text \<open>The bit of position \<open>i\<close>.\<close>

definition marked :: "BitVec \<Rightarrow> nat \<Rightarrow> bool" where
  "marked bits i \<longleftrightarrow> i div 8 < length bits \<and> bit (bits ! (i div 8)) (i mod 8)"

lemma codeSegment_marked: "pos div 8 < length bits \<Longrightarrow> codeSegment bits pos = Some (\<not> marked bits pos)"
proof -
  have *: "w AND 1 = 0 \<longleftrightarrow> \<not> bit w 0" for w :: byte
    by (simp add: and_one_eq odd_iff_mod_2_eq_one bit_0)
  assume "pos div 8 < length bits"
  then show ?thesis by (simp add: codeSegment_def marked_def * bit_drop_bit_eq)
qed

text \<open>A write that sets the \<open>n\<close> bits from \<open>pos\<close> on, where no bit from \<open>pos\<close> on was set.\<close>

definition clear_from :: "nat \<Rightarrow> BitVec \<Rightarrow> bool" where
  "clear_from pos bits \<longleftrightarrow> (\<forall>i\<ge>pos. \<not> marked bits i)"

definition sets :: "nat \<Rightarrow> nat \<Rightarrow> BitVec \<Rightarrow> BitVec option \<Rightarrow> bool" where
  "sets n pos bits res \<longleftrightarrow>
     (\<exists>bits'. res = Some bits' \<and> length bits' = length bits \<and>
        (\<forall>i. marked bits' i \<longleftrightarrow> marked bits i \<or> pos \<le> i \<and> i < pos + n))"

lemma clear_byte:
  assumes "clear_from pos bits" and "pos div 8 < q" and "q < length bits"
  shows "\<not> bit (bits ! q) j"
proof (cases "j < 8")
  case True
  have "pos \<le> q * 8 + j" using assms(2) by (simp add: div_less_iff_less_mult less_imp_le)
  then have "\<not> marked bits (q * 8 + j)" using assms(1) by (simp add: clear_from_def)
  with True assms(3) show ?thesis by (simp add: marked_def)
next
  case False
  then show ?thesis using impossible_bit [of j] by (auto simp: not_less bit_imp_le_length dest: bit_imp_le_length)
qed

lemma clear_bit:
  assumes "clear_from pos bits" and "pos div 8 < length bits" and "pos mod 8 \<le> j"
  shows "\<not> bit (bits ! (pos div 8)) j"
proof (cases "j < 8")
  case True
  have "pos \<le> pos div 8 * 8 + j" using assms(3) by presburger
  then have "\<not> marked bits (pos div 8 * 8 + j)" using assms(1) by (simp add: clear_from_def)
  with True assms(2) show ?thesis by (simp add: marked_def)
next
  case False
  then show ?thesis by (auto dest: bit_imp_le_length)
qed

lemma bit_mask_shift:
  fixes k n j :: nat
  assumes "k < 8" and "n < 8"
  shows "bit (ucast (push_bit k (mask n :: 16 word)) :: byte) j \<longleftrightarrow> k \<le> j \<and> j < k + n \<and> j < 8"
    and "bit (ucast (drop_bit 8 (push_bit k (mask n :: 16 word))) :: byte) j \<longleftrightarrow> j + 8 < k + n"
  using assms by (auto simp: bit_ucast_iff bit_push_bit_iff bit_mask_iff bit_drop_bit_eq)

lemma bit_FF_shift:
  fixes k j :: nat
  assumes "k < 8"
  shows "bit (push_bit k (0xFF :: byte)) j \<longleftrightarrow> k \<le> j \<and> j < 8"
    and "bit (NOT (push_bit k (0xFF :: byte))) j \<longleftrightarrow> j < k"
proof -
  have FF: "(0xFF :: byte) = - 1" by simp
  show "bit (push_bit k (0xFF :: byte)) j \<longleftrightarrow> k \<le> j \<and> j < 8"
    unfolding FF by (auto simp: bit_not_iff bit_mask_iff)
  then show "bit (NOT (push_bit k (0xFF :: byte))) j \<longleftrightarrow> j < k"
    using assms by (auto simp: bit_not_iff)
qed

text \<open>It is enough to look at the bytes before, at and behind the one that holds \<open>pos\<close>.\<close>

lemma setsI:
  assumes "clear_from pos bits" and "res = Some bits'" and "length bits' = length bits" and "(pos + n) div 8 < length bits"
    and before: "\<And>q. q < pos div 8 \<Longrightarrow> bits' ! q = bits ! q"
    and at: "\<And>j. j < 8 \<Longrightarrow> bit (bits' ! (pos div 8)) j \<longleftrightarrow>
               bit (bits ! (pos div 8)) j \<or> pos mod 8 \<le> j \<and> j < pos mod 8 + n"
    and behind: "\<And>q j. pos div 8 < q \<Longrightarrow> q < length bits \<Longrightarrow> j < 8 \<Longrightarrow> bit (bits' ! q) j \<longleftrightarrow> 8 * q + j < pos + n"
  shows "sets n pos bits res"
proof -
  have "marked bits' i \<longleftrightarrow> marked bits i \<or> pos \<le> i \<and> i < pos + n" for i
  proof -
    have i: "i = 8 * (i div 8) + i mod 8" "i mod 8 < 8" and p: "pos = 8 * (pos div 8) + pos mod 8" by simp_all
    consider "i div 8 = pos div 8" | "pos div 8 < i div 8" "i div 8 < length bits" | "i div 8 < pos div 8"
      | "length bits \<le> i div 8" by linarith
    then show ?thesis
    proof cases
      case 1
      have "pos div 8 < length bits" using assms(4) by (meson add_leD1 div_le_mono le_less_trans le_add1)
      moreover have "pos \<le> i \<and> i < pos + n \<longleftrightarrow> pos mod 8 \<le> i mod 8 \<and> i mod 8 < pos mod 8 + n" using i p 1 by linarith
      ultimately show ?thesis using 1 at [OF i(2)] assms(3) by (simp add: marked_def)
    next
      case 2
      then show ?thesis
        using i p behind [OF 2 i(2)] clear_byte [OF assms(1) 2, of "i mod 8"] assms(3) by (auto simp: marked_def)
    next
      case 3
      then have "\<not> pos \<le> i" using i p by linarith
      with 3 show ?thesis using before [OF 3] assms(3) by (simp add: marked_def)
    next
      case 4
      have "\<not> i < pos + n"
      proof
        assume "i < pos + n"
        then have "i div 8 \<le> (pos + n) div 8" by (intro div_le_mono) simp
        with 4 assms(4) show False by linarith
      qed
      with 4 show ?thesis using assms(3) by (simp add: marked_def)
    qed
  qed
  with assms(2,3) show ?thesis by (simp add: sets_def)
qed

lemma sets_set8:
  assumes "clear_from pos bits" and "(pos + 8) div 8 < length bits"
  shows "sets 8 pos bits (set8 pos bits)"
proof (rule setsI [OF assms(1)])
  have len: "pos div 8 + 1 < length bits" using assms(2) by simp
  let ?a = "push_bit (pos mod 8) (0xFF :: byte)"
  let ?b = "bits[pos div 8 := bits ! (pos div 8) OR ?a, pos div 8 + 1 := NOT ?a]"
  show "set8 pos bits = Some ?b" using len by (simp add: set8_def or_at_def put_at_def Let_def)
  show "bit (?b ! (pos div 8)) j \<longleftrightarrow> bit (bits ! (pos div 8)) j \<or> pos mod 8 \<le> j \<and> j < pos mod 8 + 8" if "j < 8" for j
    using len that by (simp add: bit_or_iff bit_FF_shift)
  show "bit (?b ! q) j \<longleftrightarrow> 8 * q + j < pos + 8" if "pos div 8 < q" "q < length bits" "j < 8" for q j
  proof (cases "q = pos div 8 + 1")
    case True
    then have "8 * q + j < pos + 8 \<longleftrightarrow> j < pos mod 8" by presburger
    with True len show ?thesis by (simp add: bit_FF_shift)
  next
    case False
    with that len show ?thesis using clear_byte [OF assms(1) that(1,2), of j] by simp
  qed
qed (use assms in auto)

lemma sets_set16:
  assumes "clear_from pos bits" and "(pos + 16) div 8 < length bits"
  shows "sets 16 pos bits (set16 pos bits)"
proof (rule setsI [OF assms(1)])
  have len: "pos div 8 + 2 < length bits" using assms(2) by simp
  let ?a = "push_bit (pos mod 8) (0xFF :: byte)"
  let ?b = "bits[pos div 8 := bits ! (pos div 8) OR ?a, pos div 8 + 1 := 0xFF, pos div 8 + 2 := NOT ?a]"
  show "set16 pos bits = Some ?b" using len by (simp add: set16_def or_at_def put_at_def Let_def)
  show "bit (?b ! (pos div 8)) j \<longleftrightarrow> bit (bits ! (pos div 8)) j \<or> pos mod 8 \<le> j \<and> j < pos mod 8 + 16" if "j < 8" for j
    using len that by (simp add: bit_or_iff bit_FF_shift)
  show "bit (?b ! q) j \<longleftrightarrow> 8 * q + j < pos + 16" if "pos div 8 < q" "q < length bits" "j < 8" for q j
  proof -
    have "q = pos div 8 + 1 \<or> q = pos div 8 + 2 \<or> pos div 8 + 2 < q" using that(1) by linarith
    then show ?thesis
    proof (elim disjE)
      assume 1: "q = pos div 8 + 1"
      have "bit (0xFF :: byte) j" using that(3) bit_FF_shift(1) [of 0 j] by simp
      moreover have "8 * q + j < pos + 16" using 1 that(3) by presburger
      ultimately show ?thesis using 1 len by simp
    next
      assume 2: "q = pos div 8 + 2"
      then have "8 * q + j < pos + 16 \<longleftrightarrow> j < pos mod 8" by presburger
      with 2 len show ?thesis by (simp add: bit_FF_shift)
    next
      assume "pos div 8 + 2 < q"
      with that len show ?thesis using clear_byte [OF assms(1) that(1,2), of j] by simp
    qed
  qed
qed (use assms in auto)

lemma sets_setN:
  assumes "clear_from pos bits" and "(pos + n) div 8 < length bits" and "n < 8"
  shows "sets n pos bits (setN (mask n) pos bits)"
proof -
  let ?a = "push_bit (pos mod 8) (mask n :: 16 word)"
  let ?b1 = "bits[pos div 8 := bits ! (pos div 8) OR ucast ?a]"
  have k: "pos mod 8 < 8" by simp
  have len: "pos div 8 < length bits" using assms(2) by (meson add_leD1 div_le_mono le_less_trans le_add1)
  have hi: "(ucast (drop_bit 8 ?a) :: byte) \<noteq> 0 \<longleftrightarrow> 8 < pos mod 8 + n"
  proof -
    have "(ucast (drop_bit 8 ?a) :: byte) = 0 \<longleftrightarrow> (\<forall>j<8. \<not> j + 8 < pos mod 8 + n)"
      by (simp add: bit_eq_iff bit_mask_shift(2) [OF k assms(3)])
    also have "\<dots> \<longleftrightarrow> \<not> 8 < pos mod 8 + n" 
      by (auto dest: spec [of _ 0])
    finally show ?thesis by blast
  qed
  show ?thesis
  proof (cases "8 < pos mod 8 + n")
    case True
    have len2: "pos div 8 + 1 < length bits"
    proof -
      have "8 * (pos div 8 + 1) \<le> pos + n" using True by presburger
      then have "pos div 8 + 1 \<le> (pos + n) div 8" by (simp add: less_eq_div_iff_mult_less_eq)
      with assms(2) show ?thesis by simp
    qed
    let ?b = "?b1[pos div 8 + 1 := ucast (drop_bit 8 ?a)]"
    show ?thesis
    proof (rule setsI [OF assms(1)])
      show "setN (mask n) pos bits = Some ?b" using True hi len len2 by (simp add: setN_def or_at_def put_at_def Let_def)
      show "bit (?b ! (pos div 8)) j \<longleftrightarrow> bit (bits ! (pos div 8)) j \<or> pos mod 8 \<le> j \<and> j < pos mod 8 + n" if "j < 8" for j
        using len that assms(3) by (simp add: bit_or_iff bit_mask_shift)
      show "bit (?b ! q) j \<longleftrightarrow> 8 * q + j < pos + n" if "pos div 8 < q" "q < length bits" "j < 8" for q j
      proof (cases "q = pos div 8 + 1")
        case q: True
        then have "8 * q + j < pos + n \<longleftrightarrow> j + 8 < pos mod 8 + n"
          using mult_div_mod_eq [of 8 pos] by linarith
        with q len2 assms(3) show ?thesis by (simp add: bit_mask_shift)
      next
        case False
        then have "\<not> 8 * q + j < pos + n"
          using that(1) assms(3) mult_div_mod_eq [of 8 pos] k by linarith
        with False that len2 show ?thesis using clear_byte [OF assms(1) that(1,2), of j] by simp
      qed
    qed (use assms in auto)
  next
    case False
    show ?thesis
    proof (rule setsI [OF assms(1)])
      show "setN (mask n) pos bits = Some ?b1" using False hi len by (simp add: setN_def or_at_def put_at_def Let_def)
      show "bit (?b1 ! (pos div 8)) j \<longleftrightarrow> bit (bits ! (pos div 8)) j \<or> pos mod 8 \<le> j \<and> j < pos mod 8 + n" if "j < 8" for j
        using len that assms(3) by (simp add: bit_or_iff bit_mask_shift)
      show "bit (?b1 ! q) j \<longleftrightarrow> 8 * q + j < pos + n" if "pos div 8 < q" "q < length bits" "j < 8" for q j
      proof -
        have "\<not> 8 * q + j < pos + n"
          using that(1) False mult_div_mod_eq [of 8 pos] by linarith
        with that(1) show ?thesis using clear_byte [OF assms(1) that(1,2), of j] by simp
      qed
    qed (use assms in auto)
  qed
qed

lemma sets_set1:
  assumes "clear_from pos bits" and "(pos + 1) div 8 < length bits"
  shows "sets 1 pos bits (set1 pos bits)"
proof (rule setsI [OF assms(1)])
  have len: "pos div 8 < length bits" using assms(2) by (meson add_leD1 div_le_mono le_less_trans le_add1)
  let ?b = "bits[pos div 8 := bits ! (pos div 8) OR push_bit (pos mod 8) 1]"
  show "set1 pos bits = Some ?b" using len by (simp add: set1_def or_at_def)
  show "bit (?b ! (pos div 8)) j \<longleftrightarrow> bit (bits ! (pos div 8)) j \<or> pos mod 8 \<le> j \<and> j < pos mod 8 + 1" if "j < 8" for j
    using len that by (auto simp: bit_or_iff bit_exp_iff)
  show "bit (?b ! q) j \<longleftrightarrow> 8 * q + j < pos + 1" if "pos div 8 < q" "q < length bits" "j < 8" for q j
  proof -
    have "\<not> 8 * q + j < pos + 1" using that(1) mult_div_mod_eq [of 8 pos] pos_mod_bound [of 8] by linarith
    with that show ?thesis using clear_byte [OF assms(1) that(1,2), of j] by simp
  qed
qed (use assms in auto)

lemma sets_clear: "sets n pos bits (Some bits') \<Longrightarrow> clear_from pos bits \<Longrightarrow> clear_from (pos + n) bits'"
  by (auto simp: sets_def clear_from_def)

lemma sets_0 [simp]: "sets 0 pos bits (Some bits)"
  by (auto simp: sets_def)

lemma sets_bind:
  assumes "sets m pos bits x" and "clear_from pos bits"
    and "\<And>b. x = Some b \<Longrightarrow> length b = length bits \<Longrightarrow> clear_from (pos + m) b \<Longrightarrow> sets n (pos + m) b (f b)"
  shows "sets (m + n) pos bits (Option.bind x f)"
proof -
  obtain b where x: "x = Some b" and len: "length b = length bits"
    and m: "\<And>i. marked b i \<longleftrightarrow> marked bits i \<or> pos \<le> i \<and> i < pos + m"
    using assms(1) by (auto simp: sets_def)
  have "clear_from (pos + m) b" using assms(1,2) unfolding x by (rule sets_clear)
  from assms(3) [OF x len this] show ?thesis by (auto simp: sets_def x len m)
qed

text \<open>The loops hand the bytes that are left to the switch.\<close>

lemma sets_mark_rest:
  assumes "n < 8" and "clear_from pos bits" and "(pos + n) div 8 < length bits"
  shows "sets n pos bits (mark_rest n pos bits)"
proof -
  have m: "(mask 2 :: 16 word) = 0b11" "(mask 3 :: 16 word) = 0b111" "(mask 4 :: 16 word) = 0b1111"
    "(mask 5 :: 16 word) = 0b11111" "(mask 6 :: 16 word) = 0b111111" "(mask 7 :: 16 word) = 0b1111111"
    by (simp_all add: mask_eq_exp_minus_1)
  have "n = 0 \<or> n = 1 \<or> n = 2 \<or> n = 3 \<or> n = 4 \<or> n = 5 \<or> n = 6 \<or> n = 7" using assms(1) by linarith
  then show ?thesis
    using sets_set1 [OF assms(2)] sets_setN [OF assms(2,3,1)] assms(3)
    by (elim disjE) (simp_all add: mark_rest_def m)
qed

lemma sets_mark8:
  assumes "clear_from pos bits" and "(pos + n) div 8 < length bits"
  shows "sets n pos bits (Option.bind (mark8 n pos bits) (\<lambda>(n, p, b). mark_rest n p b))"
  using assms
proof (induction n pos bits rule: mark8.induct)
  case (1 n pos bits)
  show ?case
  proof (cases "n \<ge> 8")
    case True
    have "(pos + 8) div 8 < length bits"
      by (rule le_less_trans [OF div_le_mono "1.prems"(2)]) (use True in simp)
    from sets_set8 [OF "1.prems"(1) this]
    have "sets (8 + (n - 8)) pos bits
        (Option.bind (set8 pos bits) (\<lambda>b. Option.bind (mark8 (n - 8) (pos + 8) b) (\<lambda>(n, p, b). mark_rest n p b)))"
      using "1.prems" True by (intro sets_bind "1.IH") auto
    with True show ?thesis by (subst mark8.simps) simp
  next
    case False
    with "1.prems" show ?thesis by (subst mark8.simps) (simp add: sets_mark_rest)
  qed
qed

lemma sets_mark16:
  assumes "clear_from pos bits" and "(pos + n) div 8 < length bits"
  shows "sets n pos bits
    (Option.bind (Option.bind (mark16 n pos bits) (\<lambda>(n, p, b). mark8 n p b)) (\<lambda>(n, p, b). mark_rest n p b))"
  using assms
proof (induction n pos bits rule: mark16.induct)
  case (1 n pos bits)
  show ?case
  proof (cases "n \<ge> 16")
    case True
    have "(pos + 16) div 8 < length bits"
      by (rule le_less_trans [OF div_le_mono "1.prems"(2)]) (use True in simp)
    from sets_set16 [OF "1.prems"(1) this]
    have "sets (16 + (n - 16)) pos bits
        (Option.bind (set16 pos bits) (\<lambda>b. Option.bind (Option.bind (mark16 (n - 16) (pos + 16) b)
           (\<lambda>(n, p, b). mark8 n p b)) (\<lambda>(n, p, b). mark_rest n p b)))"
      using "1.prems" True by (intro sets_bind "1.IH") auto
    with True show ?thesis by (subst mark16.simps) simp
  next
    case False
    with "1.prems" show ?thesis by (subst mark16.simps) (simp add: sets_mark8)
  qed
qed

lemma sets_mark_push:
  assumes "clear_from pos bits" and "(pos + n) div 8 < length bits"
  shows "sets n pos bits (mark_push n pos bits)"
  using assms sets_mark16 [OF assms] sets_mark_rest [OF _ assms] by (auto simp: mark_push_def)

lemma numbits_of_le: "numbits_of op \<le> 32"
proof -
  have "\<not> sint op < sint PUSH1 \<longrightarrow> unat (op - PUSH1 + 1) \<le> 32"
  proof
    assume "\<not> sint op < sint PUSH1"
    then have "0x60 \<le> sint op" by simp
    moreover have "sint op < 128" using sint_lt [of op] by simp
    ultimately have "sint op - 0x60 + 1 \<le> 32" "0 \<le> sint op - 0x60 + 1" by linarith+
    moreover have "op - PUSH1 + 1 = of_int (sint op - 0x60 + 1)" by simp
    ultimately show "unat (op - PUSH1 + 1) \<le> 32" by (simp only: unsigned_of_int) (auto simp: take_bit_int_eq_self)
  qed
  then show ?thesis by (simp add: numbits_of_def)
qed

lemma starts_from_le: "starts_from code pc i \<Longrightarrow> pc \<le> i"
  by (induction rule: starts_from.induct) auto

lemma starts_from_step:
  "pc < length code \<Longrightarrow> starts_from code pc i \<longleftrightarrow> i = pc \<or> starts_from code (pc + 1 + numbits_of (code ! pc)) i"
  by (subst starts_from.simps) auto

lemma starts_from_end: "\<not> pc < length code \<Longrightarrow> starts_from code pc i \<longleftrightarrow> i = pc"
  by (subst starts_from.simps) auto

text \<open>The loop marks, from \<open>pc\<close> on, the positions inside the code at which no instruction starts.\<close>

lemma codeBitmapInternal_marks:
  assumes "clear_from pc bits" and "length code div 8 + 4 < length bits"
  shows "\<exists>bits'. codeBitmapInternal code pc bits = Some bits' \<and> length bits' = length bits \<and>
    (\<forall>i<length code. marked bits' i \<longleftrightarrow> marked bits i \<or> pc \<le> i \<and> \<not> starts_from code pc i)"
  using assms
proof (induction code pc bits rule: codeBitmapInternal.induct)
  case (1 code pc bits)
  show ?case
  proof (cases "pc < length code")
    case pc: True
    let ?n = "numbits_of (code ! pc)"
    have clr: "clear_from (pc + 1) bits" using "1.prems"(1) by (simp add: clear_from_def)
    have "(pc + 1 + ?n) div 8 \<le> (length code + 32) div 8"
      using pc numbits_of_le [of "code ! pc"] by (intro div_le_mono) linarith
    then have "(pc + 1 + ?n) div 8 < length bits" using "1.prems"(2) by simp
    from sets_mark_push [OF clr this] obtain b where b: "mark_push ?n (pc + 1) bits = Some b" "length b = length bits"
      and m: "\<And>i. marked b i \<longleftrightarrow> marked bits i \<or> pc + 1 \<le> i \<and> i < pc + 1 + ?n"
      by (auto simp: sets_def)
    have clr': "clear_from (pc + 1 + ?n) b" using clr m by (simp add: clear_from_def)
    obtain r where r: "codeBitmapInternal code pc bits = Some r" "length r = length bits"
      "\<forall>i<length code. marked r i \<longleftrightarrow> marked b i \<or> pc + 1 + ?n \<le> i \<and> \<not> starts_from code (pc + 1 + ?n) i"
    proof (cases "sint (code ! pc) < sint PUSH1")
      case True
      then have n: "?n = 0" by (simp add: numbits_of_def)
      have "marked b = marked bits" using m n by (auto simp: fun_eq_iff)
      with "1.IH"(1) [OF pc refl refl True clr "1.prems"(2)] show thesis
        using that n pc True by (auto simp: codeBitmapInternal.simps [of code pc] Let_def)
    next
      case False
      have "length code div 8 + 4 < length b" using "1.prems"(2) b(2) by simp
      from "1.IH"(2) [OF pc refl refl False b(1) clr' this] show thesis
        using that b pc False by (auto simp: codeBitmapInternal.simps [of code pc] Let_def)
    qed
    have "marked r i \<longleftrightarrow> marked bits i \<or> pc \<le> i \<and> \<not> starts_from code pc i" if "i < length code" for i
      using r(3) that m [of i] starts_from_step [OF pc, of i] starts_from_le [of code "pc + 1 + ?n" i]
      by (auto simp: not_less)
    with r show ?thesis by blast
  next
    case False
    with "1.prems" show ?thesis
      by (subst codeBitmapInternal.simps) auto
  qed
qed

lemma marked_zero [simp]: "\<not> marked (replicate n 0) i"
  by (auto simp: marked_def)

lemma codeBitmap_marks:
  obtains bits where "codeBitmap code = Some bits" "length bits = length code div 8 + 5"
    "\<And>i. i < length code \<Longrightarrow> codeSegment bits i = Some (code_start code i)"
proof -
  let ?z = "replicate (length code div 8 + 1 + 4) (0 :: byte)"
  have "clear_from 0 ?z" "length code div 8 + 4 < length ?z" by (simp_all add: clear_from_def)
  from codeBitmapInternal_marks [OF this] obtain bits where
    bits: "codeBitmap code = Some bits" "length bits = length code div 8 + 5"
      "\<forall>i<length code. marked bits i \<longleftrightarrow> \<not> starts_from code 0 i"
    by (auto simp: codeBitmap_def)
  have "codeSegment bits i = Some (code_start code i)" if "i < length code" for i
  proof -
    have "i div 8 \<le> length code div 8" using that by (intro div_le_mono) simp
    then show ?thesis using bits(2,3) that by (simp add: codeSegment_marked code_start_def)
  qed
  with bits that show thesis by blast
qed

end
