(* ===== verification/Access_Events.thy ===== *)
theory Access_Events
  imports Evm_Base
begin

text \<open>
  The record of state locations a transaction touches under EIP-4762 and the gas charged for a first touch
  (\<^verbatim>\<open>src/go-ethereum/core/state/access_events.go\<close>, \<^verbatim>\<open>trie/bintrie/key_encoding.go\<close>). The two maps of the code
  are maps here; every function returns the updated record. The charges are the defaults of
  \<^verbatim>\<open>params/verkle_params.go\<close>.
\<close>

unbundle bit_operations_syntax

type_synonym branchAccessKey = "Address \<times> u256"
type_synonym chunkAccessKey = "branchAccessKey \<times> byte"

record AccessEvents =
  branches :: "branchAccessKey \<rightharpoonup> byte"
  chunks :: "chunkAccessKey \<rightharpoonup> byte"

abbreviation (input) AccessWitnessReadFlag :: byte where "AccessWitnessReadFlag \<equiv> 1"
abbreviation (input) AccessWitnessWriteFlag :: byte where "AccessWitnessWriteFlag \<equiv> 2"
abbreviation (input) BasicDataLeafKey :: byte where "BasicDataLeafKey \<equiv> 0"
abbreviation (input) CodeHashLeafKey :: byte where "CodeHashLeafKey \<equiv> 1"
abbreviation (input) WitnessBranchReadCost :: u64 where "WitnessBranchReadCost \<equiv> 1900"
abbreviation (input) WitnessChunkReadCost :: u64 where "WitnessChunkReadCost \<equiv> 200"
abbreviation (input) WitnessBranchWriteCost :: u64 where "WitnessBranchWriteCost \<equiv> 3000"
abbreviation (input) WitnessChunkWriteCost :: u64 where "WitnessChunkWriteCost \<equiv> 500"
abbreviation (input) WarmStorageReadCostEIP2929 :: u64 where "WarmStorageReadCostEIP2929 \<equiv> 100"

definition NewAccessEvents :: AccessEvents where
  "NewAccessEvents = \<lparr>branches = Map.empty, chunks = Map.empty\<rparr>"

text \<open>A missing key of a Go map reads as zero.\<close>

definition mode_at :: "('k \<rightharpoonup> byte) \<Rightarrow> 'k \<Rightarrow> byte" where
  "mode_at m k = (case m k of Some v \<Rightarrow> v | None \<Rightarrow> 0)"

definition or_mode :: "('k \<rightharpoonup> byte) \<Rightarrow> 'k \<Rightarrow> byte \<Rightarrow> ('k \<rightharpoonup> byte)" where
  "or_mode m k v = m(k \<mapsto> mode_at m k OR v)"

text \<open>\<open>chunkFill\<close> is never set, so its cost is never charged.\<close>

definition touchAddressAndChargeGas ::
  "Address \<Rightarrow> u256 \<Rightarrow> byte \<Rightarrow> bool \<Rightarrow> u64 \<Rightarrow> AccessEvents \<Rightarrow> (u64 \<times> u64) \<times> AccessEvents" where
  "touchAddressAndChargeGas addr treeIndex subIndex isWrite availableGas ae =
     (let branchKey = (addr, treeIndex);
          chunkKey = (branchKey, subIndex);
          branchRead = branches ae branchKey = None;
          chunkRead = chunks ae chunkKey = None;
          branchWrite = (isWrite \<and> mode_at (branches ae) branchKey AND AccessWitnessWriteFlag = 0);
          chunkWrite = (isWrite \<and> mode_at (chunks ae) chunkKey AND AccessWitnessWriteFlag = 0);
          gas = (if branchRead then WitnessBranchReadCost else 0) + (if chunkRead then WitnessChunkReadCost else 0)
              + (if branchWrite then WitnessBranchWriteCost else 0) + (if chunkWrite then WitnessChunkWriteCost else 0)
      in if availableGas < gas then ((availableGas, gas), ae)
         else
           (let b = branches ae;
                b = (if branchRead then b(branchKey \<mapsto> AccessWitnessReadFlag) else b);
                b = (if branchWrite then or_mode b branchKey AccessWitnessWriteFlag else b);
                c = chunks ae;
                c = (if chunkRead then c(chunkKey \<mapsto> AccessWitnessReadFlag) else c);
                c = (if chunkWrite then or_mode c chunkKey AccessWitnessWriteFlag else c)
            in ((gas, gas), ae\<lparr>branches := b, chunks := c\<rparr>)))"

definition AddAccount :: "Address \<Rightarrow> bool \<Rightarrow> u64 \<Rightarrow> AccessEvents \<Rightarrow> u64 \<times> AccessEvents" where
  "AddAccount addr isWrite availableGas ae =
     (let ((consumed, expected), ae) = touchAddressAndChargeGas addr 0 BasicDataLeafKey isWrite availableGas ae
      in if consumed < expected then (expected, ae)
         else
           (let gas = consumed;
                ((consumed, expected), ae) = touchAddressAndChargeGas addr 0 CodeHashLeafKey isWrite (availableGas - consumed) ae
            in if consumed < expected then (expected + gas, ae) else (gas + expected, ae)))"

definition MessageCallGas :: "Address \<Rightarrow> u64 \<Rightarrow> AccessEvents \<Rightarrow> u64 \<times> AccessEvents" where
  "MessageCallGas destination availableGas ae =
     (let ((_, expected), ae) = touchAddressAndChargeGas destination 0 BasicDataLeafKey False availableGas ae
      in (if expected = 0 then WarmStorageReadCostEIP2929 else expected, ae))"

definition ValueTransferGas :: "Address \<Rightarrow> Address \<Rightarrow> u64 \<Rightarrow> AccessEvents \<Rightarrow> u64 \<times> AccessEvents" where
  "ValueTransferGas callerAddr targetAddr availableGas ae =
     (let ((_, expected1), ae) = touchAddressAndChargeGas callerAddr 0 BasicDataLeafKey True availableGas ae
      in if expected1 > availableGas then (expected1, ae)
         else
           (let ((_, expected2), ae) = touchAddressAndChargeGas targetAddr 0 BasicDataLeafKey True (availableGas - expected1) ae
            in (if expected1 + expected2 = 0 then WarmStorageReadCostEIP2929 else expected1 + expected2, ae)))"

definition ContractCreatePreCheckGas :: "Address \<Rightarrow> u64 \<Rightarrow> AccessEvents \<Rightarrow> u64 \<times> AccessEvents" where
  "ContractCreatePreCheckGas addr availableGas ae =
     (let ((consumed, expected1), ae) = touchAddressAndChargeGas addr 0 BasicDataLeafKey False availableGas ae;
          ((_, expected2), ae) = touchAddressAndChargeGas addr 0 CodeHashLeafKey False (availableGas - consumed) ae
      in (expected1 + expected2, ae))"

definition ContractCreateInitGas :: "Address \<Rightarrow> u64 \<Rightarrow> AccessEvents \<Rightarrow> (u64 \<times> u64) \<times> AccessEvents" where
  "ContractCreateInitGas addr availableGas ae =
     (let ((consumed, expected1), ae) = touchAddressAndChargeGas addr 0 BasicDataLeafKey True availableGas ae;
          gas = consumed;
          ((consumed, expected2), ae) = touchAddressAndChargeGas addr 0 CodeHashLeafKey True (availableGas - consumed) ae
      in ((gas + consumed, expected1 + expected2), ae))"

definition AddTxOrigin :: "Address \<Rightarrow> AccessEvents \<Rightarrow> AccessEvents" where
  "AddTxOrigin originAddr ae =
     (let (_, ae) = touchAddressAndChargeGas originAddr 0 BasicDataLeafKey True MaxUint64 ae
      in snd (touchAddressAndChargeGas originAddr 0 CodeHashLeafKey False MaxUint64 ae))"

definition AddTxDestination :: "Address \<Rightarrow> bool \<Rightarrow> bool \<Rightarrow> AccessEvents \<Rightarrow> AccessEvents" where
  "AddTxDestination addr sendsValue doesntExist ae =
     (let (_, ae) = touchAddressAndChargeGas addr 0 BasicDataLeafKey sendsValue MaxUint64 ae
      in snd (touchAddressAndChargeGas addr 0 CodeHashLeafKey doesntExist MaxUint64 ae))"

text \<open>The location of a storage slot; \<open>codeStorageDelta\<close> is 64 and so is the header offset.\<close>

definition StorageIndex :: "uint256_lib \<Rightarrow> bytes \<Rightarrow> (u256 \<times> byte) option" where
  "StorageIndex U storageKey =
     (let key = SetBytes storageKey
      in if key < 64 then Some (0, ucast (u_Add U 64 key))
         else if storageKey = [] then None
         else Some (u_Add U (u_Rsh U key 8) (2 ^ 240), last storageKey))"

definition SlotGas :: "uint256_lib \<Rightarrow> Address \<Rightarrow> Hash \<Rightarrow> bool \<Rightarrow> u64 \<Rightarrow> bool \<Rightarrow> AccessEvents \<Rightarrow> (u64 \<times> AccessEvents) option" where
  "SlotGas U addr slot isWrite availableGas chargeWarmCosts ae =
     map_option (\<lambda>(treeIndex, subIndex).
       (let ((_, expected), ae) = touchAddressAndChargeGas addr treeIndex subIndex isWrite availableGas ae
        in (if expected = 0 \<and> chargeWarmCosts then WarmStorageReadCostEIP2929 else expected, ae)))
       (StorageIndex U (hash_bytes slot))"

text \<open>
  The loop over the chunks of a code range: what was charged and what was wanted. Overflow of the sum
  panics.
\<close>

function chunk_loop ::
  "Address \<Rightarrow> bool \<Rightarrow> nat \<Rightarrow> nat \<Rightarrow> u64 \<Rightarrow> u64 \<Rightarrow> AccessEvents \<Rightarrow> ((u64 \<times> u64) \<times> AccessEvents) option" where
  "chunk_loop addr isWrite chunkNumber lastChunk charged availableGas ae =
     (if chunkNumber \<le> lastChunk then
        (let treeIndex = of_nat ((chunkNumber + 128) div 256);
             subIndex = of_nat ((chunkNumber + 128) mod 256);
             ((consumed, expected), ae) = touchAddressAndChargeGas addr treeIndex subIndex isWrite availableGas ae
         in if expected > consumed then Some ((charged + consumed, charged + expected), ae)
            else
              (let (charged, overflow) = SafeAdd charged consumed
               in if overflow then None
                  else chunk_loop addr isWrite (chunkNumber + 1) lastChunk charged (availableGas - consumed) ae))
      else Some ((charged, charged), ae))"
  by pat_completeness auto
termination by (relation "measure (\<lambda>(addr, w, n, e, c, g, ae). Suc e - n)") auto

declare chunk_loop.simps [simp del]

definition CodeChunksRangeGas ::
  "Address \<Rightarrow> u64 \<Rightarrow> u64 \<Rightarrow> u64 \<Rightarrow> bool \<Rightarrow> u64 \<Rightarrow> AccessEvents \<Rightarrow> ((u64 \<times> u64) \<times> AccessEvents) option" where
  "CodeChunksRangeGas contractAddr startPC sz codeLen isWrite availableGas ae =
     (if codeLen = 0 \<and> sz = 0 \<or> startPC > codeLen then Some ((0, 0), ae)
      else
        (let endPC = startPC + sz;
             endPC = (if endPC > codeLen then codeLen else endPC);
             endPC = (if endPC > 0 then endPC - 1 else endPC)
         in chunk_loop contractAddr isWrite (unat startPC div 31) (unat endPC div 31) 0 availableGas ae))"

definition BasicDataGas :: "Address \<Rightarrow> bool \<Rightarrow> u64 \<Rightarrow> bool \<Rightarrow> AccessEvents \<Rightarrow> u64 \<times> AccessEvents" where
  "BasicDataGas addr isWrite availableGas chargeWarmCosts ae =
     (let ((_, expected), ae) = touchAddressAndChargeGas addr 0 BasicDataLeafKey isWrite availableGas ae
      in if expected = 0 \<and> chargeWarmCosts
         then (if availableGas < WarmStorageReadCostEIP2929 then availableGas else WarmStorageReadCostEIP2929, ae)
         else (expected, ae))"

definition CodeHashGas :: "Address \<Rightarrow> bool \<Rightarrow> u64 \<Rightarrow> bool \<Rightarrow> AccessEvents \<Rightarrow> u64 \<times> AccessEvents" where
  "CodeHashGas addr isWrite availableGas chargeWarmCosts ae =
     (let ((_, expected), ae) = touchAddressAndChargeGas addr 0 CodeHashLeafKey isWrite availableGas ae
      in if expected = 0 \<and> chargeWarmCosts
         then (if availableGas < WarmStorageReadCostEIP2929 then availableGas else WarmStorageReadCostEIP2929, ae)
         else (expected, ae))"

definition merge_modes :: "('k \<rightharpoonup> byte) \<Rightarrow> ('k \<rightharpoonup> byte) \<Rightarrow> ('k \<rightharpoonup> byte)" where
  "merge_modes m other = (\<lambda>k. case other k of None \<Rightarrow> m k | Some v \<Rightarrow> Some (mode_at m k OR v))"

definition Merge :: "AccessEvents \<Rightarrow> AccessEvents \<Rightarrow> AccessEvents" where
  "Merge other ae =
     ae\<lparr>branches := merge_modes (branches ae) (branches other), chunks := merge_modes (chunks ae) (chunks other)\<rparr>"

end
