(* ===== verification/Evm_State.thy ===== *)
theory Evm_State
  imports Evm_Analysis Access_Events
begin

text \<open>
  The virtual machine object, the contexts it runs in and the state it works on
  (\<^verbatim>\<open>src/go-ethereum/core/vm/evm.go\<close>, \<^verbatim>\<open>interface.go\<close>, \<^verbatim>\<open>interpreter.go\<close>, \<^verbatim>\<open>core/evm.go\<close>).

  The state database is the Go interface \<^verbatim>\<open>StateDB\<close>: a record of functions on a type \<open>'d\<close> of states that the
  definitions leave open. A function that may panic (\<open>SubRefund\<close> below zero, \<open>RevertToSnapshot\<close> to an unknown
  identifier) returns an option. Reasons for tracing, tracers, loggers and the stateless witness are left out.
  The jump table of a machine is an argument of the functions that use it, not a field.
\<close>

section \<open>The state database\<close>

record Log =
  l_Address :: Address
  l_Topics :: "Hash list"
  l_Data :: bytes
  l_BlockNumber :: u64

record 'd StateDB =
  CreateAccount :: "Address \<Rightarrow> 'd \<Rightarrow> 'd"
  CreateContract :: "Address \<Rightarrow> 'd \<Rightarrow> 'd"
  SubBalance :: "Address \<Rightarrow> u256 \<Rightarrow> 'd \<Rightarrow> 'd"
  AddBalance :: "Address \<Rightarrow> u256 \<Rightarrow> 'd \<Rightarrow> 'd"
  GetBalance :: "'d \<Rightarrow> Address \<Rightarrow> u256"
  GetNonce :: "'d \<Rightarrow> Address \<Rightarrow> u64"
  SetNonce :: "Address \<Rightarrow> u64 \<Rightarrow> 'd \<Rightarrow> 'd"
  GetCodeHash :: "'d \<Rightarrow> Address \<Rightarrow> Hash"
  GetCode :: "'d \<Rightarrow> Address \<Rightarrow> bytes"
  SetCode :: "Address \<Rightarrow> bytes \<Rightarrow> 'd \<Rightarrow> 'd"
  GetCodeSize :: "'d \<Rightarrow> Address \<Rightarrow> nat"
  AddRefund :: "u64 \<Rightarrow> 'd \<Rightarrow> 'd"
  SubRefund :: "u64 \<Rightarrow> 'd \<Rightarrow> 'd option"
  GetRefund :: "'d \<Rightarrow> u64"
  GetStateAndCommittedState :: "'d \<Rightarrow> Address \<Rightarrow> Hash \<Rightarrow> Hash \<times> Hash"
  GetState :: "'d \<Rightarrow> Address \<Rightarrow> Hash \<Rightarrow> Hash"
  SetState :: "Address \<Rightarrow> Hash \<Rightarrow> Hash \<Rightarrow> 'd \<Rightarrow> 'd"
  GetStorageRoot :: "'d \<Rightarrow> Address \<Rightarrow> Hash"
  GetTransientState :: "'d \<Rightarrow> Address \<Rightarrow> Hash \<Rightarrow> Hash"
  SetTransientState :: "Address \<Rightarrow> Hash \<Rightarrow> Hash \<Rightarrow> 'd \<Rightarrow> 'd"
  SelfDestruct :: "Address \<Rightarrow> 'd \<Rightarrow> 'd"
  HasSelfDestructed :: "'d \<Rightarrow> Address \<Rightarrow> bool"
  Exist :: "'d \<Rightarrow> Address \<Rightarrow> bool"
  IsNewContract :: "'d \<Rightarrow> Address \<Rightarrow> bool"
  Empty :: "'d \<Rightarrow> Address \<Rightarrow> bool"
  AddressInAccessList :: "'d \<Rightarrow> Address \<Rightarrow> bool"
  SlotInAccessList :: "'d \<Rightarrow> Address \<Rightarrow> Hash \<Rightarrow> bool \<times> bool"
  AddAddressToAccessList :: "Address \<Rightarrow> 'd \<Rightarrow> 'd"
  AddSlotToAccessList :: "Address \<Rightarrow> Hash \<Rightarrow> 'd \<Rightarrow> 'd"
  RevertToSnapshot :: "nat \<Rightarrow> 'd \<Rightarrow> 'd option"
  Snapshot :: "'d \<Rightarrow> nat \<times> 'd"
  AddLog :: "Log \<Rightarrow> 'd \<Rightarrow> 'd"
  AddPreimage :: "Hash \<Rightarrow> bytes \<Rightarrow> 'd \<Rightarrow> 'd"

section \<open>Contexts\<close>

text \<open>A nil pointer to a number is \<open>None\<close>; the block number is never nil.\<close>

record 'd BlockContext =
  CanTransfer :: "'d \<Rightarrow> Address \<Rightarrow> u256 \<Rightarrow> bool"
  Transfer :: "Address \<Rightarrow> Address \<Rightarrow> u256 \<Rightarrow> 'd \<Rightarrow> 'd"
  GetHash :: "u64 \<Rightarrow> Hash"
  Coinbase :: Address
  GasLimit :: u64
  BlockNumber :: nat
  Time :: u64
  Difficulty :: "nat option"
  BaseFee :: "nat option"
  BlobBaseFee :: "nat option"
  Random :: "Hash option"
  SlotNum :: u64

record 'd EVM =
  Context :: "'d BlockContext"
  Origin :: Address
  GasPrice :: u256
  BlobHashes :: "Hash list"
  accessEvents :: AccessEvents
  statedb :: 'd
  depth :: nat
  ChainID :: "nat option"
  chainRules :: Rules
  EnablePreimageRecording :: bool
  abort :: bool
  callGasTemp :: u64
  precompiles :: "Address \<Rightarrow> PrecompiledContract option"
  jumpDests :: mapJumpDests
  readOnly :: bool
  returnData :: bytes

text \<open>One call frame: the scope of the code, its program counter and the machine it runs on.\<close>

record 'd frame =
  pc :: u64
  stack :: stack
  memory :: Memory
  contract :: Contract
  evm :: "'d EVM"

text \<open>
  What the machine calls outside of the package: the state database, 256-bit arithmetic, the hash
  function, and the encoding of a sender and a nonce that \<^verbatim>\<open>crypto.CreateAddress\<close> hashes.
\<close>

record 'd env =
  DB :: "'d StateDB"
  U :: uint256_lib
  Keccak256 :: "bytes \<Rightarrow> bytes"
  rlp_create :: "Address \<Rightarrow> u64 \<Rightarrow> bytes"

definition Keccak256Hash :: "'d env \<Rightarrow> bytes \<Rightarrow> Hash" where
  "Keccak256Hash E data = BytesToHash (Keccak256 E data)"

definition CreateAddress :: "'d env \<Rightarrow> Address \<Rightarrow> u64 \<Rightarrow> Address" where
  "CreateAddress E b nonce = BytesToAddress (drop 12 (Keccak256 E (rlp_create E b nonce)))"

definition CreateAddress2 :: "'d env \<Rightarrow> Address \<Rightarrow> Hash \<Rightarrow> bytes \<Rightarrow> Address" where
  "CreateAddress2 E b salt inithash =
     BytesToAddress (drop 12 (Keccak256 E ([0xff] @ addr_bytes b @ hash_bytes salt @ inithash)))"

text \<open>The transfer functions every block context uses.\<close>

definition core_CanTransfer :: "'d StateDB \<Rightarrow> 'd \<Rightarrow> Address \<Rightarrow> u256 \<Rightarrow> bool" where
  "core_CanTransfer D db addr amount \<longleftrightarrow> GetBalance D db addr \<ge> amount"

definition core_Transfer :: "'d StateDB \<Rightarrow> Address \<Rightarrow> Address \<Rightarrow> u256 \<Rightarrow> 'd \<Rightarrow> 'd" where
  "core_Transfer D sender recipient amount db = AddBalance D recipient amount (SubBalance D sender amount db)"

text \<open>Delegation designators (EIP-7702): \<open>0xef0100\<close> and an address.\<close>

definition DelegationPrefix :: bytes where
  "DelegationPrefix = [0xef, 0x01, 0x00]"

definition ParseDelegation :: "bytes \<Rightarrow> Address option" where
  "ParseDelegation b =
     (if length b \<noteq> 23 \<or> take 3 b \<noteq> DelegationPrefix then None else Some (BytesToAddress (drop 3 b)))"

definition AddressToDelegation :: "Address \<Rightarrow> bytes" where
  "AddressToDelegation addr = DelegationPrefix @ addr_bytes addr"

definition resolveCode :: "'d env \<Rightarrow> 'd EVM \<Rightarrow> Address \<Rightarrow> bytes" where
  "resolveCode E m addr =
     (let code = GetCode (DB E) (statedb m) addr
      in if \<not> IsPrague (chainRules m) then code
         else (case ParseDelegation code of Some target \<Rightarrow> GetCode (DB E) (statedb m) target | None \<Rightarrow> code))"

definition resolveCodeHash :: "'d env \<Rightarrow> 'd EVM \<Rightarrow> Address \<Rightarrow> Hash" where
  "resolveCodeHash E m addr =
     (if IsPrague (chainRules m) then
        (case ParseDelegation (GetCode (DB E) (statedb m) addr) of
           Some target \<Rightarrow> GetCodeHash (DB E) (statedb m) target
         | None \<Rightarrow> GetCodeHash (DB E) (statedb m) addr)
      else GetCodeHash (DB E) (statedb m) addr)"

abbreviation map_db :: "('d \<Rightarrow> 'd) \<Rightarrow> 'd EVM \<Rightarrow> 'd EVM" where
  "map_db g m \<equiv> m\<lparr>statedb := g (statedb m)\<rparr>"

abbreviation map_evm :: "('d EVM \<Rightarrow> 'd EVM) \<Rightarrow> 'd frame \<Rightarrow> 'd frame" where
  "map_evm g f \<equiv> f\<lparr>evm := g (evm f)\<rparr>"

abbreviation f_Gas :: "'d frame \<Rightarrow> u64" where
  "f_Gas f \<equiv> Gas (contract f)"

abbreviation f_db :: "'d frame \<Rightarrow> 'd" where
  "f_db f \<equiv> statedb (evm f)"

abbreviation set_db :: "('d \<Rightarrow> 'd) \<Rightarrow> 'd frame \<Rightarrow> 'd frame" where
  "set_db g f \<equiv> map_evm (map_db g) f"

abbreviation set_gas :: "u64 \<Rightarrow> 'd frame \<Rightarrow> 'd frame" where
  "set_gas g f \<equiv> f\<lparr>contract := (contract f)\<lparr>Gas := g\<rparr>\<rparr>"

end
