(* ===== verification/Evm_Gas.thy ===== *)
theory Evm_Gas
  imports Evm_State
begin

text \<open>
  The dynamic gas functions: \<^verbatim>\<open>src/go-ethereum/core/vm/gas.go\<close>, \<^verbatim>\<open>gas_table.go\<close>, \<^verbatim>\<open>operations_acl.go\<close> and
  \<^verbatim>\<open>operations_verkle.go\<close>, with the prices of \<^verbatim>\<open>params/protocol_params.go\<close>.

  A gas function takes the frame and the memory size the instruction needs and returns the price or an error,
  with the frame it leaves: it may record an access, change the refund counter, remember the last memory fee,
  note the gas of a call in \<open>callGasTemp\<close> and, for calls, take gas from the contract.
\<close>

section \<open>Prices\<close>

abbreviation (input) GasQuickStep :: u64 where "GasQuickStep \<equiv> 2"
abbreviation (input) GasFastestStep :: u64 where "GasFastestStep \<equiv> 3"
abbreviation (input) GasFastStep :: u64 where "GasFastStep \<equiv> 5"
abbreviation (input) GasMidStep :: u64 where "GasMidStep \<equiv> 8"
abbreviation (input) GasSlowStep :: u64 where "GasSlowStep \<equiv> 10"
abbreviation (input) GasExtStep :: u64 where "GasExtStep \<equiv> 20"
abbreviation (input) MemoryGas :: u64 where "MemoryGas \<equiv> 3"
abbreviation (input) QuadCoeffDiv :: u64 where "QuadCoeffDiv \<equiv> 512"
abbreviation (input) CopyGas :: u64 where "CopyGas \<equiv> 3"
abbreviation (input) LogGas :: u64 where "LogGas \<equiv> 375"
abbreviation (input) LogTopicGas :: u64 where "LogTopicGas \<equiv> 375"
abbreviation (input) LogDataGas :: u64 where "LogDataGas \<equiv> 8"
abbreviation (input) Keccak256Gas :: u64 where "Keccak256Gas \<equiv> 30"
abbreviation (input) Keccak256WordGas :: u64 where "Keccak256WordGas \<equiv> 6"
abbreviation (input) InitCodeWordGas :: u64 where "InitCodeWordGas \<equiv> 2"
abbreviation (input) MaxCodeSize :: nat where "MaxCodeSize \<equiv> 24576"
abbreviation (input) MaxInitCodeSize :: u64 where "MaxInitCodeSize \<equiv> 49152"
abbreviation (input) ExpGas :: u64 where "ExpGas \<equiv> 10"
abbreviation (input) ExpByteFrontier :: u64 where "ExpByteFrontier \<equiv> 10"
abbreviation (input) ExpByteEIP158 :: u64 where "ExpByteEIP158 \<equiv> 50"
abbreviation (input) CallNewAccountGas :: u64 where "CallNewAccountGas \<equiv> 25000"
abbreviation (input) CallValueTransferGas :: u64 where "CallValueTransferGas \<equiv> 9000"
abbreviation (input) CallStipend :: u64 where "CallStipend \<equiv> 2300"
abbreviation (input) CallGasFrontier :: u64 where "CallGasFrontier \<equiv> 40"
abbreviation (input) CallGasEIP150 :: u64 where "CallGasEIP150 \<equiv> 700"
abbreviation (input) CreateGas :: u64 where "CreateGas \<equiv> 32000"
abbreviation (input) Create2Gas :: u64 where "Create2Gas \<equiv> 32000"
abbreviation (input) CreateNGasEip4762 :: u64 where "CreateNGasEip4762 \<equiv> 1000"
abbreviation (input) CreateDataGas :: u64 where "CreateDataGas \<equiv> 200"
abbreviation (input) CallCreateDepth :: nat where "CallCreateDepth \<equiv> 1024"
abbreviation (input) JumpdestGas :: u64 where "JumpdestGas \<equiv> 1"
abbreviation (input) BalanceGasFrontier :: u64 where "BalanceGasFrontier \<equiv> 20"
abbreviation (input) BalanceGasEIP150 :: u64 where "BalanceGasEIP150 \<equiv> 400"
abbreviation (input) BalanceGasEIP1884 :: u64 where "BalanceGasEIP1884 \<equiv> 700"
abbreviation (input) ExtcodeSizeGasFrontier :: u64 where "ExtcodeSizeGasFrontier \<equiv> 20"
abbreviation (input) ExtcodeSizeGasEIP150 :: u64 where "ExtcodeSizeGasEIP150 \<equiv> 700"
abbreviation (input) ExtcodeCopyBaseFrontier :: u64 where "ExtcodeCopyBaseFrontier \<equiv> 20"
abbreviation (input) ExtcodeCopyBaseEIP150 :: u64 where "ExtcodeCopyBaseEIP150 \<equiv> 700"
abbreviation (input) ExtcodeHashGasConstantinople :: u64 where "ExtcodeHashGasConstantinople \<equiv> 400"
abbreviation (input) ExtcodeHashGasEIP1884 :: u64 where "ExtcodeHashGasEIP1884 \<equiv> 700"
abbreviation (input) SloadGasFrontier :: u64 where "SloadGasFrontier \<equiv> 50"
abbreviation (input) SloadGasEIP150 :: u64 where "SloadGasEIP150 \<equiv> 200"
abbreviation (input) SloadGasEIP1884 :: u64 where "SloadGasEIP1884 \<equiv> 800"
abbreviation (input) SloadGasEIP2200 :: u64 where "SloadGasEIP2200 \<equiv> 800"
abbreviation (input) SelfdestructGasEIP150 :: u64 where "SelfdestructGasEIP150 \<equiv> 5000"
abbreviation (input) SelfdestructRefundGas :: u64 where "SelfdestructRefundGas \<equiv> 24000"
abbreviation (input) CreateBySelfdestructGas :: u64 where "CreateBySelfdestructGas \<equiv> 25000"
abbreviation (input) SstoreSetGas :: u64 where "SstoreSetGas \<equiv> 20000"
abbreviation (input) SstoreResetGas :: u64 where "SstoreResetGas \<equiv> 5000"
abbreviation (input) SstoreClearGas :: u64 where "SstoreClearGas \<equiv> 5000"
abbreviation (input) SstoreRefundGas :: u64 where "SstoreRefundGas \<equiv> 15000"
abbreviation (input) NetSstoreNoopGas :: u64 where "NetSstoreNoopGas \<equiv> 200"
abbreviation (input) NetSstoreInitGas :: u64 where "NetSstoreInitGas \<equiv> 20000"
abbreviation (input) NetSstoreCleanGas :: u64 where "NetSstoreCleanGas \<equiv> 5000"
abbreviation (input) NetSstoreDirtyGas :: u64 where "NetSstoreDirtyGas \<equiv> 200"
abbreviation (input) NetSstoreClearRefund :: u64 where "NetSstoreClearRefund \<equiv> 15000"
abbreviation (input) NetSstoreResetRefund :: u64 where "NetSstoreResetRefund \<equiv> 4800"
abbreviation (input) NetSstoreResetClearRefund :: u64 where "NetSstoreResetClearRefund \<equiv> 19800"
abbreviation (input) SstoreSentryGasEIP2200 :: u64 where "SstoreSentryGasEIP2200 \<equiv> 2300"
abbreviation (input) SstoreSetGasEIP2200 :: u64 where "SstoreSetGasEIP2200 \<equiv> 20000"
abbreviation (input) SstoreResetGasEIP2200 :: u64 where "SstoreResetGasEIP2200 \<equiv> 5000"
abbreviation (input) SstoreClearsScheduleRefundEIP2200 :: u64 where "SstoreClearsScheduleRefundEIP2200 \<equiv> 15000"
abbreviation (input) ColdAccountAccessCostEIP2929 :: u64 where "ColdAccountAccessCostEIP2929 \<equiv> 2600"
abbreviation (input) ColdSloadCostEIP2929 :: u64 where "ColdSloadCostEIP2929 \<equiv> 2100"
abbreviation (input) TxAccessListStorageKeyGas :: u64 where "TxAccessListStorageKeyGas \<equiv> 1900"

definition SstoreClearsScheduleRefundEIP3529 :: u64 where
  "SstoreClearsScheduleRefundEIP3529 = SstoreResetGasEIP2200 - ColdSloadCostEIP2929 + TxAccessListStorageKeyGas"

definition HistoryStorageAddress :: Address where
  "HistoryStorageAddress = 0x0000F90827F1C53a10cb7A02335B175320002935"

section \<open>Gas functions\<close>

type_synonym 'd gasFunc = "'d frame \<Rightarrow> u64 \<Rightarrow> ((evm_error + u64) \<times> 'd frame) outcome"

abbreviation gas_ok :: "u64 \<Rightarrow> 'd frame \<Rightarrow> ((evm_error + u64) \<times> 'd frame) outcome" where
  "gas_ok g f \<equiv> Ret (Inr g, f)"

abbreviation gas_err :: "evm_error \<Rightarrow> 'd frame \<Rightarrow> ((evm_error + u64) \<times> 'd frame) outcome" where
  "gas_err e f \<equiv> Ret (Inl e, f)"

text \<open>\<open>stack.Back(n)\<close>; the gas of the instruction so far; a checked sum or product.\<close>

definition with_back :: "nat \<Rightarrow> 'd frame \<Rightarrow> (u256 \<Rightarrow> 'a outcome) \<Rightarrow> 'a outcome" where
  "with_back n f k = (case st_Back (stack f) n of None \<Rightarrow> Panic | Some x \<Rightarrow> k x)"

definition then_gas ::
  "((evm_error + u64) \<times> 'd frame) outcome \<Rightarrow> (u64 \<Rightarrow> 'd frame \<Rightarrow> ((evm_error + u64) \<times> 'd frame) outcome) \<Rightarrow>
   ((evm_error + u64) \<times> 'd frame) outcome" where
  "then_gas r k = obind r (\<lambda>(g, f). case g of Inl e \<Rightarrow> gas_err e f | Inr gas \<Rightarrow> k gas f)"

definition checked :: "u64 \<times> bool \<Rightarrow> 'd frame \<Rightarrow> (u64 \<Rightarrow> ((evm_error + u64) \<times> 'd frame) outcome) \<Rightarrow>
   ((evm_error + u64) \<times> 'd frame) outcome" where
  "checked r f k = (let (v, overflow) = r in if overflow then gas_err ErrGasUintOverflow f else k v)"

definition callGas :: "bool \<Rightarrow> u64 \<Rightarrow> u64 \<Rightarrow> u256 \<Rightarrow> evm_error + u64" where
  "callGas isEip150 availableGas base callCost =
     (let availableGas' = availableGas - base;
          gas = availableGas' - availableGas' div 64
      in if isEip150 \<and> (\<not> IsUint64 callCost \<or> gas < Uint64 callCost) then Inr gas
         else if \<not> IsUint64 callCost then Inl ErrGasUintOverflow
         else Inr (Uint64 callCost))"

definition memoryGasCost :: "Memory \<Rightarrow> u64 \<Rightarrow> (evm_error + u64) \<times> Memory" where
  "memoryGasCost mem newMemSize =
     (if newMemSize = 0 then (Inr 0, mem)
      else if newMemSize > 0x1FFFFFFFE0 then (Inl ErrGasUintOverflow, mem)
      else
        (let newMemSizeWords = toWordSize newMemSize;
             newMemSize = newMemSizeWords * 32
         in if newMemSize > mem_Len mem then
              (let square = newMemSizeWords * newMemSizeWords;
                   linCoef = newMemSizeWords * MemoryGas;
                   quadCoef = square div QuadCoeffDiv;
                   newTotalFee = linCoef + quadCoef;
                   fee = newTotalFee - lastGasCost mem
               in (Inr fee, mem\<lparr>lastGasCost := newTotalFee\<rparr>))
            else (Inr 0, mem)))"

definition pureMemoryGascost :: "'d gasFunc" where
  "pureMemoryGascost f memorySize =
     (let (r, m) = memoryGasCost (memory f) memorySize in Ret (r, f\<lparr>memory := m\<rparr>))"

abbreviation "gasReturn \<equiv> pureMemoryGascost"
abbreviation "gasRevert \<equiv> pureMemoryGascost"
abbreviation "gasMLoad \<equiv> pureMemoryGascost"
abbreviation "gasMStore8 \<equiv> pureMemoryGascost"
abbreviation "gasMStore \<equiv> pureMemoryGascost"
abbreviation "gasCreate \<equiv> pureMemoryGascost"

definition memoryCopierGas :: "nat \<Rightarrow> 'd gasFunc" where
  "memoryCopierGas stackpos f memorySize =
     then_gas (pureMemoryGascost f memorySize) (\<lambda>gas f.
       with_back stackpos f (\<lambda>w.
         checked (Uint64WithOverflow w) f (\<lambda>words.
         checked (SafeMul (toWordSize words) CopyGas) f (\<lambda>words.
         checked (SafeAdd gas words) f (\<lambda>gas. gas_ok gas f)))))"

abbreviation "gasCallDataCopy \<equiv> memoryCopierGas 2"
abbreviation "gasCodeCopy \<equiv> memoryCopierGas 2"
abbreviation "gasMcopy \<equiv> memoryCopierGas 2"
abbreviation "gasExtCodeCopy \<equiv> memoryCopierGas 3"
abbreviation "gasReturnDataCopy \<equiv> memoryCopierGas 2"

definition sub_refund :: "'d env \<Rightarrow> u64 \<Rightarrow> 'd frame \<Rightarrow> 'd frame outcome" where
  "sub_refund E gas f = obind (of_option (SubRefund (DB E) gas (f_db f))) (\<lambda>db. Ret (set_db (\<lambda>_. db) f))"

text \<open>
  The refunds for a slot that the execution has changed before, common to the net-metered variants: clause
  (2.2.1) on clearing, clause (2.2.2) on restoring the original value.
\<close>

definition dirty_refunds :: "'d env \<Rightarrow> u64 \<Rightarrow> u64 \<Rightarrow> u64 \<Rightarrow> Hash \<Rightarrow> Hash \<Rightarrow> Hash \<Rightarrow> 'd frame \<Rightarrow> 'd frame outcome" where
  "dirty_refunds E clearRefund resetClear reset current original val f =
     obind
       (if original \<noteq> 0 then
          (if current = 0 then sub_refund E clearRefund f
           else if val = 0 then Ret (set_db (AddRefund (DB E) clearRefund) f)
           else Ret f)
        else Ret f)
       (\<lambda>f. if original = val then
              (if original = 0 then Ret (set_db (AddRefund (DB E) resetClear) f)
               else Ret (set_db (AddRefund (DB E) reset) f))
            else Ret f)"

definition gasSStore :: "'d env \<Rightarrow> 'd gasFunc" where
  "gasSStore E f memorySize =
     (if readOnly (evm f) then gas_err ErrWriteProtection f
      else
        with_back 1 f (\<lambda>y. with_back 0 f (\<lambda>x.
          (let (current, original) = GetStateAndCommittedState (DB E) (f_db f) (address (contract f)) x
           in if IsPetersburg (chainRules (evm f)) \<or> \<not> IsConstantinople (chainRules (evm f)) then
                (if current = 0 \<and> y \<noteq> 0 then gas_ok SstoreSetGas f
                 else if current \<noteq> 0 \<and> y = 0 then gas_ok SstoreClearGas (set_db (AddRefund (DB E) SstoreRefundGas) f)
                 else gas_ok SstoreResetGas f)
              else if current = y then gas_ok NetSstoreNoopGas f
              else if original = current then
                (if original = 0 then gas_ok NetSstoreInitGas f
                 else gas_ok NetSstoreCleanGas (if y = 0 then set_db (AddRefund (DB E) NetSstoreClearRefund) f else f))
              else
                obind (dirty_refunds E NetSstoreClearRefund NetSstoreResetClearRefund NetSstoreResetRefund current original y f)
                  (gas_ok NetSstoreDirtyGas)))))"

definition gasSStoreEIP2200 :: "'d env \<Rightarrow> 'd gasFunc" where
  "gasSStoreEIP2200 E f memorySize =
     (if readOnly (evm f) then gas_err ErrWriteProtection f
      else if f_Gas f \<le> SstoreSentryGasEIP2200 then gas_err ErrReentrancySentry f
      else
        with_back 1 f (\<lambda>y. with_back 0 f (\<lambda>x.
          (let (current, original) = GetStateAndCommittedState (DB E) (f_db f) (address (contract f)) x
           in if current = y then gas_ok SloadGasEIP2200 f
              else if original = current then
                (if original = 0 then gas_ok SstoreSetGasEIP2200 f
                 else gas_ok SstoreResetGasEIP2200
                        (if y = 0 then set_db (AddRefund (DB E) SstoreClearsScheduleRefundEIP2200) f else f))
              else
                obind (dirty_refunds E SstoreClearsScheduleRefundEIP2200 (SstoreSetGasEIP2200 - SloadGasEIP2200)
                        (SstoreResetGasEIP2200 - SloadGasEIP2200) current original y f)
                  (gas_ok SloadGasEIP2200)))))"

definition makeGasLog :: "u64 \<Rightarrow> 'd gasFunc" where
  "makeGasLog n f memorySize =
     with_back 1 f (\<lambda>s.
       checked (Uint64WithOverflow s) f (\<lambda>requestedSize.
       then_gas (pureMemoryGascost f memorySize) (\<lambda>gas f.
       checked (SafeAdd gas LogGas) f (\<lambda>gas.
       checked (SafeAdd gas (n * LogTopicGas)) f (\<lambda>gas.
       checked (SafeMul requestedSize LogDataGas) f (\<lambda>memorySizeGas.
       checked (SafeAdd gas memorySizeGas) f (\<lambda>gas. gas_ok gas f)))))))"

text \<open>The price of hashing the words of the operand at a position, added to the memory fee.\<close>

definition hash_words_gas :: "nat \<Rightarrow> 'd gasFunc" where
  "hash_words_gas pos f memorySize =
     then_gas (pureMemoryGascost f memorySize) (\<lambda>gas f.
       with_back pos f (\<lambda>w.
         checked (Uint64WithOverflow w) f (\<lambda>wordGas.
         checked (SafeMul (toWordSize wordGas) Keccak256WordGas) f (\<lambda>wordGas.
         checked (SafeAdd gas wordGas) f (\<lambda>gas. gas_ok gas f)))))"

definition gasKeccak256 :: "'d gasFunc" where
  "gasKeccak256 = hash_words_gas 1"

definition gasCreate2 :: "'d gasFunc" where
  "gasCreate2 = hash_words_gas 2"

definition init_code_gas :: "u64 \<Rightarrow> 'd gasFunc" where
  "init_code_gas perWord f memorySize =
     then_gas (pureMemoryGascost f memorySize) (\<lambda>gas f.
       with_back 2 f (\<lambda>s.
         checked (Uint64WithOverflow s) f (\<lambda>sz.
           if sz > MaxInitCodeSize then gas_err (ErrMaxInitCodeSizeExceeded sz) f
           else checked (SafeAdd gas (perWord * ((sz + 31) div 32))) f (\<lambda>gas. gas_ok gas f))))"

definition gasCreateEip3860 :: "'d gasFunc" where
  "gasCreateEip3860 = init_code_gas InitCodeWordGas"

definition gasCreate2Eip3860 :: "'d gasFunc" where
  "gasCreate2Eip3860 = init_code_gas (InitCodeWordGas + Keccak256WordGas)"

definition exp_gas :: "u64 \<Rightarrow> 'd gasFunc" where
  "exp_gas perByte f memorySize =
     with_back 1 f (\<lambda>e.
       (let expByteLen = of_nat ((bit_len (unat e) + 7) div 8)
        in checked (SafeAdd (expByteLen * perByte) ExpGas) f (\<lambda>gas. gas_ok gas f)))"

definition gasExpFrontier :: "'d gasFunc" where
  "gasExpFrontier = exp_gas ExpByteFrontier"

definition gasExpEIP158 :: "'d gasFunc" where
  "gasExpEIP158 = exp_gas ExpByteEIP158"

text \<open>The end of every call price: the gas passed on is noted and added to the base.\<close>

definition add_call_gas :: "u64 \<Rightarrow> 'd gasFunc" where
  "add_call_gas gas f memorySize =
     with_back 0 f (\<lambda>callCost.
       (case callGas (IsEIP150 (chainRules (evm f))) (f_Gas f) gas callCost of
          Inl e \<Rightarrow> gas_err e (map_evm (callGasTemp_update (\<lambda>_. 0)) f)
        | Inr t \<Rightarrow>
            (let f = map_evm (callGasTemp_update (\<lambda>_. t)) f
             in checked (SafeAdd gas t) f (\<lambda>gas. gas_ok gas f))))"

definition gasCall :: "'d env \<Rightarrow> 'd gasFunc" where
  "gasCall E f memorySize =
     with_back 2 f (\<lambda>v. with_back 1 f (\<lambda>a.
       (let transfersValue = (v \<noteq> 0);
            addr = Bytes20 a;
            rules = chainRules (evm f)
        in if readOnly (evm f) \<and> transfersValue then gas_err ErrWriteProtection f
           else
             (let gas = (if IsEIP158 rules then
                           (if transfersValue \<and> Empty (DB E) (f_db f) addr then CallNewAccountGas else 0)
                         else if \<not> Exist (DB E) (f_db f) addr then CallNewAccountGas else 0);
                  gas = gas + (if transfersValue \<and> \<not> IsEIP4762 rules then CallValueTransferGas else 0)
              in then_gas (pureMemoryGascost f memorySize) (\<lambda>memoryGas f.
                   checked (SafeAdd gas memoryGas) f (\<lambda>gas. add_call_gas gas f memorySize))))))"

definition gasCallCode :: "'d gasFunc" where
  "gasCallCode f memorySize =
     then_gas (pureMemoryGascost f memorySize) (\<lambda>memoryGas f.
       with_back 2 f (\<lambda>v.
         (let gas = (if v \<noteq> 0 \<and> \<not> IsEIP4762 (chainRules (evm f)) then CallValueTransferGas else 0)
          in checked (SafeAdd gas memoryGas) f (\<lambda>gas. add_call_gas gas f memorySize))))"

definition gasDelegateCall :: "'d gasFunc" where
  "gasDelegateCall f memorySize =
     then_gas (pureMemoryGascost f memorySize) (\<lambda>gas f. add_call_gas gas f memorySize)"

definition gasStaticCall :: "'d gasFunc" where
  "gasStaticCall f memorySize =
     then_gas (pureMemoryGascost f memorySize) (\<lambda>gas f. add_call_gas gas f memorySize)"

definition gasSelfdestruct :: "'d env \<Rightarrow> 'd gasFunc" where
  "gasSelfdestruct E f memorySize =
     (if readOnly (evm f) then gas_err ErrWriteProtection f
      else
        (let rules = chainRules (evm f); db = f_db f; this = address (contract f);
             finish = (\<lambda>gas. gas_ok gas (if \<not> HasSelfDestructed (DB E) db this
                                        then set_db (AddRefund (DB E) SelfdestructRefundGas) f else f))
         in if IsEIP150 rules then
              with_back 0 f (\<lambda>a.
                (let addr = Bytes20 a
                 in finish (SelfdestructGasEIP150 +
                      (if IsEIP158 rules then
                         (if Empty (DB E) db addr \<and> GetBalance (DB E) db this \<noteq> 0 then CreateBySelfdestructGas else 0)
                       else if \<not> Exist (DB E) db addr then CreateBySelfdestructGas else 0))))
            else finish 0))"

section \<open>Access lists (EIP-2929, EIP-3529, EIP-7702)\<close>

definition makeGasSStoreFunc :: "'d env \<Rightarrow> u64 \<Rightarrow> 'd gasFunc" where
  "makeGasSStoreFunc E clearingRefund f memorySize =
     (if readOnly (evm f) then gas_err ErrWriteProtection f
      else if f_Gas f \<le> SstoreSentryGasEIP2200 then gas_err ErrReentrancySentry f
      else
        with_back 1 f (\<lambda>y. with_back 0 f (\<lambda>slot.
          (let this = address (contract f);
               (current, original) = GetStateAndCommittedState (DB E) (f_db f) this slot;
               slotPresent = snd (SlotInAccessList (DB E) (f_db f) this slot);
               cost = (if slotPresent then 0 else ColdSloadCostEIP2929);
               f = (if slotPresent then f else set_db (AddSlotToAccessList (DB E) this slot) f)
           in if current = y then gas_ok (cost + WarmStorageReadCostEIP2929) f
              else if original = current then
                (if original = 0 then gas_ok (cost + SstoreSetGasEIP2200) f
                 else gas_ok (cost + (SstoreResetGasEIP2200 - ColdSloadCostEIP2929))
                        (if y = 0 then set_db (AddRefund (DB E) clearingRefund) f else f))
              else
                obind (dirty_refunds E clearingRefund (SstoreSetGasEIP2200 - WarmStorageReadCostEIP2929)
                        ((SstoreResetGasEIP2200 - ColdSloadCostEIP2929) - WarmStorageReadCostEIP2929) current original y f)
                  (gas_ok (cost + WarmStorageReadCostEIP2929))))))"

definition gasSStoreEIP2929 :: "'d env \<Rightarrow> 'd gasFunc" where
  "gasSStoreEIP2929 E = makeGasSStoreFunc E SstoreClearsScheduleRefundEIP2200"

definition gasSStoreEIP3529 :: "'d env \<Rightarrow> 'd gasFunc" where
  "gasSStoreEIP3529 E = makeGasSStoreFunc E SstoreClearsScheduleRefundEIP3529"

definition gasSLoadEIP2929 :: "'d env \<Rightarrow> 'd gasFunc" where
  "gasSLoadEIP2929 E f memorySize =
     with_back 0 f (\<lambda>slot.
       (let this = address (contract f)
        in if \<not> snd (SlotInAccessList (DB E) (f_db f) this slot)
           then gas_ok ColdSloadCostEIP2929 (set_db (AddSlotToAccessList (DB E) this slot) f)
           else gas_ok WarmStorageReadCostEIP2929 f))"

definition gasExtCodeCopyEIP2929 :: "'d env \<Rightarrow> 'd gasFunc" where
  "gasExtCodeCopyEIP2929 E f memorySize =
     then_gas (gasExtCodeCopy f memorySize) (\<lambda>gas f.
       with_back 0 f (\<lambda>a.
         (let addr = Bytes20 a
          in if \<not> AddressInAccessList (DB E) (f_db f) addr then
               (let f = set_db (AddAddressToAccessList (DB E) addr) f
                in checked (SafeAdd gas (ColdAccountAccessCostEIP2929 - WarmStorageReadCostEIP2929)) f (\<lambda>gas. gas_ok gas f))
             else gas_ok gas f)))"

definition gasEip2929AccountCheck :: "'d env \<Rightarrow> 'd gasFunc" where
  "gasEip2929AccountCheck E f memorySize =
     with_back 0 f (\<lambda>a.
       (let addr = Bytes20 a
        in if \<not> AddressInAccessList (DB E) (f_db f) addr
           then gas_ok (ColdAccountAccessCostEIP2929 - WarmStorageReadCostEIP2929) (set_db (AddAddressToAccessList (DB E) addr) f)
           else gas_ok 0 f))"

definition frame_UseGas :: "u64 \<Rightarrow> 'd frame \<Rightarrow> bool \<times> 'd frame" where
  "frame_UseGas gas f = (let (ok, c) = UseGas gas (contract f) in (ok, f\<lparr>contract := c\<rparr>))"

definition makeCallVariantGasCallEIP2929 :: "'d env \<Rightarrow> 'd gasFunc \<Rightarrow> nat \<Rightarrow> 'd gasFunc" where
  "makeCallVariantGasCallEIP2929 E oldCalculator addressPosition f memorySize =
     with_back addressPosition f (\<lambda>a.
       (let addr = Bytes20 a;
            warmAccess = AddressInAccessList (DB E) (f_db f) addr;
            coldCost = ColdAccountAccessCostEIP2929 - WarmStorageReadCostEIP2929
        in if warmAccess then oldCalculator f memorySize
           else
             (let f = set_db (AddAddressToAccessList (DB E) addr) f;
                  (ok, f) = frame_UseGas coldCost f
              in if \<not> ok then gas_err evm_error.ErrOutOfGas f
                 else
                   then_gas (oldCalculator f memorySize) (\<lambda>gas f.
                     (let f = set_gas (f_Gas f + coldCost) f
                      in checked (SafeAdd gas coldCost) f (\<lambda>gas. gas_ok gas f))))))"

definition gasCallEIP2929 :: "'d env \<Rightarrow> 'd gasFunc" where
  "gasCallEIP2929 E = makeCallVariantGasCallEIP2929 E (gasCall E) 1"

definition gasDelegateCallEIP2929 :: "'d env \<Rightarrow> 'd gasFunc" where
  "gasDelegateCallEIP2929 E = makeCallVariantGasCallEIP2929 E gasDelegateCall 1"

definition gasStaticCallEIP2929 :: "'d env \<Rightarrow> 'd gasFunc" where
  "gasStaticCallEIP2929 E = makeCallVariantGasCallEIP2929 E gasStaticCall 1"

definition gasCallCodeEIP2929 :: "'d env \<Rightarrow> 'd gasFunc" where
  "gasCallCodeEIP2929 E = makeCallVariantGasCallEIP2929 E gasCallCode 1"

definition makeSelfdestructGasFn :: "'d env \<Rightarrow> bool \<Rightarrow> 'd gasFunc" where
  "makeSelfdestructGasFn E refundsEnabled f memorySize =
     with_back 0 f (\<lambda>a.
       (let addr = Bytes20 a; this = address (contract f)
        in if readOnly (evm f) then gas_err ErrWriteProtection f
           else
             (let cold = (\<not> AddressInAccessList (DB E) (f_db f) addr);
                  gas = (if cold then ColdAccountAccessCostEIP2929 else 0);
                  f = (if cold then set_db (AddAddressToAccessList (DB E) addr) f else f)
              in if cold \<and> f_Gas f < gas then gas_err evm_error.ErrOutOfGas f
                 else
                   (let gas = gas + (if Empty (DB E) (f_db f) addr \<and> GetBalance (DB E) (f_db f) this \<noteq> 0
                                     then CreateBySelfdestructGas else 0)
                    in gas_ok gas (if refundsEnabled \<and> \<not> HasSelfDestructed (DB E) (f_db f) this
                                   then set_db (AddRefund (DB E) SelfdestructRefundGas) f else f)))))"

definition gasSelfdestructEIP2929 :: "'d env \<Rightarrow> 'd gasFunc" where
  "gasSelfdestructEIP2929 E = makeSelfdestructGasFn E True"

definition gasSelfdestructEIP3529 :: "'d env \<Rightarrow> 'd gasFunc" where
  "gasSelfdestructEIP3529 E = makeSelfdestructGasFn E False"

text \<open>With delegation (EIP-7702): the total charged so far is taken from the contract, then given back.\<close>

definition makeCallVariantGasCallEIP7702 :: "'d env \<Rightarrow> 'd gasFunc \<Rightarrow> 'd gasFunc" where
  "makeCallVariantGasCallEIP7702 E oldCalculator f memorySize =
     with_back 1 f (\<lambda>a.
       (let addr = Bytes20 a;
            cold = (\<not> AddressInAccessList (DB E) (f_db f) addr);
            coldCost = ColdAccountAccessCostEIP2929 - WarmStorageReadCostEIP2929;
            f = (if cold then set_db (AddAddressToAccessList (DB E) addr) f else f);
            (ok, f) = (if cold then frame_UseGas coldCost f else (True, f));
            total_gas = (if cold then coldCost else 0)
        in if \<not> ok then gas_err evm_error.ErrOutOfGas f
           else
             (let (ok, f, total_gas) =
                (case ParseDelegation (GetCode (DB E) (f_db f) addr) of
                   None \<Rightarrow> (True, f, total_gas)
                 | Some target \<Rightarrow>
                     (let warm = AddressInAccessList (DB E) (f_db f) target;
                          cost = (if warm then WarmStorageReadCostEIP2929 else ColdAccountAccessCostEIP2929);
                          f = (if warm then f else set_db (AddAddressToAccessList (DB E) target) f);
                          (ok, f) = frame_UseGas cost f
                      in (ok, f, total_gas + cost)))
              in if \<not> ok then gas_err evm_error.ErrOutOfGas f
                 else
                   then_gas (oldCalculator f memorySize) (\<lambda>old f.
                     (let f = set_gas (f_Gas f + total_gas) f
                      in checked (SafeAdd old total_gas) f (\<lambda>gas. gas_ok gas f))))))"

definition gasCallEIP7702 :: "'d env \<Rightarrow> 'd gasFunc" where
  "gasCallEIP7702 E f memorySize =
     with_back 2 f (\<lambda>v.
       (let transfersValue = (v \<noteq> 0)
        in if readOnly (evm f) \<and> transfersValue then gas_err ErrWriteProtection f
           else makeCallVariantGasCallEIP7702 E (gasCall E) f memorySize))"

definition gasDelegateCallEIP7702 :: "'d env \<Rightarrow> 'd gasFunc" where
  "gasDelegateCallEIP7702 E = makeCallVariantGasCallEIP7702 E gasDelegateCall"

definition gasStaticCallEIP7702 :: "'d env \<Rightarrow> 'd gasFunc" where
  "gasStaticCallEIP7702 E = makeCallVariantGasCallEIP7702 E gasStaticCall"

definition gasCallCodeEIP7702 :: "'d env \<Rightarrow> 'd gasFunc" where
  "gasCallCodeEIP7702 E = makeCallVariantGasCallEIP7702 E gasCallCode"

section \<open>Witness charges (EIP-4762)\<close>

abbreviation set_ae :: "AccessEvents \<Rightarrow> 'd frame \<Rightarrow> 'd frame" where
  "set_ae ae f \<equiv> map_evm (accessEvents_update (\<lambda>_. ae)) f"

definition slot_gas_4762 :: "'d env \<Rightarrow> bool \<Rightarrow> 'd gasFunc" where
  "slot_gas_4762 E isWrite f memorySize =
     with_back 0 f (\<lambda>x.
       obind (of_option (SlotGas (U E) (address (contract f)) x isWrite (f_Gas f) True (accessEvents (evm f))))
         (\<lambda>(gas, ae). gas_ok gas (set_ae ae f)))"

definition gasSStore4762 :: "'d env \<Rightarrow> 'd gasFunc" where
  "gasSStore4762 E = slot_gas_4762 E True"

definition gasSLoad4762 :: "'d env \<Rightarrow> 'd gasFunc" where
  "gasSLoad4762 E = slot_gas_4762 E False"

definition gasBalance4762 :: "'d gasFunc" where
  "gasBalance4762 f memorySize =
     with_back 0 f (\<lambda>a.
       (let (gas, ae) = BasicDataGas (Bytes20 a) False (f_Gas f) True (accessEvents (evm f)) in gas_ok gas (set_ae ae f)))"

definition gasExtCodeSize4762 :: "'d gasFunc" where
  "gasExtCodeSize4762 f memorySize =
     with_back 0 f (\<lambda>a.
       if precompiles (evm f) (Bytes20 a) \<noteq> None then gas_ok 0 f
       else (let (gas, ae) = BasicDataGas (Bytes20 a) False (f_Gas f) True (accessEvents (evm f)) in gas_ok gas (set_ae ae f)))"

definition gasExtCodeHash4762 :: "'d gasFunc" where
  "gasExtCodeHash4762 f memorySize =
     with_back 0 f (\<lambda>a.
       if precompiles (evm f) (Bytes20 a) \<noteq> None then gas_ok 0 f
       else (let (gas, ae) = CodeHashGas (Bytes20 a) False (f_Gas f) True (accessEvents (evm f)) in gas_ok gas (set_ae ae f)))"

text \<open>
  The witness gas is taken from the contract while the price of the call is computed and restored
  afterwards. On an error the price is zero, so the sum does not overflow and the error is returned.
\<close>

definition call_with_witness :: "'d gasFunc \<Rightarrow> u64 \<Rightarrow> 'd gasFunc" where
  "call_with_witness oldCalculator witnessGas f memorySize =
     obind (oldCalculator (set_gas (f_Gas f - witnessGas) f) memorySize) (\<lambda>(r, f).
       (let f = set_gas (f_Gas f + witnessGas) f
        in (case r of
              Inl e \<Rightarrow> gas_err e f
            | Inr gas \<Rightarrow> checked (SafeAdd gas witnessGas) f (\<lambda>gas. gas_ok gas f))))"

definition makeCallVariantGasEIP4762 :: "'d gasFunc \<Rightarrow> bool \<Rightarrow> 'd gasFunc" where
  "makeCallVariantGasEIP4762 oldCalculator withTransferCosts f memorySize =
     with_back 1 f (\<lambda>a.
       (let target = Bytes20 a;
            isPrecompile = (precompiles (evm f) target \<noteq> None);
            isSystemContract = (target = HistoryStorageAddress);
            ae = accessEvents (evm f);
            noTransfer =
              (if isPrecompile \<or> isSystemContract then call_with_witness oldCalculator WarmStorageReadCostEIP2929 f memorySize
               else
                 (let (wanted, ae) = MessageCallGas target (f_Gas f - 0) ae;
                      f = set_ae ae f
                  in checked (SafeAdd 0 wanted) f (\<lambda>witnessGas.
                       if witnessGas > f_Gas f then gas_ok witnessGas f
                       else call_with_witness oldCalculator witnessGas f memorySize)))
        in if withTransferCosts then
             with_back 2 f (\<lambda>v.
               if v \<noteq> 0 then
                 (let (wanted, ae) = ValueTransferGas (address (contract f)) target (f_Gas f) ae;
                      f = set_ae ae f
                  in if wanted > f_Gas f then gas_ok wanted f else call_with_witness oldCalculator wanted f memorySize)
               else noTransfer)
           else noTransfer))"

definition gasCallEIP4762 :: "'d env \<Rightarrow> 'd gasFunc" where
  "gasCallEIP4762 E = makeCallVariantGasEIP4762 (gasCall E) True"

definition gasCallCodeEIP4762 :: "'d gasFunc" where
  "gasCallCodeEIP4762 = makeCallVariantGasEIP4762 gasCallCode False"

definition gasStaticCallEIP4762 :: "'d gasFunc" where
  "gasStaticCallEIP4762 = makeCallVariantGasEIP4762 gasStaticCall False"

definition gasDelegateCallEIP4762 :: "'d gasFunc" where
  "gasDelegateCallEIP4762 = makeCallVariantGasEIP4762 gasDelegateCall False"

text \<open>
  One charge of \<open>gasSelfdestructEIP4762\<close>: touch, stop if the gas left does not cover it, else go on with the
  sum.
\<close>

definition witness_step ::
  "(u64 \<Rightarrow> AccessEvents \<Rightarrow> u64 \<times> AccessEvents) \<Rightarrow> u64 \<Rightarrow> 'd frame \<Rightarrow> (u64 \<Rightarrow> 'd frame \<Rightarrow> ((evm_error + u64) \<times> 'd frame) outcome) \<Rightarrow>
   ((evm_error + u64) \<times> 'd frame) outcome" where
  "witness_step touch statelessGas f k =
     (let (wanted, ae) = touch (f_Gas f - statelessGas) (accessEvents (evm f));
          f = set_ae ae f
      in if wanted > f_Gas f - statelessGas then gas_ok (statelessGas + wanted) f else k (statelessGas + wanted) f)"

definition gasSelfdestructEIP4762 :: "'d env \<Rightarrow> 'd gasFunc" where
  "gasSelfdestructEIP4762 E f memorySize =
     with_back 0 f (\<lambda>a.
       (let beneficiaryAddr = Bytes20 a; contractAddr = address (contract f)
        in if precompiles (evm f) beneficiaryAddr \<noteq> None then gas_ok 0 f
           else if IsSystemCall (contract f) then gas_ok 0 f
           else
             witness_step (\<lambda>g. BasicDataGas contractAddr False g False) 0 f (\<lambda>statelessGas f.
               (let balanceIsZero = (GetBalance (DB E) (f_db f) contractAddr = 0);
                    isPrecompile = (precompiles (evm f) beneficiaryAddr \<noteq> None);
                    isSystemContract = (beneficiaryAddr = HistoryStorageAddress);
                    write_costs = (\<lambda>statelessGas f.
                      if \<not> balanceIsZero then
                        witness_step (\<lambda>g. BasicDataGas contractAddr True g False) statelessGas f (\<lambda>statelessGas f.
                          if contractAddr \<noteq> beneficiaryAddr then
                            witness_step
                              (\<lambda>g. if Exist (DB E) (f_db f) beneficiaryAddr then BasicDataGas beneficiaryAddr True g False
                                   else AddAccount beneficiaryAddr True g) statelessGas f gas_ok
                          else gas_ok statelessGas f)
                      else gas_ok statelessGas f)
                in if (isPrecompile \<or> isSystemContract) \<and> balanceIsZero then gas_ok statelessGas f
                   else if contractAddr \<noteq> beneficiaryAddr then
                     witness_step (\<lambda>g. BasicDataGas beneficiaryAddr False g False) statelessGas f write_costs
                   else write_costs statelessGas f))))"

definition gasCodeCopyEip4762 :: "'d gasFunc" where
  "gasCodeCopyEip4762 f memorySize =
     then_gas (gasCodeCopy f memorySize) (\<lambda>gas f.
       if \<not> IsDeployment (contract f) \<and> \<not> IsSystemCall (contract f) then
         with_back 1 f (\<lambda>codeOffset. with_back 2 f (\<lambda>len.
           (let (off64, overflow) = Uint64WithOverflow codeOffset;
                off64 = (if overflow then MaxUint64 else off64);
                code = Code (contract f)
            in obind (of_option (getDataAndAdjustedBounds code off64 (Uint64 len))) (\<lambda>(_, copyOffset, nonPaddedCopyLength).
               obind (of_option (CodeChunksRangeGas (address (contract f)) copyOffset nonPaddedCopyLength (of_nat (length code))
                                  False (f_Gas f - gas) (accessEvents (evm f))))
                 (\<lambda>((_, wanted), ae). gas_ok (gas + wanted) (set_ae ae f))))))
       else gas_ok gas f)"

definition gasExtCodeCopyEIP4762 :: "'d gasFunc" where
  "gasExtCodeCopyEIP4762 f memorySize =
     then_gas (gasExtCodeCopy f memorySize) (\<lambda>gas f.
       with_back 0 f (\<lambda>a.
         (let addr = Bytes20 a
          in if precompiles (evm f) addr \<noteq> None \<or> addr = HistoryStorageAddress
             then checked (SafeAdd gas WarmStorageReadCostEIP2929) f (\<lambda>gas. gas_ok gas f)
             else
               (let (wgas, ae) = BasicDataGas addr False (f_Gas f - gas) True (accessEvents (evm f));
                    f = set_ae ae f
                in checked (SafeAdd gas wgas) f (\<lambda>gas. gas_ok gas f)))))"

end
