(* ===== verification/Evm_Ops.thy ===== *)
theory Evm_Ops
  imports Evm_Gas
begin

text \<open>
  The instructions: \<^verbatim>\<open>src/go-ethereum/core/vm/instructions.go\<close> and those of \<^verbatim>\<open>eips.go\<close>.

  An instruction takes a frame and returns the data and error of the Go function with the frame it leaves.
  Its operands are the first items of the stack, as the code pops and peeks them; too short a stack, a
  memory access out of range and a nil pointer are \<open>Panic\<close>. The instructions that call or create contracts
  take the six entry points of the machine as an argument; the machine ties the knot.
\<close>

type_synonym 'd executionFunc = "'d frame \<Rightarrow> ((bytes \<times> evm_error option) \<times> 'd frame) outcome"

type_synonym 'd call_result = "((bytes \<times> u64 \<times> evm_error option) \<times> 'd EVM) outcome"
type_synonym 'd create_result = "((bytes \<times> Address \<times> u64 \<times> evm_error option) \<times> 'd EVM) outcome"

record 'd calls =
  do_Call :: "'d EVM \<Rightarrow> Address \<Rightarrow> Address \<Rightarrow> bytes \<Rightarrow> u64 \<Rightarrow> u256 \<Rightarrow> 'd call_result"
  do_CallCode :: "'d EVM \<Rightarrow> Address \<Rightarrow> Address \<Rightarrow> bytes \<Rightarrow> u64 \<Rightarrow> u256 \<Rightarrow> 'd call_result"
  do_DelegateCall :: "'d EVM \<Rightarrow> Address \<Rightarrow> Address \<Rightarrow> Address \<Rightarrow> bytes \<Rightarrow> u64 \<Rightarrow> u256 \<Rightarrow> 'd call_result"
  do_StaticCall :: "'d EVM \<Rightarrow> Address \<Rightarrow> Address \<Rightarrow> bytes \<Rightarrow> u64 \<Rightarrow> 'd call_result"
  do_Create :: "'d EVM \<Rightarrow> Address \<Rightarrow> bytes \<Rightarrow> u64 \<Rightarrow> u256 \<Rightarrow> 'd create_result"
  do_Create2 :: "'d EVM \<Rightarrow> Address \<Rightarrow> bytes \<Rightarrow> u64 \<Rightarrow> u256 \<Rightarrow> u256 \<Rightarrow> 'd create_result"

section \<open>Shapes\<close>

abbreviation cont :: "'d executionFunc" where
  "cont f \<equiv> Ret (([], None), f)"

abbreviation stop_with :: "evm_error \<Rightarrow> 'd executionFunc" where
  "stop_with e f \<equiv> Ret (([], Some e), f)"

text \<open>\<open>pop\<close> or \<open>peek\<close> the operands and leave the result on the stack; or push a value.\<close>

definition unop :: "(u256 \<Rightarrow> u256) \<Rightarrow> 'd executionFunc" where
  "unop g f = (case stack f of x # s \<Rightarrow> cont (f\<lparr>stack := g x # s\<rparr>) | _ \<Rightarrow> Panic)"

definition binop :: "(u256 \<Rightarrow> u256 \<Rightarrow> u256) \<Rightarrow> 'd executionFunc" where
  "binop g f = (case stack f of x # y # s \<Rightarrow> cont (f\<lparr>stack := g x y # s\<rparr>) | _ \<Rightarrow> Panic)"

definition ternop :: "(u256 \<Rightarrow> u256 \<Rightarrow> u256 \<Rightarrow> u256) \<Rightarrow> 'd executionFunc" where
  "ternop g f = (case stack f of x # y # z # s \<Rightarrow> cont (f\<lparr>stack := g x y z # s\<rparr>) | _ \<Rightarrow> Panic)"

definition push_op :: "('d frame \<Rightarrow> u256 option) \<Rightarrow> 'd executionFunc" where
  "push_op g f = obind (of_option (g f)) (\<lambda>v. cont (f\<lparr>stack := st_push v (stack f)\<rparr>))"

definition of_bool256 :: "bool \<Rightarrow> u256" where
  "of_bool256 b = (if b then 1 else 0)"

definition u64_256 :: "u64 \<Rightarrow> u256" where
  "u64_256 x = ucast x"

definition addr_256 :: "Address \<Rightarrow> u256" where
  "addr_256 a = SetBytes (addr_bytes a)"

section \<open>Arithmetic, comparison and bit operations\<close>

definition opAdd :: "'d env \<Rightarrow> 'd executionFunc" where "opAdd E = binop (u_Add (U E))"
definition opSub :: "'d env \<Rightarrow> 'd executionFunc" where "opSub E = binop (u_Sub (U E))"
definition opMul :: "'d env \<Rightarrow> 'd executionFunc" where "opMul E = binop (u_Mul (U E))"
definition opDiv :: "'d env \<Rightarrow> 'd executionFunc" where "opDiv E = binop (u_Div (U E))"
definition opSdiv :: "'d env \<Rightarrow> 'd executionFunc" where "opSdiv E = binop (u_SDiv (U E))"
definition opMod :: "'d env \<Rightarrow> 'd executionFunc" where "opMod E = binop (u_Mod (U E))"
definition opSmod :: "'d env \<Rightarrow> 'd executionFunc" where "opSmod E = binop (u_SMod (U E))"
definition opExp :: "'d env \<Rightarrow> 'd executionFunc" where "opExp E = binop (u_Exp (U E))"

definition opSignExtend :: "'d env \<Rightarrow> 'd executionFunc" where
  "opSignExtend E = binop (\<lambda>back num. u_ExtendSign (U E) num back)"

definition opNot :: "'d env \<Rightarrow> 'd executionFunc" where "opNot E = unop (u_Not (U E))"
definition opLt :: "'d executionFunc" where "opLt = binop (\<lambda>x y. of_bool256 (x < y))"
definition opGt :: "'d executionFunc" where "opGt = binop (\<lambda>x y. of_bool256 (x > y))"
definition opSlt :: "'d env \<Rightarrow> 'd executionFunc" where "opSlt E = binop (\<lambda>x y. of_bool256 (u_Slt (U E) x y))"
definition opSgt :: "'d env \<Rightarrow> 'd executionFunc" where "opSgt E = binop (\<lambda>x y. of_bool256 (u_Sgt (U E) x y))"
definition opEq :: "'d executionFunc" where "opEq = binop (\<lambda>x y. of_bool256 (x = y))"
definition opIszero :: "'d executionFunc" where "opIszero = unop (\<lambda>x. of_bool256 (x = 0))"
definition opAnd :: "'d env \<Rightarrow> 'd executionFunc" where "opAnd E = binop (u_And (U E))"
definition opOr :: "'d env \<Rightarrow> 'd executionFunc" where "opOr E = binop (u_Or (U E))"
definition opXor :: "'d env \<Rightarrow> 'd executionFunc" where "opXor E = binop (u_Xor (U E))"
definition opByte :: "'d env \<Rightarrow> 'd executionFunc" where "opByte E = binop (\<lambda>th val. u_Byte (U E) val th)"
definition opAddmod :: "'d env \<Rightarrow> 'd executionFunc" where "opAddmod E = ternop (u_AddMod (U E))"
definition opMulmod :: "'d env \<Rightarrow> 'd executionFunc" where "opMulmod E = ternop (u_MulMod (U E))"

definition opSHL :: "'d env \<Rightarrow> 'd executionFunc" where
  "opSHL E = binop (\<lambda>shift val. if shift < 256 then u_Lsh (U E) val (unat shift) else 0)"

definition opSHR :: "'d env \<Rightarrow> 'd executionFunc" where
  "opSHR E = binop (\<lambda>shift val. if shift < 256 then u_Rsh (U E) val (unat shift) else 0)"

definition opSAR :: "'d env \<Rightarrow> 'd executionFunc" where
  "opSAR E = binop (\<lambda>shift val.
     if shift > 256 then (if sint val \<ge> 0 then 0 else - 1) else u_SRsh (U E) val (unat shift))"

definition opCLZ :: "'d executionFunc" where
  "opCLZ = unop (\<lambda>x. of_nat (256 - bit_len (unat x)))"

section \<open>Environment\<close>

definition opKeccak256 :: "'d env \<Rightarrow> 'd executionFunc" where
  "opKeccak256 E f =
     (case stack f of
        offset # sz # s \<Rightarrow>
          obind (of_option (mem_GetPtr (Uint64 offset) (Uint64 sz) (memory f))) (\<lambda>data.
            (let hash = Keccak256Hash E data;
                 f = (if EnablePreimageRecording (evm f) then set_db (AddPreimage (DB E) hash data) f else f)
             in cont (f\<lparr>stack := SetBytes (hash_bytes hash) # s\<rparr>)))
      | _ \<Rightarrow> Panic)"

definition opAddress :: "'d executionFunc" where
  "opAddress = push_op (\<lambda>f. Some (addr_256 (address (contract f))))"

definition opBalance :: "'d env \<Rightarrow> 'd executionFunc" where
  "opBalance E f = unop (\<lambda>slot. GetBalance (DB E) (f_db f) (Bytes20 slot)) f"

definition opOrigin :: "'d executionFunc" where
  "opOrigin = push_op (\<lambda>f. Some (addr_256 (Origin (evm f))))"

definition opCaller :: "'d executionFunc" where
  "opCaller = push_op (\<lambda>f. Some (addr_256 (caller (contract f))))"

definition opCallValue :: "'d executionFunc" where
  "opCallValue = push_op (\<lambda>f. Some (c_value (contract f)))"

definition opCallDataLoad :: "'d executionFunc" where
  "opCallDataLoad f =
     (case stack f of
        x # s \<Rightarrow>
          (let (offset, overflow) = Uint64WithOverflow x
           in if \<not> overflow then
                obind (of_option (getData (Input (contract f)) offset 32)) (\<lambda>data. cont (f\<lparr>stack := SetBytes data # s\<rparr>))
              else cont (f\<lparr>stack := 0 # s\<rparr>))
      | _ \<Rightarrow> Panic)"

definition opCallDataSize :: "'d executionFunc" where
  "opCallDataSize = push_op (\<lambda>f. Some (u64_256 (of_nat (length (Input (contract f))))))"

text \<open>The copies of call data and code: a source offset beyond 64 bits reads as the largest one.\<close>

definition copy_data :: "bytes \<Rightarrow> u256 \<Rightarrow> u256 \<Rightarrow> u256 \<Rightarrow> 'd executionFunc" where
  "copy_data data memOffset dataOffset len f =
     (let (off64, overflow) = Uint64WithOverflow dataOffset;
          off64 = (if overflow then MaxUint64 else off64)
      in obind (of_option (getData data off64 (Uint64 len))) (\<lambda>d.
         obind (of_option (mem_Set (Uint64 memOffset) (Uint64 len) d (memory f))) (\<lambda>m.
         cont (f\<lparr>memory := m\<rparr>))))"

definition opCallDataCopy :: "'d executionFunc" where
  "opCallDataCopy f =
     (case stack f of
        memOffset # dataOffset # len # s \<Rightarrow> copy_data (Input (contract f)) memOffset dataOffset len (f\<lparr>stack := s\<rparr>)
      | _ \<Rightarrow> Panic)"

definition opReturnDataSize :: "'d executionFunc" where
  "opReturnDataSize = push_op (\<lambda>f. Some (u64_256 (of_nat (length (returnData (evm f))))))"

definition opReturnDataCopy :: "'d env \<Rightarrow> 'd executionFunc" where
  "opReturnDataCopy E f =
     (case stack f of
        memOffset # dataOffset # len # s \<Rightarrow>
          (let f = f\<lparr>stack := s\<rparr>;
               ret = returnData (evm f);
               (offset64, overflow) = Uint64WithOverflow dataOffset
           in if overflow then stop_with ErrReturnDataOutOfBounds f
              else
                (let (end64, overflow) = Uint64WithOverflow (u_Add (U E) dataOffset len)
                 in if overflow \<or> of_nat (length ret) < end64 then stop_with ErrReturnDataOutOfBounds f
                    else if end64 < offset64 \<or> unat end64 > length ret then Panic
                    else
                      obind (of_option (mem_Set (Uint64 memOffset) (Uint64 len) (slice ret (unat offset64) (unat end64)) (memory f)))
                        (\<lambda>m. cont (f\<lparr>memory := m\<rparr>))))
      | _ \<Rightarrow> Panic)"

definition opExtCodeSize :: "'d env \<Rightarrow> 'd executionFunc" where
  "opExtCodeSize E f = unop (\<lambda>slot. u64_256 (of_nat (GetCodeSize (DB E) (f_db f) (Bytes20 slot)))) f"

definition opCodeSize :: "'d executionFunc" where
  "opCodeSize = push_op (\<lambda>f. Some (u64_256 (of_nat (length (Code (contract f))))))"

definition opCodeCopy :: "'d executionFunc" where
  "opCodeCopy f =
     (case stack f of
        memOffset # codeOffset # len # s \<Rightarrow> copy_data (Code (contract f)) memOffset codeOffset len (f\<lparr>stack := s\<rparr>)
      | _ \<Rightarrow> Panic)"

definition opExtCodeCopy :: "'d env \<Rightarrow> 'd executionFunc" where
  "opExtCodeCopy E f =
     (case stack f of
        a # memOffset # codeOffset # len # s \<Rightarrow>
          copy_data (GetCode (DB E) (f_db f) (Bytes20 a)) memOffset codeOffset len (f\<lparr>stack := s\<rparr>)
      | _ \<Rightarrow> Panic)"

definition opExtCodeHash :: "'d env \<Rightarrow> 'd executionFunc" where
  "opExtCodeHash E f = unop (\<lambda>slot.
     (let addr = Bytes20 slot
      in if Empty (DB E) (f_db f) addr then 0 else SetBytes (hash_bytes (GetCodeHash (DB E) (f_db f) addr)))) f"

definition opGasprice :: "'d executionFunc" where
  "opGasprice = push_op (\<lambda>f. Some (GasPrice (evm f)))"

definition opBlockhash :: "'d executionFunc" where
  "opBlockhash f = unop (\<lambda>num.
     (let (num64, overflow) = Uint64WithOverflow num
      in if overflow then 0
         else
           (let upper = (of_nat (BlockNumber (Context (evm f))) :: u64);
                lower = (if upper < 257 then 0 else upper - 256)
            in if num64 \<ge> lower \<and> num64 < upper then SetBytes (hash_bytes (GetHash (Context (evm f)) num64)) else 0))) f"

definition opCoinbase :: "'d executionFunc" where
  "opCoinbase = push_op (\<lambda>f. Some (addr_256 (Coinbase (Context (evm f)))))"

definition opTimestamp :: "'d executionFunc" where
  "opTimestamp = push_op (\<lambda>f. Some (u64_256 (Time (Context (evm f)))))"

definition opNumber :: "'d executionFunc" where
  "opNumber = push_op (\<lambda>f. Some (of_nat (BlockNumber (Context (evm f)))))"

definition opDifficulty :: "'d executionFunc" where
  "opDifficulty = push_op (\<lambda>f. map_option of_nat (Difficulty (Context (evm f))))"

definition opRandom :: "'d executionFunc" where
  "opRandom = push_op (\<lambda>f. map_option (\<lambda>h. SetBytes (hash_bytes h)) (Random (Context (evm f))))"

definition opGasLimit :: "'d executionFunc" where
  "opGasLimit = push_op (\<lambda>f. Some (u64_256 (GasLimit (Context (evm f)))))"

definition opSelfBalance :: "'d env \<Rightarrow> 'd executionFunc" where
  "opSelfBalance E = push_op (\<lambda>f. Some (GetBalance (DB E) (f_db f) (address (contract f))))"

definition opChainID :: "'d executionFunc" where
  "opChainID = push_op (\<lambda>f. map_option of_nat (ChainID (evm f)))"

definition opBaseFee :: "'d executionFunc" where
  "opBaseFee = push_op (\<lambda>f. map_option of_nat (BaseFee (Context (evm f))))"

definition opBlobHash :: "'d executionFunc" where
  "opBlobHash f = unop (\<lambda>index.
     if unat index < length (BlobHashes (evm f)) then BlobHashes (evm f) ! unat index else 0) f"

definition opBlobBaseFee :: "'d executionFunc" where
  "opBlobBaseFee = push_op (\<lambda>f. map_option of_nat (BlobBaseFee (Context (evm f))))"

definition opSlotNum :: "'d executionFunc" where
  "opSlotNum = push_op (\<lambda>f. Some (u64_256 (SlotNum (Context (evm f)))))"

section \<open>Stack, memory, storage and control flow\<close>

definition opPop :: "'d executionFunc" where
  "opPop f = (case stack f of x # s \<Rightarrow> cont (f\<lparr>stack := s\<rparr>) | _ \<Rightarrow> Panic)"

definition opMload :: "'d executionFunc" where
  "opMload f =
     (case stack f of
        v # s \<Rightarrow> obind (of_option (mem_GetPtr (Uint64 v) 32 (memory f))) (\<lambda>d. cont (f\<lparr>stack := SetBytes d # s\<rparr>))
      | _ \<Rightarrow> Panic)"

definition opMstore :: "'d executionFunc" where
  "opMstore f =
     (case stack f of
        mStart # val # s \<Rightarrow>
          obind (of_option (mem_Set32 (Uint64 mStart) val (memory f))) (\<lambda>m. cont (f\<lparr>stack := s, memory := m\<rparr>))
      | _ \<Rightarrow> Panic)"

definition opMstore8 :: "'d executionFunc" where
  "opMstore8 f =
     (case stack f of
        off # val # s \<Rightarrow>
          obind (of_option (mem_put (Uint64 off) (ucast val) (memory f))) (\<lambda>m. cont (f\<lparr>stack := s, memory := m\<rparr>))
      | _ \<Rightarrow> Panic)"

definition opSload :: "'d env \<Rightarrow> 'd executionFunc" where
  "opSload E f = unop (\<lambda>loc. SetBytes (hash_bytes (GetState (DB E) (f_db f) (address (contract f)) loc))) f"

definition opSstore :: "'d env \<Rightarrow> 'd executionFunc" where
  "opSstore E f =
     (if readOnly (evm f) then stop_with ErrWriteProtection f
      else
        (case stack f of
           loc # val # s \<Rightarrow> cont (set_db (SetState (DB E) (address (contract f)) loc val) (f\<lparr>stack := s\<rparr>))
         | _ \<Rightarrow> Panic))"

text \<open>The jump itself: the interpreter adds one to the counter afterwards.\<close>

definition jump_to :: "u256 \<Rightarrow> 'd executionFunc" where
  "jump_to pos f =
     obind (of_option (validJumpdest (contract f) (jumpDests (evm f)) pos)) (\<lambda>(valid, c, j).
       (let f = map_evm (jumpDests_update (\<lambda>_. j)) (f\<lparr>contract := c\<rparr>)
        in if \<not> valid then stop_with ErrInvalidJump f else cont (f\<lparr>pc := Uint64 pos - 1\<rparr>)))"

definition opJump :: "'d executionFunc" where
  "opJump f =
     (if abort (evm f) then stop_with errStopToken f
      else (case stack f of pos # s \<Rightarrow> jump_to pos (f\<lparr>stack := s\<rparr>) | _ \<Rightarrow> Panic))"

definition opJumpi :: "'d executionFunc" where
  "opJumpi f =
     (if abort (evm f) then stop_with errStopToken f
      else
        (case stack f of
           pos # cond # s \<Rightarrow> if cond \<noteq> 0 then jump_to pos (f\<lparr>stack := s\<rparr>) else cont (f\<lparr>stack := s\<rparr>)
         | _ \<Rightarrow> Panic))"

definition opJumpdest :: "'d executionFunc" where
  "opJumpdest f = cont f"

definition opPc :: "'d executionFunc" where
  "opPc = push_op (\<lambda>f. Some (u64_256 (pc f)))"

definition opMsize :: "'d executionFunc" where
  "opMsize = push_op (\<lambda>f. Some (u64_256 (mem_Len (memory f))))"

definition opGas :: "'d executionFunc" where
  "opGas = push_op (\<lambda>f. Some (u64_256 (f_Gas f)))"

text \<open>\<open>opSwap1\<close> to \<open>opSwap16\<close>.\<close>

definition opSwap :: "nat \<Rightarrow> 'd executionFunc" where
  "opSwap n f = obind (of_option (st_swap n (stack f))) (\<lambda>s. cont (f\<lparr>stack := s\<rparr>))"

definition makeDup :: "nat \<Rightarrow> 'd executionFunc" where
  "makeDup n f = obind (of_option (st_dup n (stack f))) (\<lambda>s. cont (f\<lparr>stack := s\<rparr>))"

definition opTload :: "'d env \<Rightarrow> 'd executionFunc" where
  "opTload E f = unop (\<lambda>loc. SetBytes (hash_bytes (GetTransientState (DB E) (f_db f) (address (contract f)) loc))) f"

definition opTstore :: "'d env \<Rightarrow> 'd executionFunc" where
  "opTstore E f =
     (if readOnly (evm f) then stop_with ErrWriteProtection f
      else
        (case stack f of
           loc # val # s \<Rightarrow> cont (set_db (SetTransientState (DB E) (address (contract f)) loc val) (f\<lparr>stack := s\<rparr>))
         | _ \<Rightarrow> Panic))"

definition opMcopy :: "'d executionFunc" where
  "opMcopy f =
     (case stack f of
        dst # src # len # s \<Rightarrow>
          obind (of_option (mem_Copy (Uint64 dst) (Uint64 src) (Uint64 len) (memory f))) (\<lambda>m. cont (f\<lparr>stack := s, memory := m\<rparr>))
      | _ \<Rightarrow> Panic)"

definition opPush0 :: "'d executionFunc" where
  "opPush0 = push_op (\<lambda>f. Some 0)"

definition opPush1 :: "'d executionFunc" where
  "opPush1 f =
     (let code = Code (contract f); p = pc f + 1
      in cont (f\<lparr>pc := p, stack := st_push (if p < of_nat (length code) then ucast (code ! unat p) else 0) (stack f)\<rparr>))"

definition opPush2 :: "'d env \<Rightarrow> 'd executionFunc" where
  "opPush2 E f =
     (let code = Code (contract f); codeLen = (of_nat (length code) :: u64); p = pc f
      in if p + 2 < codeLen \<and> \<not> (p + 1 \<le> p + 3 \<and> unat (p + 3) \<le> length code) then Panic
         else
           (let v = (if p + 2 < codeLen then SetBytes (slice code (unat (p + 1)) (unat (p + 3)))
                     else if p + 1 < codeLen then u64_256 (push_bit 8 (ucast (code ! unat (p + 1))))
                     else 0)
            in cont (f\<lparr>stack := st_push v (stack f), pc := p + 2\<rparr>)))"

text \<open>The bounds of the operand in the code, as signed integers.\<close>

definition push_bounds :: "nat \<Rightarrow> u64 \<Rightarrow> nat \<Rightarrow> int \<times> int" where
  "push_bounds codeLen p n =
     (let start = min (int codeLen) (sint (p + 1)) in (start, min (int codeLen) (start + int n)))"

definition makePush :: "'d env \<Rightarrow> u64 \<Rightarrow> nat \<Rightarrow> 'd executionFunc" where
  "makePush E sz pushByteSize f =
     (let code = Code (contract f);
          (start, end') = push_bounds (length code) (pc f) pushByteSize
      in if start < 0 \<or> end' < start then Panic
         else
           (let a = SetBytes (slice code (nat start) (nat end'));
                missing = int pushByteSize - (end' - start);
                a = (if missing > 0 then u_Lsh (U E) a (nat (8 * missing)) else a)
            in cont (f\<lparr>stack := st_push a (stack f), pc := pc f + sz\<rparr>)))"

section \<open>Logs and immediate operands\<close>

definition makeLog :: "'d env \<Rightarrow> nat \<Rightarrow> 'd executionFunc" where
  "makeLog E n f =
     (if readOnly (evm f) then stop_with ErrWriteProtection f
      else
        (case stack f of
           mStart # mSize # s \<Rightarrow>
             if length s < n then Panic
             else
               obind (of_option (mem_GetCopy (Uint64 mStart) (Uint64 mSize) (memory f))) (\<lambda>d.
                 cont (set_db (AddLog (DB E)
                         \<lparr>l_Address = address (contract f), l_Topics = take n s, l_Data = d,
                          l_BlockNumber = of_nat (BlockNumber (Context (evm f)))\<rparr>) (f\<lparr>stack := drop n s\<rparr>)))
         | _ \<Rightarrow> Panic))"

definition decodeSingle :: "byte \<Rightarrow> nat" where
  "decodeSingle x = (unat x + 145) mod 256"

definition decodePair :: "byte \<Rightarrow> nat \<times> int" where
  "decodePair x =
     (let k = unat (xor x 143); q = k div 16; r = k mod 16
      in if q < r then (q + 1, int r + 1) else (r + 1, 29 - int q))"

text \<open>The byte after the instruction; a missing one is zero.\<close>

definition immediate :: "'d frame \<Rightarrow> byte" where
  "immediate f = (let code = Code (contract f); i = pc f + 1 in if i < of_nat (length code) then code ! unat i else 0)"

definition opDupN :: "'d executionFunc" where
  "opDupN f =
     (let x = immediate f
      in if x > 90 \<and> x < 128 then stop_with (ErrInvalidOpCode x) f
         else
           (let n = decodeSingle x; len = st_len (stack f)
            in if len < n then stop_with (ErrStackUnderflow len n) f
               else if n = 0 then Panic
               else
                 obind (of_option (st_Back (stack f) (n - 1))) (\<lambda>v.
                   cont (f\<lparr>stack := st_push v (stack f), pc := pc f + 1\<rparr>))))"

definition opSwapN :: "'d executionFunc" where
  "opSwapN f =
     (let x = immediate f
      in if x > 90 \<and> x < 128 then stop_with (ErrInvalidOpCode x) f
         else
           (let n = decodeSingle x; len = st_len (stack f)
            in if len < n + 1 then stop_with (ErrStackUnderflow len (n + 1)) f
               else
                 (let st = stack f
                  in cont (f\<lparr>stack := st[0 := st ! n, n := st ! 0], pc := pc f + 1\<rparr>))))"

definition opExchange :: "'d executionFunc" where
  "opExchange f =
     (let x = immediate f
      in if x > 81 \<and> x < 128 then stop_with (ErrInvalidOpCode x) f
         else
           (let (n, m) = decodePair x; need = max (int n) m + 1; len = st_len (stack f)
            in if int len < need then stop_with (ErrStackUnderflow len (nat need)) f
               else if m < 0 then Panic
               else
                 (let st = stack f; m = nat m
                  in cont (f\<lparr>stack := st[n := st ! m, m := st ! n], pc := pc f + 1\<rparr>))))"

section \<open>Creating and calling contracts\<close>

abbreviation set_returnData :: "bytes \<Rightarrow> 'd frame \<Rightarrow> 'd frame" where
  "set_returnData r f \<equiv> map_evm (returnData_update (\<lambda>_. r)) f"

text \<open>After a creation: push the address or zero, give back the gas left, keep revert data.\<close>

definition finish_create :: "u256 \<Rightarrow> bytes \<Rightarrow> u64 \<Rightarrow> evm_error option \<Rightarrow> 'd executionFunc" where
  "finish_create stackvalue res returnGas suberr f =
     (let f = f\<lparr>stack := st_push stackvalue (stack f), contract := RefundGas returnGas (contract f)\<rparr>
      in if suberr = Some ErrExecutionReverted then Ret ((res, None), set_returnData res f)
         else cont (set_returnData [] f))"

definition opCreate :: "'d calls \<Rightarrow> 'd executionFunc" where
  "opCreate K f =
     (if readOnly (evm f) then stop_with ErrWriteProtection f
      else
        (case stack f of
           val # offset # sz # s \<Rightarrow>
             obind (of_option (mem_GetCopy (Uint64 offset) (Uint64 sz) (memory f))) (\<lambda>input.
               (let gas = f_Gas f;
                    gas = (if IsEIP150 (chainRules (evm f)) then gas - gas div 64 else gas);
                    (_, f) = frame_UseGas gas (f\<lparr>stack := s\<rparr>)
                in obind (do_Create K (evm f) (address (contract f)) input gas val) (\<lambda>((res, addr, returnGas, suberr), m).
                   (let f = f\<lparr>evm := m\<rparr>;
                        stackvalue =
                          (if IsHomestead (chainRules (evm f)) \<and> suberr = Some ErrCodeStoreOutOfGas then 0
                           else if suberr \<noteq> None \<and> suberr \<noteq> Some ErrCodeStoreOutOfGas then 0
                           else addr_256 addr)
                    in finish_create stackvalue res returnGas suberr f))))
         | _ \<Rightarrow> Panic))"

definition opCreate2 :: "'d calls \<Rightarrow> 'd executionFunc" where
  "opCreate2 K f =
     (if readOnly (evm f) then stop_with ErrWriteProtection f
      else
        (case stack f of
           endowment # offset # sz # salt # s \<Rightarrow>
             obind (of_option (mem_GetCopy (Uint64 offset) (Uint64 sz) (memory f))) (\<lambda>input.
               (let gas = f_Gas f;
                    gas = gas - gas div 64;
                    (_, f) = frame_UseGas gas (f\<lparr>stack := s\<rparr>)
                in obind (do_Create2 K (evm f) (address (contract f)) input gas endowment salt)
                     (\<lambda>((res, addr, returnGas, suberr), m).
                       finish_create (if suberr \<noteq> None then 0 else addr_256 addr) res returnGas suberr (f\<lparr>evm := m\<rparr>))))
         | _ \<Rightarrow> Panic))"

text \<open>
  After a call: push the success flag, copy the returned data on success or revert, give back the gas
  left, keep the returned data.
\<close>

definition finish_call ::
  "u256 \<Rightarrow> u256 \<Rightarrow> 'd frame \<Rightarrow> 'd call_result \<Rightarrow> ((bytes \<times> evm_error option) \<times> 'd frame) outcome" where
  "finish_call retOffset retSize f r =
     obind r (\<lambda>((ret, returnGas, err), m).
       (let temp = (if err \<noteq> None then 0 else 1);
            f = f\<lparr>evm := m, stack := st_push temp (stack f)\<rparr>
        in obind
             (if err = None \<or> err = Some ErrExecutionReverted
              then of_option (mem_Set (Uint64 retOffset) (Uint64 retSize) ret (memory f)) else Ret (memory f))
             (\<lambda>mem. Ret ((ret, None),
                set_returnData ret (f\<lparr>memory := mem, contract := RefundGas returnGas (contract f)\<rparr>)))))"

definition opCall :: "'d calls \<Rightarrow> 'd executionFunc" where
  "opCall K f =
     (case stack f of
        temp # addr # val # inOffset # inSize # retOffset # retSize # s \<Rightarrow>
          (let gas = callGasTemp (evm f); toAddr = Bytes20 addr
           in obind (of_option (mem_GetPtr (Uint64 inOffset) (Uint64 inSize) (memory f))) (\<lambda>args.
              if readOnly (evm f) \<and> val \<noteq> 0 then stop_with ErrWriteProtection (f\<lparr>stack := s\<rparr>)
              else
                (let gas = (if val \<noteq> 0 then gas + CallStipend else gas)
                 in finish_call retOffset retSize (f\<lparr>stack := s\<rparr>)
                      (do_Call K (evm f) (address (contract f)) toAddr args gas val))))
      | _ \<Rightarrow> Panic)"

definition opCallCode :: "'d calls \<Rightarrow> 'd executionFunc" where
  "opCallCode K f =
     (case stack f of
        temp # addr # val # inOffset # inSize # retOffset # retSize # s \<Rightarrow>
          (let gas = callGasTemp (evm f); toAddr = Bytes20 addr
           in obind (of_option (mem_GetPtr (Uint64 inOffset) (Uint64 inSize) (memory f))) (\<lambda>args.
                (let gas = (if val \<noteq> 0 then gas + CallStipend else gas)
                 in finish_call retOffset retSize (f\<lparr>stack := s\<rparr>)
                      (do_CallCode K (evm f) (address (contract f)) toAddr args gas val))))
      | _ \<Rightarrow> Panic)"

definition opDelegateCall :: "'d calls \<Rightarrow> 'd executionFunc" where
  "opDelegateCall K f =
     (case stack f of
        temp # addr # inOffset # inSize # retOffset # retSize # s \<Rightarrow>
          (let gas = callGasTemp (evm f); toAddr = Bytes20 addr
           in obind (of_option (mem_GetPtr (Uint64 inOffset) (Uint64 inSize) (memory f))) (\<lambda>args.
                finish_call retOffset retSize (f\<lparr>stack := s\<rparr>)
                  (do_DelegateCall K (evm f) (caller (contract f)) (address (contract f)) toAddr args gas (c_value (contract f)))))
      | _ \<Rightarrow> Panic)"

definition opStaticCall :: "'d calls \<Rightarrow> 'd executionFunc" where
  "opStaticCall K f =
     (case stack f of
        temp # addr # inOffset # inSize # retOffset # retSize # s \<Rightarrow>
          (let gas = callGasTemp (evm f); toAddr = Bytes20 addr
           in obind (of_option (mem_GetPtr (Uint64 inOffset) (Uint64 inSize) (memory f))) (\<lambda>args.
                finish_call retOffset retSize (f\<lparr>stack := s\<rparr>)
                  (do_StaticCall K (evm f) (address (contract f)) toAddr args gas)))
      | _ \<Rightarrow> Panic)"

section \<open>Halting\<close>

definition opReturn :: "'d executionFunc" where
  "opReturn f =
     (case stack f of
        offset # sz # s \<Rightarrow>
          obind (of_option (mem_GetCopy (Uint64 offset) (Uint64 sz) (memory f))) (\<lambda>ret.
            Ret ((ret, Some errStopToken), f\<lparr>stack := s\<rparr>))
      | _ \<Rightarrow> Panic)"

definition opRevert :: "'d executionFunc" where
  "opRevert f =
     (case stack f of
        offset # sz # s \<Rightarrow>
          obind (of_option (mem_GetCopy (Uint64 offset) (Uint64 sz) (memory f))) (\<lambda>ret.
            Ret ((ret, Some ErrExecutionReverted), set_returnData ret (f\<lparr>stack := s\<rparr>)))
      | _ \<Rightarrow> Panic)"

definition opUndefined :: "'d executionFunc" where
  "opUndefined f =
     (if unat (pc f) < length (Code (contract f)) then stop_with (ErrInvalidOpCode (Code (contract f) ! unat (pc f))) f else Panic)"

definition opStop :: "'d executionFunc" where
  "opStop f = stop_with errStopToken f"

definition opSelfdestruct :: "'d env \<Rightarrow> 'd executionFunc" where
  "opSelfdestruct E f =
     (if readOnly (evm f) then stop_with ErrWriteProtection f
      else
        (case stack f of
           top' # s \<Rightarrow>
             (let this = address (contract f);
                  balance = GetBalance (DB E) (f_db f) this;
                  beneficiary = Bytes20 top';
                  f = f\<lparr>stack := s\<rparr>;
                  f = (if this \<noteq> beneficiary then set_db (AddBalance (DB E) beneficiary balance) f else f);
                  f = set_db (SubBalance (DB E) this balance) f;
                  f = set_db (SelfDestruct (DB E) this) f
              in stop_with errStopToken f)
         | _ \<Rightarrow> Panic))"

definition opSelfdestruct6780 :: "'d env \<Rightarrow> 'd executionFunc" where
  "opSelfdestruct6780 E f =
     (if readOnly (evm f) then stop_with ErrWriteProtection f
      else
        (case stack f of
           top' # s \<Rightarrow>
             (let this = address (contract f);
                  balance = GetBalance (DB E) (f_db f) this;
                  beneficiary = Bytes20 top';
                  newContract = IsNewContract (DB E) (f_db f) this;
                  f = f\<lparr>stack := s\<rparr>;
                  f = (if newContract then
                         (let f = (if this \<noteq> beneficiary then set_db (AddBalance (DB E) beneficiary balance) f else f);
                              f = set_db (SubBalance (DB E) this balance) f
                          in set_db (SelfDestruct (DB E) this) f)
                       else f);
                  f = (if \<not> newContract \<and> this \<noteq> beneficiary then
                         (let f = set_db (SubBalance (DB E) this balance) f
                          in set_db (AddBalance (DB E) beneficiary balance) f)
                       else f)
              in stop_with errStopToken f)
         | _ \<Rightarrow> Panic))"

section \<open>Instructions that charge for code chunks (EIP-4762)\<close>

text \<open>Charge for the chunks of a code range; \<open>used\<close> selects what \<open>UseGas\<close> is asked to take.\<close>

definition charge_chunks ::
  "(u64 \<times> u64 \<Rightarrow> u64) \<Rightarrow> Address \<Rightarrow> u64 \<Rightarrow> u64 \<Rightarrow> u64 \<Rightarrow> 'd frame \<Rightarrow> (bool \<times> 'd frame) outcome" where
  "charge_chunks used addr start len codeLen f =
     obind (of_option (CodeChunksRangeGas addr start len codeLen False (f_Gas f) (accessEvents (evm f)))) (\<lambda>(charge, ae).
       (let (_, f) = frame_UseGas (used charge) (set_ae ae f) in Ret (fst charge < snd charge, f)))"

definition opExtCodeCopyEIP4762 :: "'d env \<Rightarrow> 'd executionFunc" where
  "opExtCodeCopyEIP4762 E f =
     (case stack f of
        a # memOffset # codeOffset # len # s \<Rightarrow>
          (let (off64, overflow) = Uint64WithOverflow codeOffset;
               off64 = (if overflow then MaxUint64 else off64);
               addr = Bytes20 a;
               code = GetCode (DB E) (f_db f) addr;
               f = f\<lparr>stack := s\<rparr>
           in obind (of_option (getDataAndAdjustedBounds code off64 (Uint64 len))) (\<lambda>(paddedCodeCopy, copyOffset, nonPaddedCopyLength).
              obind (charge_chunks fst addr copyOffset nonPaddedCopyLength (of_nat (length code)) f) (\<lambda>(short, f).
                if short then stop_with evm_error.ErrOutOfGas f
                else
                  obind (of_option (mem_Set (Uint64 memOffset) (Uint64 len) paddedCodeCopy (memory f))) (\<lambda>m.
                    cont (f\<lparr>memory := m\<rparr>)))))
      | _ \<Rightarrow> Panic)"

definition opPush1EIP4762 :: "'d executionFunc" where
  "opPush1EIP4762 f =
     (let code = Code (contract f); codeLen = of_nat (length code); p = pc f + 1
      in if p < codeLen then
           (let f = f\<lparr>pc := p, stack := st_push (ucast (code ! unat p)) (stack f)\<rparr>
            in if \<not> IsDeployment (contract f) \<and> \<not> IsSystemCall (contract f) \<and> p mod 31 = 0 then
                 obind (charge_chunks snd (address (contract f)) (p + 1) 1 codeLen f) (\<lambda>(short, f).
                   if short then stop_with evm_error.ErrOutOfGas f else cont f)
               else cont f)
         else cont (f\<lparr>pc := p, stack := st_push 0 (stack f)\<rparr>))"

definition makePushEIP4762 :: "u64 \<Rightarrow> nat \<Rightarrow> 'd executionFunc" where
  "makePushEIP4762 sz pushByteSize f =
     (let code = Code (contract f);
          (start, end') = push_bounds (length code) (pc f) pushByteSize
      in if start < 0 \<or> end' < start then Panic
         else
           (let f = f\<lparr>stack := st_push (SetBytes (RightPadBytes (slice code (nat start) (nat end')) pushByteSize)) (stack f)\<rparr>
            in if \<not> IsDeployment (contract f) \<and> \<not> IsSystemCall (contract f) then
                 obind (charge_chunks fst (address (contract f)) (of_int start) (of_nat pushByteSize) (of_nat (length code)) f) (\<lambda>(short, f).
                   if short then stop_with evm_error.ErrOutOfGas f else cont (f\<lparr>pc := pc f + sz\<rparr>))
               else cont (f\<lparr>pc := pc f + sz\<rparr>)))"

end
