(* ===== verification/Evm_Tables.thy ===== *)
theory Evm_Tables
  imports Evm_Ops
begin

text \<open>
  The jump tables of every fork (\<^verbatim>\<open>src/go-ethereum/core/vm/jump_table.go\<close>, \<^verbatim>\<open>eips.go\<close>, \<^verbatim>\<open>opcodes.go\<close>): for each
  opcode the instruction, its prices, the stack heights it accepts and the memory it needs. A table is a
  function of the opcode. Each fork updates the table of an earlier one; the tables are built afresh in the
  code too, so an update changes only the table at hand.
\<close>

section \<open>Opcodes\<close>

abbreviation (input) ADD :: byte where "ADD \<equiv> 0x01"
abbreviation (input) MUL :: byte where "MUL \<equiv> 0x02"
abbreviation (input) SUB :: byte where "SUB \<equiv> 0x03"
abbreviation (input) DIV :: byte where "DIV \<equiv> 0x04"
abbreviation (input) SDIV :: byte where "SDIV \<equiv> 0x05"
abbreviation (input) MOD :: byte where "MOD \<equiv> 0x06"
abbreviation (input) SMOD :: byte where "SMOD \<equiv> 0x07"
abbreviation (input) ADDMOD :: byte where "ADDMOD \<equiv> 0x08"
abbreviation (input) MULMOD :: byte where "MULMOD \<equiv> 0x09"
abbreviation (input) EXP :: byte where "EXP \<equiv> 0x0a"
abbreviation (input) SIGNEXTEND :: byte where "SIGNEXTEND \<equiv> 0x0b"
abbreviation (input) LT :: byte where "LT \<equiv> 0x10"
abbreviation (input) GT :: byte where "GT \<equiv> 0x11"
abbreviation (input) SLT :: byte where "SLT \<equiv> 0x12"
abbreviation (input) SGT :: byte where "SGT \<equiv> 0x13"
abbreviation (input) EQ :: byte where "EQ \<equiv> 0x14"
abbreviation (input) ISZERO :: byte where "ISZERO \<equiv> 0x15"
abbreviation (input) AND_OP :: byte where "AND_OP \<equiv> 0x16"
abbreviation (input) OR_OP :: byte where "OR_OP \<equiv> 0x17"
abbreviation (input) XOR_OP :: byte where "XOR_OP \<equiv> 0x18"
abbreviation (input) NOT_OP :: byte where "NOT_OP \<equiv> 0x19"
abbreviation (input) BYTE :: byte where "BYTE \<equiv> 0x1a"
abbreviation (input) SHL :: byte where "SHL \<equiv> 0x1b"
abbreviation (input) SHR :: byte where "SHR \<equiv> 0x1c"
abbreviation (input) SAR :: byte where "SAR \<equiv> 0x1d"
abbreviation (input) CLZ :: byte where "CLZ \<equiv> 0x1e"
abbreviation (input) KECCAK256 :: byte where "KECCAK256 \<equiv> 0x20"
abbreviation (input) ADDRESS :: byte where "ADDRESS \<equiv> 0x30"
abbreviation (input) BALANCE :: byte where "BALANCE \<equiv> 0x31"
abbreviation (input) ORIGIN :: byte where "ORIGIN \<equiv> 0x32"
abbreviation (input) CALLER :: byte where "CALLER \<equiv> 0x33"
abbreviation (input) CALLVALUE :: byte where "CALLVALUE \<equiv> 0x34"
abbreviation (input) CALLDATALOAD :: byte where "CALLDATALOAD \<equiv> 0x35"
abbreviation (input) CALLDATASIZE :: byte where "CALLDATASIZE \<equiv> 0x36"
abbreviation (input) CALLDATACOPY :: byte where "CALLDATACOPY \<equiv> 0x37"
abbreviation (input) CODESIZE :: byte where "CODESIZE \<equiv> 0x38"
abbreviation (input) CODECOPY :: byte where "CODECOPY \<equiv> 0x39"
abbreviation (input) GASPRICE :: byte where "GASPRICE \<equiv> 0x3a"
abbreviation (input) EXTCODESIZE :: byte where "EXTCODESIZE \<equiv> 0x3b"
abbreviation (input) EXTCODECOPY :: byte where "EXTCODECOPY \<equiv> 0x3c"
abbreviation (input) RETURNDATASIZE :: byte where "RETURNDATASIZE \<equiv> 0x3d"
abbreviation (input) RETURNDATACOPY :: byte where "RETURNDATACOPY \<equiv> 0x3e"
abbreviation (input) EXTCODEHASH :: byte where "EXTCODEHASH \<equiv> 0x3f"
abbreviation (input) BLOCKHASH :: byte where "BLOCKHASH \<equiv> 0x40"
abbreviation (input) COINBASE :: byte where "COINBASE \<equiv> 0x41"
abbreviation (input) TIMESTAMP :: byte where "TIMESTAMP \<equiv> 0x42"
abbreviation (input) NUMBER :: byte where "NUMBER \<equiv> 0x43"
abbreviation (input) DIFFICULTY :: byte where "DIFFICULTY \<equiv> 0x44"
abbreviation (input) PREVRANDAO :: byte where "PREVRANDAO \<equiv> 0x44"
abbreviation (input) GASLIMIT :: byte where "GASLIMIT \<equiv> 0x45"
abbreviation (input) CHAINID :: byte where "CHAINID \<equiv> 0x46"
abbreviation (input) SELFBALANCE :: byte where "SELFBALANCE \<equiv> 0x47"
abbreviation (input) BASEFEE :: byte where "BASEFEE \<equiv> 0x48"
abbreviation (input) BLOBHASH :: byte where "BLOBHASH \<equiv> 0x49"
abbreviation (input) BLOBBASEFEE :: byte where "BLOBBASEFEE \<equiv> 0x4a"
abbreviation (input) SLOTNUM :: byte where "SLOTNUM \<equiv> 0x4b"
abbreviation (input) POP :: byte where "POP \<equiv> 0x50"
abbreviation (input) MLOAD :: byte where "MLOAD \<equiv> 0x51"
abbreviation (input) MSTORE :: byte where "MSTORE \<equiv> 0x52"
abbreviation (input) MSTORE8 :: byte where "MSTORE8 \<equiv> 0x53"
abbreviation (input) SLOAD :: byte where "SLOAD \<equiv> 0x54"
abbreviation (input) SSTORE :: byte where "SSTORE \<equiv> 0x55"
abbreviation (input) JUMP :: byte where "JUMP \<equiv> 0x56"
abbreviation (input) JUMPI :: byte where "JUMPI \<equiv> 0x57"
abbreviation (input) PC :: byte where "PC \<equiv> 0x58"
abbreviation (input) MSIZE :: byte where "MSIZE \<equiv> 0x59"
abbreviation (input) GAS :: byte where "GAS \<equiv> 0x5a"
abbreviation (input) TLOAD :: byte where "TLOAD \<equiv> 0x5c"
abbreviation (input) TSTORE :: byte where "TSTORE \<equiv> 0x5d"
abbreviation (input) MCOPY :: byte where "MCOPY \<equiv> 0x5e"
abbreviation (input) PUSH0 :: byte where "PUSH0 \<equiv> 0x5f"
abbreviation (input) PUSH2 :: byte where "PUSH2 \<equiv> 0x61"
abbreviation (input) PUSH3 :: byte where "PUSH3 \<equiv> 0x62"
abbreviation (input) PUSH4 :: byte where "PUSH4 \<equiv> 0x63"
abbreviation (input) PUSH5 :: byte where "PUSH5 \<equiv> 0x64"
abbreviation (input) PUSH6 :: byte where "PUSH6 \<equiv> 0x65"
abbreviation (input) PUSH7 :: byte where "PUSH7 \<equiv> 0x66"
abbreviation (input) PUSH8 :: byte where "PUSH8 \<equiv> 0x67"
abbreviation (input) PUSH9 :: byte where "PUSH9 \<equiv> 0x68"
abbreviation (input) PUSH10 :: byte where "PUSH10 \<equiv> 0x69"
abbreviation (input) PUSH11 :: byte where "PUSH11 \<equiv> 0x6a"
abbreviation (input) PUSH12 :: byte where "PUSH12 \<equiv> 0x6b"
abbreviation (input) PUSH13 :: byte where "PUSH13 \<equiv> 0x6c"
abbreviation (input) PUSH14 :: byte where "PUSH14 \<equiv> 0x6d"
abbreviation (input) PUSH15 :: byte where "PUSH15 \<equiv> 0x6e"
abbreviation (input) PUSH16 :: byte where "PUSH16 \<equiv> 0x6f"
abbreviation (input) PUSH17 :: byte where "PUSH17 \<equiv> 0x70"
abbreviation (input) PUSH18 :: byte where "PUSH18 \<equiv> 0x71"
abbreviation (input) PUSH19 :: byte where "PUSH19 \<equiv> 0x72"
abbreviation (input) PUSH20 :: byte where "PUSH20 \<equiv> 0x73"
abbreviation (input) PUSH21 :: byte where "PUSH21 \<equiv> 0x74"
abbreviation (input) PUSH22 :: byte where "PUSH22 \<equiv> 0x75"
abbreviation (input) PUSH23 :: byte where "PUSH23 \<equiv> 0x76"
abbreviation (input) PUSH24 :: byte where "PUSH24 \<equiv> 0x77"
abbreviation (input) PUSH25 :: byte where "PUSH25 \<equiv> 0x78"
abbreviation (input) PUSH26 :: byte where "PUSH26 \<equiv> 0x79"
abbreviation (input) PUSH27 :: byte where "PUSH27 \<equiv> 0x7a"
abbreviation (input) PUSH28 :: byte where "PUSH28 \<equiv> 0x7b"
abbreviation (input) PUSH29 :: byte where "PUSH29 \<equiv> 0x7c"
abbreviation (input) PUSH30 :: byte where "PUSH30 \<equiv> 0x7d"
abbreviation (input) PUSH31 :: byte where "PUSH31 \<equiv> 0x7e"
abbreviation (input) PUSH32 :: byte where "PUSH32 \<equiv> 0x7f"
abbreviation (input) DUP1 :: byte where "DUP1 \<equiv> 0x80"
abbreviation (input) DUP2 :: byte where "DUP2 \<equiv> 0x81"
abbreviation (input) DUP3 :: byte where "DUP3 \<equiv> 0x82"
abbreviation (input) DUP4 :: byte where "DUP4 \<equiv> 0x83"
abbreviation (input) DUP5 :: byte where "DUP5 \<equiv> 0x84"
abbreviation (input) DUP6 :: byte where "DUP6 \<equiv> 0x85"
abbreviation (input) DUP7 :: byte where "DUP7 \<equiv> 0x86"
abbreviation (input) DUP8 :: byte where "DUP8 \<equiv> 0x87"
abbreviation (input) DUP9 :: byte where "DUP9 \<equiv> 0x88"
abbreviation (input) DUP10 :: byte where "DUP10 \<equiv> 0x89"
abbreviation (input) DUP11 :: byte where "DUP11 \<equiv> 0x8a"
abbreviation (input) DUP12 :: byte where "DUP12 \<equiv> 0x8b"
abbreviation (input) DUP13 :: byte where "DUP13 \<equiv> 0x8c"
abbreviation (input) DUP14 :: byte where "DUP14 \<equiv> 0x8d"
abbreviation (input) DUP15 :: byte where "DUP15 \<equiv> 0x8e"
abbreviation (input) DUP16 :: byte where "DUP16 \<equiv> 0x8f"
abbreviation (input) SWAP1 :: byte where "SWAP1 \<equiv> 0x90"
abbreviation (input) SWAP2 :: byte where "SWAP2 \<equiv> 0x91"
abbreviation (input) SWAP3 :: byte where "SWAP3 \<equiv> 0x92"
abbreviation (input) SWAP4 :: byte where "SWAP4 \<equiv> 0x93"
abbreviation (input) SWAP5 :: byte where "SWAP5 \<equiv> 0x94"
abbreviation (input) SWAP6 :: byte where "SWAP6 \<equiv> 0x95"
abbreviation (input) SWAP7 :: byte where "SWAP7 \<equiv> 0x96"
abbreviation (input) SWAP8 :: byte where "SWAP8 \<equiv> 0x97"
abbreviation (input) SWAP9 :: byte where "SWAP9 \<equiv> 0x98"
abbreviation (input) SWAP10 :: byte where "SWAP10 \<equiv> 0x99"
abbreviation (input) SWAP11 :: byte where "SWAP11 \<equiv> 0x9a"
abbreviation (input) SWAP12 :: byte where "SWAP12 \<equiv> 0x9b"
abbreviation (input) SWAP13 :: byte where "SWAP13 \<equiv> 0x9c"
abbreviation (input) SWAP14 :: byte where "SWAP14 \<equiv> 0x9d"
abbreviation (input) SWAP15 :: byte where "SWAP15 \<equiv> 0x9e"
abbreviation (input) SWAP16 :: byte where "SWAP16 \<equiv> 0x9f"
abbreviation (input) LOG0 :: byte where "LOG0 \<equiv> 0xa0"
abbreviation (input) LOG1 :: byte where "LOG1 \<equiv> 0xa1"
abbreviation (input) LOG2 :: byte where "LOG2 \<equiv> 0xa2"
abbreviation (input) LOG3 :: byte where "LOG3 \<equiv> 0xa3"
abbreviation (input) LOG4 :: byte where "LOG4 \<equiv> 0xa4"
abbreviation (input) DUPN :: byte where "DUPN \<equiv> 0xe6"
abbreviation (input) SWAPN :: byte where "SWAPN \<equiv> 0xe7"
abbreviation (input) EXCHANGE :: byte where "EXCHANGE \<equiv> 0xe8"
abbreviation (input) CREATE :: byte where "CREATE \<equiv> 0xf0"
abbreviation (input) CALL :: byte where "CALL \<equiv> 0xf1"
abbreviation (input) CALLCODE :: byte where "CALLCODE \<equiv> 0xf2"
abbreviation (input) RETURN :: byte where "RETURN \<equiv> 0xf3"
abbreviation (input) DELEGATECALL :: byte where "DELEGATECALL \<equiv> 0xf4"
abbreviation (input) CREATE2 :: byte where "CREATE2 \<equiv> 0xf5"
abbreviation (input) STATICCALL :: byte where "STATICCALL \<equiv> 0xfa"
abbreviation (input) REVERT :: byte where "REVERT \<equiv> 0xfd"
abbreviation (input) INVALID :: byte where "INVALID \<equiv> 0xfe"
abbreviation (input) SELFDESTRUCT :: byte where "SELFDESTRUCT \<equiv> 0xff"

section \<open>Operations and tables\<close>

record 'd operation =
  execute :: "'d executionFunc"
  constantGas :: u64
  dynamicGas :: "'d gasFunc option"
  op_minStack :: nat
  op_maxStack :: nat
  memorySize :: "memorySizeFunc option"
  op_undefined :: bool

type_synonym 'd JumpTable = "byte \<Rightarrow> 'd operation"

text \<open>The operation with the given fields; the code leaves the others at their zero value.\<close>

definition op_of :: "'d executionFunc \<Rightarrow> u64 \<Rightarrow> 'd gasFunc option \<Rightarrow> nat \<Rightarrow> nat \<Rightarrow> memorySizeFunc option \<Rightarrow> 'd operation" where
  "op_of ex cg dg mn mx ms =
     \<lparr>execute = ex, constantGas = cg, dynamicGas = dg, op_minStack = mn, op_maxStack = mx, memorySize = ms,
      op_undefined = False\<rparr>"

definition undefined_operation :: "'d operation" where
  "undefined_operation =
     \<lparr>execute = opUndefined, constantGas = 0, dynamicGas = None, op_minStack = 0, op_maxStack = maxStack 0 0,
      memorySize = None, op_undefined = True\<rparr>"

text \<open>\<open>validate\<close> panics unless this holds.\<close>

definition validate :: "'d JumpTable \<Rightarrow> bool" where
  "validate jt \<longleftrightarrow> (\<forall>b. memorySize (jt b) \<noteq> None \<longrightarrow> dynamicGas (jt b) \<noteq> None)"

section \<open>Frontier\<close>

definition frontier_arithmetic :: "'d env \<Rightarrow> (byte \<times> 'd operation) list" where
  "frontier_arithmetic E =
    [(STOP, op_of opStop 0 None (minStack 0 0) (maxStack 0 0) None),
     (ADD, op_of (opAdd E) GasFastestStep None (minStack 2 1) (maxStack 2 1) None),
     (MUL, op_of (opMul E) GasFastStep None (minStack 2 1) (maxStack 2 1) None),
     (SUB, op_of (opSub E) GasFastestStep None (minStack 2 1) (maxStack 2 1) None),
     (DIV, op_of (opDiv E) GasFastStep None (minStack 2 1) (maxStack 2 1) None),
     (SDIV, op_of (opSdiv E) GasFastStep None (minStack 2 1) (maxStack 2 1) None),
     (MOD, op_of (opMod E) GasFastStep None (minStack 2 1) (maxStack 2 1) None),
     (SMOD, op_of (opSmod E) GasFastStep None (minStack 2 1) (maxStack 2 1) None),
     (ADDMOD, op_of (opAddmod E) GasMidStep None (minStack 3 1) (maxStack 3 1) None),
     (MULMOD, op_of (opMulmod E) GasMidStep None (minStack 3 1) (maxStack 3 1) None),
     (EXP, op_of (opExp E) 0 (Some gasExpFrontier) (minStack 2 1) (maxStack 2 1) None),
     (SIGNEXTEND, op_of (opSignExtend E) GasFastStep None (minStack 2 1) (maxStack 2 1) None),
     (LT, op_of opLt GasFastestStep None (minStack 2 1) (maxStack 2 1) None),
     (GT, op_of opGt GasFastestStep None (minStack 2 1) (maxStack 2 1) None),
     (SLT, op_of (opSlt E) GasFastestStep None (minStack 2 1) (maxStack 2 1) None),
     (SGT, op_of (opSgt E) GasFastestStep None (minStack 2 1) (maxStack 2 1) None),
     (EQ, op_of opEq GasFastestStep None (minStack 2 1) (maxStack 2 1) None),
     (ISZERO, op_of opIszero GasFastestStep None (minStack 1 1) (maxStack 1 1) None),
     (AND_OP, op_of (opAnd E) GasFastestStep None (minStack 2 1) (maxStack 2 1) None),
     (XOR_OP, op_of (opXor E) GasFastestStep None (minStack 2 1) (maxStack 2 1) None),
     (OR_OP, op_of (opOr E) GasFastestStep None (minStack 2 1) (maxStack 2 1) None),
     (NOT_OP, op_of (opNot E) GasFastestStep None (minStack 1 1) (maxStack 1 1) None),
     (BYTE, op_of (opByte E) GasFastestStep None (minStack 2 1) (maxStack 2 1) None)]"

definition frontier_environment :: "'d env \<Rightarrow> (byte \<times> 'd operation) list" where
  "frontier_environment E =
    [(KECCAK256, op_of (opKeccak256 E) Keccak256Gas (Some gasKeccak256) (minStack 2 1) (maxStack 2 1) (Some memoryKeccak256)),
     (ADDRESS, op_of opAddress GasQuickStep None (minStack 0 1) (maxStack 0 1) None),
     (BALANCE, op_of (opBalance E) BalanceGasFrontier None (minStack 1 1) (maxStack 1 1) None),
     (ORIGIN, op_of opOrigin GasQuickStep None (minStack 0 1) (maxStack 0 1) None),
     (CALLER, op_of opCaller GasQuickStep None (minStack 0 1) (maxStack 0 1) None),
     (CALLVALUE, op_of opCallValue GasQuickStep None (minStack 0 1) (maxStack 0 1) None),
     (CALLDATALOAD, op_of opCallDataLoad GasFastestStep None (minStack 1 1) (maxStack 1 1) None),
     (CALLDATASIZE, op_of opCallDataSize GasQuickStep None (minStack 0 1) (maxStack 0 1) None),
     (CALLDATACOPY, op_of opCallDataCopy GasFastestStep (Some gasCallDataCopy) (minStack 3 0) (maxStack 3 0) (Some memoryCallDataCopy)),
     (CODESIZE, op_of opCodeSize GasQuickStep None (minStack 0 1) (maxStack 0 1) None),
     (CODECOPY, op_of opCodeCopy GasFastestStep (Some gasCodeCopy) (minStack 3 0) (maxStack 3 0) (Some memoryCodeCopy)),
     (GASPRICE, op_of opGasprice GasQuickStep None (minStack 0 1) (maxStack 0 1) None),
     (EXTCODESIZE, op_of (opExtCodeSize E) ExtcodeSizeGasFrontier None (minStack 1 1) (maxStack 1 1) None),
     (EXTCODECOPY, op_of (opExtCodeCopy E) ExtcodeCopyBaseFrontier (Some gasExtCodeCopy) (minStack 4 0) (maxStack 4 0) (Some memoryExtCodeCopy)),
     (BLOCKHASH, op_of opBlockhash GasExtStep None (minStack 1 1) (maxStack 1 1) None)]"

definition frontier_block_memory :: "'d env \<Rightarrow> (byte \<times> 'd operation) list" where
  "frontier_block_memory E =
    [(COINBASE, op_of opCoinbase GasQuickStep None (minStack 0 1) (maxStack 0 1) None),
     (TIMESTAMP, op_of opTimestamp GasQuickStep None (minStack 0 1) (maxStack 0 1) None),
     (NUMBER, op_of opNumber GasQuickStep None (minStack 0 1) (maxStack 0 1) None),
     (DIFFICULTY, op_of opDifficulty GasQuickStep None (minStack 0 1) (maxStack 0 1) None),
     (GASLIMIT, op_of opGasLimit GasQuickStep None (minStack 0 1) (maxStack 0 1) None),
     (POP, op_of opPop GasQuickStep None (minStack 1 0) (maxStack 1 0) None),
     (MLOAD, op_of opMload GasFastestStep (Some gasMLoad) (minStack 1 1) (maxStack 1 1) (Some memoryMLoad)),
     (MSTORE, op_of opMstore GasFastestStep (Some gasMStore) (minStack 2 0) (maxStack 2 0) (Some memoryMStore)),
     (MSTORE8, op_of opMstore8 GasFastestStep (Some gasMStore8) (minStack 2 0) (maxStack 2 0) (Some memoryMStore8)),
     (SLOAD, op_of (opSload E) SloadGasFrontier None (minStack 1 1) (maxStack 1 1) None),
     (SSTORE, op_of (opSstore E) 0 (Some (gasSStore E)) (minStack 2 0) (maxStack 2 0) None),
     (JUMP, op_of opJump GasMidStep None (minStack 1 0) (maxStack 1 0) None),
     (JUMPI, op_of opJumpi GasSlowStep None (minStack 2 0) (maxStack 2 0) None),
     (PC, op_of opPc GasQuickStep None (minStack 0 1) (maxStack 0 1) None),
     (MSIZE, op_of opMsize GasQuickStep None (minStack 0 1) (maxStack 0 1) None),
     (GAS, op_of opGas GasQuickStep None (minStack 0 1) (maxStack 0 1) None),
     (JUMPDEST, op_of opJumpdest JumpdestGas None (minStack 0 0) (maxStack 0 0) None)]"

definition frontier_push_low :: "'d env \<Rightarrow> (byte \<times> 'd operation) list" where
  "frontier_push_low E =
    [(PUSH1, op_of opPush1 GasFastestStep None (minStack 0 1) (maxStack 0 1) None),
     (PUSH2, op_of (opPush2 E) GasFastestStep None (minStack 0 1) (maxStack 0 1) None),
     (PUSH3, op_of (makePush E 3 3) GasFastestStep None (minStack 0 1) (maxStack 0 1) None),
     (PUSH4, op_of (makePush E 4 4) GasFastestStep None (minStack 0 1) (maxStack 0 1) None),
     (PUSH5, op_of (makePush E 5 5) GasFastestStep None (minStack 0 1) (maxStack 0 1) None),
     (PUSH6, op_of (makePush E 6 6) GasFastestStep None (minStack 0 1) (maxStack 0 1) None),
     (PUSH7, op_of (makePush E 7 7) GasFastestStep None (minStack 0 1) (maxStack 0 1) None),
     (PUSH8, op_of (makePush E 8 8) GasFastestStep None (minStack 0 1) (maxStack 0 1) None),
     (PUSH9, op_of (makePush E 9 9) GasFastestStep None (minStack 0 1) (maxStack 0 1) None),
     (PUSH10, op_of (makePush E 10 10) GasFastestStep None (minStack 0 1) (maxStack 0 1) None),
     (PUSH11, op_of (makePush E 11 11) GasFastestStep None (minStack 0 1) (maxStack 0 1) None),
     (PUSH12, op_of (makePush E 12 12) GasFastestStep None (minStack 0 1) (maxStack 0 1) None),
     (PUSH13, op_of (makePush E 13 13) GasFastestStep None (minStack 0 1) (maxStack 0 1) None),
     (PUSH14, op_of (makePush E 14 14) GasFastestStep None (minStack 0 1) (maxStack 0 1) None),
     (PUSH15, op_of (makePush E 15 15) GasFastestStep None (minStack 0 1) (maxStack 0 1) None),
     (PUSH16, op_of (makePush E 16 16) GasFastestStep None (minStack 0 1) (maxStack 0 1) None)]"

definition frontier_push_high :: "'d env \<Rightarrow> (byte \<times> 'd operation) list" where
  "frontier_push_high E =
    [(PUSH17, op_of (makePush E 17 17) GasFastestStep None (minStack 0 1) (maxStack 0 1) None),
     (PUSH18, op_of (makePush E 18 18) GasFastestStep None (minStack 0 1) (maxStack 0 1) None),
     (PUSH19, op_of (makePush E 19 19) GasFastestStep None (minStack 0 1) (maxStack 0 1) None),
     (PUSH20, op_of (makePush E 20 20) GasFastestStep None (minStack 0 1) (maxStack 0 1) None),
     (PUSH21, op_of (makePush E 21 21) GasFastestStep None (minStack 0 1) (maxStack 0 1) None),
     (PUSH22, op_of (makePush E 22 22) GasFastestStep None (minStack 0 1) (maxStack 0 1) None),
     (PUSH23, op_of (makePush E 23 23) GasFastestStep None (minStack 0 1) (maxStack 0 1) None),
     (PUSH24, op_of (makePush E 24 24) GasFastestStep None (minStack 0 1) (maxStack 0 1) None),
     (PUSH25, op_of (makePush E 25 25) GasFastestStep None (minStack 0 1) (maxStack 0 1) None),
     (PUSH26, op_of (makePush E 26 26) GasFastestStep None (minStack 0 1) (maxStack 0 1) None),
     (PUSH27, op_of (makePush E 27 27) GasFastestStep None (minStack 0 1) (maxStack 0 1) None),
     (PUSH28, op_of (makePush E 28 28) GasFastestStep None (minStack 0 1) (maxStack 0 1) None),
     (PUSH29, op_of (makePush E 29 29) GasFastestStep None (minStack 0 1) (maxStack 0 1) None),
     (PUSH30, op_of (makePush E 30 30) GasFastestStep None (minStack 0 1) (maxStack 0 1) None),
     (PUSH31, op_of (makePush E 31 31) GasFastestStep None (minStack 0 1) (maxStack 0 1) None),
     (PUSH32, op_of (makePush E 32 32) GasFastestStep None (minStack 0 1) (maxStack 0 1) None)]"

definition frontier_dup :: "(byte \<times> 'd operation) list" where
  "frontier_dup =
    [(DUP1, op_of (makeDup 1) GasFastestStep None (minDupStack 1) (maxDupStack 1) None),
     (DUP2, op_of (makeDup 2) GasFastestStep None (minDupStack 2) (maxDupStack 2) None),
     (DUP3, op_of (makeDup 3) GasFastestStep None (minDupStack 3) (maxDupStack 3) None),
     (DUP4, op_of (makeDup 4) GasFastestStep None (minDupStack 4) (maxDupStack 4) None),
     (DUP5, op_of (makeDup 5) GasFastestStep None (minDupStack 5) (maxDupStack 5) None),
     (DUP6, op_of (makeDup 6) GasFastestStep None (minDupStack 6) (maxDupStack 6) None),
     (DUP7, op_of (makeDup 7) GasFastestStep None (minDupStack 7) (maxDupStack 7) None),
     (DUP8, op_of (makeDup 8) GasFastestStep None (minDupStack 8) (maxDupStack 8) None),
     (DUP9, op_of (makeDup 9) GasFastestStep None (minDupStack 9) (maxDupStack 9) None),
     (DUP10, op_of (makeDup 10) GasFastestStep None (minDupStack 10) (maxDupStack 10) None),
     (DUP11, op_of (makeDup 11) GasFastestStep None (minDupStack 11) (maxDupStack 11) None),
     (DUP12, op_of (makeDup 12) GasFastestStep None (minDupStack 12) (maxDupStack 12) None),
     (DUP13, op_of (makeDup 13) GasFastestStep None (minDupStack 13) (maxDupStack 13) None),
     (DUP14, op_of (makeDup 14) GasFastestStep None (minDupStack 14) (maxDupStack 14) None),
     (DUP15, op_of (makeDup 15) GasFastestStep None (minDupStack 15) (maxDupStack 15) None),
     (DUP16, op_of (makeDup 16) GasFastestStep None (minDupStack 16) (maxDupStack 16) None)]"

definition frontier_swap :: "(byte \<times> 'd operation) list" where
  "frontier_swap =
    [(SWAP1, op_of (opSwap 1) GasFastestStep None (minSwapStack 2) (maxSwapStack 2) None),
     (SWAP2, op_of (opSwap 2) GasFastestStep None (minSwapStack 3) (maxSwapStack 3) None),
     (SWAP3, op_of (opSwap 3) GasFastestStep None (minSwapStack 4) (maxSwapStack 4) None),
     (SWAP4, op_of (opSwap 4) GasFastestStep None (minSwapStack 5) (maxSwapStack 5) None),
     (SWAP5, op_of (opSwap 5) GasFastestStep None (minSwapStack 6) (maxSwapStack 6) None),
     (SWAP6, op_of (opSwap 6) GasFastestStep None (minSwapStack 7) (maxSwapStack 7) None),
     (SWAP7, op_of (opSwap 7) GasFastestStep None (minSwapStack 8) (maxSwapStack 8) None),
     (SWAP8, op_of (opSwap 8) GasFastestStep None (minSwapStack 9) (maxSwapStack 9) None),
     (SWAP9, op_of (opSwap 9) GasFastestStep None (minSwapStack 10) (maxSwapStack 10) None),
     (SWAP10, op_of (opSwap 10) GasFastestStep None (minSwapStack 11) (maxSwapStack 11) None),
     (SWAP11, op_of (opSwap 11) GasFastestStep None (minSwapStack 12) (maxSwapStack 12) None),
     (SWAP12, op_of (opSwap 12) GasFastestStep None (minSwapStack 13) (maxSwapStack 13) None),
     (SWAP13, op_of (opSwap 13) GasFastestStep None (minSwapStack 14) (maxSwapStack 14) None),
     (SWAP14, op_of (opSwap 14) GasFastestStep None (minSwapStack 15) (maxSwapStack 15) None),
     (SWAP15, op_of (opSwap 15) GasFastestStep None (minSwapStack 16) (maxSwapStack 16) None),
     (SWAP16, op_of (opSwap 16) GasFastestStep None (minSwapStack 17) (maxSwapStack 17) None)]"

definition frontier_system :: "'d env \<Rightarrow> 'd calls \<Rightarrow> (byte \<times> 'd operation) list" where
  "frontier_system E K =
    [(LOG0, op_of (makeLog E 0) 0 (Some (makeGasLog 0)) (minStack 2 0) (maxStack 2 0) (Some memoryLog)),
     (LOG1, op_of (makeLog E 1) 0 (Some (makeGasLog 1)) (minStack 3 0) (maxStack 3 0) (Some memoryLog)),
     (LOG2, op_of (makeLog E 2) 0 (Some (makeGasLog 2)) (minStack 4 0) (maxStack 4 0) (Some memoryLog)),
     (LOG3, op_of (makeLog E 3) 0 (Some (makeGasLog 3)) (minStack 5 0) (maxStack 5 0) (Some memoryLog)),
     (LOG4, op_of (makeLog E 4) 0 (Some (makeGasLog 4)) (minStack 6 0) (maxStack 6 0) (Some memoryLog)),
     (CREATE, op_of (opCreate K) CreateGas (Some gasCreate) (minStack 3 1) (maxStack 3 1) (Some memoryCreate)),
     (CALL, op_of (opCall K) CallGasFrontier (Some (gasCall E)) (minStack 7 1) (maxStack 7 1) (Some memoryCall)),
     (CALLCODE, op_of (opCallCode K) CallGasFrontier (Some gasCallCode) (minStack 7 1) (maxStack 7 1) (Some memoryCall)),
     (RETURN, op_of opReturn 0 (Some gasReturn) (minStack 2 0) (maxStack 2 0) (Some memoryReturn)),
     (SELFDESTRUCT, op_of (opSelfdestruct E) 0 (Some (gasSelfdestruct E)) (minStack 1 0) (maxStack 1 0) None),
     (INVALID, op_of opUndefined 0 None (minStack 0 0) (maxStack 0 0) None)]"

definition newFrontierInstructionSet :: "'d env \<Rightarrow> 'd calls \<Rightarrow> 'd JumpTable" where
  "newFrontierInstructionSet E K =
     (\<lambda>b. case map_of (frontier_arithmetic E @ frontier_environment E @ frontier_block_memory E @ frontier_push_low E
                       @ frontier_push_high E @ frontier_dup @ frontier_swap @ frontier_system E K) b of
            Some op \<Rightarrow> op | None \<Rightarrow> undefined_operation)"

section \<open>Changes\<close>

definition enable1884 :: "'d env \<Rightarrow> 'd JumpTable \<Rightarrow> 'd JumpTable" where
  "enable1884 E jt =
     (let jt = jt(SLOAD := (jt SLOAD)\<lparr>constantGas := SloadGasEIP1884\<rparr>);
          jt = jt(BALANCE := (jt BALANCE)\<lparr>constantGas := BalanceGasEIP1884\<rparr>);
          jt = jt(EXTCODEHASH := (jt EXTCODEHASH)\<lparr>constantGas := ExtcodeHashGasEIP1884\<rparr>)
      in jt(SELFBALANCE := op_of (opSelfBalance E) GasFastStep None (minStack 0 1) (maxStack 0 1) None))"

definition enable1344 :: "'d JumpTable \<Rightarrow> 'd JumpTable" where
  "enable1344 jt = jt(CHAINID := op_of opChainID GasQuickStep None (minStack 0 1) (maxStack 0 1) None)"

definition enable2200 :: "'d env \<Rightarrow> 'd JumpTable \<Rightarrow> 'd JumpTable" where
  "enable2200 E jt =
     (let jt = jt(SLOAD := (jt SLOAD)\<lparr>constantGas := SloadGasEIP2200\<rparr>)
      in jt(SSTORE := (jt SSTORE)\<lparr>dynamicGas := Some (gasSStoreEIP2200 E)\<rparr>))"

text \<open>\<open>jt[op].constantGas = c; jt[op].dynamicGas = g\<close>.\<close>

definition reprice :: "byte \<Rightarrow> u64 \<Rightarrow> 'd gasFunc \<Rightarrow> 'd JumpTable \<Rightarrow> 'd JumpTable" where
  "reprice b c g jt = jt(b := (jt b)\<lparr>constantGas := c, dynamicGas := Some g\<rparr>)"

definition set_dynamic :: "byte \<Rightarrow> 'd gasFunc \<Rightarrow> 'd JumpTable \<Rightarrow> 'd JumpTable" where
  "set_dynamic b g jt = jt(b := (jt b)\<lparr>dynamicGas := Some g\<rparr>)"

definition set_constant :: "byte \<Rightarrow> u64 \<Rightarrow> 'd JumpTable \<Rightarrow> 'd JumpTable" where
  "set_constant b c jt = jt(b := (jt b)\<lparr>constantGas := c\<rparr>)"

definition enable2929 :: "'d env \<Rightarrow> 'd JumpTable \<Rightarrow> 'd JumpTable" where
  "enable2929 E jt =
     (let jt = set_dynamic SSTORE (gasSStoreEIP2929 E) jt;
          jt = reprice SLOAD 0 (gasSLoadEIP2929 E) jt;
          jt = reprice EXTCODECOPY WarmStorageReadCostEIP2929 (gasExtCodeCopyEIP2929 E) jt;
          jt = reprice EXTCODESIZE WarmStorageReadCostEIP2929 (gasEip2929AccountCheck E) jt;
          jt = reprice EXTCODEHASH WarmStorageReadCostEIP2929 (gasEip2929AccountCheck E) jt;
          jt = reprice BALANCE WarmStorageReadCostEIP2929 (gasEip2929AccountCheck E) jt;
          jt = reprice CALL WarmStorageReadCostEIP2929 (gasCallEIP2929 E) jt;
          jt = reprice CALLCODE WarmStorageReadCostEIP2929 (gasCallCodeEIP2929 E) jt;
          jt = reprice STATICCALL WarmStorageReadCostEIP2929 (gasStaticCallEIP2929 E) jt;
          jt = reprice DELEGATECALL WarmStorageReadCostEIP2929 (gasDelegateCallEIP2929 E) jt
      in reprice SELFDESTRUCT SelfdestructGasEIP150 (gasSelfdestructEIP2929 E) jt)"

definition enable3529 :: "'d env \<Rightarrow> 'd JumpTable \<Rightarrow> 'd JumpTable" where
  "enable3529 E jt = set_dynamic SELFDESTRUCT (gasSelfdestructEIP3529 E) (set_dynamic SSTORE (gasSStoreEIP3529 E) jt)"

definition enable3198 :: "'d JumpTable \<Rightarrow> 'd JumpTable" where
  "enable3198 jt = jt(BASEFEE := op_of opBaseFee GasQuickStep None (minStack 0 1) (maxStack 0 1) None)"

definition enable1153 :: "'d env \<Rightarrow> 'd JumpTable \<Rightarrow> 'd JumpTable" where
  "enable1153 E jt =
     jt(TLOAD := op_of (opTload E) WarmStorageReadCostEIP2929 None (minStack 1 1) (maxStack 1 1) None,
        TSTORE := op_of (opTstore E) WarmStorageReadCostEIP2929 None (minStack 2 0) (maxStack 2 0) None)"

definition enable3855 :: "'d JumpTable \<Rightarrow> 'd JumpTable" where
  "enable3855 jt = jt(PUSH0 := op_of opPush0 GasQuickStep None (minStack 0 1) (maxStack 0 1) None)"

definition enable3860 :: "'d JumpTable \<Rightarrow> 'd JumpTable" where
  "enable3860 jt = set_dynamic CREATE2 gasCreate2Eip3860 (set_dynamic CREATE gasCreateEip3860 jt)"

definition enable5656 :: "'d JumpTable \<Rightarrow> 'd JumpTable" where
  "enable5656 jt =
     jt(MCOPY := op_of opMcopy GasFastestStep (Some gasMcopy) (minStack 3 0) (maxStack 3 0) (Some memoryMcopy))"

definition enable4844 :: "'d JumpTable \<Rightarrow> 'd JumpTable" where
  "enable4844 jt = jt(BLOBHASH := op_of opBlobHash GasFastestStep None (minStack 1 1) (maxStack 1 1) None)"

definition enable7939 :: "'d JumpTable \<Rightarrow> 'd JumpTable" where
  "enable7939 jt = jt(CLZ := op_of opCLZ GasFastStep None (minStack 1 1) (maxStack 1 1) None)"

definition enable7516 :: "'d JumpTable \<Rightarrow> 'd JumpTable" where
  "enable7516 jt = jt(BLOBBASEFEE := op_of opBlobBaseFee GasQuickStep None (minStack 0 1) (maxStack 0 1) None)"

definition enable6780 :: "'d env \<Rightarrow> 'd JumpTable \<Rightarrow> 'd JumpTable" where
  "enable6780 E jt =
     jt(SELFDESTRUCT := op_of (opSelfdestruct6780 E) SelfdestructGasEIP150 (Some (gasSelfdestructEIP3529 E))
                          (minStack 1 0) (maxStack 1 0) None)"

definition enable8024 :: "'d JumpTable \<Rightarrow> 'd JumpTable" where
  "enable8024 jt =
     jt(DUPN := op_of opDupN GasFastestStep None (minStack 1 0) (maxStack 0 1) None,
        SWAPN := op_of opSwapN GasFastestStep None (minStack 2 0) (maxStack 0 0) None,
        EXCHANGE := op_of opExchange GasFastestStep None (minStack 2 0) (maxStack 0 0) None)"

definition enable7702 :: "'d env \<Rightarrow> 'd JumpTable \<Rightarrow> 'd JumpTable" where
  "enable7702 E jt =
     (let jt = set_dynamic CALL (gasCallEIP7702 E) jt;
          jt = set_dynamic CALLCODE (gasCallCodeEIP7702 E) jt;
          jt = set_dynamic STATICCALL (gasStaticCallEIP7702 E) jt
      in set_dynamic DELEGATECALL (gasDelegateCallEIP7702 E) jt)"

definition enable7843 :: "'d JumpTable \<Rightarrow> 'd JumpTable" where
  "enable7843 jt = jt(SLOTNUM := op_of opSlotNum GasQuickStep None (minStack 0 1) (maxStack 0 1) None)"

definition enable4762 :: "'d env \<Rightarrow> 'd calls \<Rightarrow> 'd JumpTable \<Rightarrow> 'd JumpTable" where
  "enable4762 E K jt =
     (let jt = jt(
        SSTORE := op_of (opSstore E) 0 (Some (gasSStore4762 E)) (minStack 2 0) (maxStack 2 0) None,
        SLOAD := op_of (opSload E) 0 (Some (gasSLoad4762 E)) (minStack 1 1) (maxStack 1 1) None,
        BALANCE := op_of (opBalance E) 0 (Some gasBalance4762) (minStack 1 1) (maxStack 1 1) None,
        EXTCODESIZE := op_of (opExtCodeSize E) 0 (Some gasExtCodeSize4762) (minStack 1 1) (maxStack 1 1) None,
        EXTCODEHASH := op_of (opExtCodeHash E) 0 (Some gasExtCodeHash4762) (minStack 1 1) (maxStack 1 1) None,
        EXTCODECOPY := op_of (opExtCodeCopyEIP4762 E) 0 (Some gasExtCodeCopyEIP4762) (minStack 4 0) (maxStack 4 0)
                         (Some memoryExtCodeCopy),
        CODECOPY := op_of opCodeCopy GasFastestStep (Some gasCodeCopyEip4762) (minStack 3 0) (maxStack 3 0) (Some memoryCodeCopy),
        SELFDESTRUCT := op_of (opSelfdestruct6780 E) SelfdestructGasEIP150 (Some (gasSelfdestructEIP4762 E))
                          (minStack 1 0) (maxStack 1 0) None,
        CREATE := op_of (opCreate K) CreateNGasEip4762 (Some gasCreateEip3860) (minStack 3 1) (maxStack 3 1) (Some memoryCreate),
        CREATE2 := op_of (opCreate2 K) CreateNGasEip4762 (Some gasCreate2Eip3860) (minStack 4 1) (maxStack 4 1) (Some memoryCreate2),
        CALL := op_of (opCall K) 0 (Some (gasCallEIP4762 E)) (minStack 7 1) (maxStack 7 1) (Some memoryCall),
        CALLCODE := op_of (opCallCode K) 0 (Some gasCallCodeEIP4762) (minStack 7 1) (maxStack 7 1) (Some memoryCall),
        STATICCALL := op_of (opStaticCall K) 0 (Some gasStaticCallEIP4762) (minStack 6 1) (maxStack 6 1) (Some memoryStaticCall),
        DELEGATECALL := op_of (opDelegateCall K) 0 (Some gasDelegateCallEIP4762) (minStack 6 1) (maxStack 6 1)
                          (Some memoryDelegateCall),
        PUSH1 := op_of opPush1EIP4762 GasFastestStep None (minStack 0 1) (maxStack 0 1) None)
      in foldl (\<lambda>jt i. jt(PUSH1 + of_nat i :=
            op_of (makePushEIP4762 (of_nat (i + 1)) (i + 1)) GasFastestStep None (minStack 0 1) (maxStack 0 1) None)) jt [1..<32])"

section \<open>The forks\<close>

definition newHomesteadInstructionSet :: "'d env \<Rightarrow> 'd calls \<Rightarrow> 'd JumpTable" where
  "newHomesteadInstructionSet E K =
     (newFrontierInstructionSet E K)
       (DELEGATECALL := op_of (opDelegateCall K) CallGasFrontier (Some gasDelegateCall) (minStack 6 1) (maxStack 6 1)
          (Some memoryDelegateCall))"

definition newTangerineWhistleInstructionSet :: "'d env \<Rightarrow> 'd calls \<Rightarrow> 'd JumpTable" where
  "newTangerineWhistleInstructionSet E K =
     (let jt = newHomesteadInstructionSet E K;
          jt = set_constant BALANCE BalanceGasEIP150 jt;
          jt = set_constant EXTCODESIZE ExtcodeSizeGasEIP150 jt;
          jt = set_constant SLOAD SloadGasEIP150 jt;
          jt = set_constant EXTCODECOPY ExtcodeCopyBaseEIP150 jt;
          jt = set_constant CALL CallGasEIP150 jt;
          jt = set_constant CALLCODE CallGasEIP150 jt
      in set_constant DELEGATECALL CallGasEIP150 jt)"

definition newSpuriousDragonInstructionSet :: "'d env \<Rightarrow> 'd calls \<Rightarrow> 'd JumpTable" where
  "newSpuriousDragonInstructionSet E K = set_dynamic EXP gasExpEIP158 (newTangerineWhistleInstructionSet E K)"

definition newByzantiumInstructionSet :: "'d env \<Rightarrow> 'd calls \<Rightarrow> 'd JumpTable" where
  "newByzantiumInstructionSet E K =
     (newSpuriousDragonInstructionSet E K)
       (STATICCALL := op_of (opStaticCall K) CallGasEIP150 (Some gasStaticCall) (minStack 6 1) (maxStack 6 1) (Some memoryStaticCall),
        RETURNDATASIZE := op_of opReturnDataSize GasQuickStep None (minStack 0 1) (maxStack 0 1) None,
        RETURNDATACOPY := op_of (opReturnDataCopy E) GasFastestStep (Some gasReturnDataCopy) (minStack 3 0) (maxStack 3 0)
          (Some memoryReturnDataCopy),
        REVERT := op_of opRevert 0 (Some gasRevert) (minStack 2 0) (maxStack 2 0) (Some memoryRevert))"

definition newConstantinopleInstructionSet :: "'d env \<Rightarrow> 'd calls \<Rightarrow> 'd JumpTable" where
  "newConstantinopleInstructionSet E K =
     (newByzantiumInstructionSet E K)
       (SHL := op_of (opSHL E) GasFastestStep None (minStack 2 1) (maxStack 2 1) None,
        SHR := op_of (opSHR E) GasFastestStep None (minStack 2 1) (maxStack 2 1) None,
        SAR := op_of (opSAR E) GasFastestStep None (minStack 2 1) (maxStack 2 1) None,
        EXTCODEHASH := op_of (opExtCodeHash E) ExtcodeHashGasConstantinople None (minStack 1 1) (maxStack 1 1) None,
        CREATE2 := op_of (opCreate2 K) Create2Gas (Some gasCreate2) (minStack 4 1) (maxStack 4 1) (Some memoryCreate2))"

definition newIstanbulInstructionSet :: "'d env \<Rightarrow> 'd calls \<Rightarrow> 'd JumpTable" where
  "newIstanbulInstructionSet E K = enable2200 E (enable1884 E (enable1344 (newConstantinopleInstructionSet E K)))"

definition newBerlinInstructionSet :: "'d env \<Rightarrow> 'd calls \<Rightarrow> 'd JumpTable" where
  "newBerlinInstructionSet E K = enable2929 E (newIstanbulInstructionSet E K)"

definition newLondonInstructionSet :: "'d env \<Rightarrow> 'd calls \<Rightarrow> 'd JumpTable" where
  "newLondonInstructionSet E K = enable3198 (enable3529 E (newBerlinInstructionSet E K))"

definition newMergeInstructionSet :: "'d env \<Rightarrow> 'd calls \<Rightarrow> 'd JumpTable" where
  "newMergeInstructionSet E K =
     (newLondonInstructionSet E K)(PREVRANDAO := op_of opRandom GasQuickStep None (minStack 0 1) (maxStack 0 1) None)"

definition newShanghaiInstructionSet :: "'d env \<Rightarrow> 'd calls \<Rightarrow> 'd JumpTable" where
  "newShanghaiInstructionSet E K = enable3860 (enable3855 (newMergeInstructionSet E K))"

definition newCancunInstructionSet :: "'d env \<Rightarrow> 'd calls \<Rightarrow> 'd JumpTable" where
  "newCancunInstructionSet E K =
     enable6780 E (enable5656 (enable1153 E (enable7516 (enable4844 (newShanghaiInstructionSet E K)))))"

definition newPragueInstructionSet :: "'d env \<Rightarrow> 'd calls \<Rightarrow> 'd JumpTable" where
  "newPragueInstructionSet E K = enable7702 E (newCancunInstructionSet E K)"

definition newOsakaInstructionSet :: "'d env \<Rightarrow> 'd calls \<Rightarrow> 'd JumpTable" where
  "newOsakaInstructionSet E K = enable7939 (newPragueInstructionSet E K)"

definition newAmsterdamInstructionSet :: "'d env \<Rightarrow> 'd calls \<Rightarrow> 'd JumpTable" where
  "newAmsterdamInstructionSet E K = enable8024 (enable7843 (newOsakaInstructionSet E K))"

definition newVerkleInstructionSet :: "'d env \<Rightarrow> 'd calls \<Rightarrow> 'd JumpTable" where
  "newVerkleInstructionSet E K = enable4762 E K (newShanghaiInstructionSet E K)"

text \<open>The table a machine uses: the first fork of this list that is active.\<close>

definition instructionSet :: "Rules \<Rightarrow> 'd env \<Rightarrow> 'd calls \<Rightarrow> 'd JumpTable" where
  "instructionSet rules E K =
     (if IsAmsterdam rules then newAmsterdamInstructionSet E K
      else if IsOsaka rules then newOsakaInstructionSet E K
      else if IsVerkle rules then newVerkleInstructionSet E K
      else if IsPrague rules then newPragueInstructionSet E K
      else if IsCancun rules then newCancunInstructionSet E K
      else if IsShanghai rules then newShanghaiInstructionSet E K
      else if IsMerge rules then newMergeInstructionSet E K
      else if IsLondon rules then newLondonInstructionSet E K
      else if IsBerlin rules then newBerlinInstructionSet E K
      else if IsIstanbul rules then newIstanbulInstructionSet E K
      else if IsConstantinople rules then newConstantinopleInstructionSet E K
      else if IsByzantium rules then newByzantiumInstructionSet E K
      else if IsEIP158 rules then newSpuriousDragonInstructionSet E K
      else if IsEIP150 rules then newTangerineWhistleInstructionSet E K
      else if IsHomestead rules then newHomesteadInstructionSet E K
      else newFrontierInstructionSet E K)"

text \<open>\<open>EnableEIP\<close>: an unknown number leaves the table as it is and is an error.\<close>

definition activators :: "'d env \<Rightarrow> 'd calls \<Rightarrow> (nat \<times> ('d JumpTable \<Rightarrow> 'd JumpTable)) list" where
  "activators E K =
     [(5656, enable5656), (6780, enable6780 E), (3855, enable3855), (3860, enable3860), (3529, enable3529 E), (3198, enable3198),
      (2929, enable2929 E), (2200, enable2200 E), (1884, enable1884 E), (1344, enable1344), (1153, enable1153 E),
      (4762, enable4762 E K), (7702, enable7702 E), (7939, enable7939), (8024, enable8024), (7843, enable7843)]"

definition EnableEIP :: "'d env \<Rightarrow> 'd calls \<Rightarrow> nat \<Rightarrow> 'd JumpTable \<Rightarrow> 'd JumpTable option" where
  "EnableEIP E K eipNum jt = map_option (\<lambda>enablerFn. enablerFn jt) (map_of (activators E K) eipNum)"

text \<open>The table of \<open>NewEVM\<close> with the extra proposals of the configuration, and those that could be enabled.\<close>

fun enable_all :: "'d env \<Rightarrow> 'd calls \<Rightarrow> nat list \<Rightarrow> 'd JumpTable \<Rightarrow> 'd JumpTable \<times> nat list" where
  "enable_all E K [] jt = (jt, [])"
| "enable_all E K (eip # eips) jt =
     (case EnableEIP E K eip jt of
        None \<Rightarrow> enable_all E K eips jt
      | Some jt' \<Rightarrow> (let (jt'', enabled) = enable_all E K eips jt' in (jt'', eip # enabled)))"

end
