(* ===== verification/Evm_Run.thy ===== *)
theory Evm_Run
  imports Evm_Tables
begin

text \<open>
  The interpreter loop (\<^verbatim>\<open>src/go-ethereum/core/vm/interpreter.go\<close>) and the entry points of the machine
  (\<^verbatim>\<open>evm.go\<close>).

  The loop runs with fuel: one more step than the gas of the contract, since every instruction that does not
  halt costs gas. A frame runs other frames through the entry points, which take the interpreter as an
  argument; \<open>Run_at n\<close> is the interpreter with at most \<open>n\<close> nested frames, and the depth limit of the code makes
  1025 of them enough. Both bounds are shown never to be hit (except under EIP-4762, where a call that
  transfers value can leave a contract with more gas than before).
\<close>

section \<open>The loop\<close>

text \<open>Stack check, constant price, memory size and dynamic price of one operation.\<close>

definition check_stack :: "'d operation \<Rightarrow> 'd frame \<Rightarrow> evm_error option" where
  "check_stack op f =
     (let sLen = st_len (stack f)
      in if sLen < op_minStack op then Some (ErrStackUnderflow sLen (op_minStack op))
         else if sLen > op_maxStack op then Some (ErrStackOverflow sLen (op_maxStack op))
         else None)"

definition op_memory :: "'d operation \<Rightarrow> 'd frame \<Rightarrow> (evm_error + u64) outcome" where
  "op_memory op f =
     (case memorySize op of
        None \<Rightarrow> Ret (Inr 0)
      | Some ms \<Rightarrow>
          obind (of_option (ms (stack f))) (\<lambda>(memSize, overflow).
            if overflow then Ret (Inl ErrGasUintOverflow)
            else
              (let (sz, overflow) = SafeMul (toWordSize memSize) 32
               in if overflow then Ret (Inl ErrGasUintOverflow) else Ret (Inr sz))))"

definition charge_dynamic :: "'d operation \<Rightarrow> 'd frame \<Rightarrow> ((evm_error + u64) \<times> 'd frame) outcome" where
  "charge_dynamic op f =
     (case dynamicGas op of
        None \<Rightarrow> Ret (Inr 0, f)
      | Some dg \<Rightarrow>
          obind (op_memory op f) (\<lambda>r.
            (case r of
               Inl e \<Rightarrow> Ret (Inl e, f)
             | Inr memSz \<Rightarrow>
                 obind (dg f memSz) (\<lambda>(r, f).
                   (case r of
                      Inl e \<Rightarrow> Ret (Inl (ErrDynamicGas e), f)
                    | Inr dynamicCost \<Rightarrow>
                        if f_Gas f < dynamicCost then Ret (Inl evm_error.ErrOutOfGas, f)
                        else Ret (Inr memSz, set_gas (f_Gas f - dynamicCost) f))))))"

definition step_op :: "'d operation \<Rightarrow> 'd executionFunc" where
  "step_op op f =
     (case check_stack op f of
        Some e \<Rightarrow> stop_with e f
      | None \<Rightarrow>
          let cost = constantGas op
          in if f_Gas f < cost then stop_with evm_error.ErrOutOfGas f
             else
               obind (charge_dynamic op (set_gas (f_Gas f - cost) f)) (\<lambda>(r, f).
                 (case r of
                    Inl e \<Rightarrow> stop_with e f
                  | Inr memSz \<Rightarrow>
                      execute op (if memSz > 0 then f\<lparr>memory := mem_Resize memSz (memory f)\<rparr> else f))))"

definition step :: "'d JumpTable \<Rightarrow> 'd executionFunc" where
  "step jt f =
     obind
       (if IsEIP4762 (chainRules (evm f)) \<and> \<not> IsDeployment (contract f) \<and> \<not> IsSystemCall (contract f)
        then charge_chunks fst (address (contract f)) (pc f) 1 (of_nat (length (Code (contract f)))) f
        else Ret (False, f))
       (\<lambda>(short, f).
          if short then stop_with evm_error.ErrOutOfGas f else step_op (jt (GetOp (contract f) (pc f))) f)"

fun run_loop :: "nat \<Rightarrow> 'd JumpTable \<Rightarrow> 'd executionFunc" where
  "run_loop 0 jt f = OutOfFuel"
| "run_loop (Suc n) jt f =
     obind (step jt f) (\<lambda>((res, err), f).
       (case err of
          Some e \<Rightarrow> Ret ((res, if e = errStopToken then None else Some e), f)
        | None \<Rightarrow> run_loop n jt (f\<lparr>pc := pc f + 1\<rparr>)))"

type_synonym 'd runner =
  "'d EVM \<Rightarrow> Contract \<Rightarrow> bytes \<Rightarrow> bool \<Rightarrow> ((bytes \<times> evm_error option) \<times> Contract \<times> 'd EVM) outcome"

definition new_frame :: "Contract \<Rightarrow> 'd EVM \<Rightarrow> 'd frame" where
  "new_frame c m = \<lparr>pc = 0, stack = [], memory = NewMemory, contract = c, evm = m\<rparr>"

definition evm_Run :: "'d JumpTable \<Rightarrow> 'd runner" where
  "evm_Run jt m c input ro =
     (let setRO = (ro \<and> \<not> readOnly m);
          m = m\<lparr>depth := depth m + 1, readOnly := readOnly m \<or> setRO, returnData := []\<rparr>;
          leave = (\<lambda>m :: 'd EVM. m\<lparr>depth := depth m - 1, readOnly := (if setRO then False else readOnly m)\<rparr>)
      in if Code c = [] then Ret (([], None), c, leave m)
         else
           obind (run_loop (Suc (unat (Gas c))) jt (new_frame (c\<lparr>Input := input\<rparr>) m)) (\<lambda>(r, f).
             Ret (r, contract f, leave (evm f))))"

section \<open>Calls\<close>

definition SystemAddress :: Address where
  "SystemAddress = 0xfffffffffffffffffffffffffffffffffffffffe"

definition isSystemCall :: "Address \<Rightarrow> bool" where
  "isSystemCall clr \<longleftrightarrow> clr = SystemAddress"

definition of_precompile_error :: "precompile_error \<Rightarrow> evm_error" where
  "of_precompile_error e = (if e = precompile_error.ErrOutOfGas then evm_error.ErrOutOfGas else ErrPrecompile e)"

definition call_precompile :: "PrecompiledContract \<Rightarrow> bytes \<Rightarrow> u64 \<Rightarrow> 'd EVM \<Rightarrow> 'd call_result" where
  "call_precompile p input gas m =
     obind (of_option (RunPrecompiledContract p input gas)) (\<lambda>(r, gas).
       (case r of
          Inl e \<Rightarrow> Ret (([], gas, Some (of_precompile_error e)), m)
        | Inr out \<Rightarrow> Ret ((out, gas, None), m)))"

text \<open>On an error the state is reverted; unless it is a revert, the gas left is gone.\<close>

definition finish_frame :: "'d env \<Rightarrow> nat \<Rightarrow> 'd call_result \<Rightarrow> 'd call_result" where
  "finish_frame E snapshot r =
     obind r (\<lambda>((ret, gas, err), m).
       (case err of
          None \<Rightarrow> Ret ((ret, gas, None), m)
        | Some e \<Rightarrow>
            obind (of_option (RevertToSnapshot (DB E) snapshot (statedb m))) (\<lambda>db.
              Ret ((ret, if e \<noteq> ErrExecutionReverted then 0 else gas, err), m\<lparr>statedb := db\<rparr>))))"

definition run_contract :: "'d runner \<Rightarrow> 'd EVM \<Rightarrow> Contract \<Rightarrow> bytes \<Rightarrow> bool \<Rightarrow> 'd call_result" where
  "run_contract run m c input ro =
     obind (run m c input ro) (\<lambda>((ret, err), c, m). Ret ((ret, Gas c, err), m))"

abbreviation snap :: "'d env \<Rightarrow> 'd EVM \<Rightarrow> nat \<times> 'd EVM" where
  "snap E m \<equiv> (let (snapshot, db) = Snapshot (DB E) (statedb m) in (snapshot, m\<lparr>statedb := db\<rparr>))"

text \<open>The second half of \<open>Call\<close>: transfer, then precompiled contract or code.\<close>

definition call_body ::
  "'d env \<Rightarrow> 'd runner \<Rightarrow> 'd EVM \<Rightarrow> Address \<Rightarrow> Address \<Rightarrow> bytes \<Rightarrow> u64 \<Rightarrow> u256 \<Rightarrow> 'd call_result" where
  "call_body E run m clr addr input gas val =
     (let m = (if \<not> isSystemCall clr then map_db (Transfer (Context m) clr addr val) m else m)
      in (case precompiles m addr of
            Some p \<Rightarrow> call_precompile p input gas m
          | None \<Rightarrow>
              (let code = resolveCode E m addr
               in if code = [] then Ret (([], gas, None), m)
                  else
                    (let c = (NewContract clr addr val gas)\<lparr>IsSystemCall := isSystemCall clr\<rparr>;
                         c = SetCallCode (resolveCodeHash E m addr) code c
                     in run_contract run m c input False))))"

definition evm_Call ::
  "'d env \<Rightarrow> 'd runner \<Rightarrow> 'd EVM \<Rightarrow> Address \<Rightarrow> Address \<Rightarrow> bytes \<Rightarrow> u64 \<Rightarrow> u256 \<Rightarrow> 'd call_result" where
  "evm_Call E run m clr addr input gas val =
     (if depth m > CallCreateDepth then Ret (([], gas, Some ErrDepth), m)
      else
        (let syscall = isSystemCall clr
         in if \<not> syscall \<and> val \<noteq> 0 \<and> \<not> CanTransfer (Context m) (statedb m) clr val
            then Ret (([], gas, Some ErrInsufficientBalance), m)
            else
              (let (snapshot, m) = snap E m;
                   isPrecompile = (precompiles m addr \<noteq> None)
               in if \<not> Exist (DB E) (statedb m) addr then
                    (let charge = (\<not> isPrecompile \<and> IsEIP4762 (chainRules m) \<and> \<not> isSystemCall clr);
                         (wgas, ae) = (if charge then CodeHashGas addr True gas False (accessEvents m) else (0, accessEvents m));
                         m = m\<lparr>accessEvents := ae\<rparr>
                     in if gas < wgas then
                          obind (of_option (RevertToSnapshot (DB E) snapshot (statedb m))) (\<lambda>db.
                            Ret (([], 0, Some evm_error.ErrOutOfGas), m\<lparr>statedb := db\<rparr>))
                        else
                          (let gas = gas - wgas
                           in if \<not> isPrecompile \<and> IsEIP158 (chainRules m) \<and> val = 0 then Ret (([], gas, None), m)
                              else
                                finish_frame E snapshot
                                  (call_body E run (map_db (CreateAccount (DB E) addr) m) clr addr input gas val)))
                  else finish_frame E snapshot (call_body E run m clr addr input gas val))))"

definition evm_CallCode ::
  "'d env \<Rightarrow> 'd runner \<Rightarrow> 'd EVM \<Rightarrow> Address \<Rightarrow> Address \<Rightarrow> bytes \<Rightarrow> u64 \<Rightarrow> u256 \<Rightarrow> 'd call_result" where
  "evm_CallCode E run m clr addr input gas val =
     (if depth m > CallCreateDepth then Ret (([], gas, Some ErrDepth), m)
      else if \<not> CanTransfer (Context m) (statedb m) clr val then Ret (([], gas, Some ErrInsufficientBalance), m)
      else
        (let (snapshot, m) = snap E m
         in finish_frame E snapshot
              (case precompiles m addr of
                 Some p \<Rightarrow> call_precompile p input gas m
               | None \<Rightarrow>
                   run_contract run m (SetCallCode (resolveCodeHash E m addr) (resolveCode E m addr) (NewContract clr clr val gas))
                     input False)))"

definition evm_DelegateCall ::
  "'d env \<Rightarrow> 'd runner \<Rightarrow> 'd EVM \<Rightarrow> Address \<Rightarrow> Address \<Rightarrow> Address \<Rightarrow> bytes \<Rightarrow> u64 \<Rightarrow> u256 \<Rightarrow> 'd call_result" where
  "evm_DelegateCall E run m originCaller clr addr input gas val =
     (if depth m > CallCreateDepth then Ret (([], gas, Some ErrDepth), m)
      else
        (let (snapshot, m) = snap E m
         in finish_frame E snapshot
              (case precompiles m addr of
                 Some p \<Rightarrow> call_precompile p input gas m
               | None \<Rightarrow>
                   run_contract run m
                     (SetCallCode (resolveCodeHash E m addr) (resolveCode E m addr) (NewContract originCaller clr val gas))
                     input False)))"

definition evm_StaticCall ::
  "'d env \<Rightarrow> 'd runner \<Rightarrow> 'd EVM \<Rightarrow> Address \<Rightarrow> Address \<Rightarrow> bytes \<Rightarrow> u64 \<Rightarrow> 'd call_result" where
  "evm_StaticCall E run m clr addr input gas =
     (if depth m > CallCreateDepth then Ret (([], gas, Some ErrDepth), m)
      else
        (let (snapshot, m) = snap E m;
             m = map_db (AddBalance (DB E) addr 0) m
         in finish_frame E snapshot
              (case precompiles m addr of
                 Some p \<Rightarrow> call_precompile p input gas m
               | None \<Rightarrow>
                   run_contract run m (SetCallCode (resolveCodeHash E m addr) (resolveCode E m addr) (NewContract clr addr 0 gas))
                     input True)))"

section \<open>Creation\<close>

definition initNewContract ::
  "'d env \<Rightarrow> 'd runner \<Rightarrow> 'd EVM \<Rightarrow> Contract \<Rightarrow> Address \<Rightarrow> ((bytes \<times> evm_error option) \<times> Contract \<times> 'd EVM) outcome" where
  "initNewContract E run m c addr =
     obind (run m c [] False) (\<lambda>((ret, err), c, m).
       if err \<noteq> None then Ret ((ret, err), c, m)
       else if IsEIP158 (chainRules m) \<and> length ret > MaxCodeSize then Ret ((ret, Some ErrMaxCodeSizeExceeded), c, m)
       else if length ret \<ge> 1 \<and> ret ! 0 = 0xEF \<and> IsLondon (chainRules m) then Ret ((ret, Some ErrInvalidCode), c, m)
       else
         obind
           (if \<not> IsEIP4762 (chainRules m) then
              (let (ok, c) = UseGas (of_nat (length ret) * CreateDataGas) c in Ret (ok, c, m))
            else
              obind (of_option (CodeChunksRangeGas addr 0 (of_nat (length ret)) (of_nat (length ret)) True (Gas c) (accessEvents m)))
                (\<lambda>((consumed, wanted), ae).
                  (let (_, c) = UseGas consumed c
                   in Ret (\<not> (length ret > 0 \<and> consumed < wanted), c, m\<lparr>accessEvents := ae\<rparr>))))
           (\<lambda>(ok, c, m).
             if \<not> ok then Ret ((ret, Some ErrCodeStoreOutOfGas), c, m)
             else Ret ((ret, None), c, if length ret > 0 then map_db (SetCode (DB E) addr ret) m else m)))"

definition EmptyRootHash :: Hash where
  "EmptyRootHash = 0x56e81f171bcc55a6ff8345e692c0f86e5b48e01b996cadc001622fb5e363b421"

definition EmptyCodeHash :: "'d env \<Rightarrow> Hash" where
  "EmptyCodeHash E = Keccak256Hash E []"

text \<open>The account already has a nonce, code or storage.\<close>

definition collides :: "'d env \<Rightarrow> 'd \<Rightarrow> Address \<Rightarrow> bool" where
  "collides E db addr \<longleftrightarrow>
     (let contractHash = GetCodeHash (DB E) db addr; storageRoot = GetStorageRoot (DB E) db addr
      in GetNonce (DB E) db addr \<noteq> 0 \<or> (contractHash \<noteq> 0 \<and> contractHash \<noteq> EmptyCodeHash E) \<or>
         (storageRoot \<noteq> 0 \<and> storageRoot \<noteq> EmptyRootHash))"

text \<open>The second half of \<open>create\<close>, from the snapshot on.\<close>

definition create_body ::
  "'d env \<Rightarrow> 'd runner \<Rightarrow> 'd EVM \<Rightarrow> Address \<Rightarrow> bytes \<Rightarrow> u64 \<Rightarrow> u256 \<Rightarrow> Address \<Rightarrow> 'd create_result" where
  "create_body E run m clr code gas val addr =
     (let (snapshot, m) = snap E m;
          m = (if \<not> Exist (DB E) (statedb m) addr then map_db (CreateAccount (DB E) addr) m else m);
          m = map_db (CreateContract (DB E) addr) m;
          m = (if IsEIP158 (chainRules m) then map_db (SetNonce (DB E) addr 1) m else m);
          ((consumed, wanted), ae) =
            (if IsEIP4762 (chainRules m) then ContractCreateInitGas addr gas (accessEvents m) else ((0, 0), accessEvents m));
          m = m\<lparr>accessEvents := ae\<rparr>
      in if consumed < wanted then Ret (([], 0, 0, Some evm_error.ErrOutOfGas), m)
         else
           (let gas = gas - consumed;
                m = map_db (Transfer (Context m) clr addr val) m;
                c = (SetCallCode 0 code (NewContract clr addr val gas))\<lparr>IsDeployment := True\<rparr>
            in obind (initNewContract E run m c addr) (\<lambda>((ret, err), c, m).
                 (case err of
                    None \<Rightarrow> Ret ((ret, addr, Gas c, None), m)
                  | Some e \<Rightarrow>
                      if IsHomestead (chainRules m) \<or> e \<noteq> ErrCodeStoreOutOfGas then
                        obind (of_option (RevertToSnapshot (DB E) snapshot (statedb m))) (\<lambda>db.
                          (let c = (if e \<noteq> ErrExecutionReverted then snd (UseGas (Gas c) c) else c)
                           in Ret ((ret, addr, Gas c, err), m\<lparr>statedb := db\<rparr>)))
                      else Ret ((ret, addr, Gas c, err), m)))))"

definition evm_create ::
  "'d env \<Rightarrow> 'd runner \<Rightarrow> 'd EVM \<Rightarrow> Address \<Rightarrow> bytes \<Rightarrow> u64 \<Rightarrow> u256 \<Rightarrow> Address \<Rightarrow> 'd create_result" where
  "evm_create E run m clr code gas val addr =
     (if depth m > CallCreateDepth then Ret (([], 0, gas, Some ErrDepth), m)
      else if \<not> CanTransfer (Context m) (statedb m) clr val then Ret (([], 0, gas, Some ErrInsufficientBalance), m)
      else
        (let nonce = GetNonce (DB E) (statedb m) clr
         in if nonce + 1 < nonce then Ret (([], 0, gas, Some ErrNonceUintOverflow), m)
            else
              (let m = map_db (SetNonce (DB E) clr (nonce + 1)) m;
                   (statelessGas, ae) =
                     (if IsEIP4762 (chainRules m) then ContractCreatePreCheckGas addr gas (accessEvents m) else (0, accessEvents m));
                   m = m\<lparr>accessEvents := ae\<rparr>
               in if statelessGas > gas then Ret (([], 0, 0, Some evm_error.ErrOutOfGas), m)
                  else
                    (let gas = gas - statelessGas;
                         m = (if IsEIP2929 (chainRules m) then map_db (AddAddressToAccessList (DB E) addr) m else m)
                     in if collides E (statedb m) addr then Ret (([], 0, 0, Some ErrContractAddressCollision), m)
                        else create_body E run m clr code gas val addr))))"

definition evm_Create ::
  "'d env \<Rightarrow> 'd runner \<Rightarrow> 'd EVM \<Rightarrow> Address \<Rightarrow> bytes \<Rightarrow> u64 \<Rightarrow> u256 \<Rightarrow> 'd create_result" where
  "evm_Create E run m clr code gas val =
     evm_create E run m clr code gas val (CreateAddress E clr (GetNonce (DB E) (statedb m) clr))"

definition evm_Create2 ::
  "'d env \<Rightarrow> 'd runner \<Rightarrow> 'd EVM \<Rightarrow> Address \<Rightarrow> bytes \<Rightarrow> u64 \<Rightarrow> u256 \<Rightarrow> u256 \<Rightarrow> 'd create_result" where
  "evm_Create2 E run m clr code gas endowment salt =
     (let inithash = Keccak256Hash E code
      in evm_create E run m clr code gas endowment (CreateAddress2 E clr salt (hash_bytes inithash)))"

section \<open>The machine\<close>

definition calls_with :: "'d env \<Rightarrow> 'd runner \<Rightarrow> 'd calls" where
  "calls_with E run =
     \<lparr>do_Call = evm_Call E run, do_CallCode = evm_CallCode E run, do_DelegateCall = evm_DelegateCall E run,
      do_StaticCall = evm_StaticCall E run, do_Create = evm_Create E run, do_Create2 = evm_Create2 E run\<rparr>"

text \<open>A table is built for the entry points that its call instructions use.\<close>

primrec Run_at :: "nat \<Rightarrow> 'd env \<Rightarrow> ('d calls \<Rightarrow> 'd JumpTable) \<Rightarrow> 'd runner" where
  "Run_at 0 E T = (\<lambda>m c input ro. OutOfFuel)"
| "Run_at (Suc n) E T = evm_Run (T (calls_with E (Run_at n E T)))"

definition max_frames :: nat where
  "max_frames = 1025"

abbreviation Run_top :: "'d env \<Rightarrow> ('d calls \<Rightarrow> 'd JumpTable) \<Rightarrow> 'd runner" where
  "Run_top E T \<equiv> Run_at max_frames E T"

text \<open>
  \<open>NewEVM\<close>: the machine in its initial state and its table, as a function of the rules the configuration gives
  for the block. Transaction fields are zero until \<open>SetTxContext\<close>.
\<close>

definition NewEVM ::
  "(contract \<Rightarrow> PrecompiledContract) \<Rightarrow> 'd BlockContext \<Rightarrow> 'd \<Rightarrow> nat option \<Rightarrow> Rules \<Rightarrow> bool \<Rightarrow> 'd EVM" where
  "NewEVM contr blockCtx db chainId rules recordPreimages =
     \<lparr>Context = blockCtx, Origin = 0, GasPrice = 0, BlobHashes = [], accessEvents = NewAccessEvents, statedb = db, depth = 0,
      ChainID = chainId, chainRules = rules, EnablePreimageRecording = recordPreimages, abort = False, callGasTemp = 0,
      precompiles = (\<lambda>a. map_option contr (map_of (activePrecompiledContracts rules) a)), jumpDests = Map.empty,
      readOnly = False, returnData = []\<rparr>"

definition NewEVM_table :: "'d env \<Rightarrow> Rules \<Rightarrow> nat list \<Rightarrow> 'd calls \<Rightarrow> 'd JumpTable" where
  "NewEVM_table E rules extraEips K = fst (enable_all E K extraEips (instructionSet rules E K))"

definition SetTxContext :: "Address \<Rightarrow> u256 \<Rightarrow> Hash list \<Rightarrow> 'd EVM \<Rightarrow> 'd EVM" where
  "SetTxContext origin gasPrice blobHashes m =
     m\<lparr>Origin := origin, GasPrice := gasPrice, BlobHashes := blobHashes, accessEvents := NewAccessEvents\<rparr>"

definition Cancel :: "'d EVM \<Rightarrow> 'd EVM" where
  "Cancel m = m\<lparr>abort := True\<rparr>"

end
