(* ===== verification/Evm_Termination.thy ===== *)
theory Evm_Termination
  imports Evm_Run
begin

text \<open>
  Gas bounds the interpreter: what every gas function and instruction does to the gas of the frame and to
  the machine it runs on.

  The interface \<open>call_interface\<close> states what the loop relies on when an instruction enters another frame: the
  call returns no more gas than it was given and leaves depth, rules and contexts as they were. It is proved
  of the entry points by induction on the nesting of frames.
\<close>

section \<open>What a run leaves alone\<close>

text \<open>Only the state, the recorded accesses, the call gas, the analysis cache and the return data change.\<close>

definition stable :: "'d EVM \<Rightarrow> 'd EVM \<Rightarrow> bool" where
  "stable m m' \<longleftrightarrow>
     m' = m\<lparr>statedb := statedb m', accessEvents := accessEvents m', callGasTemp := callGasTemp m',
            jumpDests := jumpDests m', returnData := returnData m'\<rparr>"

lemma stable_refl [simp, intro]: "stable m m"
  by (simp add: stable_def)

lemma stable_iff:
  "stable m m' \<longleftrightarrow> Context m' = Context m \<and> Origin m' = Origin m \<and> GasPrice m' = GasPrice m \<and>
     BlobHashes m' = BlobHashes m \<and> depth m' = depth m \<and> ChainID m' = ChainID m \<and> chainRules m' = chainRules m \<and>
     EnablePreimageRecording m' = EnablePreimageRecording m \<and> abort m' = abort m \<and> precompiles m' = precompiles m \<and>
     readOnly m' = readOnly m"
  by (cases m; cases m') (auto simp: stable_def)

lemma stable_trans: "stable a b \<Longrightarrow> stable b c \<Longrightarrow> stable a c"
  by (simp add: stable_iff)

text \<open>A frame on the way through a gas function.\<close>

definition keeps :: "'d frame \<Rightarrow> 'd frame \<Rightarrow> bool" where
  "keeps f f' \<longleftrightarrow> stable (evm f) (evm f') \<and> stack f' = stack f \<and> pc f' = pc f \<and>
     m_store (memory f') = m_store (memory f) \<and> contract f' = (contract f)\<lparr>Gas := f_Gas f'\<rparr> \<and>
     jumpDests (evm f') = jumpDests (evm f)"

lemma keeps_refl [simp, intro]: "keeps f f"
  by (simp add: keeps_def)

lemma keeps_trans:
  assumes "keeps a b" and "keeps b c"
  shows "keeps a c"
proof -
  have "contract c = (contract b)\<lparr>Gas := f_Gas c\<rparr>" "contract b = (contract a)\<lparr>Gas := f_Gas b\<rparr>"
    using assms by (auto simp: keeps_def)
  then have "contract c = (contract a)\<lparr>Gas := f_Gas c\<rparr>" by (metis Contract.surjective Contract.update_convs(9))
  with assms show ?thesis unfolding keeps_def by (auto intro: stable_trans)
qed

lemma keeps_db [simp]: "keeps f (f\<lparr>evm := (evm f)\<lparr>statedb := db\<rparr>\<rparr>)"
  by (simp add: keeps_def stable_iff)

lemma keeps_gas [simp]: "keeps f (set_gas g f)"
  by (simp add: keeps_def)

lemma keeps_contract: "keeps f f' \<Longrightarrow> contract f' = (contract f)\<lparr>Gas := f_Gas f'\<rparr>"
  by (simp add: keeps_def)

section \<open>Gas functions\<close>

text \<open>
  \<open>gas_good dg\<close>: the function ends, keeps the frame, and leaves the gas of the contract as it was when it
  gives a price; an error may leave less.
\<close>

definition gas_result_good :: "'d frame \<Rightarrow> ((evm_error + u64) \<times> 'd frame) outcome \<Rightarrow> bool" where
  "gas_result_good f r \<longleftrightarrow>
     (case r of Panic \<Rightarrow> True | OutOfFuel \<Rightarrow> False
      | Ret (g, f') \<Rightarrow> keeps f f' \<and> f_Gas f' \<le> f_Gas f \<and> (isl g \<or> f_Gas f' = f_Gas f))"

definition gas_good :: "'d gasFunc \<Rightarrow> bool" where
  "gas_good dg \<longleftrightarrow> (\<forall>f sz. gas_result_good f (dg f sz))"

definition gas_min :: "('d frame \<Rightarrow> 'd frame \<Rightarrow> nat) \<Rightarrow> 'd frame \<Rightarrow> ((evm_error + u64) \<times> 'd frame) outcome \<Rightarrow> bool" where
  "gas_min low f r \<longleftrightarrow> (\<forall>g f'. r = Ret (Inr g, f') \<longrightarrow> low f f' \<le> unat g)"

named_theorems gas_simps \<open>gas functions\<close>

lemma gas_result_good_simps [simp]:
  "gas_result_good f Panic" "gas_result_good f (gas_err e f') \<longleftrightarrow> keeps f f' \<and> f_Gas f' \<le> f_Gas f"
  "gas_result_good f (gas_ok g f') \<longleftrightarrow> keeps f f' \<and> f_Gas f' = f_Gas f"
  by (auto simp: gas_result_good_def)

lemma with_back_good [intro]: "(\<And>x. gas_result_good f (k x)) \<Longrightarrow> gas_result_good f (with_back n f' k)"
  by (simp add: with_back_def split: option.split)

lemma checked_good [intro]:
  "keeps f f' \<Longrightarrow> f_Gas f' \<le> f_Gas f \<Longrightarrow> (\<And>v. gas_result_good f (k v)) \<Longrightarrow> gas_result_good f (checked r f' k)"
  by (cases r) (simp add: checked_def)

lemma gas_result_good_trans:
  "gas_result_good f' r \<Longrightarrow> keeps f f' \<Longrightarrow> f_Gas f' = f_Gas f \<Longrightarrow> gas_result_good f r"
  by (auto simp: gas_result_good_def split: outcome.splits intro: keeps_trans)

lemma then_gas_good [intro]:
  assumes "gas_result_good f r" and "\<And>g f'. keeps f f' \<Longrightarrow> f_Gas f' = f_Gas f \<Longrightarrow> gas_result_good f (k g f')"
  shows "gas_result_good f (then_gas r k)"
  using assms by (cases r) (auto simp: then_gas_def gas_result_good_def split: sum.splits)

lemma pureMemoryGascost_good [intro, simp]: "gas_result_good f (pureMemoryGascost f sz)"
  by (auto simp: pureMemoryGascost_def memoryGasCost_def Let_def gas_result_good_def keeps_def)

lemma keeps_db_trans [simp]: "keeps f f' \<Longrightarrow> keeps f (f'\<lparr>evm := (evm f')\<lparr>statedb := db\<rparr>\<rparr>)"
  by (rule keeps_trans [OF _ keeps_db])

lemma keeps_callGasTemp_trans [simp]: "keeps f f' \<Longrightarrow> keeps f (map_evm (callGasTemp_update (\<lambda>_. t)) f')"
  by (rule keeps_trans) (auto simp: keeps_def stable_iff)

lemma keeps_gas_trans [simp]: "keeps f f' \<Longrightarrow> keeps f (set_gas g f')"
  by (rule keeps_trans [OF _ keeps_gas])

lemma keeps_contract_trans [simp]: "keeps f f' \<Longrightarrow> keeps f (f'\<lparr>contract := (contract f)\<lparr>Gas := g\<rparr>\<rparr>)"
  using keeps_gas_trans [of f f' g] keeps_contract [of f f']
  by (metis Contract.surjective Contract.update_convs(9))

lemma memoryCopierGas_good [simp]: "gas_result_good f (memoryCopierGas n f sz)"
  unfolding memoryCopierGas_def by (intro then_gas_good with_back_good checked_good) auto

lemma hash_words_gas_good [simp]: "gas_result_good f (hash_words_gas n f sz)"
  unfolding hash_words_gas_def by (intro then_gas_good with_back_good checked_good) auto

lemma init_code_gas_good [simp]: "gas_result_good f (init_code_gas n f sz)"
  unfolding init_code_gas_def
  by (intro then_gas_good with_back_good checked_good) (auto intro!: checked_good)

lemma exp_gas_good [simp]: "gas_result_good f (exp_gas n f sz)"
  unfolding exp_gas_def Let_def by (intro with_back_good checked_good) auto

lemma makeGasLog_good [simp]: "gas_result_good f (makeGasLog n f sz)"
  unfolding makeGasLog_def by (intro then_gas_good with_back_good checked_good) auto

lemma sub_refund_cases:
  "sub_refund E g f = Panic \<or> (\<exists>db. sub_refund E g f = Ret (set_db (\<lambda>_. db) f))"
  by (cases "SubRefund (DB E) g (f_db f)") (auto simp: sub_refund_def)

lemma dirty_refunds_cases:
  "dirty_refunds E a b c current original val f = Panic \<or>
   (\<exists>db. dirty_refunds E a b c current original val f = Ret (set_db (\<lambda>_. db) f))"
proof -
  have f: "\<exists>db. f = set_db (\<lambda>_. db) f" for f :: "'a frame"
    by (rule exI [of _ "f_db f"]) simp
  show ?thesis
    unfolding dirty_refunds_def using sub_refund_cases [of E a f] f [of f] by auto
qed

lemma dirty_refunds_good:
  "keeps f f' \<Longrightarrow> f_Gas f' = f_Gas f \<Longrightarrow>
   gas_result_good f (obind (dirty_refunds E a b c current original val f') (gas_ok g))"
  using dirty_refunds_cases [of E a b c current original val f'] by auto

lemma gasSStore_good [simp]: "gas_result_good f (gasSStore E f sz)"
  by (auto simp: gasSStore_def Let_def split: prod.split intro!: with_back_good dirty_refunds_good)

lemma gasSStoreEIP2200_good [simp]: "gas_result_good f (gasSStoreEIP2200 E f sz)"
  by (auto simp: gasSStoreEIP2200_def Let_def split: prod.split intro!: with_back_good dirty_refunds_good)

lemma makeGasSStoreFunc_good [simp]: "gas_result_good f (makeGasSStoreFunc E r f sz)"
  by (auto simp: makeGasSStoreFunc_def Let_def split: prod.split intro!: with_back_good dirty_refunds_good)

lemma gasSLoadEIP2929_good [simp]: "gas_result_good f (gasSLoadEIP2929 E f sz)"
  by (auto simp: gasSLoadEIP2929_def Let_def intro!: with_back_good)

lemma gasEip2929AccountCheck_good [simp]: "gas_result_good f (gasEip2929AccountCheck E f sz)"
  by (auto simp: gasEip2929AccountCheck_def Let_def intro!: with_back_good)

lemma gasExtCodeCopyEIP2929_good [simp]: "gas_result_good f (gasExtCodeCopyEIP2929 E f sz)"
  unfolding gasExtCodeCopyEIP2929_def Let_def
  by (intro then_gas_good with_back_good) (auto intro!: checked_good)

lemma gasSelfdestruct_good [simp]: "gas_result_good f (gasSelfdestruct E f sz)"
  by (auto simp: gasSelfdestruct_def Let_def intro!: with_back_good)

lemma makeSelfdestructGasFn_good [simp]: "gas_result_good f (makeSelfdestructGasFn E r f sz)"
  by (auto simp: makeSelfdestructGasFn_def Let_def intro!: with_back_good)

section \<open>The price of a call\<close>

text \<open>
  A price covers the gas passed on, and 9000 more if value is transferred; the sums do not wrap.
\<close>

definition call_low :: "('d frame \<Rightarrow> bool) \<Rightarrow> 'd frame \<Rightarrow> 'd frame \<Rightarrow> nat" where
  "call_low transfers f f' = unat (callGasTemp (evm f')) + (if transfers f then 9000 else 0)"

definition back_nonzero :: "nat \<Rightarrow> 'd frame \<Rightarrow> bool" where
  "back_nonzero n f \<longleftrightarrow> n < length (stack f) \<and> stack f ! n \<noteq> 0"

lemma gas_min_simps [simp]: "gas_min low f Panic" "gas_min low f OutOfFuel" "gas_min low f (gas_err e f')"
  "gas_min low f (gas_ok g f') \<longleftrightarrow> low f f' \<le> unat g"
  by (auto simp: gas_min_def)

lemma SafeAdd_unat: "\<not> snd (SafeAdd x y) \<longleftrightarrow> unat x + unat y < 2 ^ 64"
  "\<not> snd (SafeAdd x y) \<Longrightarrow> unat (fst (SafeAdd x y)) = unat x + unat y"
  by (auto simp: SafeAdd_def Add64_def unat_add_u64 split: if_splits)

lemma checked_SafeAdd_min:
  "(unat x + unat y < 2 ^ 64 \<Longrightarrow> gas_min low f (k (x + y))) \<Longrightarrow> gas_min low f (checked (SafeAdd x y) f' k)"
  by (auto simp: checked_def SafeAdd_def Add64_def)

lemma with_back_min: "(\<And>x. st_Back (stack f') n = Some x \<Longrightarrow> gas_min low f (k x)) \<Longrightarrow> gas_min low f (with_back n f' k)"
  by (simp add: with_back_def split: option.split)

lemma checked_min: "(\<And>v. gas_min low f (k v)) \<Longrightarrow> gas_min low f (checked r f' k)"
  by (cases r) (simp add: checked_def)

lemma then_gas_min:
  assumes "gas_result_good f r" and "\<And>g f'. keeps f f' \<Longrightarrow> f_Gas f' = f_Gas f \<Longrightarrow> gas_min low f (k g f')"
  shows "gas_min low f (then_gas r k)"
  using assms by (cases r) (auto simp: then_gas_def gas_result_good_def split: sum.splits)

lemma add_call_gas_good [intro]:
  "keeps f f' \<Longrightarrow> f_Gas f' = f_Gas f \<Longrightarrow> gas_result_good f (add_call_gas g f' sz)"
  unfolding add_call_gas_def Let_def
  by (rule with_back_good) (auto split: sum.split intro!: checked_good)

lemma add_call_gas_min:
  assumes "(if transfers f then 9000 else 0) \<le> unat g"
  shows "gas_min (call_low transfers) f (add_call_gas g f' sz)"
  unfolding add_call_gas_def Let_def
proof (rule with_back_min)
  fix x
  show "gas_min (call_low transfers) f
    (case callGas (IsEIP150 (chainRules (evm f'))) (f_Gas f') g x of
       Inl e \<Rightarrow> gas_err e (map_evm (callGasTemp_update (\<lambda>_. 0)) f')
     | Inr t \<Rightarrow> checked (SafeAdd g t) (map_evm (callGasTemp_update (\<lambda>_. t)) f')
                  (\<lambda>gas. gas_ok gas (map_evm (callGasTemp_update (\<lambda>_. t)) f')))"
    using assms by (auto split: sum.split intro!: checked_SafeAdd_min simp: call_low_def unat_add_u64)
qed

lemma gasDelegateCall_good [simp]: "gas_result_good f (gasDelegateCall f sz)"
  unfolding gasDelegateCall_def by (intro then_gas_good) auto

lemma gasStaticCall_good [simp]: "gas_result_good f (gasStaticCall f sz)"
  unfolding gasStaticCall_def by (intro then_gas_good) auto

lemma gasCallCode_good [simp]: "gas_result_good f (gasCallCode f sz)"
  unfolding gasCallCode_def Let_def by (intro then_gas_good with_back_good checked_good) auto

lemma gasCall_good [simp]: "gas_result_good f (gasCall E f sz)"
  unfolding gasCall_def Let_def
  by (intro with_back_good) (auto intro!: then_gas_good checked_good)

lemma gasDelegateCall_min: "gas_min (call_low (\<lambda>_. False)) f (gasDelegateCall f sz)"
  unfolding gasDelegateCall_def by (intro then_gas_min add_call_gas_min) auto

lemma gasStaticCall_min: "gas_min (call_low (\<lambda>_. False)) f (gasStaticCall f sz)"
  unfolding gasStaticCall_def by (intro then_gas_min add_call_gas_min) auto

lemma back_nonzero_back: "st_Back (stack f) n = Some v \<Longrightarrow> back_nonzero n f \<longleftrightarrow> v \<noteq> 0"
  by (auto simp: back_nonzero_def st_Back_def split: if_splits)

lemma keeps_back: "keeps f f' \<Longrightarrow> back_nonzero n f' \<longleftrightarrow> back_nonzero n f"
  by (simp add: keeps_def back_nonzero_def)

lemma keeps_rules: "keeps f f' \<Longrightarrow> chainRules (evm f') = chainRules (evm f)"
  by (simp add: keeps_def stable_iff)

lemma gasCallCode_min:
  assumes "\<not> IsEIP4762 (chainRules (evm f))"
  shows "gas_min (call_low (back_nonzero 2)) f (gasCallCode f sz)"
  unfolding gasCallCode_def Let_def
proof (intro then_gas_min pureMemoryGascost_good with_back_min checked_SafeAdd_min add_call_gas_min, goal_cases)
  case (1 g f' v)
  have "back_nonzero 2 f \<longleftrightarrow> v \<noteq> 0" using back_nonzero_back [OF 1(3)] keeps_back [OF 1(1)] by simp
  with 1 assms show ?case by (simp add: keeps_rules unat_add_u64)
qed

lemma gasCall_min:
  assumes "\<not> IsEIP4762 (chainRules (evm f))"
  shows "gas_min (call_low (back_nonzero 2)) f (gasCall E f sz)"
  unfolding gasCall_def Let_def
proof (intro with_back_min, goal_cases)
  case (1 v a)
  have t: "back_nonzero 2 f \<longleftrightarrow> v \<noteq> 0" using back_nonzero_back [OF 1(1)] .
  show ?case (is "gas_min _ _ (if _ then _ else then_gas _ (\<lambda>g f'. checked (SafeAdd ?g g) f' _))")
  proof -
    have "(if back_nonzero 2 f then 9000 else 0) \<le> unat ?g" using t assms by simp
    then have "(if back_nonzero 2 f then 9000 else 0) \<le> unat (?g + g)" if "unat ?g + unat g < 2 ^ 64" for g :: u64
      using that by (simp only: unat_add_u64)
    then have "gas_min (call_low (back_nonzero 2)) f (then_gas (pureMemoryGascost f sz)
        (\<lambda>g f'. checked (SafeAdd ?g g) f' (\<lambda>gas. add_call_gas gas f' sz)))"
      by (intro then_gas_min checked_SafeAdd_min add_call_gas_min pureMemoryGascost_good)
    then show ?thesis by (simp only: if_split gas_min_simps) blast
  qed
qed

subsection \<open>Surcharges\<close>

lemma frame_UseGas_eq:
  "frame_UseGas g f = (if f_Gas f < g then (False, f) else (True, set_gas (f_Gas f - g) f))"
  by (simp add: frame_UseGas_def UseGas_def)

text \<open>What was taken from the contract before is given back and added to the price.\<close>

definition add_back :: "u64 \<Rightarrow> u64 \<Rightarrow> 'd frame \<Rightarrow> ((evm_error + u64) \<times> 'd frame) outcome" where
  "add_back c gas f = (let f = set_gas (f_Gas f + c) f in checked (SafeAdd gas c) f (\<lambda>gas. gas_ok gas f))"

lemma add_back_good:
  assumes "gas_result_good f1 r" and "keeps f f1" and "f_Gas f1 + c = f_Gas f" and "f_Gas f1 \<le> f_Gas f"
  shows "gas_result_good f (then_gas r (add_back c))"
proof (cases r)
  case (Ret p)
  with assms show ?thesis
    by (cases p) (auto simp: then_gas_def add_back_def Let_def checked_def gas_result_good_def
        intro: keeps_trans split: sum.splits prod.splits)
qed (use assms in \<open>auto simp: then_gas_def gas_result_good_def\<close>)

lemma add_back_min:
  assumes "gas_min (call_low tr) f1 r" and "tr f1 = tr f"
  shows "gas_min (call_low tr) f (then_gas r (add_back c))"
proof (cases r)
  case (Ret p)
  obtain g f' where p: "p = (g, f')" by (cases p)
  show ?thesis
  proof (cases g)
    case (Inl e)
    then show ?thesis by (simp add: Ret p then_gas_def)
  next
    case (Inr gas)
    with assms Ret p have "call_low tr f f' \<le> unat gas" by (auto simp: gas_min_def call_low_def)
    then show ?thesis
      by (auto simp: Ret p Inr then_gas_def add_back_def Let_def call_low_def unat_add_u64 intro!: checked_SafeAdd_min)
  qed
qed (auto simp: then_gas_def)

lemma word_sub_le_u64: "c \<le> g \<Longrightarrow> g - c \<le> g" for g :: u64
  by (simp add: word_le_nat_alt unat_sub)

lemma makeCallVariantGasCallEIP2929_good:
  assumes "\<And>f. gas_result_good f (old f sz)"
  shows "gas_result_good f (makeCallVariantGasCallEIP2929 E old n f sz)"
  unfolding makeCallVariantGasCallEIP2929_def Let_def add_back_def [symmetric, unfolded Let_def]
  by (rule with_back_good)
    (auto simp: assms frame_UseGas_eq not_less split: prod.splits intro!: add_back_good [OF assms] word_sub_le_u64)

lemma makeCallVariantGasCallEIP2929_min:
  assumes "\<And>f. P f \<Longrightarrow> gas_min (call_low tr) f (old f sz)" and "P f" and "\<And>f f'. keeps f f' \<Longrightarrow> P f' = P f"
    and "\<And>f f'. keeps f f' \<Longrightarrow> tr f' = tr f"
  shows "gas_min (call_low tr) f (makeCallVariantGasCallEIP2929 E old n f sz)"
  unfolding makeCallVariantGasCallEIP2929_def Let_def add_back_def [symmetric, unfolded Let_def]
proof (rule with_back_min, goal_cases)
  case (1 a)
  let ?f = "set_gas (f_Gas f - (2600 - 100)) (set_db (AddAddressToAccessList (DB E) (Bytes20 a)) f)"
  have k: "keeps f ?f" by simp
  then have "gas_min (call_low tr) ?f (old ?f sz)" by (intro assms(1)) (simp only: assms(3) [OF k] assms(2))
  from add_back_min [OF this assms(4) [OF k]] show ?case
    by (auto simp: assms frame_UseGas_eq)
qed

text \<open>The charges in front of a call after EIP-7702: the frame they leave and what they sum to.\<close>

definition charges_7702 :: "'d env \<Rightarrow> 'd frame \<Rightarrow> Address \<Rightarrow> (bool \<times> 'd frame \<times> u64)" where
  "charges_7702 E f addr =
     (let cold = (\<not> AddressInAccessList (DB E) (f_db f) addr);
          coldCost = ColdAccountAccessCostEIP2929 - WarmStorageReadCostEIP2929;
          f = (if cold then set_db (AddAddressToAccessList (DB E) addr) f else f);
          (ok, f) = (if cold then frame_UseGas coldCost f else (True, f));
          total_gas = (if cold then coldCost else 0)
      in if \<not> ok then (False, f, total_gas)
         else
           (case ParseDelegation (GetCode (DB E) (f_db f) addr) of
              None \<Rightarrow> (True, f, total_gas)
            | Some target \<Rightarrow>
                (let warm = AddressInAccessList (DB E) (f_db f) target;
                     cost = (if warm then WarmStorageReadCostEIP2929 else ColdAccountAccessCostEIP2929);
                     f = (if warm then f else set_db (AddAddressToAccessList (DB E) target) f);
                     (ok, f) = frame_UseGas cost f
                 in (ok, f, total_gas + cost))))"

lemma makeCallVariantGasCallEIP7702_eq:
  "makeCallVariantGasCallEIP7702 E old f sz =
     with_back 1 f (\<lambda>a.
       (let (ok, f, total_gas) = charges_7702 E f (Bytes20 a)
        in if \<not> ok then gas_err evm_error.ErrOutOfGas f else then_gas (old f sz) (add_back total_gas)))"
  unfolding makeCallVariantGasCallEIP7702_def charges_7702_def add_back_def [symmetric, unfolded Let_def] Let_def
  by (rule arg_cong [of _ _ "with_back 1 f"], rule ext) (simp add: frame_UseGas_eq split: option.split prod.split)

lemma charges_7702:
  assumes "charges_7702 E f addr = (ok, f', t)"
  shows "keeps f f'" "f_Gas f' \<le> f_Gas f" "ok \<Longrightarrow> f_Gas f' + t = f_Gas f"
proof -
  have two: "g - 2500 - c \<le> g" if "2500 \<le> g" "c \<le> g - 2500" for g c :: u64
    using word_sub_le_u64 [OF that(2)] word_sub_le_u64 [OF that(1)] by (rule order_trans)
  have "g - 2600 \<le> g" if "2500 \<le> g" "100 \<le> g - 2500" for g :: u64 using two [OF that] by simp
  moreover have "g - 5100 \<le> g" if "2500 \<le> g" "2600 \<le> g - 2500" for g :: u64 using two [OF that] by simp
  ultimately show "f_Gas f' \<le> f_Gas f" "ok \<Longrightarrow> f_Gas f' + t = f_Gas f"
    using assms
    by (auto simp: charges_7702_def Let_def frame_UseGas_eq not_less intro: word_sub_le_u64
        split: option.splits if_splits)
  show "keeps f f'"
    using assms
    by (auto simp: charges_7702_def Let_def frame_UseGas_eq keeps_def stable_iff split: option.splits if_splits)
qed

lemma makeCallVariantGasCallEIP7702_good:
  assumes "\<And>f. gas_result_good f (old f sz)"
  shows "gas_result_good f (makeCallVariantGasCallEIP7702 E old f sz)"
  unfolding makeCallVariantGasCallEIP7702_eq Let_def
  by (rule with_back_good) (auto split: prod.split simp: charges_7702 intro!: add_back_good [OF assms])

lemma makeCallVariantGasCallEIP7702_min:
  assumes "\<And>f. P f \<Longrightarrow> gas_min (call_low tr) f (old f sz)" and "P f" and "\<And>f f'. keeps f f' \<Longrightarrow> P f' = P f"
    and "\<And>f f'. keeps f f' \<Longrightarrow> tr f' = tr f"
  shows "gas_min (call_low tr) f (makeCallVariantGasCallEIP7702 E old f sz)"
  unfolding makeCallVariantGasCallEIP7702_eq Let_def
proof (rule with_back_min, goal_cases)
  case (1 a)
  obtain ok f' t where c: "charges_7702 E f (Bytes20 a) = (ok, f', t)" by (cases "charges_7702 E f (Bytes20 a)")
  note k = charges_7702(1) [OF c]
  have "gas_min (call_low tr) f' (old f' sz)" by (intro assms(1)) (simp only: assms(3) [OF k] assms(2))
  from add_back_min [OF this assms(4) [OF k]] show ?case by (simp add: c)
qed

subsection \<open>Prices that are never zero\<close>

abbreviation gas_pos :: "'d frame \<Rightarrow> ((evm_error + u64) \<times> 'd frame) outcome \<Rightarrow> bool" where
  "gas_pos \<equiv> gas_min (\<lambda>_ _. Suc 0)"

lemma exp_gas_pos: "gas_pos f (exp_gas n f sz)"
  unfolding exp_gas_def Let_def by (intro with_back_min checked_SafeAdd_min) (simp add: unat_add_u64)

lemma makeGasLog_pos: "gas_pos f (makeGasLog n f sz)"
  unfolding makeGasLog_def
  by (intro with_back_min checked_min then_gas_min checked_SafeAdd_min pureMemoryGascost_good) (simp add: unat_add_u64)

lemma dirty_refunds_pos:
  "0 < g \<Longrightarrow> gas_pos f (obind (dirty_refunds E a b c current original val f') (gas_ok g))"
  using dirty_refunds_cases [of E a b c current original val f'] by (auto simp: word_less_nat_alt Suc_le_eq)

lemma gasSStore_pos: "gas_pos f (gasSStore E f sz)"
  by (auto simp: gasSStore_def Let_def split: prod.split intro!: with_back_min dirty_refunds_pos)

lemma gasSStoreEIP2200_pos: "gas_pos f (gasSStoreEIP2200 E f sz)"
  by (auto simp: gasSStoreEIP2200_def Let_def split: prod.split intro!: with_back_min dirty_refunds_pos)

lemma makeGasSStoreFunc_pos: "gas_pos f (makeGasSStoreFunc E r f sz)"
  by (auto simp: makeGasSStoreFunc_def Let_def split: prod.split intro!: with_back_min dirty_refunds_pos)

lemma gasSLoadEIP2929_pos: "gas_pos f (gasSLoadEIP2929 E f sz)"
  by (auto simp: gasSLoadEIP2929_def Let_def intro!: with_back_min)

section \<open>Instructions\<close>

text \<open>
  \<open>exec_keeps ex\<close>: the instruction ends, leaves the gas and what \<open>stable\<close> says; \<open>exec_halts ex\<close>: it returns an
  error value (of which \<open>errStopToken\<close> is the regular one).
\<close>

definition exec_keeps :: "'d executionFunc \<Rightarrow> bool" where
  "exec_keeps ex \<longleftrightarrow>
     (\<forall>f. case ex f of Panic \<Rightarrow> True | OutOfFuel \<Rightarrow> False
          | Ret (r, f') \<Rightarrow> stable (evm f) (evm f') \<and> f_Gas f' = f_Gas f)"

definition exec_halts :: "'d executionFunc \<Rightarrow> bool" where
  "exec_halts ex \<longleftrightarrow> (\<forall>f res f'. ex f \<noteq> Ret ((res, None), f'))"

named_theorems ops_keep \<open>instructions that keep the gas of the frame\<close>

lemma exec_keepsI:
  "(\<And>f. ex f \<noteq> OutOfFuel) \<Longrightarrow> (\<And>f r f'. ex f = Ret (r, f') \<Longrightarrow> stable (evm f) (evm f') \<and> f_Gas f' = f_Gas f) \<Longrightarrow> exec_keeps ex"
  by (auto simp: exec_keeps_def split: outcome.split)

lemma of_option_not_OutOfFuel [simp]: "of_option x \<noteq> OutOfFuel"
  by (cases x) auto

lemma of_option_eq_Ret [simp]: "of_option x = Ret a \<longleftrightarrow> x = Some a"
  by (cases x) auto

lemma obind_eq_OutOfFuel: "obind x f = OutOfFuel \<longleftrightarrow> x = OutOfFuel \<or> (\<exists>a. x = Ret a \<and> f a = OutOfFuel)"
  by (cases x) auto

lemma obind_eq_Panic: "obind x f = Panic \<longleftrightarrow> x = Panic \<or> (\<exists>a. x = Ret a \<and> f a = Panic)"
  by (cases x) auto

lemmas obind_iffs = obind_eq_Ret obind_eq_OutOfFuel obind_eq_Panic

lemma shapes_keep [ops_keep]: "exec_keeps (unop g)" "exec_keeps (binop h)" "exec_keeps (ternop k)" "exec_keeps (push_op p)"
  by (rule exec_keepsI; auto simp: unop_def binop_def ternop_def push_op_def obind_iffs split: list.splits)+

lemma unop_keep [ops_keep]: "exec_keeps (\<lambda>f. unop (g f) f)"
  by (rule exec_keepsI) (auto simp: unop_def split: list.splits)

lemmas op_shape_defs =
  opAdd_def opSub_def opMul_def opDiv_def opSdiv_def opMod_def opSmod_def opExp_def opSignExtend_def opNot_def opLt_def
  opGt_def opSlt_def opSgt_def opEq_def opIszero_def opAnd_def opOr_def opXor_def opByte_def opAddmod_def opMulmod_def
  opSHL_def opSHR_def opSAR_def opCLZ_def opAddress_def opOrigin_def opCaller_def opCallValue_def opCallDataSize_def
  opReturnDataSize_def opCodeSize_def opGasprice_def opCoinbase_def opTimestamp_def opNumber_def opDifficulty_def
  opRandom_def opGasLimit_def opSelfBalance_def opChainID_def opBaseFee_def opBlobBaseFee_def opSlotNum_def opPc_def
  opMsize_def opGas_def opPush0_def

lemmas op_unop_defs =
  opBalance_def opExtCodeSize_def opExtCodeHash_def opBlockhash_def opBlobHash_def opSload_def opTload_def

lemma shaped_ops_keep [ops_keep]:
  "exec_keeps (opAdd E)" "exec_keeps (opSub E)" "exec_keeps (opMul E)" "exec_keeps (opDiv E)" "exec_keeps (opSdiv E)"
  "exec_keeps (opMod E)" "exec_keeps (opSmod E)" "exec_keeps (opExp E)" "exec_keeps (opSignExtend E)" "exec_keeps (opNot E)"
  "exec_keeps opLt" "exec_keeps opGt" "exec_keeps (opSlt E)" "exec_keeps (opSgt E)" "exec_keeps opEq" "exec_keeps opIszero"
  "exec_keeps (opAnd E)" "exec_keeps (opOr E)" "exec_keeps (opXor E)" "exec_keeps (opByte E)" "exec_keeps (opAddmod E)"
  "exec_keeps (opMulmod E)" "exec_keeps (opSHL E)" "exec_keeps (opSHR E)" "exec_keeps (opSAR E)" "exec_keeps opCLZ"
  "exec_keeps opAddress" "exec_keeps opOrigin" "exec_keeps opCaller" "exec_keeps opCallValue" "exec_keeps opCallDataSize"
  "exec_keeps opReturnDataSize" "exec_keeps opCodeSize" "exec_keeps opGasprice" "exec_keeps opCoinbase"
  "exec_keeps opTimestamp" "exec_keeps opNumber" "exec_keeps opDifficulty" "exec_keeps opRandom" "exec_keeps opGasLimit"
  "exec_keeps (opSelfBalance E)" "exec_keeps opChainID" "exec_keeps opBaseFee" "exec_keeps opBlobBaseFee"
  "exec_keeps opSlotNum" "exec_keeps opPc" "exec_keeps opMsize" "exec_keeps opGas" "exec_keeps opPush0"
  by (simp_all only: op_shape_defs shapes_keep)

lemma unop_ops_keep [ops_keep]:
  "exec_keeps (opBalance E)" "exec_keeps (opExtCodeSize E)" "exec_keeps (opExtCodeHash E)" "exec_keeps opBlockhash"
  "exec_keeps opBlobHash" "exec_keeps (opSload E)" "exec_keeps (opTload E)"
  unfolding op_unop_defs [abs_def] by (rule unop_keep)+

lemma copy_data_keep:
  "copy_data d a b c f = Ret (r, f') \<Longrightarrow> evm f' = evm f \<and> contract f' = contract f" "copy_data d a b c f \<noteq> OutOfFuel"
  by (auto simp: copy_data_def Let_def Uint64WithOverflow_def obind_iffs)

lemma opKeccak256_keep [ops_keep]: "exec_keeps (opKeccak256 E)"
proof (rule exec_keepsI)
  fix f r f'
  assume "opKeccak256 E f = Ret (r, f')"
  then show "stable (evm f) (evm f') \<and> f_Gas f' = f_Gas f"
    by (cases "EnablePreimageRecording (evm f)")
      (auto simp: opKeccak256_def Let_def obind_iffs stable_iff split: list.splits)
qed (auto simp: opKeccak256_def Let_def obind_iffs split: list.splits)

lemma data_ops_keep [ops_keep]:
  "exec_keeps opCallDataLoad" "exec_keeps opCallDataCopy" "exec_keeps (opReturnDataCopy E)"
  "exec_keeps opCodeCopy" "exec_keeps (opExtCodeCopy E)" "exec_keeps opPop" "exec_keeps opMload" "exec_keeps opMstore"
  "exec_keeps opMstore8" "exec_keeps opMcopy"
  by (rule exec_keepsI;
      auto simp: opCallDataLoad_def opCallDataCopy_def opReturnDataCopy_def opCodeCopy_def opExtCodeCopy_def
        opPop_def opMload_def opMstore_def opMstore8_def opMcopy_def Let_def Uint64WithOverflow_def obind_iffs copy_data_keep(2)
        stable_iff dest: copy_data_keep(1) split: list.splits if_splits)+

lemma isCode_contract:
  "isCode c j d = Some (b, c', j') \<Longrightarrow> c' = c\<lparr>analysis := analysis c'\<rparr>"
  by (auto simp: isCode_def bind_eq_Some_conv split: option.splits if_splits)

lemma validJumpdest_contract:
  "validJumpdest c j d = Some (b, c', j') \<Longrightarrow> c' = c\<lparr>analysis := analysis c'\<rparr>"
  by (auto simp: validJumpdest_def Let_def split: prod.splits if_splits dest: isCode_contract)

lemma validJumpdest_Gas: "validJumpdest c j d = Some (b, c', j') \<Longrightarrow> Gas c' = Gas c"
  using validJumpdest_contract [of c j d b c' j'] by (metis Contract.select_convs(9) Contract.surjective Contract.update_convs(3))

lemma jump_to_keep:
  "jump_to p f = Ret (r, f') \<Longrightarrow> stable (evm f) (evm f') \<and> f_Gas f' = f_Gas f" "jump_to p f \<noteq> OutOfFuel"
  by (auto simp: jump_to_def Let_def obind_iffs stable_iff validJumpdest_Gas split: if_splits)

lemma control_ops_keep [ops_keep]:
  "exec_keeps (opSstore E)" "exec_keeps (opTstore E)" "exec_keeps opJump" "exec_keeps opJumpi" "exec_keeps opJumpdest"
  "exec_keeps (opSwap n)" "exec_keeps (makeDup n)" "exec_keeps opPush1" "exec_keeps (opPush2 E)" "exec_keeps (makePush E sz n)"
  "exec_keeps (makeLog E n)" "exec_keeps opDupN" "exec_keeps opSwapN" "exec_keeps opExchange"
  by (rule exec_keepsI;
      auto simp: opSstore_def opTstore_def opJump_def opJumpi_def opJumpdest_def opSwap_def makeDup_def opPush1_def opPush2_def
        makePush_def push_bounds_def makeLog_def opDupN_def opSwapN_def opExchange_def Let_def obind_iffs stable_iff jump_to_keep(2)
        dest: jump_to_keep(1) split: list.splits if_splits prod.splits)+

lemma halting_ops_keep [ops_keep]:
  "exec_keeps opReturn" "exec_keeps opRevert" "exec_keeps opUndefined" "exec_keeps opStop" "exec_keeps (opSelfdestruct E)"
  "exec_keeps (opSelfdestruct6780 E)"
  by (rule exec_keepsI;
      auto simp: opReturn_def opRevert_def opUndefined_def opStop_def opSelfdestruct_def opSelfdestruct6780_def Let_def obind_iffs
        stable_iff split: list.splits if_splits)+

lemma halting_ops_halt [simp]:
  "exec_halts opReturn" "exec_halts opRevert" "exec_halts opUndefined" "exec_halts opStop" "exec_halts (opSelfdestruct E)"
  "exec_halts (opSelfdestruct6780 E)"
  by (auto simp: exec_halts_def opReturn_def opRevert_def opUndefined_def opStop_def opSelfdestruct_def opSelfdestruct6780_def
      Let_def obind_iffs split: list.splits if_splits)

section \<open>The interface to other frames\<close>

definition call_ok :: "u64 \<Rightarrow> 'd EVM \<Rightarrow> 'd call_result \<Rightarrow> bool" where
  "call_ok gas m r \<longleftrightarrow>
     (case r of Panic \<Rightarrow> True | OutOfFuel \<Rightarrow> False | Ret ((ret, g, e), m') \<Rightarrow> g \<le> gas \<and> stable m m')"

definition create_ok :: "u64 \<Rightarrow> 'd EVM \<Rightarrow> 'd create_result \<Rightarrow> bool" where
  "create_ok gas m r \<longleftrightarrow>
     (case r of Panic \<Rightarrow> True | OutOfFuel \<Rightarrow> False | Ret ((ret, a, g, e), m') \<Rightarrow> g \<le> gas \<and> stable m m')"

locale call_interface =
  fixes K :: "'d calls" and ok :: "'d EVM \<Rightarrow> bool"
  assumes ok_stable: "ok m \<Longrightarrow> stable m m' \<Longrightarrow> ok m'"
    and ok_4762: "ok m \<Longrightarrow> \<not> IsEIP4762 (chainRules m)"
    and Call: "ok m \<Longrightarrow> call_ok gas m (do_Call K m clr addr input gas val)"
    and CallCode: "ok m \<Longrightarrow> call_ok gas m (do_CallCode K m clr addr input gas val)"
    and DelegateCall: "ok m \<Longrightarrow> call_ok gas m (do_DelegateCall K m org clr addr input gas val)"
    and StaticCall: "ok m \<Longrightarrow> call_ok gas m (do_StaticCall K m clr addr input gas)"
    and Create: "ok m \<Longrightarrow> create_ok gas m (do_Create K m clr input gas val)"
    and Create2: "ok m \<Longrightarrow> create_ok gas m (do_Create2 K m clr input gas val salt)"

text \<open>What one step of an operation does to gas and machine.\<close>

definition step_good :: "('d EVM \<Rightarrow> bool) \<Rightarrow> 'd operation \<Rightarrow> bool" where
  "step_good ok op \<longleftrightarrow>
     (\<forall>f. ok (evm f) \<longrightarrow>
        (case step_op op f of Panic \<Rightarrow> True | OutOfFuel \<Rightarrow> False
         | Ret ((res, err), f') \<Rightarrow> stable (evm f) (evm f') \<and> f_Gas f' \<le> f_Gas f \<and> (err = None \<longrightarrow> f_Gas f' < f_Gas f)))"

text \<open>
  The instructions that enter frames: the gas left is at most the gas before, and for calls the gas passed on
  and the stipend on top of it.
\<close>

lemma RefundGas_Gas [simp]: "Gas (RefundGas g c) = Gas c + g"
  by (simp add: RefundGas_def)

lemma finish_call_ok:
  assumes "call_ok gas (evm f) r" and "unat (f_Gas f) + unat gas < 2 ^ 64"
  shows "case finish_call a b f r of Panic \<Rightarrow> True | OutOfFuel \<Rightarrow> False
         | Ret (x, f') \<Rightarrow> stable (evm f) (evm f') \<and> unat (f_Gas f') \<le> unat (f_Gas f) + unat gas"
proof (cases r)
  case Panic
  then show ?thesis by (simp add: finish_call_def)
next
  case OutOfFuel
  with assms show ?thesis by (simp add: call_ok_def)
next
  case (Ret p)
  obtain ret g e m where p: "p = ((ret, g, e), m)" by (cases p) auto
  have g: "g \<le> gas" "stable (evm f) m" using assms(1) by (auto simp: call_ok_def Ret p)
  then have "unat (f_Gas f + g) \<le> unat (f_Gas f) + unat gas"
    using assms(2) by (subst unat_add_u64) (auto simp: word_le_nat_alt)
  with g(2) show ?thesis
    by (auto simp: finish_call_def Ret p Let_def obind_def of_option_def stable_iff split: outcome.split option.split)
qed

lemma finish_create_ok:
  assumes "g \<le> f_Gas f0 - f_Gas f" and "f_Gas f \<le> f_Gas f0"
  shows "\<exists>r f'. finish_create v res g e f = Ret (r, f') \<and> stable (evm f) (evm f') \<and> f_Gas f' \<le> f_Gas f0"
proof -
  have "unat (f_Gas f) + unat g \<le> unat (f_Gas f0)"
    using assms by (simp add: word_le_nat_alt unat_sub)
  then have "f_Gas f + g \<le> f_Gas f0"
    using u64_lt [of "f_Gas f0"] by (simp add: word_le_nat_alt unat_add_u64)
  then show ?thesis by (auto simp: finish_create_def Let_def stable_iff)
qed

section \<open>One step\<close>

abbreviation good_prices :: "'d operation \<Rightarrow> bool" where
  "good_prices op \<equiv> (\<forall>dg f sz. dynamicGas op = Some dg \<longrightarrow> gas_result_good f (dg f sz))"

text \<open>\<open>paid op f g f'\<close>: the dynamic price \<open>g\<close> of the operation was asked for in frame \<open>f\<close> and \<open>f'\<close> is the frame left.\<close>

definition paid :: "'d operation \<Rightarrow> 'd frame \<Rightarrow> u64 \<Rightarrow> 'd frame \<Rightarrow> bool" where
  "paid op f g f' \<longleftrightarrow> keeps f f' \<and> f_Gas f' = f_Gas f \<and> g \<le> f_Gas f \<and> (dynamicGas op = None \<longrightarrow> g = 0) \<and>
     (\<forall>dg. dynamicGas op = Some dg \<longrightarrow> (\<exists>sz. dg f sz = gas_ok g f'))"

lemma op_memory_cases: "op_memory op f = Panic \<or> (\<exists>r. op_memory op f = Ret r)"
  by (auto simp: op_memory_def obind_def of_option_def Let_def split: option.split prod.split)

lemma gas_result_good_cases:
  assumes "gas_result_good f r"
  obtains "r = Panic" | e f' where "r = gas_err e f'" "keeps f f'" "f_Gas f' \<le> f_Gas f"
  | g f' where "r = gas_ok g f'" "keeps f f'" "f_Gas f' = f_Gas f"
proof (cases r)
  case (Ret p)
  obtain x f' where p: "p = (x, f')" by (cases p)
  from assms show thesis
    by (cases x) (auto simp: Ret p intro: that(2,3))
qed (use assms that in \<open>auto simp: gas_result_good_def\<close>)

lemma charge_dynamic_cases:
  assumes "good_prices op"
  obtains "charge_dynamic op f = Panic"
  | e f' where "charge_dynamic op f = gas_err e f'" "keeps f f'" "f_Gas f' \<le> f_Gas f"
  | sz g f' where "charge_dynamic op f = gas_ok sz (set_gas (f_Gas f - g) f')" "paid op f g f'"
proof (cases "dynamicGas op")
  case None
  then have "charge_dynamic op f = gas_ok 0 (set_gas (f_Gas f - 0) f)" "paid op f 0 f"
    by (auto simp: charge_dynamic_def paid_def)
  then show thesis by (rule that(3))
next
  case (Some dg)
  consider "op_memory op f = Panic" | e where "op_memory op f = Ret (Inl e)" | sz where "op_memory op f = Ret (Inr sz)"
    using op_memory_cases [of op f] by (metis sum.exhaust)
  then show thesis
  proof cases
    case 1
    with that(1) Some show thesis by (simp add: charge_dynamic_def)
  next
    case (2 e)
    with that(2) [of e f] Some show thesis by (simp add: charge_dynamic_def)
  next
    case (3 sz)
    have good: "gas_result_good f (dg f sz)" using assms Some by blast
    then show thesis
    proof (cases rule: gas_result_good_cases)
      case 1
      with that(1) Some 3 show thesis by (simp add: charge_dynamic_def)
    next
      case (2 e f')
      with that(2) [of "ErrDynamicGas e" f'] Some 3 show thesis by (simp add: charge_dynamic_def)
    next
      case dg: (3 g f')
      show thesis
      proof (cases "f_Gas f < g")
        case True
        with that(2) [of evm_error.ErrOutOfGas f'] Some 3 dg show thesis by (simp add: charge_dynamic_def)
      next
        case False
        with Some dg have "paid op f g f'" by (auto simp: paid_def not_less)
        with that(3) [of sz g f'] Some 3 dg False show thesis by (simp add: charge_dynamic_def)
      qed
    qed
  qed
qed

text \<open>
  A step either stops with an error, or it pays both prices and executes; the frame that executes differs
  from the one that paid only in the memory.
\<close>

lemma step_op_cases:
  assumes "good_prices op"
  obtains "step_op op f = Panic"
  | e f' where "step_op op f = stop_with e f'" "stable (evm f) (evm f')" "f_Gas f' \<le> f_Gas f"
  | f1 g f2 f3 where "step_op op f = execute op f3" "f1 = set_gas (f_Gas f - constantGas op) f" "constantGas op \<le> f_Gas f"
      "paid op f1 g f2" "f_Gas f3 = f_Gas f1 - g" "evm f3 = evm f2" "stack f3 = stack f" "stable (evm f) (evm f3)"
proof (cases "check_stack op f")
  case (Some e)
  with that(2) [of e f] show thesis by (simp add: step_op_def)
next
  case None
  show thesis
  proof (cases "f_Gas f < constantGas op")
    case True
    with None that(2) [of evm_error.ErrOutOfGas f] show thesis by (simp add: step_op_def)
  next
    case False
    let ?f1 = "set_gas (f_Gas f - constantGas op) f"
    have le: "f_Gas ?f1 \<le> f_Gas f" using False by (simp add: word_sub_le_u64 not_less)
    show thesis
    proof (cases rule: charge_dynamic_cases [OF assms, of ?f1])
      case 1
      with None False that(1) show thesis by (simp add: step_op_def Let_def)
    next
      case (2 e f')
      with None False le that(2) [of e f'] show thesis by (simp add: step_op_def Let_def keeps_def)
    next
      case (3 sz g f2)
      let ?f' = "set_gas (f_Gas ?f1 - g) f2"
      let ?f3 = "if sz > 0 then ?f'\<lparr>memory := mem_Resize sz (memory f2)\<rparr> else ?f'"
      have "step_op op f = execute op ?f3" using None False 3 by (simp add: step_op_def Let_def)
      moreover have "f_Gas ?f3 = f_Gas ?f1 - g" "evm ?f3 = evm f2" by simp_all
      moreover have "stack ?f3 = stack f" "stable (evm f) (evm ?f3)" using 3(2) by (auto simp: paid_def keeps_def)
      ultimately show thesis using that(3) [of ?f3 ?f1 g f2] 3(2) False by (simp add: not_less)
    qed
  qed
qed

lemma sub_less_u64: "c \<le> g \<Longrightarrow> 0 < c \<Longrightarrow> g - c < g" for g :: u64
  by (simp add: word_less_nat_alt word_le_nat_alt unat_sub)

lemma step_goodI:
  assumes "good_prices op"
    and "\<And>(f :: 'a frame) f1 g f2 f3. ok (evm f) \<Longrightarrow> f1 = set_gas (f_Gas f - constantGas op) f \<Longrightarrow> constantGas op \<le> f_Gas f \<Longrightarrow>
      paid op f1 g f2 \<Longrightarrow> f_Gas f3 = f_Gas f1 - g \<Longrightarrow> evm f3 = evm f2 \<Longrightarrow> stack f3 = stack f \<Longrightarrow> stable (evm f) (evm f3) \<Longrightarrow>
      (case execute op f3 of Panic \<Rightarrow> True | OutOfFuel \<Rightarrow> False
       | Ret ((res, err), f') \<Rightarrow> stable (evm f3) (evm f') \<and> f_Gas f' \<le> f_Gas f \<and> (err = None \<longrightarrow> f_Gas f' < f_Gas f))"
  shows "step_good ok op"
  unfolding step_good_def
proof (intro allI impI)
  fix f :: "'a frame"
  assume ok: "ok (evm f)"
  show "case step_op op f of Panic \<Rightarrow> True | OutOfFuel \<Rightarrow> False
    | Ret ((res, err), f') \<Rightarrow> stable (evm f) (evm f') \<and> f_Gas f' \<le> f_Gas f \<and> (err = None \<longrightarrow> f_Gas f' < f_Gas f)"
  proof (cases rule: step_op_cases [OF assms(1), of f])
    case (3 f1 g f2 f3)
    from assms(2) [OF ok 3(2-8)] 3(1,8) show ?thesis
      by (auto split: outcome.splits prod.splits intro: stable_trans)
  qed auto
qed

lemma plain_step:
  assumes "exec_keeps (execute op)" and "good_prices op"
    and "0 < constantGas op \<or> (\<exists>dg. dynamicGas op = Some dg \<and> (\<forall>f sz. gas_pos f (dg f sz))) \<or> exec_halts (execute op)"
  shows "step_good ok op"
proof (rule step_goodI [OF assms(2)])
  fix f f1 f2 f3 :: "'a frame" and g
  assume f1: "f1 = set_gas (f_Gas f - constantGas op) f" and c: "constantGas op \<le> f_Gas f"
    and p: "paid op f1 g f2" and g3: "f_Gas f3 = f_Gas f1 - g"
  have g: "g \<le> f_Gas f1" using p by (simp add: paid_def)
  have le: "f_Gas f3 \<le> f_Gas f1" "f_Gas f1 \<le> f_Gas f" using g c by (auto simp: g3 f1 word_sub_le_u64)
  have "0 < constantGas op \<or> 0 < g \<or> exec_halts (execute op)"
  proof (use assms(3) in \<open>elim disjE exE conjE\<close>)
    fix dg
    assume "dynamicGas op = Some dg" "\<forall>f sz. gas_pos f (dg f sz)"
    moreover from this p obtain sz where "dg f1 sz = gas_ok g f2" by (auto simp: paid_def)
    ultimately have "Suc 0 \<le> unat g" by (metis gas_min_simps(4))
    then show ?thesis by (simp add: word_less_nat_alt)
  qed auto
  then have "f_Gas f3 < f_Gas f \<or> exec_halts (execute op)"
    using le sub_less_u64 [OF c] sub_less_u64 [OF g] by (auto simp: g3 f1)
  with assms(1) le show "case execute op f3 of Panic \<Rightarrow> True | OutOfFuel \<Rightarrow> False
    | Ret ((res, err), f') \<Rightarrow> stable (evm f3) (evm f') \<and> f_Gas f' \<le> f_Gas f \<and> (err = None \<longrightarrow> f_Gas f' < f_Gas f)"
    by (cases "execute op f3") (auto simp: exec_keeps_def exec_halts_def split: outcome.splits prod.splits dest!: spec [of _ f3])
qed

text \<open>\<open>call_exec ok tr ex\<close>: an instruction that passes \<open>callGasTemp\<close> on, with the stipend where \<open>tr\<close> says so.\<close>

definition call_exec :: "('d EVM \<Rightarrow> bool) \<Rightarrow> ('d frame \<Rightarrow> bool) \<Rightarrow> 'd executionFunc \<Rightarrow> bool" where
  "call_exec ok tr ex \<longleftrightarrow>
     (\<forall>f. let bound = unat (f_Gas f) + unat (callGasTemp (evm f)) + (if tr f then 2300 else 0)
          in ok (evm f) \<and> bound < 2 ^ 64 \<longrightarrow>
             (case ex f of Panic \<Rightarrow> True | OutOfFuel \<Rightarrow> False
              | Ret (r, f') \<Rightarrow> stable (evm f) (evm f') \<and> unat (f_Gas f') \<le> bound))"

definition create_exec :: "('d EVM \<Rightarrow> bool) \<Rightarrow> 'd executionFunc \<Rightarrow> bool" where
  "create_exec ok ex \<longleftrightarrow>
     (\<forall>f. ok (evm f) \<longrightarrow>
        (case ex f of Panic \<Rightarrow> True | OutOfFuel \<Rightarrow> False | Ret (r, f') \<Rightarrow> stable (evm f) (evm f') \<and> f_Gas f' \<le> f_Gas f))"

lemma call_step:
  assumes "call_exec ok tr (execute op)" and "good_prices op" and "0 < constantGas op"
    and "dynamicGas op = Some dg" and min: "\<And>f sz. ok (evm f) \<Longrightarrow> gas_min (call_low tr) f (dg f sz)"
    and tr: "\<And>f f'. stack f' = stack f \<Longrightarrow> tr f' = tr f"
    and ok_stable: "\<And>m m'. ok m \<Longrightarrow> stable m m' \<Longrightarrow> ok m'"
  shows "step_good ok op"
proof (rule step_goodI [OF assms(2)])
  fix f f1 f2 f3 :: "'a frame" and g
  assume ok: "ok (evm f)" and f1: "f1 = set_gas (f_Gas f - constantGas op) f" and c: "constantGas op \<le> f_Gas f"
    and p: "paid op f1 g f2" and g3: "f_Gas f3 = f_Gas f1 - g" and e3: "evm f3 = evm f2" and s3: "stack f3 = stack f"
    and st: "stable (evm f) (evm f3)"
  have g: "g \<le> f_Gas f1" using p by (simp add: paid_def)
  obtain sz where dg: "dg f1 sz = gas_ok g f2" using p assms(4) by (auto simp: paid_def)
  have "call_low tr f1 f2 \<le> unat g" using min [of f1 sz] ok dg by (simp add: f1)
  moreover have "tr f1 = tr f3" using tr [of f1 f3] s3 by (simp add: f1)
  ultimately have low: "unat (callGasTemp (evm f3)) + (if tr f3 then 9000 else 0) \<le> unat g" by (simp add: call_low_def e3)
  have g3': "unat (f_Gas f3) = unat (f_Gas f1) - unat g" "unat g \<le> unat (f_Gas f1)"
    using g by (simp_all add: g3 unat_sub word_le_nat_alt)
  have lt: "unat (f_Gas f1) < unat (f_Gas f)" using sub_less_u64 [OF c assms(3)] by (simp add: f1 word_less_nat_alt)
  let ?b = "unat (f_Gas f3) + unat (callGasTemp (evm f3)) + (if tr f3 then 2300 else 0)"
  have b: "?b \<le> unat (f_Gas f1)" using low g3' by (auto split: if_splits)
  then have "?b < 2 ^ 64" using u64_lt [of "f_Gas f1"] by linarith
  moreover have "ok (evm f3)" using ok st by (rule ok_stable)
  ultimately have "case execute op f3 of Panic \<Rightarrow> True | OutOfFuel \<Rightarrow> False
      | Ret (r, f') \<Rightarrow> stable (evm f3) (evm f') \<and> unat (f_Gas f') \<le> ?b"
    using assms(1) unfolding call_exec_def Let_def by blast
  with b lt show "case execute op f3 of Panic \<Rightarrow> True | OutOfFuel \<Rightarrow> False
    | Ret ((res, err), f') \<Rightarrow> stable (evm f3) (evm f') \<and> f_Gas f' \<le> f_Gas f \<and> (err = None \<longrightarrow> f_Gas f' < f_Gas f)"
    by (auto simp: word_le_nat_alt word_less_nat_alt split: outcome.splits)
qed

lemma create_step:
  assumes "create_exec ok (execute op)" and "good_prices op" and "0 < constantGas op"
    and ok_stable: "\<And>m m'. ok m \<Longrightarrow> stable m m' \<Longrightarrow> ok m'"
  shows "step_good ok op"
proof (rule step_goodI [OF assms(2)])
  fix f f1 f2 f3 :: "'a frame" and g
  assume ok: "ok (evm f)" and f1: "f1 = set_gas (f_Gas f - constantGas op) f" and c: "constantGas op \<le> f_Gas f"
    and p: "paid op f1 g f2" and g3: "f_Gas f3 = f_Gas f1 - g" and st: "stable (evm f) (evm f3)"
  have "f_Gas f3 \<le> f_Gas f1" using p by (auto simp: paid_def g3 word_sub_le_u64)
  moreover have "f_Gas f1 < f_Gas f" using sub_less_u64 [OF c assms(3)] by (simp add: f1)
  moreover have "ok (evm f3)" using ok st by (rule ok_stable)
  ultimately show "case execute op f3 of Panic \<Rightarrow> True | OutOfFuel \<Rightarrow> False
    | Ret ((res, err), f') \<Rightarrow> stable (evm f3) (evm f') \<and> f_Gas f' \<le> f_Gas f \<and> (err = None \<longrightarrow> f_Gas f' < f_Gas f)"
    using assms(1) by (cases "execute op f3") (auto simp: create_exec_def split: outcome.splits dest!: spec [of _ f3])
qed

context call_interface
begin

lemma plus_stipend: "unat gas + 2300 < 2 ^ 64 \<Longrightarrow> unat (gas + 2300) = unat gas + 2300" for gas :: u64
  by (subst unat_add_u64) auto

lemma finish_exec:
  assumes "call_ok gas (evm f) r" and "unat (f_Gas f) + unat gas \<le> bound" and "bound < 2 ^ 64"
  shows "case finish_call a b (f\<lparr>stack := s\<rparr>) r of Panic \<Rightarrow> True | OutOfFuel \<Rightarrow> False
         | Ret (x, f') \<Rightarrow> stable (evm f) (evm f') \<and> unat (f_Gas f') \<le> bound"
  using finish_call_ok [of gas "f\<lparr>stack := s\<rparr>" r a b] assms by (auto split: outcome.splits)

lemma opCall_exec: "call_exec ok (back_nonzero 2) (opCall K)"
  unfolding call_exec_def Let_def
proof (intro allI impI, elim conjE)
  fix f :: "'d frame"
  let ?b = "unat (f_Gas f) + unat (callGasTemp (evm f)) + (if back_nonzero 2 f then 2300 else 0)"
  assume ok: "ok (evm f)" and b: "?b < 2 ^ 64"
  show "case opCall K f of Panic \<Rightarrow> True | OutOfFuel \<Rightarrow> False | Ret (r, f') \<Rightarrow> stable (evm f) (evm f') \<and> unat (f_Gas f') \<le> ?b"
    using b plus_stipend [of "callGasTemp (evm f)"] Call [OF ok]
    by (auto simp: opCall_def Let_def of_option_def back_nonzero_def split: list.splits option.splits
        intro!: finish_exec order_eq_refl)
qed

lemma opCallCode_exec: "call_exec ok (back_nonzero 2) (opCallCode K)"
  unfolding call_exec_def Let_def
proof (intro allI impI, elim conjE)
  fix f :: "'d frame"
  let ?b = "unat (f_Gas f) + unat (callGasTemp (evm f)) + (if back_nonzero 2 f then 2300 else 0)"
  assume ok: "ok (evm f)" and b: "?b < 2 ^ 64"
  show "case opCallCode K f of Panic \<Rightarrow> True | OutOfFuel \<Rightarrow> False | Ret (r, f') \<Rightarrow> stable (evm f) (evm f') \<and> unat (f_Gas f') \<le> ?b"
    using b plus_stipend [of "callGasTemp (evm f)"] CallCode [OF ok]
    by (auto simp: opCallCode_def Let_def of_option_def back_nonzero_def split: list.splits option.splits
        intro!: finish_exec order_eq_refl)
qed

lemma opDelegateCall_exec: "call_exec ok (\<lambda>_. False) (opDelegateCall K)"
  unfolding call_exec_def Let_def
proof (intro allI impI, elim conjE)
  fix f :: "'d frame"
  let ?b = "unat (f_Gas f) + unat (callGasTemp (evm f)) + (if False then 2300 else 0)"
  assume ok: "ok (evm f)" and b: "?b < 2 ^ 64"
  show "case opDelegateCall K f of Panic \<Rightarrow> True | OutOfFuel \<Rightarrow> False | Ret (r, f') \<Rightarrow> stable (evm f) (evm f') \<and> unat (f_Gas f') \<le> ?b"
    using b plus_stipend [of "callGasTemp (evm f)"] DelegateCall [OF ok]
    by (auto simp: opDelegateCall_def Let_def of_option_def back_nonzero_def split: list.splits option.splits
        intro!: finish_exec order_eq_refl)
qed

lemma opStaticCall_exec: "call_exec ok (\<lambda>_. False) (opStaticCall K)"
  unfolding call_exec_def Let_def
proof (intro allI impI, elim conjE)
  fix f :: "'d frame"
  let ?b = "unat (f_Gas f) + unat (callGasTemp (evm f)) + (if False then 2300 else 0)"
  assume ok: "ok (evm f)" and b: "?b < 2 ^ 64"
  show "case opStaticCall K f of Panic \<Rightarrow> True | OutOfFuel \<Rightarrow> False | Ret (r, f') \<Rightarrow> stable (evm f) (evm f') \<and> unat (f_Gas f') \<le> ?b"
    using b plus_stipend [of "callGasTemp (evm f)"] StaticCall [OF ok]
    by (auto simp: opStaticCall_def Let_def of_option_def back_nonzero_def split: list.splits option.splits
        intro!: finish_exec order_eq_refl)
qed

lemma create_result_ok:
  assumes "create_ok gas (evm f) r" and "gas \<le> f_Gas f"
  shows "case obind r (\<lambda>((res, addr, returnGas, suberr), m).
             finish_create (v m addr suberr) res returnGas suberr (f\<lparr>stack := s, contract := (contract f)\<lparr>Gas := f_Gas f - gas\<rparr>, evm := m\<rparr>)) of
           Panic \<Rightarrow> True | OutOfFuel \<Rightarrow> False | Ret (r, f') \<Rightarrow> stable (evm f) (evm f') \<and> f_Gas f' \<le> f_Gas f"
proof (cases r)
  case (Ret p)
  obtain res addr g e m where p: "p = ((res, addr, g, e), m)" by (cases p) auto
  have g: "g \<le> gas" "stable (evm f) m" using assms(1) by (auto simp: create_ok_def Ret p)
  let ?f = "f\<lparr>stack := s, contract := (contract f)\<lparr>Gas := f_Gas f - gas\<rparr>, evm := m\<rparr>"
  have "g \<le> f_Gas f - f_Gas ?f" "f_Gas ?f \<le> f_Gas f" using g assms(2) by (simp_all add: word_sub_le_u64)
  from finish_create_ok [OF this, of "v m addr e" res e] g(2) show ?thesis
    by (auto simp: Ret p intro: stable_trans)
qed (use assms in \<open>auto simp: create_ok_def\<close>)

lemma opCreate_exec: "create_exec ok (opCreate K)"
  unfolding create_exec_def
proof (intro allI impI)
  fix f :: "'d frame"
  assume ok: "ok (evm f)"
  let ?gas = "if IsEIP150 (chainRules (evm f)) then f_Gas f - f_Gas f div 64 else f_Gas f"
  have "f_Gas f div 64 \<le> f_Gas f" by (simp add: word_le_nat_alt unat_div)
  then have gas: "?gas \<le> f_Gas f" by (simp add: word_sub_le_u64)
  note r = create_result_ok [OF Create [OF ok] gas]
  show "case opCreate K f of Panic \<Rightarrow> True | OutOfFuel \<Rightarrow> False | Ret (r, f') \<Rightarrow> stable (evm f) (evm f') \<and> f_Gas f' \<le> f_Gas f"
    using gas r [of _ _ _ "\<lambda>m addr suberr. if IsHomestead (chainRules m) \<and> suberr = Some ErrCodeStoreOutOfGas then 0
        else if suberr \<noteq> None \<and> suberr \<noteq> Some ErrCodeStoreOutOfGas then 0 else addr_256 addr"]
    by (auto simp: opCreate_def Let_def of_option_def frame_UseGas_eq not_less split: list.splits option.splits simp del: if_split)
qed

lemma opCreate2_exec: "create_exec ok (opCreate2 K)"
  unfolding create_exec_def
proof (intro allI impI)
  fix f :: "'d frame"
  assume ok: "ok (evm f)"
  let ?gas = "f_Gas f - f_Gas f div 64"
  have "f_Gas f div 64 \<le> f_Gas f" by (simp add: word_le_nat_alt unat_div)
  then have gas: "?gas \<le> f_Gas f" by (simp add: word_sub_le_u64)
  note r = create_result_ok [OF Create2 [OF ok] gas]
  show "case opCreate2 K f of Panic \<Rightarrow> True | OutOfFuel \<Rightarrow> False | Ret (r, f') \<Rightarrow> stable (evm f) (evm f') \<and> f_Gas f' \<le> f_Gas f"
    using gas r [of _ _ _ _ "\<lambda>m addr suberr. if suberr \<noteq> None then 0 else addr_256 addr"]
    by (auto simp: opCreate2_def Let_def of_option_def frame_UseGas_eq not_less split: list.splits option.splits simp del: if_split)
qed

end

end
