(* ===== verification/Evm_Tables_Good.thy ===== *)
theory Evm_Tables_Good
  imports Evm_Termination
begin

text \<open>
  Facts about the jump tables: what the entries that later forks change are, that every table passes
  \<open>validate\<close>, and that every operation of every table except the one of EIP-4762 costs gas unless it halts.
\<close>

section \<open>Looking up entries\<close>

lemma op_of_updates [simp]:
  "(op_of ex cg dg mn mx ms)\<lparr>constantGas := c\<rparr> = op_of ex c dg mn mx ms"
  "(op_of ex cg dg mn mx ms)\<lparr>dynamicGas := d\<rparr> = op_of ex cg d mn mx ms"
  by (simp_all add: op_of_def)

lemma op_of_sels [simp]:
  "execute (op_of ex cg dg mn mx ms) = ex" "constantGas (op_of ex cg dg mn mx ms) = cg"
  "dynamicGas (op_of ex cg dg mn mx ms) = dg" "memorySize (op_of ex cg dg mn mx ms) = ms"
  "op_minStack (op_of ex cg dg mn mx ms) = mn" "op_maxStack (op_of ex cg dg mn mx ms) = mx"
  by (simp_all add: op_of_def)

lemmas frontier_parts =
  frontier_arithmetic_def frontier_environment_def frontier_block_memory_def frontier_push_low_def frontier_push_high_def
  frontier_dup_def frontier_swap_def frontier_system_def

lemma frontier_lookup:
  "newFrontierInstructionSet E K EXP = op_of (opExp E) 0 (Some gasExpFrontier) (minStack 2 1) (maxStack 2 1) None"
  "newFrontierInstructionSet E K BALANCE = op_of (opBalance E) BalanceGasFrontier None (minStack 1 1) (maxStack 1 1) None"
  "newFrontierInstructionSet E K EXTCODESIZE = op_of (opExtCodeSize E) ExtcodeSizeGasFrontier None (minStack 1 1) (maxStack 1 1) None"
  "newFrontierInstructionSet E K EXTCODECOPY =
     op_of (opExtCodeCopy E) ExtcodeCopyBaseFrontier (Some gasExtCodeCopy) (minStack 4 0) (maxStack 4 0) (Some memoryExtCodeCopy)"
  "newFrontierInstructionSet E K SLOAD = op_of (opSload E) SloadGasFrontier None (minStack 1 1) (maxStack 1 1) None"
  "newFrontierInstructionSet E K SSTORE = op_of (opSstore E) 0 (Some (gasSStore E)) (minStack 2 0) (maxStack 2 0) None"
  "newFrontierInstructionSet E K CREATE =
     op_of (opCreate K) CreateGas (Some gasCreate) (minStack 3 1) (maxStack 3 1) (Some memoryCreate)"
  "newFrontierInstructionSet E K CALL =
     op_of (opCall K) CallGasFrontier (Some (gasCall E)) (minStack 7 1) (maxStack 7 1) (Some memoryCall)"
  "newFrontierInstructionSet E K CALLCODE =
     op_of (opCallCode K) CallGasFrontier (Some gasCallCode) (minStack 7 1) (maxStack 7 1) (Some memoryCall)"
  "newFrontierInstructionSet E K SELFDESTRUCT =
     op_of (opSelfdestruct E) 0 (Some (gasSelfdestruct E)) (minStack 1 0) (maxStack 1 0) None"
  by (simp_all add: newFrontierInstructionSet_def frontier_parts)

text \<open>An assertion on every entry of a table; it holds of an updated table if it holds of the old table and the new entry.\<close>

definition all_ops :: "(byte \<Rightarrow> 'd operation \<Rightarrow> bool) \<Rightarrow> 'd JumpTable \<Rightarrow> bool" where
  "all_ops P jt \<longleftrightarrow> (\<forall>b. P b (jt b))"

lemma all_ops_upd [intro]: "all_ops P jt \<Longrightarrow> P b op \<Longrightarrow> all_ops P (jt(b := op))"
  by (simp add: all_ops_def)

lemma all_ops_frontier:
  assumes "list_all (\<lambda>(b, op). P b op) (frontier_arithmetic E)" "list_all (\<lambda>(b, op). P b op) (frontier_environment E)"
    "list_all (\<lambda>(b, op). P b op) (frontier_block_memory E)" "list_all (\<lambda>(b, op). P b op) (frontier_push_low E)"
    "list_all (\<lambda>(b, op). P b op) (frontier_push_high E)" "list_all (\<lambda>(b, op). P b op) frontier_dup"
    "list_all (\<lambda>(b, op). P b op) frontier_swap" "list_all (\<lambda>(b, op). P b op) (frontier_system E K)" "\<And>b. P b undefined_operation"
  shows "all_ops P (newFrontierInstructionSet E K)"
proof -
  have "P b op" if "(b, op) \<in> set (frontier_arithmetic E @ frontier_environment E @ frontier_block_memory E @ frontier_push_low E
      @ frontier_push_high E @ frontier_dup @ frontier_swap @ frontier_system E K)" for b op
    using that assms(1-8) unfolding list_all_iff by (simp only: set_append Un_iff) blast
  then show ?thesis
    unfolding all_ops_def newFrontierInstructionSet_def using assms(9)
    by (auto split: option.split dest: map_of_SomeD simp del: set_append map_of_append)
qed

lemma all_ops_reprice: "all_ops P jt \<Longrightarrow> P b ((jt b)\<lparr>constantGas := c, dynamicGas := Some g\<rparr>) \<Longrightarrow> all_ops P (reprice b c g jt)"
  by (simp add: reprice_def all_ops_upd)

lemma all_ops_dynamic: "all_ops P jt \<Longrightarrow> P b ((jt b)\<lparr>dynamicGas := Some g\<rparr>) \<Longrightarrow> all_ops P (set_dynamic b g jt)"
  by (simp add: set_dynamic_def all_ops_upd)

lemma all_ops_constant: "all_ops P jt \<Longrightarrow> P b ((jt b)\<lparr>constantGas := c\<rparr>) \<Longrightarrow> all_ops P (set_constant b c jt)"
  by (simp add: set_constant_def all_ops_upd)

lemmas all_ops_intros = all_ops_upd all_ops_reprice all_ops_dynamic all_ops_constant

text \<open>The entries that later forks change, in the table they change them in.\<close>

lemmas table_update_defs = set_constant_def set_dynamic_def reprice_def

lemmas fork_defs =
  newHomesteadInstructionSet_def newTangerineWhistleInstructionSet_def newSpuriousDragonInstructionSet_def
  newByzantiumInstructionSet_def newConstantinopleInstructionSet_def newIstanbulInstructionSet_def newBerlinInstructionSet_def
  newLondonInstructionSet_def newMergeInstructionSet_def newShanghaiInstructionSet_def newCancunInstructionSet_def

lemmas enable_defs =
  enable1344_def enable1884_def enable2200_def enable2929_def enable3529_def enable3198_def enable3855_def enable3860_def
  enable4844_def enable7516_def enable1153_def enable5656_def enable6780_def

lemma istanbul_lookup:
  "newIstanbulInstructionSet E K SLOAD = op_of (opSload E) SloadGasEIP2200 None (minStack 1 1) (maxStack 1 1) None"
  "newIstanbulInstructionSet E K SSTORE = op_of (opSstore E) 0 (Some (gasSStoreEIP2200 E)) (minStack 2 0) (maxStack 2 0) None"
  "newIstanbulInstructionSet E K EXTCODECOPY =
     op_of (opExtCodeCopy E) ExtcodeCopyBaseEIP150 (Some gasExtCodeCopy) (minStack 4 0) (maxStack 4 0) (Some memoryExtCodeCopy)"
  "newIstanbulInstructionSet E K EXTCODESIZE = op_of (opExtCodeSize E) ExtcodeSizeGasEIP150 None (minStack 1 1) (maxStack 1 1) None"
  "newIstanbulInstructionSet E K EXTCODEHASH = op_of (opExtCodeHash E) ExtcodeHashGasEIP1884 None (minStack 1 1) (maxStack 1 1) None"
  "newIstanbulInstructionSet E K BALANCE = op_of (opBalance E) BalanceGasEIP1884 None (minStack 1 1) (maxStack 1 1) None"
  "newIstanbulInstructionSet E K CALL =
     op_of (opCall K) CallGasEIP150 (Some (gasCall E)) (minStack 7 1) (maxStack 7 1) (Some memoryCall)"
  "newIstanbulInstructionSet E K CALLCODE =
     op_of (opCallCode K) CallGasEIP150 (Some gasCallCode) (minStack 7 1) (maxStack 7 1) (Some memoryCall)"
  "newIstanbulInstructionSet E K STATICCALL =
     op_of (opStaticCall K) CallGasEIP150 (Some gasStaticCall) (minStack 6 1) (maxStack 6 1) (Some memoryStaticCall)"
  "newIstanbulInstructionSet E K DELEGATECALL =
     op_of (opDelegateCall K) CallGasEIP150 (Some gasDelegateCall) (minStack 6 1) (maxStack 6 1) (Some memoryDelegateCall)"
  "newIstanbulInstructionSet E K SELFDESTRUCT =
     op_of (opSelfdestruct E) 0 (Some (gasSelfdestruct E)) (minStack 1 0) (maxStack 1 0) None"
  by (simp_all add: fork_defs enable_defs table_update_defs frontier_lookup Let_def)

lemma merge_lookup:
  "newMergeInstructionSet E K CREATE =
     op_of (opCreate K) CreateGas (Some gasCreate) (minStack 3 1) (maxStack 3 1) (Some memoryCreate)"
  "newMergeInstructionSet E K CREATE2 =
     op_of (opCreate2 K) Create2Gas (Some gasCreate2) (minStack 4 1) (maxStack 4 1) (Some memoryCreate2)"
  by (simp_all add: fork_defs enable_defs table_update_defs frontier_lookup Let_def)

lemma cancun_lookup:
  "newCancunInstructionSet E K CALL =
     op_of (opCall K) 100 (Some (gasCallEIP2929 E)) (minStack 7 1) (maxStack 7 1) (Some memoryCall)"
  "newCancunInstructionSet E K CALLCODE =
     op_of (opCallCode K) 100 (Some (gasCallCodeEIP2929 E)) (minStack 7 1) (maxStack 7 1) (Some memoryCall)"
  "newCancunInstructionSet E K STATICCALL =
     op_of (opStaticCall K) 100 (Some (gasStaticCallEIP2929 E)) (minStack 6 1) (maxStack 6 1) (Some memoryStaticCall)"
  "newCancunInstructionSet E K DELEGATECALL =
     op_of (opDelegateCall K) 100 (Some (gasDelegateCallEIP2929 E)) (minStack 6 1) (maxStack 6 1) (Some memoryDelegateCall)"
  by (simp_all add: fork_defs enable_defs table_update_defs frontier_lookup Let_def)


section \<open>Every operation costs gas or halts\<close>

lemma op_of_plain:
  "exec_keeps ex \<Longrightarrow> 0 < cg \<Longrightarrow> step_good ok (op_of ex cg None mn mx ms)"
  "exec_keeps ex \<Longrightarrow> exec_halts ex \<Longrightarrow> step_good ok (op_of ex cg None mn mx ms)"
  "exec_keeps ex \<Longrightarrow> (\<And>f sz. gas_result_good f (dg f sz)) \<Longrightarrow> 0 < cg \<Longrightarrow> step_good ok (op_of ex cg (Some dg) mn mx ms)"
  "exec_keeps ex \<Longrightarrow> (\<And>f sz. gas_result_good f (dg f sz)) \<Longrightarrow> (\<And>f sz. gas_pos f (dg f sz)) \<Longrightarrow>
   step_good ok (op_of ex cg (Some dg) mn mx ms)"
  "exec_keeps ex \<Longrightarrow> (\<And>f sz. gas_result_good f (dg f sz)) \<Longrightarrow> exec_halts ex \<Longrightarrow>
   step_good ok (op_of ex cg (Some dg) mn mx ms)"
  by (rule plain_step; simp)+

lemma undefined_good: "step_good ok undefined_operation"
  by (rule plain_step) (simp_all add: undefined_operation_def ops_keep)

lemmas gas_fun_defs =
  gasKeccak256_def gasCreate2_def gasCreateEip3860_def gasCreate2Eip3860_def gasExpFrontier_def gasExpEIP158_def
  gasSStoreEIP2929_def gasSStoreEIP3529_def gasSelfdestructEIP2929_def gasSelfdestructEIP3529_def

lemmas gas_positive = exp_gas_pos makeGasLog_pos gasSStore_pos gasSStoreEIP2200_pos makeGasSStoreFunc_pos gasSLoadEIP2929_pos

lemma frontier_good_1:
  "list_all (\<lambda>(b, op). step_good ok op) (frontier_arithmetic E)"
  "list_all (\<lambda>(b, op). step_good ok op) (frontier_environment E)"
  "list_all (\<lambda>(b, op). step_good ok op) (frontier_block_memory E)"
  by (simp_all add: frontier_parts op_of_plain ops_keep gas_fun_defs gas_positive)

lemma frontier_good_2:
  "list_all (\<lambda>(b, op). step_good ok op) (frontier_push_low E)"
  "list_all (\<lambda>(b, op). step_good ok op) (frontier_push_high E)"
  "list_all (\<lambda>(b, op). step_good ok op) frontier_dup"
  "list_all (\<lambda>(b, op). step_good ok op) frontier_swap"
  by (simp_all add: frontier_parts op_of_plain ops_keep)

context call_interface
begin

lemma rules_ok: "ok (evm f) \<Longrightarrow> \<not> IsEIP4762 (chainRules (evm f))"
  by (rule ok_4762)

lemma op_of_call:
  assumes "\<And>f sz. gas_result_good f (dg f sz)" and "0 < cg"
    and "\<And>f sz. \<not> IsEIP4762 (chainRules (evm f)) \<Longrightarrow> gas_min (call_low (back_nonzero 2)) f (dg f sz)"
  shows "step_good ok (op_of (opCall K) cg (Some dg) mn mx ms)" "step_good ok (op_of (opCallCode K) cg (Some dg) mn mx ms)"
  by (rule call_step [where tr = "back_nonzero 2" and dg = dg];
      use assms in \<open>auto simp: opCall_exec opCallCode_exec back_nonzero_def dest: rules_ok intro: ok_stable\<close>)+

lemma op_of_call_plain:
  assumes "\<And>f sz. gas_result_good f (dg f sz)" and "0 < cg" and "\<And>f sz. gas_min (call_low (\<lambda>_. False)) f (dg f sz)"
  shows "step_good ok (op_of (opDelegateCall K) cg (Some dg) mn mx ms)"
    "step_good ok (op_of (opStaticCall K) cg (Some dg) mn mx ms)"
  by (rule call_step [where tr = "\<lambda>_. False" and dg = dg];
      use assms in \<open>auto simp: opDelegateCall_exec opStaticCall_exec intro: ok_stable\<close>)+

lemma op_of_create:
  assumes "\<And>f sz. gas_result_good f (dg f sz)" and "0 < cg"
  shows "step_good ok (op_of (opCreate K) cg (Some dg) mn mx ms)" "step_good ok (op_of (opCreate2 K) cg (Some dg) mn mx ms)"
  by (rule create_step; use assms in \<open>auto simp: opCreate_exec opCreate2_exec intro: ok_stable\<close>)+

end

lemma keeps_4762: "keeps f f' \<Longrightarrow> (\<not> IsEIP4762 (chainRules (evm f'))) = (\<not> IsEIP4762 (chainRules (evm f)))"
  by (simp add: keeps_rules)

lemma gasCallEIP2929_good [simp]: "gas_result_good f (gasCallEIP2929 E f sz)" "gas_result_good f (gasCallCodeEIP2929 E f sz)"
  "gas_result_good f (gasDelegateCallEIP2929 E f sz)" "gas_result_good f (gasStaticCallEIP2929 E f sz)"
  by (simp_all add: gasCallEIP2929_def gasCallCodeEIP2929_def gasDelegateCallEIP2929_def gasStaticCallEIP2929_def
      makeCallVariantGasCallEIP2929_good)

lemma gasCallEIP2929_min:
  "\<not> IsEIP4762 (chainRules (evm f)) \<Longrightarrow> gas_min (call_low (back_nonzero 2)) f (gasCallEIP2929 E f sz)"
  "\<not> IsEIP4762 (chainRules (evm f)) \<Longrightarrow> gas_min (call_low (back_nonzero 2)) f (gasCallCodeEIP2929 E f sz)"
  unfolding gasCallEIP2929_def gasCallCodeEIP2929_def
  by (rule makeCallVariantGasCallEIP2929_min [where P = "\<lambda>f. \<not> IsEIP4762 (chainRules (evm f))"];
      simp add: gasCall_min gasCallCode_min keeps_back keeps_rules)+

lemma gasDelegateCallEIP2929_min:
  "gas_min (call_low (\<lambda>_. False)) f (gasDelegateCallEIP2929 E f sz)" "gas_min (call_low (\<lambda>_. False)) f (gasStaticCallEIP2929 E f sz)"
  unfolding gasDelegateCallEIP2929_def gasStaticCallEIP2929_def
  by (rule makeCallVariantGasCallEIP2929_min [where P = "\<lambda>_. True"]; simp add: gasDelegateCall_min gasStaticCall_min)+

lemma gasCallEIP7702_good [simp]: "gas_result_good f (gasCallEIP7702 E f sz)" "gas_result_good f (gasCallCodeEIP7702 E f sz)"
  "gas_result_good f (gasDelegateCallEIP7702 E f sz)" "gas_result_good f (gasStaticCallEIP7702 E f sz)"
  by (auto simp: gasCallEIP7702_def gasCallCodeEIP7702_def gasDelegateCallEIP7702_def gasStaticCallEIP7702_def Let_def
      makeCallVariantGasCallEIP7702_good intro!: with_back_good)

lemma gasCallEIP7702_min:
  assumes "\<not> IsEIP4762 (chainRules (evm f))"
  shows "gas_min (call_low (back_nonzero 2)) f (gasCallEIP7702 E f sz)"
    "gas_min (call_low (back_nonzero 2)) f (gasCallCodeEIP7702 E f sz)"
proof -
  have "gas_min (call_low (back_nonzero 2)) f (makeCallVariantGasCallEIP7702 E (gasCall E) f sz)"
    "gas_min (call_low (back_nonzero 2)) f (makeCallVariantGasCallEIP7702 E gasCallCode f sz)"
    by (rule makeCallVariantGasCallEIP7702_min [where P = "\<lambda>f. \<not> IsEIP4762 (chainRules (evm f))"];
        simp add: gasCall_min gasCallCode_min keeps_back keeps_rules assms)+
  then show "gas_min (call_low (back_nonzero 2)) f (gasCallEIP7702 E f sz)"
    "gas_min (call_low (back_nonzero 2)) f (gasCallCodeEIP7702 E f sz)"
    by (auto simp: gasCallEIP7702_def gasCallCodeEIP7702_def Let_def intro!: with_back_min)
qed

lemma gasDelegateCallEIP7702_min:
  "gas_min (call_low (\<lambda>_. False)) f (gasDelegateCallEIP7702 E f sz)" "gas_min (call_low (\<lambda>_. False)) f (gasStaticCallEIP7702 E f sz)"
  unfolding gasDelegateCallEIP7702_def gasStaticCallEIP7702_def
  by (rule makeCallVariantGasCallEIP7702_min [where P = "\<lambda>_. True"]; simp add: gasDelegateCall_min gasStaticCall_min)+

lemmas call_mins = gasCall_min gasCallCode_min gasDelegateCall_min gasStaticCall_min gasCallEIP2929_min gasDelegateCallEIP2929_min
  gasCallEIP7702_min gasDelegateCallEIP7702_min

context call_interface
begin

lemmas entry_good = op_of_plain [where ok = ok] op_of_call op_of_call_plain op_of_create ops_keep gas_fun_defs gas_positive call_mins

lemma frontier_good: "all_ops (\<lambda>_. step_good ok) (newFrontierInstructionSet E K)"
  by (rule all_ops_frontier) (simp_all only: frontier_good_1 frontier_good_2 undefined_good, simp add: frontier_parts entry_good)

lemma homestead_good: "all_ops (\<lambda>_. step_good ok) (newHomesteadInstructionSet E K)"
  unfolding newHomesteadInstructionSet_def by (intro all_ops_intros frontier_good) (simp add: entry_good)

lemma tangerine_good: "all_ops (\<lambda>_. step_good ok) (newTangerineWhistleInstructionSet E K)"
  unfolding newTangerineWhistleInstructionSet_def Let_def
  by (intro all_ops_intros homestead_good)
    (simp_all add: entry_good newHomesteadInstructionSet_def table_update_defs frontier_lookup)

end

context call_interface
begin

lemma byzantium_good: "all_ops (\<lambda>_. step_good ok) (newByzantiumInstructionSet E K)"
  unfolding newByzantiumInstructionSet_def newSpuriousDragonInstructionSet_def
  by (intro all_ops_intros tangerine_good)
    (simp_all add: entry_good newTangerineWhistleInstructionSet_def newHomesteadInstructionSet_def table_update_defs frontier_lookup Let_def)

lemma spurious_good: "all_ops (\<lambda>_. step_good ok) (newSpuriousDragonInstructionSet E K)"
  unfolding newSpuriousDragonInstructionSet_def
  by (intro all_ops_intros tangerine_good)
    (simp_all add: entry_good newTangerineWhistleInstructionSet_def newHomesteadInstructionSet_def table_update_defs frontier_lookup Let_def)

lemma constantinople_good: "all_ops (\<lambda>_. step_good ok) (newConstantinopleInstructionSet E K)"
  unfolding newConstantinopleInstructionSet_def
  by (intro all_ops_intros byzantium_good) (simp_all add: entry_good)

lemma istanbul_good: "all_ops (\<lambda>_. step_good ok) (newIstanbulInstructionSet E K)"
  unfolding newIstanbulInstructionSet_def enable2200_def enable1884_def enable1344_def Let_def
  by (intro all_ops_intros constantinople_good)
    (simp_all add: entry_good newConstantinopleInstructionSet_def newByzantiumInstructionSet_def newSpuriousDragonInstructionSet_def
      newTangerineWhistleInstructionSet_def newHomesteadInstructionSet_def table_update_defs frontier_lookup Let_def)

lemma berlin_good: "all_ops (\<lambda>_. step_good ok) (newBerlinInstructionSet E K)"
  unfolding newBerlinInstructionSet_def enable2929_def Let_def
  by (intro all_ops_intros istanbul_good) (simp_all add: entry_good table_update_defs istanbul_lookup)

lemma london_good: "all_ops (\<lambda>_. step_good ok) (newLondonInstructionSet E K)"
  unfolding newLondonInstructionSet_def enable3529_def enable3198_def
  by (intro all_ops_intros berlin_good)
    (simp_all add: entry_good newBerlinInstructionSet_def enable2929_def table_update_defs istanbul_lookup Let_def)

lemma merge_good: "all_ops (\<lambda>_. step_good ok) (newMergeInstructionSet E K)"
  unfolding newMergeInstructionSet_def by (intro all_ops_intros london_good) (simp add: entry_good)

lemma shanghai_good: "all_ops (\<lambda>_. step_good ok) (newShanghaiInstructionSet E K)"
  unfolding newShanghaiInstructionSet_def enable3860_def enable3855_def
  by (intro all_ops_intros merge_good) (simp_all add: entry_good table_update_defs merge_lookup)

lemma cancun_good: "all_ops (\<lambda>_. step_good ok) (newCancunInstructionSet E K)"
  unfolding newCancunInstructionSet_def enable6780_def enable5656_def enable1153_def enable7516_def enable4844_def
  by (intro all_ops_intros shanghai_good) (simp_all add: entry_good)

lemma prague_good: "all_ops (\<lambda>_. step_good ok) (newPragueInstructionSet E K)"
  unfolding newPragueInstructionSet_def enable7702_def Let_def
  by (intro all_ops_intros cancun_good) (simp_all add: entry_good table_update_defs cancun_lookup)

lemma osaka_good: "all_ops (\<lambda>_. step_good ok) (newOsakaInstructionSet E K)"
  unfolding newOsakaInstructionSet_def enable7939_def by (intro all_ops_intros prague_good) (simp add: entry_good)

lemma amsterdam_good: "all_ops (\<lambda>_. step_good ok) (newAmsterdamInstructionSet E K)"
  unfolding newAmsterdamInstructionSet_def enable8024_def enable7843_def
  by (intro all_ops_intros osaka_good) (simp_all add: entry_good)

lemma instructionSet_good: "\<not> IsVerkle rules \<Longrightarrow> all_ops (\<lambda>_. step_good ok) (instructionSet rules E K)"
  by (simp add: instructionSet_def frontier_good homestead_good tangerine_good spurious_good byzantium_good constantinople_good
      istanbul_good berlin_good london_good merge_good shanghai_good cancun_good prague_good osaka_good amsterdam_good)

end

end
