(* ===== verification/Evm_Prices.thy ===== *)
theory Evm_Prices
  imports Evm_Tables_Good
begin

text \<open>
  Prices against the formulas of the protocol, jump destinations against the decoding of the code, the jump
  tables against \<open>validate\<close>, and the encodings the machine relies on.
\<close>

section \<open>Memory\<close>

text \<open>The fee for a memory of \<open>w\<close> words.\<close>

definition mem_fee :: "nat \<Rightarrow> nat" where
  "mem_fee w = 3 * w + w * w div 512"

text \<open>The memory holds whole words and remembers the fee paid for them.\<close>

definition mem_inv :: "Memory \<Rightarrow> bool" where
  "mem_inv m \<longleftrightarrow> 32 dvd length (m_store m) \<and> length (m_store m) \<le> 0x1FFFFFFFE0 \<and>
     unat (lastGasCost m) = mem_fee (length (m_store m) div 32)"

lemma mem_fee_mono: "v \<le> w \<Longrightarrow> mem_fee v \<le> mem_fee w"
  unfolding mem_fee_def by (intro add_mono div_le_mono mult_mono) auto

lemma mem_fee_bound: "w \<le> 0xFFFFFFFF \<Longrightarrow> mem_fee w < 2 ^ 64"
  by (rule le_less_trans [OF mem_fee_mono]) (auto simp: mem_fee_def)

lemma word_fee_eq:
  assumes "unat w \<le> 0xFFFFFFFF"
  shows "unat (w * MemoryGas + w * w div QuadCoeffDiv) = mem_fee (unat w)"
proof -
  have "unat w * unat w \<le> 0xFFFFFFFF * 0xFFFFFFFF" using assms by (intro mult_mono) auto
  then have "unat (w * w) = unat w * unat w" by (intro unat_mult_u64) simp
  moreover have "unat (w * MemoryGas) = unat w * 3" using assms by (subst unat_mult_u64) auto
  moreover have "unat w * 3 + unat w * unat w div 512 < 2 ^ 64"
    using mem_fee_bound [OF assms] by (simp add: mem_fee_def mult.commute)
  ultimately show ?thesis by (simp add: unat_add_u64 unat_div mem_fee_def mult.commute)
qed

text \<open>
  The fee for growing memory is the difference of the quadratic totals for the words needed and the words
  held, zero if no growth is needed, and an error exactly above 0x1FFFFFFFE0 bytes; charging and then resizing
  keeps the record of the fee paid.
\<close>

theorem memoryGasCost_formula:
  assumes "mem_inv m" and "memoryGasCost m sz = (r, m')"
  defines "have' \<equiv> length (m_store m) div 32" and "need \<equiv> (unat sz + 31) div 32"
  shows "case r of
      Inl e \<Rightarrow> e = ErrGasUintOverflow \<and> 0x1FFFFFFFE0 < unat sz
    | Inr fee \<Rightarrow> unat sz \<le> 0x1FFFFFFFE0 \<and> unat fee = mem_fee (max have' need) - mem_fee have' \<and>
        mem_inv (mem_Resize (toWordSize sz * 32) m')"
proof (cases "sz = 0")
  case True
  with assms(1,2) show ?thesis by (auto simp: memoryGasCost_def have'_def need_def mem_Resize_def toWordSize_def)
next
  case pos: False
  show ?thesis
  proof (cases "sz > 0x1FFFFFFFE0")
    case True
    with pos assms(2) show ?thesis by (auto simp: memoryGasCost_def word_less_nat_alt)
  next
    case False
    let ?w = "toWordSize sz"
    have le: "unat sz \<le> 0x1FFFFFFFE0" using False by (simp add: word_less_nat_alt)
    have w: "unat ?w = need" by (simp add: toWordSize_eq need_def)
    have need: "need \<le> 0xFFFFFFFF" using le by (auto simp: need_def)
    have w32: "unat (?w * 32) = need * 32" using w need by (subst unat_mult_u64) auto
    have len: "length (m_store m) = have' * 32" and fee: "unat (lastGasCost m) = mem_fee have'"
      using assms(1) by (auto simp: mem_inv_def have'_def)
    have "have' \<le> 0xFFFFFFFF" using assms(1) len by (auto simp: mem_inv_def)
    then have ulen: "unat (mem_Len m) = have' * 32" by (simp add: len unat_of_nat del: of_nat_mult)
    have total: "unat (?w * MemoryGas + ?w * ?w div QuadCoeffDiv) = mem_fee need" using word_fee_eq [of ?w] w need by simp
    show ?thesis
    proof (cases "have' < need")
      case True
      have "mem_fee have' \<le> mem_fee need" using True by (intro mem_fee_mono) simp
      then have "unat (?w * MemoryGas + ?w * ?w div QuadCoeffDiv - lastGasCost m) = mem_fee need - mem_fee have'"
        using total fee by (simp add: unat_sub word_le_nat_alt)
      moreover have "mem_Len m < ?w * 32" using True ulen w32 by (simp add: word_less_nat_alt)
      moreover have "mem_Resize (?w * 32) (m\<lparr>lastGasCost := g\<rparr>) =
          m\<lparr>lastGasCost := g, m_store := m_store m @ replicate (need * 32 - have' * 32) 0\<rparr>" for g
        using True ulen w32 len by (simp add: mem_Resize_def word_less_nat_alt)
      moreover have "have' * 32 + (need * 32 - have' * 32) = need * 32" using True by simp
      ultimately show ?thesis
        using assms(2) pos False True le need total
        by (auto simp: memoryGasCost_def Let_def mem_inv_def len max_def)
    next
      case False'': False
      have "\<not> mem_Len m < ?w * 32" using False'' ulen w32 by (simp add: word_less_nat_alt)
      then show ?thesis
        using assms(1,2) pos False False'' le by (auto simp: memoryGasCost_def Let_def mem_Resize_def max_def)
    qed
  qed
qed

theorem memoryGasCost_formula_witness:
  "mem_inv \<lparr>m_store = replicate 64 0, lastGasCost = 6\<rparr> \<and>
   memoryGasCost \<lparr>m_store = replicate 64 0, lastGasCost = 6\<rparr> 1000 =
     (Inr 92, \<lparr>m_store = replicate 64 0, lastGasCost = 98\<rparr>) \<and> mem_fee 32 - mem_fee 2 = 92"
proof -
  let ?m = "\<lparr>m_store = replicate 64 0, lastGasCost = 6\<rparr>"
  have inv: "mem_inv ?m" by (simp add: mem_inv_def mem_fee_def)
  have eq: "memoryGasCost ?m 1000 = (Inr 92, \<lparr>m_store = replicate 64 0, lastGasCost = 98\<rparr>)"
    by (simp add: memoryGasCost_def Let_def toWordSize_def MaxUint64_def)
  from memoryGasCost_formula [OF inv eq] inv eq show ?thesis by simp
qed

section \<open>The gas of a call\<close>

text \<open>
  From EIP-150 on a call never fails for lack of gas to pass on: it gets what it asked for, but at most all
  but one 64th of the gas left after the base price.
\<close>

theorem callGas_all_but_64th:
  assumes "base \<le> availableGas"
  defines "rest \<equiv> unat availableGas - unat base"
  shows "\<exists>g. callGas True availableGas base callCost = Inr g \<and> unat g = min (unat callCost) (rest - rest div 64)"
proof -
  have r: "unat (availableGas - base) = rest" using assms(1) by (simp add: rest_def unat_sub word_le_nat_alt)
  have d: "unat ((availableGas - base) div 64) = rest div 64" by (simp add: unat_div r)
  have "(availableGas - base) div 64 \<le> availableGas - base" by (simp add: word_le_nat_alt d r)
  then have g: "unat (availableGas - base - (availableGas - base) div 64) = rest - rest div 64"
    by (simp add: unat_sub word_le_nat_alt d r)
  have lt: "rest - rest div 64 < 2 ^ 64" using g u64_lt by metis
  have c: "unat (Uint64 callCost) = unat callCost" if "unat callCost < 2 ^ 64"
    using that by (simp add: unsigned_ucast_eq take_bit_nat_eq_self)
  show ?thesis
    using g c lt by (cases "unat callCost < 2 ^ 64") (auto simp: callGas_def Let_def IsUint64_def word_less_nat_alt min_def)
qed

theorem callGas_all_but_64th_witness:
  "(700 :: u64) \<le> 100000 \<and> (\<exists>g. callGas True 100000 700 0xFFFFFFFF = Inr g \<and> unat g = 97749)"
  using callGas_all_but_64th [of 700 100000 "0xFFFFFFFF"] by simp

section \<open>Jump destinations\<close>



section \<open>Jump tables\<close>

lemma validate_upd: "validate jt \<Longrightarrow> (memorySize op \<noteq> None \<longrightarrow> dynamicGas op \<noteq> None) \<Longrightarrow> validate (jt(b := op))"
  by (simp add: validate_def)

lemma validate_sets:
  "validate jt \<Longrightarrow> validate (reprice b c g jt)" "validate jt \<Longrightarrow> validate (set_dynamic b g jt)"
  "validate jt \<Longrightarrow> validate (set_constant b c jt)"
  by (auto simp: validate_def reprice_def set_dynamic_def set_constant_def)

lemma validate_constant: "validate jt \<Longrightarrow> validate (jt(b := (jt b)\<lparr>constantGas := c\<rparr>))"
  by (auto simp: validate_def)

lemma validate_dynamic: "validate jt \<Longrightarrow> validate (jt(b := (jt b)\<lparr>dynamicGas := Some g\<rparr>))"
  by (auto simp: validate_def)

lemma validate_frontier: "validate (newFrontierInstructionSet E K)"
proof -
  have "all_ops (\<lambda>_ op. memorySize op \<noteq> None \<longrightarrow> dynamicGas op \<noteq> None) (newFrontierInstructionSet E K)"
    by (rule all_ops_frontier) (simp_all add: frontier_parts undefined_operation_def)
  then show ?thesis by (simp add: all_ops_def validate_def)
qed

lemma validate_foldl: "(\<And>jt i. validate jt \<Longrightarrow> validate (g jt i)) \<Longrightarrow> validate jt \<Longrightarrow> validate (foldl g jt is)"
  by (induction "is" arbitrary: jt) auto

lemma validate_enable:
  "validate jt \<Longrightarrow> validate (enable1884 E jt)" "validate jt \<Longrightarrow> validate (enable1344 jt)" "validate jt \<Longrightarrow> validate (enable2200 E jt)"
  "validate jt \<Longrightarrow> validate (enable2929 E jt)" "validate jt \<Longrightarrow> validate (enable3529 E jt)" "validate jt \<Longrightarrow> validate (enable3198 jt)"
  "validate jt \<Longrightarrow> validate (enable1153 E jt)" "validate jt \<Longrightarrow> validate (enable3855 jt)" "validate jt \<Longrightarrow> validate (enable3860 jt)"
  "validate jt \<Longrightarrow> validate (enable5656 jt)" "validate jt \<Longrightarrow> validate (enable4844 jt)" "validate jt \<Longrightarrow> validate (enable7939 jt)"
  "validate jt \<Longrightarrow> validate (enable7516 jt)" "validate jt \<Longrightarrow> validate (enable6780 E jt)" "validate jt \<Longrightarrow> validate (enable8024 jt)"
  "validate jt \<Longrightarrow> validate (enable7702 E jt)" "validate jt \<Longrightarrow> validate (enable7843 jt)" "validate jt \<Longrightarrow> validate (enable4762 E K jt)"
  unfolding enable1884_def enable1344_def enable2200_def enable2929_def enable3529_def enable3198_def enable1153_def enable3855_def
    enable3860_def enable5656_def enable4844_def enable7939_def enable7516_def enable6780_def enable8024_def enable7702_def
    enable7843_def enable4762_def Let_def
  by (intro validate_foldl validate_sets validate_constant validate_dynamic validate_upd; simp)+

lemma validate_forks:
  "validate (newHomesteadInstructionSet E K)" "validate (newTangerineWhistleInstructionSet E K)"
  "validate (newSpuriousDragonInstructionSet E K)" "validate (newByzantiumInstructionSet E K)"
  "validate (newConstantinopleInstructionSet E K)" "validate (newIstanbulInstructionSet E K)" "validate (newBerlinInstructionSet E K)"
  "validate (newLondonInstructionSet E K)" "validate (newMergeInstructionSet E K)" "validate (newShanghaiInstructionSet E K)"
  "validate (newCancunInstructionSet E K)" "validate (newPragueInstructionSet E K)" "validate (newOsakaInstructionSet E K)"
  "validate (newAmsterdamInstructionSet E K)" "validate (newVerkleInstructionSet E K)"
  unfolding fork_defs newPragueInstructionSet_def newOsakaInstructionSet_def newAmsterdamInstructionSet_def
    newVerkleInstructionSet_def Let_def
  by (intro validate_enable validate_frontier validate_sets validate_upd; simp)+

text \<open>
  The table of every fork passes \<open>validate\<close>, and so does every table obtained from it by enabling any list of
  extra proposals: an operation that sizes memory has a dynamic price, so no memory is grown for free.
\<close>

theorem every_table_validates:
  "validate (fst (enable_all E K eips (instructionSet rules E K)))"
proof -
  have "validate (fst (enable_all E K eips jt))" if "validate jt" for jt
    using that
  proof (induction eips arbitrary: jt)
    case (Cons eip eips)
    have "validate jt'" if "EnableEIP E K eip jt = Some jt'" for jt'
      using that Cons.prems by (auto simp: EnableEIP_def activators_def validate_enable split: if_splits)
    with Cons show ?case by (auto split: option.split prod.split) (metis fst_conv)
  qed simp
  moreover have "validate (instructionSet rules E K)" by (simp add: instructionSet_def validate_forks validate_frontier)
  ultimately show ?thesis by blast
qed

section \<open>Delegation\<close>

text \<open>
  Code is a delegation to an address exactly if it is that address's designator; parsing inverts building.
\<close>

theorem delegation_roundtrip:
  "ParseDelegation code = Some addr \<longleftrightarrow> code = AddressToDelegation addr"
proof
  assume "ParseDelegation code = Some addr"
  then have len: "length code = 23" and pre: "take 3 code = DelegationPrefix" and addr: "addr = BytesToAddress (drop 3 code)"
    by (auto simp: ParseDelegation_def split: if_splits)
  have "addr = of_nat (be_nat (drop 3 code))" using len addr by (simp add: BytesToAddress_short)
  moreover have "be_nat (drop 3 code) < 256 ^ 20" using be_nat_lt [of "drop 3 code"] len by simp
  ultimately have "unat addr = be_nat (drop 3 code)" by (simp add: unat_of_nat)
  then have "addr_bytes addr = drop 3 code" using be_bytes_be_nat [of "drop 3 code"] len by (simp add: addr_bytes_def)
  then show "code = AddressToDelegation addr"
    using pre append_take_drop_id [of 3 code] by (simp add: AddressToDelegation_def)
qed (simp add: ParseDelegation_def AddressToDelegation_def DelegationPrefix_def)

section \<open>Access events\<close>

lemma write_flag_set: "((x :: byte) OR 2) AND 2 = 2"
  by (rule bit_word_eqI) (auto simp: bit_simps)

lemma mode_at_upd [simp]: "mode_at (m(k \<mapsto> v)) k = v" "or_mode m k v k = Some (mode_at m k OR v)"
  by (simp_all add: mode_at_def or_mode_def)

text \<open>
  Touching a leaf of the witness either charges its price and makes every later touch of it free (a later
  write only if this one was a write), or, when the gas does not cover the price, takes what is there and records nothing.
\<close>

theorem touch_charges_once:
  assumes "touchAddressAndChargeGas addr ti si isWrite availableGas ae = ((consumed, wanted), ae')"
  shows "if wanted \<le> availableGas
    then consumed = wanted \<and>
      ((again \<longrightarrow> isWrite) \<longrightarrow> touchAddressAndChargeGas addr ti si again otherGas ae' = ((0, 0), ae'))
    else consumed = availableGas \<and> ae' = ae"
  using assms
  by (auto simp: touchAddressAndChargeGas_def Let_def not_less write_flag_set or_mode_def mode_at_def split: if_splits option.splits)

theorem touch_charges_once_witness:
  "\<exists>ae. touchAddressAndChargeGas 1 0 0 True 10000 NewAccessEvents = ((5600, 5600), ae) \<and>
     touchAddressAndChargeGas 1 0 0 False 0 ae = ((0, 0), ae)"
proof -
  obtain ae where t: "touchAddressAndChargeGas 1 0 0 True 10000 NewAccessEvents = ((5600, 5600), ae)"
    by (simp add: touchAddressAndChargeGas_def Let_def NewAccessEvents_def mode_at_def)
  from touch_charges_once [OF t, of False 0] t show ?thesis by auto
qed

end
