(* ===== verification/Evm_Gas_Bound.thy ===== *)
theory Evm_Gas_Bound
  imports Evm_Tables_Good
begin

text \<open>
  The interpreter loop ends before its gas is used up, a frame returns at most the gas it was given, and the
  entry points of the machine meet \<open>call_interface\<close> at every depth.
\<close>

section \<open>The loop\<close>

definition run_result_good :: "'d EVM \<Rightarrow> Contract \<Rightarrow> ((bytes \<times> evm_error option) \<times> Contract \<times> 'd EVM) outcome \<Rightarrow> bool" where
  "run_result_good m c r \<longleftrightarrow>
     (case r of Panic \<Rightarrow> True | OutOfFuel \<Rightarrow> False | Ret (x, c', m') \<Rightarrow> Gas c' \<le> Gas c \<and> stable m m')"

context call_interface
begin

lemma step_eq: "ok (evm f) \<Longrightarrow> step jt f = step_op (jt (GetOp (contract f) (pc f))) f"
  by (simp add: step_def rules_ok)

lemma run_loop_good:
  assumes "all_ops (\<lambda>_. step_good ok) jt" and "ok (evm f)" and "unat (f_Gas f) < n"
  shows "case run_loop n jt f of Panic \<Rightarrow> True | OutOfFuel \<Rightarrow> False
         | Ret (r, f') \<Rightarrow> stable (evm f) (evm f') \<and> f_Gas f' \<le> f_Gas f"
  using assms(2,3)
proof (induction n arbitrary: f)
  case (Suc n)
  let ?op = "jt (GetOp (contract f) (pc f))"
  have good: "case step_op ?op f of Panic \<Rightarrow> True | OutOfFuel \<Rightarrow> False
      | Ret ((res, err), f') \<Rightarrow> stable (evm f) (evm f') \<and> f_Gas f' \<le> f_Gas f \<and> (err = None \<longrightarrow> f_Gas f' < f_Gas f)"
    using assms(1) Suc.prems(1) unfolding all_ops_def step_good_def by blast
  note st = step_eq [OF Suc.prems(1)]
  show ?case
  proof (cases "step_op ?op f")
    case (Ret p)
    obtain res err f' where p: "p = ((res, err), f')" by (cases p) auto
    have f': "stable (evm f) (evm f')" "f_Gas f' \<le> f_Gas f" "err = None \<Longrightarrow> f_Gas f' < f_Gas f"
      using good by (auto simp: Ret p)
    show ?thesis
    proof (cases err)
      case None
      let ?f = "f'\<lparr>pc := pc f' + 1\<rparr>"
      have "ok (evm ?f)" using ok_stable [OF Suc.prems(1) f'(1)] by simp
      moreover have "unat (f_Gas ?f) < n" using f'(3) [OF None] Suc.prems(2) by (simp add: word_less_nat_alt)
      ultimately have "case run_loop n jt ?f of Panic \<Rightarrow> True | OutOfFuel \<Rightarrow> False
        | Ret (r, f'') \<Rightarrow> stable (evm ?f) (evm f'') \<and> f_Gas f'' \<le> f_Gas ?f" by (rule Suc.IH)
      with f' show ?thesis by (auto simp: st Ret p None intro: stable_trans split: outcome.splits)
    next
      case (Some e)
      with f' show ?thesis by (simp add: st Ret p)
    qed
  qed (use good in \<open>simp_all add: st\<close>)
qed simp

lemma evm_Run_good:
  assumes "all_ops (\<lambda>_. step_good ok) jt" and "\<And>ro rd. ok (m\<lparr>depth := depth m + 1, readOnly := ro, returnData := rd\<rparr>)"
  shows "run_result_good m c (evm_Run jt m c input ro)"
proof (cases "Code c = []")
  case True
  then show ?thesis by (auto simp: evm_Run_def Let_def run_result_good_def stable_iff)
next
  case False
  let ?ro = "ro \<and> \<not> readOnly m"
  let ?m = "m\<lparr>depth := depth m + 1, readOnly := readOnly m \<or> ?ro, returnData := []\<rparr>"
  let ?f = "new_frame (c\<lparr>Input := input\<rparr>) ?m"
  have "case run_loop (Suc (unat (Gas c))) jt ?f of Panic \<Rightarrow> True | OutOfFuel \<Rightarrow> False
      | Ret (r, f') \<Rightarrow> stable (evm ?f) (evm f') \<and> f_Gas f' \<le> f_Gas ?f"
    using assms by (intro run_loop_good) (simp_all add: new_frame_def)
  moreover have "stable m (m'\<lparr>depth := depth m' - 1, readOnly := if ?ro then False else readOnly m'\<rparr>)"
    if "stable ?m m'" for m' using that by (auto simp: stable_iff)
  ultimately show ?thesis
    using False by (auto simp: evm_Run_def Let_def run_result_good_def new_frame_def obind_def split: outcome.splits)
qed

end

section \<open>The entry points\<close>

lemma call_ok_simps [simp]:
  "call_ok gas m Panic" "\<not> call_ok gas m OutOfFuel" "call_ok gas m (Ret ((ret, g, e), m')) \<longleftrightarrow> g \<le> gas \<and> stable m m'"
  by (simp_all add: call_ok_def)

lemma create_ok_simps [simp]:
  "create_ok gas m Panic" "\<not> create_ok gas m OutOfFuel" "create_ok gas m (Ret ((ret, a, g, e), m')) \<longleftrightarrow> g \<le> gas \<and> stable m m'"
  by (simp_all add: create_ok_def)

lemma call_ok_trans: "call_ok gas m' r \<Longrightarrow> gas \<le> gas' \<Longrightarrow> stable m m' \<Longrightarrow> call_ok gas' m r"
  by (cases r) (auto simp: call_ok_def intro: stable_trans)

lemma finish_frame_ok: "call_ok gas m r \<Longrightarrow> call_ok gas m (finish_frame E s r)"
  by (cases r) (auto simp: finish_frame_def call_ok_def obind_def of_option_def stable_iff split: option.splits)

lemma call_precompile_ok: "call_ok gas m (call_precompile p input gas m)"
  by (auto simp: call_precompile_def RunPrecompiledContract_def Let_def word_sub_le_u64 not_less split: option.splits sum.splits)

lemma run_contract_ok: "run_result_good m c (run m c input ro) \<Longrightarrow> call_ok (Gas c) m (run_contract run m c input ro)"
  by (cases "run m c input ro") (auto simp: run_contract_def run_result_good_def)

lemma SetCallCode_Gas [simp]: "Gas (SetCallCode h code c) = Gas c" "Gas (NewContract a b v g) = g"
  by (simp_all add: SetCallCode_def NewContract_def)

lemma stable_db [simp]: "stable m (m'\<lparr>statedb := db\<rparr>) \<longleftrightarrow> stable m m'" "stable m (m'\<lparr>accessEvents := ae\<rparr>) \<longleftrightarrow> stable m m'"
  by (simp_all add: stable_iff)

text \<open>A runner that is good for the machines in which it may be used.\<close>

locale frame_runner =
  fixes run :: "'d runner" and ready :: "'d EVM \<Rightarrow> bool"
  assumes run_good: "ready m \<Longrightarrow> run_result_good m c (run m c input ro)"
    and ready_stable: "ready m \<Longrightarrow> stable m m' \<Longrightarrow> ready m'"
begin

lemma run_contract_good:
  "ready m \<Longrightarrow> stable m m' \<Longrightarrow> gas = Gas c \<Longrightarrow> call_ok gas m (run_contract run m' c input ro)"
  by (metis call_ok_trans order_refl ready_stable run_contract_ok run_good)

lemma code_or_precompile:
  assumes "ready m" and "stable m m'" and "gas = Gas c"
  shows "call_ok gas m (case x of Some p \<Rightarrow> call_precompile p input gas m' | None \<Rightarrow> run_contract run m' c input ro)"
  using assms call_ok_trans [OF call_precompile_ok order_refl assms(2)] by (auto split: option.split intro: run_contract_good)

lemma call_body_ok:
  assumes "ready m" and "stable m m'"
  shows "call_ok gas m (call_body E run m' clr addr input gas val)"
proof -
  let ?m = "if \<not> isSystemCall clr then map_db (Transfer (Context m') clr addr val) m' else m'"
  have "stable m ?m" using assms(2) by (simp add: stable_iff)
  then show ?thesis
    using assms(1) call_ok_trans [OF call_precompile_ok order_refl, of m ?m]
    by (auto simp: call_body_def Let_def split: option.split intro!: run_contract_good)
qed

lemma evm_Call_ok:
  assumes "depth m \<le> 1024 \<Longrightarrow> ready m" and "\<not> IsEIP4762 (chainRules m)"
  shows "call_ok gas m (evm_Call E run m clr addr input gas val)"
proof (cases "depth m \<le> 1024")
  case True
  then have "ready m" by (rule assms(1))
  then show ?thesis
    using True assms(2)
    by (auto simp: evm_Call_def Let_def split: prod.split intro!: finish_frame_ok call_body_ok)
qed (simp add: evm_Call_def)

lemma evm_CallCode_ok:
  assumes "depth m \<le> 1024 \<Longrightarrow> ready m"
  shows "call_ok gas m (evm_CallCode E run m clr addr input gas val)"
  using assms
  by (auto simp: evm_CallCode_def Let_def split: prod.split intro!: finish_frame_ok code_or_precompile)

lemma evm_DelegateCall_ok:
  assumes "depth m \<le> 1024 \<Longrightarrow> ready m"
  shows "call_ok gas m (evm_DelegateCall E run m org clr addr input gas val)"
  using assms
  by (auto simp: evm_DelegateCall_def Let_def split: prod.split intro!: finish_frame_ok code_or_precompile)

lemma evm_StaticCall_ok:
  assumes "depth m \<le> 1024 \<Longrightarrow> ready m"
  shows "call_ok gas m (evm_StaticCall E run m clr addr input gas)"
  using assms
  by (auto simp: evm_StaticCall_def Let_def split: prod.split intro!: finish_frame_ok code_or_precompile)

lemma initNewContract_ok:
  assumes "ready m" and "\<not> IsEIP4762 (chainRules m)"
  shows "run_result_good m c (initNewContract E run m c addr)"
proof -
  have "run_result_good m c (run m c [] False)" using assms(1) by (rule run_good)
  then show ?thesis
    using assms(2)
    by (cases "run m c [] False")
      (auto simp: initNewContract_def run_result_good_def UseGas_def Let_def stable_iff not_less
        intro: order_trans [OF word_sub_le_u64])
qed

lemma create_body_ok:
  assumes "ready m" and "\<not> IsEIP4762 (chainRules m)" and "stable m m'"
  shows "create_ok gas m (create_body E run m' clr code gas val addr)"
proof -
  have rules: "\<not> IsEIP4762 (chainRules m'')" if "stable m m''" for m'' using assms(2) that by (simp add: stable_iff)
  have init: "run_result_good m c (initNewContract E run m'' c addr)" if "stable m m''" for m'' c
    using initNewContract_ok [OF ready_stable [OF assms(1) that] rules [OF that], of c E addr] that
    by (auto simp: run_result_good_def intro: stable_trans split: outcome.splits)
  let ?fin = "\<lambda>snapshot r. obind r (\<lambda>((ret, err), c, m).
     (case err of
        None \<Rightarrow> Ret ((ret, addr, Gas c, None), m)
      | Some e \<Rightarrow>
          if IsHomestead (chainRules m) \<or> e \<noteq> ErrCodeStoreOutOfGas then
            obind (of_option (RevertToSnapshot (DB E) snapshot (statedb m))) (\<lambda>db.
              (let c = (if e \<noteq> ErrExecutionReverted then snd (UseGas (Gas c) c) else c)
               in Ret ((ret, addr, Gas c, err), m\<lparr>statedb := db\<rparr>)))
          else Ret ((ret, addr, Gas c, err), m)))"
  have fin: "create_ok gas m (?fin snapshot r)" if "run_result_good m c r" "Gas c = gas" for snapshot r c
    using that
    by (cases r) (auto simp: run_result_good_def of_option_def UseGas_def Let_def split: option.split)
  show ?thesis
    using rules [OF assms(3)] assms(3)
    by (auto simp: create_body_def Let_def split: prod.split intro!: fin init)
qed

lemma evm_create_ok:
  assumes "depth m \<le> 1024 \<Longrightarrow> ready m" and "\<not> IsEIP4762 (chainRules m)"
  shows "create_ok gas m (evm_create E run m clr code gas val addr)"
  using assms by (auto simp: evm_create_def Let_def split: prod.split intro!: create_body_ok)

lemma calls_with_interface:
  assumes "\<And>m. ok m \<Longrightarrow> depth m \<le> 1024 \<Longrightarrow> ready m" and "\<And>m. ok m \<Longrightarrow> \<not> IsEIP4762 (chainRules m)"
    and "\<And>m m'. ok m \<Longrightarrow> stable m m' \<Longrightarrow> ok m'"
  shows "call_interface (calls_with E run) ok"
  by unfold_locales
    (use assms in \<open>auto simp: calls_with_def evm_Create_def evm_Create2_def Let_def
      intro!: evm_Call_ok evm_CallCode_ok evm_DelegateCall_ok evm_StaticCall_ok evm_create_ok\<close>)

end

section \<open>Nested frames\<close>

text \<open>With \<open>n\<close> more frames allowed, the machine is at most that far from the depth limit.\<close>

definition within :: "Rules \<Rightarrow> nat \<Rightarrow> 'd EVM \<Rightarrow> bool" where
  "within rules n m \<longleftrightarrow> \<not> IsVerkle rules \<and> \<not> IsEIP4762 (chainRules m) \<and> max_frames \<le> n + depth m \<and> depth m \<le> max_frames"

definition ready_at :: "Rules \<Rightarrow> nat \<Rightarrow> 'd EVM \<Rightarrow> bool" where
  "ready_at rules n m \<longleftrightarrow> within rules n m \<and> depth m < max_frames"

lemma within_stable: "within rules n m \<Longrightarrow> stable m m' \<Longrightarrow> within rules n m'"
  by (simp add: within_def stable_iff)

lemma ready_stable_at: "ready_at rules n m \<Longrightarrow> stable m m' \<Longrightarrow> ready_at rules n m'"
  by (auto simp: ready_at_def within_def stable_iff)

lemma frame_runner_calls:
  "frame_runner run (ready_at rules n) \<Longrightarrow> call_interface (calls_with E run) (within rules n)"
  by (erule frame_runner.calls_with_interface)
    (auto simp: ready_at_def within_def max_frames_def stable_iff)

lemma Run_at_runner: "frame_runner (Run_at n E (instructionSet rules E)) (ready_at rules n)"
proof (induction n)
  case 0
  show ?case by unfold_locales (auto simp: ready_at_def within_def max_frames_def stable_iff)
next
  case (Suc n)
  let ?K = "calls_with E (Run_at n E (instructionSet rules E))"
  have ci: "call_interface ?K (within rules n)" using Suc by (rule frame_runner_calls)
  show ?case
  proof unfold_locales
    fix m :: "'a EVM" and c input ro
    assume m: "ready_at rules (Suc n) m"
    then have v: "\<not> IsVerkle rules" by (simp add: ready_at_def within_def)
    have "\<And>ro rd. within rules n (m\<lparr>depth := depth m + 1, readOnly := ro, returnData := rd\<rparr>)"
      using m by (auto simp: ready_at_def within_def max_frames_def)
    from call_interface.evm_Run_good [OF ci call_interface.instructionSet_good [OF ci v] this]
    show "run_result_good m c (Run_at (Suc n) E (instructionSet rules E) m c input ro)" by simp
  next
    fix m m' :: "'a EVM"
    show "ready_at rules (Suc n) m \<Longrightarrow> stable m m' \<Longrightarrow> ready_at rules (Suc n) m'" by (rule ready_stable_at)
  qed
qed

interpretation nested: frame_runner "Run_at n E (instructionSet rules E)" "ready_at rules n" for n E rules
  by (rule Run_at_runner)

interpretation machine: call_interface "calls_with E (Run_at n E (instructionSet rules E))" "within rules n" for E n rules
  by (rule frame_runner_calls) (rule Run_at_runner)

end
