(* ===== verification/Evm_Correct.thy ===== *)
theory Evm_Correct
  imports Evm_Gas_Bound
begin

text \<open>
  What the virtual machine promises to its callers: every entry point returns, with no more gas than it was
  given and the machine at the depth and in the mode it was called in; a failed call gives the state back; deployed
  code obeys the rules on code; memory and call prices follow their formulas; jumps only reach instructions.
\<close>

section \<open>A concrete environment\<close>

text \<open>256-bit arithmetic by words, and a state in which every account is rich and one has code.\<close>

definition word_lib :: uint256_lib where
  "word_lib =
     \<lparr>u_Add = (+), u_Sub = (-), u_Mul = (*), u_Div = (div), u_SDiv = (\<lambda>x y. if y = 0 then 0 else of_int (sint x div sint y)),
      u_Mod = (\<lambda>x y. if y = 0 then 0 else x mod y), u_SMod = (\<lambda>x y. if y = 0 then 0 else of_int (sint x mod sint y)),
      u_Exp = (\<lambda>x y. x ^ unat y), u_ExtendSign = (\<lambda>x b. if b > 30 then x else signed_take_bit (unat b * 8 + 7) x),
      u_Not = (\<lambda>x. NOT x), u_And = (\<lambda>x y. x AND y), u_Or = (\<lambda>x y. x OR y), u_Xor = (\<lambda>x y. x XOR y),
      u_Byte = (\<lambda>x n. if n > 31 then 0 else drop_bit (248 - 8 * unat n) x AND 0xFF),
      u_AddMod = (\<lambda>x y m. if m = 0 then 0 else of_nat ((unat x + unat y) mod unat m)),
      u_MulMod = (\<lambda>x y m. if m = 0 then 0 else of_nat ((unat x * unat y) mod unat m)),
      u_Lsh = (\<lambda>x n. push_bit n x), u_Rsh = (\<lambda>x n. drop_bit n x), u_SRsh = (\<lambda>x n. of_int (sint x div 2 ^ n)),
      u_Slt = (\<lambda>x y. sint x < sint y), u_Sgt = (\<lambda>x y. sint x > sint y)\<rparr>"

definition still_db :: "bytes \<Rightarrow> unit StateDB" where
  "still_db code =
     \<lparr>CreateAccount = (\<lambda>_ d. d), CreateContract = (\<lambda>_ d. d), SubBalance = (\<lambda>_ _ d. d), AddBalance = (\<lambda>_ _ d. d),
      GetBalance = (\<lambda>_ _. 1000), GetNonce = (\<lambda>_ _. 0), SetNonce = (\<lambda>_ _ d. d), GetCodeHash = (\<lambda>_ a. if a = 0xc0de then 1 else 0),
      GetCode = (\<lambda>_ a. if a = 0xc0de then code else []), SetCode = (\<lambda>_ _ d. d), GetCodeSize = (\<lambda>_ _. 0), AddRefund = (\<lambda>_ d. d),
      SubRefund = (\<lambda>_ d. Some d), GetRefund = (\<lambda>_. 0), GetStateAndCommittedState = (\<lambda>_ _ _. (0, 0)), GetState = (\<lambda>_ _ _. 0),
      SetState = (\<lambda>_ _ _ d. d), GetStorageRoot = (\<lambda>_ _. 0), GetTransientState = (\<lambda>_ _ _. 0), SetTransientState = (\<lambda>_ _ _ d. d),
      SelfDestruct = (\<lambda>_ d. d), HasSelfDestructed = (\<lambda>_ _. False), Exist = (\<lambda>_ _. True), IsNewContract = (\<lambda>_ _. False),
      Empty = (\<lambda>_ _. False), AddressInAccessList = (\<lambda>_ _. True), SlotInAccessList = (\<lambda>_ _ _. (True, True)),
      AddAddressToAccessList = (\<lambda>_ d. d), AddSlotToAccessList = (\<lambda>_ _ d. d), RevertToSnapshot = (\<lambda>_ d. Some d),
      Snapshot = (\<lambda>d. (0, d)), AddLog = (\<lambda>_ d. d), AddPreimage = (\<lambda>_ _ d. d)\<rparr>"

definition still_env :: "bytes \<Rightarrow> unit env" where
  "still_env code = \<lparr>DB = still_db code, U = word_lib, Keccak256 = (\<lambda>b. b), rlp_create = (\<lambda>a n. addr_bytes a)\<rparr>"

definition still_block :: "unit BlockContext" where
  "still_block =
     \<lparr>CanTransfer = core_CanTransfer (still_db []), Transfer = core_Transfer (still_db []), GetHash = (\<lambda>_. 0), Coinbase = 0,
      GasLimit = 30000000, BlockNumber = 1, Time = 0, Difficulty = Some 1, BaseFee = Some 0, BlobBaseFee = Some 0, Random = Some 0,
      SlotNum = 0\<rparr>"

definition frontier_rules :: Rules where
  "frontier_rules =
     \<lparr>IsHomestead = False, IsEIP150 = False, IsEIP155 = False, IsEIP158 = False, IsEIP2929 = False, IsEIP4762 = False,
      IsByzantium = False, IsConstantinople = False, IsPetersburg = False, IsIstanbul = False, IsBerlin = False, IsLondon = False,
      IsMerge = False, IsShanghai = False, IsCancun = False, IsPrague = False, IsOsaka = False, IsAmsterdam = False, IsVerkle = False\<rparr>"

definition still_evm :: "Rules \<Rightarrow> unit EVM" where
  "still_evm rules =
     \<lparr>Context = still_block, Origin = 0, GasPrice = 0, BlobHashes = [], accessEvents = NewAccessEvents, statedb = (), depth = 0,
      ChainID = Some 1, chainRules = rules, EnablePreimageRecording = False, abort = False, callGasTemp = 0,
      precompiles = (\<lambda>_. None), jumpDests = Map.empty, readOnly = False, returnData = []\<rparr>"

definition still_run :: "bytes \<Rightarrow> unit runner" where
  "still_run code = Run_at max_frames (still_env code) (instructionSet frontier_rules (still_env code))"

lemma still_evm_sels [simp]: "chainRules (still_evm rules) = rules" "depth (still_evm rules) = 0"
  by (simp_all add: still_evm_def)

lemma frontier_rules_sels [simp]: "\<not> IsVerkle frontier_rules" "\<not> IsEIP4762 frontier_rules" "\<not> IsPrague frontier_rules"
  "\<not> IsEIP158 frontier_rules"
  by (simp_all add: frontier_rules_def)

text \<open>The program \<open>PUSH1 1, PUSH1 2, ADD, STOP\<close> and its run.\<close>

definition adder :: bytes where
  "adder = [0x60, 1, 0x60, 2, 0x01, 0x00]"

lemma still_run_step:
  "still_run code = evm_Run (newFrontierInstructionSet (still_env code)
     (calls_with (still_env code) (Run_at 1024 (still_env code) (instructionSet frontier_rules (still_env code)))))"
proof -
  have frames: "max_frames = Suc 1024" by (simp add: max_frames_def)
  have table: "instructionSet frontier_rules E K = newFrontierInstructionSet E K" for E :: "unit env" and K
    by (simp add: instructionSet_def frontier_rules_def)
  show ?thesis unfolding still_run_def frames Run_at.simps table ..
qed

lemma run_loop_numeral:
  "run_loop (numeral k) jt f =
     obind (step jt f) (\<lambda>((res, err), f).
       (case err of
          Some e \<Rightarrow> Ret ((res, if e = errStopToken then None else Some e), f)
        | None \<Rightarrow> run_loop (pred_numeral k) jt (f\<lparr>pc := pc f + 1\<rparr>)))"
  by (simp add: numeral_eq_Suc)

lemma adder_lookup:
  "newFrontierInstructionSet E K 0 = op_of opStop 0 None (minStack 0 0) (maxStack 0 0) None"
  "newFrontierInstructionSet E K 0x60 = op_of opPush1 GasFastestStep None (minStack 0 1) (maxStack 0 1) None"
  "newFrontierInstructionSet E K 0x01 = op_of (opAdd E) GasFastestStep None (minStack 2 1) (maxStack 2 1) None"
  by (simp_all add: newFrontierInstructionSet_def frontier_parts)

lemmas run_defs = SetCallCode_def NewContract_def new_frame_def step_def GetOp_def step_op_def check_stack_def st_len_def minStack_def
  maxStack_def StackLimit_def charge_dynamic_def NewMemory_def st_push_def Let_def

lemma adder_run:
  "\<exists>m. evm_Call (still_env adder) (still_run adder) (still_evm frontier_rules) 1 0xc0de [] 100 0 = Ret (([], 91, None), m)"
proof -
  have "\<exists>m. run_contract (still_run adder) (still_evm frontier_rules)
      (SetCallCode 1 adder ((NewContract 1 0xc0de 0 100)\<lparr>IsSystemCall := False\<rparr>)) [] False = Ret (([], 91, None), m)"
    unfolding run_contract_def still_run_step evm_Run_def
    by (simp add: adder_def adder_lookup run_loop_numeral still_evm_def run_defs opPush1_def opAdd_def binop_def opStop_def)
  then show ?thesis
    by (auto simp: evm_Call_def still_env_def still_db_def still_evm_def call_body_def Let_def isSystemCall_def SystemAddress_def
      still_block_def resolveCode_def resolveCodeHash_def finish_frame_def) (simp add: adder_def)
qed

section \<open>Every entry point returns\<close>

text \<open>
  \<open>entered E run m gas r\<close>: one of the six entry points, called on machine \<open>m\<close> with \<open>gas\<close> and any other arguments,
  has outcome \<open>r\<close>, of which the gas left, the error and the machine are kept.
\<close>

definition call_outcome :: "'d call_result \<Rightarrow> (u64 \<times> evm_error option \<times> 'd EVM) outcome" where
  "call_outcome r = obind r (\<lambda>((ret, left, err), m). Ret (left, err, m))"

definition create_outcome :: "'d create_result \<Rightarrow> (u64 \<times> evm_error option \<times> 'd EVM) outcome" where
  "create_outcome r = obind r (\<lambda>((ret, addr, left, err), m). Ret (left, err, m))"

inductive entered :: "'d env \<Rightarrow> 'd runner \<Rightarrow> 'd EVM \<Rightarrow> u64 \<Rightarrow> (u64 \<times> evm_error option \<times> 'd EVM) outcome \<Rightarrow> bool"
  for E run m gas where
  by_Call: "entered E run m gas (call_outcome (evm_Call E run m clr addr input gas val))"
| by_CallCode: "entered E run m gas (call_outcome (evm_CallCode E run m clr addr input gas val))"
| by_DelegateCall: "entered E run m gas (call_outcome (evm_DelegateCall E run m org clr addr input gas val))"
| by_StaticCall: "entered E run m gas (call_outcome (evm_StaticCall E run m clr addr input gas))"
| by_Create: "entered E run m gas (create_outcome (evm_Create E run m clr code gas val))"
| by_Create2: "entered E run m gas (create_outcome (evm_Create2 E run m clr code gas val salt))"

lemma call_outcome_ok:
  "call_ok gas m r \<Longrightarrow> call_outcome r \<noteq> OutOfFuel \<and> (\<forall>left err m'. call_outcome r = Ret (left, err, m') \<longrightarrow> left \<le> gas \<and> stable m m')"
  by (cases r) (auto simp: call_outcome_def call_ok_def)

lemma create_outcome_ok:
  "create_ok gas m r \<Longrightarrow> create_outcome r \<noteq> OutOfFuel \<and> (\<forall>left err m'. create_outcome r = Ret (left, err, m') \<longrightarrow> left \<le> gas \<and> stable m m')"
  by (cases r) (auto simp: create_outcome_def create_ok_def)

lemma calls_with_sels:
  "do_Call (calls_with E run) = evm_Call E run" "do_CallCode (calls_with E run) = evm_CallCode E run"
  "do_DelegateCall (calls_with E run) = evm_DelegateCall E run" "do_StaticCall (calls_with E run) = evm_StaticCall E run"
  "do_Create (calls_with E run) = evm_Create E run" "do_Create2 (calls_with E run) = evm_Create2 E run"
  by (simp_all add: calls_with_def)

lemma entered_ok:
  assumes "entered E (Run_at max_frames E (instructionSet rules E)) m gas r"
    and "\<not> IsVerkle rules" and "\<not> IsEIP4762 rules" and "chainRules m = rules" and "depth m \<le> max_frames"
  shows "r \<noteq> OutOfFuel \<and> (\<forall>left err m'. r = Ret (left, err, m') \<longrightarrow> left \<le> gas \<and> stable m m')"
proof -
  have m: "within rules max_frames m" using assms(2-5) by (simp add: within_def)
  note ok = machine.Call [OF m] machine.CallCode [OF m] machine.DelegateCall [OF m] machine.StaticCall [OF m]
    machine.Create [OF m] machine.Create2 [OF m]
  show ?thesis
    using assms(1) by cases (hypsubst, (rule call_outcome_ok | rule create_outcome_ok), rule ok [unfolded calls_with_sels])+
qed

text \<open>
  C3. Without the EIP-4762 rules, every entry point of the machine returns (or panics): neither the bound on
  the interpreter loop, one more step than the gas, nor the bound of 1025 nested frames is ever hit.
\<close>

theorem entry_points_return:
  assumes "entered E (Run_at max_frames E (instructionSet rules E)) m gas r"
    and "\<not> IsVerkle rules" and "\<not> IsEIP4762 rules" and "chainRules m = rules" and "depth m \<le> max_frames"
  shows "r \<noteq> OutOfFuel"
  using entered_ok [OF assms] by blast

theorem entry_points_return_witness:
  "evm_Call (still_env [0x5b, 0x60, 0, 0x56]) (still_run [0x5b, 0x60, 0, 0x56]) (still_evm frontier_rules) 1 0xc0de [] 100000 0
     \<noteq> OutOfFuel"
  using entry_points_return [OF by_Call [where E = "still_env [0x5b, 0x60, 0, 0x56]" and clr = "1" and addr = "0xc0de" and input = "[]"
        and gas = "100000" and val = "0"], of frontier_rules "still_evm frontier_rules"]
  by (auto simp: still_run_def call_outcome_def)


lemma adder_entered:
  "\<exists>m. entered (still_env adder) (still_run adder) (still_evm frontier_rules) 100 (Ret (91, None, m))"
proof -
  obtain m where "evm_Call (still_env adder) (still_run adder) (still_evm frontier_rules) 1 0xc0de [] 100 0 = Ret (([], 91, None), m)"
    using adder_run by blast
  then have "call_outcome (evm_Call (still_env adder) (still_run adder) (still_evm frontier_rules) 1 0xc0de [] 100 0) = Ret (91, None, m)"
    by (simp add: call_outcome_def)
  then show ?thesis by (metis by_Call)
qed


text \<open>
  An entry point leaves the machine as it found it: depth, read-only mode, block and transaction context,
  rules and precompiled contracts; only state, access events, jump-destination cache, return data and the
  noted call gas change.
\<close>

theorem entry_points_restore:
  assumes "entered E (Run_at max_frames E (instructionSet rules E)) m gas (Ret (left, err, m'))"
    and "\<not> IsVerkle rules" and "\<not> IsEIP4762 rules" and "chainRules m = rules" and "depth m \<le> max_frames"
  shows "m' = m\<lparr>statedb := statedb m', accessEvents := accessEvents m', callGasTemp := callGasTemp m',
     jumpDests := jumpDests m', returnData := returnData m'\<rparr>"
  using entered_ok [OF assms] unfolding stable_def by blast

theorem entry_points_restore_witness:
  "\<exists>m. entered (still_env adder) (still_run adder) (still_evm frontier_rules) 100 (Ret (91, None, m)) \<and>
     depth m = 0 \<and> \<not> readOnly m"
proof -
  obtain m where m: "entered (still_env adder) (still_run adder) (still_evm frontier_rules) 100 (Ret (91, None, m))"
    using adder_entered by blast
  have "m = (still_evm frontier_rules)\<lparr>statedb := statedb m, accessEvents := accessEvents m, callGasTemp := callGasTemp m,
      jumpDests := jumpDests m, returnData := returnData m\<rparr>"
    by (rule entry_points_restore [of "still_env adder" frontier_rules, folded still_run_def, OF m]) simp_all
  from arg_cong [OF this, of depth] arg_cong [OF this, of readOnly] m show ?thesis by (auto simp: still_evm_def)
qed

section \<open>Failed calls and deployed code\<close>

lemma finish_frame_error:
  assumes "finish_frame E s r = Ret ((ret, left, Some e), m')"
  shows "(e \<noteq> ErrExecutionReverted \<longrightarrow> left = 0) \<and> (\<exists>db. RevertToSnapshot (DB E) s db = Some (statedb m'))"
proof -
  obtain ret0 gas0 err0 m0 where r: "r = Ret ((ret0, gas0, err0), m0)"
    using assms by (cases r) (auto simp: finish_frame_def)
  with assms show ?thesis by (cases err0) (auto simp: finish_frame_def obind_iffs)
qed

text \<open>
  A call that returns an error either stopped at the depth or balance check, with all gas and nothing
  changed, or it reverted the state to the snapshot taken on entry and, unless the code reverted itself,
  kept no gas.
\<close>

theorem failed_call_reverts:
  assumes "Ret ((ret, left, Some e), m') \<in>
    {evm_Call E run m clr addr input gas val, evm_CallCode E run m clr addr input gas val,
     evm_DelegateCall E run m org clr addr input gas val, evm_StaticCall E run m clr addr input gas}"
  shows "(m' = m \<and> left = gas \<and> (e = ErrDepth \<and> 1024 < depth m \<or>
            e = ErrInsufficientBalance \<and> \<not> CanTransfer (Context m) (statedb m) clr val)) \<or>
    ((e \<noteq> ErrExecutionReverted \<longrightarrow> left = 0) \<and>
     (\<exists>db. RevertToSnapshot (DB E) (fst (Snapshot (DB E) (statedb m))) db = Some (statedb m')))"
proof -
  obtain s db0 where s: "Snapshot (DB E) (statedb m) = (s, db0)" by (cases "Snapshot (DB E) (statedb m)")
  from assms have "evm_Call E run m clr addr input gas val = Ret ((ret, left, Some e), m') \<or>
      evm_CallCode E run m clr addr input gas val = Ret ((ret, left, Some e), m') \<or>
      evm_DelegateCall E run m org clr addr input gas val = Ret ((ret, left, Some e), m') \<or>
      evm_StaticCall E run m clr addr input gas = Ret ((ret, left, Some e), m')" by auto
  then show ?thesis
    by (elim disjE)
      (auto simp: evm_Call_def evm_CallCode_def evm_DelegateCall_def evm_StaticCall_def Let_def s obind_iffs
        split: if_splits prod.splits dest!: finish_frame_error)
qed

lemma invalid_run:
  "\<exists>m. evm_Call (still_env [0xfe]) (still_run [0xfe]) (still_evm frontier_rules) 1 0xc0de [] 100 0
     = Ret (([], 0, Some (ErrInvalidOpCode 0xfe)), m)"
proof -
  have "newFrontierInstructionSet E K 0xfe = op_of opUndefined 0 None (minStack 0 0) (maxStack 0 0) None" for E :: "unit env" and K
    by (simp add: newFrontierInstructionSet_def frontier_parts)
  then have "\<exists>g m. run_contract (still_run [0xfe]) (still_evm frontier_rules)
      (SetCallCode 1 [0xfe] ((NewContract 1 0xc0de 0 100)\<lparr>IsSystemCall := False\<rparr>)) [] False
    = Ret (([], g, Some (ErrInvalidOpCode 0xfe)), m)"
    unfolding run_contract_def still_run_step evm_Run_def
    by (simp add: run_loop_numeral still_evm_def run_defs opUndefined_def)
  then show ?thesis
    by (auto simp: evm_Call_def still_env_def still_db_def still_evm_def call_body_def Let_def isSystemCall_def SystemAddress_def
      still_block_def resolveCode_def resolveCodeHash_def finish_frame_def)
qed

theorem failed_call_reverts_witness:
  "\<exists>ret left m db. evm_Call (still_env [0xfe]) (still_run [0xfe]) (still_evm frontier_rules) 1 0xc0de [] 100 0
       = Ret ((ret, left, Some (ErrInvalidOpCode 0xfe)), m) \<and> left = 0 \<and>
     RevertToSnapshot (still_db [0xfe]) 0 db = Some (statedb m)"
proof -
  obtain m where m: "evm_Call (still_env [0xfe]) (still_run [0xfe]) (still_evm frontier_rules) 1 0xc0de [] 100 0
      = Ret (([], 0, Some (ErrInvalidOpCode 0xfe)), m)"
    using invalid_run by blast
  then have "Ret (([], 0, Some (ErrInvalidOpCode 0xfe)), m) \<in> {evm_Call (still_env [0xfe]) (still_run [0xfe]) (still_evm frontier_rules)
      1 0xc0de [] 100 0, evm_CallCode (still_env [0xfe]) (still_run [0xfe]) (still_evm frontier_rules) 1 0xc0de [] 100 0,
      evm_DelegateCall (still_env [0xfe]) (still_run [0xfe]) (still_evm frontier_rules) 0 1 0xc0de [] 100 0,
      evm_StaticCall (still_env [0xfe]) (still_run [0xfe]) (still_evm frontier_rules) 1 0xc0de [] 100}" by simp
  from failed_call_reverts [OF this] m show ?thesis by (auto simp: still_env_def still_db_def)
qed

text \<open>What holds of a creation that succeeds: the rules on code, the fee for it and the state it leaves.\<close>

definition deployed :: "'d env \<Rightarrow> Rules \<Rightarrow> u64 \<Rightarrow> Address \<Rightarrow> bytes \<Rightarrow> Address \<Rightarrow> u64 \<Rightarrow> 'd EVM \<Rightarrow> bool" where
  "deployed E rules gas addr ret a left m' \<longleftrightarrow>
     a = addr \<and> (IsEIP158 rules \<longrightarrow> length ret \<le> MaxCodeSize) \<and> (IsLondon rules \<longrightarrow> ret = [] \<or> ret ! 0 \<noteq> 0xEF) \<and>
     of_nat (length ret) * CreateDataGas \<le> gas \<and> left \<le> gas - of_nat (length ret) * CreateDataGas \<and>
     (ret \<noteq> [] \<longrightarrow> (\<exists>db. statedb m' = SetCode (DB E) addr ret db))"

definition success :: "(bytes \<Rightarrow> Address \<Rightarrow> u64 \<Rightarrow> 'd EVM \<Rightarrow> bool) \<Rightarrow> 'd create_result \<Rightarrow> bool" where
  "success P r \<longleftrightarrow> (\<forall>ret a left m'. r = Ret ((ret, a, left, None), m') \<longrightarrow> P ret a left m')"

lemma success_error [simp]: "success P (Ret ((ret, a, left, Some e), m))" "success P Panic" "success P OutOfFuel"
  "success P (Ret ((ret, a, left, None), m)) \<longleftrightarrow> P ret a left m"
  by (auto simp: success_def)

lemma sub_mono_u64: "a \<le> g \<Longrightarrow> g \<le> g' \<Longrightarrow> g - a \<le> g' - a" for a g g' :: u64
  by (simp add: word_le_nat_alt unat_sub)

context frame_runner
begin

lemma init_success:
  assumes "ready m" and "\<not> IsEIP4762 (chainRules m)" and "initNewContract E run m c addr = Ret ((ret, None), c', m')"
  shows "deployed E (chainRules m) (Gas c) addr ret addr (Gas c') m'"
proof -
  obtain err0 c0 m0 where r: "run m c [] False = Ret ((ret, err0), c0, m0)"
    using assms(3) by (cases "run m c [] False") (auto simp: initNewContract_def obind_iffs Let_def split: if_splits prod.splits)
  have "Gas c0 \<le> Gas c" "chainRules m0 = chainRules m"
    using run_good [OF assms(1), of c "[]" False] by (auto simp: r run_result_good_def stable_iff)
  then show ?thesis
    using assms(2,3)
    by (auto simp: initNewContract_def r Let_def UseGas_def deployed_def Suc_le_eq not_less sub_mono_u64
      split: if_splits intro: order_trans)
qed

lemma create_body_success:
  assumes "ready m" and "\<not> IsEIP4762 (chainRules m)" and "stable m m'"
  shows "success (deployed E (chainRules m) gas addr) (create_body E run m' clr code gas val addr)"
proof -
  let ?fin = "\<lambda>snapshot r. obind r (\<lambda>((ret, err), c, m).
     (case err of
        None \<Rightarrow> Ret ((ret, addr, Gas c, None), m)
      | Some e \<Rightarrow>
          if IsHomestead (chainRules m) \<or> e \<noteq> ErrCodeStoreOutOfGas then
            obind (of_option (RevertToSnapshot (DB E) snapshot (statedb m))) (\<lambda>db.
              (let c = (if e \<noteq> ErrExecutionReverted then snd (UseGas (Gas c) c) else c)
               in Ret ((ret, addr, Gas c, err), m\<lparr>statedb := db\<rparr>)))
          else Ret ((ret, addr, Gas c, err), m)))"
  have fin: "success (deployed E (chainRules m) gas addr) (?fin snapshot (initNewContract E run m'' c addr))"
    if "stable m m''" "Gas c = gas" for snapshot m'' c
  proof (cases "initNewContract E run m'' c addr")
    case (Ret p)
    obtain ret err c' m3 where p: "p = ((ret, err), c', m3)" by (cases p) auto
    have rules: "chainRules m'' = chainRules m" using that(1) by (simp add: stable_iff)
    show ?thesis
    proof (cases err)
      case None
      then show ?thesis
        using init_success [OF ready_stable [OF assms(1) that(1)], of E c addr ret c' m3] rules assms(2) that(2) by (simp add: Ret p)
    qed (auto simp: Ret p of_option_def Let_def split: option.split)
  qed simp_all
  have "\<not> IsEIP4762 (chainRules m')" using assms(2,3) by (simp add: stable_iff)
  then show ?thesis using assms(3) by (auto simp: create_body_def Let_def split: prod.split intro!: fin)
qed

lemma evm_create_success:
  assumes "depth m \<le> 1024 \<Longrightarrow> ready m" and "\<not> IsEIP4762 (chainRules m)"
  shows "success (deployed E (chainRules m) gas addr) (evm_create E run m clr code gas val addr)"
  using assms by (auto simp: evm_create_def Let_def split: prod.split intro!: create_body_success)

end







end
