(* ===== verification/Evm_Stipend.thy ===== *)
theory Evm_Stipend
  imports Evm_Correct
begin







end
