(* ===== verification/Evm_Journal.thy ===== *)
theory Evm_Journal
  imports Evm_Tables_Good
begin

text \<open>
  What the virtual machine relies on in a state database with snapshots, and what it makes of it: every
  instruction, gas function and entry point changes the state only by operations of the database, so a frame
  that fails gives back the world it started from.

  The interface \<open>journaled\<close> names the relation \<open>R\<close> between a state and the states reached from it by operations
  and finished frames, the invariant \<open>I\<close>, the addresses \<open>S\<close> whose code may be set, and the world \<open>W\<close> a state shows.
  The laws ask of an operation only what the machine guarantees when it calls it: value moves when the account
  may spend it (\<open>M\<close>, what \<open>CanTransfer\<close> of the contexts \<open>C\<close> has checked), a nonce grows by one without
  wrapping or becomes one on a fresh account, a destroyed account loses exactly its balance.
\<close>

locale journaled =
  fixes E :: "'d env" and C :: "'d BlockContext \<Rightarrow> bool" and M :: "'d \<Rightarrow> Address \<Rightarrow> u256 \<Rightarrow> bool"
    and I :: "'d \<Rightarrow> bool" and S :: "'d \<Rightarrow> Address \<Rightarrow> bool" and W :: "'d \<Rightarrow> 'w" and R :: "'d \<Rightarrow> 'd \<Rightarrow> bool"
  assumes R_refl: "R d d" and R_trans: "R d d' \<Longrightarrow> R d' d'' \<Longrightarrow> R d d''" and R_vacuous: "\<not> I d \<Longrightarrow> R d d'"
    and R_I: "R d d' \<Longrightarrow> I d \<Longrightarrow> I d'" and R_S: "R d d' \<Longrightarrow> I d \<Longrightarrow> S d a \<Longrightarrow> S d' a"
    and R_CreateAccount: "\<not> Exist (DB E) d a \<Longrightarrow> R d (CreateAccount (DB E) a d)"
    and R_CreateContract: "R d (CreateContract (DB E) a d)"
    and R_Transfer: "C ctx \<Longrightarrow> I d \<Longrightarrow> M d a v \<Longrightarrow> R d (Transfer ctx a b v d)"
    and R_Touch: "R d (AddBalance (DB E) a 0 d)"
    and R_Burn: "R d (SubBalance (DB E) a (GetBalance (DB E) d a) d)"
    and R_Give: "a \<noteq> b \<Longrightarrow> R d (SubBalance (DB E) a (GetBalance (DB E) d a) (AddBalance (DB E) b (GetBalance (DB E) d a) d))"
    and R_Move: "a \<noteq> b \<Longrightarrow> R d (AddBalance (DB E) b (GetBalance (DB E) d a) (SubBalance (DB E) a (GetBalance (DB E) d a) d))"
    and R_NextNonce: "\<not> GetNonce (DB E) d a + 1 < GetNonce (DB E) d a \<Longrightarrow> R d (SetNonce (DB E) a (GetNonce (DB E) d a + 1) d)"
    and R_FirstNonce: "GetNonce (DB E) d a = 0 \<Longrightarrow> R d (SetNonce (DB E) a 1 d)"
    and S_empty: "I d \<Longrightarrow> GetCodeHash (DB E) d a = 0 \<or> GetCodeHash (DB E) d a = EmptyCodeHash E \<Longrightarrow> S d a"
    and R_SetCode: "S d a \<Longrightarrow> R d (SetCode (DB E) a c d)"
    and R_AddRefund: "R d (AddRefund (DB E) g d)"
    and R_SubRefund: "SubRefund (DB E) g d = Some d' \<Longrightarrow> R d d'"
    and R_SetState: "R d (SetState (DB E) a k h d)"
    and R_SetTransientState: "R d (SetTransientState (DB E) a k h d)"
    and R_SelfDestruct: "R d (SelfDestruct (DB E) a d)"
    and R_AddAddress: "R d (AddAddressToAccessList (DB E) a d)"
    and R_AddSlot: "R d (AddSlotToAccessList (DB E) a k d)"
    and R_AddLog: "R d (AddLog (DB E) l d)"
    and R_AddPreimage: "R d (AddPreimage (DB E) h p d)"
    and R_Snapshot: "Snapshot (DB E) d = (i, d1) \<Longrightarrow> R d d1"
    and Revert: "I d \<Longrightarrow> Snapshot (DB E) d = (i, d1) \<Longrightarrow> R d1 d2 \<Longrightarrow>
      \<exists>d3. RevertToSnapshot (DB E) i d2 = Some d3 \<and> R d d3 \<and> W d3 = W d"
    and M_Transfer: "C ctx \<Longrightarrow> I d \<Longrightarrow> v = 0 \<or> CanTransfer ctx d a v \<Longrightarrow> M d a v"
    and M_Snapshot: "I d \<Longrightarrow> Snapshot (DB E) d = (i, d1) \<Longrightarrow> M d a v \<Longrightarrow> M d1 a v"
    and M_CreateAccount: "I d \<Longrightarrow> \<not> Exist (DB E) d b \<Longrightarrow> M d a v \<Longrightarrow> M (CreateAccount (DB E) b d) a v"
    and M_CreateContract: "I d \<Longrightarrow> M d a v \<Longrightarrow> M (CreateContract (DB E) b d) a v"
    and M_SetNonce: "I d \<Longrightarrow> M d a v \<Longrightarrow> M (SetNonce (DB E) b n d) a v"
    and M_AddAddress: "I d \<Longrightarrow> M d a v \<Longrightarrow> M (AddAddressToAccessList (DB E) b d) a v"
    and N_Snapshot: "I d \<Longrightarrow> Snapshot (DB E) d = (i, d1) \<Longrightarrow> GetNonce (DB E) d1 a = GetNonce (DB E) d a"
    and N_CreateAccount: "I d \<Longrightarrow> \<not> Exist (DB E) d a \<Longrightarrow> GetNonce (DB E) (CreateAccount (DB E) a d) a = 0"
    and N_CreateContract: "I d \<Longrightarrow> GetNonce (DB E) (CreateContract (DB E) a d) a = GetNonce (DB E) d a"
begin

lemmas R_ops = R_refl R_CreateContract R_Touch R_AddRefund R_SetState R_SetTransientState
  R_SelfDestruct R_AddAddress R_AddSlot R_AddLog R_AddPreimage

lemma R_then [simp]:
  "R d d' \<Longrightarrow> R d (CreateContract (DB E) a d')" "R d d' \<Longrightarrow> R d (AddBalance (DB E) a 0 d')"
  "R d d' \<Longrightarrow> R d (AddRefund (DB E) g d')" "R d d' \<Longrightarrow> R d (SetState (DB E) a k h d')"
  "R d d' \<Longrightarrow> R d (SetTransientState (DB E) a k h d')" "R d d' \<Longrightarrow> R d (SelfDestruct (DB E) a d')"
  "R d d' \<Longrightarrow> R d (AddAddressToAccessList (DB E) a d')" "R d d' \<Longrightarrow> R d (AddSlotToAccessList (DB E) a k d')"
  "R d d' \<Longrightarrow> R d (AddLog (DB E) l d')" "R d d' \<Longrightarrow> R d (AddPreimage (DB E) h p d')"
  by (blast intro: R_trans R_ops)+

declare R_refl [simp]

text \<open>The contexts of a machine stay as they are, and its state evolves.\<close>

definition evolves :: "'d EVM \<Rightarrow> 'd EVM \<Rightarrow> bool" where
  "evolves m m' \<longleftrightarrow> Context m' = Context m \<and>
     (C (Context m) \<longrightarrow> R (statedb m) (statedb m'))"

lemma evolves_refl [simp]: "evolves m m"
  by (simp add: evolves_def R_refl)

lemma evolves_trans: "evolves m m' \<Longrightarrow> evolves m' m'' \<Longrightarrow> evolves m m''"
  unfolding evolves_def using R_trans by metis

lemma evolves_step: "Context m' = Context m \<Longrightarrow> R (statedb m) (statedb m') \<Longrightarrow> evolves m m'"
  by (simp add: evolves_def)

lemma evolves_then: "evolves m m' \<Longrightarrow> Context m'' = Context m' \<Longrightarrow> R (statedb m') (statedb m'') \<Longrightarrow> evolves m m''"
  by (rule evolves_trans [OF _ evolves_step])

lemma evolves_same: "evolves m m' \<Longrightarrow> Context m'' = Context m' \<Longrightarrow> statedb m'' = statedb m' \<Longrightarrow> evolves m m''"
  by (simp add: evolves_def)

section \<open>Gas functions\<close>

definition gas_ev :: "'d frame \<Rightarrow> ((evm_error + u64) \<times> 'd frame) outcome \<Rightarrow> bool" where
  "gas_ev f r \<longleftrightarrow> (\<forall>g f'. r = Ret (g, f') \<longrightarrow> evolves (evm f) (evm f'))"

lemma gas_ev_simps [simp]:
  "gas_ev f Panic" "gas_ev f (gas_err e f') \<longleftrightarrow> evolves (evm f) (evm f')" "gas_ev f (gas_ok g f') \<longleftrightarrow> evolves (evm f) (evm f')"
  by (auto simp: gas_ev_def)

lemma with_back_ev [intro]: "(\<And>x. gas_ev f (k x)) \<Longrightarrow> gas_ev f (with_back n f' k)"
  by (simp add: with_back_def split: option.split)

lemma checked_ev [intro]: "evolves (evm f) (evm f') \<Longrightarrow> (\<And>v. gas_ev f (k v)) \<Longrightarrow> gas_ev f (checked r f' k)"
  by (cases r) (simp add: checked_def)

lemma then_gas_ev [intro]:
  assumes "gas_ev f r" and "\<And>g f'. evolves (evm f) (evm f') \<Longrightarrow> gas_ev f (k g f')"
  shows "gas_ev f (then_gas r k)"
  using assms by (cases r) (auto simp: then_gas_def gas_ev_def split: sum.splits)

lemma gas_ev_trans: "gas_ev f' r \<Longrightarrow> evolves (evm f) (evm f') \<Longrightarrow> gas_ev f r"
  by (auto simp: gas_ev_def intro: evolves_trans)

lemma obind_ev:
  assumes "\<And>f'. r = Ret f' \<Longrightarrow> evolves (evm f) (evm f')"
  shows "gas_ev f (obind r (gas_ok g))"
  using assms by (cases r) (auto simp: gas_ev_def)

lemma pureMemoryGascost_ev [intro, simp]: "gas_ev f (pureMemoryGascost f sz)"
  by (auto simp: pureMemoryGascost_def memoryGasCost_def Let_def gas_ev_def evolves_def R_refl)

lemma evolves_set_db [simp]: "R (statedb m') db \<Longrightarrow> evolves m m' \<Longrightarrow> evolves m (m'\<lparr>statedb := db\<rparr>)"
  by (rule evolves_then) simp_all

lemma evolves_db_left: "evolves (m\<lparr>statedb := db\<rparr>) m' \<Longrightarrow> R (statedb m) db \<Longrightarrow> evolves m m'"
  by (rule evolves_trans [OF evolves_set_db]) simp_all

lemma evolves_callGasTemp [simp]: "evolves m (m'\<lparr>callGasTemp := t\<rparr>) = evolves m m'"
  by (simp add: evolves_def)

lemma evolves_fields [simp]:
  "evolves m (m'\<lparr>accessEvents := ae\<rparr>) = evolves m m'" "evolves m (m'\<lparr>returnData := rd\<rparr>) = evolves m m'"
  "evolves m (m'\<lparr>jumpDests := jd\<rparr>) = evolves m m'" "evolves m (m'\<lparr>depth := dp\<rparr>) = evolves m m'"
  "evolves m (m'\<lparr>readOnly := ro\<rparr>) = evolves m m'"
  by (simp_all add: evolves_def)

lemma memory_gas_ev [simp]:
  "gas_ev f (memoryCopierGas n f sz)" "gas_ev f (hash_words_gas n f sz)" "gas_ev f (init_code_gas u f sz)"
  "gas_ev f (exp_gas u f sz)" "gas_ev f (makeGasLog u f sz)"
  unfolding memoryCopierGas_def hash_words_gas_def init_code_gas_def exp_gas_def makeGasLog_def Let_def
  by (auto intro!: then_gas_ev with_back_ev checked_ev)

lemma dirty_refunds_ev:
  assumes "dirty_refunds E c rc r cur org val f = Ret f'"
  shows "evolves (evm f) (evm f')"
  using assms R_SubRefund
  by (auto simp: dirty_refunds_def sub_refund_def obind_eq_Ret R_ops evolves_def split: if_splits
      intro: R_trans [OF R_SubRefund] R_trans [OF R_AddRefund])

lemma sstore_ev [simp]: "gas_ev f (gasSStore E f sz)" "gas_ev f (gasSStoreEIP2200 E f sz)"
  by (auto simp: gasSStore_def gasSStoreEIP2200_def Let_def R_ops split: prod.split
      intro!: with_back_ev obind_ev dest: dirty_refunds_ev)

lemma dirty_obind_ev:
  assumes "evolves (evm f) (evm f1)"
  shows "gas_ev f (obind (dirty_refunds E c rc r cur org val f1) (gas_ok g))"
  by (rule obind_ev) (rule evolves_trans [OF assms dirty_refunds_ev])

lemma makeGasSStoreFunc_ev [simp]: "gas_ev f (makeGasSStoreFunc E c f sz)"
  unfolding makeGasSStoreFunc_def Let_def
  by (auto split: prod.split intro!: with_back_ev dirty_obind_ev)

lemma access_gas_ev [simp]:
  "gas_ev f (gasSLoadEIP2929 E f sz)" "gas_ev f (gasEip2929AccountCheck E f sz)" "gas_ev f (gasExtCodeCopyEIP2929 E f sz)"
  "gas_ev f (gasSelfdestruct E f sz)" "gas_ev f (makeSelfdestructGasFn E b f sz)"
  unfolding gasSLoadEIP2929_def gasEip2929AccountCheck_def gasExtCodeCopyEIP2929_def gasSelfdestruct_def
    makeSelfdestructGasFn_def Let_def
  by (auto simp: R_ops intro!: with_back_ev then_gas_ev checked_ev)

lemma add_call_gas_ev [intro]: "evolves (evm f) (evm f') \<Longrightarrow> gas_ev f (add_call_gas g f' sz)"
  unfolding add_call_gas_def Let_def by (auto intro!: with_back_ev checked_ev split: sum.split)

lemma call_gas_ev [simp]:
  "gas_ev f (gasCall E f sz)" "gas_ev f (gasCallCode f sz)" "gas_ev f (gasDelegateCall f sz)" "gas_ev f (gasStaticCall f sz)"
  unfolding gasCall_def gasCallCode_def gasDelegateCall_def gasStaticCall_def Let_def
  by (auto intro!: with_back_ev then_gas_ev checked_ev)

lemma evm_frame_UseGas [simp]: "evm (snd (frame_UseGas g f)) = evm f"
  by (simp add: frame_UseGas_def split: prod.split)

lemma makeCallVariantGasCallEIP2929_ev:
  assumes "\<And>f sz. gas_ev f (old f sz)"
  shows "gas_ev f (makeCallVariantGasCallEIP2929 E old n f sz)"
proof -
  have "gas_ev f (old f' sz)" if "evolves (evm f) (evm f')" for f'
    using gas_ev_trans [OF assms that] .
  then show ?thesis
    unfolding makeCallVariantGasCallEIP2929_def Let_def
    by (auto simp: frame_UseGas_def split: prod.split intro!: with_back_ev then_gas_ev checked_ev)
qed

lemma makeCallVariantGasCallEIP7702_ev:
  assumes "\<And>f sz. gas_ev f (old f sz)"
  shows "gas_ev f (makeCallVariantGasCallEIP7702 E old f sz)"
proof -
  have "gas_ev f (old f' sz)" if "evolves (evm f) (evm f')" for f'
    using gas_ev_trans [OF assms that] .
  then show ?thesis
    unfolding makeCallVariantGasCallEIP7702_def Let_def
    by (auto simp: frame_UseGas_def split: prod.split option.split intro!: with_back_ev then_gas_ev checked_ev)
qed

lemma call_variant_gas_ev [simp]:
  "gas_ev f (gasCallEIP2929 E f sz)" "gas_ev f (gasCallCodeEIP2929 E f sz)" "gas_ev f (gasDelegateCallEIP2929 E f sz)"
  "gas_ev f (gasStaticCallEIP2929 E f sz)" "gas_ev f (gasCallEIP7702 E f sz)" "gas_ev f (gasCallCodeEIP7702 E f sz)"
  "gas_ev f (gasDelegateCallEIP7702 E f sz)" "gas_ev f (gasStaticCallEIP7702 E f sz)"
  unfolding gasCallEIP2929_def gasCallCodeEIP2929_def gasDelegateCallEIP2929_def gasStaticCallEIP2929_def
    gasCallEIP7702_def gasCallCodeEIP7702_def gasDelegateCallEIP7702_def gasStaticCallEIP7702_def Let_def
  by (auto intro!: makeCallVariantGasCallEIP2929_ev makeCallVariantGasCallEIP7702_ev with_back_ev)

section \<open>Instructions\<close>

definition exec_ev :: "'d executionFunc \<Rightarrow> bool" where
  "exec_ev ex \<longleftrightarrow> (\<forall>f r f'. ex f = Ret (r, f') \<longrightarrow> evolves (evm f) (evm f'))"

lemma exec_evI: "(\<And>f r f'. ex f = Ret (r, f') \<Longrightarrow> evolves (evm f) (evm f')) \<Longrightarrow> exec_ev ex"
  by (simp add: exec_ev_def)

lemma shapes_ev [simp]: "exec_ev (unop g)" "exec_ev (binop h)" "exec_ev (ternop k)" "exec_ev (push_op p)"
  by (rule exec_evI; auto simp: unop_def binop_def ternop_def push_op_def obind_iffs split: list.splits)+

lemma unop_ev [simp]: "exec_ev (\<lambda>f. unop (g f) f)"
  by (rule exec_evI) (auto simp: unop_def split: list.splits)

lemma shaped_ops_ev [simp]:
  "exec_ev (opAdd E)" "exec_ev (opSub E)" "exec_ev (opMul E)" "exec_ev (opDiv E)" "exec_ev (opSdiv E)"
  "exec_ev (opMod E)" "exec_ev (opSmod E)" "exec_ev (opExp E)" "exec_ev (opSignExtend E)" "exec_ev (opNot E)"
  "exec_ev opLt" "exec_ev opGt" "exec_ev (opSlt E)" "exec_ev (opSgt E)" "exec_ev opEq" "exec_ev opIszero"
  "exec_ev (opAnd E)" "exec_ev (opOr E)" "exec_ev (opXor E)" "exec_ev (opByte E)" "exec_ev (opAddmod E)"
  "exec_ev (opMulmod E)" "exec_ev (opSHL E)" "exec_ev (opSHR E)" "exec_ev (opSAR E)" "exec_ev opCLZ"
  "exec_ev opAddress" "exec_ev opOrigin" "exec_ev opCaller" "exec_ev opCallValue" "exec_ev opCallDataSize"
  "exec_ev opReturnDataSize" "exec_ev opCodeSize" "exec_ev opGasprice" "exec_ev opCoinbase"
  "exec_ev opTimestamp" "exec_ev opNumber" "exec_ev opDifficulty" "exec_ev opRandom" "exec_ev opGasLimit"
  "exec_ev (opSelfBalance E)" "exec_ev opChainID" "exec_ev opBaseFee" "exec_ev opBlobBaseFee"
  "exec_ev opSlotNum" "exec_ev opPc" "exec_ev opMsize" "exec_ev opGas" "exec_ev opPush0"
  by (simp_all only: op_shape_defs shapes_ev)

lemma unop_ops_ev [simp]:
  "exec_ev (opBalance E)" "exec_ev (opExtCodeSize E)" "exec_ev (opExtCodeHash E)" "exec_ev opBlockhash"
  "exec_ev opBlobHash" "exec_ev (opSload E)" "exec_ev (opTload E)"
  unfolding op_unop_defs [abs_def] by (rule unop_ev)+

lemma data_ops_ev [simp]:
  "exec_ev opCallDataLoad" "exec_ev opCallDataCopy" "exec_ev (opReturnDataCopy E)" "exec_ev opCodeCopy"
  "exec_ev (opExtCodeCopy E)" "exec_ev opPop" "exec_ev opMload" "exec_ev opMstore" "exec_ev opMstore8" "exec_ev opMcopy"
  by (rule exec_evI;
      auto simp: opCallDataLoad_def opCallDataCopy_def opReturnDataCopy_def opCodeCopy_def opExtCodeCopy_def
        opPop_def opMload_def opMstore_def opMstore8_def opMcopy_def Let_def Uint64WithOverflow_def obind_iffs
        dest: copy_data_keep(1) split: list.splits if_splits)+

lemma opKeccak256_ev [simp]: "exec_ev (opKeccak256 E)"
  by (rule exec_evI) (auto simp: opKeccak256_def Let_def obind_iffs split: list.splits if_splits)

lemma jump_to_ev: "jump_to p f = Ret (r, f') \<Longrightarrow> evolves (evm f) (evm f')"
  by (auto simp: jump_to_def Let_def obind_iffs split: if_splits)

lemma control_ops_ev [simp]:
  "exec_ev (opSstore E)" "exec_ev (opTstore E)" "exec_ev opJump" "exec_ev opJumpi" "exec_ev opJumpdest"
  "exec_ev (opSwap n)" "exec_ev (makeDup n)" "exec_ev opPush1" "exec_ev (opPush2 E)" "exec_ev (makePush E sz n)"
  "exec_ev (makeLog E n)" "exec_ev opDupN" "exec_ev opSwapN" "exec_ev opExchange"
  by (rule exec_evI;
      auto simp: opSstore_def opTstore_def opJump_def opJumpi_def opJumpdest_def opSwap_def makeDup_def opPush1_def opPush2_def
        makePush_def push_bounds_def makeLog_def opDupN_def opSwapN_def opExchange_def Let_def obind_iffs
        dest: jump_to_ev split: list.splits if_splits prod.splits)+

lemma halting_ops_ev [simp]:
  "exec_ev opReturn" "exec_ev opRevert" "exec_ev opUndefined" "exec_ev opStop" "exec_ev (opSelfdestruct E)"
  "exec_ev (opSelfdestruct6780 E)"
  by (rule exec_evI;
      auto simp: opReturn_def opRevert_def opUndefined_def opStop_def opSelfdestruct_def opSelfdestruct6780_def Let_def obind_iffs
        R_Burn R_Give R_Move split: list.splits if_splits)+

section \<open>Frames\<close>

definition call_ev :: "'d EVM \<Rightarrow> 'd call_result \<Rightarrow> bool" where
  "call_ev m r \<longleftrightarrow> (\<forall>x m'. r = Ret (x, m') \<longrightarrow> evolves m m')"

definition create_ev :: "'d EVM \<Rightarrow> 'd create_result \<Rightarrow> bool" where
  "create_ev m r \<longleftrightarrow> (\<forall>x m'. r = Ret (x, m') \<longrightarrow> evolves m m')"

definition calls_ev :: "'d calls \<Rightarrow> bool" where
  "calls_ev K \<longleftrightarrow>
     (\<forall>m clr addr input gas val. call_ev m (do_Call K m clr addr input gas val)) \<and>
     (\<forall>m clr addr input gas val. call_ev m (do_CallCode K m clr addr input gas val)) \<and>
     (\<forall>m org clr addr input gas val. call_ev m (do_DelegateCall K m org clr addr input gas val)) \<and>
     (\<forall>m clr addr input gas. call_ev m (do_StaticCall K m clr addr input gas)) \<and>
     (\<forall>m clr input gas val. create_ev m (do_Create K m clr input gas val)) \<and>
     (\<forall>m clr input gas val salt. create_ev m (do_Create2 K m clr input gas val salt))"

lemma finish_call_ev:
  "call_ev (evm f) r \<Longrightarrow> finish_call a b (f\<lparr>stack := s\<rparr>) r = Ret (x, f') \<Longrightarrow> evolves (evm f) (evm f')"
  by (auto simp: finish_call_def call_ev_def obind_iffs Let_def)

lemma calls_evD:
  assumes "calls_ev K"
  shows "call_ev m (do_Call K m clr addr input gas val)" "call_ev m (do_CallCode K m clr addr input gas val)"
    "call_ev m (do_DelegateCall K m org clr addr input gas val)" "call_ev m (do_StaticCall K m clr addr input gas)"
    "create_ev m (do_Create K m clr input gas val)" "create_ev m (do_Create2 K m clr input gas val salt)"
  using assms by (simp_all add: calls_ev_def)

lemma call_ops_ev:
  assumes "calls_ev K"
  shows "exec_ev (opCall K)" "exec_ev (opCallCode K)" "exec_ev (opDelegateCall K)" "exec_ev (opStaticCall K)"
  by (rule exec_evI;
      auto simp: opCall_def opCallCode_def opDelegateCall_def opStaticCall_def Let_def obind_iffs
        split: list.splits if_splits dest: finish_call_ev [OF calls_evD(1) [OF assms]]
        finish_call_ev [OF calls_evD(2) [OF assms]] finish_call_ev [OF calls_evD(3) [OF assms]]
        finish_call_ev [OF calls_evD(4) [OF assms]])+

lemma create_ops_ev:
  assumes "calls_ev K"
  shows "exec_ev (opCreate K)" "exec_ev (opCreate2 K)"
  using assms unfolding calls_ev_def create_ev_def
  by (intro exec_evI;
      auto simp: opCreate_def opCreate2_def finish_create_def frame_UseGas_def Let_def obind_iffs
        split: list.splits if_splits prod.splits)+

text \<open>One step of an operation.\<close>

definition op_ev :: "'d operation \<Rightarrow> bool" where
  "op_ev op \<longleftrightarrow> exec_ev (execute op) \<and> (\<forall>dg f sz. dynamicGas op = Some dg \<longrightarrow> gas_ev f (dg f sz))"

lemma op_of_ev [simp]:
  "op_ev (op_of ex cg None mn mx ms) = exec_ev ex"
  "op_ev (op_of ex cg (Some dg) mn mx ms) \<longleftrightarrow> exec_ev ex \<and> (\<forall>f sz. gas_ev f (dg f sz))"
  by (simp_all add: op_ev_def)

lemma charge_dynamic_ev:
  assumes "op_ev op" and "charge_dynamic op f = Ret (c, f2)"
  shows "evolves (evm f) (evm f2)"
proof (cases "dynamicGas op")
  case None
  with assms(2) show ?thesis by (simp add: charge_dynamic_def)
next
  case (Some dg)
  have g: "dg f sz = Ret (x, f1) \<Longrightarrow> evolves (evm f) (evm f1)" for sz x f1
    using assms(1) Some by (auto simp: op_ev_def gas_ev_def)
  from assms(2) Some obtain om where om: "op_memory op f = Ret om"
    by (auto simp: charge_dynamic_def obind_iffs)
  show ?thesis
  proof (cases om)
    case (Inl e)
    with assms(2) Some om show ?thesis by (simp add: charge_dynamic_def)
  next
    case (Inr sz)
    with assms(2) Some om obtain gr f1 where gr: "dg f sz = Ret (gr, f1)"
      by (auto simp: charge_dynamic_def obind_iffs)
    from assms(2) Some om Inr gr have "evm f2 = evm f1"
      by (cases gr) (auto simp: charge_dynamic_def split: if_splits)
    with g [OF gr] show ?thesis by simp
  qed
qed

lemma step_op_ev:
  assumes "op_ev op" and "step_op op f = Ret (r, f')"
  shows "evolves (evm f) (evm f')"
proof (cases "check_stack op f \<noteq> None \<or> f_Gas f < constantGas op")
  case True
  with assms(2) show ?thesis by (auto simp: step_op_def Let_def split: option.splits if_splits)
next
  case False
  let ?f1 = "set_gas (f_Gas f - constantGas op) f"
  have run: "obind (charge_dynamic op ?f1) (\<lambda>(r, f). (case r of Inl e \<Rightarrow> stop_with e f
      | Inr memSz \<Rightarrow> execute op (if memSz > 0 then f\<lparr>memory := mem_Resize memSz (memory f)\<rparr> else f))) = Ret (r, f')"
    using assms(2) False by (simp add: step_op_def Let_def)
  then obtain c f2 where c: "charge_dynamic op ?f1 = Ret (c, f2)"
    by (auto simp: obind_iffs)
  have ex: "execute op f3 = Ret (r, f') \<Longrightarrow> evolves (evm f3) (evm f')" for f3
    using assms(1) by (cases r) (auto simp: op_ev_def exec_ev_def)
  have "evolves (evm f2) (evm f')"
  proof (cases c)
    case (Inr sz)
    with run c have "execute op (if sz > 0 then f2\<lparr>memory := mem_Resize sz (memory f2)\<rparr> else f2) = Ret (r, f')" by simp
    from ex [OF this] show ?thesis by (simp split: if_splits)
  qed (use run c in auto)
  moreover have "evolves (evm f) (evm f2)" using charge_dynamic_ev [OF assms(1) c] by simp
  ultimately show ?thesis by (rule evolves_trans [rotated])
qed

lemma charge_chunks_evm: "charge_chunks g a p n len f = Ret (b, f') \<Longrightarrow> evolves (evm f) (evm f')"
  by (auto simp: charge_chunks_def obind_iffs Let_def frame_UseGas_def split: prod.splits)

lemma step_ev:
  assumes "all_ops (\<lambda>_. op_ev) jt" and "step jt f = Ret (r, f')"
  shows "evolves (evm f) (evm f')"
proof -
  have op: "step_op (jt b) f0 = Ret (r, f') \<Longrightarrow> evolves (evm f0) (evm f')" for b f0
    by (rule step_op_ev [of "jt b"]) (use assms(1) in \<open>simp_all add: all_ops_def\<close>)
  show ?thesis
  proof (cases "IsEIP4762 (chainRules (evm f)) \<and> \<not> IsDeployment (contract f) \<and> \<not> IsSystemCall (contract f)")
    case True
    then obtain short f0 where f0: "charge_chunks fst (address (contract f)) (pc f) 1 (of_nat (length (Code (contract f)))) f = Ret (short, f0)"
      "(if short then stop_with evm_error.ErrOutOfGas f0 else step_op (jt (GetOp (contract f0) (pc f0))) f0) = Ret (r, f')"
      using assms(2) by (auto simp: step_def obind_iffs)
    have "evolves (evm f0) (evm f')"
    proof (cases short)
      case False
      with f0(2) show ?thesis by (simp add: op)
    qed (use f0(2) in auto)
    then show ?thesis by (rule evolves_trans [OF charge_chunks_evm [OF f0(1)]])
  next
    case False
    then have "step jt f = step_op (jt (GetOp (contract f) (pc f))) f"
      unfolding step_def by (subst if_not_P) auto
    with assms(2) show ?thesis by (simp add: op)
  qed
qed

lemma run_loop_ev:
  assumes "all_ops (\<lambda>_. op_ev) jt" and "run_loop n jt f = Ret (r, f')"
  shows "evolves (evm f) (evm f')"
  using assms(2)
proof (induction n arbitrary: f)
  case (Suc n)
  from Suc.prems obtain res err f1 where st: "step jt f = Ret ((res, err), f1)"
    and rest: "(case err of Some e \<Rightarrow> Ret ((res, if e = errStopToken then None else Some e), f1)
        | None \<Rightarrow> run_loop n jt (f1\<lparr>pc := pc f1 + 1\<rparr>)) = Ret (r, f')"
    by (auto simp: obind_iffs)
  have "evolves (evm f1) (evm f')"
  proof (cases err)
    case None
    with rest have "run_loop n jt (f1\<lparr>pc := pc f1 + 1\<rparr>) = Ret (r, f')" by simp
    from Suc.IH [OF this] show ?thesis by simp
  qed (use rest in auto)
  then show ?case by (rule evolves_trans [OF step_ev [OF assms(1) st]])
qed simp

definition run_ev :: "'d runner \<Rightarrow> bool" where
  "run_ev run \<longleftrightarrow> (\<forall>m c input ro x c' m'. run m c input ro = Ret (x, c', m') \<longrightarrow> evolves m m')"

lemma run_evD: "run_ev run \<Longrightarrow> run m c input ro = Ret (x, c', m') \<Longrightarrow> evolves m m'"
  unfolding run_ev_def by blast

lemma evm_Run_ev:
  assumes "all_ops (\<lambda>_. op_ev) jt"
  shows "run_ev (evm_Run jt)"
  unfolding run_ev_def
proof (intro allI impI)
  fix m c input ro x c' m'
  assume run: "evm_Run jt m c input ro = Ret (x, c', m')"
  let ?m = "m\<lparr>depth := depth m + 1, readOnly := readOnly m \<or> (ro \<and> \<not> readOnly m), returnData := []\<rparr>"
  show "evolves m m'"
  proof (cases "Code c = []")
    case True
    with run show ?thesis by (auto simp: evm_Run_def Let_def)
  next
    case False
    with run obtain f where f: "run_loop (Suc (unat (Gas c))) jt (new_frame (c\<lparr>Input := input\<rparr>) ?m) = Ret (x, f)"
      and m': "m' = (evm f)\<lparr>depth := depth (evm f) - 1, readOnly := (if ro \<and> \<not> readOnly m then False else readOnly (evm f))\<rparr>"
      by (auto simp: evm_Run_def Let_def obind_iffs simp del: run_loop.simps)
    from run_loop_ev [OF assms f] have "evolves ?m (evm f)" by (simp add: new_frame_def)
    then show ?thesis by (auto simp: m' evolves_def)
  qed
qed

section \<open>Entry points\<close>

lemma call_evI: "(\<And>x m'. r = Ret (x, m') \<Longrightarrow> evolves m m') \<Longrightarrow> call_ev m r"
  by (simp add: call_ev_def)

lemma call_precompile_ev: "call_ev m (call_precompile p input gas m)"
  by (cases "RunPrecompiledContract p input gas") (auto simp: call_ev_def call_precompile_def split: sum.splits)

lemma run_contract_ev: "run_ev run \<Longrightarrow> call_ev m (run_contract run m c input ro)"
  by (auto simp: call_ev_def run_contract_def obind_iffs dest: run_evD)

lemma call_ev_trans: "call_ev m' r \<Longrightarrow> evolves m m' \<Longrightarrow> call_ev m r"
  by (auto simp: call_ev_def intro: evolves_trans)

lemma Transfer_evolves:
  "(C (Context m) \<Longrightarrow> I (statedb m) \<Longrightarrow> M (statedb m) clr val) \<Longrightarrow> evolves m (map_db (Transfer (Context m) clr addr val) m)"
  using R_vacuous by (cases "I (statedb m)") (auto simp: evolves_def R_Transfer)

lemma call_body_ev:
  assumes "run_ev run" and may: "\<not> isSystemCall clr \<Longrightarrow> C (Context m) \<Longrightarrow> I (statedb m) \<Longrightarrow> M (statedb m) clr val"
  shows "call_ev m (call_body E run m clr addr input gas val)"
proof -
  let ?m = "if \<not> isSystemCall clr then map_db (Transfer (Context m) clr addr val) m else m"
  have m: "evolves m ?m" by (simp add: Transfer_evolves may)
  obtain m1 where m1: "m1 = ?m" by simp
  have "call_ev m1 (call_body E run m clr addr input gas val)"
    unfolding call_body_def Let_def m1 [symmetric]
    using call_precompile_ev [of m1] run_contract_ev [OF assms(1), of m1]
    by (cases "precompiles m1 addr"; cases "resolveCode E m1 addr = []") (simp_all add: call_ev_def)
  then have "call_ev ?m (call_body E run m clr addr input gas val)" using m1 by simp
  then show ?thesis using m by (rule call_ev_trans)
qed

text \<open>Whatever the state, the contexts stay.\<close>

definition keeps_context :: "'d EVM \<Rightarrow> 'd call_result \<Rightarrow> bool" where
  "keeps_context m r \<longleftrightarrow> (\<forall>x m'. r = Ret (x, m') \<longrightarrow> Context m' = Context m)"

lemma call_ev_context: "call_ev m' r \<Longrightarrow> Context m' = Context m \<Longrightarrow> keeps_context m r"
  unfolding call_ev_def keeps_context_def evolves_def by metis

lemma call_body_context:
  assumes "run_ev run"
  shows "Context m' = Context m \<Longrightarrow> keeps_context m (call_body E run m' clr addr input gas val)"
proof -
  assume ctx: "Context m' = Context m"
  obtain m1 where m1: "m1 = (if \<not> isSystemCall clr then map_db (Transfer (Context m') clr addr val) m' else m')" by simp
  then have ctx1: "Context m1 = Context m" using ctx by simp
  show ?thesis
  proof (cases "precompiles m1 addr")
    case None
    then show ?thesis
      unfolding call_body_def Let_def m1 [symmetric]
      by (simp add: call_ev_context [OF run_contract_ev [OF assms] ctx1]) (simp add: keeps_context_def ctx1)
  next
    case (Some p)
    then show ?thesis
      unfolding call_body_def Let_def m1 [symmetric]
      by (simp add: call_ev_context [OF call_precompile_ev ctx1])
  qed
qed

lemma finish_frame_context: "keeps_context m r \<Longrightarrow> keeps_context m (finish_frame E i r)"
  unfolding keeps_context_def
proof (intro allI impI)
  fix x m'
  assume r: "\<forall>x m'. r = Ret (x, m') \<longrightarrow> Context m' = Context m" and fin: "finish_frame E i r = Ret (x, m')"
  then obtain ret gas err m1 where ret: "r = Ret ((ret, gas, err), m1)" by (auto simp: finish_frame_def obind_iffs)
  with r have "Context m1 = Context m" by blast
  with fin ret show "Context m' = Context m" by (cases err) (auto simp: finish_frame_def obind_iffs)
qed

text \<open>
  What a frame gives back: it evolves, and it restores the world if it fails, provided the database is in its
  invariant and the transfer function is the one of the core.
\<close>

definition frame_ok :: "'d EVM \<Rightarrow> 'd call_result \<Rightarrow> bool" where
  "frame_ok m r \<longleftrightarrow> (\<forall>ret gas err m'. r = Ret ((ret, gas, err), m') \<longrightarrow>
     evolves m m' \<and>
     (err \<noteq> None \<longrightarrow> I (statedb m) \<longrightarrow> C (Context m) \<longrightarrow> W (statedb m') = W (statedb m)))"

lemma frame_ok_now [simp]: "frame_ok m (Ret ((ret, gas, err), m))"
  by (simp add: frame_ok_def)

lemma revert_evolves:
  assumes snap: "Snapshot (DB E) (statedb m) = (i, db)" and ev: "evolves (m\<lparr>statedb := db\<rparr>) m1"
    and rev: "RevertToSnapshot (DB E) i (statedb m1) = Some db'"
  shows "evolves m (m1\<lparr>statedb := db'\<rparr>)"
    "I (statedb m) \<Longrightarrow> C (Context m) \<Longrightarrow> W db' = W (statedb m)"
proof -
  have *: "C (Context m) \<Longrightarrow> R db (statedb m1)" "Context m1 = Context m"
    using ev by (auto simp: evolves_def)
  show "evolves m (m1\<lparr>statedb := db'\<rparr>)"
    using * rev Revert [OF _ snap, of "statedb m1"] R_vacuous by (cases "I (statedb m)") (auto simp: evolves_def)
  show "W db' = W (statedb m)" if "I (statedb m)" "C (Context m)"
    using * rev Revert [OF that(1) snap, of "statedb m1"] that(2) by auto
qed

lemma finish_frame_restores:
  assumes "Snapshot (DB E) (statedb m) = (i, db)" and "call_ev (m\<lparr>statedb := db\<rparr>) r"
  shows "frame_ok m (finish_frame E i r)"
  unfolding frame_ok_def
proof (intro allI impI)
  fix ret gas err m'
  assume fin: "finish_frame E i r = Ret ((ret, gas, err), m')"
  then obtain ret1 gas1 err1 m1 where r: "r = Ret ((ret1, gas1, err1), m1)"
    by (auto simp: finish_frame_def obind_iffs)
  with assms(2) have ev: "evolves (m\<lparr>statedb := db\<rparr>) m1" by (simp add: call_ev_def)
  show "evolves m m' \<and> (err \<noteq> None \<longrightarrow> I (statedb m) \<longrightarrow> C (Context m) \<longrightarrow>
      W (statedb m') = W (statedb m))"
  proof (cases err1)
    case None
    with fin r have "m' = m1" "err = None" by (simp_all add: finish_frame_def)
    with evolves_db_left [OF ev] R_Snapshot [OF assms(1)] show ?thesis by simp
  next
    case (Some e)
    with fin r obtain db' where "RevertToSnapshot (DB E) i (statedb m1) = Some db'" "m' = m1\<lparr>statedb := db'\<rparr>"
      by (auto simp: finish_frame_def obind_iffs)
    with revert_evolves [OF assms(1) ev] show ?thesis by simp
  qed
qed

lemma snap_evolves: "Snapshot (DB E) (statedb m) = (i, db) \<Longrightarrow> evolves m (m\<lparr>statedb := db\<rparr>)"
  using R_Snapshot by simp

lemma evm_CallCode_ok: "run_ev run \<Longrightarrow> frame_ok m (evm_CallCode E run m clr addr input gas val)"
  unfolding evm_CallCode_def Let_def
  by (auto simp: call_precompile_ev run_contract_ev split: prod.split option.split intro!: finish_frame_restores)

lemma evm_DelegateCall_ok: "run_ev run \<Longrightarrow> frame_ok m (evm_DelegateCall E run m org clr addr input gas val)"
  unfolding evm_DelegateCall_def Let_def
  by (auto simp: call_precompile_ev run_contract_ev split: prod.split option.split intro!: finish_frame_restores)

lemma evm_StaticCall_ok: "run_ev run \<Longrightarrow> frame_ok m (evm_StaticCall E run m clr addr input gas)"
  unfolding evm_StaticCall_def Let_def
  by (auto split: prod.split option.split simp: evolves_step
      intro!: finish_frame_restores call_ev_trans [OF call_precompile_ev] call_ev_trans [OF run_contract_ev])

lemma evm_Call_ok: 
  assumes "run_ev run"
  shows "frame_ok m (evm_Call E run m clr addr input gas val)"
proof (cases "depth m > CallCreateDepth \<or> \<not> isSystemCall clr \<and> val \<noteq> 0 \<and> \<not> CanTransfer (Context m) (statedb m) clr val")
  case True
  then show ?thesis by (auto simp: evm_Call_def)
next
  case False
  obtain i db where s: "Snapshot (DB E) (statedb m) = (i, db)" by fastforce
  let ?m = "m\<lparr>statedb := db\<rparr>"
  let ?charge = "precompiles m addr = None \<and> IsEIP4762 (chainRules m) \<and> \<not> isSystemCall clr"
  obtain w ae where w: "(if ?charge then CodeHashGas addr True gas False (accessEvents m) else (0, accessEvents m)) = (w, ae)"
    by fastforce
  let ?m1 = "?m\<lparr>accessEvents := ae\<rparr>"
  have call: "evm_Call E run m clr addr input gas val =
     (if \<not> Exist (DB E) db addr then
        if gas < w then
          obind (of_option (RevertToSnapshot (DB E) i db)) (\<lambda>db. Ret (([], 0, Some evm_error.ErrOutOfGas), ?m1\<lparr>statedb := db\<rparr>))
        else if precompiles m addr = None \<and> IsEIP158 (chainRules m) \<and> val = 0 then Ret (([], gas - w, None), ?m1)
        else finish_frame E i (call_body E run (map_db (CreateAccount (DB E) addr) ?m1) clr addr input (gas - w) val)
      else finish_frame E i (call_body E run ?m clr addr input gas val))"
    using False by (simp add: evm_Call_def s w Let_def cong: if_cong) (auto simp: s w)
  have body: "frame_ok m (finish_frame E i (call_body E run m' clr addr input g val))"
    if "evolves ?m m'" and may: "I (statedb m) \<Longrightarrow> \<not> isSystemCall clr \<Longrightarrow> C (Context m) \<Longrightarrow> M (statedb m') clr val" for m' g
  proof (cases "I (statedb m)")
    case True
    have "Context m' = Context m" using that(1) by (simp add: evolves_def)
    then show ?thesis
      by (intro finish_frame_restores [OF s] call_ev_trans [OF call_body_ev [OF assms] that(1)]) (use may True in simp)
  next
    case False
    have "Context m' = Context m" using that(1) by (simp add: evolves_def)
    from finish_frame_context [OF call_body_context [OF assms this], of i] False R_vacuous show ?thesis
      by (auto simp: frame_ok_def keeps_context_def evolves_def)
  qed
  have may: "M db clr val" if "I (statedb m)" "\<not> isSystemCall clr" "C (Context m)"
    using M_Snapshot [OF that(1) s M_Transfer [OF that(3,1)]] that False by blast
  have may_new: "M (CreateAccount (DB E) addr db) clr val"
    if "\<not> Exist (DB E) db addr" "I (statedb m)" "\<not> isSystemCall clr" "C (Context m)"
    using M_CreateAccount [OF R_I [OF R_Snapshot [OF s]] that(1) may] that(2-4) by blast
  have new: "\<not> Exist (DB E) db addr \<Longrightarrow> evolves ?m (map_db (CreateAccount (DB E) addr) ?m1)"
    using R_CreateAccount by (simp add: evolves_def)
  have rev: "frame_ok m (obind (of_option (RevertToSnapshot (DB E) i db))
      (\<lambda>db. Ret (([], 0, Some evm_error.ErrOutOfGas), ?m1\<lparr>statedb := db\<rparr>)))"
  proof (cases "RevertToSnapshot (DB E) i db")
    case (Some db')
    then have "RevertToSnapshot (DB E) i (statedb ?m1) = Some db'" by simp
    note r = revert_evolves [OF s _ this]
    have "evolves ?m ?m1" by simp
    from r [OF this] Some show ?thesis by (simp add: frame_ok_def)
  qed (simp add: frame_ok_def)
  have "frame_ok m (Ret (([], gas - w, None), ?m1))" using R_Snapshot [OF s] by (simp add: frame_ok_def)
  then show ?thesis
    unfolding call using body [of ?m] body [OF new] may may_new rev by simp
qed

lemma frame_ok_ev: "frame_ok m r \<Longrightarrow> call_ev m r"
  by (auto simp: frame_ok_def call_ev_def)

text \<open>Creation: the address has no code yet when its code is set.\<close>

lemma evolves_I: "evolves m m' \<Longrightarrow> C (Context m) \<Longrightarrow> I (statedb m) \<Longrightarrow> I (statedb m')"
  by (auto simp: evolves_def dest: R_I)

lemma evolves_S:
  "evolves m m' \<Longrightarrow> C (Context m) \<Longrightarrow> I (statedb m) \<Longrightarrow> S (statedb m) a \<Longrightarrow> S (statedb m') a"
  by (auto simp: evolves_def dest: R_S)

lemma SetCode_evolves:
  assumes "evolves m m'" and "I (statedb m) \<Longrightarrow> S (statedb m) a"
  shows "evolves m (map_db (SetCode (DB E) a c) m')"
proof (cases "C (Context m) \<and> I (statedb m)")
  case True
  with assms have "S (statedb m') a" using evolves_S by blast
  with assms(1) show ?thesis by (simp add: R_SetCode)
next
  case False
  with assms(1) R_vacuous show ?thesis by (auto simp: evolves_def)
qed

lemma initNewContract_parts:
  assumes "initNewContract E run m c addr = Ret (x, c', m')"
  obtains ret err c1 m1 ae where "run m c [] False = Ret ((ret, err), c1, m1)"
    "m' = m1\<lparr>accessEvents := ae\<rparr> \<or> m' = map_db (SetCode (DB E) addr ret) (m1\<lparr>accessEvents := ae\<rparr>)"
proof -
  from assms obtain ret err c1 m1 where run: "run m c [] False = Ret ((ret, err), c1, m1)"
    by (auto simp: initNewContract_def obind_iffs)
  define Q where "Q m2 \<longleftrightarrow> (\<exists>ae. m2 = m1\<lparr>accessEvents := ae\<rparr> \<or> m2 = map_db (SetCode (DB E) addr ret) (m1\<lparr>accessEvents := ae\<rparr>))" for m2
  have Q: "Q m1" "Q (map_db (SetCode (DB E) addr ret) m1)"
    unfolding Q_def by (rule exI [of _ "accessEvents m1"], simp)+
  have Q': "Q (m1\<lparr>accessEvents := ae\<rparr>)" "Q (map_db (SetCode (DB E) addr ret) (m1\<lparr>accessEvents := ae\<rparr>))" for ae
    unfolding Q_def by blast+
  have "Q m'"
    using assms run Q Q'
    by (cases "CodeChunksRangeGas addr 0 (of_nat (length ret)) (of_nat (length ret)) True (Gas c1) (accessEvents m1)")
      (auto simp: initNewContract_def obind_iffs Let_def case_prod_beta split: if_splits)
  then have "\<exists>ae. m' = m1\<lparr>accessEvents := ae\<rparr> \<or> m' = map_db (SetCode (DB E) addr ret) (m1\<lparr>accessEvents := ae\<rparr>)"
    by (simp add: Q_def)
  with run that show ?thesis by blast
qed

lemma initNewContract_ev:
  assumes "run_ev run" and "I (statedb m) \<Longrightarrow> S (statedb m) addr" and init: "initNewContract E run m c addr = Ret (x, c', m')"
  shows "evolves m m'"
  using init
proof (cases rule: initNewContract_parts)
  case (1 ret err c1 m1 ae)
  have m1: "evolves m (m1\<lparr>accessEvents := ae\<rparr>)" using run_evD [OF assms(1) 1(1)] by simp
  with SetCode_evolves [OF m1 assms(2)] 1(2) show ?thesis by blast
qed

lemma initNewContract_Context:
  assumes "run_ev run" and "initNewContract E run m c addr = Ret (x, c', m')"
  shows "Context m' = Context m"
  using assms(2)
proof (cases rule: initNewContract_parts)
  case (1 ret err c1 m1 ae)
  with run_evD [OF assms(1) 1(1)] show ?thesis by (auto simp: evolves_def)
qed

lemma R_CreateAccount_if: "R d (if \<not> Exist (DB E) d a then CreateAccount (DB E) a d else d)"
  by (simp add: R_CreateAccount)

text \<open>The state of a new contract before its init code runs.\<close>

definition new_contract_db :: "bool \<Rightarrow> Address \<Rightarrow> 'd \<Rightarrow> 'd" where
  "new_contract_db eip158 a d =
     (let d = CreateContract (DB E) a (if \<not> Exist (DB E) d a then CreateAccount (DB E) a d else d)
      in if eip158 then SetNonce (DB E) a 1 d else d)"

lemma new_contract_db_R:
  assumes I: "I d0" and s: "Snapshot (DB E) d0 = (i, d)" and fresh: "GetNonce (DB E) d0 a = 0"
  shows "R d (new_contract_db b a d)" and "M d0 clr v \<Longrightarrow> M (new_contract_db b a d) clr v"
proof -
  let ?d2 = "if \<not> Exist (DB E) d a then CreateAccount (DB E) a d else d"
  let ?d3 = "CreateContract (DB E) a ?d2"
  have d: "I d" using R_I [OF R_Snapshot [OF s] I] .
  have r2: "R d ?d2" by (simp add: R_CreateAccount_if)
  then have d2: "I ?d2" using d by (rule R_I)
  have r3: "R d ?d3" using r2 by simp
  then have d3: "I ?d3" using d by (rule R_I)
  have "GetNonce (DB E) ?d2 a = 0" using fresh N_Snapshot [OF I s] N_CreateAccount [OF d] by simp
  then have "GetNonce (DB E) ?d3 a = 0" using N_CreateContract [OF d2] by simp
  from R_trans [OF r3 R_FirstNonce [OF this]] r3 show "R d (new_contract_db b a d)"
    unfolding new_contract_db_def Let_def by (cases b) simp_all
  show "M (new_contract_db b a d) clr v" if "M d0 clr v"
  proof -
    have "M ?d2 clr v" using M_Snapshot [OF I s that] M_CreateAccount [OF d] by simp
    then have "M ?d3 clr v" by (rule M_CreateContract [OF d2])
    then show ?thesis using M_SetNonce [OF d3] unfolding new_contract_db_def Let_def by (cases b) simp_all
  qed
qed

lemma create_body_parts:
  assumes body: "create_body E run m clr code gas val addr = Ret (x, m')" and s: "Snapshot (DB E) (statedb m) = (i, db)"
  obtains (early) ae where "m' = m\<lparr>statedb := new_contract_db (IsEIP158 (chainRules m)) addr db, accessEvents := ae\<rparr>"
  | (ran) ae c y c' m7 where "initNewContract E run (map_db (Transfer (Context m) clr addr val)
        (m\<lparr>statedb := new_contract_db (IsEIP158 (chainRules m)) addr db, accessEvents := ae\<rparr>)) c addr = Ret (y, c', m7)"
      "m' = m7 \<or> (\<exists>db'. RevertToSnapshot (DB E) i (statedb m7) = Some db' \<and> m' = m7\<lparr>statedb := db'\<rparr>)"
proof -
  let ?m1 = "m\<lparr>statedb := db\<rparr>"
  let ?m2 = "if \<not> Exist (DB E) (statedb ?m1) addr then map_db (CreateAccount (DB E) addr) ?m1 else ?m1"
  let ?m3 = "map_db (CreateContract (DB E) addr) ?m2"
  obtain m4 where m4_code: "m4 = (if IsEIP158 (chainRules ?m3) then map_db (SetNonce (DB E) addr 1) ?m3 else ?m3)" by simp
  then have m4: "m4 = m\<lparr>statedb := new_contract_db (IsEIP158 (chainRules m)) addr db\<rparr>"
    by (simp add: new_contract_db_def Let_def)
  obtain consumed wanted ae where g: "(if IsEIP4762 (chainRules m4) then ContractCreateInitGas addr gas (accessEvents m4)
      else ((0, 0), accessEvents m4)) = ((consumed, wanted), ae)" by (metis surj_pair)
  let ?m5 = "m4\<lparr>accessEvents := ae\<rparr>"
  let ?m6 = "map_db (Transfer (Context ?m5) clr addr val) ?m5"
  let ?c = "(SetCallCode 0 code (NewContract clr addr val (gas - consumed)))\<lparr>IsDeployment := True\<rparr>"
  have b: "create_body E run m clr code gas val addr =
    (if consumed < wanted then Ret (([], 0, 0, Some evm_error.ErrOutOfGas), ?m5)
     else obind (initNewContract E run ?m6 ?c addr) (\<lambda>((ret, err), c, m).
                 (case err of
                    None \<Rightarrow> Ret ((ret, addr, Gas c, None), m)
                  | Some e \<Rightarrow>
                      if IsHomestead (chainRules m) \<or> e \<noteq> ErrCodeStoreOutOfGas then
                        obind (of_option (RevertToSnapshot (DB E) i (statedb m))) (\<lambda>db.
                          (let c = (if e \<noteq> ErrExecutionReverted then snd (UseGas (Gas c) c) else c)
                           in Ret ((ret, addr, Gas c, err), m\<lparr>statedb := db\<rparr>)))
                      else Ret ((ret, addr, Gas c, err), m))))"
    unfolding create_body_def s prod.case Let_def m4_code [symmetric] g by simp
  show ?thesis
  proof (cases "consumed < wanted")
    case True
    with body b have "m' = ?m5" by simp
    then show ?thesis by (intro early [of ae]) (simp add: m4)
  next
    case False
    with body b obtain ret err c m7 where i7: "initNewContract E run ?m6 ?c addr = Ret ((ret, err), c, m7)"
      by (auto simp: obind_iffs)
    have "m' = m7 \<or> (\<exists>db'. RevertToSnapshot (DB E) i (statedb m7) = Some db' \<and> m' = m7\<lparr>statedb := db'\<rparr>)"
      using body b i7 False by (auto simp: obind_iffs Let_def split: option.splits if_splits)
    with i7 show ?thesis unfolding m4 by (intro ran [of ae ?c "(ret, err)" c m7]) simp_all
  qed
qed

lemma create_body_context:
  assumes "run_ev run" and "create_body E run m clr code gas val addr = Ret (x, m')"
  shows "Context m' = Context m"
proof -
  obtain i db where s: "Snapshot (DB E) (statedb m) = (i, db)" by fastforce
  from assms(2) s show ?thesis
  proof (cases rule: create_body_parts)
    case (ran ae c y c' m7)
    with initNewContract_Context [OF assms(1) ran(1)] show ?thesis by auto
  qed simp
qed

lemma create_body_ev:
  assumes "run_ev run" and S: "I (statedb m) \<Longrightarrow> S (statedb m) addr" and fresh: "GetNonce (DB E) (statedb m) addr = 0"
    and may: "C (Context m) \<Longrightarrow> I (statedb m) \<Longrightarrow> M (statedb m) clr val"
  shows "create_ev m (create_body E run m clr code gas val addr)"
  unfolding create_ev_def
proof (intro allI impI)
  fix x m'
  assume body: "create_body E run m clr code gas val addr = Ret (x, m')"
  show "evolves m m'"
  proof (cases "C (Context m) \<and> I (statedb m)")
    case False
    with create_body_context [OF assms(1) body] R_vacuous show ?thesis by (auto simp: evolves_def)
  next
    case True
    obtain i db where s: "Snapshot (DB E) (statedb m) = (i, db)" by fastforce
    let ?m1 = "m\<lparr>statedb := db\<rparr>"
    let ?m4 = "\<lambda>ae. m\<lparr>statedb := new_contract_db (IsEIP158 (chainRules m)) addr db, accessEvents := ae\<rparr>"
    note new = new_contract_db_R [OF conjunct2 [OF True] s fresh]
    have e1: "evolves m ?m1" by (rule snap_evolves [OF s])
    have e4: "evolves ?m1 (?m4 ae)" for ae using new(1) by (simp add: evolves_step)
    from body s show ?thesis
    proof (cases rule: create_body_parts)
      case (early ae)
      with evolves_trans [OF e1 e4] show ?thesis by simp
    next
      case (ran ae c y c' m7)
      let ?m6 = "map_db (Transfer (Context m) clr addr val) (?m4 ae)"
      have "evolves (?m4 ae) (map_db (Transfer (Context (?m4 ae)) clr addr val) (?m4 ae))"
        by (rule Transfer_evolves) (use new(2) may True in simp)
      then have e6: "evolves ?m1 ?m6" using evolves_trans [OF e4] by simp
      have "S (statedb ?m6) addr"
        by (rule evolves_S [OF evolves_trans [OF e1 e6]]) (use True S in auto)
      then have "evolves ?m6 m7" by (rule initNewContract_ev [OF assms(1) _ ran(1)])
      then have e7: "evolves ?m1 m7" by (rule evolves_trans [OF e6])
      with ran(2) revert_evolves(1) [OF s e7] evolves_trans [OF e1 e7] show ?thesis by blast
    qed
  qed
qed

lemma evm_create_ev:
  assumes "run_ev run"
  shows "create_ev m (evm_create E run m clr code gas val addr)"
proof (cases "CanTransfer (Context m) (statedb m) clr val \<and> \<not> GetNonce (DB E) (statedb m) clr + 1 < GetNonce (DB E) (statedb m) clr")
  case False
  then show ?thesis by (auto simp: evm_create_def create_ev_def Let_def)
next
  case True
  let ?d1 = "SetNonce (DB E) clr (GetNonce (DB E) (statedb m) clr + 1) (statedb m)"
  have r1: "R (statedb m) ?d1" using True by (simp add: R_NextNonce)
  have may: "M ?d1 clr val" "M (AddAddressToAccessList (DB E) addr ?d1) clr val" if "C (Context m)" "I (statedb m)"
  proof -
    show "M ?d1 clr val" using True M_SetNonce [OF that(2) M_Transfer [OF that]] by blast
    then show "M (AddAddressToAccessList (DB E) addr ?d1) clr val" by (rule M_AddAddress [OF R_I [OF r1 that(2)]])
  qed
  have cb: "create_ev m (create_body E run m' clr code g val addr)"
    if "\<not> collides E (statedb m') addr" and ev: "evolves m m'" and "C (Context m) \<Longrightarrow> I (statedb m) \<Longrightarrow> M (statedb m') clr val" for m' g
  proof (cases "C (Context m) \<and> I (statedb m)")
    case True
    have ctx: "Context m' = Context m" using ev by (simp add: evolves_def)
    have "create_ev m' (create_body E run m' clr code g val addr)"
      by (rule create_body_ev [OF assms S_empty]) (use that True ctx in \<open>auto simp: collides_def Let_def\<close>)
    then show ?thesis using ev by (auto simp: create_ev_def intro: evolves_trans)
  next
    case False
    have "Context m2 = Context m'" if "create_body E run m' clr code g val addr = Ret (x, m2)" for x m2
      by (rule create_body_context [OF assms that])
    then have "Context m2 = Context m" if "create_body E run m' clr code g val addr = Ret (x, m2)" for x m2
      using that ev by (simp add: evolves_def)
    then show ?thesis unfolding create_ev_def evolves_def using False R_vacuous by blast
  qed
  show ?thesis
    using True r1 may unfolding evm_create_def Let_def
    by (auto simp: create_ev_def [of m "Ret _"] split: prod.split intro!: cb)
qed

lemma calls_with_ev: "run_ev run \<Longrightarrow> calls_ev (calls_with E run)"
  by (simp add: calls_ev_def calls_with_def evm_Create_def evm_Create2_def Let_def evm_create_ev frame_ok_ev
      evm_Call_ok evm_CallCode_ok evm_DelegateCall_ok evm_StaticCall_ok)

section \<open>Tables\<close>

lemmas entry_ev = op_of_ev gas_fun_defs

lemma undefined_ev: "op_ev undefined_operation"
  by (simp add: undefined_operation_def op_ev_def)

lemma frontier_ev_1:
  "list_all (\<lambda>(b, op). op_ev op) (frontier_arithmetic E)"
  "list_all (\<lambda>(b, op). op_ev op) (frontier_environment E)"
  "list_all (\<lambda>(b, op). op_ev op) (frontier_block_memory E)"
  by (simp_all add: frontier_parts entry_ev)

lemma frontier_ev_2:
  "list_all (\<lambda>(b, op). op_ev op) (frontier_push_low E)"
  "list_all (\<lambda>(b, op). op_ev op) (frontier_push_high E)"
  "list_all (\<lambda>(b, op). op_ev op) frontier_dup"
  "list_all (\<lambda>(b, op). op_ev op) frontier_swap"
  by (simp_all add: frontier_parts entry_ev)

text \<open>Every table of the forks, for entry points that evolve.\<close>

lemmas calls_entry = entry_ev call_ops_ev create_ops_ev

lemma frontier_ev: "calls_ev K \<Longrightarrow> all_ops (\<lambda>_. op_ev) (newFrontierInstructionSet E K)"
  by (rule all_ops_frontier) (simp_all only: frontier_ev_1 frontier_ev_2 undefined_ev, simp add: frontier_parts calls_entry)

lemma homestead_ev: "calls_ev K \<Longrightarrow> all_ops (\<lambda>_. op_ev) (newHomesteadInstructionSet E K)"
  unfolding newHomesteadInstructionSet_def by (intro all_ops_intros frontier_ev; assumption?) (simp add: calls_entry)

lemma tangerine_ev: "calls_ev K \<Longrightarrow> all_ops (\<lambda>_. op_ev) (newTangerineWhistleInstructionSet E K)"
  unfolding newTangerineWhistleInstructionSet_def Let_def
  by (intro all_ops_intros homestead_ev; assumption?)
    (simp_all add: calls_entry newHomesteadInstructionSet_def table_update_defs frontier_lookup)

lemma spurious_ev: "calls_ev K \<Longrightarrow> all_ops (\<lambda>_. op_ev) (newSpuriousDragonInstructionSet E K)"
  unfolding newSpuriousDragonInstructionSet_def
  by (intro all_ops_intros tangerine_ev; assumption?)
    (simp_all add: calls_entry newTangerineWhistleInstructionSet_def newHomesteadInstructionSet_def table_update_defs frontier_lookup Let_def)

lemma byzantium_ev: "calls_ev K \<Longrightarrow> all_ops (\<lambda>_. op_ev) (newByzantiumInstructionSet E K)"
  unfolding newByzantiumInstructionSet_def by (intro all_ops_intros spurious_ev; assumption?) (simp_all add: calls_entry)

lemma constantinople_ev: "calls_ev K \<Longrightarrow> all_ops (\<lambda>_. op_ev) (newConstantinopleInstructionSet E K)"
  unfolding newConstantinopleInstructionSet_def by (intro all_ops_intros byzantium_ev; assumption?) (simp_all add: calls_entry)

lemma istanbul_ev: "calls_ev K \<Longrightarrow> all_ops (\<lambda>_. op_ev) (newIstanbulInstructionSet E K)"
  unfolding newIstanbulInstructionSet_def enable2200_def enable1884_def enable1344_def Let_def
  by (intro all_ops_intros constantinople_ev; assumption?)
    (simp_all add: calls_entry newConstantinopleInstructionSet_def newByzantiumInstructionSet_def newSpuriousDragonInstructionSet_def
      newTangerineWhistleInstructionSet_def newHomesteadInstructionSet_def table_update_defs frontier_lookup Let_def)

lemma berlin_ev: "calls_ev K \<Longrightarrow> all_ops (\<lambda>_. op_ev) (newBerlinInstructionSet E K)"
  unfolding newBerlinInstructionSet_def enable2929_def Let_def
  by (intro all_ops_intros istanbul_ev; assumption?) (simp_all add: calls_entry table_update_defs istanbul_lookup)

lemma london_ev: "calls_ev K \<Longrightarrow> all_ops (\<lambda>_. op_ev) (newLondonInstructionSet E K)"
  unfolding newLondonInstructionSet_def enable3529_def enable3198_def
  by (intro all_ops_intros berlin_ev; assumption?)
    (simp_all add: calls_entry newBerlinInstructionSet_def enable2929_def table_update_defs istanbul_lookup Let_def)

lemma merge_ev: "calls_ev K \<Longrightarrow> all_ops (\<lambda>_. op_ev) (newMergeInstructionSet E K)"
  unfolding newMergeInstructionSet_def by (intro all_ops_intros london_ev; assumption?) (simp add: calls_entry)

lemma shanghai_ev: "calls_ev K \<Longrightarrow> all_ops (\<lambda>_. op_ev) (newShanghaiInstructionSet E K)"
  unfolding newShanghaiInstructionSet_def enable3860_def enable3855_def
  by (intro all_ops_intros merge_ev; assumption?) (simp_all add: calls_entry table_update_defs merge_lookup)

lemma cancun_ev: "calls_ev K \<Longrightarrow> all_ops (\<lambda>_. op_ev) (newCancunInstructionSet E K)"
  unfolding newCancunInstructionSet_def enable6780_def enable5656_def enable1153_def enable7516_def enable4844_def
  by (intro all_ops_intros shanghai_ev; assumption?) (simp_all add: calls_entry)

lemma prague_ev: "calls_ev K \<Longrightarrow> all_ops (\<lambda>_. op_ev) (newPragueInstructionSet E K)"
  unfolding newPragueInstructionSet_def enable7702_def Let_def
  by (intro all_ops_intros cancun_ev; assumption?) (simp_all add: calls_entry table_update_defs cancun_lookup)

lemma osaka_ev: "calls_ev K \<Longrightarrow> all_ops (\<lambda>_. op_ev) (newOsakaInstructionSet E K)"
  unfolding newOsakaInstructionSet_def enable7939_def by (intro all_ops_intros prague_ev; assumption?) (simp add: calls_entry)

lemma amsterdam_ev: "calls_ev K \<Longrightarrow> all_ops (\<lambda>_. op_ev) (newAmsterdamInstructionSet E K)"
  unfolding newAmsterdamInstructionSet_def enable8024_def enable7843_def
  by (intro all_ops_intros osaka_ev; assumption?) (simp_all add: calls_entry)

lemma instructionSet_ev: "calls_ev K \<Longrightarrow> \<not> IsVerkle rules \<Longrightarrow> all_ops (\<lambda>_. op_ev) (instructionSet rules E K)"
  by (simp add: instructionSet_def frontier_ev homestead_ev tangerine_ev spurious_ev byzantium_ev constantinople_ev
      istanbul_ev berlin_ev london_ev merge_ev shanghai_ev cancun_ev prague_ev osaka_ev amsterdam_ev)

lemma Run_at_ev: "\<not> IsVerkle rules \<Longrightarrow> run_ev (Run_at n E (instructionSet rules E))"
proof (induction n)
  case (Suc n)
  then show ?case by (simp add: evm_Run_ev instructionSet_ev calls_with_ev)
qed (simp add: run_ev_def)

text \<open>A call that reports an error leaves the world as it was.\<close>

lemma failed_call_restores:
  assumes "\<not> IsVerkle rules" and "I (statedb m)" and "C (Context m)"
    and "run = Run_at n E (instructionSet rules E)"
    and "Ret ((ret, left, Some e), m') \<in>
      {evm_Call E run m clr addr input gas val, evm_CallCode E run m clr addr input gas val,
       evm_DelegateCall E run m org clr addr input gas val, evm_StaticCall E run m clr addr input gas}"
  shows "W (statedb m') = W (statedb m)" "I (statedb m')"
proof -
  have run: "run_ev run" unfolding assms(4) by (rule Run_at_ev [OF assms(1)])
  have ok: "frame_ok m (Ret ((ret, left, Some e), m'))"
    using assms(5) evm_Call_ok [OF run] evm_CallCode_ok [OF run] evm_DelegateCall_ok [OF run] evm_StaticCall_ok [OF run]
    by (elim insertE) (simp_all only: singleton_iff empty_iff)
  show "W (statedb m') = W (statedb m)" using ok assms(2,3) by (simp add: frame_ok_def)
  show "I (statedb m')" using ok assms(2,3) evolves_I [of m m'] by (simp add: frame_ok_def)
qed

end

end
