(* ===== verification/State_Access.thy ===== *)
theory State_Access
  imports Evm_Run "HOL-Library.AList"
begin

text \<open>
  The access list (\<^verbatim>\<open>src/go-ethereum/core/state/access_list.go\<close>) and the transient storage
  (\<^verbatim>\<open>transient_storage.go\<close>) of a transaction.

  A Go map is an association list in which a key occurs once: its order is the order in which a loop over the
  map happens to visit it. An index of the access list is an \<open>int\<close>, \<open>-1\<close> standing for an address without slots.
  A slice index out of range and the explicit \<^verbatim>\<open>panic\<close> are \<open>None\<close>.
\<close>

section \<open>Access list\<close>

record accessList =
  al_addresses :: "(Address \<times> int) list"
  al_slots :: "Hash set list"

definition newAccessList :: accessList where
  "newAccessList = \<lparr>al_addresses = [], al_slots = []\<rparr>"

definition al_ContainsAddress :: "accessList \<Rightarrow> Address \<Rightarrow> bool" where
  "al_ContainsAddress al addr \<longleftrightarrow> map_of (al_addresses al) addr \<noteq> None"

definition al_Contains :: "accessList \<Rightarrow> Address \<Rightarrow> Hash \<Rightarrow> (bool \<times> bool) option" where
  "al_Contains al addr slot =
     (case map_of (al_addresses al) addr of
        None \<Rightarrow> Some (False, False)
      | Some idx \<Rightarrow>
          if idx = -1 then Some (True, False)
          else if 0 \<le> idx \<and> nat idx < length (al_slots al) then Some (True, slot \<in> al_slots al ! nat idx)
          else None)"

definition al_Copy :: "accessList \<Rightarrow> accessList" where
  "al_Copy al = \<lparr>al_addresses = al_addresses al, al_slots = map (\<lambda>slotMap. slotMap) (al_slots al)\<rparr>"

definition al_AddAddress :: "Address \<Rightarrow> accessList \<Rightarrow> bool \<times> accessList" where
  "al_AddAddress addr al =
     (if map_of (al_addresses al) addr \<noteq> None then (False, al)
      else (True, al\<lparr>al_addresses := AList.update addr (-1) (al_addresses al)\<rparr>))"

definition al_AddSlot :: "Address \<Rightarrow> Hash \<Rightarrow> accessList \<Rightarrow> ((bool \<times> bool) \<times> accessList) option" where
  "al_AddSlot addr slot al =
     (let fresh = al\<lparr>al_addresses := AList.update addr (int (length (al_slots al))) (al_addresses al),
                    al_slots := al_slots al @ [{slot}]\<rparr>
      in case map_of (al_addresses al) addr of
           None \<Rightarrow> Some ((True, True), fresh)
         | Some idx \<Rightarrow>
             if idx = -1 then Some ((False, True), fresh)
             else if \<not> (0 \<le> idx \<and> nat idx < length (al_slots al)) then None
             else
               (let slotmap = al_slots al ! nat idx
                in if slot \<notin> slotmap
                   then Some ((False, True), al\<lparr>al_slots := (al_slots al)[nat idx := insert slot slotmap]\<rparr>)
                   else Some ((False, False), al)))"

definition al_DeleteSlot :: "Address \<Rightarrow> Hash \<Rightarrow> accessList \<Rightarrow> accessList option" where
  "al_DeleteSlot addr slot al =
     (case map_of (al_addresses al) addr of
        None \<Rightarrow> None
      | Some idx \<Rightarrow>
          if \<not> (0 \<le> idx \<and> nat idx < length (al_slots al)) then None
          else
            (let slotmap = al_slots al ! nat idx - {slot};
                 slots = (al_slots al)[nat idx := slotmap]
             in if slotmap = {}
                then Some (al\<lparr>al_slots := take (nat idx) slots,
                              al_addresses := AList.update addr (-1) (al_addresses al)\<rparr>)
                else Some (al\<lparr>al_slots := slots\<rparr>)))"

definition al_DeleteAddress :: "Address \<Rightarrow> accessList \<Rightarrow> accessList" where
  "al_DeleteAddress addr al = al\<lparr>al_addresses := AList.delete addr (al_addresses al)\<rparr>"

definition al_Equal :: "accessList \<Rightarrow> accessList \<Rightarrow> bool" where
  "al_Equal al other \<longleftrightarrow>
     list_all (\<lambda>(k, v). map_of (al_addresses other) k = Some v) (al_addresses al) \<and>
     length (al_addresses al) = length (al_addresses other) \<and> al_slots al = al_slots other"

text \<open>
  Well-formedness: an address without slots has the index \<open>-1\<close>, every other index is in range, and no set of
  slots is empty.
\<close>

definition al_ok :: "accessList \<Rightarrow> bool" where
  "al_ok al \<longleftrightarrow>
     (\<forall>a idx. map_of (al_addresses al) a = Some idx \<longrightarrow> idx = -1 \<or> 0 \<le> idx \<and> nat idx < length (al_slots al)) \<and>
     {} \<notin> set (al_slots al)"

text \<open>What the access list says: its map of indices and its sets.\<close>

definition al_view :: "accessList \<Rightarrow> (Address \<rightharpoonup> int) \<times> Hash set list" where
  "al_view al = (map_of (al_addresses al), al_slots al)"

section \<open>Transient storage\<close>

type_synonym Storage = "(Hash \<times> Hash) list"
type_synonym transientStorage = "(Address \<times> Storage) list"

definition newTransientStorage :: transientStorage where
  "newTransientStorage = []"

definition ts_Set :: "Address \<Rightarrow> Hash \<Rightarrow> Hash \<Rightarrow> transientStorage \<Rightarrow> transientStorage" where
  "ts_Set addr key v t =
     (if v = 0 then
        (case map_of t addr of
           None \<Rightarrow> t
         | Some m \<Rightarrow>
             (let m' = AList.delete key m
              in if m' = [] then AList.delete addr t else AList.update addr m' t))
      else
        (let m = (case map_of t addr of None \<Rightarrow> [] | Some m \<Rightarrow> m)
         in AList.update addr (AList.update key v m) t))"

text \<open>A missing key of a storage map reads as the zero hash.\<close>

definition get0 :: "Storage \<Rightarrow> Hash \<Rightarrow> Hash" where
  "get0 m key = (case map_of m key of Some v \<Rightarrow> v | None \<Rightarrow> 0)"

definition ts_Get :: "transientStorage \<Rightarrow> Address \<Rightarrow> Hash \<Rightarrow> Hash" where
  "ts_Get t addr key = (case map_of t addr of None \<Rightarrow> 0 | Some m \<Rightarrow> get0 m key)"

definition ts_Copy :: "transientStorage \<Rightarrow> transientStorage" where
  "ts_Copy t = map (\<lambda>(key, v). (key, v)) t"

section \<open>Facts\<close>

lemma al_okD:
  assumes "al_ok al" "map_of (al_addresses al) a = Some idx" "idx \<noteq> -1"
  shows "0 \<le> idx" "nat idx < length (al_slots al)"
  using assms by (auto simp: al_ok_def)

lemma al_ok_view: "al_view al = al_view al' \<Longrightarrow> al_ok al \<longleftrightarrow> al_ok al'"
  by (simp add: al_view_def al_ok_def)

lemma al_Copy_id [simp]: "al_Copy al = al"
  by (simp add: al_Copy_def)

lemma ts_Copy_id [simp]: "ts_Copy t = t"
  by (simp add: ts_Copy_def)

lemma ts_Get_new [simp]: "ts_Get newTransientStorage a k = 0"
  by (simp add: ts_Get_def newTransientStorage_def)

lemma get0_simps [simp]:
  "get0 [] k = 0"
  "get0 (AList.update k v m) k' = (if k' = k then v else get0 m k')"
  "get0 (AList.delete k m) k' = (if k' = k then 0 else get0 m k')"
  by (simp_all add: get0_def update_conv' delete_conv')

lemma ts_Get_Set:
  "ts_Get (ts_Set a k v t) = (ts_Get t)(a := (ts_Get t a)(k := v))"
proof (intro ext)
  fix a' k'
  have gone: "get0 m k' = 0" if "k' \<noteq> k" "AList.delete k m = []" for m
    using that get0_simps(3) [of k m k'] by simp
  show "ts_Get (ts_Set a k v t) a' k' = ((ts_Get t)(a := (ts_Get t a)(k := v))) a' k'"
    by (auto simp: ts_Get_def ts_Set_def Let_def update_conv' delete_conv' gone split: option.splits)
qed

text \<open>The two operations that the journal records, and what undoing them gives back.\<close>

lemma al_AddAddress_view:
  "al_AddAddress a al = (new, al') \<Longrightarrow>
     new = (map_of (al_addresses al) a = None) \<and>
     al_view al' = (if new then ((fst (al_view al))(a \<mapsto> -1), snd (al_view al)) else al_view al)"
  by (auto simp: al_AddAddress_def al_view_def update_conv' split: if_splits)

lemma al_ok_AddAddress: "al_ok al \<Longrightarrow> al_ok (snd (al_AddAddress a al))"
  by (auto simp: al_AddAddress_def al_ok_def update_conv')

lemma al_ok_AddSlot:
  assumes "al_ok al"
  shows "\<exists>r al'. al_AddSlot a k al = Some (r, al') \<and> al_ok al'"
proof (cases "map_of (al_addresses al) a")
  case None
  with assms show ?thesis by (auto simp: al_AddSlot_def Let_def al_ok_def update_conv' less_Suc_eq)
next
  case (Some idx)
  show ?thesis
  proof (cases "idx = -1")
    case True
    with assms Some show ?thesis by (auto simp: al_AddSlot_def Let_def al_ok_def update_conv' less_Suc_eq)
  next
    case False
    note idx = al_okD [OF assms Some False]
    from assms have "al_ok (al\<lparr>al_slots := (al_slots al)[nat idx := insert k (al_slots al ! nat idx)]\<rparr>)"
      by (auto simp: al_ok_def dest!: set_update_subset_insert [THEN subsetD])
    with assms Some False idx show ?thesis by (auto simp: al_AddSlot_def Let_def)
  qed
qed

lemma undo_AddAddress:
  assumes "al_AddAddress a al = (True, al')"
  shows "al_view (al_DeleteAddress a al') = al_view al"
  using assms by (auto simp: al_AddAddress_def al_DeleteAddress_def al_view_def update_conv' delete_conv' split: if_splits)

end
