(* ===== verification/State_DB.thy ===== *)
theory State_DB
  imports State_Access
begin

text \<open>
  State objects, the journal and the state database of \<^verbatim>\<open>src/go-ethereum/core/state\<close> (\<^verbatim>\<open>state_object.go\<close>,
  \<^verbatim>\<open>journal.go\<close>, \<^verbatim>\<open>statedb.go\<close>).

  The reader a state is built on is a record of functions: it is bound to one state root and answers the same
  question always the same way. A method of a state object takes the object and the database it points to and
  returns both; the methods of the database write the object back under its address, which is what the shared
  pointer does. Reads return a database too, because they fill its caches and may record a database error. A
  dereferenced nil pointer, an index out of range and an explicit \<^verbatim>\<open>panic\<close> are \<open>None\<close>.

  The type \<open>'t\<close> stands for open tries. Left out: time measurements and counters kept for metrics, the trie
  prefetcher and the stateless witness (both are nil unless \<^verbatim>\<open>StartPrefetcher\<close> is called), reasons for tracing.
\<close>

section \<open>Data\<close>

record StateAccount =
  sa_Nonce :: u64
  sa_Balance :: u256
  sa_Root :: Hash
  sa_CodeHash :: bytes

definition hash_of :: "(bytes \<Rightarrow> bytes) \<Rightarrow> bytes \<Rightarrow> Hash" where
  "hash_of K data = BytesToHash (K data)"

definition NewEmptyStateAccount :: "(bytes \<Rightarrow> bytes) \<Rightarrow> StateAccount" where
  "NewEmptyStateAccount K =
     \<lparr>sa_Nonce = 0, sa_Balance = 0, sa_Root = EmptyRootHash, sa_CodeHash = hash_bytes (hash_of K [])\<rparr>"

datatype db_error =
    ReaderError string
  | GetStateObjectError Address db_error
  | CodeLoadError bytes db_error
  | CodeSizeError bytes db_error
  | CodeNotFound bytes
  | UpdateStateObjectError Address db_error
  | DeleteStateObjectError Address db_error

record Reader =
  r_Account :: "Address \<Rightarrow> db_error + StateAccount option"
  r_Storage :: "Address \<Rightarrow> Hash \<Rightarrow> db_error + Hash"
  r_Code :: "Address \<Rightarrow> Hash \<Rightarrow> bytes \<times> db_error option"
  r_CodeSize :: "Address \<Rightarrow> Hash \<Rightarrow> nat \<times> db_error option"

record 't stateObject =
  so_address :: Address
  so_origin :: "StateAccount option"
  so_data :: StateAccount
  so_trie :: "'t option"
  so_code :: bytes
  originStorage :: Storage
  dirtyStorage :: Storage
  pendingStorage :: Storage
  uncommittedStorage :: Storage
  dirtyCode :: bool
  selfDestructed :: bool
  newContract :: bool

datatype journalEntry =
    createObjectChange Address
  | createContractChange Address
  | selfDestructChange Address
  | balanceChange Address u256
  | nonceChange Address u64
  | storageChange Address Hash Hash Hash
  | codeChange Address bytes
  | refundChange u64
  | addLogChange Hash
  | touchChange Address
  | accessListAddAccountChange Address
  | accessListAddSlotChange Address Hash
  | transientStorageChange Address Hash Hash

record revision =
  rev_id :: nat
  rev_journalIndex :: nat

record journal =
  j_entries :: "journalEntry list"
  j_dirties :: "(Address \<times> int) list"
  j_validRevisions :: "revision list"
  j_nextRevisionId :: nat

datatype mutationType = update_mutation | deletion_mutation

record mutation =
  mu_typ :: mutationType
  mu_applied :: bool

record tx_log = Log +
  l_TxHash :: Hash
  l_TxIndex :: u64
  l_BlockHash :: Hash
  l_BlockTimestamp :: u64
  l_Index :: u64

record 't state_db =
  s_reader :: Reader
  s_trie :: "'t option"
  s_originalRoot :: Hash
  s_stateObjects :: "(Address \<times> 't stateObject) list"
  s_stateObjectsDestruct :: "(Address \<times> 't stateObject) list"
  s_mutations :: "(Address \<times> mutation) list"
  s_dbErr :: "db_error option"
  s_refund :: u64
  s_thash :: Hash
  s_txIndex :: int
  s_logs :: "(Hash \<times> tx_log list) list"
  s_logSize :: u64
  s_preimages :: "(Hash \<times> bytes) list"
  s_accessList :: accessList
  s_accessEvents :: "AccessEvents option"
  s_transientStorage :: transientStorage
  s_journal :: journal

section \<open>Journal\<close>

definition newJournal :: journal where
  "newJournal = \<lparr>j_entries = [], j_dirties = [], j_validRevisions = [], j_nextRevisionId = 0\<rparr>"

definition journal_reset :: "journal \<Rightarrow> journal" where
  "journal_reset j = j\<lparr>j_entries := [], j_validRevisions := [], j_dirties := [], j_nextRevisionId := 0\<rparr>"

fun entry_dirtied :: "journalEntry \<Rightarrow> Address option" where
  "entry_dirtied (createObjectChange a) = Some a"
| "entry_dirtied (createContractChange a) = None"
| "entry_dirtied (selfDestructChange a) = Some a"
| "entry_dirtied (balanceChange a prev) = Some a"
| "entry_dirtied (nonceChange a prev) = Some a"
| "entry_dirtied (storageChange a key prevvalue origvalue) = Some a"
| "entry_dirtied (codeChange a prevCode) = Some a"
| "entry_dirtied (refundChange prev) = None"
| "entry_dirtied (addLogChange txhash) = None"
| "entry_dirtied (touchChange a) = Some a"
| "entry_dirtied (accessListAddAccountChange a) = None"
| "entry_dirtied (accessListAddSlotChange a slot) = None"
| "entry_dirtied (transientStorageChange a key prev) = None"

text \<open>A missing key of the counters reads as zero.\<close>

definition dirties_at :: "(Address \<times> int) list \<Rightarrow> Address \<Rightarrow> int" where
  "dirties_at d a = (case map_of d a of Some n \<Rightarrow> n | None \<Rightarrow> 0)"

definition journal_dirty :: "Address \<Rightarrow> journal \<Rightarrow> journal" where
  "journal_dirty addr j = j\<lparr>j_dirties := AList.update addr (dirties_at (j_dirties j) addr + 1) (j_dirties j)\<rparr>"

definition journal_append :: "journalEntry \<Rightarrow> journal \<Rightarrow> journal" where
  "journal_append entry j =
     (let j' = j\<lparr>j_entries := j_entries j @ [entry]\<rparr>
      in case entry_dirtied entry of None \<Rightarrow> j' | Some addr \<Rightarrow> journal_dirty addr j')"

definition ripemd :: Address where
  "ripemd = 3"

definition journal_touchChange :: "Address \<Rightarrow> journal \<Rightarrow> journal" where
  "journal_touchChange addr j =
     (let j' = journal_append (touchChange addr) j
      in if addr = ripemd then journal_dirty addr j' else j')"

definition journal_length :: "journal \<Rightarrow> nat" where
  "journal_length j = length (j_entries j)"

definition journal_snapshot :: "journal \<Rightarrow> nat \<times> journal" where
  "journal_snapshot j =
     (let id = j_nextRevisionId j
      in (id, j\<lparr>j_nextRevisionId := id + 1,
                j_validRevisions := j_validRevisions j @ [\<lparr>rev_id = id, rev_journalIndex = journal_length j\<rparr>]\<rparr>))"

fun entry_copy :: "journalEntry \<Rightarrow> journalEntry" where
  "entry_copy (createObjectChange a) = createObjectChange a"
| "entry_copy (createContractChange a) = createContractChange a"
| "entry_copy (selfDestructChange a) = selfDestructChange a"
| "entry_copy (balanceChange a prev) = balanceChange a prev"
| "entry_copy (nonceChange a prev) = nonceChange a prev"
| "entry_copy (storageChange a key prevvalue origvalue) = storageChange a key prevvalue origvalue"
| "entry_copy (codeChange a prevCode) = codeChange a prevCode"
| "entry_copy (refundChange prev) = refundChange prev"
| "entry_copy (addLogChange txhash) = addLogChange txhash"
| "entry_copy (touchChange a) = touchChange a"
| "entry_copy (accessListAddAccountChange a) = accessListAddAccountChange a"
| "entry_copy (accessListAddSlotChange a slot) = accessListAddSlotChange a slot"
| "entry_copy (transientStorageChange a key prev) = transientStorageChange a key prev"

definition journal_copy :: "journal \<Rightarrow> journal" where
  "journal_copy j =
     \<lparr>j_entries = map entry_copy (j_entries j), j_dirties = j_dirties j,
      j_validRevisions = j_validRevisions j, j_nextRevisionId = j_nextRevisionId j\<rparr>"

text \<open>\<open>sort.Search\<close>: binary search for the least index at which a monotone predicate holds.\<close>

function search_between :: "(nat \<Rightarrow> bool) \<Rightarrow> nat \<Rightarrow> nat \<Rightarrow> nat" where
  "search_between f i j =
     (if i < j
      then (let h = (i + j) div 2 in if \<not> f h then search_between f (h + 1) j else search_between f i h)
      else i)"
  by pat_completeness auto
termination by (relation "measure (\<lambda>(f, i, j). j - i)") auto

declare search_between.simps [simp del]

definition sort_Search :: "nat \<Rightarrow> (nat \<Rightarrow> bool) \<Rightarrow> nat" where
  "sort_Search n f = search_between f 0 n"

abbreviation jappend :: "journalEntry \<Rightarrow> 't state_db \<Rightarrow> 't state_db" where
  "jappend entry s \<equiv> s\<lparr>s_journal := journal_append entry (s_journal s)\<rparr>"

section \<open>State objects\<close>

definition so_empty :: "(bytes \<Rightarrow> bytes) \<Rightarrow> 't stateObject \<Rightarrow> bool" where
  "so_empty K obj \<longleftrightarrow>
     sa_Nonce (so_data obj) = 0 \<and> sa_Balance (so_data obj) = 0 \<and> sa_CodeHash (so_data obj) = hash_bytes (hash_of K [])"

definition newObject :: "(bytes \<Rightarrow> bytes) \<Rightarrow> Address \<Rightarrow> StateAccount option \<Rightarrow> 't stateObject" where
  "newObject K addr acct =
     \<lparr>so_address = addr, so_origin = acct,
      so_data = (case acct of None \<Rightarrow> NewEmptyStateAccount K | Some a \<Rightarrow> a),
      so_trie = None, so_code = [], originStorage = [], dirtyStorage = [], pendingStorage = [],
      uncommittedStorage = [], dirtyCode = False, selfDestructed = False, newContract = False\<rparr>"

definition sdb_setError :: "db_error \<Rightarrow> 't state_db \<Rightarrow> 't state_db" where
  "sdb_setError err s = (if s_dbErr s = None then s\<lparr>s_dbErr := Some err\<rparr> else s)"

definition so_GetCommittedState ::
  "Hash \<Rightarrow> 't stateObject \<Rightarrow> 't state_db \<Rightarrow> Hash \<times> 't stateObject \<times> 't state_db" where
  "so_GetCommittedState key obj s =
     (case map_of (pendingStorage obj) key of
        Some v \<Rightarrow> (v, obj, s)
      | None \<Rightarrow>
     (case map_of (originStorage obj) key of
        Some v \<Rightarrow> (v, obj, s)
      | None \<Rightarrow>
          if map_of (s_stateObjectsDestruct s) (so_address obj) \<noteq> None then
            (let s' = (case r_Storage (s_reader s) (so_address obj) key of Inl err \<Rightarrow> sdb_setError err s | Inr _ \<Rightarrow> s)
             in (0, obj\<lparr>originStorage := AList.update key 0 (originStorage obj)\<rparr>, s'))
          else
            (case r_Storage (s_reader s) (so_address obj) key of
               Inl err \<Rightarrow> (0, obj, sdb_setError err s)
             | Inr v \<Rightarrow> (v, obj\<lparr>originStorage := AList.update key v (originStorage obj)\<rparr>, s))))"

definition so_getState ::
  "Hash \<Rightarrow> 't stateObject \<Rightarrow> 't state_db \<Rightarrow> (Hash \<times> Hash) \<times> 't stateObject \<times> 't state_db" where
  "so_getState key obj s =
     (case so_GetCommittedState key obj s of
        (origin, obj', s') \<Rightarrow>
          (case map_of (dirtyStorage obj') key of
             Some v \<Rightarrow> ((v, origin), obj', s')
           | None \<Rightarrow> ((origin, origin), obj', s')))"

definition so_GetState ::
  "Hash \<Rightarrow> 't stateObject \<Rightarrow> 't state_db \<Rightarrow> Hash \<times> 't stateObject \<times> 't state_db" where
  "so_GetState key obj s = (case so_getState key obj s of ((v, _), obj', s') \<Rightarrow> (v, obj', s'))"

definition so_setState :: "Hash \<Rightarrow> Hash \<Rightarrow> Hash \<Rightarrow> 't stateObject \<Rightarrow> 't stateObject" where
  "so_setState key v origin obj =
     (if v = origin then obj\<lparr>dirtyStorage := AList.delete key (dirtyStorage obj)\<rparr>
      else obj\<lparr>dirtyStorage := AList.update key v (dirtyStorage obj)\<rparr>)"

definition so_SetState ::
  "Hash \<Rightarrow> Hash \<Rightarrow> 't stateObject \<Rightarrow> 't state_db \<Rightarrow> Hash \<times> 't stateObject \<times> 't state_db" where
  "so_SetState key v obj s =
     (case so_getState key obj s of
        ((prev, origin), obj', s') \<Rightarrow>
          if prev = v then (prev, obj', s')
          else (prev, so_setState key v origin obj', jappend (storageChange (so_address obj') key prev origin) s'))"

definition so_setBalance :: "u256 \<Rightarrow> 't stateObject \<Rightarrow> 't stateObject" where
  "so_setBalance amount obj = obj\<lparr>so_data := (so_data obj)\<lparr>sa_Balance := amount\<rparr>\<rparr>"

definition so_SetBalance ::
  "u256 \<Rightarrow> 't stateObject \<Rightarrow> 't state_db \<Rightarrow> u256 \<times> 't stateObject \<times> 't state_db" where
  "so_SetBalance amount obj s =
     (let prev = sa_Balance (so_data obj)
      in (prev, so_setBalance amount obj, jappend (balanceChange (so_address obj) prev) s))"

definition so_touch :: "'t stateObject \<Rightarrow> 't state_db \<Rightarrow> 't state_db" where
  "so_touch obj s = s\<lparr>s_journal := journal_touchChange (so_address obj) (s_journal s)\<rparr>"

definition so_AddBalance ::
  "(bytes \<Rightarrow> bytes) \<Rightarrow> u256 \<Rightarrow> 't stateObject \<Rightarrow> 't state_db \<Rightarrow> u256 \<times> 't stateObject \<times> 't state_db" where
  "so_AddBalance K amount obj s =
     (if amount = 0
      then (sa_Balance (so_data obj), obj, if so_empty K obj then so_touch obj s else s)
      else so_SetBalance (sa_Balance (so_data obj) + amount) obj s)"

definition so_setNonce :: "u64 \<Rightarrow> 't stateObject \<Rightarrow> 't stateObject" where
  "so_setNonce nonce obj = obj\<lparr>so_data := (so_data obj)\<lparr>sa_Nonce := nonce\<rparr>\<rparr>"

definition so_SetNonce :: "u64 \<Rightarrow> 't stateObject \<Rightarrow> 't state_db \<Rightarrow> 't stateObject \<times> 't state_db" where
  "so_SetNonce nonce obj s =
     (so_setNonce nonce obj, jappend (nonceChange (so_address obj) (sa_Nonce (so_data obj))) s)"

definition so_setCode :: "Hash \<Rightarrow> bytes \<Rightarrow> 't stateObject \<Rightarrow> 't stateObject" where
  "so_setCode codeHash code obj =
     obj\<lparr>so_code := code, so_data := (so_data obj)\<lparr>sa_CodeHash := hash_bytes codeHash\<rparr>, dirtyCode := True\<rparr>"

definition so_SetCode ::
  "Hash \<Rightarrow> bytes \<Rightarrow> 't stateObject \<Rightarrow> 't state_db \<Rightarrow> bytes \<times> 't stateObject \<times> 't state_db" where
  "so_SetCode codeHash code obj s =
     (let prev = so_code obj
      in (prev, so_setCode codeHash code obj, jappend (codeChange (so_address obj) prev) s))"

definition so_Code ::
  "(bytes \<Rightarrow> bytes) \<Rightarrow> 't stateObject \<Rightarrow> 't state_db \<Rightarrow> bytes \<times> 't stateObject \<times> 't state_db" where
  "so_Code K obj s =
     (if so_code obj \<noteq> [] then (so_code obj, obj, s)
      else if sa_CodeHash (so_data obj) = hash_bytes (hash_of K []) then ([], obj, s)
      else
        (case r_Code (s_reader s) (so_address obj) (BytesToHash (sa_CodeHash (so_data obj))) of
           (code, err) \<Rightarrow>
             (let s1 = (case err of Some e \<Rightarrow> sdb_setError (CodeLoadError (sa_CodeHash (so_data obj)) e) s | None \<Rightarrow> s);
                  s2 = (if code = [] then sdb_setError (CodeNotFound (sa_CodeHash (so_data obj))) s1 else s1)
              in (code, obj\<lparr>so_code := code\<rparr>, s2))))"

definition so_CodeSize :: "(bytes \<Rightarrow> bytes) \<Rightarrow> 't stateObject \<Rightarrow> 't state_db \<Rightarrow> nat \<times> 't state_db" where
  "so_CodeSize K obj s =
     (if so_code obj \<noteq> [] then (length (so_code obj), s)
      else if sa_CodeHash (so_data obj) = hash_bytes (hash_of K []) then (0, s)
      else
        (case r_CodeSize (s_reader s) (so_address obj) (BytesToHash (sa_CodeHash (so_data obj))) of
           (sz, err) \<Rightarrow>
             (let s1 = (case err of Some e \<Rightarrow> sdb_setError (CodeSizeError (sa_CodeHash (so_data obj)) e) s | None \<Rightarrow> s);
                  s2 = (if sz = 0 then sdb_setError (CodeNotFound (sa_CodeHash (so_data obj))) s1 else s1)
              in (sz, s2))))"

definition so_markSelfdestructed :: "'t stateObject \<Rightarrow> 't stateObject" where
  "so_markSelfdestructed obj = obj\<lparr>selfDestructed := True\<rparr>"

text \<open>
  \<open>finalise\<close> moves the dirty slots to the pending ones; the list order is the order in which the loop visits them.
\<close>

definition finalise_slot ::
  "'t stateObject \<times> 't state_db \<Rightarrow> Hash \<times> Hash \<Rightarrow> 't stateObject \<times> 't state_db" where
  "finalise_slot os kv =
     (case (os, kv) of
        ((obj, s), key, v) \<Rightarrow>
          (let (obj1, s1) =
             (case map_of (uncommittedStorage obj) key of
                Some origin \<Rightarrow>
                  if origin = v
                  then (obj\<lparr>uncommittedStorage := AList.delete key (uncommittedStorage obj)\<rparr>, s)
                  else (obj, s)
              | None \<Rightarrow>
                  (case so_GetCommittedState key obj s of
                     (c, obj', s') \<Rightarrow>
                       (obj'\<lparr>uncommittedStorage := AList.update key c (uncommittedStorage obj')\<rparr>, s')))
           in (obj1\<lparr>pendingStorage := AList.update key v (pendingStorage obj1)\<rparr>, s1)))"

definition so_finalise :: "'t stateObject \<Rightarrow> 't state_db \<Rightarrow> 't stateObject \<times> 't state_db" where
  "so_finalise obj s =
     (let (obj1, s1) = foldl finalise_slot (obj, s) (dirtyStorage obj)
      in (obj1\<lparr>dirtyStorage := [], newContract := False\<rparr>, s1))"

definition so_deepCopy :: "'t stateObject \<Rightarrow> 't stateObject" where
  "so_deepCopy obj =
     \<lparr>so_address = so_address obj, so_origin = so_origin obj, so_data = so_data obj, so_trie = so_trie obj,
      so_code = so_code obj, originStorage = originStorage obj, dirtyStorage = dirtyStorage obj,
      pendingStorage = pendingStorage obj, uncommittedStorage = uncommittedStorage obj,
      dirtyCode = dirtyCode obj, selfDestructed = selfDestructed obj, newContract = newContract obj\<rparr>"

section \<open>Objects of the database\<close>

definition sdb_NewWithReader :: "Hash \<Rightarrow> Reader \<Rightarrow> bool \<Rightarrow> 't state_db" where
  "sdb_NewWithReader root reader isVerkle =
     \<lparr>s_reader = reader, s_trie = None, s_originalRoot = root, s_stateObjects = [], s_stateObjectsDestruct = [],
      s_mutations = [], s_dbErr = None, s_refund = 0, s_thash = 0, s_txIndex = 0, s_logs = [], s_logSize = 0,
      s_preimages = [], s_accessList = newAccessList,
      s_accessEvents = (if isVerkle then Some NewAccessEvents else None),
      s_transientStorage = newTransientStorage, s_journal = newJournal\<rparr>"

definition sdb_setStateObject :: "'t stateObject \<Rightarrow> 't state_db \<Rightarrow> 't state_db" where
  "sdb_setStateObject object s = s\<lparr>s_stateObjects := AList.update (so_address object) object (s_stateObjects s)\<rparr>"

definition sdb_getStateObject ::
  "(bytes \<Rightarrow> bytes) \<Rightarrow> Address \<Rightarrow> 't state_db \<Rightarrow> 't stateObject option \<times> 't state_db" where
  "sdb_getStateObject K addr s =
     (case map_of (s_stateObjects s) addr of
        Some obj \<Rightarrow> (Some obj, s)
      | None \<Rightarrow>
          if map_of (s_stateObjectsDestruct s) addr \<noteq> None then (None, s)
          else
            (case r_Account (s_reader s) addr of
               Inl err \<Rightarrow> (None, sdb_setError (GetStateObjectError addr err) s)
             | Inr None \<Rightarrow> (None, s)
             | Inr (Some acct) \<Rightarrow>
                 (let obj = newObject K addr (Some acct) in (Some obj, sdb_setStateObject obj s))))"

definition sdb_createObject :: "(bytes \<Rightarrow> bytes) \<Rightarrow> Address \<Rightarrow> 't state_db \<Rightarrow> 't stateObject \<times> 't state_db" where
  "sdb_createObject K addr s =
     (let obj = newObject K addr None in (obj, sdb_setStateObject obj (jappend (createObjectChange addr) s)))"

definition sdb_getOrNewStateObject ::
  "(bytes \<Rightarrow> bytes) \<Rightarrow> Address \<Rightarrow> 't state_db \<Rightarrow> 't stateObject \<times> 't state_db" where
  "sdb_getOrNewStateObject K addr s =
     (case sdb_getStateObject K addr s of
        (Some obj, s') \<Rightarrow> (obj, s')
      | (None, s') \<Rightarrow> sdb_createObject K addr s')"

section \<open>Queries\<close>

text \<open>A query of an account: the answer for a missing object, and a query of the object that may fill its caches.\<close>

definition query ::
  "(bytes \<Rightarrow> bytes) \<Rightarrow> Address \<Rightarrow> 'a \<Rightarrow> ('t stateObject \<Rightarrow> 't state_db \<Rightarrow> 'a \<times> 't stateObject \<times> 't state_db)
   \<Rightarrow> 't state_db \<Rightarrow> 'a \<times> 't state_db" where
  "query K addr missing q s =
     (case sdb_getStateObject K addr s of
        (None, s1) \<Rightarrow> (missing, s1)
      | (Some obj, s1) \<Rightarrow> (case q obj s1 of (v, obj', s2) \<Rightarrow> (v, sdb_setStateObject obj' s2)))"

abbreviation peek :: "('t stateObject \<Rightarrow> 'a) \<Rightarrow> 't stateObject \<Rightarrow> 't state_db \<Rightarrow> 'a \<times> 't stateObject \<times> 't state_db" where
  "peek g obj s \<equiv> (g obj, obj, s)"

definition sdb_Exist :: "(bytes \<Rightarrow> bytes) \<Rightarrow> Address \<Rightarrow> 't state_db \<Rightarrow> bool \<times> 't state_db" where
  "sdb_Exist K addr s = query K addr False (peek (\<lambda>_. True)) s"

definition sdb_Empty :: "(bytes \<Rightarrow> bytes) \<Rightarrow> Address \<Rightarrow> 't state_db \<Rightarrow> bool \<times> 't state_db" where
  "sdb_Empty K addr s = query K addr True (peek (so_empty K)) s"

definition sdb_GetBalance :: "(bytes \<Rightarrow> bytes) \<Rightarrow> Address \<Rightarrow> 't state_db \<Rightarrow> u256 \<times> 't state_db" where
  "sdb_GetBalance K addr s = query K addr 0 (peek (\<lambda>obj. sa_Balance (so_data obj))) s"

definition sdb_GetNonce :: "(bytes \<Rightarrow> bytes) \<Rightarrow> Address \<Rightarrow> 't state_db \<Rightarrow> u64 \<times> 't state_db" where
  "sdb_GetNonce K addr s = query K addr 0 (peek (\<lambda>obj. sa_Nonce (so_data obj))) s"

definition sdb_GetStorageRoot :: "(bytes \<Rightarrow> bytes) \<Rightarrow> Address \<Rightarrow> 't state_db \<Rightarrow> Hash \<times> 't state_db" where
  "sdb_GetStorageRoot K addr s = query K addr 0 (peek (\<lambda>obj. sa_Root (so_data obj))) s"

definition sdb_GetCode :: "(bytes \<Rightarrow> bytes) \<Rightarrow> Address \<Rightarrow> 't state_db \<Rightarrow> bytes \<times> 't state_db" where
  "sdb_GetCode K addr s = query K addr [] (so_Code K) s"

definition sdb_GetCodeSize :: "(bytes \<Rightarrow> bytes) \<Rightarrow> Address \<Rightarrow> 't state_db \<Rightarrow> nat \<times> 't state_db" where
  "sdb_GetCodeSize K addr s =
     query K addr 0 (\<lambda>obj s1. case so_CodeSize K obj s1 of (n, s2) \<Rightarrow> (n, obj, s2)) s"

definition sdb_GetCodeHash :: "(bytes \<Rightarrow> bytes) \<Rightarrow> Address \<Rightarrow> 't state_db \<Rightarrow> Hash \<times> 't state_db" where
  "sdb_GetCodeHash K addr s = query K addr 0 (peek (\<lambda>obj. BytesToHash (sa_CodeHash (so_data obj)))) s"

definition sdb_GetState :: "(bytes \<Rightarrow> bytes) \<Rightarrow> Address \<Rightarrow> Hash \<Rightarrow> 't state_db \<Rightarrow> Hash \<times> 't state_db" where
  "sdb_GetState K addr key s = query K addr 0 (so_GetState key) s"

definition sdb_GetCommittedState :: "(bytes \<Rightarrow> bytes) \<Rightarrow> Address \<Rightarrow> Hash \<Rightarrow> 't state_db \<Rightarrow> Hash \<times> 't state_db" where
  "sdb_GetCommittedState K addr key s = query K addr 0 (so_GetCommittedState key) s"

definition sdb_GetStateAndCommittedState ::
  "(bytes \<Rightarrow> bytes) \<Rightarrow> Address \<Rightarrow> Hash \<Rightarrow> 't state_db \<Rightarrow> (Hash \<times> Hash) \<times> 't state_db" where
  "sdb_GetStateAndCommittedState K addr key s = query K addr (0, 0) (so_getState key) s"

definition sdb_HasSelfDestructed :: "(bytes \<Rightarrow> bytes) \<Rightarrow> Address \<Rightarrow> 't state_db \<Rightarrow> bool \<times> 't state_db" where
  "sdb_HasSelfDestructed K addr s = query K addr False (peek selfDestructed) s"

definition sdb_IsNewContract :: "(bytes \<Rightarrow> bytes) \<Rightarrow> Address \<Rightarrow> 't state_db \<Rightarrow> bool \<times> 't state_db" where
  "sdb_IsNewContract K addr s = query K addr False (peek newContract) s"

definition sdb_GetTransientState :: "'t state_db \<Rightarrow> Address \<Rightarrow> Hash \<Rightarrow> Hash" where
  "sdb_GetTransientState s addr key = ts_Get (s_transientStorage s) addr key"

definition sdb_AddressInAccessList :: "'t state_db \<Rightarrow> Address \<Rightarrow> bool" where
  "sdb_AddressInAccessList s addr = al_ContainsAddress (s_accessList s) addr"

definition sdb_SlotInAccessList :: "'t state_db \<Rightarrow> Address \<Rightarrow> Hash \<Rightarrow> (bool \<times> bool) option" where
  "sdb_SlotInAccessList s addr slot = al_Contains (s_accessList s) addr slot"

definition sdb_GetRefund :: "'t state_db \<Rightarrow> u64" where
  "sdb_GetRefund s = s_refund s"

section \<open>Updates\<close>

definition sdb_AddLog :: "Log \<Rightarrow> 't state_db \<Rightarrow> 't state_db" where
  "sdb_AddLog log s =
     (let s1 = jappend (addLogChange (s_thash s)) s;
          l = Log.extend log \<lparr>l_TxHash = s_thash s, l_TxIndex = of_int (s_txIndex s), l_BlockHash = 0,
                              l_BlockTimestamp = 0, l_Index = s_logSize s\<rparr>;
          logs = (case map_of (s_logs s1) (s_thash s) of None \<Rightarrow> [] | Some ls \<Rightarrow> ls)
      in s1\<lparr>s_logs := AList.update (s_thash s) (logs @ [l]) (s_logs s1), s_logSize := s_logSize s1 + 1\<rparr>)"

definition sdb_GetLogs :: "Hash \<Rightarrow> u64 \<Rightarrow> Hash \<Rightarrow> u64 \<Rightarrow> 't state_db \<Rightarrow> tx_log list \<times> 't state_db" where
  "sdb_GetLogs hash blockNumber blockHash blockTime s =
     (case map_of (s_logs s) hash of
        None \<Rightarrow> ([], s)
      | Some ls \<Rightarrow>
          (let ls' = map (\<lambda>l. l\<lparr>l_BlockNumber := blockNumber, l_BlockHash := blockHash,
                               l_BlockTimestamp := blockTime\<rparr>) ls
           in (ls', s\<lparr>s_logs := AList.update hash ls' (s_logs s)\<rparr>)))"

definition sdb_Logs :: "'t state_db \<Rightarrow> tx_log list" where
  "sdb_Logs s = sort_key l_Index (concat (map snd (s_logs s)))"

definition sdb_AddPreimage :: "Hash \<Rightarrow> bytes \<Rightarrow> 't state_db \<Rightarrow> 't state_db" where
  "sdb_AddPreimage hash preimage s =
     (if map_of (s_preimages s) hash = None then s\<lparr>s_preimages := AList.update hash preimage (s_preimages s)\<rparr> else s)"

definition sdb_AddRefund :: "u64 \<Rightarrow> 't state_db \<Rightarrow> 't state_db" where
  "sdb_AddRefund gas s = (let s1 = jappend (refundChange (s_refund s)) s in s1\<lparr>s_refund := s_refund s1 + gas\<rparr>)"

definition sdb_SubRefund :: "u64 \<Rightarrow> 't state_db \<Rightarrow> 't state_db option" where
  "sdb_SubRefund gas s =
     (let s1 = jappend (refundChange (s_refund s)) s
      in if gas > s_refund s1 then None else Some (s1\<lparr>s_refund := s_refund s1 - gas\<rparr>))"

text \<open>An update of an account that is created when it does not exist.\<close>

definition modify ::
  "(bytes \<Rightarrow> bytes) \<Rightarrow> Address \<Rightarrow> ('t stateObject \<Rightarrow> 't state_db \<Rightarrow> 'a \<times> 't stateObject \<times> 't state_db)
   \<Rightarrow> 't state_db \<Rightarrow> 'a \<times> 't state_db" where
  "modify K addr f s =
     (case sdb_getOrNewStateObject K addr s of
        (obj, s1) \<Rightarrow> (case f obj s1 of (v, obj', s2) \<Rightarrow> (v, sdb_setStateObject obj' s2)))"

definition sdb_AddBalance :: "(bytes \<Rightarrow> bytes) \<Rightarrow> Address \<Rightarrow> u256 \<Rightarrow> 't state_db \<Rightarrow> u256 \<times> 't state_db" where
  "sdb_AddBalance K addr amount s = modify K addr (so_AddBalance K amount) s"

definition sdb_SubBalance :: "(bytes \<Rightarrow> bytes) \<Rightarrow> Address \<Rightarrow> u256 \<Rightarrow> 't state_db \<Rightarrow> u256 \<times> 't state_db" where
  "sdb_SubBalance K addr amount s =
     modify K addr
       (\<lambda>obj s1. if amount = 0 then (sa_Balance (so_data obj), obj, s1)
                 else so_SetBalance (sa_Balance (so_data obj) - amount) obj s1) s"

definition sdb_SetBalance :: "(bytes \<Rightarrow> bytes) \<Rightarrow> Address \<Rightarrow> u256 \<Rightarrow> 't state_db \<Rightarrow> 't state_db" where
  "sdb_SetBalance K addr amount s = snd (modify K addr (so_SetBalance amount) s)"

definition sdb_SetNonce :: "(bytes \<Rightarrow> bytes) \<Rightarrow> Address \<Rightarrow> u64 \<Rightarrow> 't state_db \<Rightarrow> 't state_db" where
  "sdb_SetNonce K addr nonce s =
     snd (modify K addr (\<lambda>obj s1. case so_SetNonce nonce obj s1 of (obj', s2) \<Rightarrow> ((), obj', s2)) s)"

definition sdb_SetCode :: "(bytes \<Rightarrow> bytes) \<Rightarrow> Address \<Rightarrow> bytes \<Rightarrow> 't state_db \<Rightarrow> bytes \<times> 't state_db" where
  "sdb_SetCode K addr code s = modify K addr (so_SetCode (hash_of K code) code) s"

definition sdb_SetState :: "(bytes \<Rightarrow> bytes) \<Rightarrow> Address \<Rightarrow> Hash \<Rightarrow> Hash \<Rightarrow> 't state_db \<Rightarrow> Hash \<times> 't state_db" where
  "sdb_SetState K addr key v s = modify K addr (so_SetState key v) s"

definition sdb_SetStorage :: "(bytes \<Rightarrow> bytes) \<Rightarrow> Address \<Rightarrow> Storage \<Rightarrow> 't state_db \<Rightarrow> 't state_db" where
  "sdb_SetStorage K addr storage s =
     (case sdb_getStateObject K addr s of
        (old, s1) \<Rightarrow>
          (let s2 = (case old of
                       None \<Rightarrow> s1
                     | Some obj \<Rightarrow>
                         if map_of (s_stateObjectsDestruct s1) addr = None
                         then s1\<lparr>s_stateObjectsDestruct := AList.update addr obj (s_stateObjectsDestruct s1)\<rparr> else s1);
               (new0, s3) = sdb_createObject K addr s2;
               (new1, s4) = foldl (\<lambda>(o1, t1) (k, v). case so_SetState k v o1 t1 of (_, o2, t2) \<Rightarrow> (o2, t2))
                              (new0, s3) storage;
               (new2, s5) =
                 (case old of
                    None \<Rightarrow> (new1, s4)
                  | Some obj \<Rightarrow>
                      (case so_SetCode (BytesToHash (sa_CodeHash (so_data obj))) (so_code obj) new1 s4 of (_, o1, t1) \<Rightarrow>
                      (case so_SetNonce (sa_Nonce (so_data obj)) o1 t1 of (o2, t2) \<Rightarrow>
                      (case so_SetBalance (sa_Balance (so_data obj)) o2 t2 of (_, o3, t3) \<Rightarrow> (o3, t3)))))
           in sdb_setStateObject new2 s5))"

definition sdb_SelfDestruct :: "(bytes \<Rightarrow> bytes) \<Rightarrow> Address \<Rightarrow> 't state_db \<Rightarrow> 't state_db" where
  "sdb_SelfDestruct K addr s =
     (case sdb_getStateObject K addr s of
        (None, s1) \<Rightarrow> s1
      | (Some obj, s1) \<Rightarrow>
          if selfDestructed obj then s1
          else sdb_setStateObject (so_markSelfdestructed obj) (jappend (selfDestructChange addr) s1))"

definition sdb_setTransientState :: "Address \<Rightarrow> Hash \<Rightarrow> Hash \<Rightarrow> 't state_db \<Rightarrow> 't state_db" where
  "sdb_setTransientState addr key v s = s\<lparr>s_transientStorage := ts_Set addr key v (s_transientStorage s)\<rparr>"

definition sdb_SetTransientState :: "Address \<Rightarrow> Hash \<Rightarrow> Hash \<Rightarrow> 't state_db \<Rightarrow> 't state_db" where
  "sdb_SetTransientState addr key v s =
     (let prev = sdb_GetTransientState s addr key
      in if prev = v then s
         else sdb_setTransientState addr key v (jappend (transientStorageChange addr key prev) s))"

definition sdb_CreateAccount :: "(bytes \<Rightarrow> bytes) \<Rightarrow> Address \<Rightarrow> 't state_db \<Rightarrow> 't state_db" where
  "sdb_CreateAccount K addr s = snd (sdb_createObject K addr s)"

definition sdb_CreateContract :: "(bytes \<Rightarrow> bytes) \<Rightarrow> Address \<Rightarrow> 't state_db \<Rightarrow> 't state_db option" where
  "sdb_CreateContract K addr s =
     (case sdb_getStateObject K addr s of
        (None, s1) \<Rightarrow> None
      | (Some obj, s1) \<Rightarrow>
          Some (if newContract obj then s1
                else jappend (createContractChange addr) (sdb_setStateObject (obj\<lparr>newContract := True\<rparr>) s1)))"

definition sdb_AddAddressToAccessList :: "Address \<Rightarrow> 't state_db \<Rightarrow> 't state_db" where
  "sdb_AddAddressToAccessList addr s =
     (case al_AddAddress addr (s_accessList s) of
        (added, al) \<Rightarrow>
          (let s1 = s\<lparr>s_accessList := al\<rparr>
           in if added then jappend (accessListAddAccountChange addr) s1 else s1))"

definition sdb_AddSlotToAccessList :: "Address \<Rightarrow> Hash \<Rightarrow> 't state_db \<Rightarrow> 't state_db option" where
  "sdb_AddSlotToAccessList addr slot s =
     (case al_AddSlot addr slot (s_accessList s) of
        None \<Rightarrow> None
      | Some ((addrMod, slotMod), al) \<Rightarrow>
          (let s1 = s\<lparr>s_accessList := al\<rparr>;
               s2 = (if addrMod then jappend (accessListAddAccountChange addr) s1 else s1)
           in Some (if slotMod then jappend (accessListAddSlotChange addr slot) s2 else s2)))"

definition sdb_SetTxContext :: "Hash \<Rightarrow> int \<Rightarrow> 't state_db \<Rightarrow> 't state_db" where
  "sdb_SetTxContext thash ti s = s\<lparr>s_thash := thash, s_txIndex := ti\<rparr>"

text \<open>An access list of a transaction: addresses with their storage keys.\<close>

type_synonym AccessList = "(Address \<times> Hash list) list"

definition al_add_tuple :: "accessList option \<Rightarrow> Address \<times> Hash list \<Rightarrow> accessList option" where
  "al_add_tuple al el =
     foldl (\<lambda>al key. case al of None \<Rightarrow> None | Some al \<Rightarrow> map_option snd (al_AddSlot (fst el) key al))
       (map_option (\<lambda>al. snd (al_AddAddress (fst el) al)) al) (snd el)"

definition sdb_Prepare ::
  "Rules \<Rightarrow> Address \<Rightarrow> Address \<Rightarrow> Address option \<Rightarrow> Address list \<Rightarrow> AccessList \<Rightarrow> 't state_db \<Rightarrow> 't state_db option" where
  "sdb_Prepare rules sender coinbase dst pcs list s =
     (if IsEIP2929 rules \<and> IsEIP4762 rules then None
      else
        (let prepared =
           (if \<not> IsEIP2929 rules then Some (s_accessList s)
            else
              (let al = snd (al_AddAddress sender newAccessList);
                   al = (case dst of None \<Rightarrow> al | Some d \<Rightarrow> snd (al_AddAddress d al));
                   al = foldl (\<lambda>al addr. snd (al_AddAddress addr al)) al pcs
               in map_option (\<lambda>al. if IsShanghai rules then snd (al_AddAddress coinbase al) else al)
                    (foldl al_add_tuple (Some al) list)))
         in case prepared of
              None \<Rightarrow> None
            | Some al \<Rightarrow> Some (s\<lparr>s_accessList := al, s_transientStorage := newTransientStorage\<rparr>)))"

section \<open>Snapshots\<close>

text \<open>Undoing one entry of the journal.\<close>

definition on_object ::
  "(bytes \<Rightarrow> bytes) \<Rightarrow> Address \<Rightarrow> ('t stateObject \<Rightarrow> 't stateObject) \<Rightarrow> 't state_db \<Rightarrow> 't state_db option" where
  "on_object K addr g s =
     (case sdb_getStateObject K addr s of
        (None, s1) \<Rightarrow> None
      | (Some obj, s1) \<Rightarrow> Some (sdb_setStateObject (g obj) s1))"

fun entry_revert :: "(bytes \<Rightarrow> bytes) \<Rightarrow> journalEntry \<Rightarrow> 't state_db \<Rightarrow> 't state_db option" where
  "entry_revert K (createObjectChange a) s = Some (s\<lparr>s_stateObjects := AList.delete a (s_stateObjects s)\<rparr>)"
| "entry_revert K (createContractChange a) s = on_object K a (\<lambda>obj. obj\<lparr>newContract := False\<rparr>) s"
| "entry_revert K (selfDestructChange a) s =
     (case sdb_getStateObject K a s of
        (None, s1) \<Rightarrow> Some s1
      | (Some obj, s1) \<Rightarrow> Some (sdb_setStateObject (obj\<lparr>selfDestructed := False\<rparr>) s1))"
| "entry_revert K (touchChange a) s = Some s"
| "entry_revert K (balanceChange a prev) s = on_object K a (so_setBalance prev) s"
| "entry_revert K (nonceChange a prev) s = on_object K a (so_setNonce prev) s"
| "entry_revert K (codeChange a prevCode) s = on_object K a (so_setCode (hash_of K prevCode) prevCode) s"
| "entry_revert K (storageChange a key prevvalue origvalue) s = on_object K a (so_setState key prevvalue origvalue) s"
| "entry_revert K (transientStorageChange a key prev) s = Some (sdb_setTransientState a key prev s)"
| "entry_revert K (refundChange prev) s = Some (s\<lparr>s_refund := prev\<rparr>)"
| "entry_revert K (addLogChange txhash) s =
     (let logs = (case map_of (s_logs s) txhash of None \<Rightarrow> [] | Some ls \<Rightarrow> ls)
      in if length logs = 1
         then Some (s\<lparr>s_logs := AList.delete txhash (s_logs s), s_logSize := s_logSize s - 1\<rparr>)
         else if logs = [] then None
         else Some (s\<lparr>s_logs := AList.update txhash (butlast logs) (s_logs s), s_logSize := s_logSize s - 1\<rparr>))"
| "entry_revert K (accessListAddAccountChange a) s = Some (s\<lparr>s_accessList := al_DeleteAddress a (s_accessList s)\<rparr>)"
| "entry_revert K (accessListAddSlotChange a slot) s =
     (case al_DeleteSlot a slot (s_accessList s) of None \<Rightarrow> None | Some al \<Rightarrow> Some (s\<lparr>s_accessList := al\<rparr>))"

definition undirty :: "Address \<Rightarrow> journal \<Rightarrow> journal" where
  "undirty addr j =
     (let n = dirties_at (j_dirties j) addr - 1
      in if n = 0 then j\<lparr>j_dirties := AList.delete addr (j_dirties j)\<rparr>
         else j\<lparr>j_dirties := AList.update addr n (j_dirties j)\<rparr>)"

text \<open>
  The loop of \<open>revert\<close> runs over the entries from the last one down to \<open>snapshot\<close> and then cuts the list;
  a \<open>snapshot\<close> past the end would re-slice, which is \<open>None\<close> here and does not happen.
\<close>

definition revert_last :: "(bytes \<Rightarrow> bytes) \<Rightarrow> journalEntry \<Rightarrow> 't state_db \<Rightarrow> 't state_db option" where
  "revert_last K e s =
     (case entry_revert K e s of
        None \<Rightarrow> None
      | Some s1 \<Rightarrow>
          Some (case entry_dirtied e of None \<Rightarrow> s1 | Some addr \<Rightarrow> s1\<lparr>s_journal := undirty addr (s_journal s1)\<rparr>))"

fun revert_entries :: "(bytes \<Rightarrow> bytes) \<Rightarrow> journalEntry list \<Rightarrow> 't state_db \<Rightarrow> 't state_db option" where
  "revert_entries K [] s = Some s"
| "revert_entries K (e # es) s = (case revert_last K e s of None \<Rightarrow> None | Some s1 \<Rightarrow> revert_entries K es s1)"

definition journal_revert :: "(bytes \<Rightarrow> bytes) \<Rightarrow> nat \<Rightarrow> 't state_db \<Rightarrow> 't state_db option" where
  "journal_revert K snapshot s =
     (if snapshot > length (j_entries (s_journal s)) then None
      else
        map_option (\<lambda>s1. s1\<lparr>s_journal := (s_journal s1)\<lparr>j_entries := take snapshot (j_entries (s_journal s1))\<rparr>\<rparr>)
          (revert_entries K (rev (drop snapshot (j_entries (s_journal s)))) s))"

definition journal_revertToSnapshot :: "(bytes \<Rightarrow> bytes) \<Rightarrow> nat \<Rightarrow> 't state_db \<Rightarrow> 't state_db option" where
  "journal_revertToSnapshot K revid s =
     (let revs = j_validRevisions (s_journal s);
          idx = sort_Search (length revs) (\<lambda>i. rev_id (revs ! i) \<ge> revid)
      in if idx = length revs \<or> rev_id (revs ! idx) \<noteq> revid then None
         else
           map_option (\<lambda>s1. s1\<lparr>s_journal := (s_journal s1)\<lparr>j_validRevisions := take idx revs\<rparr>\<rparr>)
             (journal_revert K (rev_journalIndex (revs ! idx)) s))"

definition sdb_Snapshot :: "'t state_db \<Rightarrow> nat \<times> 't state_db" where
  "sdb_Snapshot s = (case journal_snapshot (s_journal s) of (i, j) \<Rightarrow> (i, s\<lparr>s_journal := j\<rparr>))"

definition sdb_RevertToSnapshot :: "(bytes \<Rightarrow> bytes) \<Rightarrow> nat \<Rightarrow> 't state_db \<Rightarrow> 't state_db option" where
  "sdb_RevertToSnapshot K revid s = journal_revertToSnapshot K revid s"

section \<open>End of a transaction\<close>

definition mark :: "mutationType \<Rightarrow> Address \<Rightarrow> 't state_db \<Rightarrow> 't state_db" where
  "mark typ addr s =
     s\<lparr>s_mutations := AList.update addr \<lparr>mu_typ = typ, mu_applied = False\<rparr> (s_mutations s)\<rparr>"

definition sdb_markDelete :: "Address \<Rightarrow> 't state_db \<Rightarrow> 't state_db" where
  "sdb_markDelete addr s = mark deletion_mutation addr s"

definition sdb_markUpdate :: "Address \<Rightarrow> 't state_db \<Rightarrow> 't state_db" where
  "sdb_markUpdate addr s = mark update_mutation addr s"

definition sdb_clearJournalAndRefund :: "'t state_db \<Rightarrow> 't state_db" where
  "sdb_clearJournalAndRefund s = s\<lparr>s_journal := journal_reset (s_journal s), s_refund := 0\<rparr>"

definition finalise_account :: "(bytes \<Rightarrow> bytes) \<Rightarrow> bool \<Rightarrow> 't state_db \<Rightarrow> Address \<Rightarrow> 't state_db" where
  "finalise_account K deleteEmptyObjects s addr =
     (case map_of (s_stateObjects s) addr of
        None \<Rightarrow> s
      | Some obj \<Rightarrow>
          if selfDestructed obj \<or> (deleteEmptyObjects \<and> so_empty K obj) then
            (let s1 = sdb_markDelete addr (s\<lparr>s_stateObjects := AList.delete (so_address obj) (s_stateObjects s)\<rparr>)
             in if map_of (s_stateObjectsDestruct s1) (so_address obj) = None
                then s1\<lparr>s_stateObjectsDestruct := AList.update (so_address obj) obj (s_stateObjectsDestruct s1)\<rparr>
                else s1)
          else (case so_finalise obj s of (obj', s1) \<Rightarrow> sdb_markUpdate addr (sdb_setStateObject obj' s1)))"

definition sdb_Finalise :: "(bytes \<Rightarrow> bytes) \<Rightarrow> bool \<Rightarrow> 't state_db \<Rightarrow> 't state_db" where
  "sdb_Finalise K deleteEmptyObjects s =
     sdb_clearJournalAndRefund
       (foldl (finalise_account K deleteEmptyObjects) s (map fst (j_dirties (s_journal s))))"

text \<open>\<open>Copy\<close>: every map is copied; the reader, the root and the tries are shared or copied as they are.\<close>

definition sdb_Copy :: "'t state_db \<Rightarrow> 't state_db" where
  "sdb_Copy s =
     \<lparr>s_reader = s_reader s, s_trie = s_trie s, s_originalRoot = s_originalRoot s,
      s_stateObjects = map (\<lambda>(addr, obj). (addr, so_deepCopy obj)) (s_stateObjects s),
      s_stateObjectsDestruct = map (\<lambda>(addr, obj). (addr, so_deepCopy obj)) (s_stateObjectsDestruct s),
      s_mutations = map (\<lambda>(addr, op). (addr, \<lparr>mu_typ = mu_typ op, mu_applied = mu_applied op\<rparr>)) (s_mutations s),
      s_dbErr = s_dbErr s, s_refund = s_refund s, s_thash = s_thash s, s_txIndex = s_txIndex s,
      s_logs = map (\<lambda>(hash, logs). (hash, map (\<lambda>l. l) logs)) (s_logs s), s_logSize = s_logSize s,
      s_preimages = s_preimages s, s_accessList = al_Copy (s_accessList s), s_accessEvents = s_accessEvents s,
      s_transientStorage = ts_Copy (s_transientStorage s), s_journal = journal_copy (s_journal s)\<rparr>"

end
