(* ===== verification/State_Journal.thy ===== *)
theory State_Journal
  imports State_DB
begin

text \<open>
  The contract of the journal. The \<open>world\<close> of a database is what its queries can see: every account with its
  code and storage, the refund counter, the logs, the transient storage and the access list, without caches.
  Undoing an entry of the journal is a function of the world (\<open>entry_undo\<close>), and \<open>extends\<close> relates two databases
  when undoing the entries the second has more gives back the world of the first.
\<close>

section \<open>Worlds\<close>

record account =
  a_data :: StateAccount
  a_code :: bytes
  a_storage :: "Hash \<Rightarrow> Hash"
  a_committed :: "Hash \<Rightarrow> Hash"
  a_selfDestructed :: bool
  a_newContract :: bool

record world =
  w_accounts :: "Address \<rightharpoonup> account"
  w_refund :: u64
  w_logs :: "Hash \<Rightarrow> tx_log list"
  w_logSize :: u64
  w_transient :: "Address \<Rightarrow> Hash \<Rightarrow> Hash"
  w_access :: "(Address \<rightharpoonup> int) \<times> Hash set list"

text \<open>What a state object shows, whatever its caches hold.\<close>

definition committed_view :: "'t state_db \<Rightarrow> 't stateObject \<Rightarrow> Hash \<Rightarrow> Hash" where
  "committed_view s obj key =
     (case map_of (pendingStorage obj) key of
        Some v \<Rightarrow> v
      | None \<Rightarrow>
     (case map_of (originStorage obj) key of
        Some v \<Rightarrow> v
      | None \<Rightarrow>
          if map_of (s_stateObjectsDestruct s) (so_address obj) \<noteq> None then 0
          else (case r_Storage (s_reader s) (so_address obj) key of Inl _ \<Rightarrow> 0 | Inr v \<Rightarrow> v)))"

definition storage_view :: "'t state_db \<Rightarrow> 't stateObject \<Rightarrow> Hash \<Rightarrow> Hash" where
  "storage_view s obj key =
     (case map_of (dirtyStorage obj) key of Some v \<Rightarrow> v | None \<Rightarrow> committed_view s obj key)"

definition code_view :: "(bytes \<Rightarrow> bytes) \<Rightarrow> 't state_db \<Rightarrow> 't stateObject \<Rightarrow> bytes" where
  "code_view K s obj =
     (if so_code obj \<noteq> [] then so_code obj
      else if sa_CodeHash (so_data obj) = hash_bytes (hash_of K []) then []
      else fst (r_Code (s_reader s) (so_address obj) (BytesToHash (sa_CodeHash (so_data obj)))))"

definition so_view :: "(bytes \<Rightarrow> bytes) \<Rightarrow> 't state_db \<Rightarrow> 't stateObject \<Rightarrow> account" where
  "so_view K s obj =
     \<lparr>a_data = so_data obj, a_code = code_view K s obj, a_storage = storage_view s obj,
      a_committed = committed_view s obj, a_selfDestructed = selfDestructed obj, a_newContract = newContract obj\<rparr>"

text \<open>The object of an address that is not live: none if it was destructed in this block, else the reader's.\<close>

definition stored_object :: "(bytes \<Rightarrow> bytes) \<Rightarrow> 't state_db \<Rightarrow> Address \<Rightarrow> 't stateObject option" where
  "stored_object K s a =
     (if map_of (s_stateObjectsDestruct s) a \<noteq> None then None
      else (case r_Account (s_reader s) a of
              Inl _ \<Rightarrow> None | Inr None \<Rightarrow> None | Inr (Some acct) \<Rightarrow> Some (newObject K a (Some acct))))"

definition object_at :: "(bytes \<Rightarrow> bytes) \<Rightarrow> 't state_db \<Rightarrow> Address \<Rightarrow> 't stateObject option" where
  "object_at K s a = (case map_of (s_stateObjects s) a of Some obj \<Rightarrow> Some obj | None \<Rightarrow> stored_object K s a)"

definition logs_at :: "'t state_db \<Rightarrow> Hash \<Rightarrow> tx_log list" where
  "logs_at s h = (case map_of (s_logs s) h of None \<Rightarrow> [] | Some ls \<Rightarrow> ls)"

definition world :: "(bytes \<Rightarrow> bytes) \<Rightarrow> 't state_db \<Rightarrow> world" where
  "world K s =
     \<lparr>w_accounts = (\<lambda>a. map_option (so_view K s) (object_at K s a)), w_refund = s_refund s, w_logs = logs_at s,
      w_logSize = s_logSize s, w_transient = ts_Get (s_transientStorage s), w_access = al_view (s_accessList s)\<rparr>"

text \<open>Undoing an entry, on worlds.\<close>

definition undo_account :: "Address \<Rightarrow> (account \<Rightarrow> account) \<Rightarrow> world \<Rightarrow> world option" where
  "undo_account a g w =
     (case w_accounts w a of None \<Rightarrow> None | Some acc \<Rightarrow> Some (w\<lparr>w_accounts := (w_accounts w)(a \<mapsto> g acc)\<rparr>))"

definition view_DeleteSlot ::
  "Address \<Rightarrow> Hash \<Rightarrow> (Address \<rightharpoonup> int) \<times> Hash set list \<Rightarrow> ((Address \<rightharpoonup> int) \<times> Hash set list) option" where
  "view_DeleteSlot a k v =
     (case fst v a of
        None \<Rightarrow> None
      | Some idx \<Rightarrow>
          if \<not> (0 \<le> idx \<and> nat idx < length (snd v)) then None
          else if snd v ! nat idx - {k} = {} then Some ((fst v)(a \<mapsto> -1), take (nat idx) (snd v))
          else Some (fst v, (snd v)[nat idx := snd v ! nat idx - {k}]))"

fun entry_undo :: "(bytes \<Rightarrow> bytes) \<Rightarrow> journalEntry \<Rightarrow> world \<Rightarrow> world option" where
  "entry_undo K (createObjectChange a) w = Some (w\<lparr>w_accounts := (w_accounts w)(a := None)\<rparr>)"
| "entry_undo K (createContractChange a) w = undo_account a (\<lambda>acc. acc\<lparr>a_newContract := False\<rparr>) w"
| "entry_undo K (selfDestructChange a) w =
     Some (w\<lparr>w_accounts := (w_accounts w)(a := map_option (\<lambda>acc. acc\<lparr>a_selfDestructed := False\<rparr>) (w_accounts w a))\<rparr>)"
| "entry_undo K (touchChange a) w = Some w"
| "entry_undo K (balanceChange a prev) w =
     undo_account a (\<lambda>acc. acc\<lparr>a_data := (a_data acc)\<lparr>sa_Balance := prev\<rparr>\<rparr>) w"
| "entry_undo K (nonceChange a prev) w =
     undo_account a (\<lambda>acc. acc\<lparr>a_data := (a_data acc)\<lparr>sa_Nonce := prev\<rparr>\<rparr>) w"
| "entry_undo K (codeChange a prev) w =
     undo_account a (\<lambda>acc. acc\<lparr>a_data := (a_data acc)\<lparr>sa_CodeHash := hash_bytes (hash_of K prev)\<rparr>, a_code := prev\<rparr>) w"
| "entry_undo K (storageChange a key prev orig) w =
     undo_account a
       (\<lambda>acc. acc\<lparr>a_storage := (a_storage acc)(key := if prev = orig then a_committed acc key else prev)\<rparr>) w"
| "entry_undo K (transientStorageChange a key prev) w =
     Some (w\<lparr>w_transient := (w_transient w)(a := (w_transient w a)(key := prev))\<rparr>)"
| "entry_undo K (refundChange prev) w = Some (w\<lparr>w_refund := prev\<rparr>)"
| "entry_undo K (addLogChange h) w =
     (if w_logs w h = [] then None
      else Some (w\<lparr>w_logs := (w_logs w)(h := butlast (w_logs w h)), w_logSize := w_logSize w - 1\<rparr>))"
| "entry_undo K (accessListAddAccountChange a) w =
     Some (w\<lparr>w_access := ((fst (w_access w))(a := None), snd (w_access w))\<rparr>)"
| "entry_undo K (accessListAddSlotChange a k) w =
     map_option (\<lambda>v. w\<lparr>w_access := v\<rparr>) (view_DeleteSlot a k (w_access w))"

fun undo_all :: "(bytes \<Rightarrow> bytes) \<Rightarrow> journalEntry list \<Rightarrow> world \<Rightarrow> world option" where
  "undo_all K [] w = Some w"
| "undo_all K (e # es) w = (case entry_undo K e w of None \<Rightarrow> None | Some w1 \<Rightarrow> undo_all K es w1)"

lemma undo_all_append:
  "undo_all K (es @ fs) w = (case undo_all K es w of None \<Rightarrow> None | Some w1 \<Rightarrow> undo_all K fs w1)"
  by (induction es arbitrary: w) (auto split: option.splits)

section \<open>Invariants\<close>

text \<open>
  What the reader promises: code is stored under its hash, the size it reports is the size of the code, and
  accounts have the hash of their code, which is never zero.
\<close>

definition hash_ok :: "(bytes \<Rightarrow> bytes) \<Rightarrow> bool" where
  "hash_ok K \<longleftrightarrow> (\<forall>c. hash_of K c \<noteq> 0)"

definition reader_ok :: "(bytes \<Rightarrow> bytes) \<Rightarrow> Reader \<Rightarrow> bool" where
  "reader_ok K r \<longleftrightarrow>
     (\<forall>a h. fst (r_Code r a h) \<noteq> [] \<longrightarrow> hash_of K (fst (r_Code r a h)) = h) \<and>
     (\<forall>a h. fst (r_CodeSize r a h) = length (fst (r_Code r a h))) \<and>
     (\<forall>a acct. r_Account r a = Inr (Some acct) \<longrightarrow> length (sa_CodeHash acct) = 32 \<and> BytesToHash (sa_CodeHash acct) \<noteq> 0)"

definition object_ok :: "(bytes \<Rightarrow> bytes) \<Rightarrow> Address \<Rightarrow> 't stateObject \<Rightarrow> bool" where
  "object_ok K a obj \<longleftrightarrow>
     hash_ok K \<and> so_address obj = a \<and> length (sa_CodeHash (so_data obj)) = 32 \<and> BytesToHash (sa_CodeHash (so_data obj)) \<noteq> 0 \<and>
     (so_code obj \<noteq> [] \<longrightarrow> sa_CodeHash (so_data obj) = hash_bytes (hash_of K (so_code obj)))"

text \<open>The code of an object is known: loaded, or known to be empty.\<close>

definition code_known :: "(bytes \<Rightarrow> bytes) \<Rightarrow> 't stateObject \<Rightarrow> bool" where
  "code_known K obj \<longleftrightarrow> so_code obj \<noteq> [] \<or> sa_CodeHash (so_data obj) = hash_bytes (hash_of K [])"

definition loaded :: "(bytes \<Rightarrow> bytes) \<Rightarrow> 't state_db \<Rightarrow> Address \<Rightarrow> bool" where
  "loaded K s a \<longleftrightarrow> (case object_at K s a of None \<Rightarrow> True | Some obj \<Rightarrow> code_known K obj)"

definition objects_ok :: "(bytes \<Rightarrow> bytes) \<Rightarrow> 't state_db \<Rightarrow> bool" where
  "objects_ok K s \<longleftrightarrow>
     hash_ok K \<and> reader_ok K (s_reader s) \<and> (\<forall>a obj. map_of (s_stateObjects s) a = Some obj \<longrightarrow> object_ok K a obj) \<and>
     (\<forall>h. map_of (s_logs s) h \<noteq> Some [])"

definition count_dirty :: "Address \<Rightarrow> journalEntry list \<Rightarrow> nat" where
  "count_dirty a es = length (filter (\<lambda>e. entry_dirtied e = Some a) es)"

text \<open>The counters of the journal count its entries, with the exception the code makes for one address.\<close>

definition dirties_ok :: "(Address \<times> int) list \<Rightarrow> journalEntry list \<Rightarrow> bool" where
  "dirties_ok d es \<longleftrightarrow>
     (\<forall>a. \<exists>x :: nat. (a \<noteq> ripemd \<longrightarrow> x = 0) \<and>
        map_of d a = (if count_dirty a es + x = 0 then None else Some (int (count_dirty a es + x))))"

definition revisions_ok :: "journal \<Rightarrow> bool" where
  "revisions_ok j \<longleftrightarrow>
     sorted_wrt (<) (map rev_id (j_validRevisions j)) \<and>
     (\<forall>r \<in> set (j_validRevisions j). rev_id r < j_nextRevisionId j \<and> rev_journalIndex r \<le> length (j_entries j)) \<and>
     sorted (map rev_journalIndex (j_validRevisions j))"

definition journal_ok :: "journal \<Rightarrow> bool" where
  "journal_ok j \<longleftrightarrow> revisions_ok j \<and> dirties_ok (j_dirties j) (j_entries j)"

definition sdb_inv :: "(bytes \<Rightarrow> bytes) \<Rightarrow> 't state_db \<Rightarrow> bool" where
  "sdb_inv K s \<longleftrightarrow> objects_ok K s \<and> al_ok (s_accessList s) \<and> journal_ok (s_journal s)"

text \<open>The parts no journaled operation touches.\<close>

definition same_base :: "'t state_db \<Rightarrow> 't state_db \<Rightarrow> bool" where
  "same_base s s' \<longleftrightarrow>
     s_reader s' = s_reader s \<and> s_stateObjectsDestruct s' = s_stateObjectsDestruct s \<and>
     s_mutations s' = s_mutations s \<and> s_originalRoot s' = s_originalRoot s \<and> s_trie s' = s_trie s \<and>
     s_thash s' = s_thash s \<and> s_txIndex s' = s_txIndex s \<and> s_accessEvents s' = s_accessEvents s"

fun entry_ok :: "(bytes \<Rightarrow> bytes) \<Rightarrow> 't state_db \<Rightarrow> journalEntry \<Rightarrow> bool" where
  "entry_ok K s (createObjectChange a) = (stored_object K s a = None)"
| "entry_ok K s e = True"

definition extends :: "(bytes \<Rightarrow> bytes) \<Rightarrow> 't state_db \<Rightarrow> 't state_db \<Rightarrow> bool" where
  "extends K s s' \<longleftrightarrow>
     (sdb_inv K s \<longrightarrow>
        sdb_inv K s' \<and> same_base s s' \<and> (\<forall>a. loaded K s a \<longrightarrow> loaded K s' a) \<and>
        j_nextRevisionId (s_journal s) \<le> j_nextRevisionId (s_journal s') \<and>
        (\<exists>es rs. j_entries (s_journal s') = j_entries (s_journal s) @ es \<and>
                 j_validRevisions (s_journal s') = j_validRevisions (s_journal s) @ rs \<and>
                 (\<forall>r \<in> set rs. j_nextRevisionId (s_journal s) \<le> rev_id r) \<and> list_all (entry_ok K s) es \<and>
                 undo_all K (rev es) (world K s') = Some (world K s)))"

lemma same_base_refl [simp]: "same_base s s"
  by (simp add: same_base_def)

lemma same_base_trans: "same_base s s' \<Longrightarrow> same_base s' s'' \<Longrightarrow> same_base s s''"
  by (simp add: same_base_def)

lemma stored_object_base: "same_base s s' \<Longrightarrow> stored_object K s' = stored_object K s"
  by (auto simp: same_base_def stored_object_def)

lemma entry_ok_base: "same_base s s' \<Longrightarrow> entry_ok K s' e = entry_ok K s e"
  by (cases e) (simp_all add: stored_object_base)

lemma extends_refl: "extends K s s"
  unfolding extends_def by (intro impI conjI exI [of _ "[]"]) simp_all

lemma extends_trans:
  assumes "extends K s s'" "extends K s' s''"
  shows "extends K s s''"
proof (unfold extends_def, intro impI)
  assume inv: "sdb_inv K s"
  note 1 = assms(1) [unfolded extends_def, rule_format, OF inv]
  then obtain es rs where es: "j_entries (s_journal s') = j_entries (s_journal s) @ es"
    "j_validRevisions (s_journal s') = j_validRevisions (s_journal s) @ rs"
    "\<forall>r \<in> set rs. j_nextRevisionId (s_journal s) \<le> rev_id r" "list_all (entry_ok K s) es"
    "undo_all K (rev es) (world K s') = Some (world K s)" by auto
  note 2 = assms(2) [unfolded extends_def, rule_format, OF conjunct1 [OF 1]]
  then obtain es' rs' where es': "j_entries (s_journal s'') = j_entries (s_journal s') @ es'"
    "j_validRevisions (s_journal s'') = j_validRevisions (s_journal s') @ rs'"
    "\<forall>r \<in> set rs'. j_nextRevisionId (s_journal s') \<le> rev_id r" "list_all (entry_ok K s') es'"
    "undo_all K (rev es') (world K s'') = Some (world K s')" by auto
  from 1 have base: "same_base s s'" by simp
  have "\<exists>es rs. j_entries (s_journal s'') = j_entries (s_journal s) @ es \<and>
                 j_validRevisions (s_journal s'') = j_validRevisions (s_journal s) @ rs \<and>
                 (\<forall>r \<in> set rs. j_nextRevisionId (s_journal s) \<le> rev_id r) \<and> list_all (entry_ok K s) es \<and>
                 undo_all K (rev es) (world K s'') = Some (world K s)"
    using es es' 1 entry_ok_base [OF base]
    by (intro exI [of _ "es @ es'"] exI [of _ "rs @ rs'"])
       (auto simp: undo_all_append list_all_iff intro: order_trans)
  with 1 2 show "sdb_inv K s'' \<and> same_base s s'' \<and> (\<forall>a. loaded K s a \<longrightarrow> loaded K s'' a) \<and>
        j_nextRevisionId (s_journal s) \<le> j_nextRevisionId (s_journal s'') \<and>
        (\<exists>es rs. j_entries (s_journal s'') = j_entries (s_journal s) @ es \<and>
                 j_validRevisions (s_journal s'') = j_validRevisions (s_journal s) @ rs \<and>
                 (\<forall>r \<in> set rs. j_nextRevisionId (s_journal s) \<le> rev_id r) \<and> list_all (entry_ok K s) es \<and>
                 undo_all K (rev es) (world K s'') = Some (world K s))"
    using same_base_trans order_trans by blast
qed

section \<open>The journal\<close>

lemma journal_dirty_sels [simp]:
  "j_entries (journal_dirty a j) = j_entries j"
  "j_validRevisions (journal_dirty a j) = j_validRevisions j"
  "j_nextRevisionId (journal_dirty a j) = j_nextRevisionId j"
  by (simp_all add: journal_dirty_def)

lemma journal_append_sels [simp]:
  "j_entries (journal_append e j) = j_entries j @ [e]"
  "j_validRevisions (journal_append e j) = j_validRevisions j"
  "j_nextRevisionId (journal_append e j) = j_nextRevisionId j"
  by (simp_all add: journal_append_def Let_def split: option.splits)

lemma journal_touchChange_sels [simp]:
  "j_entries (journal_touchChange a j) = j_entries j @ [touchChange a]"
  "j_validRevisions (journal_touchChange a j) = j_validRevisions j"
  "j_nextRevisionId (journal_touchChange a j) = j_nextRevisionId j"
  by (simp_all add: journal_touchChange_def Let_def)

lemma undirty_sels [simp]:
  "j_entries (undirty a j) = j_entries j"
  "j_validRevisions (undirty a j) = j_validRevisions j"
  "j_nextRevisionId (undirty a j) = j_nextRevisionId j"
  by (simp_all add: undirty_def Let_def)

lemma dirties_at_conv [simp]:
  "dirties_at (AList.update a n d) b = (if b = a then n else dirties_at d b)"
  by (simp add: dirties_at_def update_conv')

lemma count_dirty_simps [simp]:
  "count_dirty a [] = 0"
  "count_dirty a (es @ fs) = count_dirty a es + count_dirty a fs"
  "count_dirty a [e] = (if entry_dirtied e = Some a then 1 else 0)"
  by (simp_all add: count_dirty_def)

lemma dirties_okE:
  assumes "dirties_ok d es"
  obtains x :: nat where "a \<noteq> ripemd \<longrightarrow> x = 0"
    "map_of d a = (if count_dirty a es + x = 0 then None else Some (int (count_dirty a es + x)))"
  using assms unfolding dirties_ok_def by metis

lemma dirties_ok_at: "dirties_ok d es \<Longrightarrow> a \<noteq> ripemd \<Longrightarrow> dirties_at d a = int (count_dirty a es)"
  by (erule dirties_okE [where a = a]) (auto simp: dirties_at_def)

lemma dirties_ok_append:
  assumes "dirties_ok (j_dirties j) (j_entries j)"
  shows "dirties_ok (j_dirties (journal_append e j)) (j_entries (journal_append e j))"
proof (unfold dirties_ok_def, intro allI)
  fix a
  obtain x :: nat where x: "a \<noteq> ripemd \<longrightarrow> x = 0" "map_of (j_dirties j) a =
      (if count_dirty a (j_entries j) + x = 0 then None else Some (int (count_dirty a (j_entries j) + x)))"
    using assms by (rule dirties_okE [where a = a])
  show "\<exists>x :: nat. (a \<noteq> ripemd \<longrightarrow> x = 0) \<and> map_of (j_dirties (journal_append e j)) a =
      (if count_dirty a (j_entries (journal_append e j)) + x = 0 then None
       else Some (int (count_dirty a (j_entries (journal_append e j)) + x)))"
    by (rule exI [of _ x], cases "entry_dirtied e")
       (use x in \<open>auto simp: journal_append_def journal_dirty_def dirties_at_def update_conv' Let_def\<close>)
qed

lemma dirties_ok_touch:
  assumes "dirties_ok (j_dirties j) (j_entries j)"
  shows "dirties_ok (j_dirties (journal_touchChange b j)) (j_entries (journal_touchChange b j))"
proof (cases "b = ripemd")
  case False
  then show ?thesis using dirties_ok_append [OF assms, of "touchChange b"]
    by (simp add: journal_touchChange_def)
next
  case True
  let ?j = "journal_append (touchChange b) j"
  show ?thesis
  proof (unfold dirties_ok_def, intro allI)
    fix a
    obtain x :: nat where x: "a \<noteq> ripemd \<longrightarrow> x = 0" "map_of (j_dirties ?j) a =
        (if count_dirty a (j_entries ?j) + x = 0 then None else Some (int (count_dirty a (j_entries ?j) + x)))"
      using dirties_ok_append [OF assms] by (rule dirties_okE [where a = a])
    show "\<exists>x :: nat. (a \<noteq> ripemd \<longrightarrow> x = 0) \<and> map_of (j_dirties (journal_touchChange b j)) a =
        (if count_dirty a (j_entries (journal_touchChange b j)) + x = 0 then None
         else Some (int (count_dirty a (j_entries (journal_touchChange b j)) + x)))"
    proof (cases "a = ripemd")
      case True
      then show ?thesis using x \<open>b = ripemd\<close>
        by (intro exI [of _ "Suc x"])
           (auto simp: journal_touchChange_def journal_dirty_def dirties_at_def update_conv' Let_def)
    next
      case False
      then show ?thesis using x \<open>b = ripemd\<close>
        by (intro exI [of _ 0])
           (auto simp: journal_touchChange_def journal_dirty_def dirties_at_def update_conv' Let_def)
    qed
  qed
qed

lemma dirties_ok_undirty:
  assumes "dirties_ok (j_dirties j) (es @ [e])" "entry_dirtied e = Some b"
  shows "dirties_ok (j_dirties (undirty b j)) es"
proof (unfold dirties_ok_def, intro allI)
  fix a
  obtain x :: nat where x: "a \<noteq> ripemd \<longrightarrow> x = 0" "map_of (j_dirties j) a =
      (if count_dirty a (es @ [e]) + x = 0 then None else Some (int (count_dirty a (es @ [e]) + x)))"
    using assms(1) by (rule dirties_okE [where a = a])
  then show "\<exists>x :: nat. (a \<noteq> ripemd \<longrightarrow> x = 0) \<and>
      map_of (j_dirties (undirty b j)) a = (if count_dirty a es + x = 0 then None else Some (int (count_dirty a es + x)))"
    using assms(2) by (intro exI [of _ x]) (auto simp: undirty_def dirties_at_def update_conv' delete_conv' Let_def)
qed

lemma dirties_ok_clean: "entry_dirtied e = None \<Longrightarrow> dirties_ok d (es @ [e]) \<longleftrightarrow> dirties_ok d es"
  by (simp add: dirties_ok_def)

lemma revisions_ok_append: "revisions_ok j \<Longrightarrow> revisions_ok (journal_append e j)"
  by (auto simp: revisions_ok_def)

lemma journal_ok_append: "journal_ok j \<Longrightarrow> journal_ok (journal_append e j)"
  by (simp add: journal_ok_def dirties_ok_append revisions_ok_append del: journal_append_sels(1))

lemma journal_ok_touch:
  assumes "journal_ok j"
  shows "journal_ok (journal_touchChange a j)"
proof -
  have "revisions_ok (journal_touchChange a j)" using assms by (auto simp: journal_ok_def revisions_ok_def)
  moreover have "dirties_ok (j_dirties (journal_touchChange a j)) (j_entries (journal_touchChange a j))"
    using assms by (intro dirties_ok_touch) (simp add: journal_ok_def)
  ultimately show ?thesis by (simp add: journal_ok_def)
qed

section \<open>Reading does not change the world\<close>

lemma views_base:
  assumes "same_base s s'"
  shows "committed_view s' obj = committed_view s obj" "storage_view s' obj = storage_view s obj"
    "code_view K s' obj = code_view K s obj" "so_view K s' obj = so_view K s obj"
proof -
  have eqs: "s_reader s' = s_reader s" "s_stateObjectsDestruct s' = s_stateObjectsDestruct s"
    using assms by (simp_all add: same_base_def)
  show c: "committed_view s' obj = committed_view s obj"
    by (intro ext) (simp only: committed_view_def eqs)
  then show t: "storage_view s' obj = storage_view s obj"
    by (intro ext) (simp only: storage_view_def)
  show k: "code_view K s' obj = code_view K s obj"
    by (simp only: code_view_def eqs)
  from c t k show "so_view K s' obj = so_view K s obj" by (simp add: so_view_def)
qed

text \<open>A step that leaves everything but caches and the error flag alone.\<close>

definition reads :: "(bytes \<Rightarrow> bytes) \<Rightarrow> 't state_db \<Rightarrow> 't state_db \<Rightarrow> bool" where
  "reads K s s' \<longleftrightarrow>
     same_base s s' \<and> world K s' = world K s \<and> s_journal s' = s_journal s \<and> s_accessList s' = s_accessList s \<and>
     (objects_ok K s \<longrightarrow> objects_ok K s') \<and> (\<forall>a. loaded K s a \<longrightarrow> loaded K s' a)"

lemma reads_refl [simp]: "reads K s s"
  by (simp add: reads_def)

lemma reads_trans: "reads K s s' \<Longrightarrow> reads K s' s'' \<Longrightarrow> reads K s s''"
  unfolding reads_def using same_base_trans by fastforce

lemma reads_extends: "reads K s s' \<Longrightarrow> extends K s s'"
  unfolding reads_def extends_def sdb_inv_def by (intro impI conjI exI [of _ "[]"]) auto

lemma reads_inv: "reads K s s' \<Longrightarrow> sdb_inv K s \<Longrightarrow> sdb_inv K s'"
  by (auto simp: reads_def sdb_inv_def)

lemma setError_sels [simp]:
  "s_reader (sdb_setError e s) = s_reader s" "s_stateObjectsDestruct (sdb_setError e s) = s_stateObjectsDestruct s"
  "s_mutations (sdb_setError e s) = s_mutations s" "s_originalRoot (sdb_setError e s) = s_originalRoot s"
  "s_trie (sdb_setError e s) = s_trie s" "s_thash (sdb_setError e s) = s_thash s"
  "s_txIndex (sdb_setError e s) = s_txIndex s" "s_accessEvents (sdb_setError e s) = s_accessEvents s"
  "s_stateObjects (sdb_setError e s) = s_stateObjects s" "s_logs (sdb_setError e s) = s_logs s"
  "s_logSize (sdb_setError e s) = s_logSize s" "s_refund (sdb_setError e s) = s_refund s"
  "s_transientStorage (sdb_setError e s) = s_transientStorage s"
  "s_accessList (sdb_setError e s) = s_accessList s" "s_journal (sdb_setError e s) = s_journal s"
  by (simp_all add: sdb_setError_def)

lemma same_base_setError [simp]: "same_base s (sdb_setError e s)"
  by (simp add: same_base_def)

lemma object_at_cong:
  "same_base s s' \<Longrightarrow> s_stateObjects s' = s_stateObjects s \<Longrightarrow> object_at K s' = object_at K s"
  by (auto simp: object_at_def stored_object_base split: option.splits)

text \<open>Two databases with the same objects, counters and lists show the same world.\<close>

lemma world_cong:
  assumes "same_base s s'" "s_stateObjects s' = s_stateObjects s" "s_refund s' = s_refund s" "s_logs s' = s_logs s"
    "s_logSize s' = s_logSize s" "s_transientStorage s' = s_transientStorage s" "s_accessList s' = s_accessList s"
  shows "world K s' = world K s"
proof -
  have "so_view K s' = so_view K s" using views_base(4) [OF assms(1)] by (intro ext)
  with assms show ?thesis by (simp add: world_def object_at_cong logs_at_def [abs_def])
qed

lemma reads_cong:
  assumes "same_base s s'" "s_stateObjects s' = s_stateObjects s" "s_refund s' = s_refund s" "s_logs s' = s_logs s"
    "s_logSize s' = s_logSize s" "s_transientStorage s' = s_transientStorage s" "s_accessList s' = s_accessList s"
    "s_journal s' = s_journal s"
  shows "reads K s s'"
  using assms world_cong [OF assms(1-7)] object_at_cong [OF assms(1-2)]
  by (simp add: reads_def objects_ok_def loaded_def same_base_def)

lemma reads_setError [simp]: "reads K s (sdb_setError e s)"
  by (rule reads_cong) simp_all

lemma setStateObject_sels [simp]:
  "s_reader (sdb_setStateObject obj s) = s_reader s"
  "s_stateObjectsDestruct (sdb_setStateObject obj s) = s_stateObjectsDestruct s"
  "s_mutations (sdb_setStateObject obj s) = s_mutations s" "s_originalRoot (sdb_setStateObject obj s) = s_originalRoot s"
  "s_trie (sdb_setStateObject obj s) = s_trie s" "s_thash (sdb_setStateObject obj s) = s_thash s"
  "s_txIndex (sdb_setStateObject obj s) = s_txIndex s" "s_accessEvents (sdb_setStateObject obj s) = s_accessEvents s"
  "s_logs (sdb_setStateObject obj s) = s_logs s" "s_logSize (sdb_setStateObject obj s) = s_logSize s"
  "s_refund (sdb_setStateObject obj s) = s_refund s"
  "s_transientStorage (sdb_setStateObject obj s) = s_transientStorage s"
  "s_accessList (sdb_setStateObject obj s) = s_accessList s" "s_journal (sdb_setStateObject obj s) = s_journal s"
  "map_of (s_stateObjects (sdb_setStateObject obj s)) = (map_of (s_stateObjects s))(so_address obj \<mapsto> obj)"
  by (simp_all add: sdb_setStateObject_def update_conv' fun_eq_iff)

lemma same_base_setStateObject [simp]: "same_base s (sdb_setStateObject obj s)"
  by (simp add: same_base_def)

lemma object_at_set: "object_at K (sdb_setStateObject obj s) = (object_at K s)(so_address obj \<mapsto> obj)"
  by (auto simp: object_at_def stored_object_base [OF same_base_setStateObject] fun_eq_iff split: option.splits)

lemma world_set:
  "world K (sdb_setStateObject obj s) =
     (world K s)\<lparr>w_accounts := (w_accounts (world K s))(so_address obj \<mapsto> so_view K s obj)\<rparr>"
proof -
  have v: "so_view K (sdb_setStateObject obj s) = so_view K s"
    by (intro ext views_base(4)) simp
  show ?thesis by (simp add: world_def object_at_set v logs_at_def [abs_def]) (simp add: fun_eq_iff)
qed

lemma reads_set:
  assumes "object_at K s (so_address obj) = Some old" "so_view K s obj = so_view K s old"
    "objects_ok K s \<Longrightarrow> object_ok K (so_address obj) obj" "code_known K old \<Longrightarrow> code_known K obj"
  shows "reads K s (sdb_setStateObject obj s)"
proof -
  have "world K (sdb_setStateObject obj s) = world K s"
    using assms(1,2) by (simp add: world_set) (auto simp: world_def fun_eq_iff)
  moreover have "objects_ok K (sdb_setStateObject obj s)" if "objects_ok K s"
    using that assms(3) [OF that] by (auto simp: objects_ok_def)
  moreover have "loaded K s a \<Longrightarrow> loaded K (sdb_setStateObject obj s) a" for a
    using assms(1,4) by (auto simp: loaded_def object_at_set split: if_splits)
  ultimately show ?thesis by (simp add: reads_def)
qed

section \<open>Queries\<close>

lemma object_at_ok: "objects_ok K s \<Longrightarrow> object_at K s a = Some obj \<Longrightarrow> object_ok K a obj"
  by (auto simp: objects_ok_def object_at_def stored_object_def object_ok_def newObject_def reader_ok_def
      split: option.splits if_splits sum.splits)

lemma world_account: "w_accounts (world K s) a = map_option (so_view K s) (object_at K s a)"
  by (simp add: world_def)

lemma so_address_newObject [simp]: "so_address (newObject K a acct) = a"
  by (simp add: newObject_def)

lemma committed_view_cong:
  "pendingStorage obj' = pendingStorage obj \<Longrightarrow> originStorage obj' = originStorage obj \<Longrightarrow>
     so_address obj' = so_address obj \<Longrightarrow> committed_view s obj' = committed_view s obj"
  by (rule ext) (simp only: committed_view_def)

lemma storage_view_cong:
  "dirtyStorage obj' = dirtyStorage obj \<Longrightarrow> committed_view s obj' = committed_view s obj \<Longrightarrow>
     storage_view s obj' = storage_view s obj"
  by (rule ext) (simp only: storage_view_def)

lemma so_view_cong:
  "so_data obj' = so_data obj \<Longrightarrow> code_view K s obj' = code_view K s obj \<Longrightarrow> dirtyStorage obj' = dirtyStorage obj \<Longrightarrow>
     committed_view s obj' = committed_view s obj \<Longrightarrow> selfDestructed obj' = selfDestructed obj \<Longrightarrow>
     newContract obj' = newContract obj \<Longrightarrow> so_view K s obj' = so_view K s obj"
  using storage_view_cong [of obj' obj s] by (simp add: so_view_def)

lemma hash_bytes_BytesToHash:
  assumes "length b = 32"
  shows "hash_bytes (BytesToHash b) = b"
proof -
  have "be_nat b < 2 ^ 256" using be_nat_lt [of b] assms by simp
  then have "unat (of_nat (be_nat b) :: Hash) = be_nat b" by (simp add: unat_of_nat)
  then show ?thesis using be_bytes_be_nat [of b] assms by (simp add: hash_bytes_def BytesToHash_short)
qed

lemma getStateObject_spec:
  assumes "sdb_getStateObject K a s = (r, s1)"
  shows "r = object_at K s a" "reads K s s1" "r = Some obj \<Longrightarrow> map_of (s_stateObjects s1) a = Some obj"
proof -
  let ?new = "\<lambda>acct. newObject K a (Some acct)"
  have "r = object_at K s a \<and> reads K s s1 \<and> (r = Some obj \<longrightarrow> map_of (s_stateObjects s1) a = Some obj)"
  proof (cases "map_of (s_stateObjects s) a")
    case (Some obj)
    with assms have "r = Some obj" "s1 = s" by (simp_all add: sdb_getStateObject_def)
    with Some show ?thesis by (simp add: object_at_def)
  next
    case None
    show ?thesis
    proof (cases "stored_object K s a")
      case st: None
      with None assms show ?thesis
        by (auto simp: sdb_getStateObject_def object_at_def stored_object_def Let_def split: if_splits sum.splits option.splits)
    next
      case (Some o1)
      then have o1: "object_at K s a = Some o1" "so_address o1 = a"
        using None by (auto simp: object_at_def stored_object_def split: if_splits sum.splits option.splits)
      then have "reads K s (sdb_setStateObject o1 s)"
        by (intro reads_set [where old = o1]) (auto intro: object_at_ok)
      moreover from Some None assms have "r = Some o1" "s1 = sdb_setStateObject o1 s"
        by (auto simp: sdb_getStateObject_def stored_object_def Let_def split: if_splits sum.splits option.splits)
      ultimately show ?thesis using o1 by auto
    qed
  qed
  then show "r = object_at K s a" "reads K s s1" "r = Some obj \<Longrightarrow> map_of (s_stateObjects s1) a = Some obj"
    by simp_all
qed

text \<open>A change of an object that only fills its caches.\<close>

definition obj_reads :: "(bytes \<Rightarrow> bytes) \<Rightarrow> 't state_db \<Rightarrow> 't stateObject \<Rightarrow> 't stateObject \<Rightarrow> bool" where
  "obj_reads K s obj obj' \<longleftrightarrow>
     so_address obj' = so_address obj \<and> so_view K s obj' = so_view K s obj \<and>
     (reader_ok K (s_reader s) \<and> object_ok K (so_address obj) obj \<longrightarrow> object_ok K (so_address obj) obj') \<and>
     (code_known K obj \<longrightarrow> code_known K obj')"

lemma obj_reads_refl [simp]: "obj_reads K s obj obj"
  by (simp add: obj_reads_def)

lemma so_GetCommittedState_spec:
  assumes "so_GetCommittedState key obj s = (v, obj', s')"
  shows "v = committed_view s obj key" "reads K s s'" "obj_reads K s obj obj'"
    "dirtyStorage obj' = dirtyStorage obj" "uncommittedStorage obj' = uncommittedStorage obj"
    "pendingStorage obj' = pendingStorage obj" "newContract obj' = newContract obj"
    "s_stateObjects s' = s_stateObjects s"
proof -
  let ?cached = "\<lambda>v. obj\<lparr>originStorage := AList.update key v (originStorage obj)\<rparr>"
  have cached: "obj_reads K s obj (?cached v)"
    if "map_of (pendingStorage obj) key = None" "map_of (originStorage obj) key = None" "v = committed_view s obj key" for v
  proof -
    have "committed_view s (?cached v) = committed_view s obj"
      using that by (intro ext) (auto simp: committed_view_def update_conv' split: option.splits)
    then have "so_view K s (?cached v) = so_view K s obj"
      by (intro so_view_cong) (simp_all add: code_view_def)
    then show ?thesis by (simp add: obj_reads_def object_ok_def code_known_def)
  qed
  show "v = committed_view s obj key" "reads K s s'" "dirtyStorage obj' = dirtyStorage obj"
    "uncommittedStorage obj' = uncommittedStorage obj" "pendingStorage obj' = pendingStorage obj"
    "newContract obj' = newContract obj" "s_stateObjects s' = s_stateObjects s"
    using assms
    by (auto simp: so_GetCommittedState_def committed_view_def Let_def split: option.splits if_splits sum.splits)
  show "obj_reads K s obj obj'"
    using assms cached
    by (auto simp: so_GetCommittedState_def committed_view_def Let_def split: option.splits if_splits sum.splits)
qed

lemma so_getState_spec:
  assumes "so_getState key obj s = ((v, c), obj', s')"
  shows "v = storage_view s obj key" "c = committed_view s obj key" "reads K s s'" "obj_reads K s obj obj'"
    "s_stateObjects s' = s_stateObjects s"
proof -
  obtain c' where c: "so_GetCommittedState key obj s = (c', obj', s')"
    using assms by (auto simp: so_getState_def split: prod.splits option.splits)
  note 1 = so_GetCommittedState_spec [OF c]
  show "v = storage_view s obj key" "c = committed_view s obj key"
    using assms c 1 by (auto simp: so_getState_def storage_view_def split: option.splits)
  show "reads K s s'" "obj_reads K s obj obj'" "s_stateObjects s' = s_stateObjects s" using 1 by auto
qed

lemma so_Code_spec:
  assumes "so_Code K obj s = (v, obj', s')"
  shows "v = code_view K s obj" "reads K s s'" "obj_reads K s obj obj'" "s_stateObjects s' = s_stateObjects s"
proof -
  let ?h = "BytesToHash (sa_CodeHash (so_data obj))"
  let ?c = "fst (r_Code (s_reader s) (so_address obj) ?h)"
  show v: "v = code_view K s obj" and "reads K s s'" and "s_stateObjects s' = s_stateObjects s"
    using assms by (auto simp: so_Code_def code_view_def Let_def reads_trans [OF reads_setError reads_setError]
        split: if_splits prod.splits option.splits)
  have "obj_reads K s obj (obj\<lparr>so_code := ?c\<rparr>)" if "so_code obj = []" "\<not> code_known K obj"
  proof -
    have "so_view K s (obj\<lparr>so_code := ?c\<rparr>) = so_view K s obj"
      using that by (intro so_view_cong committed_view_cong) (simp_all add: code_view_def code_known_def)
    moreover have "sa_CodeHash (so_data obj) = hash_bytes (hash_of K ?c)"
      if "reader_ok K (s_reader s)" "length (sa_CodeHash (so_data obj)) = 32" "?c \<noteq> []"
    proof -
      from that have "hash_of K ?c = ?h" by (simp add: reader_ok_def)
      with that(2) show ?thesis by (simp add: hash_bytes_BytesToHash)
    qed
    ultimately show ?thesis using that by (simp add: obj_reads_def object_ok_def)
  qed
  then show "obj_reads K s obj obj'"
    using assms by (auto simp: so_Code_def code_known_def Let_def split: if_splits prod.splits)
qed

text \<open>Writing back an object whose caches were filled.\<close>

lemma reads_write_back:
  assumes "map_of (s_stateObjects s1) a = Some obj" "so_address obj = a" "reads K s1 s2"
    "s_stateObjects s2 = s_stateObjects s1" "obj_reads K s1 obj obj'"
  shows "reads K s1 (sdb_setStateObject obj' s2)"
proof (rule reads_trans [OF assms(3)], rule reads_set [where old = obj])
  have base: "same_base s1 s2" using assms(3) by (simp add: reads_def)
  have o: "so_address obj' = a" using assms(2,5) by (simp add: obj_reads_def)
  show at: "object_at K s2 (so_address obj') = Some obj" using assms(1,4) o by (simp add: object_at_def)
  show "so_view K s2 obj' = so_view K s2 obj"
    using assms(5) by (simp add: views_base(4) [OF base] obj_reads_def)
  show "object_ok K (so_address obj') obj'" if "objects_ok K s2"
    using that object_at_ok [OF that at] assms(2,5) o base by (simp add: obj_reads_def objects_ok_def same_base_def)
  show "code_known K obj \<Longrightarrow> code_known K obj'" using assms(5) by (simp add: obj_reads_def)
qed

lemma query_spec:
  assumes run: "query K a missing q s = (v, s')" and inv: "objects_ok K s"
    and q: "\<And>obj s1 v obj' s2. q obj s1 = (v, obj', s2) \<Longrightarrow> reader_ok K (s_reader s1) \<Longrightarrow>
              v = g (so_view K s1 obj) \<and> reads K s1 s2 \<and> obj_reads K s1 obj obj' \<and> s_stateObjects s2 = s_stateObjects s1"
  shows "v = (case w_accounts (world K s) a of None \<Rightarrow> missing | Some acc \<Rightarrow> g acc) \<and> reads K s s'"
proof -
  obtain r s1 where r: "sdb_getStateObject K a s = (r, s1)" by fastforce
  note get = getStateObject_spec [OF r]
  show ?thesis
  proof (cases r)
    case None
    with run r get show ?thesis by (auto simp: query_def world_account)
  next
    case (Some obj)
    obtain v' obj' s2 where qv: "q obj s1 = (v', obj', s2)" by (cases "q obj s1") auto
    have ok1: "objects_ok K s1" using get(2) inv by (simp add: reads_def)
    then have "reader_ok K (s_reader s1)" by (simp add: objects_ok_def)
    note q' = q [OF qv this]
    have at: "map_of (s_stateObjects s1) a = Some obj" using get(3) [OF Some] .
    then have "object_ok K a obj" using ok1 by (simp add: objects_ok_def)
    then have a: "so_address obj = a" by (simp add: object_ok_def)
    have "reads K s (sdb_setStateObject obj' s2)"
      using reads_trans [OF get(2) reads_write_back [OF at a]] q' by blast
    moreover have "so_view K s1 obj = so_view K s obj"
      using get(2) views_base(4) by (auto simp: reads_def)
    moreover have "object_at K s a = Some obj" using get(1) Some by simp
    ultimately show ?thesis using run r [unfolded Some] qv q' by (simp add: query_def world_account)
  qed
qed

text \<open>Every query is a function of the world.\<close>

abbreviation at_account :: "world \<Rightarrow> Address \<Rightarrow> 'a \<Rightarrow> (account \<Rightarrow> 'a) \<Rightarrow> 'a" where
  "at_account w a missing g \<equiv> (case w_accounts w a of None \<Rightarrow> missing | Some acc \<Rightarrow> g acc)"

definition a_empty :: "(bytes \<Rightarrow> bytes) \<Rightarrow> account \<Rightarrow> bool" where
  "a_empty K acc \<longleftrightarrow>
     sa_Nonce (a_data acc) = 0 \<and> sa_Balance (a_data acc) = 0 \<and> sa_CodeHash (a_data acc) = hash_bytes (hash_of K [])"

lemma so_view_sels [simp]:
  "a_data (so_view K s obj) = so_data obj" "a_code (so_view K s obj) = code_view K s obj"
  "a_storage (so_view K s obj) = storage_view s obj" "a_committed (so_view K s obj) = committed_view s obj"
  "a_selfDestructed (so_view K s obj) = selfDestructed obj" "a_newContract (so_view K s obj) = newContract obj"
  "a_empty K (so_view K s obj) = so_empty K obj"
  by (simp_all add: so_view_def a_empty_def so_empty_def)

lemma so_CodeSize_spec:
  assumes "so_CodeSize K obj s = (n, s')" "reader_ok K (s_reader s)"
  shows "n = length (code_view K s obj) \<and> reads K s s' \<and> s_stateObjects s' = s_stateObjects s"
proof -
  let ?h = "BytesToHash (sa_CodeHash (so_data obj))"
  obtain sz err where sz: "r_CodeSize (s_reader s) (so_address obj) ?h = (sz, err)" by fastforce
  with assms(2) have "length (fst (r_Code (s_reader s) (so_address obj) ?h)) = sz"
    unfolding reader_ok_def by (metis fst_conv)
  with assms(1) sz show ?thesis
    by (auto simp: so_CodeSize_def code_view_def Let_def reads_trans [OF reads_setError reads_setError]
        split: if_splits option.splits)
qed

lemma queries_spec:
  assumes "objects_ok K s"
  shows "sdb_Exist K a s = (b, s') \<Longrightarrow> b = (w_accounts (world K s) a \<noteq> None) \<and> reads K s s'"
    and "sdb_Empty K a s = (b, s') \<Longrightarrow> b = at_account (world K s) a True (a_empty K) \<and> reads K s s'"
    and "sdb_GetBalance K a s = (u, s') \<Longrightarrow> u = at_account (world K s) a 0 (\<lambda>acc. sa_Balance (a_data acc)) \<and> reads K s s'"
    and "sdb_GetNonce K a s = (n, s') \<Longrightarrow> n = at_account (world K s) a 0 (\<lambda>acc. sa_Nonce (a_data acc)) \<and> reads K s s'"
    and "sdb_GetStorageRoot K a s = (h, s') \<Longrightarrow> h = at_account (world K s) a 0 (\<lambda>acc. sa_Root (a_data acc)) \<and> reads K s s'"
    and "sdb_GetCode K a s = (c, s') \<Longrightarrow> c = at_account (world K s) a [] a_code \<and> reads K s s'"
    and "sdb_GetCodeSize K a s = (sz, s') \<Longrightarrow> sz = at_account (world K s) a 0 (\<lambda>acc. length (a_code acc)) \<and> reads K s s'"
    and "sdb_GetCodeHash K a s = (h, s') \<Longrightarrow>
      h = at_account (world K s) a 0 (\<lambda>acc. BytesToHash (sa_CodeHash (a_data acc))) \<and> reads K s s'"
    and "sdb_GetState K a k s = (h, s') \<Longrightarrow> h = at_account (world K s) a 0 (\<lambda>acc. a_storage acc k) \<and> reads K s s'"
    and "sdb_GetCommittedState K a k s = (h, s') \<Longrightarrow> h = at_account (world K s) a 0 (\<lambda>acc. a_committed acc k) \<and> reads K s s'"
    and "sdb_GetStateAndCommittedState K a k s = (p, s') \<Longrightarrow>
      p = at_account (world K s) a (0, 0) (\<lambda>acc. (a_storage acc k, a_committed acc k)) \<and> reads K s s'"
    and "sdb_HasSelfDestructed K a s = (b, s') \<Longrightarrow> b = at_account (world K s) a False a_selfDestructed \<and> reads K s s'"
    and "sdb_IsNewContract K a s = (b, s') \<Longrightarrow> b = at_account (world K s) a False a_newContract \<and> reads K s s'"
proof -
  show "sdb_Exist K a s = (b, s') \<Longrightarrow> b = (w_accounts (world K s) a \<noteq> None) \<and> reads K s s'"
    unfolding sdb_Exist_def by (drule query_spec [OF _ assms, where g = "\<lambda>_. True"]) (auto split: option.splits)
  show "sdb_Empty K a s = (b, s') \<Longrightarrow> b = at_account (world K s) a True (a_empty K) \<and> reads K s s'"
    unfolding sdb_Empty_def by (rule query_spec [OF _ assms]) auto
  show "sdb_GetBalance K a s = (u, s') \<Longrightarrow> u = at_account (world K s) a 0 (\<lambda>acc. sa_Balance (a_data acc)) \<and> reads K s s'"
    unfolding sdb_GetBalance_def by (rule query_spec [OF _ assms]) auto
  show "sdb_GetNonce K a s = (n, s') \<Longrightarrow> n = at_account (world K s) a 0 (\<lambda>acc. sa_Nonce (a_data acc)) \<and> reads K s s'"
    unfolding sdb_GetNonce_def by (rule query_spec [OF _ assms]) auto
  show "sdb_GetStorageRoot K a s = (h, s') \<Longrightarrow> h = at_account (world K s) a 0 (\<lambda>acc. sa_Root (a_data acc)) \<and> reads K s s'"
    unfolding sdb_GetStorageRoot_def by (rule query_spec [OF _ assms]) auto
  show "sdb_GetCode K a s = (c, s') \<Longrightarrow> c = at_account (world K s) a [] a_code \<and> reads K s s'"
    unfolding sdb_GetCode_def by (rule query_spec [OF _ assms]) (auto dest: so_Code_spec)
  show "sdb_GetCodeSize K a s = (sz, s') \<Longrightarrow> sz = at_account (world K s) a 0 (\<lambda>acc. length (a_code acc)) \<and> reads K s s'"
    unfolding sdb_GetCodeSize_def by (rule query_spec [OF _ assms]) (auto dest: so_CodeSize_spec split: prod.splits)
  show "sdb_GetCodeHash K a s = (h, s') \<Longrightarrow>
      h = at_account (world K s) a 0 (\<lambda>acc. BytesToHash (sa_CodeHash (a_data acc))) \<and> reads K s s'"
    unfolding sdb_GetCodeHash_def by (rule query_spec [OF _ assms]) auto
  show "sdb_GetState K a k s = (h, s') \<Longrightarrow> h = at_account (world K s) a 0 (\<lambda>acc. a_storage acc k) \<and> reads K s s'"
    unfolding sdb_GetState_def so_GetState_def
    by (rule query_spec [OF _ assms]) (auto dest: so_getState_spec split: prod.splits)
  show "sdb_GetCommittedState K a k s = (h, s') \<Longrightarrow> h = at_account (world K s) a 0 (\<lambda>acc. a_committed acc k) \<and> reads K s s'"
    unfolding sdb_GetCommittedState_def by (rule query_spec [OF _ assms]) (auto dest: so_GetCommittedState_spec)
  show "sdb_GetStateAndCommittedState K a k s = (p, s') \<Longrightarrow>
      p = at_account (world K s) a (0, 0) (\<lambda>acc. (a_storage acc k, a_committed acc k)) \<and> reads K s s'"
    unfolding sdb_GetStateAndCommittedState_def
    by (rule query_spec [OF _ assms]) (auto dest: so_getState_spec split: prod.splits)
  show "sdb_HasSelfDestructed K a s = (b, s') \<Longrightarrow> b = at_account (world K s) a False a_selfDestructed \<and> reads K s s'"
    unfolding sdb_HasSelfDestructed_def by (rule query_spec [OF _ assms]) auto
  show "sdb_IsNewContract K a s = (b, s') \<Longrightarrow> b = at_account (world K s) a False a_newContract \<and> reads K s s'"
    unfolding sdb_IsNewContract_def by (rule query_spec [OF _ assms]) auto
qed

end
