(* ===== verification/State_Revert.thy ===== *)
theory State_Revert
  imports State_Journal
begin

text \<open>
  Every operation of the database extends its journal so that undoing the new entries restores the world, and
  reverting to a snapshot restores the world at the time of the snapshot.
\<close>

section \<open>Updates extend the journal\<close>

lemma extends_step:
  assumes base: "same_base s s'" and j: "s_journal s' = journal_append e (s_journal s)"
    and ok: "sdb_inv K s \<Longrightarrow> objects_ok K s' \<and> al_ok (s_accessList s') \<and> entry_ok K s e \<and>
      (\<forall>a. loaded K s a \<longrightarrow> loaded K s' a) \<and> entry_undo K e (world K s') = Some (world K s)"
  shows "extends K s s'"
  unfolding extends_def
proof (intro impI)
  assume inv: "sdb_inv K s"
  then have "sdb_inv K s'" using ok [OF inv] journal_ok_append [of "s_journal s" e] j by (simp add: sdb_inv_def)
  moreover have "\<exists>es rs. j_entries (s_journal s') = j_entries (s_journal s) @ es \<and>
                 j_validRevisions (s_journal s') = j_validRevisions (s_journal s) @ rs \<and>
                 (\<forall>r \<in> set rs. j_nextRevisionId (s_journal s) \<le> rev_id r) \<and> list_all (entry_ok K s) es \<and>
                 undo_all K (rev es) (world K s') = Some (world K s)"
    using ok [OF inv] by (intro exI [of _ "[e]"] exI [of _ "[]"]) (simp add: j)
  ultimately show "sdb_inv K s' \<and> same_base s s' \<and> (\<forall>a. loaded K s a \<longrightarrow> loaded K s' a) \<and>
        j_nextRevisionId (s_journal s) \<le> j_nextRevisionId (s_journal s') \<and>
        (\<exists>es rs. j_entries (s_journal s') = j_entries (s_journal s) @ es \<and>
                 j_validRevisions (s_journal s') = j_validRevisions (s_journal s) @ rs \<and>
                 (\<forall>r \<in> set rs. j_nextRevisionId (s_journal s) \<le> rev_id r) \<and> list_all (entry_ok K s) es \<and>
                 undo_all K (rev es) (world K s') = Some (world K s))"
    using base ok [OF inv] by (simp add: j)
qed

lemma same_base_journal [simp]: "same_base s (s\<lparr>s_journal := j\<rparr>)"
  by (simp add: same_base_def)

lemma world_journal [simp]: "world K (s\<lparr>s_journal := j\<rparr>) = world K s"
  by (rule world_cong) simp_all

lemma so_view_journal [simp]: "so_view K (s\<lparr>s_journal := j\<rparr>) obj = so_view K s obj"
  by (rule views_base(4)) simp

lemma object_at_journal [simp]: "object_at K (s\<lparr>s_journal := j\<rparr>) = object_at K s"
  by (rule object_at_cong) simp_all

lemma objects_ok_journal [simp]: "objects_ok K (s\<lparr>s_journal := j\<rparr>) = objects_ok K s"
  by (simp add: objects_ok_def)

lemma objects_ok_set: "objects_ok K s \<Longrightarrow> object_ok K (so_address obj) obj \<Longrightarrow> objects_ok K (sdb_setStateObject obj s)"
  by (auto simp: objects_ok_def)

lemma inv_objects [dest]: "sdb_inv K s \<Longrightarrow> objects_ok K s"
  by (simp add: sdb_inv_def)

lemma extends_unless: "(sdb_inv K s \<Longrightarrow> extends K s s') \<Longrightarrow> extends K s s'"
  by (cases "sdb_inv K s") (simp_all add: extends_def)

text \<open>One entry, one changed object.\<close>

lemma extends_object:
  assumes at: "object_at K s a = Some obj"
    and ok: "object_ok K a obj \<Longrightarrow> object_ok K a obj' \<and> (code_known K obj \<longrightarrow> code_known K obj') \<and> entry_ok K s e \<and>
      entry_undo K e ((world K s)\<lparr>w_accounts := (w_accounts (world K s))(a \<mapsto> so_view K s obj')\<rparr>) = Some (world K s)"
  shows "extends K s (sdb_setStateObject obj' (jappend e s))"
proof (rule extends_unless, rule extends_step)
  let ?s = "sdb_setStateObject obj' (jappend e s)"
  show "same_base s ?s" by (simp add: same_base_def)
  show "s_journal ?s = journal_append e (s_journal s)" by simp
  assume inv: "sdb_inv K s"
  then have o: "object_ok K a obj" using object_at_ok at by blast
  note ok' = ok [OF o]
  then have a': "so_address obj' = a" by (simp add: object_ok_def)
  from ok' have "entry_undo K e (world K ?s) = Some (world K s)" by (simp add: world_set a')
  moreover have "objects_ok K ?s" using inv ok' a' by (intro objects_ok_set) auto
  moreover have "loaded K s b \<Longrightarrow> loaded K ?s b" for b
    using at ok' by (auto simp: loaded_def object_at_set a')
  ultimately show "objects_ok K ?s \<and> al_ok (s_accessList ?s) \<and> entry_ok K s e \<and>
      (\<forall>a. loaded K s a \<longrightarrow> loaded K ?s a) \<and> entry_undo K e (world K ?s) = Some (world K s)"
    using ok' inv by (simp add: sdb_inv_def)
qed

text \<open>An entry that is undone by a function \<open>g\<close> of the account.\<close>

lemma extends_account:
  assumes at: "object_at K s a = Some obj" and e: "entry_undo K e = undo_account a g" "entry_ok K s e"
    and ok: "object_ok K a obj \<Longrightarrow> object_ok K a obj' \<and> (code_known K obj \<longrightarrow> code_known K obj') \<and>
      g (so_view K s obj') = so_view K s obj"
  shows "extends K s (sdb_setStateObject obj' (jappend e s))"
  using at
proof (rule extends_object)
  assume o: "object_ok K a obj"
  have "entry_undo K e ((world K s)\<lparr>w_accounts := (w_accounts (world K s))(a \<mapsto> so_view K s obj')\<rparr>) = Some (world K s)"
    using ok [OF o] by (auto simp: e(1) undo_account_def world_account at fun_upd_idem)
  then show "object_ok K a obj' \<and> (code_known K obj \<longrightarrow> code_known K obj') \<and> entry_ok K s e \<and>
      entry_undo K e ((world K s)\<lparr>w_accounts := (w_accounts (world K s))(a \<mapsto> so_view K s obj')\<rparr>) = Some (world K s)"
    using ok [OF o] e(2) by blast
qed

lemma account_eqI:
  "a_data x = a_data y \<Longrightarrow> a_code x = a_code y \<Longrightarrow> a_storage x = a_storage y \<Longrightarrow> a_committed x = a_committed y \<Longrightarrow>
   a_selfDestructed x = a_selfDestructed y \<Longrightarrow> a_newContract x = a_newContract y \<Longrightarrow> x = (y :: account)"
  by simp

lemmas account_eqIs = account_eqI committed_view_cong storage_view_cong

lemma entry_undo_eqs:
  "entry_undo K (balanceChange a u) = undo_account a (\<lambda>acc. acc\<lparr>a_data := (a_data acc)\<lparr>sa_Balance := u\<rparr>\<rparr>)"
  "entry_undo K (nonceChange a n) = undo_account a (\<lambda>acc. acc\<lparr>a_data := (a_data acc)\<lparr>sa_Nonce := n\<rparr>\<rparr>)"
  "entry_undo K (codeChange a c) =
     undo_account a (\<lambda>acc. acc\<lparr>a_data := (a_data acc)\<lparr>sa_CodeHash := hash_bytes (hash_of K c)\<rparr>, a_code := c\<rparr>)"
  "entry_undo K (storageChange a key v orig) =
     undo_account a (\<lambda>acc. acc\<lparr>a_storage := (a_storage acc)(key := if v = orig then a_committed acc key else v)\<rparr>)"
  "entry_undo K (createContractChange a) = undo_account a (\<lambda>acc. acc\<lparr>a_newContract := False\<rparr>)"
  by (rule ext, simp)+

text \<open>The setters of an object.\<close>

definition obj_extends :: "(bytes \<Rightarrow> bytes) \<Rightarrow> Address \<Rightarrow> 't stateObject \<Rightarrow> 't state_db \<Rightarrow> 't stateObject \<Rightarrow> 't state_db \<Rightarrow> bool" where
  "obj_extends K a obj s obj' s' \<longleftrightarrow>
     (map_of (s_stateObjects s) a = Some obj \<and> so_address obj = a \<longrightarrow> extends K s (sdb_setStateObject obj' s'))"

lemma SetBalance_extends:
  assumes "so_SetBalance amount obj s = (v, obj', s')"
  shows "obj_extends K a obj s obj' s'"
  unfolding obj_extends_def
proof (intro impI, elim conjE)
  assume live: "map_of (s_stateObjects s) a = Some obj" and a: "so_address obj = a"
  then have at: "object_at K s a = Some obj" by (simp add: object_at_def)
  from assms a have run: "obj' = so_setBalance amount obj"
    "s' = jappend (balanceChange a (sa_Balance (so_data obj))) s"
    by (auto simp: so_SetBalance_def Let_def)
  show "extends K s (sdb_setStateObject obj' s')" unfolding run
    by (rule extends_account [OF at entry_undo_eqs(1)])
       (auto simp: so_setBalance_def object_ok_def code_known_def code_view_def intro!: account_eqIs)
qed

lemma SetNonce_extends:
  assumes "so_SetNonce nonce obj s = (obj', s')"
  shows "obj_extends K a obj s obj' s'"
  unfolding obj_extends_def
proof (intro impI, elim conjE)
  assume live: "map_of (s_stateObjects s) a = Some obj" and a: "so_address obj = a"
  then have at: "object_at K s a = Some obj" by (simp add: object_at_def)
  from assms a have run: "obj' = so_setNonce nonce obj" "s' = jappend (nonceChange a (sa_Nonce (so_data obj))) s"
    by (auto simp: so_SetNonce_def)
  show "extends K s (sdb_setStateObject obj' s')" unfolding run
    by (rule extends_account [OF at entry_undo_eqs(2)])
       (auto simp: so_setNonce_def object_ok_def code_known_def code_view_def intro!: account_eqIs)
qed

lemma SetCode_extends:
  assumes "so_SetCode (hash_of K code) code obj s = (v, obj', s')" and known: "code_known K obj"
  shows "obj_extends K a obj s obj' s'"
  unfolding obj_extends_def
proof (intro impI, elim conjE)
  assume live: "map_of (s_stateObjects s) a = Some obj" and a: "so_address obj = a"
  then have at: "object_at K s a = Some obj" by (simp add: object_at_def)
  from assms a have run: "obj' = so_setCode (hash_of K code) code obj" "s' = jappend (codeChange a (so_code obj)) s"
    by (auto simp: so_SetCode_def Let_def)
  show "extends K s (sdb_setStateObject obj' s')" unfolding run
    by (rule extends_account [OF at entry_undo_eqs(3)])
       (use known in \<open>auto simp: so_setCode_def hash_ok_def object_ok_def code_known_def code_view_def intro!: account_eqIs\<close>)
qed

lemma obj_extends_reads:
  assumes "map_of (s_stateObjects s) a = Some obj \<and> so_address obj = a \<Longrightarrow> reads K s (sdb_setStateObject obj' s')"
  shows "obj_extends K a obj s obj' s'"
  using assms reads_extends by (auto simp: obj_extends_def)

lemma setStateObject_twice:
  "so_address x = so_address y \<Longrightarrow> sdb_setStateObject x (sdb_setStateObject y s) = sdb_setStateObject x s"
  by (simp add: sdb_setStateObject_def)

lemma so_setState_sels [simp]:
  "so_address (so_setState key v origin obj) = so_address obj" "so_data (so_setState key v origin obj) = so_data obj"
  "so_code (so_setState key v origin obj) = so_code obj"
  "selfDestructed (so_setState key v origin obj) = selfDestructed obj"
  "newContract (so_setState key v origin obj) = newContract obj"
  by (simp_all add: so_setState_def)

lemma SetState_extends:
  assumes "so_SetState key v obj s = (prev, obj', s')"
  shows "obj_extends K a obj s obj' s'"
  unfolding obj_extends_def
proof (intro impI, elim conjE)
  assume live: "map_of (s_stateObjects s) a = Some obj" and a: "so_address obj = a"
  then have at: "object_at K s a = Some obj" by (simp add: object_at_def)
  obtain origin obj1 s1 where get: "so_getState key obj s = ((prev, origin), obj1, s1)"
    using assms by (auto simp: so_SetState_def split: prod.splits if_splits)
  note spec = so_getState_spec [OF get]
  have a1: "so_address obj1 = a" using spec(4) a by (auto simp: obj_reads_def)
  have base: "same_base s s1" using spec(3) [of K] by (simp add: reads_def)
  have r: "reads K s (sdb_setStateObject obj1 s1)"
    by (rule reads_write_back [OF live a spec(3,5,4)])
  show "extends K s (sdb_setStateObject obj' s')"
  proof (cases "prev = v")
    case True
    with assms get r show ?thesis by (auto simp: so_SetState_def intro: reads_extends)
  next
    case False
    let ?s1 = "sdb_setStateObject obj1 s1"
    let ?e = "storageChange a key prev origin"
    have at1: "object_at K ?s1 a = Some obj1" by (simp add: object_at_set a1)
    have run: "sdb_setStateObject obj' s' = sdb_setStateObject (so_setState key v origin obj1) (jappend ?e ?s1)"
      using assms get False a1 by (auto simp: so_SetState_def so_setState_def sdb_setStateObject_def)
    have views: "storage_view s obj1 key = prev" "committed_view s obj1 key = origin"
      using spec(1,2,4) by (auto simp: obj_reads_def so_view_def)
    have "extends K ?s1 (sdb_setStateObject (so_setState key v origin obj1) (jappend ?e ?s1))"
    proof (rule extends_account [OF at1 entry_undo_eqs(4)])
      have c: "committed_view t (so_setState key v origin obj1) = committed_view t obj1" for t
        by (rule committed_view_cong) (simp_all add: so_setState_def)
      have "map_of (dirtyStorage (so_setState key v origin obj1)) k = map_of (dirtyStorage obj1) k" if "k \<noteq> key" for k
        using that by (simp add: so_setState_def update_conv' delete_conv')
      then have "storage_view ?s1 (so_setState key v origin obj1) k = storage_view ?s1 obj1 k" if "k \<noteq> key" for k
        using that by (simp add: storage_view_def c split: option.split)
      moreover have "(if prev = origin then committed_view ?s1 obj1 key else prev) = storage_view ?s1 obj1 key"
        using views views_base [OF same_base_trans [OF base same_base_setStateObject]] by simp
      ultimately have "(storage_view ?s1 (so_setState key v origin obj1))
          (key := if prev = origin then committed_view ?s1 obj1 key else prev) = storage_view ?s1 obj1"
        by (auto simp: fun_eq_iff)
      then show "object_ok K a (so_setState key v origin obj1) \<and>
          (code_known K obj1 \<longrightarrow> code_known K (so_setState key v origin obj1)) \<and>
          (so_view K ?s1 (so_setState key v origin obj1))
            \<lparr>a_storage := (a_storage (so_view K ?s1 (so_setState key v origin obj1)))(key :=
               if prev = origin then a_committed (so_view K ?s1 (so_setState key v origin obj1)) key else prev)\<rparr>
          = so_view K ?s1 obj1" if "object_ok K a obj1"
        using that by (auto simp: c object_ok_def code_known_def code_view_def intro!: account_eqI)
    qed simp
    with r run show ?thesis using extends_trans reads_extends by metis
  qed
qed

lemma object_at_None: "object_at K s a = None \<Longrightarrow> stored_object K s a = None \<and> map_of (s_stateObjects s) a = None"
  by (simp add: object_at_def split: option.splits)

lemma object_ok_new: "hash_ok K \<Longrightarrow> object_ok K a (newObject K a None)" "code_known K (newObject K a None)"
  by (simp_all add: object_ok_def code_known_def newObject_def NewEmptyStateAccount_def hash_ok_def)

lemma createObject_extends:
  assumes none: "object_at K s a = None" and run: "sdb_createObject K a s = (obj, s')"
  shows "extends K s s'" "map_of (s_stateObjects s') a = Some obj" "so_address obj = a" "code_known K obj"
proof -
  let ?e = "createObjectChange a"
  have s': "obj = newObject K a None" "s' = sdb_setStateObject (newObject K a None) (jappend ?e s)"
    using run by (auto simp: sdb_createObject_def Let_def)
  have "extends K s (sdb_setStateObject (newObject K a None) (jappend ?e s))" (is "extends K s ?s'")
  proof (rule extends_unless, rule extends_step)
    show "same_base s ?s'" by (simp add: same_base_def)
    show "s_journal ?s' = journal_append ?e (s_journal s)" by simp
    assume inv: "sdb_inv K s"
    have "hash_ok K" using inv by (simp add: sdb_inv_def objects_ok_def)
    then have "objects_ok K ?s'" using inv object_ok_new(1) by (intro objects_ok_set) auto
    moreover have "entry_undo K ?e (world K ?s') = Some (world K s)"
      using none by (auto simp: world_set world_account fun_upd_idem)
    ultimately show "objects_ok K ?s' \<and> al_ok (s_accessList ?s') \<and> entry_ok K s ?e \<and>
        (\<forall>b. loaded K s b \<longrightarrow> loaded K ?s' b) \<and> entry_undo K ?e (world K ?s') = Some (world K s)"
      using inv object_at_None [OF none] object_ok_new(2) by (auto simp: sdb_inv_def loaded_def object_at_set)
  qed
  with s' show "extends K s s'" "map_of (s_stateObjects s') a = Some obj" "so_address obj = a" "code_known K obj"
    by (simp_all add: object_ok_new)
qed

lemma getOrNewStateObject_spec:
  assumes "sdb_getOrNewStateObject K a s = (obj, s1)"
  shows "extends K s s1" "map_of (s_stateObjects s1) a = Some obj" "objects_ok K s \<Longrightarrow> so_address obj = a"
    "loaded K s a \<Longrightarrow> code_known K obj"
proof -
  obtain r s2 where r: "sdb_getStateObject K a s = (r, s2)" by fastforce
  note get = getStateObject_spec [OF r]
  show "extends K s s1" "map_of (s_stateObjects s1) a = Some obj" "objects_ok K s \<Longrightarrow> so_address obj = a"
    "loaded K s a \<Longrightarrow> code_known K obj"
  proof -
    have "extends K s s1 \<and> map_of (s_stateObjects s1) a = Some obj \<and> (objects_ok K s \<longrightarrow> so_address obj = a) \<and>
        (loaded K s a \<longrightarrow> code_known K obj)"
    proof (cases r)
      case None
      have "w_accounts (world K s2) a = None" using get(1,2) None by (simp add: reads_def world_account)
      then have "object_at K s2 a = None" by (simp add: world_account)
      with assms r None have "sdb_createObject K a s2 = (obj, s1)" by (simp add: sdb_getOrNewStateObject_def)
      note new = createObject_extends [OF \<open>object_at K s2 a = None\<close> this]
      then show ?thesis using extends_trans [OF reads_extends [OF get(2)]] by blast
    next
      case (Some obj')
      with assms r have o: "obj' = obj" "s2 = s1" by (simp_all add: sdb_getOrNewStateObject_def)
      have at: "object_at K s a = Some obj" using get(1) Some o by simp
      have "objects_ok K s \<Longrightarrow> so_address obj = a" using object_at_ok [OF _ at] by (simp add: object_ok_def)
      moreover have "loaded K s a \<Longrightarrow> code_known K obj" using at by (simp add: loaded_def)
      ultimately show ?thesis using reads_extends [OF get(2)] get(3) [of obj'] Some o by auto
    qed
    then show "extends K s s1" "map_of (s_stateObjects s1) a = Some obj" "objects_ok K s \<Longrightarrow> so_address obj = a"
      "loaded K s a \<Longrightarrow> code_known K obj" by simp_all
  qed
qed

lemma modify_extends:
  assumes "\<And>obj s1 v obj' s2. f obj s1 = (v, obj', s2) \<Longrightarrow> (loaded K s a \<Longrightarrow> code_known K obj) \<Longrightarrow>
      obj_extends K a obj s1 obj' s2"
  shows "extends K s (snd (modify K a f s))"
proof (rule extends_unless)
  assume inv: "sdb_inv K s"
  obtain obj s1 where new: "sdb_getOrNewStateObject K a s = (obj, s1)" by fastforce
  note spec = getOrNewStateObject_spec [OF new]
  obtain v obj' s2 where run: "f obj s1 = (v, obj', s2)" by (cases "f obj s1") auto
  have "extends K s1 (sdb_setStateObject obj' s2)"
    using assms [OF run spec(4)] spec(2,3) inv by (auto simp: obj_extends_def)
  with spec(1) show "extends K s (snd (modify K a f s))"
    using new run extends_trans by (auto simp: modify_def)
qed

lemma touch_extends: "extends K s (so_touch obj s)"
  unfolding extends_def
proof (intro impI conjI exI [of _ "[touchChange (so_address obj)]"] exI [of _ "[]"])
  assume inv: "sdb_inv K s"
  then show "sdb_inv K (so_touch obj s)" by (simp add: sdb_inv_def so_touch_def journal_ok_touch)
  show "\<forall>a. loaded K s a \<longrightarrow> loaded K (so_touch obj s) a" by (simp add: so_touch_def loaded_def)
qed (simp_all add: so_touch_def)

lemma reads_rewrite:
  assumes "map_of (s_stateObjects s) (so_address obj) = Some obj"
  shows "reads K s (sdb_setStateObject obj s)"
  using assms by (intro reads_set [where old = obj]) (auto simp: object_at_def intro: object_at_ok)

lemma AddBalance_extends: "extends K s (snd (sdb_AddBalance K a amount s))"
  unfolding sdb_AddBalance_def
proof (rule modify_extends)
  fix obj s1 v obj' s2
  assume run: "so_AddBalance K amount obj s1 = (v, obj', s2)"
  show "obj_extends K a obj s1 obj' s2"
  proof (cases "amount = 0")
    case False
    with run SetBalance_extends show ?thesis by (auto simp: so_AddBalance_def)
  next
    case True
    with run have o: "obj' = obj" and s2: "s2 = (if so_empty K obj then so_touch obj s1 else s1)"
      by (auto simp: so_AddBalance_def)
    have "extends K s1 (sdb_setStateObject obj s2)"
      if "map_of (s_stateObjects s1) a = Some obj" "so_address obj = a"
    proof -
      have "extends K s1 s2" by (simp add: s2 touch_extends extends_refl)
      moreover have "reads K s2 (sdb_setStateObject obj s2)"
        using that s2 by (intro reads_rewrite) (simp add: so_touch_def)
      ultimately show ?thesis using extends_trans reads_extends by blast
    qed
    with o show ?thesis by (simp add: obj_extends_def)
  qed
qed

lemma SubBalance_extends: "extends K s (snd (sdb_SubBalance K a amount s))"
  unfolding sdb_SubBalance_def
  by (rule modify_extends)
     (auto simp: obj_extends_def intro: reads_extends reads_rewrite
       dest: SetBalance_extends [unfolded obj_extends_def] split: if_splits)

lemma SetBalance_db_extends: "extends K s (sdb_SetBalance K a amount s)"
  unfolding sdb_SetBalance_def by (rule modify_extends) (rule SetBalance_extends)

lemma SetNonce_db_extends: "extends K s (sdb_SetNonce K a nonce s)"
  unfolding sdb_SetNonce_def by (rule modify_extends) (auto dest: SetNonce_extends split: prod.splits)

lemma SetState_db_extends: "extends K s (snd (sdb_SetState K a key v s))"
  unfolding sdb_SetState_def by (rule modify_extends) (rule SetState_extends)

lemma SetCode_db_extends: "loaded K s a \<Longrightarrow> extends K s (snd (sdb_SetCode K a code s))"
  unfolding sdb_SetCode_def by (rule modify_extends) (auto intro: SetCode_extends)

lemma SelfDestruct_extends: "extends K s (sdb_SelfDestruct K a s)"
proof (rule extends_unless)
  assume inv: "sdb_inv K s"
  obtain r s1 where r: "sdb_getStateObject K a s = (r, s1)" by fastforce
  note get = getStateObject_spec [OF r]
  show "extends K s (sdb_SelfDestruct K a s)"
  proof (cases r)
    case None
    with r get show ?thesis by (simp add: sdb_SelfDestruct_def reads_extends)
  next
    case (Some obj)
    have at: "object_at K s1 a = Some obj" using get(3) [OF Some] by (simp add: object_at_def)
    let ?s2 = "sdb_setStateObject (so_markSelfdestructed obj) (jappend (selfDestructChange a) s1)"
    have "extends K s1 ?s2" if "\<not> selfDestructed obj"
    proof (rule extends_object [OF at])
      have "so_view K s1 (so_markSelfdestructed obj) = (so_view K s1 obj)\<lparr>a_selfDestructed := True\<rparr>"
        by (auto simp: so_markSelfdestructed_def code_view_def intro!: account_eqIs)
      then show "object_ok K a (so_markSelfdestructed obj) \<and>
          (code_known K obj \<longrightarrow> code_known K (so_markSelfdestructed obj)) \<and> entry_ok K s1 (selfDestructChange a) \<and>
          entry_undo K (selfDestructChange a)
            ((world K s1)\<lparr>w_accounts := (w_accounts (world K s1))(a \<mapsto> so_view K s1 (so_markSelfdestructed obj))\<rparr>)
          = Some (world K s1)" if "object_ok K a obj"
        using that at \<open>\<not> selfDestructed obj\<close>
        by (auto simp: so_markSelfdestructed_def object_ok_def code_known_def world_account fun_upd_idem
            intro!: arg_cong [where f = "\<lambda>acc. w\<lparr>w_accounts := acc\<rparr>" for w] fun_upd_idem account_eqI)
    qed
    with r Some get(2) show ?thesis
      by (auto simp: sdb_SelfDestruct_def intro: reads_extends extends_trans)
  qed
qed

lemma CreateContract_extends:
  assumes "sdb_CreateContract K a s = Some s'"
  shows "extends K s s'"
proof -
  obtain obj s1 where r: "sdb_getStateObject K a s = (Some obj, s1)"
    using assms by (auto simp: sdb_CreateContract_def split: prod.splits option.splits)
  note get = getStateObject_spec [OF r]
  let ?obj = "obj\<lparr>newContract := True\<rparr>"
  have at: "object_at K s1 a = Some obj" using get(3) [OF refl] by (simp add: object_at_def)
  have "extends K s1 (sdb_setStateObject ?obj (jappend (createContractChange a) s1))" if "\<not> newContract obj"
    by (rule extends_account [OF at entry_undo_eqs(5)])
       (use that in \<open>auto simp: object_ok_def code_known_def code_view_def intro!: account_eqIs\<close>)
  moreover have "jappend (createContractChange a) (sdb_setStateObject ?obj s1) =
      sdb_setStateObject ?obj (jappend (createContractChange a) s1)"
    by (simp add: sdb_setStateObject_def)
  ultimately show ?thesis using assms r get(2)
    by (auto simp: sdb_CreateContract_def intro: reads_extends extends_trans split: if_splits)
qed

lemma CreateContract_exists:
  assumes "object_at K s a \<noteq> None"
  shows "\<exists>s'. sdb_CreateContract K a s = Some s'"
proof -
  obtain r s1 where r: "sdb_getStateObject K a s = (r, s1)" by fastforce
  with getStateObject_spec(1) [OF r] assms show ?thesis by (auto simp: sdb_CreateContract_def)
qed

lemma CreateAccount_extends: "object_at K s a = None \<Longrightarrow> extends K s (sdb_CreateAccount K a s)"
  using createObject_extends(1) [of K s a] by (cases "sdb_createObject K a s") (simp add: sdb_CreateAccount_def)

text \<open>A step that changes no object.\<close>

lemma extends_simple:
  assumes base: "same_base s s'" and j: "s_journal s' = journal_append e (s_journal s)"
    and objs: "s_stateObjects s' = s_stateObjects s" and e: "entry_ok K s e"
    and ok: "sdb_inv K s \<Longrightarrow> (\<forall>h. map_of (s_logs s') h \<noteq> Some []) \<and> al_ok (s_accessList s') \<and>
      entry_undo K e (world K s') = Some (world K s)"
  shows "extends K s s'"
  using base j
proof (rule extends_step)
  assume inv: "sdb_inv K s"
  then have "objects_ok K s'" using ok [OF inv] objs base by (auto simp: objects_ok_def same_base_def sdb_inv_def)
  then show "objects_ok K s' \<and> al_ok (s_accessList s') \<and> entry_ok K s e \<and>
      (\<forall>a. loaded K s a \<longrightarrow> loaded K s' a) \<and> entry_undo K e (world K s') = Some (world K s)"
    using ok [OF inv] e object_at_cong [OF base objs] by (simp add: loaded_def)
qed

text \<open>The parts of the world an update of the database leaves alone.\<close>

lemma accounts_cong:
  assumes "same_base s s'" "s_stateObjects s' = s_stateObjects s"
  shows "w_accounts (world K s') = w_accounts (world K s)"
proof -
  have "so_view K s' = so_view K s" by (intro ext views_base(4) assms(1))
  then show ?thesis by (simp add: world_def object_at_cong [OF assms])
qed

lemma world_eqI:
  "w_accounts w = w_accounts w' \<Longrightarrow> w_refund w = w_refund w' \<Longrightarrow> w_logs w = w_logs w' \<Longrightarrow> w_logSize w = w_logSize w' \<Longrightarrow>
   w_transient w = w_transient w' \<Longrightarrow> w_access w = w_access w' \<Longrightarrow> w = (w' :: world)"
  by simp

lemma world_sels [simp]:
  "w_refund (world K s) = s_refund s" "w_logs (world K s) = logs_at s" "w_logSize (world K s) = s_logSize s"
  "w_transient (world K s) = ts_Get (s_transientStorage s)" "w_access (world K s) = al_view (s_accessList s)"
  by (simp_all add: world_def)

lemma AddRefund_extends: "extends K s (sdb_AddRefund gas s)"
  by (rule extends_simple [where e = "refundChange (s_refund s)"])
     (auto simp: sdb_AddRefund_def Let_def same_base_def sdb_inv_def objects_ok_def logs_at_def [abs_def]
       intro!: world_eqI accounts_cong)

lemma SubRefund_extends: "sdb_SubRefund gas s = Some s' \<Longrightarrow> extends K s s'"
  by (rule extends_simple [where e = "refundChange (s_refund s)"])
     (auto simp: sdb_SubRefund_def Let_def same_base_def sdb_inv_def objects_ok_def logs_at_def [abs_def]
       intro!: world_eqI accounts_cong split: if_splits)

lemma SetTransientState_extends: "extends K s (sdb_SetTransientState a k v s)"
proof (cases "sdb_GetTransientState s a k = v")
  case True
  then show ?thesis by (simp add: sdb_SetTransientState_def extends_refl)
next
  case False
  let ?prev = "sdb_GetTransientState s a k"
  let ?s = "sdb_setTransientState a k v (jappend (transientStorageChange a k ?prev) s)"
  have "extends K s ?s"
    by (rule extends_simple [where e = "transientStorageChange a k ?prev"])
       (auto simp: sdb_setTransientState_def sdb_GetTransientState_def same_base_def sdb_inv_def objects_ok_def
         logs_at_def [abs_def] ts_Get_Set fun_eq_iff intro!: world_eqI accounts_cong [THEN fun_cong])
  with False show ?thesis by (simp add: sdb_SetTransientState_def Let_def)
qed

lemma AddLog_extends: "extends K s (sdb_AddLog log s)"
  by (rule extends_simple [where e = "addLogChange (s_thash s)"])
     (auto simp: sdb_AddLog_def Let_def same_base_def sdb_inv_def objects_ok_def logs_at_def [abs_def] update_conv'
       fun_eq_iff intro!: world_eqI accounts_cong [THEN fun_cong] split: option.splits)

lemma AddPreimage_extends: "extends K s (sdb_AddPreimage h d s)"
  by (rule reads_extends, rule reads_cong) (simp_all add: sdb_AddPreimage_def same_base_def)

lemma access_step:
  assumes "al_ok (s_accessList s) \<Longrightarrow> al_ok al" "entry_ok K s e"
    and "\<And>w. w_access w = al_view al \<Longrightarrow>
      entry_undo K e w = Some (w\<lparr>w_access := al_view (s_accessList s)\<rparr>)"
  shows "extends K s (jappend e (s\<lparr>s_accessList := al\<rparr>))"
proof (rule extends_simple)
  let ?s = "jappend e (s\<lparr>s_accessList := al\<rparr>)"
  show "same_base s ?s" by (simp add: same_base_def)
  show "s_journal ?s = journal_append e (s_journal s)" "s_stateObjects ?s = s_stateObjects s" by simp_all
  show "entry_ok K s e" by fact
  have "entry_undo K e (world K ?s) = Some ((world K ?s)\<lparr>w_access := al_view (s_accessList s)\<rparr>)"
    by (rule assms(3)) simp
  moreover have "(world K ?s)\<lparr>w_access := al_view (s_accessList s)\<rparr> = world K s"
    by (auto simp: same_base_def logs_at_def [abs_def] intro!: world_eqI accounts_cong)
  ultimately show "(\<forall>h. map_of (s_logs ?s) h \<noteq> Some []) \<and> al_ok (s_accessList ?s) \<and>
      entry_undo K e (world K ?s) = Some (world K s)" if "sdb_inv K s"
    using that assms(1) by (simp add: sdb_inv_def objects_ok_def)
qed

lemma AddAddress_extends: "extends K s (sdb_AddAddressToAccessList a s)"
proof -
  obtain new al where add: "al_AddAddress a (s_accessList s) = (new, al)" by fastforce
  note view = al_AddAddress_view [OF add]
  show ?thesis
  proof (cases new)
    case True
    have "extends K s (jappend (accessListAddAccountChange a) (s\<lparr>s_accessList := al\<rparr>))"
    proof (rule access_step)
      show "al_ok (s_accessList s) \<Longrightarrow> al_ok al" using al_ok_AddAddress [of "s_accessList s" a] add by simp
      show "entry_undo K (accessListAddAccountChange a) w = Some (w\<lparr>w_access := al_view (s_accessList s)\<rparr>)"
        if "w_access w = al_view al" for w
        using view that True by (auto simp: al_view_def fun_upd_idem)
    qed simp
    with add True show ?thesis by (simp add: sdb_AddAddressToAccessList_def)
  next
    case False
    then have "al = s_accessList s" using add by (auto simp: al_AddAddress_def split: if_splits)
    with add False show ?thesis by (simp add: sdb_AddAddressToAccessList_def extends_refl)
  qed
qed

text \<open>Adding a slot to an address without slots appends a set, and cutting the list there undoes it.\<close>

lemma fresh_slot_undo:
  assumes "w_access w = ((fst v)(a \<mapsto> int (length (snd v))), snd v @ [{k}])" "fst v a = Some (-1)"
  shows "entry_undo K (accessListAddSlotChange a k) w = Some (w\<lparr>w_access := v\<rparr>)"
  using assms by (auto simp: view_DeleteSlot_def fun_upd_idem)

lemma more_slot_undo:
  assumes "w_access w = (fst v, (snd v)[nat idx := insert k (snd v ! nat idx)])" "fst v a = Some idx"
    "0 \<le> idx" "nat idx < length (snd v)" "k \<notin> snd v ! nat idx" "snd v ! nat idx \<noteq> {}"
  shows "entry_undo K (accessListAddSlotChange a k) w = Some (w\<lparr>w_access := v\<rparr>)"
  using assms by (auto simp: view_DeleteSlot_def)

lemma AddSlot_extends:
  assumes "sdb_AddSlotToAccessList a k s = Some s'"
  shows "extends K s s'"
proof (rule extends_unless)
  assume inv: "sdb_inv K s"
  then have ok: "al_ok (s_accessList s)" by (simp add: sdb_inv_def)
  let ?al = "s_accessList s"
  obtain am sm al where add: "al_AddSlot a k ?al = Some ((am, sm), al)"
    using assms by (auto simp: sdb_AddSlotToAccessList_def split: option.splits)
  have al: "al_ok al" using al_ok_AddSlot [OF ok, of a k] add by auto
  let ?fresh = "?al\<lparr>al_addresses := AList.update a (int (length (al_slots ?al))) (al_addresses ?al),
                    al_slots := al_slots ?al @ [{k}]\<rparr>"
  have fresh: "al_view ?fresh = ((map_of (al_addresses ?al))(a \<mapsto> int (length (al_slots ?al))), al_slots ?al @ [{k}])"
    by (simp add: al_view_def update_conv')
  consider (no) "map_of (al_addresses ?al) a = None" "am" "sm" "al = ?fresh"
    | (none) "map_of (al_addresses ?al) a = Some (-1)" "\<not> am" "sm" "al = ?fresh"
    | (old) idx where "map_of (al_addresses ?al) a = Some idx" "0 \<le> idx" "nat idx < length (al_slots ?al)"
        "\<not> am" "sm" "k \<notin> al_slots ?al ! nat idx"
        "al = ?al\<lparr>al_slots := (al_slots ?al)[nat idx := insert k (al_slots ?al ! nat idx)]\<rparr>"
    | (same) "\<not> am" "\<not> sm" "al = ?al"
    using add by (auto simp: al_AddSlot_def Let_def split: option.splits if_splits)
  then show "extends K s s'"
  proof cases
    case no
    let ?al1 = "?al\<lparr>al_addresses := AList.update a (-1) (al_addresses ?al)\<rparr>"
    let ?s1 = "jappend (accessListAddAccountChange a) (s\<lparr>s_accessList := ?al1\<rparr>)"
    have add1: "al_AddAddress a ?al = (True, ?al1)" using no(1) by (simp add: al_AddAddress_def)
    have s1: "extends K s ?s1"
      using AddAddress_extends [of K s a] add1 by (simp add: sdb_AddAddressToAccessList_def)
    have "extends K ?s1 (jappend (accessListAddSlotChange a k) (?s1\<lparr>s_accessList := al\<rparr>))"
    proof (rule access_step)
      show "entry_undo K (accessListAddSlotChange a k) w = Some (w\<lparr>w_access := al_view (s_accessList ?s1)\<rparr>)"
        if "w_access w = al_view al" for w
        using that no(4) fresh
        by (intro fresh_slot_undo) (simp_all add: al_view_def update_conv')
    qed (use al in simp_all)
    with s1 have "extends K s (jappend (accessListAddSlotChange a k) (?s1\<lparr>s_accessList := al\<rparr>))"
      by (rule extends_trans)
    with assms add no(2,3) show ?thesis by (simp add: sdb_AddSlotToAccessList_def)
  next
    case none
    have "extends K s (jappend (accessListAddSlotChange a k) (s\<lparr>s_accessList := al\<rparr>))"
    proof (rule access_step)
      show "entry_undo K (accessListAddSlotChange a k) w = Some (w\<lparr>w_access := al_view ?al\<rparr>)"
        if "w_access w = al_view al" for w
        using that none fresh by (intro fresh_slot_undo) (simp_all add: al_view_def)
    qed (use al in simp_all)
    with assms add none show ?thesis by (simp add: sdb_AddSlotToAccessList_def)
  next
    case (old idx)
    have ne: "al_slots ?al ! nat idx \<noteq> {}" using ok old(3) by (metis al_ok_def nth_mem)
    have "extends K s (jappend (accessListAddSlotChange a k) (s\<lparr>s_accessList := al\<rparr>))"
    proof (rule access_step)
      show "entry_undo K (accessListAddSlotChange a k) w = Some (w\<lparr>w_access := al_view ?al\<rparr>)"
        if "w_access w = al_view al" for w
        using that old ne by (intro more_slot_undo [where idx = idx]) (simp_all add: al_view_def)
    qed (use al in simp_all)
    with assms add old(4,5) show ?thesis by (simp add: sdb_AddSlotToAccessList_def)
  next
    case same
    with assms add show ?thesis by (simp add: sdb_AddSlotToAccessList_def extends_refl)
  qed
qed

lemma AddSlot_total:
  assumes "sdb_inv K s"
  shows "\<exists>s'. sdb_AddSlotToAccessList a k s = Some s'"
  using al_ok_AddSlot [of "s_accessList s" a k] assms
  by (auto simp: sdb_AddSlotToAccessList_def sdb_inv_def Let_def)

section \<open>Undoing entries\<close>

text \<open>What reverting an entry does to the database, against what undoing it does to the world.\<close>

definition undoes :: "(bytes \<Rightarrow> bytes) \<Rightarrow> 't state_db \<Rightarrow> world option \<Rightarrow> 't state_db option \<Rightarrow> bool" where
  "undoes K s w r \<longleftrightarrow>
     (case r of
        None \<Rightarrow> w = None
      | Some s' \<Rightarrow> w = Some (world K s') \<and> same_base s s' \<and> s_journal s' = s_journal s \<and>
          (objects_ok K s \<longrightarrow> objects_ok K s') \<and> (\<forall>a. loaded K s a \<longrightarrow> loaded K s' a))"

lemma reads_undoes: "reads K s s' \<Longrightarrow> undoes K s (Some (world K s)) (Some s')"
  by (simp add: undoes_def reads_def)

lemma on_object_undoes:
  assumes inv: "objects_ok K s"
    and h: "\<And>obj. object_ok K a obj \<Longrightarrow> object_ok K a (h obj) \<and> (code_known K obj \<longrightarrow> code_known K (h obj)) \<and>
      so_view K s (h obj) = g (so_view K s obj)"
  shows "undoes K s (undo_account a g (world K s)) (on_object K a h s)"
proof -
  obtain r s1 where r: "sdb_getStateObject K a s = (r, s1)" by fastforce
  note get = getStateObject_spec [OF r]
  show ?thesis
  proof (cases r)
    case None
    with r get(1) show ?thesis by (simp add: undoes_def on_object_def undo_account_def world_account)
  next
    case (Some obj)
    have at: "object_at K s a = Some obj" using get(1) Some by simp
    note h' = h [OF object_at_ok [OF inv at]]
    then have a: "so_address (h obj) = a" by (simp add: object_ok_def)
    have base: "same_base s s1" and w: "world K s1 = world K s" using get(2) by (simp_all add: reads_def)
    have "loaded K s b \<Longrightarrow> loaded K (sdb_setStateObject (h obj) s1) b" for b
      using get(2) at h' by (auto simp: loaded_def object_at_set a reads_def)
    moreover have "objects_ok K (sdb_setStateObject (h obj) s1)"
      using get(2) inv h' a by (intro objects_ok_set) (auto simp: reads_def)
    ultimately show ?thesis
      using Some r at h' base w get(2) same_base_trans [OF base same_base_setStateObject]
      by (simp add: undoes_def on_object_def undo_account_def world_account world_set a views_base(4) [OF base] reads_def)
  qed
qed

lemma selfDestruct_undoes:
  assumes "objects_ok K s"
  shows "undoes K s (entry_undo K (selfDestructChange a) (world K s)) (entry_revert K (selfDestructChange a) s)"
proof -
  let ?h = "\<lambda>obj :: 'a stateObject. obj\<lparr>selfDestructed := False\<rparr>"
  obtain r s1 where r: "sdb_getStateObject K a s = (r, s1)" by fastforce
  note get = getStateObject_spec [OF r]
  have "undoes K s (undo_account a (\<lambda>acc. acc\<lparr>a_selfDestructed := False\<rparr>) (world K s)) (on_object K a ?h s)"
    by (rule on_object_undoes [OF assms])
       (auto simp: object_ok_def code_known_def code_view_def intro!: account_eqIs)
  then show ?thesis
  proof (cases r)
    case None
    then have "w_accounts (world K s) a = None" using get(1) by (simp add: world_account)
    then have "entry_undo K (selfDestructChange a) (world K s) = Some (world K s)"
      by (simp add: fun_upd_idem)
    with None r reads_undoes [OF get(2)] show ?thesis by simp
  next
    case (Some obj)
    then have at: "object_at K s a = Some obj" using get(1) by simp
    assume "undoes K s (undo_account a (\<lambda>acc. acc\<lparr>a_selfDestructed := False\<rparr>) (world K s)) (on_object K a ?h s)"
    with Some r at show ?thesis by (simp add: on_object_def undo_account_def world_account)
  qed
qed

lemma simple_undoes:
  assumes "same_base s s'" "s_journal s' = s_journal s" "s_stateObjects s' = s_stateObjects s"
    "(\<forall>h. map_of (s_logs s) h \<noteq> Some []) \<Longrightarrow> (\<forall>h. map_of (s_logs s') h \<noteq> Some [])" "w = Some (world K s')"
  shows "undoes K s w (Some s')"
  using assms object_at_cong [OF assms(1,3)]
  by (auto simp: undoes_def objects_ok_def same_base_def loaded_def)

lemma object_at_delete:
  "object_at K (s\<lparr>s_stateObjects := AList.delete a (s_stateObjects s)\<rparr>) = (object_at K s)(a := stored_object K s a)"
proof -
  have "stored_object K (s\<lparr>s_stateObjects := AList.delete a (s_stateObjects s)\<rparr>) = stored_object K s"
    by (rule stored_object_base) (simp add: same_base_def)
  then show ?thesis by (auto simp: object_at_def fun_eq_iff delete_conv' split: option.split)
qed

lemma create_undoes:
  assumes "stored_object K s a = None"
  shows "undoes K s (entry_undo K (createObjectChange a) (world K s)) (entry_revert K (createObjectChange a) s)"
proof -
  let ?s = "s\<lparr>s_stateObjects := AList.delete a (s_stateObjects s)\<rparr>"
  have base: "same_base s ?s" by (simp add: same_base_def)
  have v: "so_view K ?s = so_view K s" by (intro ext views_base(4) base)
  have "world K ?s = (world K s)\<lparr>w_accounts := (w_accounts (world K s))(a := None)\<rparr>"
    using assms by (intro world_eqI) (auto simp: world_account object_at_delete v logs_at_def fun_eq_iff)
  moreover have "objects_ok K s \<Longrightarrow> objects_ok K ?s" by (auto simp: objects_ok_def delete_conv' split: if_splits)
  moreover have "loaded K s b \<Longrightarrow> loaded K ?s b" for b
    using assms by (auto simp: loaded_def object_at_delete)
  ultimately show ?thesis using base by (simp add: undoes_def)
qed

lemma entry_revert_undoes:
  assumes inv: "objects_ok K s" and e: "entry_ok K s e"
  shows "undoes K s (entry_undo K e (world K s)) (entry_revert K e s)"
proof (cases e)
  case (createObjectChange a)
  with e create_undoes show ?thesis by simp
next
  case (selfDestructChange a)
  with selfDestruct_undoes [OF inv] show ?thesis by simp
next
  case (touchChange a)
  with reads_undoes [OF reads_refl] show ?thesis by simp
next
  case (createContractChange a)
  show ?thesis unfolding createContractChange entry_revert.simps entry_undo.simps
    by (rule on_object_undoes [OF inv]) (auto simp: object_ok_def code_known_def code_view_def intro!: account_eqIs)
next
  case (balanceChange a u)
  show ?thesis unfolding balanceChange entry_revert.simps entry_undo.simps
    by (rule on_object_undoes [OF inv])
       (auto simp: so_setBalance_def object_ok_def code_known_def code_view_def intro!: account_eqIs)
next
  case (nonceChange a n)
  show ?thesis unfolding nonceChange entry_revert.simps entry_undo.simps
    by (rule on_object_undoes [OF inv])
       (auto simp: so_setNonce_def object_ok_def code_known_def code_view_def intro!: account_eqIs)
next
  case (codeChange a c)
  show ?thesis unfolding codeChange entry_revert.simps entry_undo.simps
    by (rule on_object_undoes [OF inv])
       (auto simp: so_setCode_def hash_ok_def object_ok_def code_known_def code_view_def intro!: account_eqIs)
next
  case (storageChange a key v orig)
  have c: "committed_view s (so_setState key v orig obj) = committed_view s obj" for obj
    by (rule committed_view_cong) (simp_all add: so_setState_def)
  have t: "storage_view s (so_setState key v orig obj) =
      (storage_view s obj)(key := if v = orig then committed_view s obj key else v)" for obj
    using c [of obj]
    by (auto simp: fun_eq_iff storage_view_def so_setState_def update_conv' delete_conv' split: option.split)
  show ?thesis unfolding storageChange entry_revert.simps entry_undo.simps
    by (rule on_object_undoes [OF inv])
       (auto simp: object_ok_def code_known_def code_view_def c t intro!: account_eqI)
next
  case (refundChange r)
  then show ?thesis
    by (auto intro!: simple_undoes world_eqI accounts_cong [symmetric] simp: same_base_def logs_at_def [abs_def])
next
  case (transientStorageChange a k v)
  then show ?thesis
    by (auto intro!: simple_undoes world_eqI accounts_cong [symmetric]
        simp: same_base_def logs_at_def [abs_def] sdb_setTransientState_def ts_Get_Set)
next
  case (accessListAddAccountChange a)
  then show ?thesis
    by (auto intro!: simple_undoes world_eqI accounts_cong [symmetric]
        simp: same_base_def logs_at_def [abs_def] al_view_def al_DeleteAddress_def delete_conv')
next
  case (accessListAddSlotChange a k)
  have "view_DeleteSlot a k (al_view (s_accessList s)) = map_option al_view (al_DeleteSlot a k (s_accessList s))"
    by (auto simp: view_DeleteSlot_def al_DeleteSlot_def al_view_def Let_def update_conv' fun_eq_iff split: option.splits)
  with accessListAddSlotChange show ?thesis
    by (cases "al_DeleteSlot a k (s_accessList s)")
       (auto simp: undoes_def [of K s _ None] same_base_def logs_at_def [abs_def]
          intro!: simple_undoes world_eqI accounts_cong [symmetric])
next
  case (addLogChange h)
  let ?ls = "logs_at s h"
  let ?set = "\<lambda>l. s\<lparr>s_logs := l, s_logSize := s_logSize s - 1\<rparr>"
  have revert: "entry_revert K (addLogChange h) s =
      (if length ?ls = 1 then Some (?set (AList.delete h (s_logs s)))
       else if ?ls = [] then None else Some (?set (AList.update h (butlast ?ls) (s_logs s))))"
    by (simp add: logs_at_def Let_def)
  have undo: "undoes K s (Some ((world K s)\<lparr>w_logs := (logs_at s)(h := butlast ?ls), w_logSize := s_logSize s - 1\<rparr>))
      (Some (?set l))"
    if "logs_at (?set l) = (logs_at s)(h := butlast ?ls)"
      "(\<forall>h. map_of (s_logs s) h \<noteq> Some []) \<longrightarrow> (\<forall>h. map_of l h \<noteq> Some [])" for l
    using that by (auto intro!: simple_undoes world_eqI accounts_cong [symmetric] simp: same_base_def)
  consider "?ls = []" | "length ?ls = 1" | "butlast ?ls \<noteq> []" "length ?ls \<noteq> 1" "?ls \<noteq> []"
    by (cases ?ls rule: rev_cases) (auto simp: length_Suc_conv)
  then show ?thesis
  proof cases
    case 1
    then show ?thesis using revert by (simp add: addLogChange undoes_def)
  next
    case 2
    then have "butlast ?ls = []" "?ls \<noteq> []" by (auto simp: length_Suc_conv)
    with 2 revert undo [of "AList.delete h (s_logs s)"] show ?thesis
      by (simp add: addLogChange) (auto simp: logs_at_def delete_conv' fun_eq_iff)
  next
    case 3
    with revert undo [of "AList.update h (butlast ?ls) (s_logs s)"] show ?thesis
      by (simp add: addLogChange) (auto simp: logs_at_def update_conv' fun_eq_iff)
  qed
qed

section \<open>Snapshots\<close>

lemma revert_entries_undoes:
  assumes "objects_ok K s" "list_all (entry_ok K s) es" "undo_all K es (world K s) = Some w"
    "dirties_ok (j_dirties (s_journal s)) (pre @ rev es)"
  shows "\<exists>s'. revert_entries K es s = Some s' \<and> world K s' = w \<and> same_base s s' \<and> objects_ok K s' \<and>
    (\<forall>a. loaded K s a \<longrightarrow> loaded K s' a) \<and> j_entries (s_journal s') = j_entries (s_journal s) \<and>
    j_validRevisions (s_journal s') = j_validRevisions (s_journal s) \<and>
    j_nextRevisionId (s_journal s') = j_nextRevisionId (s_journal s) \<and> dirties_ok (j_dirties (s_journal s')) pre"
  using assms
proof (induction es arbitrary: s)
  case Nil
  then show ?case by simp
next
  case (Cons e es)
  from Cons.prems have e: "entry_ok K s e" "list_all (entry_ok K s) es" by simp_all
  obtain w1 where w1: "entry_undo K e (world K s) = Some w1" "undo_all K es w1 = Some w"
    using Cons.prems(3) by (auto split: option.splits)
  obtain s1 where s1: "entry_revert K e s = Some s1" "w1 = world K s1" "same_base s s1" "s_journal s1 = s_journal s"
    "objects_ok K s1" "\<forall>a. loaded K s a \<longrightarrow> loaded K s1 a"
    using entry_revert_undoes [OF Cons.prems(1) e(1)] w1(1) Cons.prems(1)
    by (auto simp: undoes_def split: option.splits)
  define s2 where "s2 = (case entry_dirtied e of None \<Rightarrow> s1 | Some addr \<Rightarrow> s1\<lparr>s_journal := undirty addr (s_journal s1)\<rparr>)"
  have last: "revert_last K e s = Some s2" using s1(1) by (simp add: revert_last_def s2_def)
  have base2: "same_base s1 s2" by (simp add: s2_def split: option.split)
  have j2: "j_entries (s_journal s2) = j_entries (s_journal s)"
    "j_validRevisions (s_journal s2) = j_validRevisions (s_journal s)"
    "j_nextRevisionId (s_journal s2) = j_nextRevisionId (s_journal s)"
    using s1(4) by (simp_all add: s2_def split: option.split)
  have w2: "world K s2 = w1" using s1(2) by (simp add: s2_def split: option.split)
  have o2: "objects_ok K s2" using s1(5) by (simp add: s2_def split: option.split)
  have l2: "loaded K s2 = loaded K s1" by (auto simp: s2_def loaded_def fun_eq_iff split: option.split)
  have d2: "dirties_ok (j_dirties (s_journal s2)) (pre @ rev es)"
    using Cons.prems(4) s1(4) dirties_ok_undirty [of "s_journal s1" "pre @ rev es" e] dirties_ok_clean [of e _ "pre @ rev es"]
    by (cases "entry_dirtied e") (auto simp: s2_def)
  have base: "same_base s s2" using s1(3) base2 by (rule same_base_trans)
  have "list_all (entry_ok K s2) es" using e(2) entry_ok_base [OF base] by (simp add: list_all_iff)
  from Cons.IH [OF o2 this _ d2] w1(2) w2 obtain s' where s': "revert_entries K es s2 = Some s'" "world K s' = w"
    "same_base s2 s'" "objects_ok K s'" "\<forall>a. loaded K s2 a \<longrightarrow> loaded K s' a"
    "j_entries (s_journal s') = j_entries (s_journal s2)" "j_validRevisions (s_journal s') = j_validRevisions (s_journal s2)"
    "j_nextRevisionId (s_journal s') = j_nextRevisionId (s_journal s2)" "dirties_ok (j_dirties (s_journal s')) pre"
    by auto
  then show ?case using last s1(6) l2 j2 same_base_trans [OF base s'(3)] by auto
qed

text \<open>\<open>sort.Search\<close> on a sorted list finds the entry it looks for.\<close>

lemma search_between_spec:
  assumes "\<forall>x y. x \<le> y \<longrightarrow> y < n \<longrightarrow> f x \<longrightarrow> f y" "i \<le> j" "j \<le> n" "\<forall>h < i. \<not> f h" "\<forall>h \<ge> j. h < n \<longrightarrow> f h"
  shows "search_between f i j \<le> j \<and> (\<forall>h < search_between f i j. \<not> f h) \<and>
    (\<forall>h \<ge> search_between f i j. h < n \<longrightarrow> f h)"
  using assms
proof (induction f i j rule: search_between.induct)
  case (1 f i j)
  show ?case
  proof (cases "i < j")
    case False
    then show ?thesis using "1.prems" by (simp add: search_between.simps)
  next
    case True
    let ?h = "(i + j) div 2"
    have h: "i \<le> ?h" "?h < j" using True by simp_all
    show ?thesis
    proof (cases "f ?h")
      case False
      then have "\<forall>h < ?h + 1. \<not> f h" using "1.prems"(1,3) h by (auto simp: less_Suc_eq_le)
      with "1.IH"(1) [OF True refl False "1.prems"(1)] "1.prems"(3,5) h True False show ?thesis
        by (simp add: search_between.simps [of f i j] Let_def)
    next
      case True
      then have "\<forall>h \<ge> ?h. h < n \<longrightarrow> f h" using "1.prems"(1) by blast
      with "1.IH"(2) [OF \<open>i < j\<close> refl _ "1.prems"(1)] "1.prems"(3,4) h True
      have "search_between f i ?h \<le> ?h \<and> (\<forall>h < search_between f i ?h. \<not> f h) \<and>
          (\<forall>h \<ge> search_between f i ?h. h < n \<longrightarrow> f h)" by simp
      moreover have "search_between f i j = search_between f i ?h"
        using True \<open>i < j\<close> by (subst search_between.simps) (simp add: Let_def)
      ultimately show ?thesis using h by simp
    qed
  qed
qed

lemma search_revision:
  assumes "sorted_wrt (<) (map rev_id revs)" "i < length revs"
  shows "sort_Search (length revs) (\<lambda>k. rev_id (revs ! k) \<ge> rev_id (revs ! i)) = i"
proof -
  let ?f = "\<lambda>k. rev_id (revs ! k) \<ge> rev_id (revs ! i)"
  define r where "r = search_between ?f 0 (length revs)"
  have less: "rev_id (revs ! x) < rev_id (revs ! y)" if "x < y" "y < length revs" for x y
    using sorted_wrt_nth_less [OF assms(1), of x y] that by simp
  have "?f y" if "x \<le> y" "y < length revs" "?f x" for x y
    using that less [of x y] by (cases "x = y") auto
  then have m: "\<forall>x y. x \<le> y \<longrightarrow> y < length revs \<longrightarrow> ?f x \<longrightarrow> ?f y" by blast
  have r: "r \<le> length revs \<and> (\<forall>h < r. \<not> ?f h) \<and> (\<forall>h \<ge> r. h < length revs \<longrightarrow> ?f h)"
    unfolding r_def by (rule search_between_spec [OF m]) simp_all
  then have "\<not> i < r" by blast
  moreover have "\<not> r < i"
  proof
    assume "r < i"
    then have "rev_id (revs ! r) < rev_id (revs ! i)" using assms(2) by (rule less)
    moreover have "r < length revs" using \<open>r < i\<close> assms(2) by simp
    then have "?f r" using r by blast
    ultimately show False by simp
  qed
  ultimately show ?thesis by (simp add: sort_Search_def r_def)
qed

lemma Snapshot_extends:
  assumes "sdb_Snapshot s = (i, s1)"
  shows "extends K s s1"
  unfolding extends_def
proof (intro impI conjI exI [of _ "[] :: journalEntry list"] exI [of _ "[\<lparr>rev_id = i, rev_journalIndex = length (j_entries (s_journal s))\<rparr>]"])
  have s1: "s1 = s\<lparr>s_journal := (s_journal s)\<lparr>j_nextRevisionId := i + 1, j_validRevisions := j_validRevisions (s_journal s) @
      [\<lparr>rev_id = i, rev_journalIndex = length (j_entries (s_journal s))\<rparr>]\<rparr>\<rparr>" "i = j_nextRevisionId (s_journal s)"
    using assms by (auto simp: sdb_Snapshot_def journal_snapshot_def journal_length_def Let_def)
  assume "sdb_inv K s"
  with s1 show "sdb_inv K s1"
    by (auto simp: sdb_inv_def journal_ok_def revisions_ok_def sorted_wrt_append sorted_append)
qed (use assms in \<open>auto simp: sdb_Snapshot_def journal_snapshot_def journal_length_def Let_def loaded_def\<close>)

text \<open>Reverting to a revision that is still valid undoes the entries made after it.\<close>

lemma RevertToSnapshot_undoes:
  assumes inv: "sdb_inv K s" and revs: "j_validRevisions (s_journal s) = rs1 @ r # rs2"
    and es: "list_all (entry_ok K s) (drop (rev_journalIndex r) (j_entries (s_journal s)))"
    and undo: "undo_all K (rev (drop (rev_journalIndex r) (j_entries (s_journal s)))) (world K s) = Some w"
  shows "\<exists>s'. sdb_RevertToSnapshot K (rev_id r) s = Some s' \<and> world K s' = w \<and> same_base s s' \<and> objects_ok K s' \<and>
    (\<forall>a. loaded K s a \<longrightarrow> loaded K s' a) \<and>
    j_entries (s_journal s') = take (rev_journalIndex r) (j_entries (s_journal s)) \<and>
    j_validRevisions (s_journal s') = rs1 \<and> j_nextRevisionId (s_journal s') = j_nextRevisionId (s_journal s) \<and>
    journal_ok (s_journal s')"
proof -
  let ?j = "s_journal s"
  let ?n = "rev_journalIndex r"
  from inv have objs: "objects_ok K s" and j: "journal_ok ?j" by (simp_all add: sdb_inv_def)
  then have ro: "revisions_ok ?j" and d: "dirties_ok (j_dirties ?j) (j_entries ?j)" by (simp_all add: journal_ok_def)
  have n: "?n \<le> length (j_entries ?j)" using ro revs by (simp add: revisions_ok_def)
  have nth: "j_validRevisions ?j ! length rs1 = r" by (simp add: revs)
  have "sort_Search (length (j_validRevisions ?j)) (\<lambda>k. rev_id (j_validRevisions ?j ! k) \<ge>
      rev_id (j_validRevisions ?j ! length rs1)) = length rs1"
    using ro by (intro search_revision) (simp_all add: revisions_ok_def revs)
  then have idx: "sort_Search (length (j_validRevisions ?j)) (\<lambda>k. rev_id (j_validRevisions ?j ! k) \<ge> rev_id r) = length rs1"
    unfolding nth .
  have d': "dirties_ok (j_dirties ?j) (take ?n (j_entries ?j) @ rev (rev (drop ?n (j_entries ?j))))"
    using d by simp
  obtain s1 where s1: "revert_entries K (rev (drop ?n (j_entries ?j))) s = Some s1" "world K s1 = w" "same_base s s1"
    "objects_ok K s1" "\<forall>a. loaded K s a \<longrightarrow> loaded K s1 a" "j_entries (s_journal s1) = j_entries ?j"
    "j_validRevisions (s_journal s1) = j_validRevisions ?j" "j_nextRevisionId (s_journal s1) = j_nextRevisionId ?j"
    "dirties_ok (j_dirties (s_journal s1)) (take ?n (j_entries ?j))"
    using revert_entries_undoes [OF objs _ undo d'] es by (auto simp: list_all_rev)
  define s' where "s' = s1\<lparr>s_journal := (s_journal s1)\<lparr>j_entries := take ?n (j_entries ?j), j_validRevisions := rs1\<rparr>\<rparr>"
  have run: "sdb_RevertToSnapshot K (rev_id r) s = Some s'"
    using n nth s1(1,6) idx
    by (simp add: sdb_RevertToSnapshot_def journal_revertToSnapshot_def journal_revert_def revs s'_def Let_def)
  have "revisions_ok (s_journal s')"
    using ro n s1(8) by (auto simp: revisions_ok_def revs s'_def sorted_wrt_append sorted_append)
  then have "journal_ok (s_journal s')" using s1(9) by (simp add: journal_ok_def s'_def)
  moreover have "same_base s s'" using s1(3) by (simp add: s'_def same_base_def)
  ultimately show ?thesis using run s1 by (intro exI [of _ s']) (auto simp: s'_def loaded_def)
qed

theorem snapshot_restores:
  assumes inv: "sdb_inv K s" and snap: "sdb_Snapshot s = (i, s1)" and ext: "extends K s1 s2"
  shows "\<exists>s3. sdb_RevertToSnapshot K i s2 = Some s3 \<and> world K s3 = world K s \<and> extends K s s3 \<and>
    j_entries (s_journal s3) = j_entries (s_journal s) \<and> j_validRevisions (s_journal s3) = j_validRevisions (s_journal s)"
proof -
  let ?j = "s_journal s"
  let ?r = "\<lparr>rev_id = i, rev_journalIndex = length (j_entries ?j)\<rparr>"
  have s1: "i = j_nextRevisionId ?j" "s1 = s\<lparr>s_journal := ?j\<lparr>j_nextRevisionId := i + 1,
      j_validRevisions := j_validRevisions ?j @ [?r]\<rparr>\<rparr>"
    using snap by (auto simp: sdb_Snapshot_def journal_snapshot_def journal_length_def Let_def)
  note e1 = Snapshot_extends [OF snap, of K]
  then have inv1: "sdb_inv K s1" using inv by (simp add: extends_def)
  note e2 = ext [unfolded extends_def, rule_format, OF inv1]
  then obtain es rs where es: "j_entries (s_journal s2) = j_entries (s_journal s1) @ es"
    "j_validRevisions (s_journal s2) = j_validRevisions (s_journal s1) @ rs" "list_all (entry_ok K s1) es"
    "undo_all K (rev es) (world K s2) = Some (world K s1)" by auto
  have base: "same_base s s1" "same_base s1 s2" using e1 e2 inv by (simp_all add: extends_def)
  have inv2: "sdb_inv K s2" using e2 by simp
  have drop: "drop (rev_journalIndex ?r) (j_entries (s_journal s2)) = es" using es(1) s1(2) by simp
  have revs: "j_validRevisions (s_journal s2) = j_validRevisions ?j @ ?r # rs" using es(2) s1(2) by simp
  have ok: "list_all (entry_ok K s2) es" using es(3) entry_ok_base [OF base(2)] by (simp add: list_all_iff)
  have w1: "world K s1 = world K s" using s1(2) by simp
  have keep: "take (length (j_entries ?j)) (j_entries (s_journal s2)) = j_entries ?j" using es(1) s1(2) by simp
  obtain s3 where s3: "sdb_RevertToSnapshot K i s2 = Some s3" "world K s3 = world K s" "same_base s2 s3"
    "objects_ok K s3" "\<forall>a. loaded K s2 a \<longrightarrow> loaded K s3 a"
    "j_entries (s_journal s3) = j_entries ?j" "j_validRevisions (s_journal s3) = j_validRevisions ?j"
    "j_nextRevisionId (s_journal s3) = j_nextRevisionId (s_journal s2)" "journal_ok (s_journal s3)"
    using RevertToSnapshot_undoes [OF inv2 revs, unfolded drop, OF ok es(4), unfolded w1 revision.simps keep] by blast
  have "al_view (s_accessList s3) = al_view (s_accessList s)" using arg_cong [OF s3(2), of w_access] by simp
  from al_ok_view [OF this] have "al_ok (s_accessList s3)" using inv by (simp add: sdb_inv_def)
  then have "sdb_inv K s3" using s3(4,9) by (simp add: sdb_inv_def)
  moreover have "same_base s s3" using base s3(3) same_base_trans by blast
  moreover have "loaded K s a \<Longrightarrow> loaded K s3 a" for a using e1 e2 s3(5) inv by (simp add: extends_def)
  moreover have "j_nextRevisionId ?j \<le> j_nextRevisionId (s_journal s3)"
    using e1 e2 s3(8) inv by (auto simp: extends_def)
  ultimately have "extends K s s3"
    using s3(2,6,7) unfolding extends_def
    by (intro impI conjI exI [of _ "[] :: journalEntry list"] exI [of _ "[] :: revision list"]) auto
  then show ?thesis using s3 by blast
qed

end
