(* ===== verification/State_Spec.thy ===== *)
theory State_Spec
  imports State_Revert
begin

text \<open>
  The state database against a specification without journal, caches and objects: its state is a world, every
  operation is a function of the world, and a snapshot is a saved copy of the world.
\<close>

section \<open>The specification\<close>

text \<open>What the block fixes: the storage a new account shows, and the transaction logs are filed under.\<close>

record spec_base =
  sb_fresh :: "Address \<Rightarrow> Hash \<Rightarrow> Hash"
  sb_thash :: Hash
  sb_txIndex :: int

definition base_of :: "(bytes \<Rightarrow> bytes) \<Rightarrow> 't state_db \<Rightarrow> spec_base" where
  "base_of K s = \<lparr>sb_fresh = (\<lambda>a. committed_view s (newObject K a None)), sb_thash = s_thash s, sb_txIndex = s_txIndex s\<rparr>"

definition new_account :: "(bytes \<Rightarrow> bytes) \<Rightarrow> spec_base \<Rightarrow> Address \<Rightarrow> account" where
  "new_account K b a =
     \<lparr>a_data = NewEmptyStateAccount K, a_code = [], a_storage = sb_fresh b a, a_committed = sb_fresh b a,
      a_selfDestructed = False, a_newContract = False\<rparr>"

definition set_account :: "(bytes \<Rightarrow> bytes) \<Rightarrow> spec_base \<Rightarrow> Address \<Rightarrow> (account \<Rightarrow> account) \<Rightarrow> world \<Rightarrow> world" where
  "set_account K b a g w =
     w\<lparr>w_accounts := (w_accounts w)(a \<mapsto> g (case w_accounts w a of None \<Rightarrow> new_account K b a | Some acc \<Rightarrow> acc))\<rparr>"

abbreviation set_data :: "(StateAccount \<Rightarrow> StateAccount) \<Rightarrow> account \<Rightarrow> account" where
  "set_data g acc \<equiv> acc\<lparr>a_data := g (a_data acc)\<rparr>"

datatype sdb_op =
    DoAddBalance Address u256 | DoSubBalance Address u256 | DoSetBalance Address u256 | DoSetNonce Address u64
  | DoSetCode Address bytes | DoSetState Address Hash Hash | DoSelfDestruct Address
  | DoCreateAccount Address | DoCreateContract Address
  | DoAddRefund u64 | DoSubRefund u64 | DoSetTransientState Address Hash Hash | DoAddLog Log | DoAddPreimage Hash bytes
  | DoAddAddress Address | DoAddSlot Address Hash
  | DoGetCode Address | DoGetState Address Hash | DoGetBalance Address
  | DoSnapshot | DoRevert nat

fun spec_op :: "(bytes \<Rightarrow> bytes) \<Rightarrow> spec_base \<Rightarrow> sdb_op \<Rightarrow> world \<Rightarrow> world option" where
  "spec_op K b (DoAddBalance a v) w = Some (set_account K b a (set_data (\<lambda>d. d\<lparr>sa_Balance := sa_Balance d + v\<rparr>)) w)"
| "spec_op K b (DoSubBalance a v) w = Some (set_account K b a (set_data (\<lambda>d. d\<lparr>sa_Balance := sa_Balance d - v\<rparr>)) w)"
| "spec_op K b (DoSetBalance a v) w = Some (set_account K b a (set_data (\<lambda>d. d\<lparr>sa_Balance := v\<rparr>)) w)"
| "spec_op K b (DoSetNonce a n) w = Some (set_account K b a (set_data (\<lambda>d. d\<lparr>sa_Nonce := n\<rparr>)) w)"
| "spec_op K b (DoSetCode a c) w =
     Some (set_account K b a (\<lambda>acc. acc\<lparr>a_code := c, a_data := (a_data acc)\<lparr>sa_CodeHash := hash_bytes (hash_of K c)\<rparr>\<rparr>) w)"
| "spec_op K b (DoSetState a k v) w = Some (set_account K b a (\<lambda>acc. acc\<lparr>a_storage := (a_storage acc)(k := v)\<rparr>) w)"
| "spec_op K b (DoSelfDestruct a) w =
     Some (w\<lparr>w_accounts := (w_accounts w)(a := map_option (\<lambda>acc. acc\<lparr>a_selfDestructed := True\<rparr>) (w_accounts w a))\<rparr>)"
| "spec_op K b (DoCreateAccount a) w = Some (w\<lparr>w_accounts := (w_accounts w)(a \<mapsto> new_account K b a)\<rparr>)"
| "spec_op K b (DoCreateContract a) w =
     (case w_accounts w a of
        None \<Rightarrow> None
      | Some acc \<Rightarrow> Some (w\<lparr>w_accounts := (w_accounts w)(a \<mapsto> acc\<lparr>a_newContract := True\<rparr>)\<rparr>))"
| "spec_op K b (DoAddRefund g) w = Some (w\<lparr>w_refund := w_refund w + g\<rparr>)"
| "spec_op K b (DoSubRefund g) w = (if g > w_refund w then None else Some (w\<lparr>w_refund := w_refund w - g\<rparr>))"
| "spec_op K b (DoSetTransientState a k v) w =
     Some (w\<lparr>w_transient := (w_transient w)(a := (w_transient w a)(k := v))\<rparr>)"
| "spec_op K b (DoAddLog l) w =
     Some (w\<lparr>w_logs := (w_logs w)(sb_thash b := w_logs w (sb_thash b) @
               [Log.extend l \<lparr>l_TxHash = sb_thash b, l_TxIndex = of_int (sb_txIndex b), l_BlockHash = 0, l_BlockTimestamp = 0,
                              l_Index = w_logSize w\<rparr>]),
             w_logSize := w_logSize w + 1\<rparr>)"
| "spec_op K b (DoAddAddress a) w =
     Some (if fst (w_access w) a = None then w\<lparr>w_access := ((fst (w_access w))(a \<mapsto> -1), snd (w_access w))\<rparr> else w)"
| "spec_op K b (DoAddSlot a k) w =
     (case w_access w of
        (m, slots) \<Rightarrow>
          Some (w\<lparr>w_access := (if m a = None \<or> m a = Some (-1) then (m(a \<mapsto> int (length slots)), slots @ [{k}])
                              else (m, slots[nat (the (m a)) := insert k (slots ! nat (the (m a)))]))\<rparr>))"
| "spec_op K b op w = Some w"

text \<open>The specification keeps the worlds it may have to return to, oldest first, under increasing numbers.\<close>

record saved =
  sp_world :: world
  sp_saved :: "(nat \<times> world) list"
  sp_next :: nat

fun spec_step :: "(bytes \<Rightarrow> bytes) \<Rightarrow> spec_base \<Rightarrow> sdb_op \<Rightarrow> saved \<Rightarrow> saved option" where
  "spec_step K b DoSnapshot sp = Some (sp\<lparr>sp_saved := sp_saved sp @ [(sp_next sp, sp_world sp)], sp_next := sp_next sp + 1\<rparr>)"
| "spec_step K b (DoRevert i) sp =
     (case map_of (sp_saved sp) i of
        None \<Rightarrow> None
      | Some w \<Rightarrow> Some (sp\<lparr>sp_world := w, sp_saved := takeWhile (\<lambda>(j, _). j \<noteq> i) (sp_saved sp)\<rparr>))"
| "spec_step K b op sp = map_option (\<lambda>w. sp\<lparr>sp_world := w\<rparr>) (spec_op K b op (sp_world sp))"

fun spec_run :: "(bytes \<Rightarrow> bytes) \<Rightarrow> spec_base \<Rightarrow> sdb_op list \<Rightarrow> saved \<Rightarrow> saved option" where
  "spec_run K b [] sp = Some sp"
| "spec_run K b (op # ops) sp = (case spec_step K b op sp of None \<Rightarrow> None | Some sp' \<Rightarrow> spec_run K b ops sp')"

section \<open>The database\<close>

fun db_step :: "(bytes \<Rightarrow> bytes) \<Rightarrow> sdb_op \<Rightarrow> 't state_db \<Rightarrow> 't state_db option" where
  "db_step K (DoAddBalance a v) s = Some (snd (sdb_AddBalance K a v s))"
| "db_step K (DoSubBalance a v) s = Some (snd (sdb_SubBalance K a v s))"
| "db_step K (DoSetBalance a v) s = Some (sdb_SetBalance K a v s)"
| "db_step K (DoSetNonce a n) s = Some (sdb_SetNonce K a n s)"
| "db_step K (DoSetCode a c) s = Some (snd (sdb_SetCode K a c s))"
| "db_step K (DoSetState a k v) s = Some (snd (sdb_SetState K a k v s))"
| "db_step K (DoSelfDestruct a) s = Some (sdb_SelfDestruct K a s)"
| "db_step K (DoCreateAccount a) s = Some (sdb_CreateAccount K a s)"
| "db_step K (DoCreateContract a) s = sdb_CreateContract K a s"
| "db_step K (DoAddRefund g) s = Some (sdb_AddRefund g s)"
| "db_step K (DoSubRefund g) s = sdb_SubRefund g s"
| "db_step K (DoSetTransientState a k v) s = Some (sdb_SetTransientState a k v s)"
| "db_step K (DoAddLog l) s = Some (sdb_AddLog l s)"
| "db_step K (DoAddPreimage h p) s = Some (sdb_AddPreimage h p s)"
| "db_step K (DoAddAddress a) s = Some (sdb_AddAddressToAccessList a s)"
| "db_step K (DoAddSlot a k) s = sdb_AddSlotToAccessList a k s"
| "db_step K (DoGetCode a) s = Some (snd (sdb_GetCode K a s))"
| "db_step K (DoGetState a k) s = Some (snd (sdb_GetState K a k s))"
| "db_step K (DoGetBalance a) s = Some (snd (sdb_GetBalance K a s))"
| "db_step K DoSnapshot s = Some (snd (sdb_Snapshot s))"
| "db_step K (DoRevert i) s = sdb_RevertToSnapshot K i s"

fun db_run :: "(bytes \<Rightarrow> bytes) \<Rightarrow> sdb_op list \<Rightarrow> 't state_db \<Rightarrow> 't state_db option" where
  "db_run K [] s = Some s"
| "db_run K (op # ops) s = (case db_step K op s of None \<Rightarrow> None | Some s' \<Rightarrow> db_run K ops s')"

text \<open>
  The two obligations of a caller: an account is created only where there is none, and code is set only on an
  account whose code is loaded or known to be empty.
\<close>

fun op_allowed :: "(bytes \<Rightarrow> bytes) \<Rightarrow> sdb_op \<Rightarrow> 't state_db \<Rightarrow> bool" where
  "op_allowed K (DoCreateAccount a) s = (object_at K s a = None)"
| "op_allowed K (DoSetCode a c) s = loaded K s a"
| "op_allowed K op s = True"

fun run_allowed :: "(bytes \<Rightarrow> bytes) \<Rightarrow> sdb_op list \<Rightarrow> 't state_db \<Rightarrow> bool" where
  "run_allowed K [] s = True"
| "run_allowed K (op # ops) s =
     (op_allowed K op s \<and> (case db_step K op s of None \<Rightarrow> True | Some s' \<Rightarrow> run_allowed K ops s'))"

section \<open>What each operation does to the world\<close>

lemma base_of_base: "same_base s s' \<Longrightarrow> base_of K s' = base_of K s"
  using views_base(1) by (auto simp: base_of_def same_base_def fun_eq_iff)

lemma so_view_new: "so_view K s (newObject K a None) = new_account K (base_of K s) a"
  by (auto simp: so_view_def new_account_def base_of_def newObject_def code_view_def NewEmptyStateAccount_def storage_view_def fun_eq_iff)

lemma extends_base: "extends K s s' \<Longrightarrow> sdb_inv K s \<Longrightarrow> same_base s s'"
  by (simp add: extends_def)

lemma getOrNew_world:
  assumes "sdb_inv K s" "sdb_getOrNewStateObject K a s = (obj, s1)"
  shows "world K s1 = set_account K (base_of K s) a (\<lambda>acc. acc) (world K s)"
    "so_view K s1 obj = (case w_accounts (world K s) a of None \<Rightarrow> new_account K (base_of K s) a | Some acc \<Rightarrow> acc)"
proof -
  obtain r s2 where r: "sdb_getStateObject K a s = (r, s2)" by fastforce
  note get = getStateObject_spec [OF r]
  from get(2) have w: "world K s2 = world K s" "same_base s s2" by (simp_all add: reads_def)
  have "world K s1 = set_account K (base_of K s) a (\<lambda>acc. acc) (world K s) \<and>
    so_view K s1 obj = (case w_accounts (world K s) a of None \<Rightarrow> new_account K (base_of K s) a | Some acc \<Rightarrow> acc)"
  proof (cases r)
    case None
    then have n: "w_accounts (world K s) a = None" using get(1) by (simp add: world_account)
    have s1: "obj = newObject K a None" "s1 = sdb_setStateObject obj (jappend (createObjectChange a) s2)"
      using assms(2) r None by (auto simp: sdb_getOrNewStateObject_def sdb_createObject_def Let_def)
    have a: "so_address (newObject K a None) = a" by (simp add: newObject_def)
    have "same_base s s1" using w(2) by (simp add: s1 same_base_def)
    then have v: "so_view K s1 (newObject K a None) = new_account K (base_of K s) a"
      using so_view_new [of K s1 a] base_of_base by metis
    have "so_view K s2 (newObject K a None) = new_account K (base_of K s) a"
      using so_view_new [of K s2 a] base_of_base w(2) by metis
    with v n w(1) show ?thesis by (simp add: s1 world_set set_account_def a)
  next
    case (Some o')
    then have o: "o' = obj" "s2 = s1" using assms(2) r by (simp_all add: sdb_getOrNewStateObject_def)
    have at: "object_at K s a = Some obj" using get(1) Some o by simp
    have "so_view K s1 obj = so_view K s obj" using views_base(4) w(2) o by blast
    with at w(1) o show ?thesis by (simp add: set_account_def world_account fun_upd_idem)
  qed
  then show "world K s1 = set_account K (base_of K s) a (\<lambda>acc. acc) (world K s)"
    "so_view K s1 obj = (case w_accounts (world K s) a of None \<Rightarrow> new_account K (base_of K s) a | Some acc \<Rightarrow> acc)" by simp_all
qed

lemma modify_world:
  assumes inv: "sdb_inv K s"
    and f: "\<And>obj s1 v obj' s2. f obj s1 = (v, obj', s2) \<Longrightarrow> object_ok K a obj \<Longrightarrow>
      world K s2 = world K s1 \<and> same_base s1 s2 \<and> so_address obj' = so_address obj \<and> so_view K s1 obj' = g (so_view K s1 obj)"
  shows "world K (snd (modify K a f s)) = set_account K (base_of K s) a g (world K s)"
proof -
  obtain obj s1 where new: "sdb_getOrNewStateObject K a s = (obj, s1)" by fastforce
  note spec = getOrNewStateObject_spec [OF new]
  have inv1: "sdb_inv K s1" using spec(1) inv by (simp add: extends_def)
  then have ok: "object_ok K a obj" using spec(2) by (simp add: sdb_inv_def objects_ok_def)
  obtain v obj' s2 where run: "f obj s1 = (v, obj', s2)" by (cases "f obj s1") auto
  note f' = f [OF run ok]
  have a': "so_address obj' = a" using f' ok by (simp add: object_ok_def)
  have v: "so_view K s2 obj' = g (so_view K s1 obj)" using f' views_base(4) by metis
  have w: "world K s2 = world K s1" using f' by simp
  show ?thesis
    using getOrNew_world [OF inv new] by (simp add: modify_def new run world_set set_account_def a' v w)
qed

lemma setter_views:
  "so_view K s (so_setBalance v obj) = set_data (\<lambda>d. d\<lparr>sa_Balance := v\<rparr>) (so_view K s obj)"
  "so_view K s (so_setNonce n obj) = set_data (\<lambda>d. d\<lparr>sa_Nonce := n\<rparr>) (so_view K s obj)"
  "hash_ok K \<Longrightarrow> so_view K s (so_setCode (hash_of K c) c obj) =
     (so_view K s obj)\<lparr>a_code := c, a_data := (so_data obj)\<lparr>sa_CodeHash := hash_bytes (hash_of K c)\<rparr>\<rparr>"
  by (auto simp: so_setBalance_def so_setNonce_def so_setCode_def code_view_def intro!: account_eqIs)

lemma setter_address:
  "so_address (so_setBalance v obj) = so_address obj" "so_address (so_setNonce n obj) = so_address obj"
  "so_address (so_setCode h c obj) = so_address obj"
  by (simp_all add: so_setBalance_def so_setNonce_def so_setCode_def)

lemma a_data_view: "a_data (so_view K s obj) = so_data obj"
  by (simp add: so_view_def)

lemmas setter_worlds = setter_views setter_address a_data_view

lemma AddBalance_world:
  "sdb_inv K s \<Longrightarrow> world K (snd (sdb_AddBalance K a v s)) =
     set_account K (base_of K s) a (set_data (\<lambda>d. d\<lparr>sa_Balance := sa_Balance d + v\<rparr>)) (world K s)"
  unfolding sdb_AddBalance_def
  by (rule modify_world)
    (auto simp: so_AddBalance_def so_SetBalance_def Let_def setter_worlds so_touch_def split: if_splits)

lemma SubBalance_world:
  "sdb_inv K s \<Longrightarrow> world K (snd (sdb_SubBalance K a v s)) =
     set_account K (base_of K s) a (set_data (\<lambda>d. d\<lparr>sa_Balance := sa_Balance d - v\<rparr>)) (world K s)"
  unfolding sdb_SubBalance_def
  by (rule modify_world) (auto simp: so_SetBalance_def Let_def setter_worlds split: if_splits)

lemma SetBalance_world:
  "sdb_inv K s \<Longrightarrow> world K (sdb_SetBalance K a v s) = set_account K (base_of K s) a (set_data (\<lambda>d. d\<lparr>sa_Balance := v\<rparr>)) (world K s)"
  unfolding sdb_SetBalance_def
  by (rule modify_world) (auto simp: so_SetBalance_def Let_def setter_worlds)

lemma SetNonce_world:
  "sdb_inv K s \<Longrightarrow> world K (sdb_SetNonce K a n s) = set_account K (base_of K s) a (set_data (\<lambda>d. d\<lparr>sa_Nonce := n\<rparr>)) (world K s)"
  unfolding sdb_SetNonce_def
  by (rule modify_world) (auto simp: so_SetNonce_def setter_worlds)

lemma SetCode_world:
  "sdb_inv K s \<Longrightarrow> world K (snd (sdb_SetCode K a c s)) = set_account K (base_of K s) a
     (\<lambda>acc. acc\<lparr>a_code := c, a_data := (a_data acc)\<lparr>sa_CodeHash := hash_bytes (hash_of K c)\<rparr>\<rparr>) (world K s)"
  unfolding sdb_SetCode_def
  by (rule modify_world) (auto simp: so_SetCode_def Let_def setter_worlds object_ok_def)

lemma setState_view:
  assumes "committed_view s obj k = origin"
  shows "so_view K s (so_setState k v origin obj) = (so_view K s obj)\<lparr>a_storage := (storage_view s obj)(k := v)\<rparr>"
proof -
  have c: "committed_view s (so_setState k v origin obj) = committed_view s obj"
    by (rule committed_view_cong) (simp_all add: so_setState_def)
  have "storage_view s (so_setState k v origin obj) = (storage_view s obj)(k := v)"
    using assms c by (auto simp: storage_view_def so_setState_def update_conv' delete_conv' fun_eq_iff split: option.split)
  then show ?thesis using c by (intro account_eqI) (simp_all add: so_view_def code_view_def)
qed

lemma SetState_world:
  assumes "sdb_inv K s"
  shows "world K (snd (sdb_SetState K a k v s)) =
     set_account K (base_of K s) a (\<lambda>acc. acc\<lparr>a_storage := (a_storage acc)(k := v)\<rparr>) (world K s)"
  unfolding sdb_SetState_def using assms
proof (rule modify_world)
  fix obj s1 prev obj' s2
  assume run: "so_SetState k v obj s1 = (prev, obj', s2)"
  obtain origin obj1 s3 where get: "so_getState k obj s1 = ((prev, origin), obj1, s3)"
    using run by (auto simp: so_SetState_def split: prod.splits if_splits)
  note spec = so_getState_spec [OF get]
  have v1: "so_view K s1 obj1 = so_view K s1 obj" "so_address obj1 = so_address obj" using spec(4) [of K] by (auto simp: obj_reads_def)
  from v1(1) have st: "storage_view s1 obj1 = storage_view s1 obj" "committed_view s1 obj1 = committed_view s1 obj" by (simp_all add: so_view_def)
  have r: "world K s3 = world K s1" "same_base s1 s3" using spec(3) [of K] by (auto simp: reads_def)
  show "world K s2 = world K s1 \<and> same_base s1 s2 \<and> so_address obj' = so_address obj \<and>
      so_view K s1 obj' = (so_view K s1 obj)\<lparr>a_storage := (a_storage (so_view K s1 obj))(k := v)\<rparr>"
  proof (cases "prev = v")
    case True
    then have "obj' = obj1" "s2 = s3" using run get by (simp_all add: so_SetState_def)
    moreover have "(storage_view s1 obj)(k := v) = storage_view s1 obj" using spec(1) True by (simp add: fun_eq_iff)
    ultimately show ?thesis using v1 r by (simp add: so_view_def)
  next
    case False
    then have "obj' = so_setState k v origin obj1" "s2 = jappend (storageChange (so_address obj1) k prev origin) s3"
      using run get by (auto simp: so_SetState_def)
    moreover have "committed_view s1 obj1 k = origin" using spec(2) st by simp
    note setState_view [OF this, of K v]
    moreover have "same_base s1 (jappend (storageChange (so_address obj1) k prev origin) s3)"
      using r(2) same_base_journal same_base_trans by blast
    ultimately show ?thesis using v1 st r by (simp add: so_view_def)
  qed
qed

lemma SelfDestruct_world:
  assumes "sdb_inv K s"
  shows "world K (sdb_SelfDestruct K a s) =
    (world K s)\<lparr>w_accounts := (w_accounts (world K s))(a := map_option (\<lambda>acc. acc\<lparr>a_selfDestructed := True\<rparr>) (w_accounts (world K s) a))\<rparr>"
proof -
  obtain r s1 where r: "sdb_getStateObject K a s = (r, s1)" by fastforce
  note get = getStateObject_spec [OF r]
  from get(2) have w: "world K s1 = world K s" "same_base s s1" by (simp_all add: reads_def)
  show ?thesis
  proof (cases r)
    case None
    with r get(1) w show ?thesis by (simp add: sdb_SelfDestruct_def world_account fun_upd_idem)
  next
    case (Some obj)
    then have at: "object_at K s a = Some obj" using get(1) by simp
    have a: "so_address obj = a" using object_at_ok [OF _ at] assms by (simp add: sdb_inv_def object_ok_def)
    have sd: "so_view K s1 (so_markSelfdestructed obj) = (so_view K s obj)\<lparr>a_selfDestructed := True\<rparr>"
      unfolding views_base(4) [OF w(2)]
      by (auto simp: so_markSelfdestructed_def code_view_def intro!: account_eqIs)
    have m: "so_address (so_markSelfdestructed obj) = a" using a by (simp add: so_markSelfdestructed_def)
    have acc: "w_accounts (world K s) a = Some (so_view K s obj)" using at by (simp add: world_account)
    have "selfDestructed obj \<Longrightarrow> (so_view K s obj)\<lparr>a_selfDestructed := True\<rparr> = so_view K s obj" by (simp add: so_view_def)
    with r Some w acc sd m show ?thesis by (auto simp: sdb_SelfDestruct_def world_set fun_upd_idem)
  qed
qed

lemma CreateAccount_world:
  "world K (sdb_CreateAccount K a s) = (world K s)\<lparr>w_accounts := (w_accounts (world K s))(a \<mapsto> new_account K (base_of K s) a)\<rparr>"
proof -
  have "so_address (newObject K a None) = a" by (simp add: newObject_def)
  then show ?thesis
    by (simp add: sdb_CreateAccount_def sdb_createObject_def Let_def world_set so_view_new base_of_base [OF same_base_journal])
qed

lemma CreateContract_world:
  assumes "sdb_inv K s"
  shows "map_option (world K) (sdb_CreateContract K a s) =
    (case w_accounts (world K s) a of None \<Rightarrow> None
     | Some acc \<Rightarrow> Some ((world K s)\<lparr>w_accounts := (w_accounts (world K s))(a \<mapsto> acc\<lparr>a_newContract := True\<rparr>)\<rparr>))"
proof -
  obtain r s1 where r: "sdb_getStateObject K a s = (r, s1)" by fastforce
  note get = getStateObject_spec [OF r]
  from get(2) have w: "world K s1 = world K s" "same_base s s1" by (simp_all add: reads_def)
  show ?thesis
  proof (cases r)
    case None
    with r get(1) show ?thesis by (simp add: sdb_CreateContract_def world_account)
  next
    case (Some obj)
    then have at: "object_at K s a = Some obj" using get(1) by simp
    have a: "so_address obj = a" using object_at_ok [OF _ at] assms by (simp add: sdb_inv_def object_ok_def)
    have nc: "so_view K s1 (obj\<lparr>newContract := True\<rparr>) = (so_view K s obj)\<lparr>a_newContract := True\<rparr>"
      unfolding views_base(4) [OF w(2)] by (auto simp: code_view_def intro!: account_eqIs)
    have acc: "w_accounts (world K s) a = Some (so_view K s obj)" using at by (simp add: world_account)
    have "newContract obj \<Longrightarrow> (so_view K s obj)\<lparr>a_newContract := True\<rparr> = so_view K s obj" by (simp add: so_view_def)
    with r Some w acc nc a show ?thesis by (auto simp: sdb_CreateContract_def world_set fun_upd_idem)
  qed
qed

text \<open>The operations that touch no account.\<close>

lemma counters_world:
  "world K (sdb_AddRefund g s) = (world K s)\<lparr>w_refund := s_refund s + g\<rparr>"
  "map_option (world K) (sdb_SubRefund g s) = (if g > s_refund s then None else Some ((world K s)\<lparr>w_refund := s_refund s - g\<rparr>))"
  "world K (sdb_AddPreimage h p s) = world K s"
  by (auto simp: sdb_AddRefund_def sdb_SubRefund_def sdb_AddPreimage_def Let_def same_base_def logs_at_def [abs_def]
      intro!: world_eqI accounts_cong)

lemma SetTransientState_world:
  "world K (sdb_SetTransientState a k v s) =
     (world K s)\<lparr>w_transient := (ts_Get (s_transientStorage s))(a := (ts_Get (s_transientStorage s) a)(k := v))\<rparr>"
  by (cases "sdb_GetTransientState s a k = v")
    (auto simp: sdb_SetTransientState_def sdb_GetTransientState_def sdb_setTransientState_def Let_def same_base_def logs_at_def [abs_def]
      ts_Get_Set fun_upd_idem intro!: world_eqI accounts_cong)

lemma AddLog_world: "Some (world K (sdb_AddLog l s)) = spec_op K (base_of K s) (DoAddLog l) (world K s)"
  by (auto simp: sdb_AddLog_def base_of_def Let_def same_base_def logs_at_def [abs_def] update_conv' fun_eq_iff
      intro!: world_eqI accounts_cong [THEN fun_cong] split: option.split)

lemma access_world:
  "world K (s\<lparr>s_accessList := al\<rparr>) = (world K s)\<lparr>w_access := al_view al\<rparr>"
  by (auto simp: same_base_def logs_at_def [abs_def] intro!: world_eqI accounts_cong)

lemma AddAddress_world: "Some (world K (sdb_AddAddressToAccessList a s)) = spec_op K b (DoAddAddress a) (world K s)"
proof (cases "map_of (al_addresses (s_accessList s)) a")
  case None
  then show ?thesis
    by (simp add: sdb_AddAddressToAccessList_def al_AddAddress_def Let_def access_world al_view_def update_conv')
next
  case (Some i)
  then show ?thesis by (simp add: sdb_AddAddressToAccessList_def al_AddAddress_def al_view_def)
qed

lemma AddSlot_world:
  assumes "sdb_inv K s"
  shows "map_option (world K) (sdb_AddSlotToAccessList a k s) = spec_op K b (DoAddSlot a k) (world K s)"
proof -
  let ?al = "s_accessList s"
  have ok: "al_ok ?al" using assms by (simp add: sdb_inv_def)
  from al_ok_AddSlot [OF this, of a k] obtain am sm al where add: "al_AddSlot a k ?al = Some ((am, sm), al)" by auto
  have "al_view al = (if fst (al_view ?al) a = None \<or> fst (al_view ?al) a = Some (-1)
      then ((fst (al_view ?al))(a \<mapsto> int (length (snd (al_view ?al)))), snd (al_view ?al) @ [{k}])
      else (fst (al_view ?al), (snd (al_view ?al))[nat (the (fst (al_view ?al) a)) := insert k (snd (al_view ?al) ! nat (the (fst (al_view ?al) a)))]))"
    using add by (auto simp: al_AddSlot_def Let_def al_view_def update_conv' insert_absorb split: option.splits if_splits)
  moreover have "\<exists>s'. sdb_AddSlotToAccessList a k s = Some s' \<and> world K s' = (world K s)\<lparr>w_access := al_view al\<rparr>"
    using add by (simp add: sdb_AddSlotToAccessList_def Let_def access_world)
  ultimately show ?thesis by (auto simp: case_prod_beta)
qed

section \<open>Simulation\<close>

fun plain_op :: "sdb_op \<Rightarrow> bool" where
  "plain_op DoSnapshot = False"
| "plain_op (DoRevert i) = False"
| "plain_op op = True"

lemma query_reads:
  assumes "objects_ok K s"
  shows "reads K s (snd (sdb_GetCode K a s))" "reads K s (snd (sdb_GetState K a k s))" "reads K s (snd (sdb_GetBalance K a s))"
  using queries_spec(6,9,3) [OF assms] by (metis prod.collapse)+

lemma db_step_world:
  assumes "sdb_inv K s" "plain_op op"
  shows "map_option (world K) (db_step K op s) = spec_op K (base_of K s) op (world K s)"
proof -
  have q: "reads K s s' \<Longrightarrow> world K s' = world K s" for s' by (simp add: reads_def)
  note queries = query_reads [OF inv_objects [OF assms(1)], THEN q]
  note worlds = AddBalance_world SubBalance_world SetBalance_world SetNonce_world SetCode_world SetState_world SelfDestruct_world
    CreateContract_world
  show ?thesis
    by (cases op) (use assms(2) in \<open>simp_all add: worlds [OF assms(1)] CreateAccount_world counters_world SetTransientState_world
      AddLog_world [simplified] AddAddress_world [simplified] AddSlot_world [OF assms(1), simplified] queries\<close>)
qed

lemma db_step_extends:
  assumes "plain_op op" "op_allowed K op s" "db_step K op s = Some s'" "sdb_inv K s"
  shows "extends K s s'"
proof -
  note queries = query_reads [OF inv_objects [OF assms(4)], THEN reads_extends]
  show ?thesis
    by (cases op) (use assms in \<open>auto simp: AddBalance_extends SubBalance_extends SetBalance_db_extends SetNonce_db_extends
      SetState_db_extends SetCode_db_extends SelfDestruct_extends CreateAccount_extends AddRefund_extends SetTransientState_extends
      AddLog_extends AddPreimage_extends AddAddress_extends queries intro: CreateContract_extends SubRefund_extends AddSlot_extends\<close>)
qed

text \<open>Only snapshots take new numbers.\<close>

abbreviation next_id :: "'t state_db \<Rightarrow> nat" where
  "next_id s \<equiv> j_nextRevisionId (s_journal s)"

lemma getStateObject_next: "sdb_getStateObject K a s = (r, s1) \<Longrightarrow> next_id s1 = next_id s"
  by (drule getStateObject_spec(2)) (simp add: reads_def)

lemma modify_next:
  assumes "\<And>obj s1 v obj' s2. f obj s1 = (v, obj', s2) \<Longrightarrow> next_id s2 = next_id s1"
  shows "next_id (snd (modify K a f s)) = next_id s"
proof -
  obtain r s1 where r: "sdb_getStateObject K a s = (r, s1)" by fastforce
  obtain obj s2 where new: "sdb_getOrNewStateObject K a s = (obj, s2)" by fastforce
  have n: "next_id s2 = next_id s"
    using new r getStateObject_next [OF r] by (auto simp: sdb_getOrNewStateObject_def sdb_createObject_def Let_def split: option.splits)
  obtain v obj' s3 where f: "f obj s2 = (v, obj', s3)" by (cases "f obj s2") auto
  with assms [OF f] n new show ?thesis by (simp add: modify_def)
qed

lemma setters_next:
  "so_SetBalance v obj s = (u, obj', s') \<Longrightarrow> next_id s' = next_id s"
  "so_AddBalance K v obj s = (u, obj', s') \<Longrightarrow> next_id s' = next_id s"
  "so_SetNonce n obj s = (obj', s') \<Longrightarrow> next_id s' = next_id s"
  "so_SetCode h c obj s = (p, obj', s') \<Longrightarrow> next_id s' = next_id s"
  by (auto simp: so_SetBalance_def so_AddBalance_def so_SetNonce_def so_SetCode_def so_touch_def Let_def split: if_splits)

lemma so_SetState_next:
  assumes "so_SetState k v obj s = (p, obj', s')"
  shows "next_id s' = next_id s"
proof -
  obtain c obj1 s1 where get: "so_getState k obj s = ((p, c), obj1, s1)"
    using assms by (auto simp: so_SetState_def split: prod.splits if_splits)
  from so_getState_spec(3) [OF this, of undefined] assms get show ?thesis by (auto simp: so_SetState_def reads_def split: if_splits)
qed

lemma modify_ops_next:
  "next_id (snd (sdb_AddBalance K a v s)) = next_id s" "next_id (snd (sdb_SubBalance K a v s)) = next_id s"
  "next_id (sdb_SetBalance K a v s) = next_id s" "next_id (sdb_SetNonce K a n s) = next_id s"
  "next_id (snd (sdb_SetCode K a c s)) = next_id s" "next_id (snd (sdb_SetState K a k h s)) = next_id s"
  unfolding sdb_AddBalance_def sdb_SubBalance_def sdb_SetBalance_def sdb_SetNonce_def sdb_SetCode_def sdb_SetState_def
  by (rule modify_next, auto dest: setters_next so_SetState_next split: if_splits prod.splits)+

lemma db_step_next:
  assumes "plain_op op" "db_step K op s = Some s'" "sdb_inv K s"
  shows "next_id s' = next_id s"
proof -
  have q: "reads K s s' \<Longrightarrow> next_id s' = next_id s" for s' by (simp add: reads_def)
  note queries = query_reads [OF inv_objects [OF assms(3)], THEN q]
  show ?thesis
    by (cases op) (use assms in \<open>auto simp: modify_ops_next queries sdb_SelfDestruct_def sdb_CreateAccount_def sdb_createObject_def
      sdb_CreateContract_def sdb_AddRefund_def sdb_SubRefund_def sdb_SetTransientState_def sdb_setTransientState_def sdb_AddLog_def
      sdb_AddPreimage_def sdb_AddAddressToAccessList_def sdb_AddSlotToAccessList_def Let_def
      dest: getStateObject_next split: prod.splits option.splits if_splits\<close>)
qed

text \<open>The saved worlds are what undoing the journal down to each revision gives.\<close>

definition revision_sim :: "(bytes \<Rightarrow> bytes) \<Rightarrow> 't state_db \<Rightarrow> revision \<Rightarrow> nat \<times> world \<Rightarrow> bool" where
  "revision_sim K s r p \<longleftrightarrow>
     rev_id r = fst p \<and> list_all (entry_ok K s) (drop (rev_journalIndex r) (j_entries (s_journal s))) \<and>
     undo_all K (rev (drop (rev_journalIndex r) (j_entries (s_journal s)))) (world K s) = Some (snd p) \<and>
     (\<forall>al. al_view al = w_access (snd p) \<longrightarrow> al_ok al)"

definition sim :: "(bytes \<Rightarrow> bytes) \<Rightarrow> spec_base \<Rightarrow> 't state_db \<Rightarrow> saved \<Rightarrow> bool" where
  "sim K b s sp \<longleftrightarrow>
     sdb_inv K s \<and> base_of K s = b \<and> world K s = sp_world sp \<and> next_id s = sp_next sp \<and>
     list_all2 (revision_sim K s) (j_validRevisions (s_journal s)) (sp_saved sp)"

lemma sim_plain:
  assumes "sim K b s sp" "extends K s s'" "next_id s' = next_id s"
  shows "sim K b s' (sp\<lparr>sp_world := world K s'\<rparr>)"
proof -
  let ?E = "\<lambda>s. j_entries (s_journal s)"
  from assms(1) have inv: "sdb_inv K s" and rel: "list_all2 (revision_sim K s) (j_validRevisions (s_journal s)) (sp_saved sp)"
    by (simp_all add: sim_def)
  from assms(2) inv have inv': "sdb_inv K s'" and base: "same_base s s'" by (simp_all add: extends_def)
  from assms(2) inv obtain es rs where es: "?E s' = ?E s @ es" "j_validRevisions (s_journal s') = j_validRevisions (s_journal s) @ rs"
    "\<forall>r \<in> set rs. next_id s \<le> rev_id r" "list_all (entry_ok K s) es" "undo_all K (rev es) (world K s') = Some (world K s)"
    by (auto simp: extends_def)
  have "\<forall>r \<in> set rs. rev_id r < next_id s'" using inv' es(2) by (simp add: sdb_inv_def journal_ok_def revisions_ok_def)
  with es(3) assms(3) have rs: "rs = []" by (cases rs) auto
  have "revision_sim K s' r p" if "revision_sim K s r p" "r \<in> set (j_validRevisions (s_journal s))" for r p
  proof -
    have "rev_journalIndex r \<le> length (?E s)" using inv that(2) by (simp add: sdb_inv_def journal_ok_def revisions_ok_def)
    then have "drop (rev_journalIndex r) (?E s') = drop (rev_journalIndex r) (?E s) @ es" by (simp add: es(1))
    with that(1) es(4,5) entry_ok_base [OF base] show ?thesis by (auto simp: revision_sim_def undo_all_append list_all_iff)
  qed
  then have "list_all2 (revision_sim K s') (j_validRevisions (s_journal s')) (sp_saved sp)"
    using rel by (auto simp: es(2) rs list_all2_conv_all_nth)
  with assms inv' base show ?thesis by (simp add: sim_def base_of_base)
qed

lemma search_between_le: "i \<le> j \<Longrightarrow> search_between f i j \<le> j"
proof (induction f i j rule: search_between.induct)
  case (1 f i j)
  show ?case
  proof (cases "i < j")
    case True
    let ?h = "(i + j) div 2"
    have h: "i \<le> ?h" "?h < j" using True by simp_all
    with True 1 have "search_between f (?h + 1) j \<le> j \<or> f ?h" "search_between f i ?h \<le> ?h \<or> \<not> f ?h" by auto
    with True h show ?thesis by (subst search_between.simps) (auto simp: Let_def)
  qed (use 1 in \<open>subst search_between.simps, simp\<close>)
qed

lemma map_of_first:
  assumes "map_of ps i = Some w"
  obtains ps1 ps2 where "ps = ps1 @ (i, w) # ps2" "\<forall>p \<in> set ps1. fst p \<noteq> i"
proof -
  have "\<exists>ps1 ps2. ps = ps1 @ (i, w) # ps2 \<and> (\<forall>p \<in> set ps1. fst p \<noteq> i)"
    using assms
  proof (induction ps)
    case (Cons p ps)
    show ?case
    proof (cases "fst p = i")
      case True
      with Cons.prems have "p # ps = [] @ (i, w) # ps" by (cases p) simp
      then show ?thesis by (metis empty_iff list.set(1))
    next
      case False
      with Cons obtain ps1 ps2 where "ps = ps1 @ (i, w) # ps2" "\<forall>p \<in> set ps1. fst p \<noteq> i" by (cases p) auto
      with False have "p # ps = (p # ps1) @ (i, w) # ps2 \<and> (\<forall>q \<in> set (p # ps1). fst q \<noteq> i)" by simp
      then show ?thesis by blast
    qed
  qed simp
  with that show ?thesis by blast
qed

lemma sim_snapshot:
  assumes "sim K b s sp"
  shows "sim K b (snd (sdb_Snapshot s)) (sp\<lparr>sp_saved := sp_saved sp @ [(sp_next sp, sp_world sp)], sp_next := sp_next sp + 1\<rparr>)"
proof -
  obtain i s1 where s1: "sdb_Snapshot s = (i, s1)" by fastforce
  then have eq: "s1 = s\<lparr>s_journal := (s_journal s)\<lparr>j_nextRevisionId := i + 1, j_validRevisions := j_validRevisions (s_journal s) @
      [\<lparr>rev_id = i, rev_journalIndex = length (j_entries (s_journal s))\<rparr>]\<rparr>\<rparr>" "i = next_id s"
    by (auto simp: sdb_Snapshot_def journal_snapshot_def journal_length_def Let_def)
  from assms have inv: "sdb_inv K s" by (simp add: sim_def)
  with Snapshot_extends [OF s1, of K] have "sdb_inv K s1" "same_base s s1" by (simp_all add: extends_def)
  moreover have "al_view al = w_access (world K s) \<Longrightarrow> al_ok al" for al
    using inv al_ok_view [of al "s_accessList s"] by (simp add: sdb_inv_def)
  then have "revision_sim K s1 \<lparr>rev_id = i, rev_journalIndex = length (j_entries (s_journal s))\<rparr> (i, world K s)"
    by (simp add: revision_sim_def eq(1))
  moreover have "revision_sim K s1 = revision_sim K s"
    using entry_ok_base [OF \<open>same_base s s1\<close>, of K] by (simp add: revision_sim_def eq(1) list_all_iff fun_eq_iff)
  then have "list_all2 (revision_sim K s1) (j_validRevisions (s_journal s)) (sp_saved sp)" using assms by (simp add: sim_def)
  moreover have "j_validRevisions (s_journal s1) = j_validRevisions (s_journal s) @
      [\<lparr>rev_id = i, rev_journalIndex = length (j_entries (s_journal s))\<rparr>]" "next_id s1 = i + 1" "world K s1 = world K s"
    using eq(1) by simp_all
  ultimately show ?thesis
    using assms eq(2) by (simp add: sim_def s1 base_of_base list_all2_appendI)
qed

lemma revert_absent:
  assumes "i \<notin> rev_id ` set (j_validRevisions (s_journal s))"
  shows "sdb_RevertToSnapshot K i s = None"
proof -
  let ?revs = "j_validRevisions (s_journal s)"
  let ?idx = "sort_Search (length ?revs) (\<lambda>k. rev_id (?revs ! k) \<ge> i)"
  have "?idx \<le> length ?revs"
    unfolding sort_Search_def by (rule search_between_le) simp
  then have "?idx = length ?revs \<or> rev_id (?revs ! ?idx) \<noteq> i" using assms by (metis image_eqI le_neq_implies_less nth_mem)
  then show ?thesis by (simp add: sdb_RevertToSnapshot_def journal_revertToSnapshot_def Let_def)
qed

lemma undo_below:
  assumes "m \<le> n" "undo_all K (rev (drop n es)) w = Some w1" "undo_all K (rev (drop m es)) w = Some w2"
  shows "undo_all K (rev (drop m (take n es))) w1 = Some w2"
proof -
  have "drop m es = drop m (take n es) @ drop n es"
    using assms(1) by (metis append_take_drop_id drop_append drop_drop drop_take le_add_diff_inverse2 take_add)
  with assms(2,3) show ?thesis by (simp add: undo_all_append)
qed

lemma sim_revert:
  assumes sim: "sim K b s sp" and w: "map_of (sp_saved sp) i = Some w"
  shows "\<exists>s'. sdb_RevertToSnapshot K i s = Some s' \<and>
    sim K b s' (sp\<lparr>sp_world := w, sp_saved := takeWhile (\<lambda>(j, _). j \<noteq> i) (sp_saved sp)\<rparr>)"
proof -
  let ?E = "j_entries (s_journal s)"
  from w obtain ps1 ps2 where ps: "sp_saved sp = ps1 @ (i, w) # ps2" "\<forall>p \<in> set ps1. fst p \<noteq> i"
    by (rule map_of_first)
  from sim have inv: "sdb_inv K s" and rel: "list_all2 (revision_sim K s) (j_validRevisions (s_journal s)) (sp_saved sp)"
    by (simp_all add: sim_def)
  from rel [unfolded ps(1)] obtain rs1 r rs2 where rs: "j_validRevisions (s_journal s) = rs1 @ r # rs2"
    "list_all2 (revision_sim K s) rs1 ps1" "revision_sim K s r (i, w)"
    by (auto simp: list_all2_append2 list_all2_Cons2)
  from rs(3) have r: "rev_id r = i" "list_all (entry_ok K s) (drop (rev_journalIndex r) ?E)"
    "undo_all K (rev (drop (rev_journalIndex r) ?E)) (world K s) = Some w" "\<And>al. al_view al = w_access w \<Longrightarrow> al_ok al"
    by (simp_all add: revision_sim_def)
  from RevertToSnapshot_undoes [OF inv rs(1) r(2,3)] obtain s' where s': "sdb_RevertToSnapshot K i s = Some s'" "world K s' = w"
    "same_base s s'" "objects_ok K s'" "j_entries (s_journal s') = take (rev_journalIndex r) ?E" "j_validRevisions (s_journal s') = rs1"
    "next_id s' = next_id s" "journal_ok (s_journal s')" by (auto simp: r(1))
  have "al_ok (s_accessList s')" using r(4) s'(2) by auto
  then have inv': "sdb_inv K s'" using s' by (simp add: sdb_inv_def)
  have "revision_sim K s' q p" if "revision_sim K s q p" "q \<in> set rs1" for q p
  proof -
    have le: "rev_journalIndex q \<le> rev_journalIndex r"
      using inv that(2) by (auto simp: sdb_inv_def journal_ok_def revisions_ok_def rs(1) sorted_append)
    have "set (drop (rev_journalIndex q) (take (rev_journalIndex r) ?E)) \<subseteq> set (drop (rev_journalIndex q) ?E)"
      by (simp add: drop_take set_take_subset)
    with that(1) undo_below [OF le r(3)] entry_ok_base [OF s'(3), of K] s'(2,5) show ?thesis
      by (auto simp: revision_sim_def list_all_iff)
  qed
  then have "list_all2 (revision_sim K s') rs1 ps1"
    using rs(2) by (auto simp: list_all2_conv_all_nth)
  moreover have "takeWhile (\<lambda>(j, _). j \<noteq> i) (sp_saved sp) = ps1" using ps by (auto simp: takeWhile_append)
  ultimately have "sim K b s' (sp\<lparr>sp_world := w, sp_saved := takeWhile (\<lambda>(j, _). j \<noteq> i) (sp_saved sp)\<rparr>)"
    using sim s' inv' by (simp add: sim_def base_of_base)
  with s'(1) show ?thesis by blast
qed

lemma sim_step:
  assumes sim: "sim K b s sp" and ok: "op_allowed K op s"
  shows "case db_step K op s of None \<Rightarrow> spec_step K b op sp = None
    | Some s' \<Rightarrow> \<exists>sp'. spec_step K b op sp = Some sp' \<and> sim K b s' sp'"
proof -
  from sim have inv: "sdb_inv K s" and b: "base_of K s = b" and w: "world K s = sp_world sp" by (simp_all add: sim_def)
  consider "op = DoSnapshot" | i where "op = DoRevert i" | "plain_op op" by (cases op) auto
  then show ?thesis
  proof cases
    case 1
    with sim_snapshot [OF sim] show ?thesis by simp
  next
    case (2 i)
    show ?thesis
    proof (cases "map_of (sp_saved sp) i")
      case None
      then have "i \<notin> fst ` set (sp_saved sp)" by (simp add: map_of_eq_None_iff)
      moreover have "rev_id ` set (j_validRevisions (s_journal s)) \<subseteq> fst ` set (sp_saved sp)"
        using sim by (fastforce simp: sim_def revision_sim_def list_all2_conv_all_nth in_set_conv_nth image_iff)
      ultimately have "sdb_RevertToSnapshot K i s = None" by (intro revert_absent) blast
      with 2 None show ?thesis by simp
    next
      case (Some w)
      from sim_revert [OF sim this] 2 Some show ?thesis by auto
    qed
  next
    case 3
    note world = db_step_world [OF inv 3, unfolded b w]
    have spec: "spec_step K b op sp = map_option (\<lambda>w. sp\<lparr>sp_world := w\<rparr>) (spec_op K b op (sp_world sp))"
      using 3 by (cases op) simp_all
    show ?thesis
    proof (cases "db_step K op s")
      case None
      with world spec show ?thesis by simp
    next
      case (Some s')
      have "spec_op K b op (sp_world sp) = Some (world K s')" using world Some by simp
      with sim_plain [OF sim db_step_extends [OF 3 ok Some inv] db_step_next [OF 3 Some inv]] Some spec
      show ?thesis by simp
    qed
  qed
qed

lemma sim_run:
  assumes "sim K b s sp" "run_allowed K ops s"
  shows "map_option (world K) (db_run K ops s) = map_option sp_world (spec_run K b ops sp)"
  using assms
proof (induction ops arbitrary: s sp)
  case Nil
  then show ?case by (simp add: sim_def)
next
  case (Cons op ops)
  from Cons.prems sim_step [OF Cons.prems(1), of op] Cons.IH show ?case
    by (cases "db_step K op s") auto
qed

end
