(* ===== verification/State_Ledger.thy ===== *)
theory State_Ledger
  imports State_Spec
begin

text \<open>
  Balances and nonces of a world, what every operation of the database does to them, and the relation \<open>ledger\<close> of
  honest bookkeeping: the total of all balances does not grow and no nonce falls.
\<close>

section \<open>Balances, nonces and the supply\<close>

definition balance_of :: "world \<Rightarrow> Address \<Rightarrow> u256" where
  "balance_of w a = at_account w a 0 (\<lambda>acc. sa_Balance (a_data acc))"

definition nonce_of :: "world \<Rightarrow> Address \<Rightarrow> u64" where
  "nonce_of w a = at_account w a 0 (\<lambda>acc. sa_Nonce (a_data acc))"

definition total_of :: "(Address \<Rightarrow> u256) \<Rightarrow> nat" where
  "total_of f = (\<Sum>a\<in>UNIV. unat (f a))"

definition ether_supply :: "world \<Rightarrow> nat" where
  "ether_supply w = total_of (balance_of w)"

lemma total_upd: "total_of (f(a := x)) + unat (f a) = total_of f + unat x"
proof -
  have "total_of (f(a := x)) = unat x + (\<Sum>b\<in>UNIV - {a}. unat (f b))"
    unfolding total_of_def by (subst sum.remove [of _ a]) (auto intro: sum.cong)
  moreover have "total_of f = unat (f a) + (\<Sum>b\<in>UNIV - {a}. unat (f b))"
    unfolding total_of_def by (subst sum.remove [of _ a]) auto
  ultimately show ?thesis by simp
qed

lemma total_ge: "unat (f a) \<le> total_of f"
  unfolding total_of_def by (rule member_le_sum) simp_all

lemma total_ge2: "a \<noteq> b \<Longrightarrow> unat (f a) + unat (f b) \<le> total_of f"
proof -
  assume "a \<noteq> b"
  then have "unat (f b) = unat ((f(a := 0)) b)" by simp
  also have "\<dots> \<le> total_of (f(a := 0))" by (rule total_ge)
  finally show ?thesis using total_upd [of f a 0] by simp
qed

lemma total_sub: "v \<le> f a \<Longrightarrow> total_of (f(a := f a - v)) + unat v = total_of f"
  using total_upd [of f a "f a - v"] by (simp add: unat_sub word_le_nat_alt)

lemma total_add: "unat (f a) + unat v < 2 ^ 256 \<Longrightarrow> total_of (f(a := f a + v)) = total_of f + unat v"
  using total_upd [of f a "f a + v"] by (simp add: unat_word_ariths)

lemma total_move:
  assumes "v \<le> f a" and "total_of f < 2 ^ 256"
  shows "total_of ((f(a := f a - v))(b := (f(a := f a - v)) b + v)) = total_of f"
proof -
  let ?f = "f(a := f a - v)"
  have "total_of ?f + unat v = total_of f" by (rule total_sub) (rule assms(1))
  moreover have "unat (?f b) \<le> total_of ?f" by (rule total_ge)
  ultimately show ?thesis using assms(2) by (subst total_add) simp_all
qed

lemma total_give:
  assumes "a \<noteq> b" and "v \<le> f a" and "total_of f < 2 ^ 256"
  shows "total_of ((f(b := f b + v))(a := f a - v)) = total_of f"
proof -
  have "(f(b := f b + v))(a := f a - v) = (f(a := f a - v))(b := (f(a := f a - v)) b + v)"
    using assms(1) by (simp add: fun_upd_twist)
  then show ?thesis using total_move [of v f a b] assms(2,3) by simp
qed

section \<open>What the operations do\<close>

lemma new_account_sels [simp]: "sa_Balance (a_data (new_account K b a)) = 0" "sa_Nonce (a_data (new_account K b a)) = 0"
  by (simp_all add: new_account_def NewEmptyStateAccount_def)

lemma set_account_keeps:
  "(\<And>acc. sa_Balance (a_data (g acc)) = sa_Balance (a_data acc)) \<Longrightarrow> balance_of (set_account K b a g w) = balance_of w"
  "(\<And>acc. sa_Nonce (a_data (g acc)) = sa_Nonce (a_data acc)) \<Longrightarrow> nonce_of (set_account K b a g w) = nonce_of w"
  by (auto simp: balance_of_def nonce_of_def set_account_def fun_eq_iff split: option.split)

lemma set_account_balance:
  "balance_of (set_account K b a (set_data (\<lambda>d. d\<lparr>sa_Balance := g (sa_Balance d)\<rparr>)) w) = (balance_of w)(a := g (balance_of w a))"
  by (auto simp: balance_of_def set_account_def fun_eq_iff split: option.split)

lemma set_account_nonce:
  "nonce_of (set_account K b a (set_data (\<lambda>d. d\<lparr>sa_Nonce := n\<rparr>)) w) = (nonce_of w)(a := n)"
  by (auto simp: nonce_of_def set_account_def fun_eq_iff split: option.split)

lemma AddBalance_ledger:
  assumes "sdb_inv K s"
  shows "balance_of (world K (snd (sdb_AddBalance K a v s))) = (balance_of (world K s))(a := balance_of (world K s) a + v)"
    and "nonce_of (world K (snd (sdb_AddBalance K a v s))) = nonce_of (world K s)"
  unfolding AddBalance_world [OF assms] by (rule set_account_balance, simp add: set_account_keeps)

lemma SubBalance_ledger:
  assumes "sdb_inv K s"
  shows "balance_of (world K (snd (sdb_SubBalance K a v s))) = (balance_of (world K s))(a := balance_of (world K s) a - v)"
    and "nonce_of (world K (snd (sdb_SubBalance K a v s))) = nonce_of (world K s)"
  unfolding SubBalance_world [OF assms] by (rule set_account_balance [of _ _ _ "\<lambda>x. x - v"], simp add: set_account_keeps)

lemma SetNonce_ledger:
  assumes "sdb_inv K s"
  shows "balance_of (world K (sdb_SetNonce K a n s)) = balance_of (world K s)"
    and "nonce_of (world K (sdb_SetNonce K a n s)) = (nonce_of (world K s))(a := n)"
  unfolding SetNonce_world [OF assms] by (simp_all add: set_account_nonce set_account_keeps)

lemma SetCode_ledger:
  assumes "sdb_inv K s"
  shows "balance_of (world K (snd (sdb_SetCode K a c s))) = balance_of (world K s)"
    and "nonce_of (world K (snd (sdb_SetCode K a c s))) = nonce_of (world K s)"
  unfolding SetCode_world [OF assms] by (simp_all add: set_account_keeps)

lemma SetState_ledger:
  assumes "sdb_inv K s"
  shows "balance_of (world K (snd (sdb_SetState K a k v s))) = balance_of (world K s)"
    and "nonce_of (world K (snd (sdb_SetState K a k v s))) = nonce_of (world K s)"
  unfolding SetState_world [OF assms] by (simp_all add: set_account_keeps)

lemma SelfDestruct_ledger:
  assumes "sdb_inv K s"
  shows "balance_of (world K (sdb_SelfDestruct K a s)) = balance_of (world K s)"
    and "nonce_of (world K (sdb_SelfDestruct K a s)) = nonce_of (world K s)"
  unfolding SelfDestruct_world [OF assms] by (auto simp: balance_of_def nonce_of_def fun_eq_iff split: option.split)

lemma CreateAccount_ledger:
  assumes "w_accounts (world K s) a = None"
  shows "balance_of (world K (sdb_CreateAccount K a s)) = balance_of (world K s)"
    and "nonce_of (world K (sdb_CreateAccount K a s)) = nonce_of (world K s)"
  unfolding CreateAccount_world using assms by (auto simp: balance_of_def nonce_of_def fun_eq_iff)

lemma CreateContract_ledger:
  assumes "sdb_inv K s" and "sdb_CreateContract K a s = Some s'"
  shows "balance_of (world K s') = balance_of (world K s)" and "nonce_of (world K s') = nonce_of (world K s)"
proof -
  obtain acc where "w_accounts (world K s) a = Some acc"
    "world K s' = (world K s)\<lparr>w_accounts := (w_accounts (world K s))(a \<mapsto> acc\<lparr>a_newContract := True\<rparr>)\<rparr>"
    using CreateContract_world [OF assms(1), of a] assms(2) by (auto split: option.splits)
  then show "balance_of (world K s') = balance_of (world K s)" "nonce_of (world K s') = nonce_of (world K s)"
    by (auto simp: balance_of_def nonce_of_def fun_eq_iff)
qed

lemma same_accounts_ledger:
  "w_accounts w' = w_accounts w \<Longrightarrow> balance_of w' = balance_of w" "w_accounts w' = w_accounts w \<Longrightarrow> nonce_of w' = nonce_of w"
  by (simp_all add: balance_of_def nonce_of_def fun_eq_iff)

text \<open>Operations that touch no account.\<close>

lemma accounts_kept:
  "w_accounts (world K (sdb_AddRefund g s)) = w_accounts (world K s)"
  "sdb_SubRefund g s = Some s' \<Longrightarrow> w_accounts (world K s') = w_accounts (world K s)"
  "w_accounts (world K (sdb_SetTransientState a k v s)) = w_accounts (world K s)"
  "w_accounts (world K (sdb_AddLog l s)) = w_accounts (world K s)"
  "w_accounts (world K (sdb_AddPreimage h d s)) = w_accounts (world K s)"
  "w_accounts (world K (sdb_AddAddressToAccessList a s)) = w_accounts (world K s)"
  "sdb_AddSlotToAccessList a k s = Some s' \<Longrightarrow> w_accounts (world K s') = w_accounts (world K s)"
  "w_accounts (world K (snd (sdb_Snapshot s))) = w_accounts (world K s)"
proof -
  show "w_accounts (world K (sdb_AddRefund g s)) = w_accounts (world K s)" by (simp add: counters_world)
  show "w_accounts (world K s') = w_accounts (world K s)" if "sdb_SubRefund g s = Some s'"
    using counters_world(2) [of K g s] that by (auto split: if_splits)
  show "w_accounts (world K (sdb_SetTransientState a k v s)) = w_accounts (world K s)" by (simp add: SetTransientState_world)
  show "w_accounts (world K (sdb_AddLog l s)) = w_accounts (world K s)" using AddLog_world [of K l s] by simp
  show "w_accounts (world K (sdb_AddPreimage h d s)) = w_accounts (world K s)" by (simp add: counters_world)
  show "w_accounts (world K (sdb_AddAddressToAccessList a s)) = w_accounts (world K s)"
    using AddAddress_world [of K a s undefined] by (auto split: if_splits)
  show "w_accounts (world K s') = w_accounts (world K s)" if "sdb_AddSlotToAccessList a k s = Some s'"
    using that by (auto simp: sdb_AddSlotToAccessList_def Let_def access_world split: option.splits if_splits)
  show "w_accounts (world K (snd (sdb_Snapshot s))) = w_accounts (world K s)" by (simp add: sdb_Snapshot_def split: prod.split)
qed

section \<open>Honest bookkeeping\<close>

definition ledger :: "(bytes \<Rightarrow> bytes) \<Rightarrow> 't state_db \<Rightarrow> 't state_db \<Rightarrow> bool" where
  "ledger K s s' \<longleftrightarrow> extends K s s' \<and>
     (sdb_inv K s \<longrightarrow> ether_supply (world K s) < 2 ^ 256 \<longrightarrow> ether_supply (world K s') \<le> ether_supply (world K s)) \<and>
     (sdb_inv K s \<longrightarrow> (\<forall>a. nonce_of (world K s) a \<le> nonce_of (world K s') a))"

lemma ledger_refl: "ledger K s s"
  by (simp add: ledger_def extends_refl)

lemma ledger_trans: "ledger K s s' \<Longrightarrow> ledger K s' s'' \<Longrightarrow> ledger K s s''"
  unfolding ledger_def using extends_trans extends_def by (metis (no_types, opaque_lifting) le_less_trans order_trans)

lemma ledger_extends: "ledger K s s' \<Longrightarrow> extends K s s'"
  by (simp add: ledger_def)

lemma ledger_keeps:
  assumes "extends K s s'"
    and "sdb_inv K s \<Longrightarrow> balance_of (world K s') = balance_of (world K s)" and "sdb_inv K s \<Longrightarrow> nonce_of (world K s') = nonce_of (world K s)"
  shows "ledger K s s'"
  using assms by (simp add: ledger_def ether_supply_def)

lemma ledger_transfer:
  assumes "sdb_inv K s" and "v \<le> balance_of (world K s) a"
  shows "ledger K s (snd (sdb_AddBalance K b v (snd (sdb_SubBalance K a v s))))"
proof -
  let ?s1 = "snd (sdb_SubBalance K a v s)"
  have ext: "extends K s ?s1" by (rule SubBalance_extends)
  then have inv1: "sdb_inv K ?s1" using assms(1) by (simp add: extends_def)
  show ?thesis
    using total_move [of v "balance_of (world K s)" a b] assms(2) extends_trans [OF ext AddBalance_extends]
    by (simp add: ledger_def ether_supply_def AddBalance_ledger [OF inv1] SubBalance_ledger [OF assms(1)])
qed

lemma ledger_give:
  assumes "sdb_inv K s" and "a \<noteq> b" and "v \<le> balance_of (world K s) a"
  shows "ledger K s (snd (sdb_SubBalance K a v (snd (sdb_AddBalance K b v s))))"
proof -
  let ?s1 = "snd (sdb_AddBalance K b v s)"
  have ext: "extends K s ?s1" by (rule AddBalance_extends)
  then have inv1: "sdb_inv K ?s1" using assms(1) by (simp add: extends_def)
  show ?thesis
    using total_give [of a b v "balance_of (world K s)"] assms(2,3) extends_trans [OF ext SubBalance_extends]
    by (simp add: ledger_def ether_supply_def SubBalance_ledger [OF inv1] AddBalance_ledger [OF assms(1)])
qed

lemma ledger_burn:
  assumes "sdb_inv K s" and "v \<le> balance_of (world K s) a"
  shows "ledger K s (snd (sdb_SubBalance K a v s))"
  using total_sub [of v "balance_of (world K s)" a] assms(2) SubBalance_extends [of K s a v]
  by (simp add: ledger_def ether_supply_def SubBalance_ledger [OF assms(1)])

lemma ledger_nonce:
  assumes "sdb_inv K s" and "nonce_of (world K s) a \<le> n"
  shows "ledger K s (sdb_SetNonce K a n s)"
  using assms(2) SetNonce_db_extends [of K s a n] by (simp add: ledger_def ether_supply_def SetNonce_ledger [OF assms(1)])

lemma ledger_unless: "extends K s s' \<Longrightarrow> (sdb_inv K s \<Longrightarrow> ledger K s s') \<Longrightarrow> ledger K s s'"
  by (auto simp: ledger_def)

lemma ledger_vacuous: "\<not> sdb_inv K s \<Longrightarrow> ledger K s s'"
  by (simp add: ledger_def extends_def)

lemma ledger_same_accounts: "extends K s s' \<Longrightarrow> w_accounts (world K s') = w_accounts (world K s) \<Longrightarrow> ledger K s s'"
  by (rule ledger_keeps) (auto dest: same_accounts_ledger)

text \<open>The operations that keep every balance and nonce.\<close>

lemma ledger_ops:
  "ledger K s (snd (sdb_SetState K a k v s))" "ledger K s (sdb_SelfDestruct K a s)" "ledger K s (snd (sdb_AddBalance K a 0 s))"
  "loaded K s a \<Longrightarrow> ledger K s (snd (sdb_SetCode K a c s))"
  "w_accounts (world K s) a = None \<Longrightarrow> ledger K s (sdb_CreateAccount K a s)"
  "sdb_CreateContract K a s = Some s' \<Longrightarrow> ledger K s s'"
  "ledger K s (sdb_AddRefund g s)" "sdb_SubRefund g s = Some s' \<Longrightarrow> ledger K s s'" "ledger K s (sdb_SetTransientState a k v s)"
  "ledger K s (sdb_AddLog l s)" "ledger K s (sdb_AddPreimage h d s)" "ledger K s (sdb_AddAddressToAccessList a s)"
  "sdb_AddSlotToAccessList a k s = Some s' \<Longrightarrow> ledger K s s'" "ledger K s (snd (sdb_Snapshot s))"
proof -
  show "ledger K s (snd (sdb_SetState K a k v s))" by (rule ledger_keeps [OF SetState_db_extends]) (simp_all add: SetState_ledger)
  show "ledger K s (sdb_SelfDestruct K a s)" by (rule ledger_keeps [OF SelfDestruct_extends]) (simp_all add: SelfDestruct_ledger)
  show "ledger K s (snd (sdb_AddBalance K a 0 s))" by (rule ledger_keeps [OF AddBalance_extends]) (simp_all add: AddBalance_ledger)
  show "loaded K s a \<Longrightarrow> ledger K s (snd (sdb_SetCode K a c s))"
    by (rule ledger_keeps [OF SetCode_db_extends]) (simp_all add: SetCode_ledger)
  show "ledger K s (sdb_CreateAccount K a s)" if "w_accounts (world K s) a = None"
  proof (rule ledger_keeps)
    show "extends K s (sdb_CreateAccount K a s)" using that by (intro CreateAccount_extends) (simp add: world_account)
  qed (rule CreateAccount_ledger [OF that])+
  show "ledger K s s'" if "sdb_CreateContract K a s = Some s'"
    by (rule ledger_keeps [OF CreateContract_extends [OF that]]) (rule CreateContract_ledger [OF _ that], assumption)+
  show "ledger K s (sdb_AddRefund g s)" by (rule ledger_same_accounts [OF AddRefund_extends accounts_kept(1)])
  show "sdb_SubRefund g s = Some s' \<Longrightarrow> ledger K s s'" by (rule ledger_same_accounts [OF SubRefund_extends accounts_kept(2)])
  show "ledger K s (sdb_SetTransientState a k v s)" by (rule ledger_same_accounts [OF SetTransientState_extends accounts_kept(3)])
  show "ledger K s (sdb_AddLog l s)" by (rule ledger_same_accounts [OF AddLog_extends accounts_kept(4)])
  show "ledger K s (sdb_AddPreimage h d s)" by (rule ledger_same_accounts [OF AddPreimage_extends accounts_kept(5)])
  show "ledger K s (sdb_AddAddressToAccessList a s)" by (rule ledger_same_accounts [OF AddAddress_extends accounts_kept(6)])
  show "sdb_AddSlotToAccessList a k s = Some s' \<Longrightarrow> ledger K s s'" by (rule ledger_same_accounts [OF AddSlot_extends accounts_kept(7)])
  show "ledger K s (snd (sdb_Snapshot s))" by (rule ledger_same_accounts [OF _ accounts_kept(8)]) (metis Snapshot_extends prod.collapse)
qed

end
