(* ===== verification/State_Machine.thy ===== *)
theory State_Machine
  imports Evm_Journal State_Ledger
begin

text \<open>
  The virtual machine on the state database. The methods of the database that \<^verbatim>\<open>src/go-ethereum/core/vm/interface.go\<close>
  asks for are the operations of \<open>State_DB\<close>; the machine ignores the values that updates return, and a query leaves
  the database as it was, since what it changes are caches and a recorded error that no query can see
  (\<open>queries_spec\<close>). A database with these operations is an instance of \<open>journaled\<close>, for the relation \<open>extends\<close> of the
  journal and for the relation \<open>ledger\<close> of honest bookkeeping.
\<close>

section \<open>The database as the machine uses it\<close>

text \<open>
  An account that is made a contract exists by then, and the index of an access list is never broken
  (\<open>AddSlot_total\<close>), so the branches for a nil pointer and an index out of range are not taken.
\<close>

definition sdb_methods :: "(bytes \<Rightarrow> bytes) \<Rightarrow> 't state_db StateDB" where
  "sdb_methods K =
     \<lparr>CreateAccount = sdb_CreateAccount K,
      CreateContract = (\<lambda>a s. case sdb_CreateContract K a s of None \<Rightarrow> s | Some s' \<Rightarrow> s'),
      SubBalance = (\<lambda>a v s. snd (sdb_SubBalance K a v s)),
      AddBalance = (\<lambda>a v s. snd (sdb_AddBalance K a v s)),
      GetBalance = (\<lambda>s a. fst (sdb_GetBalance K a s)),
      GetNonce = (\<lambda>s a. fst (sdb_GetNonce K a s)),
      SetNonce = sdb_SetNonce K,
      GetCodeHash = (\<lambda>s a. fst (sdb_GetCodeHash K a s)),
      GetCode = (\<lambda>s a. fst (sdb_GetCode K a s)),
      SetCode = (\<lambda>a c s. snd (sdb_SetCode K a c s)),
      GetCodeSize = (\<lambda>s a. fst (sdb_GetCodeSize K a s)),
      AddRefund = sdb_AddRefund,
      SubRefund = sdb_SubRefund,
      GetRefund = sdb_GetRefund,
      GetStateAndCommittedState = (\<lambda>s a k. fst (sdb_GetStateAndCommittedState K a k s)),
      GetState = (\<lambda>s a k. fst (sdb_GetState K a k s)),
      SetState = (\<lambda>a k v s. snd (sdb_SetState K a k v s)),
      GetStorageRoot = (\<lambda>s a. fst (sdb_GetStorageRoot K a s)),
      GetTransientState = sdb_GetTransientState,
      SetTransientState = sdb_SetTransientState,
      SelfDestruct = sdb_SelfDestruct K,
      HasSelfDestructed = (\<lambda>s a. fst (sdb_HasSelfDestructed K a s)),
      Exist = (\<lambda>s a. fst (sdb_Exist K a s)),
      IsNewContract = (\<lambda>s a. fst (sdb_IsNewContract K a s)),
      Empty = (\<lambda>s a. fst (sdb_Empty K a s)),
      AddressInAccessList = sdb_AddressInAccessList,
      SlotInAccessList = (\<lambda>s a k. case sdb_SlotInAccessList s a k of None \<Rightarrow> (False, False) | Some r \<Rightarrow> r),
      AddAddressToAccessList = sdb_AddAddressToAccessList,
      AddSlotToAccessList = (\<lambda>a k s. case sdb_AddSlotToAccessList a k s of None \<Rightarrow> s | Some s' \<Rightarrow> s'),
      RevertToSnapshot = sdb_RevertToSnapshot K,
      Snapshot = sdb_Snapshot,
      AddLog = sdb_AddLog,
      AddPreimage = sdb_AddPreimage\<rparr>"

definition sdb_env :: "(bytes \<Rightarrow> bytes) \<Rightarrow> uint256_lib \<Rightarrow> (Address \<Rightarrow> u64 \<Rightarrow> bytes) \<Rightarrow> 't state_db env" where
  "sdb_env K u rlp = \<lparr>DB = sdb_methods K, U = u, Keccak256 = K, rlp_create = rlp\<rparr>"

lemma sdb_env_sels [simp]: "DB (sdb_env K u rlp) = sdb_methods K" "Keccak256 (sdb_env K u rlp) = K"
  by (simp_all add: sdb_env_def)

lemma Exist_object_at: "fst (sdb_Exist K a s) \<longleftrightarrow> object_at K s a \<noteq> None"
proof -
  obtain r s1 where r: "sdb_getStateObject K a s = (r, s1)" by fastforce
  from getStateObject_spec(1) [OF r] r show ?thesis by (auto simp: sdb_Exist_def query_def split: option.split)
qed

lemma loaded_by_hash:
  assumes inv: "sdb_inv K s" and hash: "fst (sdb_GetCodeHash K a s) = 0 \<or> fst (sdb_GetCodeHash K a s) = hash_of K []"
  shows "loaded K s a"
proof (cases "object_at K s a")
  case None
  then show ?thesis by (simp add: loaded_def)
next
  case (Some obj)
  have ok: "object_ok K a obj" using object_at_ok [OF _ Some] inv by (simp add: sdb_inv_def)
  obtain r s1 where r: "sdb_getStateObject K a s = (r, s1)" by fastforce
  from getStateObject_spec(1) [OF r] r Some have "fst (sdb_GetCodeHash K a s) = BytesToHash (sa_CodeHash (so_data obj))"
    by (simp add: sdb_GetCodeHash_def query_def)
  with hash ok have "BytesToHash (sa_CodeHash (so_data obj)) = hash_of K []" by (auto simp: object_ok_def)
  then have "sa_CodeHash (so_data obj) = hash_bytes (hash_of K [])"
    using hash_bytes_BytesToHash [of "sa_CodeHash (so_data obj)"] ok by (simp add: object_ok_def)
  with Some show ?thesis by (simp add: loaded_def code_known_def)
qed

text \<open>Contexts whose transfer function, and whose check before it, are those of the core.\<close>

definition core_transfers :: "(bytes \<Rightarrow> bytes) \<Rightarrow> 't state_db BlockContext \<Rightarrow> bool" where
  "core_transfers K ctx \<longleftrightarrow> Transfer ctx = core_Transfer (sdb_methods K)"

definition core_context :: "(bytes \<Rightarrow> bytes) \<Rightarrow> 't state_db BlockContext \<Rightarrow> bool" where
  "core_context K ctx \<longleftrightarrow> core_transfers K ctx \<and> CanTransfer ctx = core_CanTransfer (sdb_methods K)"

section \<open>The two instances\<close>

lemma sdb_methods_sels:
  "CreateAccount (sdb_methods K) = sdb_CreateAccount K"
  "CreateContract (sdb_methods K) = (\<lambda>a s. case sdb_CreateContract K a s of None \<Rightarrow> s | Some s' \<Rightarrow> s')"
  "SubBalance (sdb_methods K) = (\<lambda>a v s. snd (sdb_SubBalance K a v s))" "AddBalance (sdb_methods K) = (\<lambda>a v s. snd (sdb_AddBalance K a v s))"
  "SetNonce (sdb_methods K) = sdb_SetNonce K" "SetCode (sdb_methods K) = (\<lambda>a c s. snd (sdb_SetCode K a c s))"
  "AddRefund (sdb_methods K) = sdb_AddRefund" "SubRefund (sdb_methods K) = sdb_SubRefund"
  "SetState (sdb_methods K) = (\<lambda>a k v s. snd (sdb_SetState K a k v s))" "SetTransientState (sdb_methods K) = sdb_SetTransientState"
  "SelfDestruct (sdb_methods K) = sdb_SelfDestruct K" "AddAddressToAccessList (sdb_methods K) = sdb_AddAddressToAccessList"
  "AddSlotToAccessList (sdb_methods K) = (\<lambda>a k s. case sdb_AddSlotToAccessList a k s of None \<Rightarrow> s | Some s' \<Rightarrow> s')"
  "RevertToSnapshot (sdb_methods K) = sdb_RevertToSnapshot K" "Snapshot (sdb_methods K) = sdb_Snapshot"
  "AddLog (sdb_methods K) = sdb_AddLog" "AddPreimage (sdb_methods K) = sdb_AddPreimage"
  "GetBalance (sdb_methods K) = (\<lambda>s a. fst (sdb_GetBalance K a s))" "GetNonce (sdb_methods K) = (\<lambda>s a. fst (sdb_GetNonce K a s))"
  "GetCodeHash (sdb_methods K) = (\<lambda>s a. fst (sdb_GetCodeHash K a s))" "Exist (sdb_methods K) = (\<lambda>s a. fst (sdb_Exist K a s))"
  "GetCode (sdb_methods K) = (\<lambda>s a. fst (sdb_GetCode K a s))" "GetRefund (sdb_methods K) = sdb_GetRefund"
  by (simp_all add: sdb_methods_def)

lemma core_Transfer_sdb: "core_transfers K ctx \<Longrightarrow> Transfer ctx a b v s = snd (sdb_AddBalance K b v (snd (sdb_SubBalance K a v s)))"
  by (simp add: core_transfers_def core_Transfer_def sdb_methods_sels)

text \<open>What the machine reads of balances and nonces.\<close>

lemma ledger_queries:
  assumes "sdb_inv K s"
  shows "fst (sdb_GetBalance K a s) = balance_of (world K s) a" and "fst (sdb_GetNonce K a s) = nonce_of (world K s) a"
  using queries_spec(3,4) [of K s a] assms by (metis balance_of_def prod.collapse sdb_inv_def, metis nonce_of_def prod.collapse sdb_inv_def)

lemma Exist_world: "sdb_inv K s \<Longrightarrow> fst (sdb_Exist K a s) \<longleftrightarrow> w_accounts (world K s) a \<noteq> None"
  by (simp add: Exist_object_at world_account)

lemma extends_moves:
  "extends K s (snd (sdb_AddBalance K b v (snd (sdb_SubBalance K a v' s))))"
  "extends K s (snd (sdb_SubBalance K a v (snd (sdb_AddBalance K b v' s))))"
  by (rule extends_trans [OF SubBalance_extends AddBalance_extends] extends_trans [OF AddBalance_extends SubBalance_extends])+

text \<open>The nonce of an account before its contract is created, whatever the relation.\<close>

lemma nonce_laws:
  assumes "sdb_inv K d"
  shows "sdb_Snapshot d = (i, d1) \<Longrightarrow> fst (sdb_GetNonce K a d1) = fst (sdb_GetNonce K a d)"
    and "\<not> fst (sdb_Exist K a d) \<Longrightarrow> fst (sdb_GetNonce K a (sdb_CreateAccount K a d)) = 0"
    and "fst (sdb_GetNonce K a (case sdb_CreateContract K a d of None \<Rightarrow> d | Some d' \<Rightarrow> d')) = fst (sdb_GetNonce K a d)"
proof -
  have inv: "extends K d d' \<Longrightarrow> sdb_inv K d'" for d' using assms by (simp add: extends_def)
  show "fst (sdb_GetNonce K a d1) = fst (sdb_GetNonce K a d)" if "sdb_Snapshot d = (i, d1)"
  proof -
    have d1: "d1 = snd (sdb_Snapshot d)" using that by simp
    from inv [OF Snapshot_extends [OF that]] assms same_accounts_ledger(2) [OF accounts_kept(8) [of K d]]
    show ?thesis by (simp add: ledger_queries d1)
  qed
  show "fst (sdb_GetNonce K a (sdb_CreateAccount K a d)) = 0" if "\<not> fst (sdb_Exist K a d)"
  proof -
    have new: "w_accounts (world K d) a = None" "object_at K d a = None" using that by (simp_all add: Exist_object_at world_account)
    have "nonce_of (world K d) a = 0" using new(1) by (simp add: nonce_of_def)
    then show ?thesis using inv [OF CreateAccount_extends [OF new(2)]] CreateAccount_ledger(2) [OF new(1)] by (simp add: ledger_queries)
  qed
  show "fst (sdb_GetNonce K a (case sdb_CreateContract K a d of None \<Rightarrow> d | Some d' \<Rightarrow> d')) = fst (sdb_GetNonce K a d)"
  proof (cases "sdb_CreateContract K a d")
    case (Some d')
    with inv [OF CreateContract_extends [OF Some]] CreateContract_ledger(2) [OF assms Some] assms show ?thesis
      by (simp add: ledger_queries)
  qed simp
qed

interpretation sdb: journaled "sdb_env K u rlp" "core_transfers K" "\<lambda>_ _ _. True" "sdb_inv K" "loaded K" "world K" "extends K"
  for K :: "bytes \<Rightarrow> bytes" and u :: uint256_lib and rlp :: "Address \<Rightarrow> u64 \<Rightarrow> bytes"
proof unfold_locales
  fix d d' d'' :: "'a state_db" and a :: Address
  show "extends K d d" by (rule extends_refl)
  show "extends K d d' \<Longrightarrow> extends K d' d'' \<Longrightarrow> extends K d d''" by (rule extends_trans)
  show "\<not> sdb_inv K d \<Longrightarrow> extends K d d'" by (simp add: extends_def)
  show "extends K d d' \<Longrightarrow> sdb_inv K d \<Longrightarrow> sdb_inv K d'" by (simp add: extends_def)
  show "extends K d d' \<Longrightarrow> sdb_inv K d \<Longrightarrow> loaded K d a \<Longrightarrow> loaded K d' a" by (simp add: extends_def)
  show "\<not> Exist (DB (sdb_env K u rlp)) d a \<Longrightarrow> extends K d (CreateAccount (DB (sdb_env K u rlp)) a d)"
    by (simp add: sdb_methods_sels Exist_object_at CreateAccount_extends)
  show "extends K d (CreateContract (DB (sdb_env K u rlp)) a d)"
    by (auto simp: sdb_methods_sels extends_refl intro: CreateContract_extends split: option.split)
  show "extends K d (AddSlotToAccessList (DB (sdb_env K u rlp)) a k d)" for k
    by (auto simp: sdb_methods_sels extends_refl intro: AddSlot_extends split: option.split)
  show "core_transfers K ctx \<Longrightarrow> sdb_inv K d \<Longrightarrow> True \<Longrightarrow> extends K d (Transfer ctx a b v d)" for ctx b v
    by (simp add: core_Transfer_sdb extends_moves)
  show "sdb_inv K d \<Longrightarrow> GetCodeHash (DB (sdb_env K u rlp)) d a = 0 \<or>
      GetCodeHash (DB (sdb_env K u rlp)) d a = EmptyCodeHash (sdb_env K u rlp) \<Longrightarrow> loaded K d a"
    by (rule loaded_by_hash) (simp_all add: sdb_methods_sels EmptyCodeHash_def Keccak256Hash_def hash_of_def)
  show "sdb_inv K d \<Longrightarrow> Snapshot (DB (sdb_env K u rlp)) d = (i, d') \<Longrightarrow> extends K d' d'' \<Longrightarrow>
      \<exists>d3. RevertToSnapshot (DB (sdb_env K u rlp)) i d'' = Some d3 \<and> extends K d d3 \<and> world K d3 = world K d" for i
    using snapshot_restores [of K d i d' d''] by (auto simp: sdb_methods_sels)
qed (simp_all add: sdb_methods_sels extends_moves SubBalance_extends AddBalance_extends SetNonce_db_extends SetState_db_extends
  SetCode_db_extends AddRefund_extends SubRefund_extends SetTransientState_extends SelfDestruct_extends AddAddress_extends AddLog_extends
  AddPreimage_extends Snapshot_extends nonce_laws)

text \<open>The same machine keeps the books: value is only moved or destroyed, and nonces only grow.\<close>

lemma ledger_restores:
  assumes "sdb_inv K d" and "sdb_Snapshot d = (i, d1)" and "ledger K d1 d2"
  shows "\<exists>d3. sdb_RevertToSnapshot K i d2 = Some d3 \<and> ledger K d d3 \<and> world K d3 = world K d"
proof -
  obtain d3 where "sdb_RevertToSnapshot K i d2 = Some d3" "extends K d d3" "world K d3 = world K d"
    using snapshot_restores [OF assms(1,2) ledger_extends [OF assms(3)]] by blast
  then show ?thesis by (auto simp: ledger_def)
qed

lemma balance_laws:
  assumes "sdb_inv K d"
  shows "sdb_Snapshot d = (i, d1) \<Longrightarrow> balance_of (world K d1) = balance_of (world K d)"
    and "\<not> fst (sdb_Exist K b d) \<Longrightarrow> balance_of (world K (sdb_CreateAccount K b d)) = balance_of (world K d)"
    and "balance_of (world K (case sdb_CreateContract K b d of None \<Rightarrow> d | Some d' \<Rightarrow> d')) = balance_of (world K d)"
    and "balance_of (world K (sdb_SetNonce K b n d)) = balance_of (world K d)"
    and "balance_of (world K (sdb_AddAddressToAccessList b d)) = balance_of (world K d)"
proof -
  show "sdb_Snapshot d = (i, d1) \<Longrightarrow> balance_of (world K d1) = balance_of (world K d)"
    using same_accounts_ledger(1) [OF accounts_kept(8) [of K d]] by simp
  show "\<not> fst (sdb_Exist K b d) \<Longrightarrow> balance_of (world K (sdb_CreateAccount K b d)) = balance_of (world K d)"
    by (rule CreateAccount_ledger) (simp add: Exist_world [OF assms])
  show "balance_of (world K (case sdb_CreateContract K b d of None \<Rightarrow> d | Some d' \<Rightarrow> d')) = balance_of (world K d)"
    using CreateContract_ledger(1) [OF assms, of b] by (cases "sdb_CreateContract K b d") simp_all
  show "balance_of (world K (sdb_SetNonce K b n d)) = balance_of (world K d)" by (rule SetNonce_ledger(1) [OF assms])
  show "balance_of (world K (sdb_AddAddressToAccessList b d)) = balance_of (world K d)"
    by (rule same_accounts_ledger(1) [OF accounts_kept(6)])
qed

lemma ledger_spending:
  shows "ledger K d (snd (sdb_SubBalance K a (fst (sdb_GetBalance K a d)) d))"
    and "a \<noteq> b \<Longrightarrow> ledger K d (snd (sdb_SubBalance K a (fst (sdb_GetBalance K a d)) (snd (sdb_AddBalance K b (fst (sdb_GetBalance K a d)) d))))"
    and "a \<noteq> b \<Longrightarrow> ledger K d (snd (sdb_AddBalance K b (fst (sdb_GetBalance K a d)) (snd (sdb_SubBalance K a (fst (sdb_GetBalance K a d)) d))))"
  by (rule ledger_unless; simp add: SubBalance_extends extends_moves ledger_queries ledger_burn ledger_give ledger_transfer)+

lemma ledger_nonces:
  "\<not> fst (sdb_GetNonce K a d) + 1 < fst (sdb_GetNonce K a d) \<Longrightarrow> ledger K d (sdb_SetNonce K a (fst (sdb_GetNonce K a d) + 1) d)"
  "fst (sdb_GetNonce K a d) = 0 \<Longrightarrow> ledger K d (sdb_SetNonce K a 1 d)"
  by (rule ledger_unless; simp add: SetNonce_db_extends ledger_queries ledger_nonce not_less)+

interpretation books: journaled "sdb_env K u rlp" "core_context K" "\<lambda>d a v. v \<le> balance_of (world K d) a" "sdb_inv K" "loaded K"
    "world K" "ledger K"
  for K :: "bytes \<Rightarrow> bytes" and u :: uint256_lib and rlp :: "Address \<Rightarrow> u64 \<Rightarrow> bytes"
proof unfold_locales
  fix d d' d'' :: "'a state_db" and a :: Address
  show "ledger K d d" by (rule ledger_refl)
  show "ledger K d d' \<Longrightarrow> ledger K d' d'' \<Longrightarrow> ledger K d d''" by (rule ledger_trans)
  show "\<not> sdb_inv K d \<Longrightarrow> ledger K d d'" by (rule ledger_vacuous)
  show "ledger K d d' \<Longrightarrow> sdb_inv K d \<Longrightarrow> sdb_inv K d'" by (simp add: ledger_def extends_def)
  show "ledger K d d' \<Longrightarrow> sdb_inv K d \<Longrightarrow> loaded K d a \<Longrightarrow> loaded K d' a" by (simp add: ledger_def extends_def)
  show "\<not> Exist (DB (sdb_env K u rlp)) d a \<Longrightarrow> ledger K d (CreateAccount (DB (sdb_env K u rlp)) a d)"
    by (simp add: sdb_methods_sels Exist_object_at ledger_ops(5) world_account)
  show "ledger K d (CreateContract (DB (sdb_env K u rlp)) a d)"
    by (auto simp: sdb_methods_sels ledger_refl intro: ledger_ops(6) split: option.split)
  show "ledger K d (AddSlotToAccessList (DB (sdb_env K u rlp)) a k d)" for k
    by (auto simp: sdb_methods_sels ledger_refl intro: ledger_ops(13) split: option.split)
  show "core_context K ctx \<Longrightarrow> sdb_inv K d \<Longrightarrow> v \<le> balance_of (world K d) a \<Longrightarrow> ledger K d (Transfer ctx a b v d)" for ctx b v
    using core_Transfer_sdb [of K ctx a b v d] ledger_transfer [of K d v a b] by (simp add: core_context_def)
  show "core_context K ctx \<Longrightarrow> sdb_inv K d \<Longrightarrow> v = 0 \<or> CanTransfer ctx d a v \<Longrightarrow> v \<le> balance_of (world K d) a" for ctx v
    by (auto simp: core_context_def core_CanTransfer_def sdb_methods_sels ledger_queries)
  show "sdb_inv K d \<Longrightarrow> GetCodeHash (DB (sdb_env K u rlp)) d a = 0 \<or>
      GetCodeHash (DB (sdb_env K u rlp)) d a = EmptyCodeHash (sdb_env K u rlp) \<Longrightarrow> loaded K d a"
    by (rule loaded_by_hash) (simp_all add: sdb_methods_sels EmptyCodeHash_def Keccak256Hash_def hash_of_def)
  show "sdb_inv K d \<Longrightarrow> Snapshot (DB (sdb_env K u rlp)) d = (i, d') \<Longrightarrow> ledger K d' d'' \<Longrightarrow>
      \<exists>d3. RevertToSnapshot (DB (sdb_env K u rlp)) i d'' = Some d3 \<and> ledger K d d3 \<and> world K d3 = world K d" for i
    using ledger_restores [of K d i d' d''] by (simp add: sdb_methods_sels)
  show "Snapshot (DB (sdb_env K u rlp)) d = (i, d') \<Longrightarrow> ledger K d d'" for i
    using ledger_ops(14) [of K d] by (simp add: sdb_methods_sels)
qed (simp_all add: sdb_methods_sels ledger_ops ledger_spending ledger_nonces balance_laws nonce_laws)

end
