(* ===== verification/State_Final.thy ===== *)
theory State_Final
  imports State_Spec
begin

text \<open>
  The end of a transaction (\<open>Finalise\<close>) and the databases a block can reach: every one of them is in the invariant of
  the journal, so the facts about snapshots hold of it.
\<close>

section \<open>Finalising an object\<close>

definition settled :: "account \<Rightarrow> account" where
  "settled acc = acc\<lparr>a_committed := a_storage acc, a_newContract := False\<rparr>"

text \<open>What one slot does: the committed view takes the value, everything else stays.\<close>

lemma finalise_slot_spec:
  assumes "finalise_slot (obj, s) (key, v) = (obj', s')"
  shows "committed_view s obj' = (committed_view s obj)(key := v)" "dirtyStorage obj' = dirtyStorage obj" "reads K s s'"
    "so_address obj' = so_address obj" "so_data obj' = so_data obj" "so_code obj' = so_code obj"
    "selfDestructed obj' = selfDestructed obj" "s_stateObjects s' = s_stateObjects s"
proof -
  obtain obj1 where o: "obj' = obj1\<lparr>pendingStorage := AList.update key v (pendingStorage obj1)\<rparr>"
    and 1: "committed_view s obj1 = committed_view s obj" "dirtyStorage obj1 = dirtyStorage obj" "reads K s s'"
    "so_address obj1 = so_address obj" "so_data obj1 = so_data obj" "so_code obj1 = so_code obj"
    "selfDestructed obj1 = selfDestructed obj" "s_stateObjects s' = s_stateObjects s"
  proof (cases "map_of (uncommittedStorage obj) key")
    case (Some origin)
    have "committed_view s (obj\<lparr>uncommittedStorage := u\<rparr>) = committed_view s obj" for u
      by (rule committed_view_cong) simp_all
    with Some assms that [of obj] that [of "obj\<lparr>uncommittedStorage := AList.delete key (uncommittedStorage obj)\<rparr>"] show ?thesis
      by (cases "origin = v") (auto simp: finalise_slot_def Let_def)
  next
    case None
    obtain c obj2 s2 where get: "so_GetCommittedState key obj s = (c, obj2, s2)" by (cases "so_GetCommittedState key obj s") auto
    note spec = so_GetCommittedState_spec [OF get]
    have c: "committed_view s (obj2\<lparr>uncommittedStorage := u\<rparr>) = committed_view s obj2" for u
      by (rule committed_view_cong) simp_all
    have v: "so_view K s obj2 = so_view K s obj" "so_address obj2 = so_address obj" using spec(3) [of K] by (simp_all add: obj_reads_def)
    then have "committed_view s obj2 = committed_view s obj" "so_data obj2 = so_data obj" "selfDestructed obj2 = selfDestructed obj"
      by (simp_all add: so_view_def)
    moreover have "so_code obj2 = so_code obj" using get by (auto simp: so_GetCommittedState_def Let_def split: option.splits if_splits sum.splits)
    ultimately show ?thesis
      using None assms get spec(2,4,8) v(2) c that [of "obj2\<lparr>uncommittedStorage := AList.update key c (uncommittedStorage obj2)\<rparr>"]
      by (simp add: finalise_slot_def Let_def)
  qed
  have "committed_view s obj' = (committed_view s obj1)(key := v)"
    by (auto simp: o committed_view_def update_conv' fun_eq_iff split: option.split)
  with 1 show "committed_view s obj' = (committed_view s obj)(key := v)" by simp
  from 1 o show "dirtyStorage obj' = dirtyStorage obj" "reads K s s'" "so_address obj' = so_address obj" "so_data obj' = so_data obj"
    "so_code obj' = so_code obj" "selfDestructed obj' = selfDestructed obj" "s_stateObjects s' = s_stateObjects s" by simp_all
qed

lemma finalise_slots_spec:
  assumes "foldl finalise_slot (obj, s) kvs = (obj', s')" "distinct (map fst kvs)"
  shows "committed_view s obj' = (\<lambda>k. case map_of kvs k of Some v \<Rightarrow> v | None \<Rightarrow> committed_view s obj k) \<and>
    dirtyStorage obj' = dirtyStorage obj \<and> reads K s s' \<and> so_address obj' = so_address obj \<and> so_data obj' = so_data obj \<and>
    so_code obj' = so_code obj \<and> selfDestructed obj' = selfDestructed obj \<and> s_stateObjects s' = s_stateObjects s"
  using assms
proof (induction kvs arbitrary: obj s)
  case (Cons kv kvs)
  obtain key v where kv: "kv = (key, v)" by fastforce
  obtain obj1 s1 where 1: "finalise_slot (obj, s) (key, v) = (obj1, s1)" by fastforce
  note sl = finalise_slot_spec [OF 1]
  have base: "same_base s s1" using sl(3) [of K] by (simp add: reads_def)
  from Cons.IH [of obj1 s1] Cons.prems 1 kv
  have IH: "committed_view s1 obj' = (\<lambda>k. case map_of kvs k of Some v \<Rightarrow> v | None \<Rightarrow> committed_view s1 obj1 k)"
    "dirtyStorage obj' = dirtyStorage obj1" "reads K s1 s'" "so_address obj' = so_address obj1" "so_data obj' = so_data obj1"
    "so_code obj' = so_code obj1" "selfDestructed obj' = selfDestructed obj1" "s_stateObjects s' = s_stateObjects s1" by auto
  have "map_of kvs key = None" using Cons.prems(2) kv by (simp add: map_of_eq_None_iff)
  then have "committed_view s obj' = (\<lambda>k. case map_of (kv # kvs) k of Some v \<Rightarrow> v | None \<Rightarrow> committed_view s obj k)"
    using IH(1) sl(1) views_base(1) [OF base] by (auto simp: kv fun_eq_iff split: option.split)
  with IH sl(2,4-8) reads_trans [OF sl(3) IH(3)] show ?case by simp
qed (auto simp: fun_eq_iff)

lemma so_finalise_spec:
  assumes "so_finalise obj s = (obj', s')" "distinct (map fst (dirtyStorage obj))"
  shows "so_view K s obj' = settled (so_view K s obj)" "reads K s s'" "so_address obj' = so_address obj" "dirtyStorage obj' = []"
    "so_data obj' = so_data obj" "so_code obj' = so_code obj" "s_stateObjects s' = s_stateObjects s"
proof -
  obtain obj1 where f: "foldl finalise_slot (obj, s) (dirtyStorage obj) = (obj1, s')" and o: "obj' = obj1\<lparr>dirtyStorage := [], newContract := False\<rparr>"
    using assms(1) by (auto simp: so_finalise_def Let_def split: prod.splits)
  note 1 = finalise_slots_spec [OF f assms(2), of K]
  have c: "committed_view s obj' = committed_view s obj1" by (rule committed_view_cong) (simp_all add: o)
  also have "\<dots> = storage_view s obj" using 1 by (auto simp: storage_view_def fun_eq_iff)
  finally have c': "committed_view s obj' = storage_view s obj" .
  then have "storage_view s obj' = storage_view s obj" by (simp add: storage_view_def o fun_eq_iff)
  with c' 1 show "so_view K s obj' = settled (so_view K s obj)"
    by (intro account_eqI) (simp_all add: so_view_def settled_def o code_view_def)
  from 1 o show "reads K s s'" "so_address obj' = so_address obj" "dirtyStorage obj' = []"
    "so_data obj' = so_data obj" "so_code obj' = so_code obj" "s_stateObjects s' = s_stateObjects s" by simp_all
qed

section \<open>Finalising accounts\<close>

text \<open>Maps are association lists without double keys.\<close>

definition slots_ok :: "'t state_db \<Rightarrow> bool" where
  "slots_ok s \<longleftrightarrow> (\<forall>a obj. map_of (s_stateObjects s) a = Some obj \<longrightarrow> distinct (map fst (dirtyStorage obj)))"

definition maps_ok :: "'t state_db \<Rightarrow> bool" where
  "maps_ok s \<longleftrightarrow> distinct (map fst (j_dirties (s_journal s))) \<and> slots_ok s"

definition final_account :: "(bytes \<Rightarrow> bytes) \<Rightarrow> bool \<Rightarrow> account \<Rightarrow> account option" where
  "final_account K del acc = (if a_selfDestructed acc \<or> del \<and> a_empty K acc then None else Some (settled acc))"

lemma so_view_parts:
  assumes "s_reader s' = s_reader s"
    "map_of (s_stateObjectsDestruct s') (so_address obj) = None \<longleftrightarrow> map_of (s_stateObjectsDestruct s) (so_address obj) = None"
  shows "so_view K s' obj = so_view K s obj"
proof -
  have "committed_view s' obj = committed_view s obj"
    using assms by (intro ext) (auto simp: committed_view_def split: option.split)
  moreover have "storage_view s' obj = storage_view s obj"
    using calculation by (intro ext) (simp add: storage_view_def split: option.split)
  ultimately show ?thesis by (simp add: so_view_def code_view_def assms(1))
qed

lemma deleted_world:
  assumes ok: "objects_ok K s" and s': "s_reader s' = s_reader s" "map_of (s_stateObjects s') = (map_of (s_stateObjects s))(x := None)"
    "map_of (s_stateObjectsDestruct s') x \<noteq> None"
    "\<And>b. b \<noteq> x \<Longrightarrow> map_of (s_stateObjectsDestruct s') b = map_of (s_stateObjectsDestruct s) b"
  shows "w_accounts (world K s') = (w_accounts (world K s))(x := None)"
proof
  fix b
  show "w_accounts (world K s') b = ((w_accounts (world K s))(x := None)) b"
  proof (cases "b = x")
    case True
    then show ?thesis using s' by (simp add: world_account object_at_def stored_object_def)
  next
    case False
    then have at: "object_at K s' b = object_at K s b" using s' by (simp add: object_at_def stored_object_def cong: option.case_cong)
    have "so_view K s' obj = so_view K s obj" if "object_at K s b = Some obj" for obj
      using object_at_ok [OF ok that] s' False by (intro so_view_parts) (simp_all add: object_ok_def)
    with at False show ?thesis by (cases "object_at K s b") (simp_all add: world_account)
  qed
qed

text \<open>The parts of a database that finalising accounts does not change.\<close>

definition same_rest :: "'t state_db \<Rightarrow> 't state_db \<Rightarrow> bool" where
  "same_rest s s' \<longleftrightarrow>
     s_reader s' = s_reader s \<and> s_journal s' = s_journal s \<and> s_logs s' = s_logs s \<and> s_logSize s' = s_logSize s \<and>
     s_transientStorage s' = s_transientStorage s \<and> s_accessList s' = s_accessList s \<and> s_thash s' = s_thash s"

lemma same_rest_refl [simp]: "same_rest s s"
  by (simp add: same_rest_def)

lemma same_rest_trans: "same_rest s s' \<Longrightarrow> same_rest s' s'' \<Longrightarrow> same_rest s s''"
  by (simp add: same_rest_def)


lemma so_GetCommittedState_rest:
  "so_GetCommittedState key obj s = (v, obj', s') \<Longrightarrow>
     s_logs s' = s_logs s \<and> s_logSize s' = s_logSize s \<and> s_transientStorage s' = s_transientStorage s"
  by (auto simp: so_GetCommittedState_def Let_def split: option.splits if_splits sum.splits)

lemma finalise_slots_logs:
  "foldl finalise_slot (obj, s) kvs = (obj', s') \<Longrightarrow>
     s_logs s' = s_logs s \<and> s_logSize s' = s_logSize s \<and> s_transientStorage s' = s_transientStorage s"
proof (induction kvs arbitrary: obj s)
  case (Cons kv kvs)
  obtain obj1 s1 where 1: "finalise_slot (obj, s) kv = (obj1, s1)" by fastforce
  then have "s_logs s1 = s_logs s \<and> s_logSize s1 = s_logSize s \<and> s_transientStorage s1 = s_transientStorage s"
    by (cases kv) (auto simp: finalise_slot_def Let_def dest: so_GetCommittedState_rest split: option.splits if_splits prod.splits)
  with Cons 1 show ?case by simp
qed simp

lemma finalise_logs:
  "so_finalise obj s = (obj', s') \<Longrightarrow>
     s_logs s' = s_logs s \<and> s_logSize s' = s_logSize s \<and> s_transientStorage s' = s_transientStorage s"
  by (auto simp: so_finalise_def Let_def dest: finalise_slots_logs split: prod.splits)

lemma finalise_account_spec:
  assumes ok: "objects_ok K s" and slots: "slots_ok s"
    and s': "s' = finalise_account K del s x"
  shows "w_accounts (world K s') = (w_accounts (world K s))(x := if map_of (s_stateObjects s) x = None then w_accounts (world K s) x
      else Option.bind (w_accounts (world K s) x) (final_account K del))" (is ?world)
    "\<And>b. b \<noteq> x \<Longrightarrow> map_of (s_stateObjects s') b = map_of (s_stateObjects s) b" "same_rest s s'" "objects_ok K s'"
    "slots_ok s'"
proof -
  have "?world \<and> (\<forall>b. b \<noteq> x \<longrightarrow> map_of (s_stateObjects s') b = map_of (s_stateObjects s) b) \<and> same_rest s s' \<and> objects_ok K s' \<and> slots_ok s'"
  proof (cases "map_of (s_stateObjects s) x")
    case None
    with s' ok slots show ?thesis by (simp add: finalise_account_def)
  next
    case (Some obj)
    then have o: "object_ok K x obj" "so_address obj = x" using ok by (simp_all add: objects_ok_def object_ok_def)
    have acc: "w_accounts (world K s) x = Some (so_view K s obj)" using Some by (simp add: world_account object_at_def)
    show ?thesis
    proof (cases "selfDestructed obj \<or> del \<and> so_empty K obj")
      case True
      have run: "s' = (let s1 = sdb_markDelete x (s\<lparr>s_stateObjects := AList.delete x (s_stateObjects s)\<rparr>)
             in if map_of (s_stateObjectsDestruct s1) x = None
                then s1\<lparr>s_stateObjectsDestruct := AList.update x obj (s_stateObjectsDestruct s1)\<rparr> else s1)"
        using s' Some True o(2) by (simp add: finalise_account_def Let_def)
      have live: "map_of (s_stateObjects s') = (map_of (s_stateObjects s))(x := None)"
        by (simp add: run Let_def sdb_markDelete_def mark_def delete_conv')
      have rest: "same_rest s s'" by (simp add: run Let_def sdb_markDelete_def mark_def same_rest_def)
      have "w_accounts (world K s') = (w_accounts (world K s))(x := None)"
        using ok _ live
      proof (rule deleted_world)
        show "s_reader s' = s_reader s" using rest by (simp add: same_rest_def)
        show "map_of (s_stateObjectsDestruct s') x \<noteq> None"
          by (auto simp: run Let_def sdb_markDelete_def mark_def update_conv')
        show "b \<noteq> x \<Longrightarrow> map_of (s_stateObjectsDestruct s') b = map_of (s_stateObjectsDestruct s) b" for b
          by (simp add: run Let_def sdb_markDelete_def mark_def update_conv')
      qed
      moreover have "objects_ok K s'" using ok live rest by (auto simp: objects_ok_def same_rest_def split: if_splits)
      ultimately show ?thesis using rest live Some acc slots True by (auto simp: final_account_def slots_ok_def split: if_splits)
    next
      case False
      obtain obj' s1 where fin: "so_finalise obj s = (obj', s1)" by fastforce
      have "distinct (map fst (dirtyStorage obj))" using slots Some by (simp add: slots_ok_def)
      note spec = so_finalise_spec [OF fin this]
      let ?s2 = "sdb_setStateObject obj' s1"
      have run: "s' = sdb_markUpdate x ?s2" using s' Some False fin by (simp add: finalise_account_def)
      have r: "world K s1 = world K s" "same_base s s1" "objects_ok K s1" "s_journal s1 = s_journal s" "s_accessList s1 = s_accessList s"
        using spec(2) [of K] ok by (simp_all add: reads_def)
      have a': "so_address obj' = x" using spec(3) o(2) by simp
      have view: "so_view K s1 obj' = settled (so_view K s obj)" using spec(1) [of K] views_base(4) [OF r(2)] by simp
      have w2: "w_accounts (world K ?s2) = (w_accounts (world K s))(x \<mapsto> settled (so_view K s obj))"
        by (simp add: world_set a' view r(1))
      have "object_at K s' = object_at K ?s2" "so_view K s' = so_view K ?s2"
        by (auto simp: run sdb_markUpdate_def mark_def object_at_def stored_object_def fun_eq_iff intro: so_view_parts split: option.split)
      then have "w_accounts (world K s') = w_accounts (world K ?s2)" by (simp add: world_def)
      moreover have "objects_ok K ?s2"
      proof (rule objects_ok_set [OF r(3)])
        show "object_ok K (so_address obj') obj'" using o spec(3,5,6) by (simp add: object_ok_def a')
      qed
      then have "objects_ok K s'" by (simp add: run sdb_markUpdate_def mark_def objects_ok_def)
      moreover have "same_rest s s'"
        using r world_sels [of K s1] world_sels [of K s] finalise_logs [OF fin]
        by (simp add: run sdb_markUpdate_def mark_def same_rest_def same_base_def)
      moreover have "map_of (s_stateObjects s') = (map_of (s_stateObjects s))(x \<mapsto> obj')"
        using spec(7) a' by (simp add: run sdb_markUpdate_def mark_def)
      ultimately show ?thesis using w2 Some acc slots False spec(4) by (auto simp: final_account_def slots_ok_def split: if_splits)
    qed
  qed
  then show ?world "\<And>b. b \<noteq> x \<Longrightarrow> map_of (s_stateObjects s') b = map_of (s_stateObjects s) b" "same_rest s s'" "objects_ok K s'"
    "slots_ok s'" by blast+
qed

text \<open>What \<open>Finalise\<close> does to the world.\<close>

definition finalise_world ::
  "(bytes \<Rightarrow> bytes) \<Rightarrow> bool \<Rightarrow> Address set \<Rightarrow> world \<Rightarrow> world" where
  "finalise_world K del A w =
     w\<lparr>w_accounts := (\<lambda>a. if a \<in> A then Option.bind (w_accounts w a) (final_account K del) else w_accounts w a), w_refund := 0\<rparr>"

lemma finalise_accounts_spec:
  assumes "objects_ok K s" "slots_ok s" "distinct xs"
    and "s' = foldl (finalise_account K del) s xs"
  shows "w_accounts (world K s') = (\<lambda>a. if a \<in> set xs \<and> map_of (s_stateObjects s) a \<noteq> None
      then Option.bind (w_accounts (world K s) a) (final_account K del) else w_accounts (world K s) a) \<and> same_rest s s' \<and> objects_ok K s' \<and> slots_ok s'"
  using assms
proof (induction xs arbitrary: s)
  case (Cons x xs)
  let ?s1 = "finalise_account K del s x"
  note one = finalise_account_spec [OF Cons.prems(1,2) refl, where del = del and x = x]
  from Cons.IH [OF one(4,5)] Cons.prems(3,4)
  have IH: "w_accounts (world K s') = (\<lambda>a. if a \<in> set xs \<and> map_of (s_stateObjects ?s1) a \<noteq> None
      then Option.bind (w_accounts (world K ?s1) a) (final_account K del) else w_accounts (world K ?s1) a)"
    "same_rest ?s1 s'" "objects_ok K s'" "slots_ok s'"
    by auto
  have "w_accounts (world K s') a = (if a \<in> set (x # xs) \<and> map_of (s_stateObjects s) a \<noteq> None
      then Option.bind (w_accounts (world K s) a) (final_account K del) else w_accounts (world K s) a)" for a
    using IH(1) one(1) one(2) [of a] Cons.prems(3) by (cases "a = x") auto
  with IH(2-4) same_rest_trans [OF one(3) IH(2)] show ?case by blast
qed simp

text \<open>The accounts it looks at: those the journal counts, as far as they are live.\<close>

definition touched :: "'t state_db \<Rightarrow> Address set" where
  "touched s = {a \<in> fst ` set (j_dirties (s_journal s)). map_of (s_stateObjects s) a \<noteq> None}"

lemma Finalise_spec:
  assumes inv: "sdb_inv K s" and maps: "maps_ok s"
  shows "world K (sdb_Finalise K del s) = finalise_world K del (touched s) (world K s)"
    "sdb_inv K (sdb_Finalise K del s)" "maps_ok (sdb_Finalise K del s)" "s_journal (sdb_Finalise K del s) = newJournal"
proof -
  let ?xs = "map fst (j_dirties (s_journal s))"
  define s1 where "s1 = foldl (finalise_account K del) s ?xs"
  have fin: "sdb_Finalise K del s = sdb_clearJournalAndRefund s1" by (simp add: sdb_Finalise_def s1_def)
  have 1: "w_accounts (world K s1) = (\<lambda>a. if a \<in> set ?xs \<and> map_of (s_stateObjects s) a \<noteq> None
      then Option.bind (w_accounts (world K s) a) (final_account K del) else w_accounts (world K s) a)"
    "same_rest s s1" "objects_ok K s1" "slots_ok s1"
    using finalise_accounts_spec [OF inv_objects [OF inv] _ _ s1_def] maps by (auto simp: maps_ok_def)
  show j: "s_journal (sdb_Finalise K del s) = newJournal"
    by (simp add: fin sdb_clearJournalAndRefund_def journal_reset_def newJournal_def)
  have base: "same_base s1 (sdb_Finalise K del s)" by (simp add: fin sdb_clearJournalAndRefund_def same_base_def)
  have acc: "w_accounts (world K (sdb_Finalise K del s)) = w_accounts (world K s1)"
    by (rule accounts_cong [OF base]) (simp add: fin sdb_clearJournalAndRefund_def)
  then show "world K (sdb_Finalise K del s) = finalise_world K del (touched s) (world K s)"
    unfolding 1(1) using 1(2) by (intro world_eqI) (simp_all add: finalise_world_def touched_def fin sdb_clearJournalAndRefund_def same_rest_def logs_at_def [abs_def])
  show "maps_ok (sdb_Finalise K del s)" using 1(4) j by (auto simp: maps_ok_def slots_ok_def fin sdb_clearJournalAndRefund_def newJournal_def journal_reset_def)
  show "sdb_inv K (sdb_Finalise K del s)"
    using 1(2,3) inv j by (simp add: sdb_inv_def fin sdb_clearJournalAndRefund_def objects_ok_def same_rest_def newJournal_def
      journal_ok_def revisions_ok_def dirties_ok_def)
qed

section \<open>Maps without double keys\<close>

abbreviation dirty_ok :: "'t stateObject \<Rightarrow> bool" where
  "dirty_ok obj \<equiv> distinct (map fst (dirtyStorage obj))"

lemma maps_ok_append [simp]: "maps_ok s \<Longrightarrow> maps_ok (jappend e s)"
  by (auto simp: maps_ok_def slots_ok_def journal_append_def journal_dirty_def distinct_update Let_def split: option.splits)

lemma maps_ok_touch [simp]: "maps_ok s \<Longrightarrow> maps_ok (so_touch obj s)"
  by (auto simp: so_touch_def maps_ok_def slots_ok_def journal_touchChange_def journal_append_def journal_dirty_def distinct_update Let_def
      split: option.splits)

lemma maps_ok_set: "maps_ok s \<Longrightarrow> dirty_ok obj \<Longrightarrow> maps_ok (sdb_setStateObject obj s)"
  by (auto simp: maps_ok_def slots_ok_def)

lemma maps_ok_same: "maps_ok s \<Longrightarrow> s_stateObjects s' = s_stateObjects s \<Longrightarrow> s_journal s' = s_journal s \<Longrightarrow> maps_ok s'"
  by (simp add: maps_ok_def slots_ok_def)

lemma maps_ok_journal:
  "maps_ok s \<Longrightarrow> s_stateObjects s' = s_stateObjects s \<Longrightarrow> s_journal s' = journal_append e (s_journal s) \<Longrightarrow> maps_ok s'"
  using maps_ok_append [of s e] by (simp add: maps_ok_def slots_ok_def)

lemma getStateObject_maps:
  assumes "sdb_getStateObject K a s = (r, s1)" "maps_ok s"
  shows "maps_ok s1" "r = Some obj \<Longrightarrow> dirty_ok obj"
proof -
  have "maps_ok s1 \<and> (r = Some obj \<longrightarrow> dirty_ok obj)"
    using assms by (auto simp: sdb_getStateObject_def newObject_def Let_def maps_ok_set maps_ok_same [OF assms(2)]
        split: option.splits sum.splits if_splits) (use assms(2) in \<open>auto simp: maps_ok_def slots_ok_def\<close>)
  then show "maps_ok s1" "r = Some obj \<Longrightarrow> dirty_ok obj" by simp_all
qed

lemma createObject_maps:
  assumes "sdb_createObject K a s = (obj, s1)" "maps_ok s"
  shows "maps_ok s1" "dirty_ok obj"
  using assms by (auto simp: sdb_createObject_def newObject_def Let_def maps_ok_set)

lemma modify_maps:
  assumes "maps_ok s" and f: "\<And>obj s1 v obj' s2. f obj s1 = (v, obj', s2) \<Longrightarrow> maps_ok s1 \<Longrightarrow> dirty_ok obj \<Longrightarrow> maps_ok s2 \<and> dirty_ok obj'"
  shows "maps_ok (snd (modify K a f s))"
proof -
  obtain r s1 where r: "sdb_getStateObject K a s = (r, s1)" by fastforce
  obtain obj s2 where new: "sdb_getOrNewStateObject K a s = (obj, s2)" by fastforce
  have "maps_ok s2 \<and> dirty_ok obj"
    using new r getStateObject_maps [OF r assms(1)] createObject_maps
    by (auto simp: sdb_getOrNewStateObject_def split: option.splits)
  moreover obtain v obj' s3 where run: "f obj s2 = (v, obj', s3)" by (cases "f obj s2") auto
  ultimately show ?thesis using f [OF run] new run by (simp add: modify_def maps_ok_set)
qed

lemma query_maps:
  assumes "maps_ok s" and q: "\<And>obj s1 v obj' s2. q obj s1 = (v, obj', s2) \<Longrightarrow> maps_ok s1 \<Longrightarrow> dirty_ok obj \<Longrightarrow> maps_ok s2 \<and> dirty_ok obj'"
  shows "maps_ok (snd (query K a missing q s))"
proof -
  obtain r s1 where r: "sdb_getStateObject K a s = (r, s1)" by fastforce
  note get = getStateObject_maps [OF r assms(1)]
  show ?thesis
  proof (cases r)
    case None
    with r get show ?thesis by (simp add: query_def)
  next
    case (Some obj)
    obtain v obj' s2 where run: "q obj s1 = (v, obj', s2)" by (cases "q obj s1") auto
    from q [OF run] get Some show ?thesis using r run by (simp add: query_def maps_ok_set)
  qed
qed

lemma so_GetCommittedState_maps:
  "so_GetCommittedState k obj s = (v, obj', s') \<Longrightarrow> maps_ok s \<Longrightarrow> maps_ok s' \<and> dirtyStorage obj' = dirtyStorage obj"
  by (auto simp: so_GetCommittedState_def Let_def maps_ok_def slots_ok_def split: option.splits if_splits sum.splits)

lemma so_getState_maps:
  "so_getState k obj s = (v, obj', s') \<Longrightarrow> maps_ok s \<Longrightarrow> maps_ok s' \<and> dirtyStorage obj' = dirtyStorage obj"
  by (auto simp: so_getState_def dest: so_GetCommittedState_maps split: prod.splits option.splits)

lemma so_SetState_maps:
  "so_SetState k v obj s = (p, obj', s') \<Longrightarrow> maps_ok s \<Longrightarrow> dirty_ok obj \<Longrightarrow> maps_ok s' \<and> dirty_ok obj'"
  by (auto simp: so_SetState_def so_setState_def distinct_update distinct_delete dest: so_getState_maps split: prod.splits if_splits)

lemma so_Code_maps: "so_Code K obj s = (c, obj', s') \<Longrightarrow> maps_ok s \<Longrightarrow> maps_ok s' \<and> dirtyStorage obj' = dirtyStorage obj"
  by (auto simp: so_Code_def Let_def maps_ok_def slots_ok_def split: prod.splits if_splits option.splits)

lemma account_ops_maps:
  assumes "maps_ok s"
  shows "maps_ok (snd (sdb_AddBalance K a v s))" "maps_ok (snd (sdb_SubBalance K a v s))" "maps_ok (sdb_SetBalance K a v s)"
    "maps_ok (sdb_SetNonce K a n s)" "maps_ok (snd (sdb_SetCode K a c s))" "maps_ok (snd (sdb_SetState K a k h s))"
  unfolding sdb_AddBalance_def sdb_SubBalance_def sdb_SetBalance_def sdb_SetNonce_def sdb_SetCode_def sdb_SetState_def
  by (rule modify_maps [OF assms]; (erule so_SetState_maps)?;
      auto simp: so_AddBalance_def so_SetBalance_def so_setBalance_def so_SetNonce_def so_setNonce_def so_SetCode_def so_setCode_def Let_def
        split: if_splits)+

lemma queries_maps:
  assumes "maps_ok s"
  shows "maps_ok (snd (sdb_GetCode K a s))" "maps_ok (snd (sdb_GetState K a k s))" "maps_ok (snd (sdb_GetBalance K a s))"
  unfolding sdb_GetCode_def sdb_GetState_def sdb_GetBalance_def
  by (rule query_maps [OF assms]; auto simp: so_GetState_def dest: so_Code_maps so_getState_maps split: prod.splits)+

lemma on_object_maps:
  assumes "on_object K a g s = Some s'" "maps_ok s" "\<And>obj. dirty_ok obj \<Longrightarrow> dirty_ok (g obj)"
  shows "maps_ok s'"
proof -
  obtain r s1 where r: "sdb_getStateObject K a s = (r, s1)" by fastforce
  with assms getStateObject_maps [OF r assms(2)] show ?thesis by (auto simp: on_object_def maps_ok_set split: option.splits)
qed

lemma entry_revert_maps:
  assumes "entry_revert K e s = Some s'" "maps_ok s"
  shows "maps_ok s'"
proof (cases e)
  case (createObjectChange a)
  with assms show ?thesis by (auto simp: maps_ok_def slots_ok_def delete_conv' split: if_splits)
next
  case (selfDestructChange a)
  obtain r s1 where r: "sdb_getStateObject K a s = (r, s1)" by fastforce
  with assms getStateObject_maps [OF r assms(2)] selfDestructChange show ?thesis by (auto simp: maps_ok_set split: option.splits)
qed (use assms in \<open>auto simp: so_setBalance_def so_setNonce_def so_setCode_def so_setState_def distinct_update distinct_delete
      sdb_setTransientState_def Let_def split: if_splits option.splits elim!: on_object_maps intro: maps_ok_same\<close>)

lemma revert_last_maps:
  assumes "revert_last K e s = Some s'" "maps_ok s"
  shows "maps_ok s'"
proof -
  obtain s1 where s1: "entry_revert K e s = Some s1" using assms(1) by (auto simp: revert_last_def split: option.splits)
  from entry_revert_maps [OF this assms(2)] assms(1) s1 show ?thesis
    by (auto simp: revert_last_def undirty_def Let_def maps_ok_def slots_ok_def distinct_update distinct_delete split: option.splits if_splits)
qed

lemma revert_entries_maps: "revert_entries K es s = Some s' \<Longrightarrow> maps_ok s \<Longrightarrow> maps_ok s'"
  by (induction es arbitrary: s) (auto split: option.splits intro: revert_last_maps)

lemma revert_maps:
  assumes "sdb_RevertToSnapshot K i s = Some s'" "maps_ok s"
  shows "maps_ok s'"
  using assms(1) revert_entries_maps [OF _ assms(2), of K]
  by (auto simp: sdb_RevertToSnapshot_def journal_revertToSnapshot_def journal_revert_def Let_def maps_ok_def slots_ok_def split: if_splits)

lemma db_step_maps:
  assumes "db_step K op s = Some s'" "maps_ok s"
  shows "maps_ok s'"
proof (cases op)
  case (DoSelfDestruct a)
  obtain r s1 where r: "sdb_getStateObject K a s = (r, s1)" by fastforce
  with assms getStateObject_maps [OF r assms(2)] DoSelfDestruct show ?thesis
    by (auto simp: sdb_SelfDestruct_def so_markSelfdestructed_def maps_ok_set split: option.splits if_splits)
next
  case (DoCreateContract a)
  obtain r s1 where r: "sdb_getStateObject K a s = (r, s1)" by fastforce
  with assms(1) DoCreateContract obtain obj where obj: "r = Some obj" by (cases r) (auto simp: sdb_CreateContract_def)
  note get = getStateObject_maps [OF r assms(2)]
  have "maps_ok (sdb_setStateObject (obj\<lparr>newContract := True\<rparr>) s1)" using get obj by (simp add: maps_ok_set)
  from maps_ok_append [OF this, of "createContractChange a"] get(1) r obj assms(1) DoCreateContract show ?thesis
    by (auto simp: sdb_CreateContract_def split: if_splits)
next
  case (DoCreateAccount a)
  with assms createObject_maps [of K a s] show ?thesis by (auto simp: sdb_CreateAccount_def split: prod.splits) (metis prod.collapse)
next
  case (DoRevert i)
  with assms revert_maps show ?thesis by auto
next
  case (DoAddSlot a k)
  have al: "maps_ok (s\<lparr>s_accessList := al\<rparr>)" for al by (rule maps_ok_same [OF assms(2)]) simp_all
  note app = maps_ok_append [OF al]
  from assms(1) DoAddSlot al app maps_ok_append [OF app] show ?thesis
    by (auto simp: sdb_AddSlotToAccessList_def Let_def split: option.splits if_splits prod.splits)
next
  case (DoAddAddress a)
  have al: "maps_ok (s\<lparr>s_accessList := al\<rparr>)" for al by (rule maps_ok_same [OF assms(2)]) simp_all
  from assms(1) DoAddAddress al maps_ok_append [OF al] show ?thesis
    by (auto simp: sdb_AddAddressToAccessList_def Let_def split: if_splits prod.splits)
qed (use assms in \<open>auto simp: account_ops_maps queries_maps sdb_AddRefund_def sdb_SubRefund_def sdb_SetTransientState_def
    sdb_setTransientState_def sdb_AddLog_def sdb_AddPreimage_def sdb_Snapshot_def journal_snapshot_def Let_def
    split: if_splits intro: maps_ok_journal maps_ok_same [OF assms(2)]\<close>, auto simp: maps_ok_def slots_ok_def)

section \<open>The databases of a block\<close>

text \<open>
  A block starts from a new database. Between transactions, when the journal is empty, the transaction context is set
  and the access list prepared; a transaction performs operations and is finalised.
\<close>

inductive sdb_reach :: "(bytes \<Rightarrow> bytes) \<Rightarrow> 't state_db \<Rightarrow> bool" for K where
  reach_new: "hash_ok K \<Longrightarrow> reader_ok K reader \<Longrightarrow> sdb_reach K (sdb_NewWithReader root reader isVerkle)"
| reach_step: "sdb_reach K s \<Longrightarrow> op_allowed K op s \<Longrightarrow> db_step K op s = Some s' \<Longrightarrow> sdb_reach K s'"
| reach_finalise: "sdb_reach K s \<Longrightarrow> sdb_reach K (sdb_Finalise K del s)"
| reach_context: "sdb_reach K s \<Longrightarrow> j_validRevisions (s_journal s) = [] \<Longrightarrow> sdb_reach K (sdb_SetTxContext thash ti s)"
| reach_prepare: "sdb_reach K s \<Longrightarrow> j_validRevisions (s_journal s) = [] \<Longrightarrow>
    sdb_Prepare rules sender coinbase dst pcs list s = Some s' \<Longrightarrow> sdb_reach K s'"

lemma sim_start:
  assumes "sdb_inv K s" "j_validRevisions (s_journal s) = []"
  shows "sim K (base_of K s) s \<lparr>sp_world = world K s, sp_saved = [], sp_next = next_id s\<rparr>"
  using assms by (simp add: sim_def)

lemma sdb_inv_new: "hash_ok K \<Longrightarrow> reader_ok K reader \<Longrightarrow> sdb_inv K (sdb_NewWithReader root reader isVerkle)"
  by (simp add: sdb_NewWithReader_def sdb_inv_def objects_ok_def newJournal_def journal_ok_def revisions_ok_def dirties_ok_def
      newAccessList_def al_ok_def)

lemma al_ok_addresses: "al_ok al \<Longrightarrow> al_ok (foldl (\<lambda>al addr. snd (al_AddAddress addr al)) al as)"
  by (induction "as" arbitrary: al) (simp_all add: al_ok_AddAddress)

lemma al_ok_keys:
  "al_ok al \<Longrightarrow> \<exists>al'. foldl (\<lambda>al key. case al of None \<Rightarrow> None | Some al \<Rightarrow> map_option snd (al_AddSlot a key al)) (Some al) ks = Some al' \<and> al_ok al'"
proof (induction ks arbitrary: al)
  case (Cons k ks)
  from al_ok_AddSlot [OF Cons.prems, of a k] obtain r al1 where "al_AddSlot a k al = Some (r, al1)" "al_ok al1" by blast
  with Cons.IH [of al1] show ?case by simp
qed simp

lemma al_ok_tuples: "al_ok al \<Longrightarrow> \<exists>al'. foldl al_add_tuple (Some al) list = Some al' \<and> al_ok al'"
proof (induction list arbitrary: al)
  case (Cons el els)
  from al_ok_keys [OF al_ok_AddAddress [OF Cons.prems], of "fst el" "fst el" "snd el"]
  obtain al1 where "al_add_tuple (Some al) el = Some al1" "al_ok al1" by (auto simp: al_add_tuple_def)
  with Cons.IH [of al1] show ?case by simp
qed simp

lemma Prepare_wf:
  assumes "sdb_Prepare rules sender coinbase dst pcs list s = Some s'" "al_ok (s_accessList s)"
  shows "al_ok (s_accessList s')" "s' = s\<lparr>s_accessList := s_accessList s', s_transientStorage := newTransientStorage\<rparr>"
proof -
  let ?al = "foldl (\<lambda>al addr. snd (al_AddAddress addr al))
    (case dst of None \<Rightarrow> snd (al_AddAddress sender newAccessList) | Some d \<Rightarrow> snd (al_AddAddress d (snd (al_AddAddress sender newAccessList)))) pcs"
  have "al_ok newAccessList" by (simp add: newAccessList_def al_ok_def)
  then have "al_ok ?al" by (intro al_ok_addresses) (auto simp: al_ok_AddAddress split: option.split)
  from al_ok_tuples [OF this, of list] obtain al' where "foldl al_add_tuple (Some ?al) list = Some al'" "al_ok al'" by blast
  with assms show "al_ok (s_accessList s')" "s' = s\<lparr>s_accessList := s_accessList s', s_transientStorage := newTransientStorage\<rparr>"
    by (auto simp: sdb_Prepare_def Let_def al_ok_AddAddress split: if_splits)
qed

lemma reach_sim: "sdb_reach K s \<Longrightarrow> (\<exists>sp. sim K (base_of K s) s sp) \<and> maps_ok s"
proof (induction rule: sdb_reach.induct)
  case (reach_new reader root isVerkle)
  then have "sdb_inv K (sdb_NewWithReader root reader isVerkle)" by (rule sdb_inv_new)
  from sim_start [OF this] show ?case by (auto simp: sdb_NewWithReader_def newJournal_def maps_ok_def slots_ok_def)
next
  case (reach_step s op s')
  then obtain sp where sim: "sim K (base_of K s) s sp" and m: "maps_ok s" by blast
  from sim_step [OF sim reach_step(2)] reach_step(3) obtain sp' where sp': "sim K (base_of K s) s' sp'" by auto
  then have "base_of K s' = base_of K s" by (simp add: sim_def)
  with sp' db_step_maps [OF reach_step(3) m] show ?case by auto
next
  case (reach_finalise s del)
  then obtain sp where "sim K (base_of K s) s sp" "maps_ok s" by blast
  then have "sdb_inv K s" "maps_ok s" by (simp_all add: sim_def)
  note fin = Finalise_spec [OF this]
  have "j_validRevisions (s_journal (sdb_Finalise K del s)) = []" by (simp add: fin(4) newJournal_def)
  from sim_start [OF fin(2) this] fin(3) show ?case by blast
next
  case (reach_context s thash ti)
  then have inv: "sdb_inv K s" and m: "maps_ok s" by (auto simp: sim_def)
  from inv have "sdb_inv K (sdb_SetTxContext thash ti s)" by (simp add: sdb_SetTxContext_def sdb_inv_def objects_ok_def)
  from sim_start [OF this] m reach_context(2) show ?case by (auto simp: sdb_SetTxContext_def maps_ok_def slots_ok_def)
next
  case (reach_prepare s rules sender coinbase dst pcs list s')
  then have inv: "sdb_inv K s" and m: "maps_ok s" by (auto simp: sim_def)
  from inv have "al_ok (s_accessList s)" by (simp add: sdb_inv_def)
  note ok = Prepare_wf [OF reach_prepare(3) this]
  obtain al where s': "s' = s\<lparr>s_accessList := al, s_transientStorage := newTransientStorage\<rparr>" "al_ok al" using ok by blast
  with inv have "sdb_inv K s'" by (simp add: sdb_inv_def objects_ok_def)
  from sim_start [OF this] m reach_prepare(2) show ?case by (auto simp: s'(1) maps_ok_def slots_ok_def)
qed

lemma reach_inv: "sdb_reach K s \<Longrightarrow> sdb_inv K s" "sdb_reach K s \<Longrightarrow> maps_ok s"
  using reach_sim by (auto simp: sim_def)

end
