(* ===== verification/State_Warm.thy ===== *)
theory State_Warm
  imports State_Final
begin

text \<open>
  What an access list means: a partial map from warm addresses to their warm slots. The lists that transactions build
  implement it, and \<open>Prepare\<close> warms exactly what the rules say.
\<close>

section \<open>The abstract access list\<close>

definition al_abs :: "accessList \<Rightarrow> Address \<rightharpoonup> Hash set" where
  "al_abs al a =
     (case map_of (al_addresses al) a of None \<Rightarrow> None | Some i \<Rightarrow> Some (if i = -1 then {} else al_slots al ! nat i))"

text \<open>No two addresses share a set of slots.\<close>

definition al_wf :: "accessList \<Rightarrow> bool" where
  "al_wf al \<longleftrightarrow> al_ok al \<and>
     (\<forall>a b i. map_of (al_addresses al) a = Some i \<longrightarrow> map_of (al_addresses al) b = Some i \<longrightarrow> i \<noteq> -1 \<longrightarrow> a = b)"

lemma al_wf_new: "al_wf newAccessList" "al_abs newAccessList = Map.empty"
  by (auto simp: al_wf_def al_ok_def newAccessList_def al_abs_def)

lemma al_abs_AddAddress:
  assumes "al_wf al"
  shows "al_wf (snd (al_AddAddress a al))"
    "al_abs (snd (al_AddAddress a al)) = (al_abs al)(a \<mapsto> (case al_abs al a of None \<Rightarrow> {} | Some ks \<Rightarrow> ks))"
  using assms al_ok_AddAddress [of al a]
  by (auto simp: al_wf_def al_AddAddress_def al_abs_def update_conv' fun_eq_iff split: option.splits if_splits)

lemma fresh_slots:
  assumes "al_wf al" "map_of (al_addresses al) a = None \<or> map_of (al_addresses al) a = Some (-1)"
    and al': "al' = al\<lparr>al_addresses := AList.update a (int (length (al_slots al))) (al_addresses al), al_slots := al_slots al @ [{k}]\<rparr>"
  shows "al_wf al'" "al_abs al' = (al_abs al)(a \<mapsto> {k})"
proof -
  have idx: "i = -1 \<or> 0 \<le> i \<and> nat i < length (al_slots al)" if "map_of (al_addresses al) b = Some i" for b i
    using assms(1) that by (auto simp: al_wf_def al_ok_def)
  have inj: "b = c" if "map_of (al_addresses al) b = Some i" "map_of (al_addresses al) c = Some i" "i \<noteq> -1" for b c i
    using assms(1) that by (auto simp: al_wf_def)
  have ne: "{} \<notin> set (al_slots al)" using assms(1) by (simp add: al_wf_def al_ok_def)
  show "al_wf al'"
    unfolding al_wf_def al_ok_def al'
    using idx inj ne by (fastforce simp: update_conv' split: if_splits)
  show "al_abs al' = (al_abs al)(a \<mapsto> {k})"
  proof
    fix b
    show "al_abs al' b = ((al_abs al)(a \<mapsto> {k})) b"
      using idx [of b] by (auto simp: al' al_abs_def update_conv' nth_append split: option.split)
  qed
qed

lemma al_abs_AddSlot:
  assumes "al_wf al"
  shows "\<exists>r al'. al_AddSlot a k al = Some (r, al') \<and> al_wf al' \<and>
    al_abs al' = (al_abs al)(a \<mapsto> insert k (case al_abs al a of None \<Rightarrow> {} | Some ks \<Rightarrow> ks))"
proof (cases "map_of (al_addresses al) a")
  case None
  with fresh_slots [OF assms _ refl, of a k] show ?thesis by (auto simp: al_AddSlot_def Let_def al_abs_def)
next
  case (Some i)
  show ?thesis
  proof (cases "i = -1")
    case True
    with Some fresh_slots [OF assms _ refl, of a k] show ?thesis by (auto simp: al_AddSlot_def Let_def al_abs_def)
  next
    case False
    have ok: "al_ok al" using assms by (simp add: al_wf_def)
    note idx = al_okD [OF ok Some False]
    have abs: "al_abs al a = Some (al_slots al ! nat i)" using Some False by (simp add: al_abs_def)
    show ?thesis
    proof (cases "k \<in> al_slots al ! nat i")
      case True
      then have "(al_abs al)(a \<mapsto> insert k (al_slots al ! nat i)) = al_abs al" using abs by (simp add: insert_absorb fun_upd_idem)
      with True Some False idx assms abs show ?thesis by (auto simp: al_AddSlot_def Let_def)
    next
      case new: False
      let ?al = "al\<lparr>al_slots := (al_slots al)[nat i := insert k (al_slots al ! nat i)]\<rparr>"
      have run: "al_AddSlot a k al = Some ((False, True), ?al)" using Some False idx new by (simp add: al_AddSlot_def Let_def)
      have "al_ok ?al" using al_ok_AddSlot [OF ok, of a k] run by simp
      then have wf: "al_wf ?al" using assms by (simp add: al_wf_def)
      have "al_abs ?al b = ((al_abs al)(a \<mapsto> insert k (al_slots al ! nat i))) b" for b
      proof (cases "b = a")
        case True
        then show ?thesis using Some False idx by (simp add: al_abs_def)
      next
        case other: False
        have "nat j \<noteq> nat i" if "map_of (al_addresses al) b = Some j" "j \<noteq> -1" for j
          using assms Some False that other idx al_okD [OF ok that] by (auto simp: al_wf_def eq_nat_nat_iff)
        then show ?thesis using other by (auto simp: al_abs_def split: option.split)
      qed
      then have "al_abs ?al = (al_abs al)(a \<mapsto> insert k (al_slots al ! nat i))" by (rule ext)
      with run wf abs show ?thesis by auto
    qed
  qed
qed

lemma al_abs_queries:
  assumes "al_wf al"
  shows "al_ContainsAddress al a \<longleftrightarrow> al_abs al a \<noteq> None"
    "al_Contains al a k = Some (al_abs al a \<noteq> None, case al_abs al a of None \<Rightarrow> False | Some ks \<Rightarrow> k \<in> ks)"
proof -
  have ok: "al_ok al" using assms by (simp add: al_wf_def)
  show "al_ContainsAddress al a \<longleftrightarrow> al_abs al a \<noteq> None"
    by (simp add: al_ContainsAddress_def al_abs_def split: option.split)
  show "al_Contains al a k = Some (al_abs al a \<noteq> None, case al_abs al a of None \<Rightarrow> False | Some ks \<Rightarrow> k \<in> ks)"
  proof (cases "map_of (al_addresses al) a")
    case None
    then show ?thesis by (simp add: al_Contains_def al_abs_def)
  next
    case (Some i)
    with al_okD [OF ok Some] show ?thesis by (cases "i = -1") (simp_all add: al_Contains_def al_abs_def)
  qed
qed

section \<open>Preparing a transaction\<close>

text \<open>Warm addresses and slots of an abstract list, and adding to them.\<close>

definition warm_slots :: "(Address \<rightharpoonup> Hash set) \<Rightarrow> Address \<Rightarrow> Hash set" where
  "warm_slots m a = (case m a of None \<Rightarrow> {} | Some ks \<Rightarrow> ks)"

lemma al_AddAddress_warm:
  assumes "al_wf al"
  shows "al_wf (snd (al_AddAddress a al))" "dom (al_abs (snd (al_AddAddress a al))) = insert a (dom (al_abs al))"
    "warm_slots (al_abs (snd (al_AddAddress a al))) = warm_slots (al_abs al)"
  unfolding al_abs_AddAddress(2) [OF assms] using al_abs_AddAddress(1) [OF assms]
  by (simp, simp) (simp add: warm_slots_def [abs_def] fun_eq_iff split: option.split)

lemma al_addresses_spec:
  assumes "al_wf al"
  shows "al_wf (foldl (\<lambda>al addr. snd (al_AddAddress addr al)) al xs) \<and>
    dom (al_abs (foldl (\<lambda>al addr. snd (al_AddAddress addr al)) al xs)) = dom (al_abs al) \<union> set xs \<and>
    warm_slots (al_abs (foldl (\<lambda>al addr. snd (al_AddAddress addr al)) al xs)) = warm_slots (al_abs al)"
  using assms
proof (induction xs arbitrary: al)
  case (Cons x xs)
  note one = al_AddAddress_warm [OF Cons.prems, of x]
  from Cons.IH [OF one(1)] one show ?case by simp
qed simp

abbreviation add_keys :: "Address \<Rightarrow> accessList option \<Rightarrow> Hash list \<Rightarrow> accessList option" where
  "add_keys a \<equiv> foldl (\<lambda>al key. case al of None \<Rightarrow> None | Some al \<Rightarrow> map_option snd (al_AddSlot a key al))"

lemma al_keys_spec:
  assumes "al_wf al" "a \<in> dom (al_abs al)"
  shows "\<exists>al'. add_keys a (Some al) ks = Some al' \<and> al_wf al' \<and> dom (al_abs al') = dom (al_abs al) \<and>
    warm_slots (al_abs al') = (warm_slots (al_abs al))(a := warm_slots (al_abs al) a \<union> set ks)"
  using assms
proof (induction ks arbitrary: al)
  case (Cons k ks)
  from al_abs_AddSlot [OF Cons.prems(1), of a k] obtain r al1 where one: "al_AddSlot a k al = Some (r, al1)" "al_wf al1"
    "al_abs al1 = (al_abs al)(a \<mapsto> insert k (case al_abs al a of None \<Rightarrow> {} | Some ks \<Rightarrow> ks))" by blast
  have dom: "dom (al_abs al1) = dom (al_abs al)" using Cons.prems(2) by (auto simp: one(3))
  have ws: "warm_slots (al_abs al1) = (warm_slots (al_abs al))(a := insert k (warm_slots (al_abs al) a))"
    by (auto simp: one(3) warm_slots_def fun_eq_iff split: option.split)
  have "a \<in> dom (al_abs al1)" using Cons.prems(2) dom by simp
  from Cons.IH [OF one(2) this] obtain al' where "add_keys a (Some al1) ks = Some al'" "al_wf al'"
    "dom (al_abs al') = dom (al_abs al1)" "warm_slots (al_abs al') = (warm_slots (al_abs al1))(a := warm_slots (al_abs al1) a \<union> set ks)"
    by blast
  with one(1) dom ws show ?case by (auto simp: fun_eq_iff)
qed (auto simp: fun_eq_iff)

text \<open>The slots an access list of a transaction names for an address.\<close>

definition listed :: "AccessList \<Rightarrow> Address \<Rightarrow> Hash set" where
  "listed xs a = (\<Union>el \<in> set xs. if fst el = a then set (snd el) else {})"

lemma al_tuples_spec:
  assumes "al_wf al"
  shows "\<exists>al'. foldl al_add_tuple (Some al) xs = Some al' \<and> al_wf al' \<and> dom (al_abs al') = dom (al_abs al) \<union> fst ` set xs \<and>
    (\<forall>a. warm_slots (al_abs al') a = warm_slots (al_abs al) a \<union> listed xs a)"
  using assms
proof (induction xs arbitrary: al)
  case (Cons el xs)
  let ?al = "snd (al_AddAddress (fst el) al)"
  note one = al_AddAddress_warm [OF Cons.prems, of "fst el"]
  have "fst el \<in> dom (al_abs ?al)" using one(2) by simp
  from al_keys_spec [OF one(1) this, of "snd el", unfolded one(2,3)] obtain al1 where al1: "add_keys (fst el) (Some ?al) (snd el) = Some al1"
    "al_wf al1" "dom (al_abs al1) = insert (fst el) (dom (al_abs al))"
    "warm_slots (al_abs al1) = (warm_slots (al_abs al))(fst el := warm_slots (al_abs al) (fst el) \<union> set (snd el))"
    by blast
  have "al_add_tuple (Some al) el = Some al1" using al1(1) by (simp add: al_add_tuple_def)
  moreover from Cons.IH [OF al1(2)] obtain al' where "foldl al_add_tuple (Some al1) xs = Some al'" "al_wf al'"
    "dom (al_abs al') = dom (al_abs al1) \<union> fst ` set xs" "\<forall>a. warm_slots (al_abs al') a = warm_slots (al_abs al1) a \<union> listed xs a" by blast
  ultimately show ?case using al1(3,4) by (auto simp: listed_def)
qed (simp add: listed_def)

lemma Prepare_warm:
  assumes "IsEIP2929 rules" "\<not> IsEIP4762 rules"
  shows "\<exists>s'. sdb_Prepare rules sender coinbase dst pcs xs s = Some s' \<and> al_wf (s_accessList s') \<and>
    dom (al_abs (s_accessList s')) = {sender} \<union> set_option dst \<union> set pcs \<union> fst ` set xs \<union> (if IsShanghai rules then {coinbase} else {}) \<and>
    warm_slots (al_abs (s_accessList s')) = listed xs \<and> s_transientStorage s' = newTransientStorage"
proof -
  let ?a0 = "snd (al_AddAddress sender newAccessList)"
  let ?a1 = "case dst of None \<Rightarrow> ?a0 | Some d \<Rightarrow> snd (al_AddAddress d ?a0)"
  let ?a2 = "foldl (\<lambda>al addr. snd (al_AddAddress addr al)) ?a1 pcs"
  note a0 = al_AddAddress_warm [OF al_wf_new(1), of sender]
  have a1: "al_wf ?a1 \<and> dom (al_abs ?a1) = {sender} \<union> set_option dst \<and> warm_slots (al_abs ?a1) = (\<lambda>_. {})"
    using a0 al_AddAddress_warm [OF a0(1)] by (simp add: al_wf_new warm_slots_def [abs_def] insert_commute split: option.split)
  note a2 = al_addresses_spec [OF conjunct1 [OF a1], of pcs]
  from al_tuples_spec [OF conjunct1 [OF a2], of xs] obtain al' where al': "foldl al_add_tuple (Some ?a2) xs = Some al'" "al_wf al'"
    "dom (al_abs al') = dom (al_abs ?a2) \<union> fst ` set xs" "\<forall>a. warm_slots (al_abs al') a = warm_slots (al_abs ?a2) a \<union> listed xs a" by blast
  let ?a3 = "if IsShanghai rules then snd (al_AddAddress coinbase al') else al'"
  note cb = al_AddAddress_warm [OF al'(2), of coinbase]
  have "al_wf ?a3 \<and> dom (al_abs ?a3) = dom (al_abs al') \<union> (if IsShanghai rules then {coinbase} else {}) \<and>
      warm_slots (al_abs ?a3) = warm_slots (al_abs al')"
    using al'(2) cb by simp
  moreover have "sdb_Prepare rules sender coinbase dst pcs xs s = Some (s\<lparr>s_accessList := ?a3, s_transientStorage := newTransientStorage\<rparr>)"
    using assms al'(1) by (simp add: sdb_Prepare_def Let_def)
  ultimately show ?thesis using a1 a2 al'(3,4) by (auto simp: fun_eq_iff)
qed

end
