(* ===== verification/State_Correct.thy ===== *)
theory State_Correct
  imports State_Machine State_Warm Evm_Correct
begin

text \<open>
  What the state database promises to its callers: a call that fails leaves the world as it was, snapshots nest
  like saved copies of the world, and the end of a transaction commits or deletes exactly the accounts it touched.
\<close>

section \<open>A concrete database\<close>

text \<open>One contract and a hash function that tells the empty code from other code.\<close>

definition two_hash :: "bytes \<Rightarrow> bytes" where
  "two_hash b = hash_bytes (if b = [] then 1 else 2)"

definition one_reader :: "bytes \<Rightarrow> Reader" where
  "one_reader code =
     \<lparr>r_Account = (\<lambda>a. Inr (if a = 0xc0de then Some \<lparr>sa_Nonce = 1, sa_Balance = 7, sa_Root = EmptyRootHash,
        sa_CodeHash = hash_bytes 2\<rparr> else None)),
      r_Storage = (\<lambda>a k. Inr 0), r_Code = (\<lambda>a h. (if h = 2 then code else [], None)),
      r_CodeSize = (\<lambda>a h. (if h = 2 then length code else 0, None))\<rparr>"

definition one_db :: "bytes \<Rightarrow> unit state_db" where
  "one_db code = sdb_NewWithReader 5 (one_reader code) False"

definition one_env :: "unit state_db env" where
  "one_env = sdb_env two_hash word_lib (\<lambda>a n. addr_bytes a)"

definition one_evm :: "bytes \<Rightarrow> unit state_db EVM" where
  "one_evm code =
     \<lparr>Context = \<lparr>CanTransfer = core_CanTransfer (sdb_methods two_hash), Transfer = core_Transfer (sdb_methods two_hash), GetHash = (\<lambda>_. 0),
        Coinbase = 0, GasLimit = 30000000, BlockNumber = 1, Time = 0, Difficulty = Some 1, BaseFee = Some 0, BlobBaseFee = Some 0,
        Random = Some 0, SlotNum = 0\<rparr>,
      Origin = 0, GasPrice = 0, BlobHashes = [], accessEvents = NewAccessEvents, statedb = one_db code, depth = 0,
      ChainID = Some 1, chainRules = frontier_rules, EnablePreimageRecording = False, abort = False, callGasTemp = 0,
      precompiles = (\<lambda>_. None), jumpDests = Map.empty, readOnly = False, returnData = []\<rparr>"

lemma two_hash_nonempty [simp]: "hash_of two_hash c = (if c = [] then 1 else 2)"
  by (simp add: hash_of_def two_hash_def)

lemma one_db_inv: "code \<noteq> [] \<Longrightarrow> sdb_inv two_hash (one_db code)"
  unfolding one_db_def by (rule sdb_inv_new) (simp_all add: hash_ok_def reader_ok_def one_reader_def)

lemma one_db_reach: "code \<noteq> [] \<Longrightarrow> sdb_reach two_hash (one_db code)"
  unfolding one_db_def by (rule reach_new) (simp_all add: hash_ok_def reader_ok_def one_reader_def)

section \<open>Failed calls\<close>

text \<open>
  C4. A call that returns an error, through any of the four call entry points and at any depth of nested frames,
  leaves the world as it found it: every balance, nonce, code and storage slot, the logs, the refund, the
  transient storage and the access list are what they were before the call, whatever the code did before it failed.
\<close>

theorem failed_call_restores_world:
  assumes "\<not> IsVerkle rules" and "sdb_inv K (statedb m)" and "Transfer (Context m) = core_Transfer (sdb_methods K)"
    and "run = Run_at max_frames (sdb_env K u rlp) (instructionSet rules (sdb_env K u rlp))"
    and "Ret ((ret, left, Some e), m') \<in>
      {evm_Call (sdb_env K u rlp) run m clr addr input gas val, evm_CallCode (sdb_env K u rlp) run m clr addr input gas val,
       evm_DelegateCall (sdb_env K u rlp) run m org clr addr input gas val, evm_StaticCall (sdb_env K u rlp) run m clr addr input gas}"
  shows "world K (statedb m') = world K (statedb m) \<and> sdb_inv K (statedb m')"
  using sdb.failed_call_restores [OF assms(1,2) _ assms(4,5)] assms(3) by (simp add: core_transfers_def)


text \<open>The program \<open>PUSH1 1, PUSH1 0, SSTORE, INVALID\<close>.\<close>

definition store_fail :: bytes where
  "store_fail = [0x60, 1, 0x60, 0, 0x55, 0xfe]"

lemma store_lookup:
  "newFrontierInstructionSet E K 0x55 = op_of (opSstore E) 0 (Some (gasSStore E)) (minStack 2 0) (maxStack 2 0) None"
  "newFrontierInstructionSet E K 0xfe = op_of opUndefined 0 None (minStack 0 0) (maxStack 0 0) None"
  by (simp_all add: newFrontierInstructionSet_def frontier_parts)

definition one_run :: "unit state_db runner" where
  "one_run = Run_at max_frames one_env (instructionSet frontier_rules one_env)"

lemma one_run_step:
  "one_run = evm_Run (newFrontierInstructionSet one_env (calls_with one_env (Run_at 1024 one_env (instructionSet frontier_rules one_env))))"
proof -
  have frames: "max_frames = Suc 1024" by (simp add: max_frames_def)
  have table: "instructionSet frontier_rules E K = newFrontierInstructionSet E K" for E :: "unit state_db env" and K
    by (simp add: instructionSet_def frontier_rules_def)
  show ?thesis unfolding one_run_def frames Run_at.simps table ..
qed

lemma one_env_sels [simp]: "DB one_env = sdb_methods two_hash"
  by (simp add: one_env_def)

lemma one_evm_sels [simp]:
  "statedb (one_evm code) = one_db code" "chainRules (one_evm code) = frontier_rules" "\<not> readOnly (one_evm code)" "depth (one_evm code) = 0"
  "precompiles (one_evm code) = (\<lambda>_. None)" "Transfer (Context (one_evm code)) = core_Transfer (sdb_methods two_hash)"
  "CanTransfer (Context (one_evm code)) = core_CanTransfer (sdb_methods two_hash)"
  by (simp_all add: one_evm_def)

lemma petersburg: "\<not> IsPetersburg frontier_rules" "\<not> IsConstantinople frontier_rules"
  by (simp_all add: frontier_rules_def)

lemma store_fail_runs:
  assumes "Code c = store_fail" "Gas c = 100000" "\<not> readOnly m" "chainRules m = frontier_rules"
  shows "\<exists>g m'. run_contract one_run m c input False = Ret (([], g, Some (ErrInvalidOpCode 0xfe)), m')"
proof -
  obtain cur org where s: "GetStateAndCommittedState (sdb_methods two_hash) (statedb m) (address c) 0 = (cur, org)" by fastforce
  show ?thesis
    unfolding run_contract_def one_run_step evm_Run_def
    by (cases "cur = 0") (simp_all add: assms store_fail_def adder_lookup store_lookup run_loop_numeral run_defs opPush1_def
        opSstore_def opUndefined_def gasSStore_def with_back_def st_Back_def petersburg s op_memory_def)
qed

lemma one_code: "fst (sdb_GetCode two_hash 0xc0de (s\<lparr>s_journal := j\<rparr>)) = code" if "s = one_db code" "code \<noteq> []" for s :: "unit state_db"
  using that by (simp add: one_db_def sdb_NewWithReader_def one_reader_def sdb_GetCode_def query_def sdb_getStateObject_def newObject_def
      so_Code_def Let_def)

lemma store_fail_call:
  "\<exists>ret left m. evm_CallCode one_env one_run (one_evm store_fail) 1 0xc0de [] 100000 0 = Ret ((ret, left, Some (ErrInvalidOpCode 0xfe)), m)"
proof -
  let ?m = "one_evm store_fail"
  obtain i db where s: "Snapshot (sdb_methods two_hash) (one_db store_fail) = (i, db)" by fastforce
  let ?m1 = "?m\<lparr>statedb := db\<rparr>"
  let ?c = "SetCallCode (resolveCodeHash one_env ?m1 0xc0de) store_fail (NewContract 1 1 0 100000)"
  have "fst (sdb_GetCode two_hash 0xc0de db) = store_fail"
    using s by (auto simp: sdb_methods_def sdb_Snapshot_def store_fail_def one_code split: prod.splits)
  then have code: "resolveCode one_env ?m1 0xc0de = store_fail"
    by (simp add: resolveCode_def frontier_rules_def) (simp add: sdb_methods_def)
  have "Code ?c = store_fail" "Gas ?c = 100000" by (simp_all add: SetCallCode_def NewContract_def)
  then obtain g m2 where run: "run_contract one_run ?m1 ?c [] False = Ret (([], g, Some (ErrInvalidOpCode 0xfe)), m2)"
    using store_fail_runs [of ?c ?m1 "[]"] by auto
  have "sdb.run_ev two_hash one_run"
    unfolding one_run_def one_env_def by (rule sdb.Run_at_ev) simp
  from sdb.run_contract_ev [OF this, of ?m1 ?c "[]" False] run have "sdb.evolves two_hash ?m1 m2"
    by (simp add: sdb.call_ev_def)
  then have "extends two_hash db (statedb m2)" by (simp add: sdb.evolves_def core_transfers_def)
  then obtain db' where "RevertToSnapshot (sdb_methods two_hash) i (statedb m2) = Some db'"
    using sdb.Revert [OF one_db_inv, of store_fail word_lib "\<lambda>a n. addr_bytes a" i db "statedb m2"] s by (auto simp: store_fail_def)
  with run code s show ?thesis
    by (simp add: evm_CallCode_def core_CanTransfer_def finish_frame_def)
qed

theorem failed_call_restores_world_witness:
  "\<exists>ret left m. evm_CallCode one_env one_run (one_evm store_fail) 1 0xc0de [] 100000 0 = Ret ((ret, left, Some (ErrInvalidOpCode 0xfe)), m) \<and>
     world two_hash (statedb m) = world two_hash (one_db store_fail)"
proof -
  obtain ret left m where call: "evm_CallCode one_env one_run (one_evm store_fail) 1 0xc0de [] 100000 0 =
      Ret ((ret, left, Some (ErrInvalidOpCode 0xfe)), m)" using store_fail_call by blast
  have "Ret ((ret, left, Some (ErrInvalidOpCode 0xfe)), m) \<in>
      {evm_Call one_env one_run (one_evm store_fail) 1 0xc0de [] 100000 0, evm_CallCode one_env one_run (one_evm store_fail) 1 0xc0de [] 100000 0,
       evm_DelegateCall one_env one_run (one_evm store_fail) 0 1 0xc0de [] 100000 0, evm_StaticCall one_env one_run (one_evm store_fail) 1 0xc0de [] 100000}"
    using call by simp
  from failed_call_restores_world [OF _ _ _ _ this [unfolded one_env_def], of frontier_rules]
  have "world two_hash (statedb m) = world two_hash (statedb (one_evm store_fail))"
    by (simp add: one_db_inv store_fail_def one_run_def one_env_def)
  with call show ?thesis by auto
qed

section \<open>Ether and nonces\<close>

lemma entered_ledger:
  assumes "entered (sdb_env K u rlp) (Run_at n (sdb_env K u rlp) (instructionSet rules (sdb_env K u rlp))) m gas (Ret (left, err, m'))"
    and "\<not> IsVerkle rules" and "core_context K (Context m)"
  shows "ledger K (statedb m) (statedb m')"
proof -
  let ?E = "sdb_env K u rlp"
  let ?run = "Run_at n ?E (instructionSet rules ?E)"
  have "books.calls_ev K (calls_with ?E ?run)" by (rule books.calls_with_ev [OF books.Run_at_ev [OF assms(2)]])
  note ev = books.calls_evD [OF this, unfolded calls_with_sels]
  have call: "books.evolves K m m'" if "books.call_ev K m r" "call_outcome r = Ret (left, err, m')" for r
    using that by (auto simp: books.call_ev_def call_outcome_def obind_iffs)
  have create: "books.evolves K m m'" if "books.create_ev K m r" "create_outcome r = Ret (left, err, m')" for r
    using that by (auto simp: books.create_ev_def create_outcome_def obind_iffs)
  have "books.evolves K m m'"
    using assms(1) by cases ((rule call [OF ev(1)] call [OF ev(2)] call [OF ev(3)] call [OF ev(4)] create [OF ev(5)] create [OF ev(6)]), simp)+
  then show ?thesis using assms(3) by (simp add: books.evolves_def)
qed

text \<open>
  C6. No code can create ether or turn back a nonce: whatever runs through any of the six entry points, at any depth,
  failing or not, the sum of all balances is at most what it was, and every account has at least the
  nonce it had (given that all ether fits into 256 bits, so that no balance can wrap).
\<close>

theorem calls_create_no_ether:
  assumes "entered (sdb_env K u rlp) (Run_at max_frames (sdb_env K u rlp) (instructionSet rules (sdb_env K u rlp))) m gas (Ret (left, err, m'))"
    and "\<not> IsVerkle rules" and "core_context K (Context m)" and "sdb_inv K (statedb m)" and "ether_supply (world K (statedb m)) < 2 ^ 256"
  shows "ether_supply (world K (statedb m')) \<le> ether_supply (world K (statedb m)) \<and>
    nonce_of (world K (statedb m)) a \<le> nonce_of (world K (statedb m')) a"
  using entered_ledger [OF assms(1-3)] assms(4,5) by (simp add: ledger_def)

lemma one_db_supply: "ether_supply (world two_hash (one_db code)) = 7"
proof -
  have "balance_of (world two_hash (one_db code)) = (\<lambda>_. 0)(0xc0de := 7)"
    by (auto simp: balance_of_def world_account object_at_def stored_object_def one_db_def sdb_NewWithReader_def one_reader_def newObject_def
        a_data_view fun_eq_iff)
  moreover have "total_of (\<lambda>_. 0) = 0" by (simp add: total_of_def)
  ultimately show ?thesis using total_upd [of "\<lambda>_. 0" "0xc0de" 7] by (simp add: ether_supply_def)
qed

theorem calls_create_no_ether_witness:
  "\<exists>ret left m. evm_CallCode one_env one_run (one_evm store_fail) 1 0xc0de [] 100000 0 = Ret ((ret, left, Some (ErrInvalidOpCode 0xfe)), m) \<and>
     ether_supply (world two_hash (statedb m)) \<le> 7"
proof -
  obtain ret left m where call: "evm_CallCode one_env one_run (one_evm store_fail) 1 0xc0de [] 100000 0 =
      Ret ((ret, left, Some (ErrInvalidOpCode 0xfe)), m)" using store_fail_call by blast
  then have "call_outcome (evm_CallCode one_env one_run (one_evm store_fail) 1 0xc0de [] 100000 0) = Ret (left, Some (ErrInvalidOpCode 0xfe), m)"
    by (simp add: call_outcome_def)
  then have "entered one_env one_run (one_evm store_fail) 100000 (Ret (left, Some (ErrInvalidOpCode 0xfe), m))" by (metis by_CallCode)
  from calls_create_no_ether [OF this [unfolded one_run_def one_env_def], of 0] have "ether_supply (world two_hash (statedb m)) \<le> 7"
    by (simp add: one_db_inv store_fail_def one_db_supply core_context_def core_transfers_def)
  with call show ?thesis by blast
qed

section \<open>Snapshots\<close>




text \<open>
  C21. Every database a block can reach is well formed: live objects are filed under their address with a code hash
  that fits their code, every index of the access list is in range, the snapshot identifiers increase, and the counter of every
  address but one is the number of journal entries that touch it.
\<close>

theorem reachable_database_wf:
  assumes "sdb_reach K s"
  shows "(\<forall>a obj. map_of (s_stateObjects s) a = Some obj \<longrightarrow> so_address obj = a \<and>
      (so_code obj \<noteq> [] \<longrightarrow> sa_CodeHash (so_data obj) = hash_bytes (hash_of K (so_code obj)))) \<and>
    (\<forall>a k. al_Contains (s_accessList s) a k \<noteq> None) \<and>
    sorted_wrt (<) (map rev_id (j_validRevisions (s_journal s))) \<and>
    (\<forall>a. a \<noteq> ripemd \<longrightarrow> dirties_at (j_dirties (s_journal s)) a = int (count_dirty a (j_entries (s_journal s))))"
proof -
  have inv: "objects_ok K s" "al_ok (s_accessList s)" "journal_ok (s_journal s)" using reach_inv(1) [OF assms] by (simp_all add: sdb_inv_def)
  have "al_Contains (s_accessList s) a k \<noteq> None" for a k
    using inv(2) by (auto simp: al_ok_def al_Contains_def split: option.split)
  moreover have "so_address obj = a \<and> (so_code obj \<noteq> [] \<longrightarrow> sa_CodeHash (so_data obj) = hash_bytes (hash_of K (so_code obj)))"
    if "map_of (s_stateObjects s) a = Some obj" for a obj
    using inv(1) that by (auto simp: objects_ok_def object_ok_def)
  ultimately show ?thesis
    using inv(3) dirties_ok_at by (auto simp: journal_ok_def revisions_ok_def)
qed

theorem reachable_database_wf_witness:
  "\<exists>s. db_step two_hash (DoSetNonce 9 4) (one_db store_fail) = Some s \<and>
     dirties_at (j_dirties (s_journal s)) 9 = int (count_dirty 9 (j_entries (s_journal s)))"
proof -
  obtain s where s: "db_step two_hash (DoSetNonce 9 4) (one_db store_fail) = Some s" by simp
  have "sdb_reach two_hash s" by (rule reach_step [OF one_db_reach _ s]) (simp_all add: store_fail_def)
  from reachable_database_wf [OF this] s show ?thesis by (auto simp: ripemd_def)
qed

text \<open>
  C27. Every query of an account answers from the world, whether the object is live, cached or still on disk,
  and leaves the world unchanged.
\<close>

theorem queries_see_the_world:
  assumes "sdb_reach K s"
  shows "fst (sdb_Exist K a s) = (w_accounts (world K s) a \<noteq> None) \<and>
    fst (sdb_Empty K a s) = at_account (world K s) a True (a_empty K) \<and>
    fst (sdb_GetBalance K a s) = at_account (world K s) a 0 (\<lambda>acc. sa_Balance (a_data acc)) \<and>
    fst (sdb_GetNonce K a s) = at_account (world K s) a 0 (\<lambda>acc. sa_Nonce (a_data acc)) \<and>
    fst (sdb_GetCode K a s) = at_account (world K s) a [] a_code \<and>
    fst (sdb_GetCodeSize K a s) = at_account (world K s) a 0 (\<lambda>acc. length (a_code acc)) \<and>
    fst (sdb_GetState K a k s) = at_account (world K s) a 0 (\<lambda>acc. a_storage acc k) \<and>
    fst (sdb_GetCommittedState K a k s) = at_account (world K s) a 0 (\<lambda>acc. a_committed acc k) \<and>
    {snd (sdb_Exist K a s), snd (sdb_Empty K a s), snd (sdb_GetBalance K a s), snd (sdb_GetNonce K a s), snd (sdb_GetCode K a s),
     snd (sdb_GetCodeSize K a s), snd (sdb_GetState K a k s), snd (sdb_GetCommittedState K a k s)} \<subseteq> {s'. world K s' = world K s}"
proof -
  have ok: "objects_ok K s" using reach_inv(1) [OF assms] by blast
  note q = queries_spec [OF ok, OF surjective_pairing]
  have w: "reads K s s' \<Longrightarrow> world K s' = world K s" for s' by (simp add: reads_def)
  show ?thesis
    using q(1-4,6,7,9,10) [THEN conjunct1] q(1-4,6,7,9,10) [THEN conjunct2, THEN w] by simp
qed

theorem queries_see_the_world_witness:
  "fst (sdb_GetState two_hash 0xc0de 3 (one_db store_fail)) = 0 \<and> fst (sdb_GetCode two_hash 0xc0de (one_db store_fail)) = store_fail"
proof -
  have o: "object_at two_hash (one_db store_fail) 0xc0de = Some (newObject two_hash 0xc0de (Some \<lparr>sa_Nonce = 1, sa_Balance = 7,
      sa_Root = EmptyRootHash, sa_CodeHash = hash_bytes 2\<rparr>))"
    by (simp add: object_at_def stored_object_def one_db_def sdb_NewWithReader_def one_reader_def)
  have "sdb_reach two_hash (one_db store_fail)" by (rule one_db_reach) (simp add: store_fail_def)
  from queries_see_the_world [OF this, of "0xc0de" 3] show ?thesis
    by (simp add: world_account o storage_view_def committed_view_def code_view_def newObject_def)
      (simp add: one_db_def sdb_NewWithReader_def one_reader_def)
qed

section \<open>The end of a transaction\<close>

text \<open>
  C20. \<open>Finalise\<close> deletes exactly the touched accounts that self-destructed, or that are empty when empty accounts are to be deleted,
  makes the current storage of the other touched accounts their committed storage, clears the flag of new contracts,
  leaves every other account, the logs and the access list alone, and starts over with an empty journal and no refund.
\<close>

theorem finalise_settles_touched:
  assumes "sdb_reach K s"
  shows "world K (sdb_Finalise K del s) = finalise_world K del (touched s) (world K s) \<and> s_journal (sdb_Finalise K del s) = newJournal"
  using Finalise_spec [OF reach_inv [OF assms]] by blast

theorem finalise_settles_touched_witness:
  "\<exists>s. db_step two_hash (DoAddBalance 9 0) (one_db store_fail) = Some s \<and>
     world two_hash (sdb_Finalise two_hash True s) = finalise_world two_hash True (touched s) (world two_hash s)"
proof -
  obtain s where s: "db_step two_hash (DoAddBalance 9 0) (one_db store_fail) = Some s" by simp
  have "sdb_reach two_hash s" by (rule reach_step [OF one_db_reach _ s]) (simp_all add: store_fail_def)
  from finalise_settles_touched [OF this] s show ?thesis by blast
qed

text \<open>
  C28. With the rules of EIP-2929, \<open>Prepare\<close> makes warm exactly the sender, the recipient, the precompiled contracts,
  the addresses of the access list and, from Shanghai on, the coinbase; the warm slots are those of the access list, and
  the transient storage is empty.
\<close>

theorem prepare_warms_exactly:
  assumes "IsEIP2929 rules" and "\<not> IsEIP4762 rules"
  shows "\<exists>s'. sdb_Prepare rules sender coinbase dst pcs xs s = Some s' \<and>
    {a. sdb_AddressInAccessList s' a} = {sender} \<union> set_option dst \<union> set pcs \<union> fst ` set xs \<union> (if IsShanghai rules then {coinbase} else {}) \<and>
    {(a, k). sdb_SlotInAccessList s' a k = Some (True, True)} = {(a, k). k \<in> listed xs a} \<and>
    (\<forall>a k. sdb_GetTransientState s' a k = 0)"
proof -
  from Prepare_warm [OF assms, of sender coinbase dst pcs xs s] obtain s' where s': "sdb_Prepare rules sender coinbase dst pcs xs s = Some s'"
    "al_wf (s_accessList s')"
    "dom (al_abs (s_accessList s')) = {sender} \<union> set_option dst \<union> set pcs \<union> fst ` set xs \<union> (if IsShanghai rules then {coinbase} else {})"
    "warm_slots (al_abs (s_accessList s')) = listed xs" "s_transientStorage s' = newTransientStorage" by blast
  note q = al_abs_queries [OF s'(2)]
  have "{a. sdb_AddressInAccessList s' a} = dom (al_abs (s_accessList s'))" by (auto simp: sdb_AddressInAccessList_def q(1))
  moreover have "sdb_SlotInAccessList s' a k = Some (True, True) \<longleftrightarrow> k \<in> listed xs a" for a k
    using fun_cong [OF s'(4), of a] by (auto simp: sdb_SlotInAccessList_def q(2) warm_slots_def split: option.splits)
  ultimately show ?thesis using s'(1,3,5) by (auto simp: sdb_GetTransientState_def)
qed

definition berlin_rules :: Rules where
  "berlin_rules = frontier_rules\<lparr>IsEIP2929 := True, IsBerlin := True\<rparr>"

theorem prepare_warms_exactly_witness:
  "\<exists>s'. sdb_Prepare berlin_rules 1 2 (Some 3) [4] [(5, [6, 7])] (one_db store_fail) = Some s' \<and>
     {a. sdb_AddressInAccessList s' a} = {1, 3, 4, 5}"
  using prepare_warms_exactly [of berlin_rules 1 2 "Some 3" "[4]" "[(5, [6, 7])]" "one_db store_fail"]
  by (auto simp: berlin_rules_def frontier_rules_def)

text \<open>
  \<open>Copy\<close> copies every part of the database, the journal with its snapshots included; so a snapshot of
  the original can be applied to the copy.
\<close>

theorem copy_keeps_everything:
  "sdb_Copy s = s \<and> sdb_RevertToSnapshot K i (sdb_Copy s) = sdb_RevertToSnapshot K i s"
proof -
  have e: "entry_copy = (\<lambda>e. e)"
  proof
    show "entry_copy e = e" for e by (cases e) simp_all
  qed
  have o: "so_deepCopy = (\<lambda>obj. obj)" by (rule ext) (simp add: so_deepCopy_def)
  have m: "map (\<lambda>(addr, op). (addr, \<lparr>mu_typ = mu_typ op, mu_applied = mu_applied op\<rparr>)) xs = xs" for xs :: "(Address \<times> mutation) list"
    by (rule map_idI) auto
  have j: "journal_copy j = j" for j by (simp add: journal_copy_def e)
  have "sdb_Copy s = s" unfolding sdb_Copy_def m j by (simp add: o)
  then show ?thesis by simp
qed


end
