(* ===== verification/Config_Check.thy ===== *)
theory Config_Check
  imports Chain_Config
begin

text \<open>
  The checks on chain configurations (\<^verbatim>\<open>src/go-ethereum/params/config.go\<close>): the order of the forks of one
  configuration, and whether a new configuration keeps the past of a chain that ran with a stored one. The
  order check makes the rules of every block cumulative; the compatibility check makes the rules of both
  configurations agree on every block up to the head, except for one case of the Petersburg fork.
\<close>

section \<open>Fork order\<close>

record fork =
  fk_name :: string
  fk_block :: "nat option"
  fk_timestamp :: "u64 option"
  fk_optional :: bool

datatype config_error =
    ErrForkNotEnabled string string
  | ErrForkOrder string string
  | ErrForkBlockAfterTime string string
  | ErrBlobMax string
  | ErrBlobTarget string
  | ErrBlobUpdateFraction string
  | ErrBlobMissing string

definition block_fork :: "string \<Rightarrow> nat option \<Rightarrow> bool \<Rightarrow> fork" where
  "block_fork name b opt = \<lparr>fk_name = name, fk_block = b, fk_timestamp = None, fk_optional = opt\<rparr>"

definition timed_fork :: "string \<Rightarrow> u64 option \<Rightarrow> bool \<Rightarrow> fork" where
  "timed_fork name t opt = \<lparr>fk_name = name, fk_block = None, fk_timestamp = t, fk_optional = opt\<rparr>"

definition fork_list :: "ChainConfig \<Rightarrow> fork list" where
  "fork_list c =
     [block_fork ''homesteadBlock'' (HomesteadBlock c) False,
      block_fork ''daoForkBlock'' (DAOForkBlock c) True,
      block_fork ''eip150Block'' (EIP150Block c) False,
      block_fork ''eip155Block'' (EIP155Block c) False,
      block_fork ''eip158Block'' (EIP158Block c) False,
      block_fork ''byzantiumBlock'' (ByzantiumBlock c) False,
      block_fork ''constantinopleBlock'' (ConstantinopleBlock c) False,
      block_fork ''petersburgBlock'' (PetersburgBlock c) False,
      block_fork ''istanbulBlock'' (IstanbulBlock c) False,
      block_fork ''muirGlacierBlock'' (MuirGlacierBlock c) True,
      block_fork ''berlinBlock'' (BerlinBlock c) False,
      block_fork ''londonBlock'' (LondonBlock c) False,
      block_fork ''arrowGlacierBlock'' (ArrowGlacierBlock c) True,
      block_fork ''grayGlacierBlock'' (GrayGlacierBlock c) True,
      block_fork ''mergeNetsplitBlock'' (MergeNetsplitBlock c) True,
      timed_fork ''shanghaiTime'' (ShanghaiTime c) False,
      timed_fork ''cancunTime'' (CancunTime c) True,
      timed_fork ''pragueTime'' (PragueTime c) True,
      timed_fork ''osakaTime'' (OsakaTime c) True,
      timed_fork ''verkleTime'' (VerkleTime c) True,
      timed_fork ''bpo1'' (BPO1Time c) True,
      timed_fork ''bpo2'' (BPO2Time c) True,
      timed_fork ''bpo3'' (BPO3Time c) True,
      timed_fork ''bpo4'' (BPO4Time c) True,
      timed_fork ''bpo5'' (BPO5Time c) True,
      timed_fork ''amsterdam'' (AmsterdamTime c) True]"

text \<open>
  One turn of the loop: the comparison with the last fork. A comparison with a nil block number would panic
  (\<open>None\<close>); the entries of \<open>fork_list\<close> never reach it, since none has both a block and a time.
\<close>

definition check_fork :: "fork \<Rightarrow> fork \<Rightarrow> (config_error + unit) option" where
  "check_fork lastFork cur =
     (if fk_block lastFork = None \<and> fk_timestamp lastFork = None \<and> (fk_block cur \<noteq> None \<or> fk_timestamp cur \<noteq> None)
      then Some (Inl (ErrForkNotEnabled (fk_name lastFork) (fk_name cur)))
      else if (fk_block lastFork \<noteq> None \<and> fk_block cur \<noteq> None) \<or> (fk_timestamp lastFork \<noteq> None \<and> fk_timestamp cur \<noteq> None)
      then
        (let out_of_order = Some (Inl (ErrForkOrder (fk_name lastFork) (fk_name cur)));
             rest = (if fk_timestamp lastFork \<noteq> None \<and> fk_block cur \<noteq> None
                     then Some (Inl (ErrForkBlockAfterTime (fk_name lastFork) (fk_name cur))) else Some (Inr ()));
             times = (case (fk_timestamp lastFork, fk_timestamp cur) of
                        (None, _) \<Rightarrow> rest
                      | (Some a, None) \<Rightarrow> None
                      | (Some a, Some b) \<Rightarrow> if a > b then out_of_order else rest)
         in case (fk_block lastFork, fk_block cur) of
              (None, _) \<Rightarrow> times
            | (Some a, None) \<Rightarrow> None
            | (Some a, Some b) \<Rightarrow> if a > b then out_of_order else times)
      else Some (Inr ()))"

fun check_forks :: "fork option \<Rightarrow> fork list \<Rightarrow> (config_error + unit) option" where
  "check_forks lastFork [] = Some (Inr ())"
| "check_forks lastFork (cur # rest) =
     (let next = (if \<not> fk_optional cur \<or> fk_block cur \<noteq> None \<or> fk_timestamp cur \<noteq> None then Some cur else lastFork)
      in case lastFork of
           None \<Rightarrow> check_forks next rest
         | Some l \<Rightarrow>
             (case check_fork l cur of
                None \<Rightarrow> None
              | Some (Inl e) \<Rightarrow> Some (Inl e)
              | Some (Inr _) \<Rightarrow> check_forks next rest))"

definition bc_validate :: "string \<Rightarrow> BlobConfig \<Rightarrow> config_error + unit" where
  "bc_validate name bc =
     (if bc_Max bc < 0 then Inl (ErrBlobMax name)
      else if bc_Target bc < 0 then Inl (ErrBlobTarget name)
      else if bc_UpdateFraction bc = 0 then Inl (ErrBlobUpdateFraction name)
      else Inr ())"

definition no_blobs :: BlobScheduleConfig where
  "no_blobs =
     \<lparr>bs_Cancun = None, bs_Prague = None, bs_Osaka = None, bs_Verkle = None, bs_BPO1 = None, bs_BPO2 = None, bs_BPO3 = None,
      bs_BPO4 = None, bs_BPO5 = None, bs_Amsterdam = None\<rparr>"

definition blob_list :: "ChainConfig \<Rightarrow> (string \<times> u64 option \<times> BlobConfig option) list" where
  "blob_list c =
     (let bsc = (case cc_BlobScheduleConfig c of None \<Rightarrow> no_blobs | Some bsc \<Rightarrow> bsc)
      in [(''cancun'', CancunTime c, bs_Cancun bsc),
          (''prague'', PragueTime c, bs_Prague bsc),
          (''osaka'', OsakaTime c, bs_Osaka bsc),
          (''bpo1'', BPO1Time c, bs_BPO1 bsc),
          (''bpo2'', BPO2Time c, bs_BPO2 bsc),
          (''bpo3'', BPO3Time c, bs_BPO3 bsc),
          (''bpo4'', BPO4Time c, bs_BPO4 bsc),
          (''bpo5'', BPO5Time c, bs_BPO5 bsc),
          (''amsterdam'', AmsterdamTime c, bs_Amsterdam bsc)])"

fun check_blobs :: "(string \<times> u64 option \<times> BlobConfig option) list \<Rightarrow> config_error + unit" where
  "check_blobs [] = Inr ()"
| "check_blobs ((name, time, config) # rest) =
     (case (case config of None \<Rightarrow> Inr () | Some bc \<Rightarrow> bc_validate name bc) of
        Inl e \<Rightarrow> Inl e
      | Inr _ \<Rightarrow> if time \<noteq> None \<and> config = None then Inl (ErrBlobMissing name) else check_blobs rest)"

definition CheckConfigForkOrder :: "ChainConfig \<Rightarrow> (config_error + unit) option" where
  "CheckConfigForkOrder c =
     (case check_forks None (fork_list c) of
        None \<Rightarrow> None
      | Some (Inl e) \<Rightarrow> Some (Inl e)
      | Some (Inr _) \<Rightarrow> Some (check_blobs (blob_list c)))"

section \<open>Compatibility\<close>

definition isForkBlockIncompatible :: "nat option \<Rightarrow> nat option \<Rightarrow> nat option \<Rightarrow> bool" where
  "isForkBlockIncompatible s1 s2 head \<longleftrightarrow> (isBlockForked s1 head \<or> isBlockForked s2 head) \<and> s1 \<noteq> s2"

definition isForkTimestampIncompatible :: "u64 option \<Rightarrow> u64 option \<Rightarrow> u64 \<Rightarrow> bool" where
  "isForkTimestampIncompatible s1 s2 head \<longleftrightarrow> (isTimestampForked s1 head \<or> isTimestampForked s2 head) \<and> s1 \<noteq> s2"

record ConfigCompatError =
  What :: string
  StoredBlock :: "nat option"
  NewBlock :: "nat option"
  StoredTime :: "u64 option"
  NewTime :: "u64 option"
  RewindToBlock :: u64
  RewindToTime :: u64

text \<open>The earlier of two schedules, either of which may be nil.\<close>

definition earlier :: "'a :: linorder option \<Rightarrow> 'a option \<Rightarrow> 'a option" where
  "earlier stored new =
     (case (stored, new) of
        (None, _) \<Rightarrow> new
      | (Some a, None) \<Rightarrow> stored
      | (Some a, Some b) \<Rightarrow> if a < b then stored else new)"

definition newBlockCompatError :: "string \<Rightarrow> nat option \<Rightarrow> nat option \<Rightarrow> ConfigCompatError" where
  "newBlockCompatError what storedblock newblock =
     \<lparr>What = what, StoredBlock = storedblock, NewBlock = newblock, StoredTime = None, NewTime = None,
      RewindToBlock = (case earlier storedblock newblock of None \<Rightarrow> 0 | Some rew \<Rightarrow> if rew > 0 then of_nat rew - 1 else 0),
      RewindToTime = 0\<rparr>"

definition newTimestampCompatError :: "string \<Rightarrow> u64 option \<Rightarrow> u64 option \<Rightarrow> ConfigCompatError" where
  "newTimestampCompatError what storedtime newtime =
     \<lparr>What = what, StoredBlock = None, NewBlock = None, StoredTime = storedtime, NewTime = newtime, RewindToBlock = 0,
      RewindToTime = (case earlier storedtime newtime of None \<Rightarrow> 0 | Some rew \<Rightarrow> if rew \<noteq> 0 then rew - 1 else 0)\<rparr>"

text \<open>The first check of a list that reports an error; each of them is one conditional of the code.\<close>

fun first_error :: "(bool \<times> 'e) list \<Rightarrow> 'e option" where
  "first_error [] = None"
| "first_error ((cond, e) # rest) = (if cond then Some e else first_error rest)"

definition block_check :: "string \<Rightarrow> nat option \<Rightarrow> nat option \<Rightarrow> nat option \<Rightarrow> bool \<times> ConfigCompatError" where
  "block_check what s1 s2 head = (isForkBlockIncompatible s1 s2 head, newBlockCompatError what s1 s2)"

definition time_check :: "string \<Rightarrow> u64 option \<Rightarrow> u64 option \<Rightarrow> u64 \<Rightarrow> bool \<times> ConfigCompatError" where
  "time_check what s1 s2 head = (isForkTimestampIncompatible s1 s2 head, newTimestampCompatError what s1 s2)"

definition compat_checks :: "ChainConfig \<Rightarrow> ChainConfig \<Rightarrow> nat option \<Rightarrow> u64 \<Rightarrow> (bool \<times> ConfigCompatError) list" where
  "compat_checks c newcfg headNumber headTimestamp =
     [block_check ''Homestead fork block'' (HomesteadBlock c) (HomesteadBlock newcfg) headNumber,
      block_check ''DAO fork block'' (DAOForkBlock c) (DAOForkBlock newcfg) headNumber,
      (cfg_IsDAOFork c headNumber \<and> DAOForkSupport c \<noteq> DAOForkSupport newcfg,
       newBlockCompatError ''DAO fork support flag'' (DAOForkBlock c) (DAOForkBlock newcfg)),
      block_check ''EIP150 fork block'' (EIP150Block c) (EIP150Block newcfg) headNumber,
      block_check ''EIP155 fork block'' (EIP155Block c) (EIP155Block newcfg) headNumber,
      block_check ''EIP158 fork block'' (EIP158Block c) (EIP158Block newcfg) headNumber,
      (cfg_IsEIP158 c headNumber \<and> cc_ChainID c \<noteq> cc_ChainID newcfg,
       newBlockCompatError ''EIP158 chain ID'' (EIP158Block c) (EIP158Block newcfg)),
      block_check ''Byzantium fork block'' (ByzantiumBlock c) (ByzantiumBlock newcfg) headNumber,
      block_check ''Constantinople fork block'' (ConstantinopleBlock c) (ConstantinopleBlock newcfg) headNumber,
      (isForkBlockIncompatible (PetersburgBlock c) (PetersburgBlock newcfg) headNumber \<and>
         isForkBlockIncompatible (ConstantinopleBlock c) (PetersburgBlock newcfg) headNumber,
       newBlockCompatError ''Petersburg fork block'' (PetersburgBlock c) (PetersburgBlock newcfg)),
      block_check ''Istanbul fork block'' (IstanbulBlock c) (IstanbulBlock newcfg) headNumber,
      block_check ''Muir Glacier fork block'' (MuirGlacierBlock c) (MuirGlacierBlock newcfg) headNumber,
      block_check ''Berlin fork block'' (BerlinBlock c) (BerlinBlock newcfg) headNumber,
      block_check ''London fork block'' (LondonBlock c) (LondonBlock newcfg) headNumber,
      block_check ''Arrow Glacier fork block'' (ArrowGlacierBlock c) (ArrowGlacierBlock newcfg) headNumber,
      block_check ''Gray Glacier fork block'' (GrayGlacierBlock c) (GrayGlacierBlock newcfg) headNumber,
      block_check ''Merge netsplit fork block'' (MergeNetsplitBlock c) (MergeNetsplitBlock newcfg) headNumber,
      time_check ''Shanghai fork timestamp'' (ShanghaiTime c) (ShanghaiTime newcfg) headTimestamp,
      time_check ''Cancun fork timestamp'' (CancunTime c) (CancunTime newcfg) headTimestamp,
      time_check ''Prague fork timestamp'' (PragueTime c) (PragueTime newcfg) headTimestamp,
      time_check ''Osaka fork timestamp'' (OsakaTime c) (OsakaTime newcfg) headTimestamp,
      time_check ''Verkle fork timestamp'' (VerkleTime c) (VerkleTime newcfg) headTimestamp,
      time_check ''BPO1 fork timestamp'' (BPO1Time c) (BPO1Time newcfg) headTimestamp,
      time_check ''BPO2 fork timestamp'' (BPO2Time c) (BPO2Time newcfg) headTimestamp,
      time_check ''BPO3 fork timestamp'' (BPO3Time c) (BPO3Time newcfg) headTimestamp,
      time_check ''BPO4 fork timestamp'' (BPO4Time c) (BPO4Time newcfg) headTimestamp,
      time_check ''BPO5 fork timestamp'' (BPO5Time c) (BPO5Time newcfg) headTimestamp,
      time_check ''Amsterdam fork timestamp'' (AmsterdamTime c) (AmsterdamTime newcfg) headTimestamp]"

definition checkCompatible :: "ChainConfig \<Rightarrow> ChainConfig \<Rightarrow> nat \<Rightarrow> u64 \<Rightarrow> ConfigCompatError option" where
  "checkCompatible c newcfg headNumber headTimestamp = first_error (compat_checks c newcfg (Some headNumber) headTimestamp)"

text \<open>
  The loop of \<open>CheckCompatible\<close>: it goes back to the point of the last error until there is none or the point
  stays the same.
\<close>

definition same_rewind :: "ConfigCompatError option \<Rightarrow> ConfigCompatError \<Rightarrow> bool" where
  "same_rewind lasterr err \<longleftrightarrow>
     (case lasterr of
        None \<Rightarrow> False
      | Some l \<Rightarrow> RewindToBlock err = RewindToBlock l \<and> RewindToTime err = RewindToTime l)"

definition goes_back :: "nat \<Rightarrow> u64 \<Rightarrow> bool \<times> ConfigCompatError \<Rightarrow> bool" where
  "goes_back h t ch \<longleftrightarrow>
     (fst ch \<longrightarrow> (if RewindToTime (snd ch) > 0 then RewindToTime (snd ch) < t
                  else unat (RewindToBlock (snd ch)) < h \<or> RewindToBlock (snd ch) = 0))"

lemma earlier_le: "earlier a b = Some r \<Longrightarrow> (case a of None \<Rightarrow> True | Some x \<Rightarrow> r \<le> x) \<and> (case b of None \<Rightarrow> True | Some x \<Rightarrow> r \<le> x)"
  by (auto simp: earlier_def split: option.splits if_splits)

lemma unat_pred_u64: "0 < n \<Longrightarrow> unat (of_nat n - 1 :: u64) < n"
proof -
  assume n: "0 < n"
  have "unat (of_nat n - 1 :: u64) \<le> n - 1"
  proof -
    have "(of_nat n - 1 :: u64) = of_nat (n - 1)" using n by (simp add: of_nat_diff)
    then show ?thesis by (simp add: unat_of_nat)
  qed
  with n show ?thesis by simp
qed

lemma block_error_back:
  assumes "isBlockForked s1 (Some h) \<or> isBlockForked s2 (Some h)"
  shows "goes_back h t (cond, newBlockCompatError what s1 s2)"
proof (cases "earlier s1 s2")
  case None
  then show ?thesis by (simp add: goes_back_def newBlockCompatError_def)
next
  case (Some r)
  with assms earlier_le [OF Some] have "r \<le> h" by (auto simp: isBlockForked_def split: option.splits)
  with Some unat_pred_u64 [of r] show ?thesis by (auto simp: goes_back_def newBlockCompatError_def)
qed

lemma time_error_back:
  assumes "isTimestampForked s1 t \<or> isTimestampForked s2 t"
  shows "goes_back h t (cond, newTimestampCompatError what s1 s2)"
proof (cases "earlier s1 s2")
  case None
  then show ?thesis by (simp add: goes_back_def newTimestampCompatError_def)
next
  case (Some r)
  with assms earlier_le [OF Some] have r: "r \<le> t" by (auto simp: isTimestampForked_def split: option.splits)
  have "r - 1 < t" if "r \<noteq> 0" using that r by unat_arith
  with Some show ?thesis by (auto simp: goes_back_def newTimestampCompatError_def)
qed

lemma checks_back:
  "goes_back h t (block_check what s1 s2 (Some h))" "goes_back h t (time_check what s1' s2' t)"
  "goes_back h t (cfg_IsDAOFork c (Some h) \<and> P, newBlockCompatError what (DAOForkBlock c) b)"
  "goes_back h t (cfg_IsEIP158 c (Some h) \<and> P, newBlockCompatError what (EIP158Block c) b)"
  "goes_back h t (isForkBlockIncompatible s1 s2 (Some h) \<and> P, newBlockCompatError what s1 s2)"
proof -
  have guard: "goes_back h t (cond, e)" if "cond \<Longrightarrow> goes_back h t (cond, e)" for cond e
    using that by (cases cond) (simp_all add: goes_back_def)
  show "goes_back h t (block_check what s1 s2 (Some h))"
    unfolding block_check_def by (rule guard, rule block_error_back) (simp add: isForkBlockIncompatible_def)
  show "goes_back h t (time_check what s1' s2' t)"
    unfolding time_check_def by (rule guard, rule time_error_back) (simp add: isForkTimestampIncompatible_def)
  show "goes_back h t (cfg_IsDAOFork c (Some h) \<and> P, newBlockCompatError what (DAOForkBlock c) b)"
    by (rule guard, rule block_error_back) (simp add: cfg_IsDAOFork_def)
  show "goes_back h t (cfg_IsEIP158 c (Some h) \<and> P, newBlockCompatError what (EIP158Block c) b)"
    by (rule guard, rule block_error_back) (simp add: cfg_IsEIP158_def)
  show "goes_back h t (isForkBlockIncompatible s1 s2 (Some h) \<and> P, newBlockCompatError what s1 s2)"
    by (rule guard, rule block_error_back) (simp add: isForkBlockIncompatible_def)
qed

lemma first_error_back:
  assumes "list_all (goes_back h t) checks" and "first_error checks = Some e"
  shows "goes_back h t (True, e)"
  using assms by (induction checks rule: first_error.induct) (auto simp: goes_back_def split: if_splits)

lemma compat_checks_back: "list_all (goes_back h t) (compat_checks c newcfg (Some h) t)"
  by (simp add: compat_checks_def checks_back)

lemma checkCompatible_back: "checkCompatible c newcfg h t = Some e \<Longrightarrow> goes_back h t (True, e)"
  unfolding checkCompatible_def by (rule first_error_back [OF compat_checks_back])

function compat_loop :: "ChainConfig \<Rightarrow> ChainConfig \<Rightarrow> ConfigCompatError option \<Rightarrow> nat \<Rightarrow> u64 \<Rightarrow> ConfigCompatError option" where
  "compat_loop c newcfg lasterr bhead btime =
     (case checkCompatible c newcfg bhead btime of
        None \<Rightarrow> lasterr
      | Some err \<Rightarrow>
          if same_rewind lasterr err then lasterr
          else if RewindToTime err > 0 then compat_loop c newcfg (Some err) bhead (RewindToTime err)
          else compat_loop c newcfg (Some err) (unat (RewindToBlock err)) btime)"
  by pat_completeness auto

definition compat_measure :: "ChainConfig \<times> ChainConfig \<times> ConfigCompatError option \<times> nat \<times> u64 \<Rightarrow> nat" where
  "compat_measure = (\<lambda>(c, newcfg, lasterr, h, t).
     2 * (h + unat t) + (case checkCompatible c newcfg h t of None \<Rightarrow> 0 | Some err \<Rightarrow> if same_rewind lasterr err then 0 else 1))"

termination compat_loop
proof (relation "measure compat_measure")
  fix c newcfg lasterr h t err
  assume err: "checkCompatible c newcfg h t = Some err" and other: "\<not> same_rewind lasterr err"
  note rewound = checkCompatible_back [OF err]
  show "((c, newcfg, Some err, h, RewindToTime err), c, newcfg, lasterr, h, t) \<in> measure compat_measure" if "0 < RewindToTime err"
    using that rewound other err by (auto simp: compat_measure_def goes_back_def word_less_nat_alt split: option.split)
  show "((c, newcfg, Some err, unat (RewindToBlock err), t), c, newcfg, lasterr, h, t) \<in> measure compat_measure"
    if "\<not> 0 < RewindToTime err"
  proof (cases "unat (RewindToBlock err) < h")
    case True
    then show ?thesis using other err by (auto simp: compat_measure_def split: option.split)
  next
    case False
    with that rewound have zero: "RewindToBlock err = 0" by (auto simp: goes_back_def)
    with False have "h = 0" by simp
    with zero err other show ?thesis by (simp add: compat_measure_def same_rewind_def)
  qed
qed simp

definition CheckCompatible :: "ChainConfig \<Rightarrow> ChainConfig \<Rightarrow> u64 \<Rightarrow> u64 \<Rightarrow> ConfigCompatError option" where
  "CheckCompatible c newcfg height time = compat_loop c newcfg None (unat height) time"

section \<open>What the order check gives\<close>

abbreviation accepted :: "(config_error + unit) option" where
  "accepted \<equiv> Some (Inr ())"

definition is_block_fork :: "fork \<Rightarrow> bool" where
  "is_block_fork f \<longleftrightarrow> fk_timestamp f = None"

definition is_time_fork :: "fork \<Rightarrow> bool" where
  "is_time_fork f \<longleftrightarrow> fk_block f = None"

definition enabled :: "fork \<Rightarrow> bool" where
  "enabled f \<longleftrightarrow> fk_block f \<noteq> None \<or> fk_timestamp f \<noteq> None"

lemma fork_kinds [simp]:
  "is_block_fork (block_fork name b opt)" "fk_block (block_fork name b opt) = b" "fk_timestamp (block_fork name b opt) = None"
  "is_time_fork (timed_fork name t opt)" "fk_block (timed_fork name t opt) = None" "fk_timestamp (timed_fork name t opt) = t"
  "fk_optional (block_fork name b opt) = opt" "fk_optional (timed_fork name t opt) = opt"
  by (simp_all add: block_fork_def timed_fork_def is_block_fork_def is_time_fork_def)

lemma check_forks_step:
  assumes "check_forks (Some l) (cur # rest) = accepted"
  shows "check_fork l cur = accepted" and "check_forks (Some (if \<not> fk_optional cur \<or> enabled cur then cur else l)) rest = accepted"
  using assms by (auto simp: Let_def enabled_def split: option.splits sum.splits if_splits)

lemma check_fork_enabled: "check_fork l cur = accepted \<Longrightarrow> enabled cur \<Longrightarrow> enabled l"
  by (auto simp: check_fork_def enabled_def split: if_splits)

lemma later_enabled:
  "check_forks (Some l) xs = accepted \<Longrightarrow> x \<in> set xs \<Longrightarrow> enabled x \<Longrightarrow> enabled l"
proof (induction xs arbitrary: l)
  case (Cons cur rest)
  note step = check_forks_step [OF Cons.prems(1)]
  show ?case
  proof (cases "x = cur")
    case True
    then show ?thesis using check_fork_enabled [OF step(1)] Cons.prems(3) by simp
  next
    case False
    then have "enabled (if \<not> fk_optional cur \<or> enabled cur then cur else l)"
      using Cons.IH [OF step(2)] Cons.prems(2,3) by simp
    then show ?thesis using check_fork_enabled [OF step(1)] by (auto split: if_splits)
  qed
qed simp

text \<open>A schedule \<open>fld\<close> that \<open>check_fork\<close> keeps in order for neighbours of one kind is in order throughout.\<close>

lemma later_in_order:
  fixes fld :: "fork \<Rightarrow> 'a :: linorder option"
  assumes neighbours: "\<And>l cur b. check_fork l cur = accepted \<Longrightarrow> kind l \<Longrightarrow> kind cur \<Longrightarrow> fld cur = Some b \<Longrightarrow> \<exists>a\<le>b. fld l = Some a"
    and "check_forks (Some l) xs = accepted" and "kind l" and "list_all kind xs" and "x \<in> set xs" and "fld x = Some b"
  shows "\<exists>a\<le>b. fld l = Some a"
  using assms(2-6)
proof (induction xs arbitrary: l)
  case (Cons cur rest)
  note step = check_forks_step [OF Cons.prems(1)]
  let ?next = "if \<not> fk_optional cur \<or> enabled cur then cur else l"
  have here: "\<exists>a\<le>b. fld l = Some a" if "fld cur = Some b" for b
    using neighbours [OF step(1)] that Cons.prems(2,3) by simp
  show ?case
  proof (cases "x = cur")
    case True
    then show ?thesis using here Cons.prems(5) by simp
  next
    case False
    have "kind ?next" using Cons.prems(2,3) by simp
    from Cons.IH [OF step(2) this _ _ Cons.prems(5)] False Cons.prems(3,4)
    obtain a where a: "a \<le> b" "fld ?next = Some a" by auto
    show ?thesis
    proof (cases "\<not> fk_optional cur \<or> enabled cur")
      case True
      with a(2) obtain a' where "a' \<le> a" "fld l = Some a'" using here [of a] by auto
      with a(1) show ?thesis by (meson order_trans)
    qed (use a in auto)
  qed
qed simp

lemma later_block:
  assumes "check_forks (Some l) xs = accepted" and "is_block_fork l" and "list_all is_block_fork xs" and "x \<in> set xs" and "fk_block x = Some b"
  shows "\<exists>a\<le>b. fk_block l = Some a"
proof (rule later_in_order [where kind = is_block_fork and fld = fk_block, OF _ assms])
  fix l cur b
  assume "check_fork l cur = accepted" "is_block_fork l" "is_block_fork cur" "fk_block cur = Some b"
  then show "\<exists>a\<le>b. fk_block l = Some a"
    by (cases "fk_block l") (simp_all add: check_fork_def is_block_fork_def Let_def split: if_splits)
qed

lemma later_time:
  assumes "check_forks (Some l) xs = accepted" and "is_time_fork l" and "list_all is_time_fork xs" and "x \<in> set xs" and "fk_timestamp x = Some b"
  shows "\<exists>a\<le>b. fk_timestamp l = Some a"
proof (rule later_in_order [where kind = is_time_fork and fld = fk_timestamp, OF _ assms])
  fix l cur b
  assume "check_fork l cur = accepted" "is_time_fork l" "is_time_fork cur" "fk_timestamp cur = Some b"
  then show "\<exists>a\<le>b. fk_timestamp l = Some a"
    by (cases "fk_timestamp l") (simp_all add: check_fork_def is_time_fork_def Let_def split: if_splits)
qed

lemma check_forks_from:
  "check_forks lastFork (xs @ cur # rest) = accepted \<Longrightarrow> \<not> fk_optional cur \<Longrightarrow> check_forks (Some cur) rest = accepted"
proof (induction xs arbitrary: lastFork)
  case Nil
  then show ?case by (auto simp: Let_def split: option.splits sum.splits if_splits)
next
  case (Cons x xs)
  then show ?case by (auto simp: Let_def split: option.splits sum.splits if_splits)
qed

lemma block_order:
  assumes "check_forks None (pre @ cur # mid @ x # post) = accepted" and "\<not> fk_optional cur" and "list_all is_block_fork (cur # mid @ [x])"
    and "isBlockForked (fk_block x) num"
  shows "isBlockForked (fk_block cur) num"
proof -
  obtain b where b: "fk_block x = Some b" using assms(4) by (auto simp: isBlockForked_def split: option.splits)
  have "check_forks (Some cur) (mid @ [x]) = accepted"
  proof -
    have "check_forks (Some cur) ((mid @ [x]) @ post) = accepted" using check_forks_from [OF assms(1,2)] by simp
    moreover have "check_forks l (ys @ zs) = accepted \<Longrightarrow> check_forks l ys = accepted" for l ys zs
      by (induction ys arbitrary: l) (auto simp: Let_def split: option.splits sum.splits)
    ultimately show ?thesis by blast
  qed
  from later_block [OF this _ _ _ b] assms(3) obtain a where "a \<le> b" "fk_block cur = Some a" by auto
  with assms(4) b show ?thesis by (auto simp: isBlockForked_def split: option.splits)
qed

lemma time_order:
  assumes "check_forks None (pre @ cur # post) = accepted" and "\<not> fk_optional cur" and "list_all is_time_fork (cur # post)"
    and "x \<in> set post" and "isTimestampForked (fk_timestamp x) t"
  shows "isTimestampForked (fk_timestamp cur) t"
proof -
  obtain b where b: "fk_timestamp x = Some b" using assms(5) by (auto simp: isTimestampForked_def split: option.splits)
  from later_time [OF check_forks_from [OF assms(1,2)] _ _ assms(4) b] assms(3)
  obtain a where "a \<le> b" "fk_timestamp cur = Some a" by auto
  with assms(5) b show ?thesis by (auto simp: isTimestampForked_def)
qed

lemma order_accepted: "CheckConfigForkOrder c = accepted \<Longrightarrow> check_forks None (fork_list c) = accepted"
  by (auto simp: CheckConfigForkOrder_def split: option.splits sum.splits)

lemma cumulative_blocks:
  assumes "check_forks None (fork_list c) = accepted"
  shows "cfg_IsLondon c num \<Longrightarrow> cfg_IsBerlin c num" and "cfg_IsBerlin c num \<Longrightarrow> cfg_IsIstanbul c num"
    and "cfg_IsIstanbul c num \<Longrightarrow> cfg_IsPetersburg c num" and "isBlockForked (PetersburgBlock c) num \<Longrightarrow> cfg_IsConstantinople c num"
    and "cfg_IsConstantinople c num \<Longrightarrow> cfg_IsByzantium c num" and "cfg_IsByzantium c num \<Longrightarrow> cfg_IsEIP158 c num"
    and "cfg_IsEIP158 c num \<Longrightarrow> cfg_IsEIP155 c num" and "cfg_IsEIP155 c num \<Longrightarrow> cfg_IsEIP150 c num"
    and "cfg_IsEIP150 c num \<Longrightarrow> cfg_IsHomestead c num"
proof -
  have split: "check_forks None (take i (fork_list c) @ fork_list c ! i # take k (drop (Suc i) (fork_list c)) @
      drop k (drop (Suc i) (fork_list c))) = accepted" if "i < 26" for i k
  proof -
    have "i < length (fork_list c)" using that by (simp add: fork_list_def)
    then show ?thesis using assms by (simp only: append_take_drop_id id_take_nth_drop [symmetric])
  qed
  have next_fork: "isBlockForked (fk_block (fork_list c ! i)) num"
    if "isBlockForked (fk_block (fork_list c ! j)) num" "i < j" "j < 26" "\<not> fk_optional (fork_list c ! i)"
      "list_all is_block_fork (fork_list c ! i # take (j - Suc i) (drop (Suc i) (fork_list c)) @ [fork_list c ! j])" for i j
  proof -
    have "j < length (fork_list c)" using that(3) by (simp add: fork_list_def)
    then have "drop (j - Suc i) (drop (Suc i) (fork_list c)) = fork_list c ! j # drop (Suc j) (fork_list c)"
      using that(2) by (simp add: Cons_nth_drop_Suc)
    then show ?thesis using block_order [OF _ that(4,5,1)] split [of i "j - Suc i"] that(2,3) by simp
  qed
  show "cfg_IsLondon c num \<Longrightarrow> cfg_IsBerlin c num" using next_fork [of 11 10] by (simp add: fork_list_def block_fork_defs)
  show "cfg_IsBerlin c num \<Longrightarrow> cfg_IsIstanbul c num" using next_fork [of 10 8] by (simp add: fork_list_def block_fork_defs)
  show "cfg_IsIstanbul c num \<Longrightarrow> cfg_IsPetersburg c num" using next_fork [of 8 7] by (simp add: fork_list_def block_fork_defs)
  show "isBlockForked (PetersburgBlock c) num \<Longrightarrow> cfg_IsConstantinople c num" using next_fork [of 7 6] by (simp add: fork_list_def block_fork_defs)
  show "cfg_IsConstantinople c num \<Longrightarrow> cfg_IsByzantium c num" using next_fork [of 6 5] by (simp add: fork_list_def block_fork_defs)
  show "cfg_IsByzantium c num \<Longrightarrow> cfg_IsEIP158 c num" using next_fork [of 5 4] by (simp add: fork_list_def block_fork_defs)
  show "cfg_IsEIP158 c num \<Longrightarrow> cfg_IsEIP155 c num" using next_fork [of 4 3] by (simp add: fork_list_def block_fork_defs)
  show "cfg_IsEIP155 c num \<Longrightarrow> cfg_IsEIP150 c num" using next_fork [of 3 2] by (simp add: fork_list_def block_fork_defs)
  show "cfg_IsEIP150 c num \<Longrightarrow> cfg_IsHomestead c num" using next_fork [of 2 0] by (simp add: fork_list_def block_fork_defs)
qed

lemma cumulative_times:
  assumes "check_forks None (fork_list c) = accepted"
    and "t' \<in> {CancunTime c, PragueTime c, OsakaTime c, VerkleTime c, AmsterdamTime c}" and "isTimestampForked t' time"
  shows "isTimestampForked (ShanghaiTime c) time"
proof -
  have len: "15 < length (fork_list c)" by (simp add: fork_list_def)
  have "check_forks None (take 15 (fork_list c) @ fork_list c ! 15 # drop (Suc 15) (fork_list c)) = accepted"
    using assms(1) by (simp only: id_take_nth_drop [OF len, symmetric])
  moreover have "t' \<in> fk_timestamp ` set (drop (Suc 15) (fork_list c))"
    using assms(2) by (simp add: fork_list_def) blast
  then obtain x where "x \<in> set (drop (Suc 15) (fork_list c))" "t' = fk_timestamp x" by (elim imageE) blast
  moreover have "\<not> fk_optional (fork_list c ! 15)" "list_all is_time_fork (fork_list c ! 15 # drop (Suc 15) (fork_list c))"
    by (simp_all add: fork_list_def)
  ultimately have "isTimestampForked (fk_timestamp (fork_list c ! 15)) time"
    using assms(3) time_order by blast
  then show ?thesis by (simp add: fork_list_def)
qed

text \<open>
  C35. When the order check accepts a configuration, the rules of every block are cumulative: a fork scheduled by block
  number is only active together with all earlier ones, and every later fork only together with Shanghai and London.
\<close>

theorem fork_order_cumulative:
  assumes "CheckConfigForkOrder c = Some (Inr ())" and "r = cfg_Rules c num merged time"
  shows "(IsLondon r \<longrightarrow> IsBerlin r) \<and> (IsBerlin r \<longrightarrow> IsIstanbul r) \<and> (IsIstanbul r \<longrightarrow> IsPetersburg r) \<and>
    (IsPetersburg r \<longrightarrow> IsConstantinople r) \<and> (IsConstantinople r \<longrightarrow> IsByzantium r) \<and> (IsByzantium r \<longrightarrow> IsEIP158 r) \<and>
    (IsEIP158 r \<longrightarrow> IsEIP155 r) \<and> (IsEIP155 r \<longrightarrow> IsEIP150 r) \<and> (IsEIP150 r \<longrightarrow> IsHomestead r) \<and>
    (IsCancun r \<or> IsPrague r \<or> IsOsaka r \<or> IsVerkle r \<or> IsAmsterdam r \<longrightarrow> IsShanghai r) \<and> (IsShanghai r \<longrightarrow> IsMerge r) \<and>
    (IsMerge r \<longrightarrow> IsLondon r)"
proof -
  note ok = order_accepted [OF assms(1)]
  note blocks = cumulative_blocks [OF ok, of num]
  have "cfg_IsPetersburg c num \<Longrightarrow> cfg_IsConstantinople c num"
    using blocks(4) by (auto simp: cfg_IsPetersburg_def cfg_IsConstantinople_def)
  moreover have "time_fork fld c num time \<Longrightarrow> cfg_IsShanghai c num time"
    if "fld c \<in> {CancunTime c, PragueTime c, OsakaTime c, VerkleTime c, AmsterdamTime c}" for fld
    using cumulative_times [OF ok that] by (auto simp: cfg_IsShanghai_def time_fork_def)
  ultimately show ?thesis
    using blocks unfolding assms(2) cfg_Rules_def Let_def
    by (auto simp: cfg_IsCancun_def cfg_IsPrague_def cfg_IsOsaka_def cfg_IsVerkle_def cfg_IsAmsterdam_def)
qed

text \<open>A chain with every block fork at genesis except Constantinople at 3 and Petersburg and later at 7, and Shanghai at time 20.\<close>

definition ex_config :: ChainConfig where
  "ex_config = no_forks\<lparr>HomesteadBlock := Some 0, EIP150Block := Some 0, EIP155Block := Some 0, EIP158Block := Some 0,
     ByzantiumBlock := Some 0, ConstantinopleBlock := Some 3, PetersburgBlock := Some 7, IstanbulBlock := Some 7, BerlinBlock := Some 7,
     LondonBlock := Some 7, ShanghaiTime := Some 20\<rparr>"

lemmas order_eval = CheckConfigForkOrder_def fork_list_def check_fork_def block_fork_def timed_fork_def blob_list_def ex_config_def
  no_forks_def no_blobs_def Let_def

theorem fork_order_cumulative_witness:
  "CheckConfigForkOrder ex_config = Some (Inr ()) \<and> IsLondon (cfg_Rules ex_config (Some 9) True 0) \<and>
   IsPetersburg (cfg_Rules ex_config (Some 9) True 0)"
proof -
  have ok: "CheckConfigForkOrder ex_config = Some (Inr ())" by (simp add: order_eval)
  have "IsLondon (cfg_Rules ex_config (Some 9) True 0)"
    by (simp add: cfg_Rules_def cfg_IsLondon_def isBlockForked_def ex_config_def no_forks_def Let_def)
  with fork_order_cumulative [OF ok refl, of "Some 9" True 0] ok show ?thesis by simp
qed

section \<open>What the compatibility check gives\<close>

lemma first_error_None: "first_error checks = None \<longleftrightarrow> list_all (Not \<circ> fst) checks"
  by (induction checks rule: first_error.induct) auto

lemma compat_loop_error: "compat_loop c newcfg (Some e) h t \<noteq> None"
proof -
  have "lasterr \<noteq> None \<Longrightarrow> compat_loop c newcfg lasterr h t \<noteq> None" for lasterr
  proof (induction c newcfg lasterr h t rule: compat_loop.induct)
    case (1 c newcfg lasterr h t)
    then show ?case by (subst compat_loop.simps) (simp del: compat_loop.simps split: option.split)
  qed
  then show ?thesis by blast
qed

lemma CheckCompatible_None: "CheckCompatible c newcfg height time = None \<longleftrightarrow> checkCompatible c newcfg (unat height) time = None"
proof (cases "checkCompatible c newcfg (unat height) time")
  case None
  then show ?thesis unfolding CheckCompatible_def by (subst compat_loop.simps) (simp del: compat_loop.simps)
next
  case (Some e)
  then show ?thesis unfolding CheckCompatible_def
    by (subst compat_loop.simps) (use compat_loop_error in \<open>auto simp: same_rewind_def simp del: compat_loop.simps\<close>)
qed

lemma blocks_agree: "\<not> isForkBlockIncompatible s1 s2 (Some h) \<Longrightarrow> n \<le> h \<Longrightarrow> isBlockForked s1 (Some n) = isBlockForked s2 (Some n)"
  by (auto simp: isForkBlockIncompatible_def isBlockForked_def split: option.splits)

lemma times_agree: "\<not> isForkTimestampIncompatible s1 s2 h \<Longrightarrow> t \<le> h \<Longrightarrow> isTimestampForked s1 t = isTimestampForked s2 t"
  by (auto simp: isForkTimestampIncompatible_def isTimestampForked_def split: option.splits)

lemma compatible_forks:
  assumes "checkCompatible c newcfg h t = None" and "n \<le> h" and "s \<le> t"
  shows "list_all (\<lambda>fld. isBlockForked (fld c) (Some n) = isBlockForked (fld newcfg) (Some n))
      [HomesteadBlock, DAOForkBlock, EIP150Block, EIP155Block, EIP158Block, ByzantiumBlock, ConstantinopleBlock, IstanbulBlock,
       MuirGlacierBlock, BerlinBlock, LondonBlock, ArrowGlacierBlock, GrayGlacierBlock, MergeNetsplitBlock]"
    and "list_all (\<lambda>fld. isTimestampForked (fld c) s = isTimestampForked (fld newcfg) s)
      [ShanghaiTime, CancunTime, PragueTime, OsakaTime, VerkleTime, BPO1Time, BPO2Time, BPO3Time, BPO4Time, BPO5Time, AmsterdamTime]"
  using assms(1) unfolding checkCompatible_def first_error_None compat_checks_def
  by (simp_all add: block_check_def time_check_def blocks_agree [OF _ assms(2)] times_agree [OF _ assms(3)])

text \<open>
  C36. When the compatibility check accepts a new configuration for a chain with the given head, both configurations give
  the same rules for every block up to the head, in everything but Petersburg, and in Petersburg too when its
  block is unchanged.
\<close>

theorem compatible_same_rules:
  assumes "CheckCompatible c newcfg height time = None" and "n \<le> unat height" and "s \<le> time"
  shows "(cfg_Rules c (Some n) merged s)\<lparr>IsPetersburg := x\<rparr> = (cfg_Rules newcfg (Some n) merged s)\<lparr>IsPetersburg := x\<rparr> \<and>
    (PetersburgBlock c = PetersburgBlock newcfg \<longrightarrow> cfg_Rules c (Some n) merged s = cfg_Rules newcfg (Some n) merged s)"
proof -
  note agree = compatible_forks [OF assms(1) [unfolded CheckCompatible_None] assms(2,3), simplified]
  have rest: "(cfg_Rules c (Some n) merged s)\<lparr>IsPetersburg := x\<rparr> = (cfg_Rules newcfg (Some n) merged s)\<lparr>IsPetersburg := x\<rparr>" for x
    using agree by (simp add: cfg_Rules_def Let_def block_fork_defs time_fork_defs)
  moreover have "cfg_Rules c (Some n) merged s = cfg_Rules newcfg (Some n) merged s" if "PetersburgBlock c = PetersburgBlock newcfg"
    using agree that by (simp add: cfg_Rules_def Let_def block_fork_defs time_fork_defs)
  ultimately show ?thesis by blast
qed

lemmas compat_eval = CheckCompatible_None checkCompatible_def compat_checks_def block_check_def time_check_def isForkBlockIncompatible_def
  isForkTimestampIncompatible_def isBlockForked_def isTimestampForked_def cfg_IsDAOFork_def cfg_IsEIP158_def ex_config_def no_forks_def

theorem compatible_same_rules_witness:
  "CheckCompatible ex_config (ex_config\<lparr>CancunTime := Some 90\<rparr>) 10 50 = None \<and>
   cfg_Rules ex_config (Some 9) True 40 = cfg_Rules (ex_config\<lparr>CancunTime := Some 90\<rparr>) (Some 9) True 40"
proof -
  have ok: "CheckCompatible ex_config (ex_config\<lparr>CancunTime := Some 90\<rparr>) 10 50 = None" by (simp add: compat_eval)
  from compatible_same_rules [OF this, of 9 40 True] ok show ?thesis by simp
qed

text \<open>
  The case left out is real: moving Petersburg back to the block of Constantinople is accepted, with configurations that
  both pass the order check, although it changes the rules of blocks that are already part of the chain.
\<close>

theorem petersburg_changes_the_past:
  "\<exists>newcfg. CheckConfigForkOrder ex_config = Some (Inr ()) \<and> CheckConfigForkOrder newcfg = Some (Inr ()) \<and>
     CheckCompatible ex_config newcfg 10 0 = None \<and>
     \<not> IsPetersburg (cfg_Rules ex_config (Some 5) False 0) \<and> IsPetersburg (cfg_Rules newcfg (Some 5) False 0)"
proof -
  let ?new = "ex_config\<lparr>PetersburgBlock := Some 3\<rparr>"
  have "CheckConfigForkOrder ex_config = Some (Inr ())" "CheckConfigForkOrder ?new = Some (Inr ())"
    by (simp_all add: order_eval)
  moreover have "CheckCompatible ex_config ?new 10 0 = None" by (simp add: compat_eval)
  moreover have "\<not> IsPetersburg (cfg_Rules ex_config (Some 5) False 0)" "IsPetersburg (cfg_Rules ?new (Some 5) False 0)"
    by (simp_all add: cfg_Rules_def cfg_IsPetersburg_def isBlockForked_def ex_config_def no_forks_def Let_def)
  ultimately show ?thesis by blast
qed

end
