(* ===== verification/Blob_Fee.thy ===== *)
theory Blob_Fee
  imports Chain_Config Complex_Main
begin

text \<open>
  The fee market of blobs (\<^verbatim>\<open>src/go-ethereum/consensus/misc/eip4844/eip4844.go\<close>): the blob configuration in force, the
  excess blob gas of a block and the price it gives. \<open>None\<close> is a panic. The price never falls below the minimum, grows
  with the excess and stays below the exponential function it approximates.
\<close>

section \<open>Operations\<close>

definition BlobTxBlobGasPerBlob :: u64 where
  "BlobTxBlobGasPerBlob = 131072"

definition minBlobGasPrice :: nat where
  "minBlobGasPrice = 1"

definition BlobBaseCost :: nat where
  "BlobBaseCost = 8192"

text \<open>The loop of \<open>fakeExponential\<close>. It ends because the terms shrink once the index has passed the numerator.\<close>

function fake_loop :: "nat \<Rightarrow> nat \<Rightarrow> nat \<Rightarrow> nat \<Rightarrow> nat \<Rightarrow> nat" where
  "fake_loop numerator denominator out accum i =
     (if accum > 0 then fake_loop numerator denominator (out + accum) (accum * numerator div denominator div i) (i + 1) else out)"
  by pat_completeness auto

lemma fake_term_le: "accum * numerator div denominator div i \<le> accum" if "numerator \<le> i" for accum :: nat
proof -
  have "accum * numerator div denominator div i \<le> accum * numerator div i"
    by (intro div_le_mono div_le_dividend)
  also have "\<dots> \<le> accum * i div i" using that by (intro div_le_mono mult_le_mono2)
  also have "\<dots> \<le> accum" by (cases "i = 0") simp_all
  finally show ?thesis .
qed

lemma fake_term_less: "accum * numerator div denominator div i < accum" if "numerator < i" "0 < accum" for accum :: nat
proof -
  have "accum * numerator div denominator div i \<le> accum * numerator div i"
    by (intro div_le_mono div_le_dividend)
  also have "\<dots> < accum" using that by (subst div_less_iff_less_mult) simp_all
  finally show ?thesis .
qed

termination fake_loop
  by (relation "measures [\<lambda>(n, d, out, a, i). Suc n - i, \<lambda>(n, d, out, a, i). a]") (auto intro: fake_term_less)

definition fakeExponential :: "nat \<Rightarrow> nat \<Rightarrow> nat \<Rightarrow> nat option" where
  "fakeExponential factor numerator denominator =
     (if denominator = 0 then None
      else Some (fake_loop numerator denominator 0 (factor * denominator) 1 div denominator))"

definition maxBlobGas :: "BlobConfig \<Rightarrow> u64" where
  "maxBlobGas bc = of_int (bc_Max bc) * BlobTxBlobGasPerBlob"

definition blobBaseFee :: "BlobConfig \<Rightarrow> u64 \<Rightarrow> nat option" where
  "blobBaseFee bc excessBlobGas = fakeExponential minBlobGasPrice (unat excessBlobGas) (unat (bc_UpdateFraction bc))"

definition blobPrice :: "BlobConfig \<Rightarrow> u64 \<Rightarrow> nat option" where
  "blobPrice bc excessBlobGas = map_option (\<lambda>f. f * unat BlobTxBlobGasPerBlob) (blobBaseFee bc excessBlobGas)"

text \<open>\<open>None\<close> is the error \<^verbatim>\<open>no blob config\<close>.\<close>

definition latestBlobConfig :: "ChainConfig \<Rightarrow> u64 \<Rightarrow> BlobConfig option" where
  "latestBlobConfig cfg time =
     (case cc_BlobScheduleConfig cfg of
        None \<Rightarrow> None
      | Some s \<Rightarrow>
          (let london = LondonBlock cfg
           in if cfg_IsBPO5 cfg london time \<and> bs_BPO5 s \<noteq> None then bs_BPO5 s
              else if cfg_IsBPO4 cfg london time \<and> bs_BPO4 s \<noteq> None then bs_BPO4 s
              else if cfg_IsBPO3 cfg london time \<and> bs_BPO3 s \<noteq> None then bs_BPO3 s
              else if cfg_IsBPO2 cfg london time \<and> bs_BPO2 s \<noteq> None then bs_BPO2 s
              else if cfg_IsBPO1 cfg london time \<and> bs_BPO1 s \<noteq> None then bs_BPO1 s
              else if cfg_IsOsaka cfg london time \<and> bs_Osaka s \<noteq> None then bs_Osaka s
              else if cfg_IsPrague cfg london time \<and> bs_Prague s \<noteq> None then bs_Prague s
              else if cfg_IsCancun cfg london time \<and> bs_Cancun s \<noteq> None then bs_Cancun s
              else None))"

text \<open>Excess and used blob gas of the parent; a header that has the one without the other is a nil dereference.\<close>

definition parent_blob_gas :: "Header \<Rightarrow> (u64 \<times> u64) option" where
  "parent_blob_gas parent =
     (case h_ExcessBlobGas parent of
        None \<Rightarrow> Some (0, 0)
      | Some e \<Rightarrow> map_option (\<lambda>u. (e, u)) (h_BlobGasUsed parent))"

definition calcExcessBlobGas :: "bool \<Rightarrow> BlobConfig \<Rightarrow> Header \<Rightarrow> u64 option" where
  "calcExcessBlobGas isOsaka bcfg parent =
     (case parent_blob_gas parent of
        None \<Rightarrow> None
      | Some (parentExcessBlobGas, parentBlobGasUsed) \<Rightarrow>
          (let excessBlobGas = parentExcessBlobGas + parentBlobGasUsed;
               targetGas = of_int (bc_Target bcfg) * BlobTxBlobGasPerBlob
           in if excessBlobGas < targetGas then Some 0
              else if isOsaka then
                (case (h_BaseFee parent, blobPrice bcfg parentExcessBlobGas) of
                   (Some baseFee, Some price) \<Rightarrow>
                     if BlobBaseCost * baseFee > price then
                       if (of_int (bc_Max bcfg) :: u64) = 0 then None
                       else Some (parentExcessBlobGas +
                         parentBlobGasUsed * of_int (bc_Max bcfg - bc_Target bcfg) div of_int (bc_Max bcfg))
                     else Some (excessBlobGas - targetGas)
                 | _ \<Rightarrow> None)
              else Some (excessBlobGas - targetGas)))"

definition CalcExcessBlobGas :: "ChainConfig \<Rightarrow> Header \<Rightarrow> u64 \<Rightarrow> u64 option" where
  "CalcExcessBlobGas config parent headTimestamp =
     (case latestBlobConfig config headTimestamp of
        None \<Rightarrow> None
      | Some bcfg \<Rightarrow> calcExcessBlobGas (cfg_IsOsaka config (LondonBlock config) headTimestamp) bcfg parent)"

datatype blob_error =
    ErrMissingExcessBlobGas
  | ErrMissingBlobGasUsed
  | ErrBlobGasUsedTooHigh
  | ErrBlobGasUsedNotMultiple
  | ErrInvalidExcessBlobGas u64 u64

definition VerifyEIP4844Header :: "ChainConfig \<Rightarrow> Header \<Rightarrow> Header \<Rightarrow> (blob_error + unit) option" where
  "VerifyEIP4844Header config parent header =
     (case (h_Number header, h_Number parent) of
        (Some n, Some p) \<Rightarrow>
          if (of_nat n :: u64) \<noteq> of_nat p + 1 then None
          else
            (case latestBlobConfig config (h_Time header) of
               None \<Rightarrow> None
             | Some bcfg \<Rightarrow>
                 (case (h_ExcessBlobGas header, h_BlobGasUsed header) of
                    (None, _) \<Rightarrow> Some (Inl ErrMissingExcessBlobGas)
                  | (Some _, None) \<Rightarrow> Some (Inl ErrMissingBlobGasUsed)
                  | (Some excess, Some used) \<Rightarrow>
                      if used > maxBlobGas bcfg then Some (Inl ErrBlobGasUsedTooHigh)
                      else if used mod BlobTxBlobGasPerBlob \<noteq> 0 then Some (Inl ErrBlobGasUsedNotMultiple)
                      else
                        (case CalcExcessBlobGas config parent (h_Time header) of
                           None \<Rightarrow> None
                         | Some expected \<Rightarrow>
                             if excess \<noteq> expected then Some (Inl (ErrInvalidExcessBlobGas excess expected)) else Some (Inr ()))))
      | _ \<Rightarrow> None)"

definition CalcBlobFee :: "ChainConfig \<Rightarrow> Header \<Rightarrow> nat option" where
  "CalcBlobFee config header =
     (case (latestBlobConfig config (h_Time header), h_ExcessBlobGas header) of
        (Some bc, Some excess) \<Rightarrow> blobBaseFee bc excess
      | _ \<Rightarrow> None)"

definition MaxBlobsPerBlock :: "ChainConfig \<Rightarrow> u64 \<Rightarrow> int" where
  "MaxBlobsPerBlock cfg time = (case latestBlobConfig cfg time of None \<Rightarrow> 0 | Some bc \<Rightarrow> bc_Max bc)"

definition MaxBlobGasPerBlock :: "ChainConfig \<Rightarrow> u64 \<Rightarrow> u64" where
  "MaxBlobGasPerBlock cfg time = of_int (MaxBlobsPerBlock cfg time) * BlobTxBlobGasPerBlob"

definition LatestMaxBlobsPerBlock :: "ChainConfig \<Rightarrow> int" where
  "LatestMaxBlobsPerBlock cfg = (case latestBlobConfig cfg (- 1) of None \<Rightarrow> 0 | Some bc \<Rightarrow> bc_Max bc)"

definition TargetBlobsPerBlock :: "ChainConfig \<Rightarrow> u64 \<Rightarrow> int" where
  "TargetBlobsPerBlock cfg time = (case latestBlobConfig cfg time of None \<Rightarrow> 0 | Some bc \<Rightarrow> bc_Target bc)"

section \<open>The price\<close>

declare fake_loop.simps [simp del]

lemma fake_loop_output: "out + accum \<le> fake_loop n d out accum i"
proof (induction n d out accum i rule: fake_loop.induct)
  case (1 n d out accum i)
  show ?case
  proof (cases "accum > 0")
    case True
    with 1 [OF True] show ?thesis by (subst fake_loop.simps) simp
  qed (subst fake_loop.simps, simp)
qed

lemma fake_loop_mono:
  "n \<le> n' \<Longrightarrow> out \<le> out' \<Longrightarrow> accum \<le> accum' \<Longrightarrow> fake_loop n d out accum i \<le> fake_loop n' d out' accum' i"
proof (induction n d out accum i arbitrary: out' accum' rule: fake_loop.induct)
  case (1 n d out accum i)
  show ?case
  proof (cases "accum > 0")
    case True
    have "accum * n div d div i \<le> accum' * n' div d div i" using 1(2,4) by (intro div_le_mono mult_le_mono)
    with 1(1) [OF True, of "out' + accum'" "accum' * n' div d div i"] 1(2-4) True
    show ?thesis by (subst (1 2) fake_loop.simps) simp
  next
    case False
    then have "fake_loop n d out accum i = out" by (subst fake_loop.simps) simp
    also have "\<dots> \<le> out' + accum'" using 1(3) by simp
    also have "\<dots> \<le> fake_loop n' d out' accum' i" by (rule fake_loop_output)
    finally show ?thesis .
  qed
qed

text \<open>The partial sums of the exponential series bound the loop.\<close>

lemma exp_partial_sum: "0 \<le> x \<Longrightarrow> (\<Sum>k<n. x ^ k / fact k) \<le> exp (x :: real)"
proof -
  assume "0 \<le> x"
  have "(\<lambda>k. x ^ k /\<^sub>R fact k) sums exp x" by (rule exp_converges)
  then have "(\<lambda>k. x ^ k / fact k) sums exp x" by (simp add: scaleR_conv_of_real divide_inverse mult.commute)
  with \<open>0 \<le> x\<close> show ?thesis by (intro sum_le_suminf [THEN order_trans]) (auto simp: sums_iff)
qed

lemma real_div_le: "real (a div b) \<le> real a / real b"
  by (rule of_nat_div_le_of_nat)

lemma fake_loop_bound:
  fixes F :: real
  assumes "0 < d" and "0 < i" and "x = real n / real d" and "0 \<le> F"
    and "real out \<le> F * (\<Sum>k<i - 1. x ^ k / fact k)" and "real accum \<le> F * (x ^ (i - 1) / fact (i - 1))"
  shows "real (fake_loop n d out accum i) \<le> F * exp x"
  using assms
proof (induction n d out accum i rule: fake_loop.induct)
  case (1 n d out accum i)
  have x: "0 \<le> x" using 1(2,4) by simp
  obtain j where i: "i = Suc j" using 1(3) by (cases i) auto
  show ?case
  proof (cases "accum > 0")
    case True
    have "real (accum * n div d div i) \<le> real (accum * n div d) / real i" by (rule real_div_le)
    also have "\<dots> \<le> real (accum * n) / real d / real i" by (intro divide_right_mono real_div_le) simp
    also have "\<dots> = real accum * (x / real i)" using 1(4) by simp
    also have "\<dots> \<le> F * (x ^ j / fact j) * (x / real i)" using 1(7) x i by (intro mult_right_mono) simp_all
    also have "\<dots> = F * (x ^ i / fact i)" by (simp add: i field_simps)
    finally have accum: "real (accum * n div d div i) \<le> F * (x ^ i / fact i)" .
    have "real (out + accum) \<le> F * (\<Sum>k<i. x ^ k / fact k)" using 1(6,7) by (simp add: i algebra_simps)
    with 1(1) [OF True 1(2) _ 1(4,5)] accum True show ?thesis by (subst fake_loop.simps) simp
  next
    case False
    then have "real (fake_loop n d out accum i) = real out" by (subst fake_loop.simps) simp
    also have "\<dots> \<le> F * (\<Sum>k<i - 1. x ^ k / fact k)" by (rule 1(6))
    also have "\<dots> \<le> F * exp x" using 1(5) exp_partial_sum [OF x] by (intro mult_left_mono)
    finally show ?thesis .
  qed
qed

lemma fakeExponential_upper:
  assumes "fakeExponential factor n d = Some v"
  shows "real v \<le> real factor * exp (real n / real d)"
proof -
  have d: "0 < d" and v: "v = fake_loop n d 0 (factor * d) 1 div d" using assms by (auto simp: fakeExponential_def split: if_splits)
  have "real v \<le> real (fake_loop n d 0 (factor * d) 1) / real d" unfolding v by (rule real_div_le)
  also have "\<dots> \<le> real (factor * d) * exp (real n / real d) / real d"
    using d by (intro divide_right_mono fake_loop_bound) simp_all
  also have "\<dots> = real factor * exp (real n / real d)" using d by simp
  finally show ?thesis .
qed

text \<open>
  C37. The blob fee is defined for every configuration with a non-zero update fraction, is at least the minimum price of
  one, never falls when the excess blob gas grows, and never exceeds \<open>exp (excess / fraction)\<close>.
\<close>

theorem blob_fee_bounds:
  assumes "bc_UpdateFraction bc \<noteq> 0"
  shows "\<exists>fee. blobBaseFee bc excess = Some fee \<and> 1 \<le> fee \<and>
    real fee \<le> exp (real (unat excess) / real (unat (bc_UpdateFraction bc))) \<and>
    (excess \<le> excess' \<longrightarrow> (\<exists>fee'. blobBaseFee bc excess' = Some fee' \<and> fee \<le> fee'))"
proof -
  let ?d = "unat (bc_UpdateFraction bc)"
  let ?v = "\<lambda>e. fake_loop (unat e) ?d 0 ?d 1"
  have d: "0 < ?d" using assms by (simp add: unat_gt_0)
  have fee: "blobBaseFee bc e = Some (?v e div ?d)" for e
    using d by (simp add: blobBaseFee_def fakeExponential_def minBlobGasPrice_def)
  have "?d \<le> ?v excess" using fake_loop_output [of 0 ?d] by simp
  then have "?d div ?d \<le> ?v excess div ?d" by (rule div_le_mono)
  with d have "1 \<le> ?v excess div ?d" by simp
  moreover have "real (?v excess div ?d) \<le> exp (real (unat excess) / real ?d)"
    using fakeExponential_upper [of 1 "unat excess" ?d "?v excess div ?d"] d by (simp add: fakeExponential_def)
  moreover have "excess \<le> excess' \<longrightarrow> ?v excess div ?d \<le> ?v excess' div ?d"
    by (intro impI div_le_mono fake_loop_mono) (simp_all add: word_le_nat_alt)
  ultimately show ?thesis using fee by blast
qed

theorem blob_fee_bounds_witness:
  "\<exists>fee. blobBaseFee \<lparr>bc_Target = 3, bc_Max = 6, bc_UpdateFraction = 3338477\<rparr> 400000 = Some fee \<and> 1 \<le> fee"
  using blob_fee_bounds [of "\<lparr>bc_Target = 3, bc_Max = 6, bc_UpdateFraction = 3338477\<rparr>" 400000 0] by auto

section \<open>The excess\<close>

lemma accepted_blob_header:
  assumes "VerifyEIP4844Header config parent header = Some (Inr ())" and bc: "latestBlobConfig config (h_Time header) = Some bc"
  shows "\<exists>e u. h_ExcessBlobGas header = Some e \<and> h_BlobGasUsed header = Some u \<and> u \<le> maxBlobGas bc \<and>
    u mod BlobTxBlobGasPerBlob = 0 \<and> CalcExcessBlobGas config parent (h_Time header) = Some e"
proof -
  obtain n p where num: "h_Number header = Some n" "h_Number parent = Some p"
    using assms(1) by (cases "h_Number header"; cases "h_Number parent") (simp_all add: VerifyEIP4844Header_def)
  obtain e where e: "h_ExcessBlobGas header = Some e"
    using assms(1) by (cases "h_ExcessBlobGas header") (simp_all add: VerifyEIP4844Header_def num bc split: if_splits)
  obtain u where u: "h_BlobGasUsed header = Some u"
    using assms(1) by (cases "h_BlobGasUsed header") (simp_all add: VerifyEIP4844Header_def num bc e split: if_splits)
  obtain x where x: "CalcExcessBlobGas config parent (h_Time header) = Some x"
    using assms(1) by (cases "CalcExcessBlobGas config parent (h_Time header)")
      (simp_all add: VerifyEIP4844Header_def num bc e u split: if_splits)
  show ?thesis using assms(1) by (simp add: VerifyEIP4844Header_def num bc e u x not_less split: if_splits)
qed

text \<open>
  C38. An accepted header has used at most the maximum of its configuration, a whole number of blobs, and declares the excess
  that before Osaka is what the parent's excess and use exceed the target by, and zero when they stay below it.
\<close>

theorem blob_header_rules:
  assumes "VerifyEIP4844Header config parent header = Some (Inr ())" and "\<not> cfg_IsOsaka config (LondonBlock config) (h_Time header)"
    and "parent_blob_gas parent = Some (excess, used)" and "latestBlobConfig config (h_Time header) = Some bc"
    and "unat excess + unat used < 2 ^ 64" and "0 \<le> bc_Target bc" and "bc_Target bc < 2 ^ 40" and "0 \<le> bc_Max bc" and "bc_Max bc < 2 ^ 40"
  shows "\<exists>e u. h_ExcessBlobGas header = Some e \<and> h_BlobGasUsed header = Some u \<and>
    unat e = unat excess + unat used - 131072 * nat (bc_Target bc) \<and> unat u \<le> 131072 * nat (bc_Max bc) \<and> 131072 dvd unat u"
proof -
  have blobs: "unat (of_int k * BlobTxBlobGasPerBlob :: u64) = 131072 * nat k" if "0 \<le> k" "k < 2 ^ 40" for k
  proof -
    define m where "m = nat k"
    have k: "k = int m" using that(1) by (simp add: m_def)
    have m: "m < 2 ^ 40" using that(2) by (simp add: k)
    then have "unat (of_nat m :: u64) = m" by (simp add: unat_of_nat)
    moreover have "unat (of_nat m * 131072 :: u64) = unat (of_nat m :: u64) * unat (131072 :: u64)"
      by (rule unat_mult_lem [THEN iffD1]) (use m in \<open>simp add: unat_of_nat\<close>)
    ultimately show ?thesis by (simp add: k BlobTxBlobGasPerBlob_def)
  qed
  obtain e u where h: "h_ExcessBlobGas header = Some e" "h_BlobGasUsed header = Some u" "u \<le> maxBlobGas bc"
      "u mod BlobTxBlobGasPerBlob = 0" "CalcExcessBlobGas config parent (h_Time header) = Some e"
    using accepted_blob_header [OF assms(1,4)] by (elim exE conjE)
  have sum: "unat (excess + used) = unat excess + unat used" using assms(5) by (subst unat_add_lem [THEN iffD1]) simp_all
  note target = blobs [OF assms(6,7)]
  have "unat e = unat excess + unat used - 131072 * nat (bc_Target bc)"
    using h(5) assms(2-4) sum target
    by (auto simp: CalcExcessBlobGas_def calcExcessBlobGas_def Let_def word_less_nat_alt unat_sub word_le_nat_alt not_less split: if_splits)
  moreover have "unat u \<le> 131072 * nat (bc_Max bc)" using h(3) blobs [OF assms(8,9)] by (simp add: maxBlobGas_def word_le_nat_alt)
  moreover have "131072 dvd unat u"
    using arg_cong [OF h(4), of unat] by (simp add: BlobTxBlobGasPerBlob_def unat_mod_distrib mod_eq_0_iff_dvd)
  ultimately show ?thesis using h(1,2) by blast
qed

text \<open>A chain with blobs from genesis, and two of its headers.\<close>

definition ex_blob_config :: ChainConfig where
  "ex_blob_config = no_forks\<lparr>LondonBlock := Some 0, CancunTime := Some 0, cc_BlobScheduleConfig :=
     Some \<lparr>bs_Cancun = Some \<lparr>bc_Target = 3, bc_Max = 6, bc_UpdateFraction = 3338477\<rparr>, bs_Prague = None, bs_Osaka = None,
       bs_Verkle = None, bs_BPO1 = None, bs_BPO2 = None, bs_BPO3 = None, bs_BPO4 = None, bs_BPO5 = None, bs_Amsterdam = None\<rparr>\<rparr>"

definition ex_blob_header :: "nat \<Rightarrow> u64 \<Rightarrow> u64 \<Rightarrow> Header" where
  "ex_blob_header n excess used =
     \<lparr>h_ParentHash = 0, h_UncleHash = 0, h_Coinbase = 0, h_Root = 0, h_TxHash = 0, h_ReceiptHash = 0, h_Bloom = 0,
      h_Difficulty = Some 0, h_Number = Some n, h_GasLimit = 30000000, h_GasUsed = 0, h_Time = 12, h_Extra = [], h_MixDigest = 0,
      h_Nonce = 0, h_BaseFee = Some 7, h_WithdrawalsHash = None, h_BlobGasUsed = Some used, h_ExcessBlobGas = Some excess,
      h_ParentBeaconRoot = None, h_RequestsHash = None, h_SlotNumber = None\<rparr>"

lemmas blob_eval = ex_blob_config_def ex_blob_header_def no_forks_def latestBlobConfig_def time_fork_defs cfg_IsLondon_def isBlockForked_def
  isTimestampForked_def parent_blob_gas_def CalcExcessBlobGas_def calcExcessBlobGas_def maxBlobGas_def BlobTxBlobGasPerBlob_def Let_def

theorem blob_header_rules_witness:
  "\<exists>e u. h_ExcessBlobGas (ex_blob_header 6 393216 131072) = Some e \<and> h_BlobGasUsed (ex_blob_header 6 393216 131072) = Some u \<and>
     unat e = 393216 + 393216 - 131072 * 3 \<and> 131072 dvd unat u"
proof -
  have ok: "VerifyEIP4844Header ex_blob_config (ex_blob_header 5 393216 393216) (ex_blob_header 6 393216 131072) = Some (Inr ())"
    by (simp add: VerifyEIP4844Header_def blob_eval)
  have bc: "latestBlobConfig ex_blob_config (h_Time (ex_blob_header 6 393216 131072)) =
      Some \<lparr>bc_Target = 3, bc_Max = 6, bc_UpdateFraction = 3338477\<rparr>"
    by (simp add: blob_eval)
  from blob_header_rules [OF ok _ _ bc, of 393216 393216] show ?thesis by (auto simp: blob_eval)
qed

end
