(* ===== verification/Tx_Transition.thy ===== *)
theory Tx_Transition
  imports Evm_Run State_DB Blob_Fee
begin

text \<open>
  Applying one message to the state (\<^verbatim>\<open>src/go-ethereum/core/state_transition.go\<close>, \<^verbatim>\<open>core/gaspool.go\<close>): the gas pool of a
  block, the gas a message costs before it runs, the checks before it, the purchase of gas, the authorizations of
  EIP-7702, the call or creation, refunds and the fee of the coinbase.

  Big integers of a message are \<open>int\<close>; a pointer the code compares with nil or may find nil is an option. The result of
  a function is an outcome that pairs an error or a value with the transition, since a failure late in \<open>execute\<close> leaves the
  earlier changes to be undone by the caller. Tracing is left out.
\<close>

section \<open>The gas pool\<close>

record GasPool =
  gp_remaining :: u64
  gp_initial :: u64
  gp_cumulativeUsed :: u64

datatype tx_error =
    ErrNonceTooLow | ErrNonceTooHigh | ErrNonceMax | ErrGasLimitReached | ErrGasLimitOverflow | ErrInsufficientFundsForTransfer
  | ErrMaxInitCodeSizeExceeded | ErrInsufficientFunds | ErrGasUintOverflow | ErrIntrinsicGas | ErrFloorDataGas
  | ErrTipAboveFeeCap | ErrTipVeryHigh | ErrFeeCapVeryHigh | ErrFeeCapTooLow | ErrSenderNoEOA | ErrBlobFeeCapTooLow
  | ErrMissingBlobHashes | ErrTooManyBlobs | ErrBlobTxCreate | ErrBlobHashVersion nat | ErrEmptyAuthList | ErrSetCodeTxCreate
  | ErrGasLimitTooHigh | ErrAuthorizationWrongChainID | ErrAuthorizationNonceOverflow | ErrAuthorizationInvalidSignature
  | ErrAuthorizationDestinationHasCode | ErrAuthorizationNonceMismatch

definition NewGasPool :: "u64 \<Rightarrow> GasPool" where
  "NewGasPool amount = \<lparr>gp_remaining = amount, gp_initial = amount, gp_cumulativeUsed = 0\<rparr>"

definition SubGas :: "u64 \<Rightarrow> GasPool \<Rightarrow> tx_error option \<times> GasPool" where
  "SubGas amount gp =
     (if gp_remaining gp < amount then (Some ErrGasLimitReached, gp)
      else (None, gp\<lparr>gp_remaining := gp_remaining gp - amount\<rparr>))"

definition ReturnGas :: "u64 \<Rightarrow> u64 \<Rightarrow> GasPool \<Rightarrow> tx_error option \<times> GasPool" where
  "ReturnGas returned gasUsed gp =
     (if gp_remaining gp > MaxUint64 - returned then (Some ErrGasLimitOverflow, gp)
      else (None, gp\<lparr>gp_remaining := gp_remaining gp + returned, gp_cumulativeUsed := gp_cumulativeUsed gp + gasUsed\<rparr>))"

definition gp_Gas :: "GasPool \<Rightarrow> u64" where
  "gp_Gas gp = gp_remaining gp"

definition gp_CumulativeUsed :: "GasPool \<Rightarrow> u64" where
  "gp_CumulativeUsed gp = gp_cumulativeUsed gp"

definition gp_Used :: "GasPool \<Rightarrow> u64 option" where
  "gp_Used gp = (if gp_initial gp < gp_remaining gp then None else Some (gp_initial gp - gp_remaining gp))"

definition gp_Snapshot :: "GasPool \<Rightarrow> GasPool" where
  "gp_Snapshot gp = \<lparr>gp_remaining = gp_remaining gp, gp_initial = gp_initial gp, gp_cumulativeUsed = gp_cumulativeUsed gp\<rparr>"

definition gp_Set :: "GasPool \<Rightarrow> GasPool \<Rightarrow> GasPool" where
  "gp_Set other gp =
     gp\<lparr>gp_initial := gp_initial other, gp_remaining := gp_remaining other, gp_cumulativeUsed := gp_cumulativeUsed other\<rparr>"

section \<open>Gas due before execution\<close>

record SetCodeAuthorization =
  auth_ChainID :: u256
  auth_Address :: Address
  auth_Nonce :: u64
  auth_V :: byte
  auth_R :: u256
  auth_S :: u256

abbreviation (input) TxGas :: u64 where "TxGas \<equiv> 21000"
abbreviation (input) TxGasContractCreation :: u64 where "TxGasContractCreation \<equiv> 53000"
abbreviation (input) TxDataZeroGas :: u64 where "TxDataZeroGas \<equiv> 4"
abbreviation (input) TxDataNonZeroGasFrontier :: u64 where "TxDataNonZeroGasFrontier \<equiv> 68"
abbreviation (input) TxDataNonZeroGasEIP2028 :: u64 where "TxDataNonZeroGasEIP2028 \<equiv> 16"
abbreviation (input) TxTokenPerNonZeroByte :: u64 where "TxTokenPerNonZeroByte \<equiv> 4"
abbreviation (input) TxCostFloorPerToken :: u64 where "TxCostFloorPerToken \<equiv> 10"
abbreviation (input) TxAccessListAddressGas :: u64 where "TxAccessListAddressGas \<equiv> 2400"
abbreviation (input) TxAccessListStorageKeyGas :: u64 where "TxAccessListStorageKeyGas \<equiv> 1900"
abbreviation (input) TxAuthTupleGas :: u64 where "TxAuthTupleGas \<equiv> 12500"
abbreviation (input) MaxTxGas :: u64 where "MaxTxGas \<equiv> 16777216"
abbreviation (input) BlobTxMaxBlobs :: nat where "BlobTxMaxBlobs \<equiv> 6"

definition core_toWordSize :: "u64 \<Rightarrow> u64" where
  "core_toWordSize sz = (if sz > MaxUint64 - 31 then MaxUint64 div 32 + 1 else (sz + 31) div 32)"

definition StorageKeys :: "AccessList \<Rightarrow> nat" where
  "StorageKeys al = sum_list (map (\<lambda>(_, keys). length keys) al)"

text \<open>Adding \<open>n\<close> units at a price, unless the sum would pass 64 bits.\<close>

definition add_units :: "u64 \<Rightarrow> u64 \<Rightarrow> u64 \<Rightarrow> tx_error + u64" where
  "add_units n price gas =
     (if (MaxUint64 - gas) div price < n then Inl ErrGasUintOverflow else Inr (gas + n * price))"

definition sum_bind :: "'e + 'a \<Rightarrow> ('a \<Rightarrow> 'e + 'b) \<Rightarrow> 'e + 'b" where
  "sum_bind x f = (case x of Inl e \<Rightarrow> Inl e | Inr a \<Rightarrow> f a)"

definition data_gas :: "bytes \<Rightarrow> bool \<Rightarrow> bool \<Rightarrow> bool \<Rightarrow> u64 \<Rightarrow> tx_error + u64" where
  "data_gas data isContractCreation isEIP2028 isEIP3860 gas =
     (let dataLen = of_nat (length data);
          z = of_nat (length (filter (\<lambda>b. b = 0) data));
          nz = dataLen - z;
          nonZeroGas = (if isEIP2028 then TxDataNonZeroGasEIP2028 else TxDataNonZeroGasFrontier)
      in sum_bind (add_units nz nonZeroGas gas) (\<lambda>gas.
         sum_bind (add_units z TxDataZeroGas gas) (\<lambda>gas.
           if isContractCreation \<and> isEIP3860 then add_units (core_toWordSize dataLen) InitCodeWordGas gas else Inr gas)))"

definition IntrinsicGas ::
  "bytes \<Rightarrow> AccessList \<Rightarrow> SetCodeAuthorization list option \<Rightarrow> bool \<Rightarrow> bool \<Rightarrow> bool \<Rightarrow> bool \<Rightarrow> tx_error + u64" where
  "IntrinsicGas data accessList authList isContractCreation isHomestead isEIP2028 isEIP3860 =
     (let gas = (if isContractCreation \<and> isHomestead then TxGasContractCreation else TxGas)
      in sum_bind
           (if length data > 0 then data_gas data isContractCreation isEIP2028 isEIP3860 gas else Inr gas)
           (\<lambda>gas.
             (let gas = gas + of_nat (length accessList) * TxAccessListAddressGas;
                  gas = gas + of_nat (StorageKeys accessList) * TxAccessListStorageKeyGas
              in Inr (case authList of None \<Rightarrow> gas | Some auths \<Rightarrow> gas + of_nat (length auths) * CallNewAccountGas))))"

definition FloorDataGas :: "bytes \<Rightarrow> tx_error + u64" where
  "FloorDataGas data =
     (let z = of_nat (length (filter (\<lambda>b. b = 0) data));
          nz = of_nat (length data) - z;
          tokens = nz * TxTokenPerNonZeroByte + z
      in if (MaxUint64 - TxGas) div TxCostFloorPerToken < tokens then Inl ErrGasUintOverflow
         else Inr (TxGas + tokens * TxCostFloorPerToken))"

section \<open>Messages and transitions\<close>

record Message =
  msg_To :: "Address option"
  msg_From :: Address
  msg_Nonce :: u64
  msg_Value :: int
  msg_GasLimit :: u64
  msg_GasPrice :: int
  msg_GasFeeCap :: "int option"
  msg_GasTipCap :: "int option"
  msg_Data :: bytes
  msg_AccessList :: AccessList
  msg_BlobGasFeeCap :: "int option"
  msg_BlobHashes :: "Hash list option"
  msg_SetCodeAuthorizations :: "SetCodeAuthorization list option"
  SkipNonceChecks :: bool
  SkipTransactionChecks :: bool

record ExecutionResult =
  UsedGas :: u64
  MaxUsedGas :: u64
  Err :: "evm_error option"
  ReturnData :: bytes

definition er_Failed :: "ExecutionResult \<Rightarrow> bool" where
  "er_Failed result \<longleftrightarrow> Err result \<noteq> None"

definition er_Return :: "ExecutionResult \<Rightarrow> bytes" where
  "er_Return result = (if Err result \<noteq> None then [] else ReturnData result)"

definition er_Revert :: "ExecutionResult \<Rightarrow> bytes" where
  "er_Revert result = (if Err result \<noteq> Some ErrExecutionReverted then [] else ReturnData result)"

record 'd stateTransition =
  st_gp :: GasPool
  st_msg :: Message
  gasRemaining :: u64
  initialGas :: u64
  st_evm :: "'d EVM"

text \<open>
  What a transition uses besides the machine: the chain configuration, the flag \<open>NoBaseFee\<close> of the machine's configuration,
  the preparation of the state, reading code (which also loads it into the state object), the hash an authorization
  signs and the recovery of a public key.
\<close>

record 'd tx_env =
  x_env :: "'d env"
  x_run :: "'d runner"
  x_config :: ChainConfig
  NoBaseFee :: bool
  x_Prepare :: "Rules \<Rightarrow> Address \<Rightarrow> Address \<Rightarrow> Address option \<Rightarrow> Address list \<Rightarrow> AccessList \<Rightarrow> 'd \<Rightarrow> 'd option"
  x_GetCode :: "Address \<Rightarrow> 'd \<Rightarrow> bytes \<times> 'd"
  x_SigHash :: "SetCodeAuthorization \<Rightarrow> Hash"
  x_Ecrecover :: "bytes \<Rightarrow> bytes \<Rightarrow> bytes option"

type_synonym ('d, 'a) tx_result = "((tx_error + 'a) \<times> 'd stateTransition) outcome"

abbreviation st_db :: "'d stateTransition \<Rightarrow> 'd" where
  "st_db st \<equiv> statedb (st_evm st)"

abbreviation st_map_db :: "('d \<Rightarrow> 'd) \<Rightarrow> 'd stateTransition \<Rightarrow> 'd stateTransition" where
  "st_map_db g st \<equiv> st\<lparr>st_evm := map_db g (st_evm st)\<rparr>"

abbreviation st_context :: "'d stateTransition \<Rightarrow> 'd BlockContext" where
  "st_context st \<equiv> Context (st_evm st)"

text \<open>\<open>uint256.FromBig\<close>: the value modulo \<open>2 ^ 256\<close> and whether its magnitude did not fit; \<open>MustFromBig\<close> panics then.\<close>

definition FromBig :: "int \<Rightarrow> u256 \<times> bool" where
  "FromBig b = (of_int b, 2 ^ 256 \<le> \<bar>b\<bar>)"

definition MustFromBig :: "int \<Rightarrow> u256 outcome" where
  "MustFromBig b = (let (x, overflow) = FromBig b in if overflow then Panic else Ret x)"

definition newStateTransition :: "'d EVM \<Rightarrow> Message \<Rightarrow> GasPool \<Rightarrow> 'd stateTransition" where
  "newStateTransition m msg gp = \<lparr>st_gp = gp, st_msg = msg, gasRemaining = 0, initialGas = 0, st_evm = m\<rparr>"

definition st_to :: "'d stateTransition \<Rightarrow> Address" where
  "st_to st = (case msg_To (st_msg st) of None \<Rightarrow> 0 | Some a \<Rightarrow> a)"

definition st_gasUsed :: "'d stateTransition \<Rightarrow> u64" where
  "st_gasUsed st = initialGas st - gasRemaining st"

definition blob_hashes :: "Message \<Rightarrow> Hash list" where
  "blob_hashes msg = (case msg_BlobHashes msg of None \<Rightarrow> [] | Some hs \<Rightarrow> hs)"

definition st_blobGasUsed :: "'d stateTransition \<Rightarrow> u64" where
  "st_blobGasUsed st = of_nat (length (blob_hashes (st_msg st))) * BlobTxBlobGasPerBlob"

definition st_IsCancun :: "'d tx_env \<Rightarrow> 'd stateTransition \<Rightarrow> bool" where
  "st_IsCancun X st = cfg_IsCancun (x_config X) (Some (BlockNumber (st_context st))) (Time (st_context st))"

definition st_rules :: "'d tx_env \<Rightarrow> 'd stateTransition \<Rightarrow> Rules" where
  "st_rules X st =
     cfg_Rules (x_config X) (Some (BlockNumber (st_context st))) (Random (st_context st) \<noteq> None) (Time (st_context st))"

section \<open>Buying gas\<close>

text \<open>The price of the gas and the balance the sender must have; reading a nil fee panics.\<close>

definition gas_costs :: "'d tx_env \<Rightarrow> 'd stateTransition \<Rightarrow> (int \<times> int) outcome" where
  "gas_costs X st =
     (let msg = st_msg st;
          gasLimit = int (unat (msg_GasLimit msg));
          mgval = gasLimit * msg_GasPrice msg;
          balanceCheck = (case msg_GasFeeCap msg of None \<Rightarrow> mgval | Some cap \<Rightarrow> gasLimit * cap);
          balanceCheck = balanceCheck + msg_Value msg;
          blobGas = st_blobGasUsed st
      in if st_IsCancun X st \<and> blobGas > 0 then
           obind (of_option (msg_BlobGasFeeCap msg)) (\<lambda>cap.
           obind (of_option (BlobBaseFee (st_context st))) (\<lambda>blobFee.
             Ret (mgval + int (unat blobGas) * int blobFee, balanceCheck + int (unat blobGas) * cap)))
         else Ret (mgval, balanceCheck))"

definition buyGas :: "'d tx_env \<Rightarrow> 'd stateTransition \<Rightarrow> ('d, unit) tx_result" where
  "buyGas X st =
     obind (gas_costs X st) (\<lambda>(mgval, balanceCheck).
       (let msg = st_msg st; D = DB (x_env X); (want, overflow) = FromBig balanceCheck
        in if overflow then Ret (Inl ErrInsufficientFunds, st)
           else if GetBalance D (st_db st) (msg_From msg) < want then Ret (Inl ErrInsufficientFunds, st)
           else
             (case SubGas (msg_GasLimit msg) (st_gp st) of
                (Some e, gp) \<Rightarrow> Ret (Inl e, st)
              | (None, gp) \<Rightarrow>
                  (let st = st\<lparr>st_gp := gp, gasRemaining := msg_GasLimit msg, initialGas := msg_GasLimit msg\<rparr>
                   in Ret (Inr (), st_map_db (SubBalance D (msg_From msg) (fst (FromBig mgval))) st)))))"

section \<open>The checks before a message\<close>

text \<open>\<open>guard_tx c st k\<close> goes on with \<open>k\<close> unless the check \<open>c\<close> finds an error.\<close>

definition guard_tx :: "tx_error option outcome \<Rightarrow> 'd stateTransition \<Rightarrow> ('d, 'a) tx_result \<Rightarrow> ('d, 'a) tx_result" where
  "guard_tx c st k = obind c (\<lambda>e. case e of Some e \<Rightarrow> Ret (Inl e, st) | None \<Rightarrow> k)"

definition check_nonce :: "'d tx_env \<Rightarrow> 'd stateTransition \<Rightarrow> tx_error option" where
  "check_nonce X st =
     (let msg = st_msg st; stNonce = GetNonce (DB (x_env X)) (st_db st) (msg_From msg)
      in if SkipNonceChecks msg then None
         else if stNonce < msg_Nonce msg then Some ErrNonceTooHigh
         else if stNonce > msg_Nonce msg then Some ErrNonceTooLow
         else if stNonce + 1 < stNonce then Some ErrNonceMax
         else None)"

definition st_IsOsaka :: "'d tx_env \<Rightarrow> 'd stateTransition \<Rightarrow> bool" where
  "st_IsOsaka X st = cfg_IsOsaka (x_config X) (Some (BlockNumber (st_context st))) (Time (st_context st))"

text \<open>The cap on the gas limit and the sender, whose code is read.\<close>

definition check_sender :: "'d tx_env \<Rightarrow> 'd stateTransition \<Rightarrow> tx_error option \<times> 'd stateTransition" where
  "check_sender X st =
     (let msg = st_msg st
      in if SkipTransactionChecks msg then (None, st)
         else if st_IsOsaka X st \<and> msg_GasLimit msg > MaxTxGas then (Some ErrGasLimitTooHigh, st)
         else
           (let (code, db) = x_GetCode X (msg_From msg) (st_db st);
                st = st_map_db (\<lambda>_. db) st
            in (if length code > 0 \<and> ParseDelegation code = None then Some ErrSenderNoEOA else None, st)))"

text \<open>A length of more than 256 bits is a magnitude of at least \<open>2 ^ 256\<close>, a length of 0 the number 0.\<close>

definition check_fees :: "'d tx_env \<Rightarrow> 'd stateTransition \<Rightarrow> tx_error option outcome" where
  "check_fees X st =
     (if \<not> cfg_IsLondon (x_config X) (Some (BlockNumber (st_context st))) then Ret None
      else
        obind (of_option (msg_GasFeeCap (st_msg st))) (\<lambda>cap.
        obind (if NoBaseFee X \<and> cap = 0 then of_option (msg_GasTipCap (st_msg st)) else Ret 1) (\<lambda>tip.
          if NoBaseFee X \<and> cap = 0 \<and> tip = 0 then Ret None
          else if 2 ^ 256 \<le> \<bar>cap\<bar> then Ret (Some ErrFeeCapVeryHigh)
          else
            obind (of_option (msg_GasTipCap (st_msg st))) (\<lambda>tip.
              if 2 ^ 256 \<le> \<bar>tip\<bar> then Ret (Some ErrTipVeryHigh)
              else if cap < tip then Ret (Some ErrTipAboveFeeCap)
              else
                obind (of_option (BaseFee (st_context st))) (\<lambda>baseFee.
                  if cap < int baseFee then Ret (Some ErrFeeCapTooLow) else Ret None)))))"

definition IsValidVersionedHash :: "bytes \<Rightarrow> bool" where
  "IsValidVersionedHash h \<longleftrightarrow> length h = 32 \<and> h ! 0 = 1"

fun check_hashes :: "nat \<Rightarrow> Hash list \<Rightarrow> tx_error option" where
  "check_hashes i [] = None"
| "check_hashes i (h # hs) =
     (if \<not> IsValidVersionedHash (hash_bytes h) then Some (ErrBlobHashVersion i) else check_hashes (i + 1) hs)"

definition check_blob_hashes :: "'d tx_env \<Rightarrow> 'd stateTransition \<Rightarrow> tx_error option" where
  "check_blob_hashes X st =
     (let msg = st_msg st
      in case msg_BlobHashes msg of
           None \<Rightarrow> None
         | Some hs \<Rightarrow>
             if msg_To msg = None then Some ErrBlobTxCreate
             else if length hs = 0 then Some ErrMissingBlobHashes
             else if st_IsOsaka X st \<and> length hs > BlobTxMaxBlobs then Some ErrTooManyBlobs
             else check_hashes 0 hs)"

definition check_blob_fee :: "'d tx_env \<Rightarrow> 'd stateTransition \<Rightarrow> tx_error option outcome" where
  "check_blob_fee X st =
     (if st_IsCancun X st \<and> st_blobGasUsed st > 0 then
        obind (of_option (msg_BlobGasFeeCap (st_msg st))) (\<lambda>cap.
          if NoBaseFee X \<and> cap = 0 then Ret None
          else
            obind (of_option (BlobBaseFee (st_context st))) (\<lambda>blobFee.
              if cap < int blobFee then Ret (Some ErrBlobFeeCapTooLow) else Ret None))
      else Ret None)"

definition check_auth_list :: "Message \<Rightarrow> tx_error option" where
  "check_auth_list msg =
     (case msg_SetCodeAuthorizations msg of
        None \<Rightarrow> None
      | Some auths \<Rightarrow>
          if msg_To msg = None then Some ErrSetCodeTxCreate
          else if length auths = 0 then Some ErrEmptyAuthList
          else None)"

definition preCheck :: "'d tx_env \<Rightarrow> 'd stateTransition \<Rightarrow> ('d, unit) tx_result" where
  "preCheck X st =
     guard_tx (Ret (check_nonce X st)) st
       (let (e, st) = check_sender X st
        in guard_tx (Ret e) st
          (guard_tx (check_fees X st) st
          (guard_tx (Ret (check_blob_hashes X st)) st
          (guard_tx (check_blob_fee X st) st
          (guard_tx (Ret (check_auth_list (st_msg st))) st
          (buyGas X st))))))"

section \<open>Authorizations\<close>

definition Authority :: "'d tx_env \<Rightarrow> SetCodeAuthorization \<Rightarrow> Address option" where
  "Authority X a =
     (if \<not> ValidateSignatureValues (auth_V a) (unat (auth_R a)) (unat (auth_S a)) True then None
      else
        (case x_Ecrecover X (hash_bytes (x_SigHash X a)) (hash_bytes (auth_R a) @ hash_bytes (auth_S a) @ [auth_V a]) of
           None \<Rightarrow> None
         | Some pub \<Rightarrow>
             if length pub = 0 \<or> pub ! 0 \<noteq> 4 then None
             else Some (BytesToAddress (drop 12 (Keccak256 (x_env X) (drop 1 pub))))))"

definition validateAuthorization ::
  "'d tx_env \<Rightarrow> SetCodeAuthorization \<Rightarrow> 'd stateTransition \<Rightarrow> ('d, Address) tx_result" where
  "validateAuthorization X auth st =
     obind (if auth_ChainID auth = 0 then Ret False
            else map_outcome (\<lambda>id. unat (auth_ChainID auth) \<noteq> id) (of_option (cc_ChainID (x_config X)))) (\<lambda>wrong.
       if wrong then Ret (Inl ErrAuthorizationWrongChainID, st)
       else if auth_Nonce auth + 1 < auth_Nonce auth then Ret (Inl ErrAuthorizationNonceOverflow, st)
       else
         (case Authority X auth of
            None \<Rightarrow> Ret (Inl ErrAuthorizationInvalidSignature, st)
          | Some authority \<Rightarrow>
              (let st = st_map_db (AddAddressToAccessList (DB (x_env X)) authority) st;
                   (code, db) = x_GetCode X authority (st_db st);
                   st = st_map_db (\<lambda>_. db) st
               in if length code \<noteq> 0 \<and> ParseDelegation code = None then Ret (Inl ErrAuthorizationDestinationHasCode, st)
                  else if GetNonce (DB (x_env X)) (st_db st) authority \<noteq> auth_Nonce auth
                  then Ret (Inl ErrAuthorizationNonceMismatch, st)
                  else Ret (Inr authority, st))))"

definition applyAuthorization ::
  "'d tx_env \<Rightarrow> SetCodeAuthorization \<Rightarrow> 'd stateTransition \<Rightarrow> ('d, unit) tx_result" where
  "applyAuthorization X auth st =
     obind (validateAuthorization X auth st) (\<lambda>(r, st).
       (case r of
          Inl e \<Rightarrow> Ret (Inl e, st)
        | Inr authority \<Rightarrow>
            (let D = DB (x_env X);
                 st = (if Exist D (st_db st) authority then st_map_db (AddRefund D (CallNewAccountGas - TxAuthTupleGas)) st else st);
                 st = st_map_db (SetNonce D authority (auth_Nonce auth + 1)) st;
                 code = (if auth_Address auth = 0 then [] else AddressToDelegation (auth_Address auth))
             in Ret (Inr (), st_map_db (SetCode D authority code) st))))"

text \<open>The loop over the authorizations ignores their errors.\<close>

fun apply_authorizations ::
  "'d tx_env \<Rightarrow> SetCodeAuthorization list \<Rightarrow> 'd stateTransition \<Rightarrow> 'd stateTransition outcome" where
  "apply_authorizations X [] st = Ret st"
| "apply_authorizations X (auth # auths) st =
     obind (applyAuthorization X auth st) (\<lambda>(_, st). apply_authorizations X auths st)"

section \<open>Execution\<close>

definition tx_bind :: "('d, 'a) tx_result \<Rightarrow> ('a \<Rightarrow> 'd stateTransition \<Rightarrow> ('d, 'b) tx_result) \<Rightarrow> ('d, 'b) tx_result" where
  "tx_bind r f = obind r (\<lambda>(x, st). case x of Inl e \<Rightarrow> Ret (Inl e, st) | Inr a \<Rightarrow> f a st)"

text \<open>Clauses 4 and 5: the intrinsic gas is charged; the result is the floor of EIP-7623.\<close>

definition charge_intrinsic :: "'d tx_env \<Rightarrow> Rules \<Rightarrow> 'd stateTransition \<Rightarrow> (tx_error + u64) \<times> 'd stateTransition" where
  "charge_intrinsic X rules st =
     (let msg = st_msg st
      in case IntrinsicGas (msg_Data msg) (msg_AccessList msg) (msg_SetCodeAuthorizations msg) (msg_To msg = None)
                (IsHomestead rules) (IsIstanbul rules) (IsShanghai rules) of
           Inl e \<Rightarrow> (Inl e, st)
         | Inr gas \<Rightarrow>
             if gasRemaining st < gas then (Inl ErrIntrinsicGas, st)
             else
               (case if IsPrague rules then FloorDataGas (msg_Data msg) else Inr 0 of
                  Inl e \<Rightarrow> (Inl e, st)
                | Inr floorDataGas \<Rightarrow>
                    if IsPrague rules \<and> msg_GasLimit msg < floorDataGas then (Inl ErrFloorDataGas, st)
                    else (Inr floorDataGas, st\<lparr>gasRemaining := gasRemaining st - gas\<rparr>)))"

definition tx_access_events :: "'d tx_env \<Rightarrow> Rules \<Rightarrow> 'd stateTransition \<Rightarrow> 'd stateTransition" where
  "tx_access_events X rules st =
     (if \<not> IsEIP4762 rules then st
      else
        (let msg = st_msg st;
             ae = AddTxOrigin (msg_From msg) (accessEvents (st_evm st));
             ae = (case msg_To msg of
                     None \<Rightarrow> ae
                   | Some targetAddr \<Rightarrow>
                       AddTxDestination targetAddr (msg_Value msg \<noteq> 0) (\<not> Exist (DB (x_env X)) (st_db st) targetAddr) ae)
         in st\<lparr>st_evm := (st_evm st)\<lparr>accessEvents := ae\<rparr>\<rparr>))"

text \<open>Clause 6, the size of init code, and the preparation of the state; the result is the value to transfer.\<close>

definition prepare_message :: "'d tx_env \<Rightarrow> Rules \<Rightarrow> 'd stateTransition \<Rightarrow> ('d, u256) tx_result" where
  "prepare_message X rules st =
     (let msg = st_msg st; ctx = st_context st; (val, overflow) = FromBig (msg_Value msg)
      in if overflow then Ret (Inl ErrInsufficientFundsForTransfer, st)
         else if val \<noteq> 0 \<and> \<not> CanTransfer ctx (st_db st) (msg_From msg) val then Ret (Inl ErrInsufficientFundsForTransfer, st)
         else if IsShanghai rules \<and> msg_To msg = None \<and> length (msg_Data msg) > unat MaxInitCodeSize
         then Ret (Inl ErrMaxInitCodeSizeExceeded, st)
         else
           obind (of_option (x_Prepare X rules (msg_From msg) (Coinbase ctx) (msg_To msg) (ActivePrecompiles rules)
             (msg_AccessList msg) (st_db st))) (\<lambda>db. Ret (Inr val, st_map_db (\<lambda>_. db) st)))"

definition run_create :: "'d tx_env \<Rightarrow> u256 \<Rightarrow> 'd stateTransition \<Rightarrow> ((bytes \<times> evm_error option) \<times> 'd stateTransition) outcome" where
  "run_create X val st =
     obind (evm_Create (x_env X) (x_run X) (st_evm st) (msg_From (st_msg st)) (msg_Data (st_msg st)) (gasRemaining st) val)
       (\<lambda>((ret, _, gas, vmerr), m). Ret ((ret, vmerr), st\<lparr>gasRemaining := gas, st_evm := m\<rparr>))"

text \<open>What happens before the call of a message with a recipient.\<close>

definition before_call :: "'d tx_env \<Rightarrow> Address \<Rightarrow> 'd stateTransition \<Rightarrow> 'd stateTransition outcome" where
  "before_call X dst st =
     (let msg = st_msg st; D = DB (x_env X);
          st = st_map_db (SetNonce D (msg_From msg) (GetNonce D (st_db st) (msg_From msg) + 1)) st
      in obind (case msg_SetCodeAuthorizations msg of None \<Rightarrow> Ret st | Some auths \<Rightarrow> apply_authorizations X auths st) (\<lambda>st.
           (let (code, db) = x_GetCode X dst (st_db st);
                st = st_map_db (\<lambda>_. db) st
            in Ret (case ParseDelegation code of
                      None \<Rightarrow> st
                    | Some addr \<Rightarrow> st_map_db (AddAddressToAccessList D addr) st))))"

definition run_message :: "'d tx_env \<Rightarrow> u256 \<Rightarrow> 'd stateTransition \<Rightarrow> ((bytes \<times> evm_error option) \<times> 'd stateTransition) outcome" where
  "run_message X val st =
     (case msg_To (st_msg st) of
        None \<Rightarrow> run_create X val st
      | Some dst \<Rightarrow>
          obind (before_call X dst st) (\<lambda>st.
          obind (evm_Call (x_env X) (x_run X) (st_evm st) (msg_From (st_msg st)) (st_to st) (msg_Data (st_msg st)) (gasRemaining st) val)
            (\<lambda>((ret, gas, vmerr), m). Ret ((ret, vmerr), st\<lparr>gasRemaining := gas, st_evm := m\<rparr>))))"

definition calcRefund :: "'d tx_env \<Rightarrow> 'd stateTransition \<Rightarrow> u64" where
  "calcRefund X st =
     (let refund = (if \<not> cfg_IsLondon (x_config X) (Some (BlockNumber (st_context st))) then st_gasUsed st div 2 else st_gasUsed st div 5)
      in if refund > GetRefund (DB (x_env X)) (st_db st) then GetRefund (DB (x_env X)) (st_db st) else refund)"

text \<open>The refund and the floor; the result is the gas used before the refund, at least the floor.\<close>

definition refund_gas :: "'d tx_env \<Rightarrow> Rules \<Rightarrow> u64 \<Rightarrow> 'd stateTransition \<Rightarrow> u64 \<times> 'd stateTransition" where
  "refund_gas X rules floorDataGas st =
     (let peakGasUsed = st_gasUsed st;
          st = st\<lparr>gasRemaining := gasRemaining st + calcRefund X st\<rparr>
      in if IsPrague rules then
           (if peakGasUsed < floorDataGas then floorDataGas else peakGasUsed,
            if st_gasUsed st < floorDataGas then st\<lparr>gasRemaining := initialGas st - floorDataGas\<rparr> else st)
         else (peakGasUsed, st))"

definition st_returnGas :: "'d tx_env \<Rightarrow> 'd stateTransition \<Rightarrow> 'd stateTransition outcome" where
  "st_returnGas X st =
     obind (MustFromBig (msg_GasPrice (st_msg st))) (\<lambda>price.
       Ret (st_map_db (AddBalance (DB (x_env X)) (msg_From (st_msg st)) (ucast (gasRemaining st) * price)) st))"

definition return_to_pool :: "Rules \<Rightarrow> u64 \<Rightarrow> 'd stateTransition \<Rightarrow> tx_error option \<times> 'd stateTransition" where
  "return_to_pool rules peakGasUsed st =
     (let (e, gp) = ReturnGas (if IsAmsterdam rules then initialGas st - peakGasUsed else gasRemaining st) (st_gasUsed st) (st_gp st)
      in (e, st\<lparr>st_gp := gp\<rparr>))"

text \<open>The fee of the coinbase; nothing is paid for a simulated call without fees.\<close>

definition pay_coinbase :: "'d tx_env \<Rightarrow> Rules \<Rightarrow> 'd stateTransition \<Rightarrow> 'd stateTransition outcome" where
  "pay_coinbase X rules st =
     (let msg = st_msg st; ctx = st_context st
      in obind (if IsLondon rules then map_outcome (\<lambda>b. msg_GasPrice msg - int b) (of_option (BaseFee ctx)) else Ret (msg_GasPrice msg))
         (\<lambda>effectiveTip.
         obind (if NoBaseFee X then map_outcome (\<lambda>cap. cap = 0) (of_option (msg_GasFeeCap msg)) else Ret False) (\<lambda>nocap.
         obind (if nocap then map_outcome (\<lambda>tip. tip = 0) (of_option (msg_GasTipCap msg)) else Ret False) (\<lambda>skip.
           if skip then Ret st
           else
             (let fee = ucast (st_gasUsed st) * fst (FromBig effectiveTip);
                  st = st_map_db (AddBalance (DB (x_env X)) (Coinbase ctx) fee) st
              in if IsEIP4762 rules \<and> fee \<noteq> 0
                 then Ret (st\<lparr>st_evm := (st_evm st)\<lparr>accessEvents := snd (AddAccount (Coinbase ctx) True MaxUint64 (accessEvents (st_evm st)))\<rparr>\<rparr>)
                 else Ret st)))))"

text \<open>From the end of the call on.\<close>

definition settle ::
  "'d tx_env \<Rightarrow> Rules \<Rightarrow> u64 \<Rightarrow> bytes \<Rightarrow> evm_error option \<Rightarrow> 'd stateTransition \<Rightarrow> ('d, ExecutionResult) tx_result" where
  "settle X rules floorDataGas ret vmerr st =
     (let (peakGasUsed, st) = refund_gas X rules floorDataGas st
      in obind (st_returnGas X st) (\<lambda>st.
           (case return_to_pool rules peakGasUsed st of
              (Some e, st) \<Rightarrow> Ret (Inl e, st)
            | (None, st) \<Rightarrow>
                obind (pay_coinbase X rules st) (\<lambda>st.
                  Ret (Inr \<lparr>UsedGas = st_gasUsed st, MaxUsedGas = peakGasUsed, Err = vmerr, ReturnData = ret\<rparr>, st)))))"

definition tx_execute :: "'d tx_env \<Rightarrow> 'd stateTransition \<Rightarrow> ('d, ExecutionResult) tx_result" where
  "tx_execute X st =
     tx_bind (preCheck X st) (\<lambda>_ st.
       (let rules = st_rules X st
        in tx_bind (Ret (charge_intrinsic X rules st)) (\<lambda>floorDataGas st.
           tx_bind (prepare_message X rules (tx_access_events X rules st)) (\<lambda>val st.
           obind (run_message X val st) (\<lambda>((ret, vmerr), st).
             settle X rules floorDataGas ret vmerr st)))))"

text \<open>
  \<open>ApplyMessage\<close>; no pool is given for a single message of an RPC call. The result has the machine and the pool.
\<close>

definition NewEVMTxContext :: "Message \<Rightarrow> 'd EVM \<Rightarrow> 'd EVM outcome" where
  "NewEVMTxContext msg m =
     obind (MustFromBig (msg_GasPrice msg)) (\<lambda>price. Ret (SetTxContext (msg_From msg) price (blob_hashes msg) m))"

definition ApplyMessage ::
  "'d tx_env \<Rightarrow> 'd EVM \<Rightarrow> Message \<Rightarrow> GasPool option \<Rightarrow> ('d, ExecutionResult) tx_result" where
  "ApplyMessage X m msg gp =
     (let gp = (case gp of None \<Rightarrow> NewGasPool (msg_GasLimit msg) | Some gp \<Rightarrow> gp)
      in obind (NewEVMTxContext msg m) (\<lambda>m. tx_execute X (newStateTransition m msg gp)))"

end
