(* ===== verification/Tx_Gas.thy ===== *)
theory Tx_Gas
  imports Tx_Transition Evm_Correct
begin

text \<open>
  Gas accounting of a message (\<open>Tx_Transition\<close>), for any state database: what the phases of \<open>tx_execute\<close> leave alone, the exact
  intrinsic gas, and what is used, returned and added up.
\<close>

section \<open>Sequencing\<close>

lemma map_outcome_Ret [simp]: "map_outcome f x = Ret b \<longleftrightarrow> (\<exists>a. x = Ret a \<and> b = f a)"
  by (cases x) auto

lemma tx_bind_Ret:
  "tx_bind r f = Ret (y, st') \<longleftrightarrow>
     (\<exists>e. r = Ret (Inl e, st') \<and> y = Inl e) \<or> (\<exists>a st. r = Ret (Inr a, st) \<and> f a st = Ret (y, st'))"
  by (auto simp: tx_bind_def obind_eq_Ret split: sum.splits) (metis old.sum.exhaust)+

lemma tx_bind_Inr: "tx_bind r f = Ret (Inr y, st') \<longleftrightarrow> (\<exists>a st. r = Ret (Inr a, st) \<and> f a st = Ret (Inr y, st'))"
  by (auto simp: tx_bind_Ret)

lemma guard_tx_Ret:
  "guard_tx c st k = Ret (y, st') \<longleftrightarrow>
     (\<exists>e. c = Ret (Some e) \<and> y = Inl e \<and> st' = st) \<or> (c = Ret None \<and> k = Ret (y, st'))"
  by (auto simp: guard_tx_def obind_eq_Ret split: option.splits)

lemma of_option_Ret [simp]: "of_option p = Ret a \<longleftrightarrow> p = Some a"
  by (cases p) auto

section \<open>What the phases leave alone\<close>

text \<open>The same message, pool and gas; the machine is left as an instruction leaves it.\<close>

definition same_tx :: "'d stateTransition \<Rightarrow> 'd stateTransition \<Rightarrow> bool" where
  "same_tx st st' \<longleftrightarrow> st_gp st' = st_gp st \<and> st_msg st' = st_msg st \<and> gasRemaining st' = gasRemaining st \<and>
     initialGas st' = initialGas st \<and> stable (st_evm st) (st_evm st')"

lemma same_tx_refl [simp]: "same_tx st st" by (simp add: same_tx_def)

lemma same_tx_db [simp]: "same_tx st (st\<lparr>st_evm := (st_evm st)\<lparr>statedb := db\<rparr>\<rparr>)" by (simp add: same_tx_def stable_iff)


lemma same_tx_sels:
  assumes "same_tx st st'"
  shows "st_gp st' = st_gp st" "st_msg st' = st_msg st" "gasRemaining st' = gasRemaining st" "initialGas st' = initialGas st"
    "st_context st' = st_context st" "chainRules (st_evm st') = chainRules (st_evm st)" "depth (st_evm st') = depth (st_evm st)"
  using assms by (auto simp: same_tx_def stable_iff)












section \<open>The phases of a message\<close>

definition bought :: "'d tx_env \<Rightarrow> int \<Rightarrow> 'd stateTransition \<Rightarrow> 'd stateTransition" where
  "bought X mgval st =
     st_map_db (SubBalance (DB (x_env X)) (msg_From (st_msg st)) (of_int mgval))
       (st\<lparr>st_gp := (st_gp st)\<lparr>gp_remaining := gp_remaining (st_gp st) - msg_GasLimit (st_msg st)\<rparr>,
           gasRemaining := msg_GasLimit (st_msg st), initialGas := msg_GasLimit (st_msg st)\<rparr>)"

lemma buyGas_Ret:
  "buyGas X st = Ret (r, st') \<longleftrightarrow> (\<exists>mgval want. gas_costs X st = Ret (mgval, want) \<and>
     (if 2 ^ 256 \<le> \<bar>want\<bar> \<or> GetBalance (DB (x_env X)) (st_db st) (msg_From (st_msg st)) < of_int want then r = Inl ErrInsufficientFunds \<and> st' = st
      else if gp_remaining (st_gp st) < msg_GasLimit (st_msg st) then r = Inl ErrGasLimitReached \<and> st' = st
      else r = Inr () \<and> st' = bought X mgval st))"
  unfolding buyGas_def by (auto simp: obind_eq_Ret FromBig_def SubGas_def bought_def Let_def)



lemma preCheck_error:
  assumes "preCheck X st = Ret (Inl e, st')"
  shows "st' = st \<or> (\<exists>e. check_sender X st = (e, st'))"
proof -
  obtain e1 st1 where s: "check_sender X st = (e1, st1)" by fastforce
  from assms s have "st' = st \<or> st' = st1"
    by (auto simp: preCheck_def guard_tx_Ret buyGas_Ret split: if_splits)
  with s show ?thesis by blast
qed






section \<open>Settling the gas\<close>









section \<open>The whole message\<close>





lemma MaxUint64_minus: "unat (MaxUint64 - x) = 2 ^ 64 - 1 - unat x"
proof -
  have "x \<le> MaxUint64" by (simp add: MaxUint64_def)
  then show ?thesis by (simp add: unat_sub word_le_nat_alt unat_MaxUint64)
qed






section \<open>Intrinsic gas\<close>

lemma add_units_eq:
  assumes "0 < unat price"
  shows "add_units n price gas = (if 2 ^ 64 \<le> unat gas + unat n * unat price then Inl ErrGasUintOverflow else Inr (gas + n * price))"
proof -
  have "(MaxUint64 - gas) div price < n \<longleftrightarrow> \<not> unat n \<le> (2 ^ 64 - 1 - unat gas) div unat price"
    by (simp add: word_less_nat_alt unat_div MaxUint64_minus not_le)
  also have "\<dots> \<longleftrightarrow> \<not> unat n * unat price \<le> 2 ^ 64 - 1 - unat gas"
    using assms by (simp add: less_eq_div_iff_mult_less_eq)
  also have "\<dots> \<longleftrightarrow> 2 ^ 64 \<le> unat gas + unat n * unat price"
  proof -
    have "unat gas < 2 ^ 64" using unsigned_less [of gas] by simp
    then show ?thesis by linarith
  qed
  finally show ?thesis by (simp add: add_units_def)
qed

lemma add_units_unat:
  assumes "0 < unat price" and "unat gas = g" and "unat n = k"
  shows "add_units n price gas = (if 2 ^ 64 \<le> g + k * unat price then Inl ErrGasUintOverflow else Inr (of_nat (g + k * unat price)))"
proof -
  have "gas + n * price = of_nat (g + k * unat price)" by (simp add: assms(2,3) [symmetric])
  then show ?thesis unfolding add_units_eq [OF assms(1)] assms(2,3) by simp
qed

text \<open>The formula of the protocol: a base, the bytes of the data, the words of init code, and the lists.\<close>

definition zeros :: "bytes \<Rightarrow> nat" where
  "zeros data = length (filter (\<lambda>b. b = 0) data)"

definition data_cost :: "bytes \<Rightarrow> bool \<Rightarrow> bool \<Rightarrow> bool \<Rightarrow> bool \<Rightarrow> nat" where
  "data_cost data create homestead eip2028 eip3860 =
     (if create \<and> homestead then 53000 else 21000) + (length data - zeros data) * (if eip2028 then 16 else 68) + zeros data * 4 +
     (if create \<and> eip3860 then (length data + 31) div 32 * 2 else 0)"

definition list_cost :: "AccessList \<Rightarrow> SetCodeAuthorization list option \<Rightarrow> nat" where
  "list_cost al auths =
     length al * 2400 + sum_list (map (\<lambda>(_, keys). length keys) al) * 1900 + (case auths of None \<Rightarrow> 0 | Some as \<Rightarrow> length as * 25000)"

lemma zeros_le: "zeros data \<le> length data"
  by (simp add: zeros_def)

lemma data_gas_eq:
  assumes "length data < 2 ^ 64" and "unat gas = (if create \<and> homestead then 53000 else 21000)"
  shows "data_gas data create eip2028 eip3860 gas =
    (if 2 ^ 64 \<le> data_cost data create homestead eip2028 eip3860 then Inl ErrGasUintOverflow
     else Inr (of_nat (data_cost data create homestead eip2028 eip3860)))"
proof -
  define b :: nat where "b = (if create \<and> homestead then 53000 else 21000)"
  define p :: nat where "p = (if eip2028 then 16 else 68)"
  define price :: u64 where "price = (if eip2028 then 16 else 68)"
  let ?z = "of_nat (zeros data) :: u64" and ?len = "of_nat (length data) :: u64"
  have z: "unat ?z = zeros data" and len: "unat ?len = length data" using assms(1) zeros_le [of data] by (simp_all add: unat_of_nat)
  have nz: "unat (?len - ?z) = length data - zeros data"
    using zeros_le [of data] z len by (simp add: unat_sub word_le_nat_alt)
  have price: "unat price = p" "0 < unat price" by (simp_all add: price_def p_def)
  define g1 where "g1 = b + (length data - zeros data) * p"
  define g2 where "g2 = g1 + zeros data * 4"
  have s1: "add_units (?len - ?z) price gas = (if 2 ^ 64 \<le> g1 then Inl ErrGasUintOverflow else Inr (of_nat g1))"
    using add_units_unat [OF price(2) assms(2) nz] unfolding price(1) g1_def b_def by simp
  have s2: "add_units ?z 4 (of_nat g1) = (if 2 ^ 64 \<le> g2 then Inl ErrGasUintOverflow else Inr (of_nat g2))" if "g1 < 2 ^ 64"
    using add_units_unat [of 4 "of_nat g1" g1 ?z "zeros data"] z that by (simp add: unat_of_nat g2_def)
  have w: "unat (core_toWordSize ?len) = (length data + 31) div 32"
    using toWordSize_eq [of ?len] len by (simp add: core_toWordSize_def toWordSize_def)
  define words where "words = (length data + 31) div 32"
  have s3: "add_units (core_toWordSize ?len) 2 (of_nat g2) =
      (if 2 ^ 64 \<le> g2 + words * 2 then Inl ErrGasUintOverflow else Inr (of_nat (g2 + words * 2)))" if "g2 < 2 ^ 64"
    using add_units_unat [of 2 "of_nat g2" g2 "core_toWordSize ?len" words] w that by (simp add: unat_of_nat words_def)
  have eq: "data_cost data create homestead eip2028 eip3860 = g2 + (if create \<and> eip3860 then words * 2 else 0)"
    by (simp add: data_cost_def g2_def g1_def b_def p_def words_def)
  have "data_gas data create eip2028 eip3860 gas =
      sum_bind (add_units (?len - ?z) price gas) (\<lambda>gas. sum_bind (add_units ?z 4 gas) (\<lambda>gas.
        if create \<and> eip3860 then add_units (core_toWordSize ?len) 2 gas else Inr gas))"
    by (simp add: data_gas_def zeros_def price_def Let_def)
  also have "\<dots> = (if 2 ^ 64 \<le> data_cost data create homestead eip2028 eip3860 then Inl ErrGasUintOverflow
     else Inr (of_nat (data_cost data create homestead eip2028 eip3860)))"
  proof (cases "2 ^ 64 \<le> g1")
    case True
    then have "2 ^ 64 \<le> data_cost data create homestead eip2028 eip3860" unfolding eq g2_def by linarith
    with True show ?thesis unfolding s1 by (simp add: sum_bind_def)
  next
    case g1: False
    show ?thesis
    proof (cases "2 ^ 64 \<le> g2")
      case True
      then have "2 ^ 64 \<le> data_cost data create homestead eip2028 eip3860" unfolding eq by linarith
      with True g1 s2 show ?thesis unfolding s1 by (simp add: sum_bind_def)
    next
      case False
      then show ?thesis using g1 s2 s3 unfolding s1 eq by (simp add: sum_bind_def)
    qed
  qed
  finally show ?thesis .
qed

text \<open>
  C39. The intrinsic gas of a message is the formula of the protocol whenever that is below \<open>2 ^ 64\<close>; when the part for the data alone passes
  64 bits the computation reports the overflow instead of wrapping (the part for the access and authorization lists is added unchecked).
\<close>

theorem IntrinsicGas_exact:
  assumes "length data < 2 ^ 64"
  shows "IntrinsicGas data al auths create homestead eip2028 eip3860 =
    (if data \<noteq> [] \<and> 2 ^ 64 \<le> data_cost data create homestead eip2028 eip3860 then Inl ErrGasUintOverflow
     else Inr (of_nat (data_cost data create homestead eip2028 eip3860 + list_cost al auths)))"
proof -
  let ?b = "if create \<and> homestead then 53000 else 21000 :: u64"
  have b: "unat ?b = (if create \<and> homestead then 53000 else 21000)" by simp
  have lists: "(case auths of None \<Rightarrow> of_nat g + of_nat (length al) * 2400 + of_nat (StorageKeys al) * 1900
      | Some as \<Rightarrow> of_nat g + of_nat (length al) * 2400 + of_nat (StorageKeys al) * 1900 + of_nat (length as) * 25000) =
      (of_nat (g + list_cost al auths) :: u64)" for g
    by (cases auths) (simp_all add: list_cost_def StorageKeys_def)
  show ?thesis
  proof (cases "data = []")
    case True
    have "?b = of_nat (data_cost [] create homestead eip2028 eip3860)" by (simp add: data_cost_def zeros_def)
    then show ?thesis using lists [of "data_cost [] create homestead eip2028 eip3860"] True
      by (simp add: IntrinsicGas_def sum_bind_def Let_def del: of_nat_add)
  next
    case False
    then show ?thesis
      using lists [of "data_cost data create homestead eip2028 eip3860"] data_gas_eq [OF assms b, of eip2028 eip3860]
      by (simp add: IntrinsicGas_def sum_bind_def Let_def del: of_nat_add)
  qed
qed

theorem IntrinsicGas_exact_witness:
  "IntrinsicGas [0, 1, 2] [(7, [1, 2])] None False True True True = Inr 27236"
  using IntrinsicGas_exact [of "[0, 1, 2]" "[(7, [1, 2])]" None False True True True]
  by (simp add: data_cost_def list_cost_def zeros_def)

section \<open>The account of a message\<close>




definition plain_message :: Message where
  "plain_message =
     \<lparr>msg_To = Some 5, msg_From = 9, msg_Nonce = 0, msg_Value = 0, msg_GasLimit = 30000, msg_GasPrice = 0, msg_GasFeeCap = None,
      msg_GasTipCap = None, msg_Data = [], msg_AccessList = [], msg_BlobGasFeeCap = None, msg_BlobHashes = None,
      msg_SetCodeAuthorizations = None, SkipNonceChecks = False, SkipTransactionChecks = False\<rparr>"

lemma plain_message_sels [simp]:
  "msg_To plain_message = Some 5" "msg_From plain_message = 9" "msg_Nonce plain_message = 0" "msg_Value plain_message = 0"
  "msg_GasLimit plain_message = 30000" "msg_GasPrice plain_message = 0" "msg_GasFeeCap plain_message = None" "msg_Data plain_message = []"
  "msg_AccessList plain_message = []" "msg_BlobHashes plain_message = None" "msg_SetCodeAuthorizations plain_message = None"
  "\<not> SkipNonceChecks plain_message" "\<not> SkipTransactionChecks plain_message" "blob_hashes plain_message = []"
  by (simp_all add: plain_message_def blob_hashes_def)







section \<open>Every message comes to an end\<close>



lemma no_fuel [simp]: "of_option p \<noteq> OutOfFuel" "map_outcome f x = OutOfFuel \<longleftrightarrow> x = OutOfFuel" "MustFromBig b \<noteq> OutOfFuel"
  by (cases p, simp_all) (cases x, simp_all add: MustFromBig_def FromBig_def)













end
