(* ===== verification/Tx_Ledger.thy ===== *)
theory Tx_Ledger
  imports Tx_Gas State_Correct
begin

text \<open>
  What a message does to balances and nonces on the state database: gas is bought from the sender, what is left is
  given back, the fee goes to the coinbase, and in between the machine keeps the books (\<open>State_Ledger\<close>). Nonces only
  grow, and the nonce of the sender strictly.
\<close>

section \<open>Creation after its nonce\<close>

context journaled
begin

lemma evm_create_next:
  assumes run: "run_ev run" and res: "evm_create E run m clr code gas val addr = Ret (x, m')"
    and ctx: "C (Context m)" and inv: "I (statedb m)" and depth: "\<not> depth m > CallCreateDepth"
    and can: "CanTransfer (Context m) (statedb m) clr val" and nonce: "\<not> GetNonce (DB E) (statedb m) clr + 1 < GetNonce (DB E) (statedb m) clr"
  shows "R (SetNonce (DB E) clr (GetNonce (DB E) (statedb m) clr + 1) (statedb m)) (statedb m')"
proof -
  let ?d1 = "SetNonce (DB E) clr (GetNonce (DB E) (statedb m) clr + 1) (statedb m)"
  let ?m1 = "m\<lparr>statedb := ?d1\<rparr>"
  have i1: "I ?d1" by (rule R_I [OF R_NextNonce [OF nonce] inv])
  have may: "M ?d1 clr val" "M (AddAddressToAccessList (DB E) addr ?d1) clr val"
  proof -
    show "M ?d1 clr val" using M_SetNonce [OF inv M_Transfer [OF ctx inv]] can by blast
    then show "M (AddAddressToAccessList (DB E) addr ?d1) clr val" by (rule M_AddAddress [OF i1])
  qed
  have cb: "R ?d1 (statedb m')"
    if "create_body E run m2 clr code g val addr = Ret (x, m')" and "\<not> collides E (statedb m2) addr" and "evolves ?m1 m2"
      and "M (statedb m2) clr val" for m2 g
  proof -
    have c: "Context m2 = Context m" using that(3) by (simp add: evolves_def)
    have "create_ev m2 (create_body E run m2 clr code g val addr)"
      by (rule create_body_ev [OF run S_empty]) (use that(2,4) in \<open>auto simp: collides_def Let_def\<close>)
    with that(1) have "evolves m2 m'" by (cases x) (simp add: create_ev_def)
    from evolves_trans [OF that(3) this] ctx show ?thesis by (simp add: evolves_def)
  qed
  show ?thesis
    using res depth can nonce may unfolding evm_create_def Let_def
    by (auto split: prod.splits if_splits intro!: cb simp: evolves_def)
qed

end

section \<open>Keeping the books across the unjournaled steps\<close>


text \<open>
  As \<open>ledger\<close>, but without the promise that a revert restores the earlier state: the access list is replaced when a message starts,
  and code that is missing from the disk may be set.
\<close>

definition keeps_books :: "(bytes \<Rightarrow> bytes) \<Rightarrow> 't state_db \<Rightarrow> 't state_db \<Rightarrow> bool" where
  "keeps_books K s s' \<longleftrightarrow> (sdb_inv K s \<longrightarrow>
     sdb_inv K s' \<and> (ether_supply (world K s) < 2 ^ 256 \<longrightarrow> ether_supply (world K s') \<le> ether_supply (world K s)) \<and>
     (\<forall>a. nonce_of (world K s) a \<le> nonce_of (world K s') a))"

lemma keeps_books_refl [simp]: "keeps_books K s s"
  by (simp add: keeps_books_def)








section \<open>Authorizations and calls\<close>









section \<open>From the checks to the machine\<close>



section \<open>Settling the balances\<close>




section \<open>Nonces and ether\<close>








section \<open>A message on a concrete database\<close>

text \<open>A call of a precompiled contract that returns its input, in a chain with no fork.\<close>

definition echo :: PrecompiledContract where
  "echo = \<lparr>RequiredGas = (\<lambda>_. Some 0), Run = (\<lambda>input. Some (Inr input)), Name = ''ECHO''\<rparr>"


definition one_machine :: "unit state_db EVM" where
  "one_machine =
     (one_evm store_fail)\<lparr>Context := (Context (one_evm store_fail))\<lparr>Random := None\<rparr>, precompiles := (\<lambda>a. if a = 5 then Some echo else None)\<rparr>"



lemma one_machine_sels [simp]: "statedb one_machine = one_db store_fail" "precompiles one_machine 5 = Some echo"
  "core_context two_hash (Context one_machine)" "chainRules one_machine = frontier_rules"
  by (simp_all add: one_machine_def core_context_def core_transfers_def)








end
