(* ===== verification/Spec2Isabelle.thy ===== *)
theory Spec2Isabelle
  imports Merkle Committer_Correct Groth16_Correct Precompiles_Correct Lru Clique_Votes Clique_Recents Clique_Correct Evm_Prices Evm_Stipend State_Correct Config_Check Tx_Ledger
begin

text \<open>
  Verification of H-ZKA, a cross-chain audit system: a relay service commits the state roots of ordinary
  chains to an audit chain (\<^verbatim>\<open>src/HZKA/relay\<close>), the audit chain is a go-ethereum client
  (\<^verbatim>\<open>src/go-ethereum\<close>) with a Groth16 verifier added as a precompiled contract, run as a
  proof-of-authority network by the Clique engine.

  \<^bold>\<open>How the parts interact.\<close> The committer polls each ordinary chain, reads every new block, builds the public
  inputs of the audit circuit and sends a commit transaction to the audit contract; a committer
  configured as an inner node of the aggregation tree instead hashes the latest roots of its
  children into a Merkle root and commits that. Receivers of a cross-chain transfer check SPV proofs
  against such roots. The audit contract verifies proofs through the precompile at address 0x20.
  Blocks of the audit chain are sealed by the authorised signers of Clique, which vote on their
  own membership.

  \<^bold>\<open>Theories.\<close>
  \<^item> \<open>Prelude\<close>: words, big-endian bytes, slices, the result and input/output types the components share.
  \<^item> \<open>Chain_Types\<close>: hashes, addresses, headers and transactions (\<^verbatim>\<open>common\<close>, \<^verbatim>\<open>core/types\<close>).
  \<^item> \<open>Chain_Config\<close>, \<open>Config_Check\<close>, \<open>Blob_Fee\<close>: the chain configuration with its fork predicates and rules, the checks of a
    configuration and of a change to it (\<^verbatim>\<open>params/config.go\<close>), the blob fee market (\<^verbatim>\<open>consensus/misc/eip4844\<close>). An
    ordered configuration gives cumulative rules; a compatible one keeps the rules of past blocks, but for Petersburg;
    the blob fee is a lower approximation of an exponential.
  \<^item> \<open>Merkle\<close>: \<^verbatim>\<open>computeRootHash\<close> and \<^verbatim>\<open>VerifySPV\<close> of the relay, over an arbitrary hash function.
    The loops compute the root of a perfect binary tree over the zero-padded leaves; authentication
    paths verify; accepted paths prove membership or exhibit a collision; the root does not commit
    to the number of leaves.
  \<^item> \<open>Committer\<close>, \<open>Committer_Correct\<close>: \<^verbatim>\<open>relay/committer.go\<close>. Its state is the record \<open>Committer\<close>;
    calls to nodes are functions on an abstract world that may fail. The polling loop processes
    blocks in order and stops in front of the first that fails; what a successful commit sent is
    characterised byte by byte.
  \<^item> \<open>Vm_Common\<close>, \<open>Bn256\<close>, \<open>Groth16\<close>, \<open>Groth16_Correct\<close>: the verifier precompile
    (\<^verbatim>\<open>core/vm/groth16_verify.go\<close>, and the version shipped in \<^verbatim>\<open>HZKA/geth-patch\<close>) over the
    curve wrappers of \<^verbatim>\<open>crypto/bn256/gnark\<close>. It decides exactly the pairing equation of the
    instance its input encodes.
  \<^item> \<open>Bls12381\<close>, \<open>Precompiles\<close>, \<open>Precompiles_Correct\<close>: every other precompiled contract, the tables of each
    fork and the dispatcher (\<^verbatim>\<open>core/vm/contracts.go\<close>). No contract panics, gas only decreases.
  \<^item> \<open>Lru\<close>: the cache of \<^verbatim>\<open>common/lru/basiclru.go\<close>, with the interface its clients use.
  \<^item> \<open>Clique_Snapshot\<close>, \<open>Clique_Votes\<close>, \<open>Clique_Recents\<close>: \<^verbatim>\<open>consensus/clique/snapshot.go\<close>. The tally
    equals the recorded votes, the signers change only by a majority, exactly one signer is in turn,
    the recent signers stay in their window, and the two places that check it agree from block
    \<open>limit\<close> on.
  \<^item> \<open>Clique\<close>, \<open>Clique_Correct\<close>: \<^verbatim>\<open>consensus/clique/clique.go\<close> with the gas and fee rules it calls.
    Verification is total and accepts only headers that meet the rules; the snapshot search ends;
    the signature cache is transparent; prepared headers meet the rules.
  \<^item> \<open>Evm_Base\<close>, \<open>Evm_Analysis\<close>, \<open>Access_Events\<close>, \<open>Evm_State\<close>, \<open>Evm_Gas\<close>, \<open>Evm_Ops\<close>, \<open>Evm_Tables\<close>, \<open>Evm_Run\<close>: the
    virtual machine (\<^verbatim>\<open>core/vm\<close>): stack, memory and contract of a frame, jump-destination analysis, the witness
    charges of EIP-4762, the methods of the state database the machine calls (the record \<open>StateDB\<close>), every gas
    function and instruction, the jump table of every fork, the interpreter loop and the six entry points.
  \<^item> \<open>Evm_Termination\<close>, \<open>Evm_Tables_Good\<close>, \<open>Evm_Gas_Bound\<close>, \<open>Evm_Correct\<close>: every instruction that does not halt costs
    gas, so every entry point returns, with no more gas than it got and the machine in the mode it was called in;
    deployed code obeys the rules on code. \<open>Evm_Prices\<close> compares prices, jump destinations and tables with the
    formulas of the protocol; \<open>Evm_Stipend\<close> shows where EIP-4762 breaks the bound.
  \<^item> \<open>State_Access\<close>, \<open>State_DB\<close>: access list, transient storage, state objects, journal and state database
    (\<^verbatim>\<open>core/state\<close>). \<open>State_Journal\<close> and \<open>State_Revert\<close> show that every operation extends the journal so
    that undoing the new entries restores the world; \<open>State_Spec\<close> that the database refines a specification whose
    snapshots are saved copies of the world; \<open>State_Final\<close> what the end of a transaction does; \<open>State_Warm\<close> what
    an access list means and what \<open>Prepare\<close> warms; \<open>State_Ledger\<close> how each operation changes balances and nonces.
  \<^item> \<open>Evm_Journal\<close>, \<open>State_Machine\<close>, \<open>State_Correct\<close>: what the machine relies on in a database with snapshots, that
    the state database provides it, and that a failed call gives back the world it started from, and no call creates
    ether or lowers a nonce.
  \<^item> \<open>Tx_Transition\<close>, \<open>Tx_Gas\<close>, \<open>Tx_Ledger\<close>: applying a message to the state (\<^verbatim>\<open>core/state_transition.go\<close>,
    \<^verbatim>\<open>core/gaspool.go\<close>) on top of the machine and the state database. It ends, its gas adds up with the pool of the
    block, a nonce is used once, and the fees of the protocol are burnt.

  \<^bold>\<open>Conventions.\<close> 64-bit and 256-bit integers are words and wrap; big integers are \<open>nat\<close> or \<open>int\<close>. \<open>None\<close> is a
  run-time panic or a loop that does not end; \<open>Inl\<close> an error value; the virtual machine has the type \<open>outcome\<close> with
  \<open>Ret\<close>, \<open>Panic\<close> and \<open>OutOfFuel\<close>. Loops that may not end (\<open>process_range\<close>, \<open>find_snapshot\<close>) are partial functions into
  \<open>option\<close>, and that they return is proved, not assumed. The interpreter loop runs with fuel, one more step than the
  gas of the frame, and at most 1025 nested frames (the depth limit of the code is 1024); \<open>entry_points_return\<close> shows
  that neither bound is hit without EIP-4762. Maps of the state database are association lists, since \<open>Finalise\<close> and
  \<open>Copy\<close> iterate over them. A query of the database fills caches; the machine's view of the database
  (\<open>sdb_methods\<close>) drops that, since no query can see it (\<open>queries_spec\<close>). Locks are left out: the operations they
  guard are single steps. Code outside the repository (hashing, signatures, curve arithmetic, pairings, 256-bit
  arithmetic, RLP, JSON, the database, remote nodes) is a parameter of the definitions; where a theorem needs a
  law of it, the law is a named hypothesis, and its witness supplies an implementation that satisfies it.

  \<^bold>\<open>Interfaces.\<close> The locales \<open>lru_cache\<close>, \<open>precompiled_contract\<close> and \<open>chain_data_source\<close> (the relay) state what a
  client may rely on. \<open>call_interface\<close> is what an instruction relies on when it enters a frame, \<open>frame_runner\<close> what the
  entry points rely on in the interpreter; they are interpreted on each other, level by level of nesting.
  \<open>journaled\<close> is what the machine relies on in the state database, interpreted for what a revert undoes (\<open>sdb\<close>) and for
  the sums of balances (\<open>books\<close>). Each is interpreted on the definitions of the model.

  \<^bold>\<open>Not modelled.\<close> The Solidity contracts, the circuits and the scripts around them; tries, the computation of
  state roots and commits to disk, prefetching, witnesses, metrics and tracing; the transaction pool, networking,
  RPC, accounts and command lines of the client; the vendored Solidity compiler; log output.

  \<^bold>\<open>Plan.\<close> Next come the processing of a block (\<^verbatim>\<open>core/state_processor.go\<close>) and the Merkle-Patricia trie (\<^verbatim>\<open>trie\<close>).
\<close>

end
